(* ===== verification/Prelude.thy ===== *)
theory Prelude
  imports Main "HOL-Library.Sublist" "HOL-Library.Char_ord" "HOL-Library.List_Lexorder"
begin

text \<open>
  Shared vocabulary of the development: the part of Go's standard library the
  program uses on strings and integers, written as executable functions, and the
  generic lemmas about them.

  A Go string is a list of characters (one per byte).  A Go \<^verbatim>\<open>int\<close> is an
  \<^typ>\<open>int\<close>; where the program does 64-bit arithmetic that can overflow the
  wrap-around is written out with \<open>wrap64\<close>.  \<^verbatim>\<open>strings.Fields\<close> and
  \<^verbatim>\<open>strings.TrimSpace\<close> are modelled on the ASCII white space.
\<close>

named_theorems gostr_simps \<open>evaluation rules of the string functions\<close>
named_theorems nochar \<open>characters that do not occur in a printed value\<close>

section \<open>Results and integers\<close>

type_synonym ('e, 'a) result = "'e + 'a"

definition wrap64 :: "int \<Rightarrow> int" where
  "wrap64 n = (n + 2 ^ 63) mod 2 ^ 64 - 2 ^ 63"

text \<open>Go's division of integers truncates towards zero.\<close>

definition go_quot :: "int \<Rightarrow> int \<Rightarrow> int" where
  "go_quot a b = sgn a * sgn b * (\<bar>a\<bar> div \<bar>b\<bar>)"

definition max_int64 :: int where
  "max_int64 = 2 ^ 63 - 1"

definition min_int64 :: int where
  "min_int64 = - (2 ^ 63)"

section \<open>Package strings\<close>

definition has_prefix :: "string \<Rightarrow> string \<Rightarrow> bool" where
  "has_prefix s p \<longleftrightarrow> take (length p) s = p"

definition has_suffix :: "string \<Rightarrow> string \<Rightarrow> bool" where
  "has_suffix s p \<longleftrightarrow> has_prefix (rev s) (rev p)"

definition trim_prefix :: "string \<Rightarrow> string \<Rightarrow> string" where
  "trim_prefix s p = (if has_prefix s p then drop (length p) s else s)"

definition trim_suffix :: "string \<Rightarrow> string \<Rightarrow> string" where
  "trim_suffix s p = (if has_suffix s p then take (length s - length p) s else s)"

text \<open>\<^verbatim>\<open>strings.Index\<close>: the position of the first occurrence, \<^term>\<open>None\<close> for -1.\<close>

fun str_index :: "string \<Rightarrow> string \<Rightarrow> nat option" where
  "str_index [] sub = (if sub = [] then Some 0 else None)"
| "str_index (c # cs) sub =
     (if has_prefix (c # cs) sub then Some 0 else map_option Suc (str_index cs sub))"

definition contains_str :: "string \<Rightarrow> string \<Rightarrow> bool" where
  "contains_str s sub \<longleftrightarrow> str_index s sub \<noteq> None"

fun index_char :: "char \<Rightarrow> string \<Rightarrow> nat option" where
  "index_char c [] = None"
| "index_char c (x # xs) = (if x = c then Some 0 else map_option Suc (index_char c xs))"

definition last_index_char :: "char \<Rightarrow> string \<Rightarrow> nat option" where
  "last_index_char c s = map_option (\<lambda>i. length s - 1 - i) (index_char c (rev s))"

text \<open>The part before, and the part after, the first occurrence of a character.\<close>

definition before_char :: "char \<Rightarrow> string \<Rightarrow> string" where
  "before_char c s = takeWhile (\<lambda>x. x \<noteq> c) s"

definition after_char :: "char \<Rightarrow> string \<Rightarrow> string" where
  "after_char c s = drop 1 (dropWhile (\<lambda>x. x \<noteq> c) s)"

definition trim_right :: "string \<Rightarrow> string \<Rightarrow> string" where
  "trim_right s cutset = rev (dropWhile (\<lambda>c. c \<in> set cutset) (rev s))"

definition trim_left :: "string \<Rightarrow> string \<Rightarrow> string" where
  "trim_left s cutset = dropWhile (\<lambda>c. c \<in> set cutset) s"

fun split_char :: "char \<Rightarrow> string \<Rightarrow> string list" where
  "split_char c [] = [[]]"
| "split_char c (x # xs) =
     (if x = c then [] # split_char c xs
      else (case split_char c xs of [] \<Rightarrow> [[x]] | y # ys \<Rightarrow> (x # y) # ys))"

text \<open>\<^verbatim>\<open>strings.SplitN(s, sep, 2)\<close> for a one-character separator.\<close>

definition split_two :: "char \<Rightarrow> string \<Rightarrow> string list" where
  "split_two c s = (if c \<in> set s then [before_char c s, after_char c s] else [s])"

fun join_str :: "string \<Rightarrow> string list \<Rightarrow> string" where
  "join_str sep [] = []"
| "join_str sep [x] = x"
| "join_str sep (x # y # ys) = x @ sep @ join_str sep (y # ys)"

definition is_space :: "char \<Rightarrow> bool" where
  "is_space c \<longleftrightarrow> c \<in> set [CHR 0x09, CHR 0x0A, CHR 0x0B, CHR 0x0C, CHR 0x0D, CHR '' '']"

function fields_str :: "string \<Rightarrow> string list" where
  "fields_str s =
     (case dropWhile is_space s of
        [] \<Rightarrow> []
      | c # cs \<Rightarrow> takeWhile (\<lambda>x. \<not> is_space x) (c # cs)
                  # fields_str (dropWhile (\<lambda>x. \<not> is_space x) (c # cs)))"
  by pat_completeness auto

lemma length_dropWhile_lt: "xs \<noteq> [] \<Longrightarrow> P (hd xs) \<Longrightarrow> length (dropWhile P xs) < length xs"
  by (cases xs) (auto simp: le_imp_less_Suc length_dropWhile_le)

termination fields_str
proof (relation "measure length", goal_cases)
  case (2 s c cs)
  have nsp: "\<not> is_space c"
    using 2 hd_dropWhile [of is_space s] by (metis list.distinct(1) list.sel(1))
  have "length (dropWhile (\<lambda>x. \<not> is_space x) (c # cs)) < length (c # cs)"
    using nsp by (intro length_dropWhile_lt) auto
  also have "\<dots> \<le> length s"
    using 2 length_dropWhile_le [of is_space s] by simp
  finally show ?case by simp
qed simp

definition trim_space :: "string \<Rightarrow> string" where
  "trim_space s = rev (dropWhile is_space (rev (dropWhile is_space s)))"

text \<open>\<^verbatim>\<open>strings.ToLower\<close> on ASCII letters.\<close>

definition to_lower_char :: "char \<Rightarrow> char" where
  "to_lower_char c =
     (let n = (of_char c :: nat) in if 65 \<le> n \<and> n \<le> 90 then char_of (n + 32) else c)"

definition to_lower :: "string \<Rightarrow> string" where
  "to_lower s = map to_lower_char s"

definition equal_fold :: "string \<Rightarrow> string \<Rightarrow> bool" where
  "equal_fold s t \<longleftrightarrow> to_lower s = to_lower t"

text \<open>
  Equations for evaluation: the letters by their bits, and a comparison that stops at the first
  difference.
\<close>

lemma to_lower_char_bits [code]:
  "to_lower_char (Char b0 b1 b2 b3 b4 b5 b6 b7) =
     (if \<not> b7 \<and> b6 \<and> \<not> b5 \<and> (b0 \<or> b1 \<or> b2 \<or> b3 \<or> b4) \<and> \<not> (b4 \<and> b3 \<and> (b2 \<or> b1 \<and> b0))
      then Char b0 b1 b2 b3 b4 True b6 b7 else Char b0 b1 b2 b3 b4 b5 b6 b7)"
  by (cases b0; cases b1; cases b2; cases b3; cases b4; cases b5; cases b6; cases b7)
    (simp_all add: to_lower_char_def char_of_def bit_0)

primrec fold_chars :: "string \<Rightarrow> string \<Rightarrow> bool" where
  "fold_chars [] t \<longleftrightarrow> t = []"
| "fold_chars (a # s) t =
     (case t of [] \<Rightarrow> False | b # t' \<Rightarrow> (if to_lower_char a = to_lower_char b then fold_chars s t' else False))"

lemma equal_fold_chars [code]: "equal_fold s t = fold_chars s t"
  by (induction s arbitrary: t) (auto simp: equal_fold_def to_lower_def split: list.splits)

text \<open>\<^verbatim>\<open>strings.Replace(s, old, new, 1)\<close>.\<close>

definition replace_first :: "string \<Rightarrow> string \<Rightarrow> string \<Rightarrow> string" where
  "replace_first s old new =
     (case str_index s old of
        None \<Rightarrow> s
      | Some i \<Rightarrow> take i s @ new @ drop (i + length old) s)"

section \<open>Package strconv\<close>

definition digit_char :: "int \<Rightarrow> char" where
  "digit_char d = ''0123456789'' ! nat d"

definition is_digit :: "char \<Rightarrow> bool" where
  "is_digit c \<longleftrightarrow> c \<in> set ''0123456789''"

definition digit_val :: "char \<Rightarrow> int" where
  "digit_val c = int (of_char c) - 48"

text \<open>The decimal digits of a natural number, given as a non-negative integer.\<close>

function nat_str :: "int \<Rightarrow> string" where
  "nat_str n = (if n < 10 then [digit_char n] else nat_str (n div 10) @ [digit_char (n mod 10)])"
  by pat_completeness auto

termination nat_str
  by (relation "measure nat") auto

declare nat_str.simps [simp del]

definition itoa :: "int \<Rightarrow> string" where
  "itoa n = (if n < 0 then CHR ''-'' # nat_str (- n) else nat_str n)"

definition digits_val :: "string \<Rightarrow> int" where
  "digits_val s = foldl (\<lambda>n c. 10 * n + digit_val c) 0 s"

text \<open>
  \<^verbatim>\<open>strconv.Atoi\<close>: a value, or an error together with the value Go returns next to
  the error (0 for a syntax error, the nearest bound for a range error).
\<close>

datatype atoi_result = AtoiOk int | AtoiSyntax | AtoiRange int

definition atoi_clamp :: "int \<Rightarrow> atoi_result" where
  "atoi_clamp n = (if n > max_int64 then AtoiRange max_int64
                   else if n < min_int64 then AtoiRange min_int64 else AtoiOk n)"

definition atoi_unsigned :: "string \<Rightarrow> int option" where
  "atoi_unsigned s =
     (if s = [] \<or> \<not> list_all is_digit s then None else Some (digits_val s))"

definition atoi :: "string \<Rightarrow> atoi_result" where
  "atoi s =
     (case s of
        [] \<Rightarrow> AtoiSyntax
      | c # cs \<Rightarrow>
          (if c = CHR ''-'' then
             (case atoi_unsigned cs of None \<Rightarrow> AtoiSyntax | Some n \<Rightarrow> atoi_clamp (- n))
           else if c = CHR ''+'' then
             (case atoi_unsigned cs of None \<Rightarrow> AtoiSyntax | Some n \<Rightarrow> atoi_clamp n)
           else
             (case atoi_unsigned s of None \<Rightarrow> AtoiSyntax | Some n \<Rightarrow> atoi_clamp n)))"

fun atoi_ok :: "atoi_result \<Rightarrow> int option" where
  "atoi_ok (AtoiOk n) = Some n"
| "atoi_ok _ = None"

text \<open>\<^verbatim>\<open>n, _ := strconv.Atoi(s)\<close>\<close>

fun atoi_ign :: "atoi_result \<Rightarrow> int" where
  "atoi_ign (AtoiOk n) = n"
| "atoi_ign AtoiSyntax = 0"
| "atoi_ign (AtoiRange n) = n"


section \<open>Generic lemmas\<close>

declare fields_str.simps [simp del]

subsection \<open>Prefixes, suffixes and positions\<close>

lemma has_prefix_iff: "has_prefix s p \<longleftrightarrow> (\<exists>t. s = p @ t)"
  by (auto simp: has_prefix_def) (metis append_take_drop_id)

lemma has_prefix_append [simp]: "has_prefix (p @ t) p"
  by (simp add: has_prefix_def)

lemma has_prefix_Nil [simp]: "has_prefix s []"
  by (simp add: has_prefix_def)

lemma has_prefix_Cons [simp, gostr_simps]:
  "has_prefix (x # xs) (c # cs) \<longleftrightarrow> x = c \<and> has_prefix xs cs"
  by (simp add: has_prefix_def)

lemma has_prefix_empty [simp, gostr_simps]: "has_prefix [] (c # cs) \<longleftrightarrow> False"
  by (simp add: has_prefix_def)

lemma has_prefixE:
  assumes "has_prefix s p"
  obtains t where "s = p @ t"
  using assms by (auto simp: has_prefix_iff)

lemma has_prefix_drop: "has_prefix s p \<Longrightarrow> p @ drop (length p) s = s"
  by (metis append_take_drop_id has_prefix_def)

lemma has_prefix_trans: "has_prefix s q \<Longrightarrow> has_prefix q p \<Longrightarrow> has_prefix s p"
  by (auto simp: has_prefix_iff)

lemma has_suffix_iff: "has_suffix s p \<longleftrightarrow> (\<exists>t. s = t @ p)"
  by (auto simp: has_suffix_def has_prefix_iff) (metis rev_append rev_rev_ident)

lemma has_suffix_append [simp]: "has_suffix (t @ p) p"
  by (auto simp: has_suffix_iff)

lemma trim_prefix_append [simp]: "trim_prefix (p @ t) p = t"
  by (simp add: trim_prefix_def)

lemma trim_prefix_id: "\<not> has_prefix s p \<Longrightarrow> trim_prefix s p = s"
  by (simp add: trim_prefix_def)

lemma length_trim_prefix: "length (trim_prefix s p) \<le> length s"
  by (simp add: trim_prefix_def)

lemma str_index_Some:
  "str_index s sub = Some i \<Longrightarrow> \<exists>t u. s = t @ sub @ u \<and> length t = i"
proof (induction s arbitrary: i)
  case Nil
  then show ?case by (auto split: if_splits)
next
  case (Cons c cs)
  show ?case
  proof (cases "has_prefix (c # cs) sub")
    case True
    then show ?thesis using Cons.prems by (auto simp: has_prefix_iff)
  next
    case False
    then obtain j where "str_index cs sub = Some j" "i = Suc j"
      using Cons.prems by (auto split: if_splits)
    then show ?thesis using Cons.IH by (metis append_Cons length_Cons)
  qed
qed

lemma str_index_None: "str_index s sub = None \<Longrightarrow> s \<noteq> t @ sub @ u"
proof (induction s arbitrary: t)
  case Nil
  then show ?case by (auto split: if_splits)
next
  case (Cons c cs)
  then show ?case
    by (cases t) (auto split: if_splits simp: has_prefix_iff simp del: has_prefix_Cons)
qed

lemma contains_str_iff: "contains_str s sub \<longleftrightarrow> (\<exists>t u. s = t @ sub @ u)"
proof
  show "contains_str s sub \<Longrightarrow> \<exists>t u. s = t @ sub @ u"
    unfolding contains_str_def using str_index_Some by fastforce
next
  show "\<exists>t u. s = t @ sub @ u \<Longrightarrow> contains_str s sub"
    unfolding contains_str_def using str_index_None by blast
qed

lemma index_char_None: "index_char c s = None \<longleftrightarrow> c \<notin> set s"
  by (induction s) auto

lemma index_char_Some:
  "index_char c s = Some i \<Longrightarrow>
     take i s = before_char c s \<and> drop (Suc i) s = after_char c s \<and> drop i s = c # after_char c s"
  by (induction s arbitrary: i) (auto simp: before_char_def after_char_def split: if_splits)

lemma index_char_append_notin:
  "c \<notin> set a \<Longrightarrow> index_char c (a @ s) = map_option (\<lambda>i. length a + i) (index_char c s)"
proof (induction a)
  case Nil
  then show ?case by (simp add: option.map_ident)
next
  case (Cons x a)
  then show ?case by (cases "index_char c s") auto
qed

lemma before_char_notin [simp]: "c \<notin> set (before_char c s)"
  by (auto simp: before_char_def dest: set_takeWhileD)

lemma before_char_append [simp]: "c \<notin> set a \<Longrightarrow> before_char c (a @ c # s) = a"
  by (induction a) (auto simp: before_char_def)

lemma after_char_append [simp]: "c \<notin> set a \<Longrightarrow> after_char c (a @ c # s) = s"
  by (induction a) (auto simp: after_char_def)

lemma before_char_id [simp]: "c \<notin> set s \<Longrightarrow> before_char c s = s"
  unfolding before_char_def by (subst takeWhile_eq_all_conv) auto

lemma before_after_char: "c \<in> set s \<Longrightarrow> before_char c s @ c # after_char c s = s"
  by (induction s) (auto simp: before_char_def after_char_def)

text \<open>A separator that occurs in neither part makes a concatenation unambiguous.\<close>

lemma sep_unique:
  fixes c :: char
  assumes "c \<notin> set a" "c \<notin> set b"
  shows "a @ c # x = b @ c # y \<longleftrightarrow> a = b \<and> x = y"
proof
  assume "a @ c # x = b @ c # y"
  then have "before_char c (a @ c # x) = before_char c (b @ c # y)"
    and "after_char c (a @ c # x) = after_char c (b @ c # y)" by simp_all
  then show "a = b \<and> x = y" using assms by simp
qed simp

lemma split_char_not_Nil [simp]: "split_char c s \<noteq> []"
  by (induction s) (auto split: list.splits)

lemma split_char_notin: "x \<in> set (split_char c s) \<Longrightarrow> c \<notin> set x"
proof (induction s arbitrary: x)
  case (Cons a s)
  then show ?case by (cases "split_char c s") (auto split: if_splits)
qed simp

lemma split_char_id [simp]: "c \<notin> set s \<Longrightarrow> split_char c s = [s]"
  by (induction s) auto

lemma split_char_append [simp]: "c \<notin> set a \<Longrightarrow> split_char c (a @ c # s) = a # split_char c s"
  by (induction a) auto

lemma split_char_append_sep: "split_char c (a @ c # b) = split_char c a @ split_char c b"
  by (induction a) (auto split: list.splits)

text \<open>An occurrence of a separator followed by a word starts a segment with that word.\<close>

lemma contains_sep_segment:
  assumes "contains_str p (c # w)" "c \<notin> set w"
  shows "\<exists>seg \<in> set (tl (split_char c p)). has_prefix seg w"
proof -
  obtain t u where p: "p = t @ c # (w @ u)"
    using assms(1) by (auto simp: contains_str_iff)
  have "has_prefix (hd (split_char c (w @ u))) w"
    using assms(2)
  proof (induction w)
    case (Cons x w)
    then show ?case by (cases "split_char c (w @ u)") auto
  qed simp
  moreover have "hd (split_char c (w @ u)) \<in> set (tl (split_char c p))"
    by (simp add: p split_char_append_sep)
  ultimately show ?thesis by blast
qed

lemma join_split_char: "join_str [c] (split_char c s) = s"
proof (induction s)
  case (Cons x s)
  then show ?case by (cases "split_char c s"; cases "tl (split_char c s)") auto
qed simp

lemma trim_right_append: "d \<notin> set cs \<Longrightarrow> set t \<subseteq> set cs \<Longrightarrow> trim_right (s @ [d] @ t) cs = s @ [d]"
  by (simp add: trim_right_def dropWhile_append subset_iff)

subsection \<open>Decimal notation\<close>

lemma digit_char_cases:
  "d < 10 \<Longrightarrow> digit_char d \<in> set ''0123456789''"
  unfolding digit_char_def by (rule nth_mem) simp

lemma is_digit_digit_char [simp]: "d < 10 \<Longrightarrow> is_digit (digit_char d)"
  using digit_char_cases unfolding is_digit_def .

lemma less_10_cases:
  "0 \<le> (d :: int) \<Longrightarrow> d < 10 \<Longrightarrow> d = 0 \<or> d = 1 \<or> d = 2 \<or> d = 3 \<or> d = 4 \<or> d = 5 \<or> d = 6 \<or> d = 7 \<or> d = 8 \<or> d = 9"
  by presburger

lemma digit_val_digit_char [simp]: "0 \<le> d \<Longrightarrow> d < 10 \<Longrightarrow> digit_val (digit_char d) = d"
  by (drule (1) less_10_cases, elim disjE) (simp_all add: digit_val_def digit_char_def)

lemma list_all_is_digit_nat_str [simp]: "list_all is_digit (nat_str n)"
proof (induction n rule: nat_str.induct)
  case (1 n)
  show ?case
  proof (cases "n < 10")
    case True
    then show ?thesis by (subst nat_str.simps) simp
  next
    case False
    then show ?thesis using 1 by (subst nat_str.simps) simp
  qed
qed

lemma nat_str_not_Nil [simp]: "nat_str n \<noteq> []"
  by (subst nat_str.simps) simp

lemma digits_val_snoc [simp]: "digits_val (s @ [c]) = 10 * digits_val s + digit_val c"
  by (simp add: digits_val_def)

lemma digits_val_nat_str [simp]: "0 \<le> n \<Longrightarrow> digits_val (nat_str n) = n"
proof (induction n rule: nat_str.induct)
  case (1 n)
  show ?case
  proof (cases "n < 10")
    case True
    then show ?thesis using 1 by (subst nat_str.simps) (simp add: digits_val_def)
  next
    case False
    then show ?thesis using 1 by (subst nat_str.simps) simp
  qed
qed

lemma nat_str_inject: "0 \<le> m \<Longrightarrow> 0 \<le> n \<Longrightarrow> nat_str m = nat_str n \<longleftrightarrow> m = n"
  by (metis digits_val_nat_str)

lemma nat_str_notin: "\<not> is_digit c \<Longrightarrow> c \<notin> set (nat_str n)"
  using list_all_is_digit_nat_str [of n] by (auto simp: list_all_iff)

lemma itoa_notin [nochar]: "\<not> is_digit c \<Longrightarrow> c \<noteq> CHR ''-'' \<Longrightarrow> c \<notin> set (itoa n)"
  by (auto simp: itoa_def nat_str_notin)

lemma sep_not_digit [simp, nochar]:
  "\<not> is_digit CHR ''_''" "\<not> is_digit CHR ''/''" "\<not> is_digit CHR '':''" "\<not> is_digit CHR ''-''"
  by (simp_all add: is_digit_def)

lemma itoa_hd_nat: "n \<ge> 0 \<Longrightarrow> hd (itoa n) \<noteq> CHR ''-''"
proof -
  assume "n \<ge> 0"
  moreover have "hd (nat_str n) \<in> set (nat_str n)"
    by (rule hd_in_set) simp
  ultimately show ?thesis
    using nat_str_notin [OF sep_not_digit(4), of n] by (metis itoa_def not_less)
qed

lemma itoa_not_Nil [simp]: "itoa n \<noteq> []"
  by (simp add: itoa_def)

lemma itoa_inject [simp]: "itoa m = itoa n \<longleftrightarrow> m = n"
proof
  assume eq: "itoa m = itoa n"
  show "m = n"
  proof (cases "m < 0"; cases "n < 0")
    assume "m < 0" "\<not> n < 0"
    then have "hd (itoa n) = CHR ''-''" unfolding eq [symmetric] by (simp add: itoa_def)
    then show ?thesis using itoa_hd_nat [of n] \<open>\<not> n < 0\<close> by simp
  next
    assume "\<not> m < 0" "n < 0"
    then have "hd (itoa m) = CHR ''-''" unfolding eq by (simp add: itoa_def)
    then show ?thesis using itoa_hd_nat [of m] \<open>\<not> m < 0\<close> by simp
  qed (use eq in \<open>auto simp: itoa_def nat_str_inject\<close>)
qed simp

lemma atoi_itoa: "min_int64 \<le> n \<Longrightarrow> n \<le> max_int64 \<Longrightarrow> atoi (itoa n) = AtoiOk n"
proof (cases "n < 0")
  case True
  then show "min_int64 \<le> n \<Longrightarrow> n \<le> max_int64 \<Longrightarrow> ?thesis"
    by (simp add: atoi_def itoa_def atoi_unsigned_def atoi_clamp_def)
next
  case False
  obtain c cs where cs: "nat_str n = c # cs"
    by (cases "nat_str n") auto
  then have "is_digit c" "list_all is_digit (c # cs)"
    using list_all_is_digit_nat_str [of n] by auto
  then have "c \<noteq> CHR ''-''" "c \<noteq> CHR ''+''"
    by (auto simp: is_digit_def)
  moreover have "digits_val (c # cs) = n"
    using False digits_val_nat_str [of n] cs by simp
  ultimately show "min_int64 \<le> n \<Longrightarrow> n \<le> max_int64 \<Longrightarrow> ?thesis"
    using False cs \<open>list_all is_digit (c # cs)\<close>
    by (simp add: atoi_def itoa_def atoi_unsigned_def atoi_clamp_def)
qed

lemma wrap64_id: "min_int64 \<le> n \<Longrightarrow> n \<le> max_int64 \<Longrightarrow> wrap64 n = n"
  by (simp add: wrap64_def min_int64_def max_int64_def)

lemma wrap64_range: "min_int64 \<le> wrap64 n \<and> wrap64 n \<le> max_int64"
proof -
  have "0 \<le> (n + 2 ^ 63) mod 2 ^ 64" "(n + 2 ^ 63) mod 2 ^ 64 < (2 ^ 64 :: int)"
    by simp_all
  then show ?thesis
    unfolding wrap64_def min_int64_def max_int64_def by simp
qed

subsection \<open>Lists and association lists\<close>

lemma find_Some_iff: "find P xs = Some x \<Longrightarrow> x \<in> set xs \<and> P x"
  by (induction xs) (auto split: if_splits)

lemma find_None_filter: "find P xs = None \<longleftrightarrow> filter P xs = []"
  by (auto simp: find_None_iff filter_empty_conv)

lemma find_filter: "find P (filter Q xs) = find (\<lambda>x. Q x \<and> P x) xs"
  by (induction xs) auto

lemma map_of_filter_other:
  "(\<And>v. (k, v) \<in> set xs \<Longrightarrow> Q (k, v)) \<Longrightarrow> map_of (filter Q xs) k = map_of xs k"
  by (induction xs) auto

subsection \<open>Words of a line\<close>

definition is_word :: "string \<Rightarrow> bool" where
  "is_word w \<longleftrightarrow> w \<noteq> [] \<and> list_all (\<lambda>c. \<not> is_space c) w"

lemma dropWhile_word: "is_word w \<Longrightarrow> dropWhile is_space (w @ s) = w @ s"
  by (cases w) (auto simp: is_word_def)

lemma takeWhile_word:
  "is_word w \<Longrightarrow> s = [] \<or> is_space (hd s) \<Longrightarrow> takeWhile (\<lambda>x. \<not> is_space x) (w @ s) = w"
  by (cases s) (auto simp: is_word_def list_all_iff takeWhile_append)

lemma dropWhile_word_end:
  "is_word w \<Longrightarrow> s = [] \<or> is_space (hd s) \<Longrightarrow> dropWhile (\<lambda>x. \<not> is_space x) (w @ s) = s"
  by (cases s) (auto simp: is_word_def list_all_iff dropWhile_append)

lemma fields_str_Nil [simp]: "fields_str [] = []"
  by (simp add: fields_str.simps)

lemma fields_str_space [simp]: "is_space c \<Longrightarrow> fields_str (c # s) = fields_str s"
  by (subst (1 2) fields_str.simps) simp

lemma fields_str_word:
  assumes "is_word w" "s = [] \<or> is_space (hd s)"
  shows "fields_str (w @ s) = w # fields_str s"
proof -
  obtain c cs where c: "w = c # cs" using assms(1) by (cases w) (auto simp: is_word_def)
  have "fields_str (w @ s) =
      (case w @ s of [] \<Rightarrow> [] | c # cs \<Rightarrow> takeWhile (\<lambda>x. \<not> is_space x) (c # cs)
         # fields_str (dropWhile (\<lambda>x. \<not> is_space x) (c # cs)))"
    by (subst fields_str.simps) (simp only: dropWhile_word [OF assms(1)])
  also have "\<dots> = takeWhile (\<lambda>x. \<not> is_space x) (w @ s)
      # fields_str (dropWhile (\<lambda>x. \<not> is_space x) (w @ s))"
    by (simp only: c append_Cons list.case)
  finally show ?thesis
    by (simp only: takeWhile_word [OF assms] dropWhile_word_end [OF assms])
qed

lemma is_space_blank [simp]: "is_space CHR '' ''"
  by (simp add: is_space_def)

text \<open>\<^verbatim>\<open>strings.Fields\<close> undoes joining words with blanks.\<close>

lemma fields_str_join: "list_all is_word ws \<Longrightarrow> fields_str (join_str '' '' ws) = ws"
proof (induction "'' ''" ws rule: join_str.induct)
  case (2 x)
  then show ?case using fields_str_word [of x "[]"] by simp
next
  case (3 x y ys)
  then show ?case by (simp add: fields_str_word)
qed simp

end
