(* ===== verification/Identity.thy ===== *)
theory Identity
  imports Prelude
begin

text \<open>
  Package \<^verbatim>\<open>internal/auth\<close>: the look-ups in \<^verbatim>\<open>/etc/passwd\<close> and
  \<^verbatim>\<open>/etc/group\<close> (\<^verbatim>\<open>os_lookup.go\<close>), the identity of the process at the
  other end of a Unix socket (\<^verbatim>\<open>identity.go\<close>) and the JWT and client-certificate
  authenticators (\<^verbatim>\<open>auth.go\<close>).

  The files the code reads are the fields of the record \<open>os_env\<close>, with
  \<^term>\<open>None\<close> for a read error.  The peer credentials are an argument.  The JWT library
  and the certificate verification are parameters of the authenticators.
\<close>

section \<open>The files the package reads\<close>

record os_env =
  passwd_file :: "string option"
  group_file :: "string option"
  proc_status :: "int \<Rightarrow> string option"
  proc_loginuid :: "int \<Rightarrow> string option"
  proc_environ :: "int \<Rightarrow> string option"
  proc_comm :: "int \<Rightarrow> string option"
  proc_cmdline :: "int \<Rightarrow> string option"

abbreviation newline :: char where
  "newline \<equiv> CHR 0x0A"

abbreviation nul :: char where
  "nul \<equiv> CHR 0x00"

section \<open>os\_lookup.go\<close>

fun scan_passwd :: "string list \<Rightarrow> string \<Rightarrow> nat \<Rightarrow> nat \<Rightarrow> string" where
  "scan_passwd [] matchValue matchField returnField = []"
| "scan_passwd (line # rest) matchValue matchField returnField =
     (let fs = split_char CHR '':'' line in
      if length fs > returnField \<and> length fs > matchField \<and> fs ! matchField = matchValue
      then fs ! returnField
      else scan_passwd rest matchValue matchField returnField)"

definition lookupPasswdField :: "os_env \<Rightarrow> string \<Rightarrow> nat \<Rightarrow> nat \<Rightarrow> string" where
  "lookupPasswdField env matchValue matchField returnField =
     (case passwd_file env of
        None \<Rightarrow> []
      | Some data \<Rightarrow> scan_passwd (split_char newline data) matchValue matchField returnField)"

definition LookupUsername :: "os_env \<Rightarrow> int \<Rightarrow> string" where
  "LookupUsername env uid = lookupPasswdField env (itoa uid) 2 0"

definition LookupHomeDir :: "os_env \<Rightarrow> int \<Rightarrow> string" where
  "LookupHomeDir env uid = lookupPasswdField env (itoa uid) 2 5"

definition LookupUID :: "os_env \<Rightarrow> string \<Rightarrow> int" where
  "LookupUID env username =
     (let s = lookupPasswdField env username 0 2 in
      if s = [] then -1 else atoi_ign (atoi s))"

definition LookupPrimaryGID :: "os_env \<Rightarrow> string \<Rightarrow> int" where
  "LookupPrimaryGID env username =
     (let s = lookupPasswdField env username 0 3 in
      if s = [] then -1 else atoi_ign (atoi s))"

fun scan_group_gid :: "string list \<Rightarrow> string \<Rightarrow> int" where
  "scan_group_gid [] groupname = -1"
| "scan_group_gid (line # rest) groupname =
     (let fs = split_char CHR '':'' line in
      if length fs \<ge> 3 \<and> fs ! 0 = groupname then atoi_ign (atoi (fs ! 2))
      else scan_group_gid rest groupname)"

definition LookupGroupGID :: "os_env \<Rightarrow> string \<Rightarrow> int" where
  "LookupGroupGID env groupname =
     (case group_file env of
        None \<Rightarrow> -1
      | Some data \<Rightarrow> scan_group_gid (split_char newline data) groupname)"

fun scan_group_name :: "string list \<Rightarrow> int \<Rightarrow> string" where
  "scan_group_name [] gid = []"
| "scan_group_name (line # rest) gid =
     (let fs = split_char CHR '':'' line in
      if length fs < 3 then scan_group_name rest gid
      else if fs ! 2 = itoa gid then fs ! 0
      else scan_group_name rest gid)"

definition LookupGroupName :: "os_env \<Rightarrow> int \<Rightarrow> string" where
  "LookupGroupName env gid =
     (case group_file env of
        None \<Rightarrow> []
      | Some data \<Rightarrow> scan_group_name (split_char newline data) gid)"

definition group_line_gid :: "string \<Rightarrow> string \<Rightarrow> int option" where
  "group_line_gid username line =
     (let fs = split_char CHR '':'' line in
      if length fs < 4 then None
      else if list_ex (\<lambda>member. trim_space member = username) (split_char CHR '','' (fs ! 3))
      then Some (atoi_ign (atoi (fs ! 2)))
      else None)"

definition GetUserGroups :: "os_env \<Rightarrow> int \<Rightarrow> int list" where
  "GetUserGroups env uid =
     (let username = LookupUsername env uid in
      if username = [] then []
      else
        (let pgid = LookupPrimaryGID env username;
             gids = (if pgid \<ge> 0 then [pgid] else [])
         in case group_file env of
              None \<Rightarrow> gids
            | Some data \<Rightarrow>
                gids @ List.map_filter (group_line_gid username) (split_char newline data)))"

section \<open>identity.go\<close>

datatype UserType = UserTypeRegular | UserTypeSudo | UserTypeRoot

fun UserType_String :: "UserType \<Rightarrow> string" where
  "UserType_String UserTypeRoot = ''root''"
| "UserType_String UserTypeSudo = ''sudo''"
| "UserType_String UserTypeRegular = ''regular''"

datatype AuthSource = AuthSourceNone | AuthSourceOS | AuthSourceJWT | AuthSourceCert

record CallerIdentity =
  RealUsername :: string
  RealUID :: int
  RealGID :: int
  EffectiveUsername :: string
  EffectiveUID :: int
  EffectiveGID :: int
  LoginUID :: int
  LoginUsername :: string
  PID :: int
  ProcessName :: string
  CmdLine :: string
  DockerCommand :: string
  SwitchedIdentity :: bool
  idUserType :: UserType
  idAuthSource :: AuthSource
  ClientAddr :: string
  ConfigPrivileged :: bool

definition IsPrivileged :: "CallerIdentity \<Rightarrow> bool" where
  "IsPrivileged ident \<longleftrightarrow> RealUID ident = 0 \<or> idUserType ident = UserTypeSudo \<or> ConfigPrivileged ident"

definition IsSudoCommand :: "CallerIdentity \<Rightarrow> bool" where
  "IsSudoCommand ident \<longleftrightarrow> idUserType ident = UserTypeSudo"

definition UserTypeFromUID :: "int \<Rightarrow> UserType" where
  "UserTypeFromUID uid = (if uid = 0 then UserTypeRoot else UserTypeRegular)"

definition compoundGroups :: "string list" where
  "compoundGroups =
     [''system'', ''container'', ''image'', ''network'', ''volume'', ''plugin'', ''builder'',
      ''context'', ''manifest'']"

text \<open>The last path segment of a word of the command line.\<close>

definition base_name :: "string \<Rightarrow> string" where
  "base_name p = (case last_index_char CHR ''/'' p of None \<Rightarrow> p | Some i \<Rightarrow> drop (i + 1) p)"

definition parseDockerCommand :: "string \<Rightarrow> string" where
  "parseDockerCommand cmdline =
     (if cmdline = [] then []
      else case dropWhile (\<lambda>p. base_name p \<noteq> ''docker'') (fields_str cmdline) of
        [] \<Rightarrow> []
      | docker # args \<Rightarrow>
          (case dropWhile (\<lambda>a. has_prefix a ''-'') args of
             [] \<Rightarrow> []
           | first # rest \<Rightarrow>
               (if first = [] then []
                else if first \<in> set compoundGroups
                then (case dropWhile (\<lambda>a. has_prefix a ''-'') rest of
                        [] \<Rightarrow> first
                      | arg # _ \<Rightarrow> first @ ''/'' @ arg)
                else first)))"

datatype status_error = StatusReadError | StatusNoUid

type_synonym proc_ids = "int \<times> int \<times> int \<times> int"

text \<open>One line of \<^verbatim>\<open>/proc/PID/status\<close>; the state is rUID, eUID, rGID, eGID.\<close>

definition status_line :: "string \<Rightarrow> proc_ids \<Rightarrow> proc_ids" where
  "status_line line st =
     (case st of (rUID, eUID, rGID, eGID) \<Rightarrow>
        (let fs = fields_str line in
         if length fs < 3 then st
         else if fs ! 0 = ''Uid:'' then
           (atoi_ign (atoi (fs ! 1)), atoi_ign (atoi (fs ! 2)), rGID, eGID)
         else if fs ! 0 = ''Gid:'' then
           (rUID, eUID, atoi_ign (atoi (fs ! 1)), atoi_ign (atoi (fs ! 2)))
         else st))"

definition readProcStatus :: "os_env \<Rightarrow> int \<Rightarrow> (status_error, proc_ids) result" where
  "readProcStatus env pid =
     (case proc_status env pid of
        None \<Rightarrow> Inl StatusReadError
      | Some data \<Rightarrow>
          (case fold status_line (split_char newline data) (-1, -1, -1, -1) of
             (rUID, eUID, rGID, eGID) \<Rightarrow>
               (if rUID < 0 \<or> eUID < 0 then Inl StatusNoUid else Inr (rUID, eUID, rGID, eGID))))"

definition readLoginUID :: "os_env \<Rightarrow> int \<Rightarrow> int" where
  "readLoginUID env pid =
     (case proc_loginuid env pid of
        None \<Rightarrow> -1
      | Some data \<Rightarrow>
          (case atoi_ok (atoi (trim_space data)) of
             None \<Rightarrow> -1
           | Some v \<Rightarrow> (if v = -1 \<or> v = 4294967295 then -1 else v)))"

definition environ_entry :: "string \<Rightarrow> (string \<rightharpoonup> string) \<Rightarrow> (string \<rightharpoonup> string)" where
  "environ_entry entry m =
     (case split_two CHR ''='' entry of
        [k, v] \<Rightarrow> m(k \<mapsto> v)
      | _ \<Rightarrow> m)"

definition readProcEnviron :: "os_env \<Rightarrow> int \<Rightarrow> (string \<rightharpoonup> string)" where
  "readProcEnviron env pid =
     (case proc_environ env pid of
        None \<Rightarrow> (\<lambda>_. None)
      | Some data \<Rightarrow> fold environ_entry (split_char nul data) (\<lambda>_. None))"

definition getEnvInt :: "(string \<rightharpoonup> string) \<Rightarrow> string \<Rightarrow> int" where
  "getEnvInt m key =
     (case m key of
        None \<Rightarrow> -1
      | Some v \<Rightarrow> (case atoi_ok (atoi v) of None \<Rightarrow> -1 | Some n \<Rightarrow> n))"

definition readProcComm :: "os_env \<Rightarrow> int \<Rightarrow> string" where
  "readProcComm env pid =
     (case proc_comm env pid of None \<Rightarrow> ''unknown'' | Some data \<Rightarrow> trim_space data)"

definition readProcCmdline :: "os_env \<Rightarrow> int \<Rightarrow> string" where
  "readProcCmdline env pid =
     (case proc_cmdline env pid of
        None \<Rightarrow> []
      | Some data \<Rightarrow>
          join_str '' '' (rev (dropWhile (\<lambda>p. p = []) (rev (split_char nul data)))))"

text \<open>
  \<^verbatim>\<open>IdentityForgeryError\<close>: one constructor per message of the source, with the
  values the message is formatted from.
\<close>

datatype forgery =
    EUIDMismatch int int int
  | LoginUIDUnknown int int
  | LoginUIDMismatch int string
  | UIDUnknown int
  | SudoUIDUnknown int int
  | SudoUIDMismatch int string int
  | SuOriginUnknown int
  | SuOriginMismatch string
  | UsernameMismatch string int string
  | EffectiveUIDUnknown int
  | RealUIDChanged int int int
  | EffectiveUIDChanged int int int

datatype ident_error =
    NotUnixConnection
  | SyscallConnError
  | PeercredError
  | IdentityForgeryError forgery

fun IsIdentityForgery :: "ident_error \<Rightarrow> bool" where
  "IsIdentityForgery (IdentityForgeryError _) = True"
| "IsIdentityForgery _ = False"

record Ucred =
  ucPid :: int
  ucUid :: int
  ucGid :: int

text \<open>What the connection yields: not a Unix socket, a failing system call, or credentials.\<close>

datatype conn = OtherConn | SyscallFails | PeercredFails | Peercred Ucred

abbreviation forged :: "forgery \<Rightarrow> (ident_error, 'a) result" where
  "forged f \<equiv> Inl (IdentityForgeryError f)"

text \<open>Step 3 of \<^verbatim>\<open>ResolveCallerIdentity\<close>: the login uid and its user name.\<close>

definition resolveLogin :: "os_env \<Rightarrow> int \<Rightarrow> (ident_error, int \<times> string) result" where
  "resolveLogin env pid =
     (let loginUID = readLoginUID env pid in
      if loginUID \<ge> 0 then
        (let loginUsername = LookupUsername env loginUID in
         if loginUsername = [] then forged (LoginUIDUnknown loginUID pid)
         else if LookupUID env loginUsername \<noteq> loginUID
         then forged (LoginUIDMismatch loginUID loginUsername)
         else Inr (loginUID, loginUsername))
      else Inr (loginUID, []))"

record real_ident =
  riUID :: int
  riGID :: int
  riUsername :: string
  riType :: UserType
  riSwitched :: bool

text \<open>Steps 4 and 5: the real identity behind the effective uid.\<close>

definition resolveReal ::
  "os_env \<Rightarrow> Ucred \<Rightarrow> (status_error, proc_ids) result \<Rightarrow> int \<Rightarrow> string \<Rightarrow> (ident_error, real_ident) result" where
  "resolveReal env uc status loginUID loginUsername =
     (let effectiveUID = ucUid uc; effectiveGID = ucGid uc; pid = ucPid uc in
      if effectiveUID \<noteq> 0 then
        (let realUsername = LookupUsername env effectiveUID in
         if realUsername = [] then forged (UIDUnknown effectiveUID)
         else Inr \<lparr>riUID = effectiveUID, riGID = effectiveGID, riUsername = realUsername,
                   riType = UserTypeRegular,
                   riSwitched = (loginUID \<ge> 0 \<and> loginUID \<noteq> effectiveUID)\<rparr>)
      else if loginUID \<ge> 0 \<and> loginUID \<noteq> 0 then
        (let gid = LookupPrimaryGID env loginUsername in
         Inr \<lparr>riUID = loginUID, riGID = (if gid < 0 then effectiveGID else gid),
              riUsername = loginUsername, riType = UserTypeSudo, riSwitched = True\<rparr>)
      else
        (let sudoUID = getEnvInt (readProcEnviron env pid) ''SUDO_UID'' in
         if sudoUID > 0 then
           (let sudoUsername = LookupUsername env sudoUID in
            if sudoUsername = [] then forged (SudoUIDUnknown sudoUID pid)
            else if LookupUID env sudoUsername \<noteq> sudoUID
            then forged (SudoUIDMismatch sudoUID sudoUsername pid)
            else (let gid = LookupPrimaryGID env sudoUsername in
                  Inr \<lparr>riUID = sudoUID, riGID = (if gid < 0 then effectiveGID else gid),
                       riUsername = sudoUsername, riType = UserTypeSudo, riSwitched = True\<rparr>))
         else
           (case status of
              Inr (procRUID, _, procRGID, _) \<Rightarrow>
                (if procRUID \<noteq> 0 then
                   (let origUsername = LookupUsername env procRUID in
                    if origUsername = [] then forged (SuOriginUnknown procRUID)
                    else if LookupUID env origUsername \<noteq> procRUID
                    then forged (SuOriginMismatch origUsername)
                    else Inr \<lparr>riUID = procRUID, riGID = procRGID, riUsername = origUsername,
                              riType = UserTypeSudo, riSwitched = True\<rparr>)
                 else Inr \<lparr>riUID = 0, riGID = effectiveGID, riUsername = ''root'',
                           riType = UserTypeRoot, riSwitched = False\<rparr>)
            | Inl _ \<Rightarrow>
                Inr \<lparr>riUID = 0, riGID = effectiveGID, riUsername = ''root'',
                     riType = UserTypeRoot, riSwitched = False\<rparr>)))"

text \<open>The final validation and the construction of the identity.\<close>

definition finishIdentity ::
  "os_env \<Rightarrow> Ucred \<Rightarrow> int \<Rightarrow> string \<Rightarrow> real_ident \<Rightarrow> (ident_error, CallerIdentity) result" where
  "finishIdentity env uc loginUID loginUsername r =
     (let expectedUsername = LookupUsername env (riUID r);
          effectiveUsername = LookupUsername env (ucUid uc);
          cmdLine = readProcCmdline env (ucPid uc)
      in if riUID r \<noteq> 0 \<and> expectedUsername \<noteq> [] \<and> expectedUsername \<noteq> riUsername r
         then forged (UsernameMismatch (riUsername r) (riUID r) expectedUsername)
         else if ucUid uc \<noteq> 0 \<and> effectiveUsername = []
         then forged (EffectiveUIDUnknown (ucUid uc))
         else Inr \<lparr>RealUsername = riUsername r, RealUID = riUID r, RealGID = riGID r,
                   EffectiveUsername = effectiveUsername, EffectiveUID = ucUid uc,
                   EffectiveGID = ucGid uc, LoginUID = loginUID, LoginUsername = loginUsername,
                   PID = ucPid uc, ProcessName = readProcComm env (ucPid uc),
                   CmdLine = cmdLine, DockerCommand = parseDockerCommand cmdLine,
                   SwitchedIdentity = riSwitched r, idUserType = riType r,
                   idAuthSource = AuthSourceNone, ClientAddr = [], ConfigPrivileged = False\<rparr>)"

definition ResolveCallerIdentity :: "os_env \<Rightarrow> conn \<Rightarrow> (ident_error, CallerIdentity) result" where
  "ResolveCallerIdentity env c =
     (case c of
        OtherConn \<Rightarrow> Inl NotUnixConnection
      | SyscallFails \<Rightarrow> Inl SyscallConnError
      | PeercredFails \<Rightarrow> Inl PeercredError
      | Peercred uc \<Rightarrow>
          (let status = readProcStatus env (ucPid uc) in
           case (case status of
                   Inr (_, procEUID, _, _) \<Rightarrow>
                     (if procEUID \<noteq> ucUid uc then Some (EUIDMismatch (ucUid uc) (ucPid uc) procEUID)
                      else None)
                 | Inl _ \<Rightarrow> None) of
             Some f \<Rightarrow> forged f
           | None \<Rightarrow>
               (case resolveLogin env (ucPid uc) of
                  Inl e \<Rightarrow> Inl e
                | Inr (loginUID, loginUsername) \<Rightarrow>
                    (case resolveReal env uc status loginUID loginUsername of
                       Inl e \<Rightarrow> Inl e
                     | Inr r \<Rightarrow> finishIdentity env uc loginUID loginUsername r))))"

text \<open>\<^term>\<open>None\<close> is Go's nil error, and the nil identity the first argument.\<close>

definition VerifyIdentityAtRequest :: "os_env \<Rightarrow> CallerIdentity option \<Rightarrow> forgery option" where
  "VerifyIdentityAtRequest env oid =
     (case oid of
        None \<Rightarrow> None
      | Some ident \<Rightarrow>
          (if PID ident \<le> 0 then None
           else case readProcStatus env (PID ident) of
             Inl _ \<Rightarrow> None
           | Inr (rUID, eUID, _, _) \<Rightarrow>
               (let expectedRUID =
                      (if idUserType ident = UserTypeSudo then EffectiveUID ident else RealUID ident) in
                if rUID \<noteq> expectedRUID then Some (RealUIDChanged expectedRUID rUID (PID ident))
                else if eUID \<noteq> EffectiveUID ident
                then Some (EffectiveUIDChanged (EffectiveUID ident) eUID (PID ident))
                else None)))"


section \<open>auth.go\<close>

text \<open>
  A claim of the token as the decoded JSON holds it.  A \<^verbatim>\<open>float64\<close> is given by
  its mantissa and binary exponent, and its conversion to \<^verbatim>\<open>int\<close> truncates (out of
  range it is the smallest 64-bit integer, as on amd64).
\<close>

datatype claim = ClaimFloat int int | ClaimInt int | ClaimInt64 int | ClaimString string | ClaimOther

definition float_to_int :: "int \<Rightarrow> int \<Rightarrow> int" where
  "float_to_int m e =
     (let t = (if e \<ge> 0 then m * 2 ^ nat e else sgn m * (\<bar>m\<bar> div 2 ^ nat (- e))) in
      if t < min_int64 \<or> t > max_int64 then min_int64 else t)"

datatype claim_error = MissingClaim string | ClaimNotNumber string

definition claimInt :: "(string \<rightharpoonup> claim) \<Rightarrow> string \<Rightarrow> (claim_error, int) result" where
  "claimInt claims key =
     (case claims key of
        None \<Rightarrow> Inl (MissingClaim key)
      | Some v \<Rightarrow>
          (case v of
             ClaimFloat m e \<Rightarrow> Inr (float_to_int m e)
           | ClaimInt n \<Rightarrow> Inr n
           | ClaimInt64 n \<Rightarrow> Inr n
           | _ \<Rightarrow> Inl (ClaimNotNumber key)))"

record jwt_token =
  tokValid :: bool
  tokClaims :: "(string \<rightharpoonup> claim) option"

record cert =
  certCN :: string
  certRaw :: string

datatype auth_error =
    JWTParseError string
  | InvalidJWTClaims
  | JWTMissingUID claim_error
  | CertVerifyError string
  | CertCNEmpty
  | CertCNUnknown string

text \<open>The identity an authenticator builds: no process, real and effective ids equal.\<close>

definition tcp_identity :: "string \<Rightarrow> int \<Rightarrow> int \<Rightarrow> AuthSource \<Rightarrow> CallerIdentity" where
  "tcp_identity username uid gid src =
     \<lparr>RealUsername = username, RealUID = uid, RealGID = gid, EffectiveUsername = username,
      EffectiveUID = uid, EffectiveGID = gid, LoginUID = 0, LoginUsername = [], PID = 0,
      ProcessName = [], CmdLine = [], DockerCommand = [], SwitchedIdentity = False,
      idUserType = UserTypeFromUID uid, idAuthSource = src, ClientAddr = [],
      ConfigPrivileged = False\<rparr>"

text \<open>
  \<^verbatim>\<open>JWTAuthenticator.Authenticate\<close>.  \<open>jwtParse\<close> is \<^verbatim>\<open>jwt.Parse\<close> with the
  authenticator's key function and its list of HMAC methods; \<open>Inr None\<close> is the result
  \<^verbatim>\<open>nil, nil\<close>: this authenticator does not apply.
\<close>

definition JWTAuthenticate ::
  "(string \<Rightarrow> string \<Rightarrow> (string, jwt_token) result) \<Rightarrow> string \<Rightarrow> os_env \<Rightarrow> string
     \<Rightarrow> (auth_error, CallerIdentity option) result" where
  "JWTAuthenticate jwtParse secret env authHeader =
     (if \<not> has_prefix authHeader ''Bearer '' then Inr None
      else case jwtParse secret (trim_prefix authHeader ''Bearer '') of
        Inl e \<Rightarrow> Inl (JWTParseError e)
      | Inr token \<Rightarrow>
          (case tokClaims token of
             None \<Rightarrow> Inl InvalidJWTClaims
           | Some claims \<Rightarrow>
               (if \<not> tokValid token then Inl InvalidJWTClaims
                else case claimInt claims ''uid'' of
                  Inl e \<Rightarrow> Inl (JWTMissingUID e)
                | Inr uid \<Rightarrow>
                    (let gid = (case claimInt claims ''gid'' of Inl _ \<Rightarrow> 0 | Inr g \<Rightarrow> g);
                         name = (case claims ''username'' of Some (ClaimString u) \<Rightarrow> u | _ \<Rightarrow> []);
                         username = (if name = [] then LookupUsername env uid else name)
                     in Inr (Some (tcp_identity username uid gid AuthSourceJWT))))))"

text \<open>
  \<^verbatim>\<open>CertAuthenticator.Authenticate\<close>.  \<open>certVerify\<close> is \<^verbatim>\<open>cert.Verify\<close> against the
  CA pool with the client-authentication usage; \<^term>\<open>None\<close> stands for a request without TLS.
\<close>

definition CertAuthenticate ::
  "(cert \<Rightarrow> string option) \<Rightarrow> os_env \<Rightarrow> cert list option \<Rightarrow> (auth_error, CallerIdentity option) result" where
  "CertAuthenticate certVerify env peerCerts =
     (case peerCerts of
        None \<Rightarrow> Inr None
      | Some [] \<Rightarrow> Inr None
      | Some (c # _) \<Rightarrow>
          (case certVerify c of
             Some e \<Rightarrow> Inl (CertVerifyError e)
           | None \<Rightarrow>
               (let username = certCN c in
                if username = [] then Inl CertCNEmpty
                else (let uid = LookupUID env username in
                      if uid < 0 then Inl (CertCNUnknown username)
                      else Inr (Some (tcp_identity username uid (LookupPrimaryGID env username)
                                        AuthSourceCert))))))"

section \<open>Lemmas\<close>

lemmas resolve_defs =
  ResolveCallerIdentity_def resolveLogin_def resolveReal_def finishIdentity_def

lemmas resolve_splits =
  if_splits sum.splits prod.splits option.splits

lemma readProcStatus_nonneg:
  "readProcStatus env pid = Inr (r, e, rg, eg) \<Longrightarrow> r \<ge> 0 \<and> e \<ge> 0"
  by (auto simp: readProcStatus_def split: resolve_splits)

lemma resolveLogin_ok:
  assumes "resolveLogin env pid = Inr (loginUID, loginUsername)"
  shows "loginUID \<ge> 0 \<Longrightarrow> LookupUsername env loginUID = loginUsername"
    and "loginUID \<ge> 0 \<Longrightarrow> loginUsername \<noteq> []"
    and "loginUID \<ge> 0 \<Longrightarrow> LookupUID env loginUsername = loginUID"
  using assms by (auto simp: resolveLogin_def Let_def split: if_splits)

text \<open>The shape of every real identity that steps 4 and 5 can produce.\<close>

lemma resolveReal_cases:
  assumes "resolveReal env uc status loginUID loginUsername = Inr r"
    and "resolveLogin env (ucPid uc) = Inr (loginUID, loginUsername)"
    and "status = readProcStatus env (ucPid uc)"
  obtains
    (regular) "ucUid uc \<noteq> 0" "riType r = UserTypeRegular" "riUID r = ucUid uc"
      "LookupUsername env (riUID r) = riUsername r" "riUsername r \<noteq> []"
  | (sudo) "ucUid uc = 0" "riType r = UserTypeSudo" "riUID r > 0"
      "LookupUsername env (riUID r) = riUsername r" "riUsername r \<noteq> []"
      "LookupUID env (riUsername r) = riUID r"
  | (root) "ucUid uc = 0" "riType r = UserTypeRoot" "riUID r = 0" "riUsername r = ''root''"
proof (cases "ucUid uc = 0")
  case False
  then show ?thesis
    using assms(1) by (intro regular) (auto simp: resolveReal_def Let_def split: if_splits)
next
  case euid: True
  show ?thesis
  proof (cases "loginUID > 0")
    case True
    then show ?thesis
      using euid assms(1) resolveLogin_ok [OF assms(2)]
      by (intro sudo) (auto simp: resolveReal_def Let_def)
  next
    case False
    show ?thesis
    proof (cases "riType r = UserTypeRoot")
      case True
      then show ?thesis
        using euid False assms(1)
        by (intro root) (auto simp: resolveReal_def Let_def split: resolve_splits)
    next
      case nroot: False
      have nonneg: "\<And>rU eU rG eG. status = Inr (rU, eU, rG, eG) \<Longrightarrow> rU \<ge> 0"
        using readProcStatus_nonneg assms(3) by metis
      show ?thesis
        using euid False nroot assms(1)
        by (intro sudo) (auto simp: resolveReal_def Let_def dest: nonneg split: resolve_splits)
    qed
  qed
qed

lemma ResolveCallerIdentity_parts:
  assumes "ResolveCallerIdentity env (Peercred uc) = Inr i"
  obtains loginUID loginUsername r where
    "resolveLogin env (ucPid uc) = Inr (loginUID, loginUsername)"
    "resolveReal env uc (readProcStatus env (ucPid uc)) loginUID loginUsername = Inr r"
    "finishIdentity env uc loginUID loginUsername r = Inr i"
  using assms by (auto simp: ResolveCallerIdentity_def Let_def split: resolve_splits)

lemma finishIdentity_fields:
  assumes "finishIdentity env uc loginUID loginUsername r = Inr i"
  shows "RealUID i = riUID r" "RealUsername i = riUsername r" "idUserType i = riType r"
    "EffectiveUID i = ucUid uc" "PID i = ucPid uc" "\<not> ConfigPrivileged i"
  using assms by (auto simp: finishIdentity_def Let_def split: if_splits)

section \<open>Properties\<close>

text \<open>
  C5. The identity resolved from a Unix socket is privileged exactly when the kernel
  reports the effective uid 0; a caller with another effective uid is an ordinary user whose
  real uid is that uid, and a switched root caller keeps a positive real uid.
\<close>

theorem resolve_privileged_iff_root:
  assumes "ResolveCallerIdentity env (Peercred uc) = Inr i"
  shows "(IsPrivileged i \<longleftrightarrow> ucUid uc = 0)
       \<and> EffectiveUID i = ucUid uc \<and> PID i = ucPid uc \<and> \<not> ConfigPrivileged i
       \<and> (case idUserType i of
            UserTypeRegular \<Rightarrow> ucUid uc \<noteq> 0 \<and> RealUID i = ucUid uc
          | UserTypeSudo \<Rightarrow> ucUid uc = 0 \<and> RealUID i > 0
          | UserTypeRoot \<Rightarrow> ucUid uc = 0 \<and> RealUID i = 0)"
proof -
  from assms obtain l lu r where
    log: "resolveLogin env (ucPid uc) = Inr (l, lu)" and
    real: "resolveReal env uc (readProcStatus env (ucPid uc)) l lu = Inr r" and
    fin: "finishIdentity env uc l lu r = Inr i"
    by (rule ResolveCallerIdentity_parts)
  show ?thesis
    using real log refl by (cases rule: resolveReal_cases)
      (simp_all add: finishIdentity_fields [OF fin] IsPrivileged_def)
qed

text \<open>
  The user name attached to a non-zero real uid is the one /etc/passwd gives for that
  uid; it is never empty, and for a switched identity the name maps back to the uid.
\<close>

theorem resolve_name_bound_in_passwd:
  assumes "ResolveCallerIdentity env (Peercred uc) = Inr i" and "RealUID i \<noteq> 0"
  shows "LookupUsername env (RealUID i) = RealUsername i \<and> RealUsername i \<noteq> []
       \<and> (idUserType i = UserTypeSudo \<longrightarrow> LookupUID env (RealUsername i) = RealUID i)"
proof -
  from assms(1) obtain l lu r where
    log: "resolveLogin env (ucPid uc) = Inr (l, lu)" and
    real: "resolveReal env uc (readProcStatus env (ucPid uc)) l lu = Inr r" and
    fin: "finishIdentity env uc l lu r = Inr i"
    by (rule ResolveCallerIdentity_parts)
  show ?thesis
    using real log refl assms(2) by (cases rule: resolveReal_cases)
      (simp_all add: finishIdentity_fields [OF fin])
qed

text \<open>
  C14. For an identity resolved at connection time, the check before each later request
  passes exactly when the process's status cannot be read any more or when both its real and
  its effective uid equal the effective uid seen at connection time.
\<close>

theorem verify_after_resolve:
  assumes "ResolveCallerIdentity env (Peercred uc) = Inr i" and "ucPid uc > 0"
  shows "VerifyIdentityAtRequest env' (Some i) = None \<longleftrightarrow>
           (case readProcStatus env' (ucPid uc) of
              Inl _ \<Rightarrow> True
            | Inr (rUID, eUID, _, _) \<Rightarrow> rUID = ucUid uc \<and> eUID = ucUid uc)"
proof -
  from assms(1) obtain l lu r where
    log: "resolveLogin env (ucPid uc) = Inr (l, lu)" and
    real: "resolveReal env uc (readProcStatus env (ucPid uc)) l lu = Inr r" and
    fin: "finishIdentity env uc l lu r = Inr i"
    by (rule ResolveCallerIdentity_parts)
  have "(if idUserType i = UserTypeSudo then EffectiveUID i else RealUID i) = ucUid uc"
    using real log refl by (cases rule: resolveReal_cases)
      (simp_all add: finishIdentity_fields [OF fin])
  then show ?thesis
    using assms(2) finishIdentity_fields(4,5) [OF fin]
    by (auto simp: VerifyIdentityAtRequest_def Let_def split: sum.splits prod.splits if_splits)
qed

text \<open>
  The machine used in the witnesses: alice (1000) runs \<^verbatim>\<open>sudo docker --tls ps -a\<close> as
  process 7, and process 8 is a set-uid program of hers without a login uid.
\<close>

definition lf :: string where
  "lf = [CHR 0x0A]"

definition demo_env :: os_env where
  "demo_env =
     \<lparr>passwd_file = Some (''root:x:0:0:root:/root:/bin/sh'' @ lf
                          @ ''alice:x:1000:100::/home/alice:/bin/sh'' @ lf),
      group_file = Some (''docker:x:999:bob,alice'' @ lf),
      proc_status = (\<lambda>p. if p = 7 then Some (''Uid: 0 0 0 0'' @ lf @ ''Gid: 0 0 0 0'')
                          else if p = 8 then Some (''Uid: 1000 0 0 0'' @ lf @ ''Gid: 100 0 0 0'')
                          else None),
      proc_loginuid = (\<lambda>p. if p = 7 then Some ''1000'' else Some ''4294967295''),
      proc_environ = (\<lambda>p. None),
      proc_comm = (\<lambda>p. Some ''docker''),
      proc_cmdline = (\<lambda>p. Some (''docker'' @ [nul] @ ''--tls'' @ [nul] @ ''ps'' @ [nul] @ ''-a'' @ [nul]))\<rparr>"

definition demo_cred :: Ucred where
  "demo_cred = \<lparr>ucPid = 7, ucUid = 0, ucGid = 0\<rparr>"

definition demo_identity :: CallerIdentity where
  "demo_identity =
     \<lparr>RealUsername = ''alice'', RealUID = 1000, RealGID = 100, EffectiveUsername = ''root'',
      EffectiveUID = 0, EffectiveGID = 0, LoginUID = 1000, LoginUsername = ''alice'', PID = 7,
      ProcessName = ''docker'', CmdLine = ''docker --tls ps -a'', DockerCommand = ''ps'',
      SwitchedIdentity = True, idUserType = UserTypeSudo, idAuthSource = AuthSourceNone,
      ClientAddr = [], ConfigPrivileged = False\<rparr>"

lemma demo_resolves: "ResolveCallerIdentity demo_env (Peercred demo_cred) = Inr demo_identity"
  by code_simp

theorem resolve_privileged_iff_root_witness:
  "IsPrivileged demo_identity \<and> RealUID demo_identity > 0"
  using resolve_privileged_iff_root [OF demo_resolves]
  by (simp add: demo_identity_def demo_cred_def)

theorem resolve_name_bound_in_passwd_witness:
  "LookupUID demo_env ''alice'' = 1000 \<and> LookupUsername demo_env 1000 = ''alice''"
  using resolve_name_bound_in_passwd [OF demo_resolves] by (simp add: demo_identity_def)

theorem verify_after_resolve_witness:
  "VerifyIdentityAtRequest demo_env (Some demo_identity) = None"
proof -
  have "readProcStatus demo_env (ucPid demo_cred) = Inr (0, 0, 0, 0)" by code_simp
  then show ?thesis
    using verify_after_resolve [OF demo_resolves, of demo_env] by (simp add: demo_cred_def)
qed

text \<open>
  An identity that step 5 derives from a differing real uid in /proc (path 2: effective
  uid 0, real uid not 0) is refused by the check of its very first request when the process
  has not changed: the expected real uid of a switched caller is its effective uid.
\<close>

theorem su_origin_identity_always_refused:
  assumes "ResolveCallerIdentity env (Peercred uc) = Inr i" and "ucPid uc > 0"
    and "readProcStatus env (ucPid uc) = Inr (rUID, 0, rGID, eGID)" and "rUID \<noteq> 0"
  shows "VerifyIdentityAtRequest env (Some i) = Some (RealUIDChanged 0 rUID (ucPid uc))"
proof -
  from assms(1) obtain l lu r where
    log: "resolveLogin env (ucPid uc) = Inr (l, lu)" and
    real: "resolveReal env uc (readProcStatus env (ucPid uc)) l lu = Inr r" and
    fin: "finishIdentity env uc l lu r = Inr i"
    by (rule ResolveCallerIdentity_parts)
  have "ucUid uc = 0"
    using assms(1,3) by (auto simp: ResolveCallerIdentity_def Let_def split: if_splits)
  moreover have "(if idUserType i = UserTypeSudo then EffectiveUID i else RealUID i) = ucUid uc"
    using real log refl by (cases rule: resolveReal_cases)
      (simp_all add: finishIdentity_fields [OF fin])
  ultimately show ?thesis
    using assms finishIdentity_fields(5) [OF fin]
    by (simp add: VerifyIdentityAtRequest_def Let_def)
qed

definition demo_su_identity :: CallerIdentity where
  "demo_su_identity =
     demo_identity \<lparr>LoginUID := -1, LoginUsername := [], PID := 8\<rparr>"

theorem su_origin_identity_always_refused_witness:
  "VerifyIdentityAtRequest demo_env (Some demo_su_identity) = Some (RealUIDChanged 0 1000 8)"
proof -
  have "ResolveCallerIdentity demo_env (Peercred \<lparr>ucPid = 8, ucUid = 0, ucGid = 0\<rparr>) = Inr demo_su_identity"
    by code_simp
  moreover have "readProcStatus demo_env 8 = Inr (1000, 0, 100, 0)" by code_simp
  ultimately show ?thesis
    using su_origin_identity_always_refused by fastforce
qed

text \<open>
  The docker sub-command read from a command line: the words before the first one whose
  base name is docker and the options after it are skipped, and a command group is joined with
  the sub-command that follows it.
\<close>

theorem parseDockerCommand_words:
  assumes "list_all is_word (pre @ docker # flags @ cmd # rest)"
    and "list_all (\<lambda>w. base_name w \<noteq> ''docker'') pre" and "base_name docker = ''docker''"
    and "list_all (\<lambda>w. has_prefix w ''-'') flags" and "\<not> has_prefix cmd ''-''"
  shows "parseDockerCommand (join_str '' '' (pre @ docker # flags @ cmd # rest)) =
           (if cmd \<in> set compoundGroups
            then (case dropWhile (\<lambda>a. has_prefix a ''-'') rest of
                    [] \<Rightarrow> cmd | arg # _ \<Rightarrow> cmd @ ''/'' @ arg)
            else cmd)"
proof -
  let ?ws = "pre @ docker # flags @ cmd # rest"
  have f: "fields_str (join_str '' '' ?ws) = ?ws"
    by (rule fields_str_join [OF assms(1)])
  then have "join_str '' '' ?ws \<noteq> []" by (metis fields_str_Nil append_is_Nil_conv list.distinct(1))
  moreover have "dropWhile (\<lambda>p. base_name p \<noteq> ''docker'') ?ws = docker # flags @ cmd # rest"
    using assms(2,3) by (simp add: dropWhile_append list_all_iff)
  moreover have "dropWhile (\<lambda>a. has_prefix a ''-'') (flags @ cmd # rest) = cmd # rest"
    using assms(4,5) by (simp add: dropWhile_append list_all_iff)
  moreover have "cmd \<noteq> []" using assms(1) by (simp add: is_word_def)
  ultimately show ?thesis
    by (simp add: parseDockerCommand_def f)
qed

theorem parseDockerCommand_words_witness:
  "parseDockerCommand ''sudo /usr/bin/docker --tls container --x ls -a'' = ''container/ls''"
  using parseDockerCommand_words
    [of "[''sudo'']" "''/usr/bin/docker''" "[''--tls'']" "''container''" "[''--x'', ''ls'', ''-a'']"]
  by (simp add: is_word_def is_space_def base_name_def last_index_char_def compoundGroups_def)

text \<open>
  A client certificate yields an identity only after it verified, with the uid that
  /etc/passwd gives for its common name; such an identity is privileged only for uid 0.
\<close>

theorem cert_identity_verified:
  assumes "CertAuthenticate certVerify env certs = Inr (Some i)"
  shows "\<exists>c rest. certs = Some (c # rest) \<and> certVerify c = None \<and> certCN c \<noteq> []
           \<and> RealUID i = LookupUID env (certCN c) \<and> RealUID i \<ge> 0 \<and> RealUsername i = certCN c
           \<and> (IsPrivileged i \<longleftrightarrow> LookupUID env (certCN c) = 0)"
  using assms
  by (auto simp: CertAuthenticate_def tcp_identity_def IsPrivileged_def UserTypeFromUID_def Let_def
      split: option.splits list.splits if_splits)

theorem cert_identity_verified_witness:
  "LookupUID demo_env ''alice'' = 1000 \<and>
   (\<exists>i. CertAuthenticate (\<lambda>_. None) demo_env (Some [\<lparr>certCN = ''alice'', certRaw = []\<rparr>]) = Inr (Some i)
        \<and> RealUID i = 1000 \<and> \<not> IsPrivileged i)"
proof -
  have l: "LookupUID demo_env ''alice'' = 1000" by code_simp
  then have ex: "CertAuthenticate (\<lambda>_. None) demo_env (Some [\<lparr>certCN = ''alice'', certRaw = []\<rparr>])
      = Inr (Some (tcp_identity ''alice'' 1000 (LookupPrimaryGID demo_env ''alice'') AuthSourceCert))"
    by (simp add: CertAuthenticate_def Let_def)
  show ?thesis
    using cert_identity_verified [OF ex] l ex by auto
qed

end
