(* ===== verification/Policy.thy ===== *)
theory Policy
  imports Identity
begin

text \<open>
  Package \<^verbatim>\<open>internal/authz\<close>, file \<^verbatim>\<open>policy.go\<close>: the deny rules read from
  \<^verbatim>\<open>policy.yaml\<close> and their resolution to uids and gids, the decision
  \<^verbatim>\<open>IsDenied\<close>, and the classification of an HTTP request by method and path into the
  action name that the rules speak about.
\<close>

section \<open>Action names\<close>

abbreviation ActionPS :: string where
  "ActionPS \<equiv> ''ps''"

abbreviation ActionCreateContainer :: string where
  "ActionCreateContainer \<equiv> ''create_container''"

abbreviation ActionStartContainer :: string where
  "ActionStartContainer \<equiv> ''start''"

abbreviation ActionRestart :: string where
  "ActionRestart \<equiv> ''restart''"

abbreviation ActionStop :: string where
  "ActionStop \<equiv> ''stop''"

abbreviation ActionKill :: string where
  "ActionKill \<equiv> ''kill''"

abbreviation ActionPause :: string where
  "ActionPause \<equiv> ''pause''"

abbreviation ActionUnpause :: string where
  "ActionUnpause \<equiv> ''unpause''"

abbreviation ActionRename :: string where
  "ActionRename \<equiv> ''rename''"

abbreviation ActionUpdate :: string where
  "ActionUpdate \<equiv> ''update''"

abbreviation ActionRemoveContainer :: string where
  "ActionRemoveContainer \<equiv> ''rm''"

abbreviation ActionExec :: string where
  "ActionExec \<equiv> ''exec''"

abbreviation ActionAttach :: string where
  "ActionAttach \<equiv> ''attach''"

abbreviation ActionInspect :: string where
  "ActionInspect \<equiv> ''inspect''"

abbreviation ActionPort :: string where
  "ActionPort \<equiv> ''port''"

abbreviation ActionLogs :: string where
  "ActionLogs \<equiv> ''logs''"

abbreviation ActionDiff :: string where
  "ActionDiff \<equiv> ''diff''"

abbreviation ActionCp :: string where
  "ActionCp \<equiv> ''cp''"

abbreviation ActionExport :: string where
  "ActionExport \<equiv> ''export''"

abbreviation ActionCommit :: string where
  "ActionCommit \<equiv> ''commit''"

abbreviation ActionWait :: string where
  "ActionWait \<equiv> ''wait''"

abbreviation ActionImages :: string where
  "ActionImages \<equiv> ''images''"

abbreviation ActionPull :: string where
  "ActionPull \<equiv> ''pull''"

abbreviation ActionImport :: string where
  "ActionImport \<equiv> ''import''"

abbreviation ActionLoad :: string where
  "ActionLoad \<equiv> ''load''"

abbreviation ActionSave :: string where
  "ActionSave \<equiv> ''save''"

abbreviation ActionBuild :: string where
  "ActionBuild \<equiv> ''build''"

abbreviation ActionPush :: string where
  "ActionPush \<equiv> ''push''"

abbreviation ActionRemoveImage :: string where
  "ActionRemoveImage \<equiv> ''rmi''"

abbreviation ActionTag :: string where
  "ActionTag \<equiv> ''tag''"

abbreviation ActionHistory :: string where
  "ActionHistory \<equiv> ''history''"

abbreviation ActionSearch :: string where
  "ActionSearch \<equiv> ''search''"

abbreviation ActionPrune :: string where
  "ActionPrune \<equiv> ''prune''"

abbreviation ActionNetworkList :: string where
  "ActionNetworkList \<equiv> ''network_ls''"

abbreviation ActionNetworkInspect :: string where
  "ActionNetworkInspect \<equiv> ''network_inspect''"

abbreviation ActionNetworkCreate :: string where
  "ActionNetworkCreate \<equiv> ''network_create''"

abbreviation ActionNetworkConnect :: string where
  "ActionNetworkConnect \<equiv> ''network_connect''"

abbreviation ActionNetworkDisconnect :: string where
  "ActionNetworkDisconnect \<equiv> ''network_disconnect''"

abbreviation ActionNetworkRemove :: string where
  "ActionNetworkRemove \<equiv> ''network_rm''"

abbreviation ActionVolumeList :: string where
  "ActionVolumeList \<equiv> ''volume_ls''"

abbreviation ActionVolumeInspect :: string where
  "ActionVolumeInspect \<equiv> ''volume_inspect''"

abbreviation ActionVolumeCreate :: string where
  "ActionVolumeCreate \<equiv> ''volume_create''"

abbreviation ActionVolumeRemove :: string where
  "ActionVolumeRemove \<equiv> ''volume_rm''"

abbreviation ActionSystemInfo :: string where
  "ActionSystemInfo \<equiv> ''info''"

abbreviation ActionSystemVersion :: string where
  "ActionSystemVersion \<equiv> ''version''"

abbreviation ActionSystemDF :: string where
  "ActionSystemDF \<equiv> ''df''"

abbreviation ActionSystemEvents :: string where
  "ActionSystemEvents \<equiv> ''events''"

abbreviation ActionSystemLogin :: string where
  "ActionSystemLogin \<equiv> ''login''"

abbreviation ActionSwarm :: string where
  "ActionSwarm \<equiv> ''swarm''"

abbreviation ActionSwarmInspect :: string where
  "ActionSwarmInspect \<equiv> ''swarm_inspect''"

abbreviation ActionSwarmInit :: string where
  "ActionSwarmInit \<equiv> ''swarm_init''"

abbreviation ActionSwarmJoin :: string where
  "ActionSwarmJoin \<equiv> ''swarm_join''"

abbreviation ActionSwarmLeave :: string where
  "ActionSwarmLeave \<equiv> ''swarm_leave''"

abbreviation ActionSwarmUpdate :: string where
  "ActionSwarmUpdate \<equiv> ''swarm_update''"

abbreviation ActionSwarmUnlock :: string where
  "ActionSwarmUnlock \<equiv> ''swarm_unlock''"

abbreviation ActionNodeList :: string where
  "ActionNodeList \<equiv> ''node_ls''"

abbreviation ActionNodeInspect :: string where
  "ActionNodeInspect \<equiv> ''node_inspect''"

abbreviation ActionNodeUpdate :: string where
  "ActionNodeUpdate \<equiv> ''node_update''"

abbreviation ActionNodeRemove :: string where
  "ActionNodeRemove \<equiv> ''node_rm''"

abbreviation ActionServiceList :: string where
  "ActionServiceList \<equiv> ''service_ls''"

abbreviation ActionServiceCreate :: string where
  "ActionServiceCreate \<equiv> ''service_create''"

abbreviation ActionServiceInspect :: string where
  "ActionServiceInspect \<equiv> ''service_inspect''"

abbreviation ActionServiceUpdate :: string where
  "ActionServiceUpdate \<equiv> ''service_update''"

abbreviation ActionServiceRemove :: string where
  "ActionServiceRemove \<equiv> ''service_rm''"

abbreviation ActionServiceLogs :: string where
  "ActionServiceLogs \<equiv> ''service_logs''"

abbreviation ActionTaskList :: string where
  "ActionTaskList \<equiv> ''task_ls''"

abbreviation ActionTaskInspect :: string where
  "ActionTaskInspect \<equiv> ''task_inspect''"

abbreviation ActionSecretList :: string where
  "ActionSecretList \<equiv> ''secret_ls''"

abbreviation ActionSecretCreate :: string where
  "ActionSecretCreate \<equiv> ''secret_create''"

abbreviation ActionSecretInspect :: string where
  "ActionSecretInspect \<equiv> ''secret_inspect''"

abbreviation ActionSecretUpdate :: string where
  "ActionSecretUpdate \<equiv> ''secret_update''"

abbreviation ActionSecretRemove :: string where
  "ActionSecretRemove \<equiv> ''secret_rm''"

abbreviation ActionConfigList :: string where
  "ActionConfigList \<equiv> ''config_ls''"

abbreviation ActionConfigCreate :: string where
  "ActionConfigCreate \<equiv> ''config_create''"

abbreviation ActionConfigInspect :: string where
  "ActionConfigInspect \<equiv> ''config_inspect''"

abbreviation ActionConfigUpdate :: string where
  "ActionConfigUpdate \<equiv> ''config_update''"

abbreviation ActionConfigRemove :: string where
  "ActionConfigRemove \<equiv> ''config_rm''"

abbreviation ActionPlugin :: string where
  "ActionPlugin \<equiv> ''plugin''"

abbreviation ActionPluginList :: string where
  "ActionPluginList \<equiv> ''plugin_ls''"

abbreviation ActionPluginInspect :: string where
  "ActionPluginInspect \<equiv> ''plugin_inspect''"

abbreviation ActionPluginInstall :: string where
  "ActionPluginInstall \<equiv> ''plugin_install''"

abbreviation ActionPluginRemove :: string where
  "ActionPluginRemove \<equiv> ''plugin_rm''"

abbreviation ActionPluginEnable :: string where
  "ActionPluginEnable \<equiv> ''plugin_enable''"

abbreviation ActionPluginDisable :: string where
  "ActionPluginDisable \<equiv> ''plugin_disable''"

abbreviation ActionPluginUpgrade :: string where
  "ActionPluginUpgrade \<equiv> ''plugin_upgrade''"

abbreviation ActionPluginSet :: string where
  "ActionPluginSet \<equiv> ''plugin_set''"

abbreviation ActionPluginPush :: string where
  "ActionPluginPush \<equiv> ''plugin_push''"

abbreviation ActionPluginCreate :: string where
  "ActionPluginCreate \<equiv> ''plugin_create''"

abbreviation ActionSecret :: string where
  "ActionSecret \<equiv> ''secret''"

abbreviation ActionConfig :: string where
  "ActionConfig \<equiv> ''config''"

abbreviation ActionBuilderManage :: string where
  "ActionBuilderManage \<equiv> ''builder_manage''"

abbreviation ActionContextList :: string where
  "ActionContextList \<equiv> ''context_ls''"

abbreviation ActionContextCreate :: string where
  "ActionContextCreate \<equiv> ''context_create''"

abbreviation ActionContextRemove :: string where
  "ActionContextRemove \<equiv> ''context_rm''"

abbreviation ActionContextInspect :: string where
  "ActionContextInspect \<equiv> ''context_inspect''"

abbreviation ActionContextUpdate :: string where
  "ActionContextUpdate \<equiv> ''context_update''"

abbreviation ActionContextExport :: string where
  "ActionContextExport \<equiv> ''context_export''"

abbreviation ActionContextImport :: string where
  "ActionContextImport \<equiv> ''context_import''"

abbreviation ActionContextUse :: string where
  "ActionContextUse \<equiv> ''context_use''"

abbreviation ActionManifestInspect :: string where
  "ActionManifestInspect \<equiv> ''manifest_inspect''"

abbreviation ActionManifestCreate :: string where
  "ActionManifestCreate \<equiv> ''manifest_create''"

abbreviation ActionManifestPush :: string where
  "ActionManifestPush \<equiv> ''manifest_push''"

abbreviation ActionManifestAnnotate :: string where
  "ActionManifestAnnotate \<equiv> ''manifest_annotate''"

abbreviation ActionManifestRemove :: string where
  "ActionManifestRemove \<equiv> ''manifest_rm''"

abbreviation ActionOther :: string where
  "ActionOther \<equiv> ''other''"

section \<open>The policy object\<close>

record DenyRule =
  drUsers :: "string list"
  drGroups :: "string list"
  drActions :: "string list"

record PolicyConfig =
  pcVersion :: int
  DefaultAction :: string
  DenyRules :: "DenyRule list"
  PrivilegedUsers :: "string list"
  pcActionMapping :: "(string \<times> string list) list"

text \<open>The action set of a resolved rule is the list of its keys.\<close>

record ResolvedDenyRule =
  rrUIDs :: "int list"
  rrGIDs :: "int list"
  rrUsernames :: "string list"
  rrGroups :: "string list"
  rrActions :: "string list"

record Policy =
  polConfig :: PolicyConfig
  ResolvedDenyRules :: "ResolvedDenyRule list"
  UnresolvedNames :: "string list"
  privUIDs :: "int list"

text \<open>The switch over one action name of a rule.\<close>

definition expand_action :: "string \<Rightarrow> string list" where
  "expand_action a =
     (if a = ''run'' then [ActionCreateContainer, ActionStartContainer]
      else if a = ''stop'' then [ActionStop, ActionKill]
      else if a = ''plugin'' then
        [ActionPluginList, ActionPluginInspect, ActionPluginInstall, ActionPluginRemove,
         ActionPluginEnable, ActionPluginDisable, ActionPluginUpgrade, ActionPluginSet,
         ActionPluginPush, ActionPluginCreate]
      else if a = ''swarm'' then
        [ActionSwarmInspect, ActionSwarmInit, ActionSwarmJoin, ActionSwarmLeave, ActionSwarmUpdate,
         ActionSwarmUnlock, ActionNodeList, ActionNodeInspect, ActionNodeUpdate, ActionNodeRemove,
         ActionServiceList, ActionServiceCreate, ActionServiceInspect, ActionServiceUpdate,
         ActionServiceRemove, ActionServiceLogs, ActionTaskList, ActionTaskInspect]
      else if a = ''secret'' then
        [ActionSecretList, ActionSecretCreate, ActionSecretInspect, ActionSecretUpdate,
         ActionSecretRemove]
      else if a = ''config'' then
        [ActionConfigList, ActionConfigCreate, ActionConfigInspect, ActionConfigUpdate,
         ActionConfigRemove]
      else if a = ''history'' then [ActionHistory]
      else [a])"

text \<open>One user name and one group name of a rule; the state is the rule and the unresolved names.\<close>

definition resolve_user ::
  "os_env \<Rightarrow> string \<Rightarrow> ResolvedDenyRule \<times> string list \<Rightarrow> ResolvedDenyRule \<times> string list" where
  "resolve_user env u st =
     (case st of (r, un) \<Rightarrow>
        (let uid = LookupUID env u in
         if uid \<ge> 0
         then (r \<lparr>rrUIDs := rrUIDs r @ [uid], rrUsernames := rrUsernames r @ [u]\<rparr>, un)
         else (r, un @ [u])))"

definition resolve_group ::
  "os_env \<Rightarrow> string \<Rightarrow> ResolvedDenyRule \<times> string list \<Rightarrow> ResolvedDenyRule \<times> string list" where
  "resolve_group env g st =
     (case st of (r, un) \<Rightarrow>
        (let gid = LookupGroupGID env g in
         if gid \<ge> 0
         then (r \<lparr>rrGIDs := rrGIDs r @ [gid], rrGroups := rrGroups r @ [g]\<rparr>, un)
         else (r, un @ [g])))"

definition resolve_rule :: "os_env \<Rightarrow> DenyRule \<Rightarrow> Policy \<Rightarrow> Policy" where
  "resolve_rule env rule p =
     (let r0 = \<lparr>rrUIDs = [], rrGIDs = [], rrUsernames = [], rrGroups = [],
                rrActions = concat (map expand_action (drActions rule))\<rparr>;
          (r, un) = fold (resolve_group env) (drGroups rule)
                      (fold (resolve_user env) (drUsers rule) (r0, UnresolvedNames p));
          p1 = p \<lparr>UnresolvedNames := un\<rparr>
      in if rrUIDs r \<noteq> [] \<or> rrGIDs r \<noteq> []
         then p1 \<lparr>ResolvedDenyRules := ResolvedDenyRules p1 @ [r]\<rparr> else p1)"

definition resolve_privileged :: "os_env \<Rightarrow> string \<Rightarrow> Policy \<Rightarrow> Policy" where
  "resolve_privileged env u p =
     (let uid = LookupUID env u in
      if uid \<ge> 0 then p \<lparr>privUIDs := privUIDs p @ [uid]\<rparr>
      else p \<lparr>UnresolvedNames := UnresolvedNames p @ [u]\<rparr>)"

definition resolve :: "os_env \<Rightarrow> Policy \<Rightarrow> Policy" where
  "resolve env p =
     fold (resolve_privileged env) (PrivilegedUsers (polConfig p))
       ((fold (resolve_rule env) (DenyRules (polConfig p)) p) \<lparr>privUIDs := []\<rparr>)"

text \<open>
  \<^verbatim>\<open>LoadPolicy\<close>: the file's content, \<^term>\<open>None\<close> for a read error, and the YAML
  decoder as a parameter.
\<close>

datatype load_error = FileError | YamlError string

definition LoadPolicy ::
  "(string \<Rightarrow> (string, PolicyConfig) result) \<Rightarrow> os_env \<Rightarrow> string option \<Rightarrow> (load_error, Policy) result" where
  "LoadPolicy yamlUnmarshal env file =
     (case file of
        None \<Rightarrow> Inl FileError
      | Some data \<Rightarrow>
          (case yamlUnmarshal data of
             Inl e \<Rightarrow> Inl (YamlError e)
           | Inr cfg \<Rightarrow>
               (let cfg1 = (if DefaultAction cfg = [] then cfg \<lparr>DefaultAction := ''allow''\<rparr> else cfg)
                in Inr (resolve env \<lparr>polConfig = cfg1, ResolvedDenyRules = [],
                                     UnresolvedNames = [], privUIDs = []\<rparr>))))"

text \<open>The receiver is \<^term>\<open>None\<close> for a nil policy, the caller for a nil identity.\<close>

definition IsConfigPrivileged :: "Policy option \<Rightarrow> CallerIdentity option \<Rightarrow> bool" where
  "IsConfigPrivileged op oi =
     (case (op, oi) of
        (Some p, Some i) \<Rightarrow> (if RealUID i < 0 then False else RealUID i \<in> set (privUIDs p))
      | _ \<Rightarrow> False)"

definition rule_denies :: "CallerIdentity \<Rightarrow> int list \<Rightarrow> string \<Rightarrow> ResolvedDenyRule \<Rightarrow> bool" where
  "rule_denies i userGroups action rule \<longleftrightarrow>
     action \<in> set (rrActions rule) \<and>
     (list_ex (\<lambda>uid. uid = RealUID i) (rrUIDs rule) \<or>
      list_ex (\<lambda>gid. list_ex (\<lambda>userGID. gid = userGID) userGroups) (rrGIDs rule))"

definition IsDenied :: "os_env \<Rightarrow> Policy \<Rightarrow> CallerIdentity \<Rightarrow> string \<Rightarrow> bool" where
  "IsDenied env p i action =
     (let userGroups = GetUserGroups env (RealUID i) in
      list_ex (rule_denies i userGroups action) (ResolvedDenyRules p))"

definition DefaultAllowPolicy :: Policy where
  "DefaultAllowPolicy =
     \<lparr>polConfig = \<lparr>pcVersion = 1, DefaultAction = ''allow'', DenyRules = [], PrivilegedUsers = [],
                   pcActionMapping = []\<rparr>,
      ResolvedDenyRules = [], UnresolvedNames = [], privUIDs = []\<rparr>"

section \<open>Classification of requests\<close>

definition cmdActionOverrides :: "string \<rightharpoonup> string" where
  "cmdActionOverrides = map_of [(''port'', ActionPort), (''container/port'', ActionPort)]"

definition OverrideActionByCommand :: "string \<Rightarrow> string \<Rightarrow> string" where
  "OverrideActionByCommand dockerCmd action =
     (case cmdActionOverrides dockerCmd of Some a \<Rightarrow> a | None \<Rightarrow> action)"

definition isVersionString :: "string \<Rightarrow> bool" where
  "isVersionString s \<longleftrightarrow> list_all (\<lambda>c. is_digit c \<or> c = CHR ''.'') s \<and> s \<noteq> []"

definition StripAPIVersion :: "string \<Rightarrow> string" where
  "StripAPIVersion uri =
     (if length uri > 2 \<and> uri ! 0 = CHR ''/'' \<and> uri ! 1 = CHR ''v'' then
        (let rest = drop 2 uri in
         case index_char CHR ''/'' rest of
           None \<Rightarrow> uri
         | Some slash \<Rightarrow>
             (if slash > 0 \<and> isVersionString (take slash rest) then drop slash rest else uri))
      else uri)"

definition pathMatches :: "string \<Rightarrow> string \<Rightarrow> bool" where
  "pathMatches path pattern \<longleftrightarrow> trim_right path ''/'' = trim_right pattern ''/''"

definition pathMatchesN :: "string \<Rightarrow> string \<Rightarrow> string \<Rightarrow> bool" where
  "pathMatchesN path pfx sfx =
     (if \<not> has_prefix path pfx then False
      else (let rest = drop (length pfx) path in
            case index_char CHR ''/'' rest of
              None \<Rightarrow> False
            | Some slashIdx \<Rightarrow> trim_right (drop slashIdx rest) ''/'' = trim_right sfx ''/''))"

definition pathHasPrefix :: "string \<Rightarrow> string \<Rightarrow> bool" where
  "pathHasPrefix path pfx = has_prefix path pfx"

text \<open>The sections of the switch of \<^verbatim>\<open>ClassifyAction\<close>, in the order of the source.\<close>

definition classify_containers :: "string \<Rightarrow> string \<Rightarrow> string option" where
  "classify_containers method path =
     (if method = ''GET'' \<and> pathMatches path ''/containers/json'' then
        Some ActionPS
      else if method = ''POST'' \<and> pathMatches path ''/containers/prune'' then
        Some ActionPrune
      else if method = ''POST'' \<and> pathMatches path ''/containers/create'' then
        Some ActionCreateContainer
      else if method = ''POST'' \<and> pathMatchesN path ''/containers/'' ''/start'' then
        Some ActionStartContainer
      else if method = ''POST'' \<and> pathMatchesN path ''/containers/'' ''/restart'' then
        Some ActionRestart
      else if method = ''POST'' \<and> pathMatchesN path ''/containers/'' ''/stop'' then
        Some ActionStop
      else if method = ''POST'' \<and> pathMatchesN path ''/containers/'' ''/kill'' then
        Some ActionKill
      else if method = ''POST'' \<and> pathMatchesN path ''/containers/'' ''/pause'' then
        Some ActionPause
      else if method = ''POST'' \<and> pathMatchesN path ''/containers/'' ''/unpause'' then
        Some ActionUnpause
      else if method = ''POST'' \<and> pathMatchesN path ''/containers/'' ''/rename'' then
        Some ActionRename
      else if method = ''POST'' \<and> pathMatchesN path ''/containers/'' ''/update'' then
        Some ActionUpdate
      else if method = ''POST'' \<and> pathMatchesN path ''/containers/'' ''/wait'' then
        Some ActionWait
      else if method = ''DELETE'' \<and> pathHasPrefix path ''/containers/'' then
        Some ActionRemoveContainer
      else if method = ''POST'' \<and> (pathMatchesN path ''/containers/'' ''/exec'' \<or> pathMatchesN path ''/containers/'' ''/resize'') then
        Some ActionExec
      else if method = ''POST'' \<and> pathMatchesN path ''/containers/'' ''/attach'' then
        Some ActionAttach
      else if method = ''GET'' \<and> pathHasPrefix path ''/containers/'' \<and> contains_str path ''/attach'' then
        Some ActionAttach
      else if method = ''POST'' \<and> (pathMatchesN path ''/exec/'' ''/start'' \<or> pathMatchesN path ''/exec/'' ''/resize'') then
        Some ActionExec
      else if method = ''GET'' \<and> pathMatchesN path ''/exec/'' ''/json'' then
        Some ActionInspect
      else if method = ''GET'' \<and> (pathMatchesN path ''/containers/'' ''/json'' \<or> pathMatchesN path ''/containers/'' ''/processes'') then
        Some ActionInspect
      else if method = ''GET'' \<and> (pathMatchesN path ''/containers/'' ''/logs'' \<or> pathMatchesN path ''/containers/'' ''/stats'' \<or> pathMatchesN path ''/containers/'' ''/top'') then
        Some ActionLogs
      else if method = ''GET'' \<and> pathMatchesN path ''/containers/'' ''/changes'' then
        Some ActionDiff
      else if (method = ''GET'' \<or> method = ''HEAD'') \<and> pathMatchesN path ''/containers/'' ''/archive'' then
        Some ActionCp
      else if method = ''PUT'' \<and> pathMatchesN path ''/containers/'' ''/archive'' then
        Some ActionCp
      else if method = ''GET'' \<and> pathMatchesN path ''/containers/'' ''/export'' then
        Some ActionExport
      else if method = ''POST'' \<and> pathMatches path ''/commit'' then
        Some ActionCommit
      else None)"

definition classify_images :: "string \<Rightarrow> string \<Rightarrow> string \<Rightarrow> string option" where
  "classify_images method path query =
     (if method = ''GET'' \<and> pathMatches path ''/images/json'' then
        Some ActionImages
      else if method = ''GET'' \<and> pathMatches path ''/images/search'' then
        Some ActionSearch
      else if method = ''GET'' \<and> pathMatches path ''/images/get'' then
        Some ActionSave
      else if method = ''POST'' \<and> pathMatches path ''/images/prune'' then
        Some ActionPrune
      else if method = ''POST'' \<and> pathMatches path ''/images/create'' then
        (if contains_str query ''fromSrc='' then Some ActionImport else Some ActionPull)
      else if method = ''POST'' \<and> pathMatches path ''/images/load'' then
        Some ActionLoad
      else if method = ''POST'' \<and> (pathMatches path ''/build'' \<or> pathMatches path ''/images/build'' \<or> pathMatches path ''/grpc'') then
        Some ActionBuild
      else if method = ''POST'' \<and> pathMatches path ''/build/prune'' then
        Some ActionPrune
      else if method = ''POST'' \<and> pathMatchesN path ''/images/'' ''/push'' then
        Some ActionPush
      else if method = ''DELETE'' \<and> pathHasPrefix path ''/images/'' then
        Some ActionRemoveImage
      else if method = ''GET'' \<and> pathMatchesN path ''/images/'' ''/history'' then
        Some ActionHistory
      else if method = ''GET'' \<and> pathMatchesN path ''/images/'' ''/json'' then
        Some ActionInspect
      else if method = ''POST'' \<and> pathMatchesN path ''/images/'' ''/tag'' then
        Some ActionTag
      else if method = ''GET'' \<and> pathMatchesN path ''/images/'' ''/get'' then
        Some ActionSave
      else if method = ''GET'' \<and> pathMatchesN path ''/distribution/'' ''/json'' then
        Some ActionInspect
      else None)"

definition classify_networks :: "string \<Rightarrow> string \<Rightarrow> string option" where
  "classify_networks method path =
     (if method = ''GET'' \<and> pathMatches path ''/networks'' then
        Some ActionNetworkList
      else if method = ''POST'' \<and> pathMatches path ''/networks/create'' then
        Some ActionNetworkCreate
      else if method = ''POST'' \<and> pathMatches path ''/networks/prune'' then
        Some ActionPrune
      else if method = ''POST'' \<and> pathMatchesN path ''/networks/'' ''/connect'' then
        Some ActionNetworkConnect
      else if method = ''POST'' \<and> pathMatchesN path ''/networks/'' ''/disconnect'' then
        Some ActionNetworkDisconnect
      else if method = ''DELETE'' \<and> pathHasPrefix path ''/networks/'' then
        Some ActionNetworkRemove
      else if method = ''GET'' \<and> pathHasPrefix path ''/networks/'' then
        Some ActionNetworkInspect
      else None)"

definition classify_volumes :: "string \<Rightarrow> string \<Rightarrow> string option" where
  "classify_volumes method path =
     (if method = ''GET'' \<and> pathMatches path ''/volumes'' then
        Some ActionVolumeList
      else if method = ''POST'' \<and> pathMatches path ''/volumes/create'' then
        Some ActionVolumeCreate
      else if method = ''POST'' \<and> pathMatches path ''/volumes/prune'' then
        Some ActionPrune
      else if method = ''DELETE'' \<and> pathHasPrefix path ''/volumes/'' then
        Some ActionVolumeRemove
      else if method = ''GET'' \<and> pathHasPrefix path ''/volumes/'' then
        Some ActionVolumeInspect
      else None)"

definition classify_system :: "string \<Rightarrow> string \<Rightarrow> string option" where
  "classify_system method path =
     (if (method = ''GET'' \<or> method = ''HEAD'') \<and> pathMatches path ''/_ping'' then
        Some ActionSystemInfo
      else if method = ''GET'' \<and> pathMatches path ''/info'' then
        Some ActionSystemInfo
      else if method = ''GET'' \<and> pathMatches path ''/version'' then
        Some ActionSystemVersion
      else if method = ''GET'' \<and> pathMatches path ''/system/df'' then
        Some ActionSystemDF
      else if method = ''GET'' \<and> pathMatches path ''/events'' then
        Some ActionSystemEvents
      else if method = ''POST'' \<and> pathMatches path ''/auth'' then
        Some ActionSystemLogin
      else if method = ''POST'' \<and> pathMatches path ''/system/prune'' then
        Some ActionPrune
      else None)"

definition classify_swarm :: "string \<Rightarrow> string \<Rightarrow> string option" where
  "classify_swarm method path =
     (if method = ''GET'' \<and> pathMatches path ''/swarm'' then
        Some ActionSwarmInspect
      else if method = ''POST'' \<and> pathMatches path ''/swarm/init'' then
        Some ActionSwarmInit
      else if method = ''POST'' \<and> pathMatches path ''/swarm/join'' then
        Some ActionSwarmJoin
      else if method = ''POST'' \<and> pathMatches path ''/swarm/leave'' then
        Some ActionSwarmLeave
      else if method = ''POST'' \<and> pathMatches path ''/swarm/update'' then
        Some ActionSwarmUpdate
      else if method = ''POST'' \<and> pathMatches path ''/swarm/unlock'' then
        Some ActionSwarmUnlock
      else if method = ''GET'' \<and> pathMatchesN path ''/swarm/'' ''/unlockkey'' then
        Some ActionSwarmUpdate
      else if pathHasPrefix path ''/swarm'' then
        Some ActionSwarmInspect
      else None)"

definition classify_nodes :: "string \<Rightarrow> string \<Rightarrow> string option" where
  "classify_nodes method path =
     (if method = ''GET'' \<and> pathMatches path ''/nodes'' then
        Some ActionNodeList
      else if method = ''DELETE'' \<and> pathHasPrefix path ''/nodes/'' then
        Some ActionNodeRemove
      else if method = ''POST'' \<and> pathMatchesN path ''/nodes/'' ''/update'' then
        Some ActionNodeUpdate
      else if pathHasPrefix path ''/nodes/'' then
        Some ActionNodeInspect
      else None)"

definition classify_services :: "string \<Rightarrow> string \<Rightarrow> string option" where
  "classify_services method path =
     (if method = ''GET'' \<and> pathMatches path ''/services'' then
        Some ActionServiceList
      else if method = ''POST'' \<and> pathMatches path ''/services/create'' then
        Some ActionServiceCreate
      else if method = ''DELETE'' \<and> pathHasPrefix path ''/services/'' then
        Some ActionServiceRemove
      else if method = ''POST'' \<and> pathMatchesN path ''/services/'' ''/update'' then
        Some ActionServiceUpdate
      else if method = ''GET'' \<and> pathMatchesN path ''/services/'' ''/logs'' then
        Some ActionServiceLogs
      else if pathHasPrefix path ''/services/'' then
        Some ActionServiceInspect
      else None)"

definition classify_tasks :: "string \<Rightarrow> string \<Rightarrow> string option" where
  "classify_tasks method path =
     (if method = ''GET'' \<and> pathMatches path ''/tasks'' then
        Some ActionTaskList
      else if pathHasPrefix path ''/tasks/'' then
        Some ActionTaskInspect
      else None)"

definition classify_secrets :: "string \<Rightarrow> string \<Rightarrow> string option" where
  "classify_secrets method path =
     (if method = ''GET'' \<and> pathMatches path ''/secrets'' then
        Some ActionSecretList
      else if method = ''POST'' \<and> pathMatches path ''/secrets/create'' then
        Some ActionSecretCreate
      else if method = ''DELETE'' \<and> pathHasPrefix path ''/secrets/'' then
        Some ActionSecretRemove
      else if method = ''POST'' \<and> pathMatchesN path ''/secrets/'' ''/update'' then
        Some ActionSecretUpdate
      else if pathHasPrefix path ''/secrets/'' then
        Some ActionSecretInspect
      else None)"

definition classify_configs :: "string \<Rightarrow> string \<Rightarrow> string option" where
  "classify_configs method path =
     (if method = ''GET'' \<and> pathMatches path ''/configs'' then
        Some ActionConfigList
      else if method = ''POST'' \<and> pathMatches path ''/configs/create'' then
        Some ActionConfigCreate
      else if method = ''DELETE'' \<and> pathHasPrefix path ''/configs/'' then
        Some ActionConfigRemove
      else if method = ''POST'' \<and> pathMatchesN path ''/configs/'' ''/update'' then
        Some ActionConfigUpdate
      else if pathHasPrefix path ''/configs/'' then
        Some ActionConfigInspect
      else None)"

definition classify_plugins :: "string \<Rightarrow> string \<Rightarrow> string option" where
  "classify_plugins method path =
     (if method = ''GET'' \<and> pathMatches path ''/plugins'' then
        Some ActionPluginList
      else if method = ''GET'' \<and> pathMatchesN path ''/plugins/'' ''/json'' then
        Some ActionPluginInspect
      else if method = ''POST'' \<and> pathMatches path ''/plugins/pull'' then
        Some ActionPluginInstall
      else if method = ''DELETE'' \<and> pathHasPrefix path ''/plugins/'' then
        Some ActionPluginRemove
      else if method = ''POST'' \<and> pathMatchesN path ''/plugins/'' ''/enable'' then
        Some ActionPluginEnable
      else if method = ''POST'' \<and> pathMatchesN path ''/plugins/'' ''/disable'' then
        Some ActionPluginDisable
      else if method = ''POST'' \<and> pathMatchesN path ''/plugins/'' ''/upgrade'' then
        Some ActionPluginUpgrade
      else if method = ''POST'' \<and> pathMatchesN path ''/plugins/'' ''/set'' then
        Some ActionPluginSet
      else if method = ''POST'' \<and> pathMatchesN path ''/plugins/'' ''/push'' then
        Some ActionPluginPush
      else if method = ''POST'' \<and> pathMatches path ''/plugins/create'' then
        Some ActionPluginCreate
      else if pathHasPrefix path ''/plugins'' then
        Some ActionPluginInspect
      else None)"

text \<open>The first section that matches decides.\<close>

fun first_some :: "'a option list \<Rightarrow> 'a option" where
  "first_some [] = None"
| "first_some (Some x # _) = Some x"
| "first_some (None # xs) = first_some xs"

definition strip_query :: "string \<Rightarrow> string" where
  "strip_query path = (case index_char CHR ''?'' path of None \<Rightarrow> path | Some idx \<Rightarrow> take idx path)"

definition query_part :: "string \<Rightarrow> string" where
  "query_part path = (case index_char CHR ''?'' path of None \<Rightarrow> [] | Some idx \<Rightarrow> drop (idx + 1) path)"

definition classify_path :: "string \<Rightarrow> string \<Rightarrow> string \<Rightarrow> string" where
  "classify_path method path query =
     (case first_some
             [classify_containers method path, classify_images method path query,
              classify_networks method path, classify_volumes method path,
              classify_system method path, classify_swarm method path,
              classify_nodes method path, classify_services method path,
              classify_tasks method path, classify_secrets method path,
              classify_configs method path, classify_plugins method path] of
        Some a \<Rightarrow> a
      | None \<Rightarrow> ActionOther)"

definition ClassifyAction :: "string \<Rightarrow> string \<Rightarrow> string" where
  "ClassifyAction method uri =
     (let path = StripAPIVersion uri in
      classify_path method (strip_query path) (query_part path))"

section \<open>Resource identifiers in a path\<close>

definition up_to_slash :: "string \<Rightarrow> string" where
  "up_to_slash rest = (case index_char CHR ''/'' rest of None \<Rightarrow> rest | Some idx \<Rightarrow> take idx rest)"

definition ExtractContainerID :: "string \<Rightarrow> string" where
  "ExtractContainerID uri =
     (let path = strip_query (StripAPIVersion uri) in
      if \<not> has_prefix path ''/containers/'' then []
      else up_to_slash (drop (length ''/containers/'') path))"

definition ExtractImageID :: "string \<Rightarrow> string" where
  "ExtractImageID uri =
     (let path = strip_query (StripAPIVersion uri) in
      if \<not> has_prefix path ''/images/'' then []
      else (let rest = drop (length ''/images/'') path in
            case last_index_char CHR ''/'' rest of None \<Rightarrow> rest | Some idx \<Rightarrow> take idx rest))"

definition extractSwarmResourceID :: "string \<Rightarrow> string \<Rightarrow> string" where
  "extractSwarmResourceID uri resourcePrefix =
     (let path = strip_query (StripAPIVersion uri) in
      if \<not> has_prefix path resourcePrefix then []
      else (let rest = drop (length resourcePrefix) path in
            if rest = [] \<or> rest = ''create'' \<or> rest = ''prune'' then []
            else up_to_slash rest))"

definition ExtractServiceID :: "string \<Rightarrow> string" where
  "ExtractServiceID uri = extractSwarmResourceID uri ''/services/''"

definition ExtractSecretID :: "string \<Rightarrow> string" where
  "ExtractSecretID uri = extractSwarmResourceID uri ''/secrets/''"

definition ExtractConfigID :: "string \<Rightarrow> string" where
  "ExtractConfigID uri = extractSwarmResourceID uri ''/configs/''"

definition ExtractNodeID :: "string \<Rightarrow> string" where
  "ExtractNodeID uri = extractSwarmResourceID uri ''/nodes/''"

section \<open>Lemmas on the resolution of rules\<close>

lemma fold_resolve_user:
  "fold (resolve_user env) us (r, un) =
     (r \<lparr>rrUIDs := rrUIDs r @ filter (\<lambda>n. n \<ge> 0) (map (LookupUID env) us),
         rrUsernames := rrUsernames r @ filter (\<lambda>u. LookupUID env u \<ge> 0) us\<rparr>,
      un @ filter (\<lambda>u. LookupUID env u < 0) us)"
  by (induction us arbitrary: r un) (auto simp: resolve_user_def Let_def)

lemma fold_resolve_group:
  "fold (resolve_group env) gs (r, un) =
     (r \<lparr>rrGIDs := rrGIDs r @ filter (\<lambda>n. n \<ge> 0) (map (LookupGroupGID env) gs),
         rrGroups := rrGroups r @ filter (\<lambda>g. LookupGroupGID env g \<ge> 0) gs\<rparr>,
      un @ filter (\<lambda>g. LookupGroupGID env g < 0) gs)"
  by (induction gs arbitrary: r un) (auto simp: resolve_group_def Let_def)

text \<open>Whom a rule of the file names, and what the file as a whole forbids.\<close>

definition rule_targets :: "os_env \<Rightarrow> os_env \<Rightarrow> DenyRule \<Rightarrow> CallerIdentity \<Rightarrow> bool" where
  "rule_targets env0 env rule i \<longleftrightarrow>
     (\<exists>u \<in> set (drUsers rule). LookupUID env0 u \<ge> 0 \<and> RealUID i = LookupUID env0 u) \<or>
     (\<exists>g \<in> set (drGroups rule). LookupGroupGID env0 g \<ge> 0 \<and>
        LookupGroupGID env0 g \<in> set (GetUserGroups env (RealUID i)))"

definition denied_by_config :: "os_env \<Rightarrow> os_env \<Rightarrow> PolicyConfig \<Rightarrow> CallerIdentity \<Rightarrow> string \<Rightarrow> bool" where
  "denied_by_config env0 env cfg i action \<longleftrightarrow>
     (\<exists>rule \<in> set (DenyRules cfg).
        (\<exists>a \<in> set (drActions rule). action \<in> set (expand_action a)) \<and> rule_targets env0 env rule i)"

lemma IsDenied_resolve_rule:
  "IsDenied env (resolve_rule env0 rule p) i action \<longleftrightarrow>
     IsDenied env p i action \<or>
     ((\<exists>a \<in> set (drActions rule). action \<in> set (expand_action a)) \<and> rule_targets env0 env rule i)"
  by (auto simp: resolve_rule_def fold_resolve_user fold_resolve_group IsDenied_def rule_denies_def
      rule_targets_def Let_def list_ex_iff filter_empty_conv image_iff)

lemma IsDenied_fold_resolve_rule:
  "IsDenied env (fold (resolve_rule env0) rules p) i action \<longleftrightarrow>
     IsDenied env p i action \<or>
     (\<exists>rule \<in> set rules. (\<exists>a \<in> set (drActions rule). action \<in> set (expand_action a))
        \<and> rule_targets env0 env rule i)"
  by (induction rules arbitrary: p) (auto simp: IsDenied_resolve_rule)

lemma polConfig_fold_resolve_rule [simp]:
  "polConfig (fold (resolve_rule env) rules p) = polConfig p"
  by (induction rules arbitrary: p)
    (auto simp: resolve_rule_def fold_resolve_user fold_resolve_group Let_def)

lemma fold_resolve_privileged:
  "ResolvedDenyRules (fold (resolve_privileged env) us p) = ResolvedDenyRules p"
  "set (privUIDs (fold (resolve_privileged env) us p)) =
     set (privUIDs p) \<union> {n \<in> LookupUID env ` set us. n \<ge> 0}"
  "UnresolvedNames (fold (resolve_privileged env) us p) =
     UnresolvedNames p @ filter (\<lambda>u. LookupUID env u < 0) us"
  by (induction us arbitrary: p) (auto simp: resolve_privileged_def Let_def)

lemma IsDenied_cong:
  "ResolvedDenyRules p = ResolvedDenyRules q \<Longrightarrow> IsDenied env p i action = IsDenied env q i action"
  by (simp add: IsDenied_def)

lemma LoadPolicy_ok:
  assumes "LoadPolicy yaml env (Some data) = Inr p" "yaml data = Inr cfg"
  obtains cfg1 where "DenyRules cfg1 = DenyRules cfg" "PrivilegedUsers cfg1 = PrivilegedUsers cfg"
    "p = resolve env \<lparr>polConfig = cfg1, ResolvedDenyRules = [], UnresolvedNames = [], privUIDs = []\<rparr>"
proof (rule that [of "if DefaultAction cfg = [] then cfg \<lparr>DefaultAction := ''allow''\<rparr> else cfg"])
qed (use assms in \<open>auto simp: LoadPolicy_def Let_def\<close>)

section \<open>Lemmas on paths\<close>

lemma trim_right_keep: "s \<noteq> [] \<Longrightarrow> last s \<notin> set cs \<Longrightarrow> trim_right s cs = s"
  by (cases s rule: rev_cases) (simp_all add: trim_right_def)

lemma append_char_neq: "c \<notin> set l \<Longrightarrow> (a @ c # b = l) = False"
  by auto

lemma index_char_id: "c \<notin> set a \<Longrightarrow> index_char c (a @ c # b) = Some (length a)"
  by (induction a) auto

lemma strip_query_path: "CHR ''?'' \<notin> set p \<Longrightarrow> q = [] \<or> hd q = CHR ''?'' \<Longrightarrow> strip_query (p @ q) = p"
  by (cases q) (auto simp: strip_query_def index_char_id index_char_None [THEN iffD2])

lemma isVersionString_noslash: "isVersionString v \<Longrightarrow> CHR ''/'' \<notin> set v"
  by (auto simp: isVersionString_def list_all_iff is_digit_def)

lemma StripAPIVersion_versioned:
  assumes "isVersionString v" "p \<noteq> []" "hd p = CHR ''/''"
  shows "StripAPIVersion (''/v'' @ v @ p) = p"
proof -
  obtain r where p: "p = CHR ''/'' # r" using assms(2,3) by (cases p) auto
  then show ?thesis
    using assms(1) index_char_id [OF isVersionString_noslash [OF assms(1)], of r]
    by (auto simp: StripAPIVersion_def isVersionString_def)
qed

lemma StripAPIVersion_plain: "\<not> has_prefix uri ''/v'' \<Longrightarrow> StripAPIVersion uri = uri"
  by (cases uri; cases "tl uri") (auto simp: StripAPIVersion_def)

lemma up_to_slash_id: "CHR ''/'' \<notin> set a \<Longrightarrow> up_to_slash (a @ CHR ''/'' # b) = a"
  by (simp add: up_to_slash_def index_char_id)

text \<open>A container request: optional version, the container, an operation, an optional query.\<close>

definition version_prefix :: "string \<Rightarrow> bool" where
  "version_prefix v \<longleftrightarrow> v = [] \<or> (\<exists>n. v = ''/v'' @ n \<and> isVersionString n)"

definition operation_path :: "string \<Rightarrow> string \<Rightarrow> string" where
  "operation_path cid operation = ''/containers/'' @ cid @ ''/'' @ operation"

lemma StripAPIVersion_container:
  "version_prefix v \<Longrightarrow> StripAPIVersion (v @ operation_path cid operation @ q) = operation_path cid operation @ q"
  unfolding version_prefix_def operation_path_def
  by (auto simp: StripAPIVersion_plain intro!: StripAPIVersion_versioned [simplified])

lemma pathMatches_container:
  assumes "operation \<noteq> []" "last operation \<noteq> CHR ''/''"
  shows "pathMatches (operation_path cid operation) pat \<longleftrightarrow>
           operation_path cid operation = trim_right pat ''/''"
  using assms by (simp add: pathMatches_def operation_path_def trim_right_keep)

lemma pathMatchesN_container:
  assumes "CHR ''/'' \<notin> set cid" "operation \<noteq> []" "last operation \<noteq> CHR ''/''"
  shows "pathMatchesN (operation_path cid operation) ''/containers/'' sfx \<longleftrightarrow>
           CHR ''/'' # operation = trim_right sfx ''/''"
  using assms by (simp add: pathMatchesN_def operation_path_def index_char_id trim_right_keep)

section \<open>Properties\<close>


definition demo_policy :: PolicyConfig where
  "demo_policy =
     \<lparr>pcVersion = 1, DefaultAction = [],
      DenyRules = [\<lparr>drUsers = [], drGroups = [''docker''], drActions = [''stop'']\<rparr>],
      PrivilegedUsers = [''alice''], pcActionMapping = []\<rparr>"


text \<open>The operations on one container, with the action each is filed under.\<close>

definition container_routes :: "(string \<times> string \<times> string) list" where
  "container_routes =
     [(''POST'', ''start'', ActionStartContainer), (''POST'', ''restart'', ActionRestart),
      (''POST'', ''stop'', ActionStop), (''POST'', ''kill'', ActionKill),
      (''POST'', ''pause'', ActionPause), (''POST'', ''unpause'', ActionUnpause),
      (''POST'', ''rename'', ActionRename), (''POST'', ''update'', ActionUpdate),
      (''POST'', ''wait'', ActionWait), (''POST'', ''exec'', ActionExec),
      (''POST'', ''resize'', ActionExec), (''POST'', ''attach'', ActionAttach),
      (''GET'', ''json'', ActionInspect), (''GET'', ''processes'', ActionInspect),
      (''GET'', ''logs'', ActionLogs), (''GET'', ''stats'', ActionLogs), (''GET'', ''top'', ActionLogs),
      (''GET'', ''changes'', ActionDiff), (''GET'', ''archive'', ActionCp), (''HEAD'', ''archive'', ActionCp),
      (''PUT'', ''archive'', ActionCp), (''GET'', ''export'', ActionExport)]"

lemma classify_container_route:
  assumes "CHR ''/'' \<notin> set cid" "method = ''GET'' \<longrightarrow> \<not> contains_str (operation_path cid operation) ''/attach''"
    "(method, operation, act) \<in> set container_routes"
  shows "classify_containers method (operation_path cid operation) = Some act"
proof -
  have ops: "operation \<noteq> []" "last operation \<noteq> CHR ''/''"
    using assms(3) by (auto simp: container_routes_def)
  note m = pathMatches_container [OF ops] pathMatchesN_container [OF assms(1) ops]
  have ne: "\<And>lit. CHR ''/'' \<notin> set lit \<Longrightarrow> operation_path cid operation \<noteq> ''/containers/'' @ lit"
    by (auto simp: operation_path_def)
  have nx: "\<And>sfx. pathMatchesN (operation_path cid operation) ''/exec/'' sfx = False"
    by (simp add: pathMatchesN_def operation_path_def)
  have tr: "trim_right ''/containers/json'' ''/'' = ''/containers/'' @ ''json''"
    "trim_right ''/containers/prune'' ''/'' = ''/containers/'' @ ''prune''"
    "trim_right ''/containers/create'' ''/'' = ''/containers/'' @ ''create''"
    by (simp_all add: trim_right_def)
  have "pathMatches (operation_path cid operation) ''/containers/json'' = False"
    "pathMatches (operation_path cid operation) ''/containers/prune'' = False"
    "pathMatches (operation_path cid operation) ''/containers/create'' = False"
    unfolding m(1) tr using ne by simp_all
  note e = this m(2) nx
  show ?thesis
    using assms(3,2) unfolding classify_containers_def e container_routes_def list.set insert_iff
      empty_iff prod.inject simp_thms
    by (elim disjE conjE; hypsubst) (simp_all add: trim_right_keep)
qed

lemma container_route_op:
  "(method, operation, act) \<in> set container_routes \<Longrightarrow>
     CHR ''/'' \<notin> set operation \<and> CHR ''?'' \<notin> set operation \<and> (method = ''GET'' \<longrightarrow> \<not> has_prefix operation ''attach'')"
  unfolding container_routes_def by auto

lemma contains_attach_container:
  assumes "CHR ''/'' \<notin> set cid" "CHR ''/'' \<notin> set operation"
  shows "contains_str (operation_path cid operation) ''/attach'' \<longrightarrow>
           has_prefix cid ''attach'' \<or> has_prefix operation ''attach''"
proof
  have "split_char CHR ''/'' (operation_path cid operation) = [[], ''containers'', cid, operation]"
    using assms by (simp add: operation_path_def)
  moreover assume "contains_str (operation_path cid operation) ''/attach''"
  ultimately show "has_prefix cid ''attach'' \<or> has_prefix operation ''attach''"
    using contains_sep_segment [of "operation_path cid operation" "CHR ''/''" "''attach''"] by auto
qed

text \<open>
  Every operation on one container is classified under its own action whatever the API
  version in the path and the query, and the container identifier read from the path is the one
  the path carries.  The GET operations need a container whose name does not begin with attach.
\<close>

theorem container_request_classified:
  assumes "version_prefix v" and "CHR ''/'' \<notin> set cid" and "CHR ''?'' \<notin> set cid"
    and "method = ''GET'' \<longrightarrow> \<not> has_prefix cid ''attach''"
    and "(method, operation, act) \<in> set container_routes" and "q = [] \<or> hd q = CHR ''?''"
  shows "ClassifyAction method (v @ operation_path cid operation @ q) = act
       \<and> ExtractContainerID (v @ operation_path cid operation @ q) = cid"
proof -
  note ops = container_route_op [OF assms(5)]
  have "CHR ''?'' \<notin> set (operation_path cid operation)"
    using assms(3) ops by (auto simp: operation_path_def)
  then have s: "strip_query (StripAPIVersion (v @ operation_path cid operation @ q)) = operation_path cid operation"
    using assms(6) by (simp add: StripAPIVersion_container [OF assms(1)] strip_query_path)
  have "classify_containers method (operation_path cid operation) = Some act"
    using assms contains_attach_container ops by (intro classify_container_route) blast+
  then have "ClassifyAction method (v @ operation_path cid operation @ q) = act"
    by (simp add: ClassifyAction_def Let_def s classify_path_def)
  moreover have "ExtractContainerID (v @ operation_path cid operation @ q) = cid"
    using assms(2) by (simp add: ExtractContainerID_def Let_def s) (simp add: operation_path_def up_to_slash_id)
  ultimately show ?thesis by blast
qed

theorem container_request_classified_witness:
  "ClassifyAction ''POST'' ''/v1.43/containers/web/stop?t=5'' = ActionStop
   \<and> ExtractContainerID ''/v1.43/containers/web/stop?t=5'' = ''web''"
proof -
  have "version_prefix ''/v1.43''"
    by (auto simp: version_prefix_def isVersionString_def is_digit_def intro!: exI [of _ "''1.43''"])
  then show ?thesis
    using container_request_classified [of "''/v1.43''" "''web''" "''POST''" "''stop''" ActionStop "''?t=5''"]
    by (simp add: container_routes_def operation_path_def)
qed

text \<open>
  A container whose name begins with attach escapes the classification of read
  operations: every GET on it is filed under attach, because the test looks for that text
  anywhere in the path.
\<close>

theorem attach_name_misclassified:
  assumes "CHR ''/'' \<notin> set operation" and "CHR ''?'' \<notin> set operation"
    and "operation \<noteq> []" and "CHR ''?'' \<notin> set x"
  shows "ClassifyAction ''GET'' (''/containers/attach'' @ x @ ''/'' @ operation) = ActionAttach"
proof -
  let ?p = "operation_path (''attach'' @ x) operation"
  have "CHR ''?'' \<notin> set ?p" using assms by (auto simp: operation_path_def)
  then have s: "strip_query (StripAPIVersion ?p) = ?p"
    using StripAPIVersion_container [of "[]" "''attach'' @ x" operation "[]"] strip_query_path [of ?p "[]"]
    by (simp add: version_prefix_def)
  have c: "contains_str ?p ''/attach''"
    unfolding contains_str_iff
    by (rule exI [of _ "''/containers''"], rule exI [of _ "x @ ''/'' @ operation"]) (simp add: operation_path_def)
  have "last operation \<noteq> CHR ''/''"
    using assms(1,3) last_in_set by metis
  note pm = pathMatches_container [OF assms(3) this]
  have "pathMatches ?p ''/containers/json'' = False"
    unfolding pm by (simp add: trim_right_def operation_path_def)
  then have "classify_containers ''GET'' ?p = Some ActionAttach"
    using c by (simp add: classify_containers_def pathHasPrefix_def) (simp add: operation_path_def)
  then have "ClassifyAction ''GET'' ?p = ActionAttach"
    by (simp only: ClassifyAction_def Let_def s classify_path_def first_some.simps option.case)
  then show ?thesis by (simp add: operation_path_def)
qed

theorem attach_name_misclassified_witness:
  "ClassifyAction ''GET'' ''/containers/attacher/json'' = ActionAttach"
  using attach_name_misclassified [of "''json''" "''er''"] by simp

text \<open>
  The push (and likewise the tag, history and inspect) endpoint of an image whose name
  has more than one path segment is classified as other, so that no rule about push applies to
  it.
\<close>

theorem multi_segment_push_is_other:
  assumes "CHR ''/'' \<notin> set a" and "CHR ''/'' \<notin> set b" and "CHR ''?'' \<notin> set a" and "CHR ''?'' \<notin> set b"
  shows "ClassifyAction ''POST'' (''/images/'' @ a @ ''/'' @ b @ ''/push'') = ActionOther"
proof -
  let ?p = "''/images/'' @ a @ ''/'' @ b @ ''/push''"
  have "CHR ''?'' \<notin> set ?p" using assms by auto
  then have s: "strip_query (StripAPIVersion ?p) = ?p"
    using StripAPIVersion_plain [of ?p] strip_query_path [of ?p "[]"] by simp
  have m: "pathMatches ?p pat = (?p = trim_right pat ''/'')" for pat
    unfolding pathMatches_def by (subst trim_right_keep) simp_all
  have n: "pathMatchesN ?p ''/images/'' sfx = (''/'' @ b @ ''/push'' = trim_right sfx ''/'')" for sfx
    using assms(1) by (simp add: pathMatchesN_def index_char_id trim_right_keep)
  have ne: "\<And>l. CHR ''/'' \<notin> set l \<Longrightarrow> (a @ CHR ''/'' # b @ ''/push'' = l) = False"
    "\<And>l. CHR ''/'' \<notin> set l \<Longrightarrow> (b @ ''/push'' = l) = False"
    by auto
  have "classify_images ''POST'' ?p query = None" for query
    unfolding classify_images_def m n using ne by (simp add: trim_right_keep pathHasPrefix_def)
  moreover have "classify_containers ''POST'' ?p = None" "classify_networks ''POST'' ?p = None"
    "classify_volumes ''POST'' ?p = None" "classify_system ''POST'' ?p = None"
    "classify_swarm ''POST'' ?p = None" "classify_nodes ''POST'' ?p = None"
    "classify_services ''POST'' ?p = None" "classify_tasks ''POST'' ?p = None"
    "classify_secrets ''POST'' ?p = None" "classify_configs ''POST'' ?p = None"
    "classify_plugins ''POST'' ?p = None"
    unfolding classify_containers_def classify_networks_def classify_volumes_def classify_system_def
      classify_swarm_def classify_nodes_def classify_services_def classify_tasks_def
      classify_secrets_def classify_configs_def classify_plugins_def m
    by (simp_all add: trim_right_keep pathHasPrefix_def pathMatchesN_def)
  ultimately show ?thesis
    by (simp only: ClassifyAction_def Let_def s classify_path_def first_some.simps option.case)
qed

theorem multi_segment_push_is_other_witness:
  "ClassifyAction ''POST'' ''/images/localhost:5000/app/push'' = ActionOther"
  using multi_segment_push_is_other [of "''localhost:5000''" "''app''"] by simp

text \<open>
  The swarm unlock key, which the source files under swarm_update, is classified as
  swarm_inspect: the pattern for it never matches the path of that endpoint.  The alias swarm
  of a rule covers the cluster, node, service and task actions but no secret or config action.
\<close>

theorem swarm_unlockkey_and_alias:
  "ClassifyAction ''GET'' ''/swarm/unlockkey'' = ActionSwarmInspect
   \<and> set (expand_action ''swarm'') \<inter>
       set (expand_action ''secret'' @ expand_action ''config'') = {}
   \<and> set (expand_action ''swarm'') \<supseteq>
       {ActionSwarmUpdate, ActionNodeUpdate, ActionServiceUpdate, ActionTaskList}"
proof (intro conjI)
  show "ClassifyAction ''GET'' ''/swarm/unlockkey'' = ActionSwarmInspect" by code_simp
qed (simp_all add: expand_action_def)

end
