(* ===== verification/Paths.thy ===== *)
theory Paths
  imports Prelude "HOL-Library.Sublist"
begin

text \<open>
  The functions of Go's \<^verbatim>\<open>path/filepath\<close> that the isolation package calls:
  \<^verbatim>\<open>Clean\<close>, \<^verbatim>\<open>Join\<close> and \<^verbatim>\<open>Match\<close>, on a system whose
  separator is the slash.  The lemmas relate cleaned paths to lists of directory names.
\<close>

section \<open>Clean and Join\<close>

text \<open>One segment of a path, on the directory reached so far.\<close>

definition clean_step :: "bool \<Rightarrow> string list \<Rightarrow> string \<Rightarrow> string list" where
  "clean_step rooted d seg =
     (if seg = [] \<or> seg = ''.'' then d
      else if seg = ''..'' then
        (if d \<noteq> [] \<and> last d \<noteq> ''..'' then butlast d else if rooted then d else d @ [''..''])
      else d @ [seg])"

definition clean_segments :: "bool \<Rightarrow> string \<Rightarrow> string list" where
  "clean_segments rooted p = foldl (clean_step rooted) [] (split_char CHR ''/'' p)"

definition path_clean :: "string \<Rightarrow> string" where
  "path_clean p =
     (if p = [] then ''.''
      else if hd p = CHR ''/'' then ''/'' @ join_str ''/'' (clean_segments True p)
      else if clean_segments False p = [] then ''.''
      else join_str ''/'' (clean_segments False p))"

definition path_join :: "string \<Rightarrow> string \<Rightarrow> string" where
  "path_join base elem =
     (if base = [] then (if elem = [] then [] else path_clean elem)
      else if elem = [] then path_clean base else path_clean (base @ ''/'' @ elem))"

section \<open>Directories\<close>

text \<open>The directory an absolute path names when no component is a symbolic link.\<close>

definition walk_step :: "string list \<Rightarrow> string \<Rightarrow> string list" where
  "walk_step d seg =
     (if seg = [] \<or> seg = ''.'' then d else if seg = ''..'' then butlast d else d @ [seg])"

definition walk :: "string \<Rightarrow> string list" where
  "walk p = foldl walk_step [] (split_char CHR ''/'' p)"

definition rooted :: "string \<Rightarrow> bool" where
  "rooted p \<longleftrightarrow> has_prefix p ''/''"

definition plain_seg :: "string \<Rightarrow> bool" where
  "plain_seg s \<longleftrightarrow> s \<noteq> [] \<and> s \<noteq> ''.'' \<and> s \<noteq> ''..'' \<and> CHR ''/'' \<notin> set s"

lemma walk_step_plain: "plain_seg s \<Longrightarrow> walk_step d s = d @ [s]"
  by (simp add: walk_step_def plain_seg_def)

lemma butlast_all: "list_all P xs \<Longrightarrow> list_all P (butlast xs)"
  by (auto simp: list_all_iff dest: in_set_butlastD)

lemma walk_step_keeps_plain:
  "list_all plain_seg d \<Longrightarrow> CHR ''/'' \<notin> set s \<Longrightarrow> list_all plain_seg (walk_step d s)"
  by (auto simp: walk_step_def plain_seg_def intro: butlast_all)

lemma foldl_walk_plain:
  "list_all plain_seg d \<Longrightarrow> list_all (\<lambda>s. CHR ''/'' \<notin> set s) ss \<Longrightarrow> list_all plain_seg (foldl walk_step d ss)"
  by (induction ss arbitrary: d) (auto simp: walk_step_keeps_plain)

lemma split_no_sep: "list_all (\<lambda>s. c \<notin> set s) (split_char c p)"
  by (simp add: list_all_iff split_char_notin)

lemma walk_plain: "list_all plain_seg (walk p)"
  unfolding walk_def by (rule foldl_walk_plain) (simp_all add: split_no_sep)

lemma clean_step_rooted:
  assumes "list_all plain_seg d"
  shows "clean_step True d s = walk_step d s"
proof -
  have "d \<noteq> [] \<Longrightarrow> last d \<noteq> ''..''" using assms by (metis last_in_set list_all_iff plain_seg_def)
  then show ?thesis by (cases "d = []") (auto simp: clean_step_def walk_step_def)
qed

lemma foldl_clean_walk:
  "list_all plain_seg d \<Longrightarrow> list_all (\<lambda>s. CHR ''/'' \<notin> set s) ss \<Longrightarrow>
     foldl (clean_step True) d ss = foldl walk_step d ss"
  by (induction ss arbitrary: d) (simp_all add: clean_step_rooted walk_step_keeps_plain)

lemma clean_segments_rooted: "clean_segments True p = walk p"
  unfolding clean_segments_def walk_def by (rule foldl_clean_walk) (simp_all add: split_no_sep)

lemma clean_rooted: "rooted p \<Longrightarrow> path_clean p = ''/'' @ join_str ''/'' (walk p)"
  by (cases p) (auto simp: rooted_def path_clean_def clean_segments_rooted)

lemma split_join:
  "ss \<noteq> [] \<Longrightarrow> list_all (\<lambda>s. c \<notin> set s) ss \<Longrightarrow> split_char c (join_str [c] ss) = ss"
  by (induction "[c]" ss rule: join_str.induct) (auto simp: split_char_append)

lemma join_append: "xs \<noteq> [] \<Longrightarrow> ys \<noteq> [] \<Longrightarrow> join_str c (xs @ ys) = join_str c xs @ c @ join_str c ys"
proof (induction xs)
  case (Cons x xs)
  then show ?case by (cases xs; cases ys) auto
qed simp

lemma plain_no_sep: "list_all plain_seg d \<Longrightarrow> list_all (\<lambda>s. CHR ''/'' \<notin> set s) d"
  by (simp add: list_all_iff plain_seg_def)

lemma split_join_plain: "d \<noteq> [] \<Longrightarrow> list_all plain_seg d \<Longrightarrow> split_char CHR ''/'' (join_str ''/'' d) = d"
  using split_join [of d "CHR ''/''"] by (simp add: plain_no_sep)

lemma join_plain_Nil: "list_all plain_seg d \<Longrightarrow> join_str ''/'' d = [] \<longleftrightarrow> d = []"
  using split_join_plain [of d] by (cases "d = []") (auto simp: plain_seg_def)

lemma join_plain_inject:
  assumes "list_all plain_seg d" "list_all plain_seg e"
  shows "join_str ''/'' d = join_str ''/'' e \<longleftrightarrow> d = e"
  using assms split_join_plain [of d] split_join_plain [of e] join_plain_Nil [of d] join_plain_Nil [of e]
  by metis

lemma join_plain_prefix:
  assumes "list_all plain_seg d" "list_all plain_seg r" "r \<noteq> []"
  shows "has_prefix (join_str ''/'' d) (join_str ''/'' r @ ''/'') \<longleftrightarrow> (\<exists>e. e \<noteq> [] \<and> d = r @ e)"
proof
  assume "has_prefix (join_str ''/'' d) (join_str ''/'' r @ ''/'')"
  then obtain t where t: "join_str ''/'' d = join_str ''/'' r @ CHR ''/'' # t"
    by (auto simp: has_prefix_iff)
  then have "d \<noteq> []" by (cases d) auto
  then have "d = r @ split_char CHR ''/'' t"
    using t split_join_plain [OF _ assms(1)] split_join_plain [OF assms(3,2)] split_char_append_sep by metis
  then show "\<exists>e. e \<noteq> [] \<and> d = r @ e" by (metis split_char_not_Nil)
next
  assume "\<exists>e. e \<noteq> [] \<and> d = r @ e"
  then obtain e where "e \<noteq> []" "d = r @ e" by blast
  then have "join_str ''/'' d = (join_str ''/'' r @ ''/'') @ join_str ''/'' e"
    using join_append [OF assms(3), of e "''/''"] by simp
  then show "has_prefix (join_str ''/'' d) (join_str ''/'' r @ ''/'')" by (metis has_prefix_append)
qed

text \<open>Being below a directory is a matter of the names on the way, not of the characters.\<close>

lemma clean_below_iff:
  assumes "rooted p" "rooted r"
  shows "path_clean p = path_clean r \<or> has_prefix (path_clean p) (path_clean r @ ''/'') \<longleftrightarrow>
           (if walk r = [] then walk p = [] else prefix (walk r) (walk p))"
proof (cases "walk r = []")
  case True
  have "\<not> has_prefix (join_str ''/'' (walk p)) ''/''"
  proof
    assume a: "has_prefix (join_str ''/'' (walk p)) ''/''"
    then obtain t where t: "join_str ''/'' (walk p) = CHR ''/'' # t" by (auto simp: has_prefix_iff)
    then have "walk p \<noteq> []" by auto
    then have "hd (walk p) = []" using split_join_plain [OF _ walk_plain, of p] t by (metis list.sel(1) split_char.simps(2))
    then show False using \<open>walk p \<noteq> []\<close> walk_plain [of p] by (cases "walk p") (auto simp: plain_seg_def)
  qed
  then show ?thesis
    using True by (simp add: clean_rooted assms join_plain_Nil walk_plain)
next
  case False
  have "has_prefix (path_clean p) (path_clean r @ ''/'') \<longleftrightarrow> (\<exists>e. e \<noteq> [] \<and> walk p = walk r @ e)"
    using join_plain_prefix [OF walk_plain walk_plain False, of p] by (simp add: clean_rooted assms)
  moreover have "path_clean p = path_clean r \<longleftrightarrow> walk p = walk r"
    by (simp add: clean_rooted assms join_plain_inject walk_plain)
  ultimately show ?thesis using False by (auto simp: prefix_def)
qed

section \<open>Match\<close>

text \<open>The stars in front of a pattern, the chunk after them and the rest of the pattern.\<close>

fun chunk_len :: "bool \<Rightarrow> string \<Rightarrow> nat" where
  "chunk_len inrange [] = 0"
| "chunk_len inrange (c # cs) =
     (if c = CHR 0x5C then (case cs of [] \<Rightarrow> 1 | d # ds \<Rightarrow> 2 + chunk_len inrange ds)
      else if c = CHR ''['' then Suc (chunk_len True cs)
      else if c = CHR '']'' then Suc (chunk_len False cs)
      else if c = CHR ''*'' \<and> \<not> inrange then 0
      else Suc (chunk_len inrange cs))"

definition scan_chunk :: "string \<Rightarrow> bool \<times> string \<times> string" where
  "scan_chunk p =
     (let q = dropWhile (\<lambda>c. c = CHR ''*'') p; n = chunk_len False q
      in (p \<noteq> [] \<and> hd p = CHR ''*'', take n q, drop n q))"

text \<open>A possibly escaped character of a class; \<^term>\<open>None\<close> is a malformed pattern.\<close>

definition get_esc :: "string \<Rightarrow> (char \<times> string) option" where
  "get_esc chunk =
     (case chunk of
        [] \<Rightarrow> None
      | c # cs \<Rightarrow>
          (if c = CHR ''-'' \<or> c = CHR '']'' then None
           else
             let ds = (if c = CHR 0x5C then cs else chunk) in
             (case ds of [] \<Rightarrow> None | d # rest \<Rightarrow> (if rest = [] then None else Some (d, rest)))))"

lemma get_esc_length: "get_esc chunk = Some (c, rest) \<Longrightarrow> length rest < length chunk"
  by (auto simp: get_esc_def Let_def split: list.splits if_splits)

text \<open>The ranges of a class up to its closing bracket: whether one matches, and the rest.\<close>

function class_ranges :: "char \<Rightarrow> bool \<Rightarrow> bool \<Rightarrow> string \<Rightarrow> (bool \<times> string) option" where
  "class_ranges r seen match chunk =
     (if chunk \<noteq> [] \<and> hd chunk = CHR '']'' \<and> seen then Some (match, tl chunk)
      else case get_esc chunk of
        None \<Rightarrow> None
      | Some (lo, rest) \<Rightarrow>
          (if hd rest = CHR ''-'' then
             (case get_esc (tl rest) of
                None \<Rightarrow> None
              | Some (hi, rest') \<Rightarrow> class_ranges r True (match \<or> lo \<le> r \<and> r \<le> hi) rest')
           else class_ranges r True (match \<or> lo = r) rest))"
  by pat_completeness auto

termination
proof (relation "measure (\<lambda>(r, s, m, chunk). length chunk)")
  fix r :: char and seen match :: bool and chunk rest rest' :: string and x y :: "char \<times> string" and lo hi
  assume "get_esc chunk = Some x" "(lo, rest) = x" "get_esc (tl rest) = Some y" "(hi, rest') = y"
  then show "((r, True, match \<or> lo \<le> r \<and> r \<le> hi, rest'), r, seen, match, chunk) \<in> measure (\<lambda>(r, s, m, chunk). length chunk)"
    using get_esc_length [of chunk lo rest] get_esc_length [of "tl rest" hi rest'] by auto
qed (auto dest: get_esc_length)

text \<open>
  \<^verbatim>\<open>matchChunk\<close>: the rest of the name when the chunk matches its beginning.  After a
  mismatch the chunk is still read to its end, so that a malformed pattern is always an error.
\<close>

datatype chunk_result = BadPattern | NoMatch | MatchRest string

lemma class_ranges_length: "class_ranges r seen m chunk = Some (b, rest) \<Longrightarrow> length rest < length chunk"
proof (induction r seen m chunk rule: class_ranges.induct)
  case (1 r seen m chunk)
  note IH = 1
  show ?case
  proof (cases "chunk \<noteq> [] \<and> hd chunk = CHR '']'' \<and> seen")
    case True
    then show ?thesis using IH(3) by auto
  next
    case False
    then obtain lo r1 where e: "get_esc chunk = Some (lo, r1)"
      using IH(3) by (auto split: option.splits)
    note l = get_esc_length [OF e]
    show ?thesis
    proof (cases "hd r1 = CHR ''-''")
      case True
      then obtain hi r2 where e2: "get_esc (tl r1) = Some (hi, r2)"
        using IH(3) False e by (auto split: option.splits)
      have "class_ranges r True (m \<or> lo \<le> r \<and> r \<le> hi) r2 = Some (b, rest)"
        using IH(3) False e True e2 by simp
      then show ?thesis
        using IH(1) [OF False e refl True e2 refl] l get_esc_length [OF e2] by simp
    next
      case False2: False
      have "class_ranges r True (m \<or> lo = r) r1 = Some (b, rest)"
        using IH(3) False e False2 by simp
      then show ?thesis using IH(2) [OF False e refl False2] l by simp
    qed
  qed
qed

declare class_ranges.simps [simp del]

function match_chunk :: "bool \<Rightarrow> string \<Rightarrow> string \<Rightarrow> chunk_result" where
  "match_chunk failed0 chunk s =
     (case chunk of
        [] \<Rightarrow> (if failed0 then NoMatch else MatchRest s)
      | c # cs \<Rightarrow>
          (let failed = (failed0 \<or> s = []) in
           if c = CHR ''['' then
             (let r = (if failed then CHR 0x00 else hd s);
                  s' = (if failed then s else tl s);
                  negated = (cs \<noteq> [] \<and> hd cs = CHR ''^'')
              in case class_ranges r False False (if negated then tl cs else cs) of
                   None \<Rightarrow> BadPattern
                 | Some (match, rest) \<Rightarrow> match_chunk (failed \<or> match = negated) rest s')
           else if c = CHR ''?'' then
             (if failed then match_chunk True cs s else match_chunk (hd s = CHR ''/'') cs (tl s))
           else if c = CHR 0x5C then
             (case cs of
                [] \<Rightarrow> BadPattern
              | d # ds \<Rightarrow> (if failed then match_chunk True ds s else match_chunk (d \<noteq> hd s) ds (tl s)))
           else if failed then match_chunk True cs s else match_chunk (c \<noteq> hd s) cs (tl s)))"
  by pat_completeness auto

termination
  by (relation "measure (\<lambda>(f, chunk, s). length chunk)")
    (auto dest!: class_ranges_length split: if_splits)

declare match_chunk.simps [simp del]

text \<open>The first way to skip characters other than the separator after which the chunk matches.\<close>

fun star_skip :: "bool \<Rightarrow> string \<Rightarrow> string \<Rightarrow> chunk_result" where
  "star_skip at_end chunk [] = NoMatch"
| "star_skip at_end chunk (c # cs) =
     (if c = CHR ''/'' then NoMatch
      else case match_chunk False chunk cs of
        BadPattern \<Rightarrow> BadPattern
      | NoMatch \<Rightarrow> star_skip at_end chunk cs
      | MatchRest t \<Rightarrow> (if at_end \<and> t \<noteq> [] then star_skip at_end chunk cs else MatchRest t))"

lemma chunk_len_pos: "q \<noteq> [] \<Longrightarrow> hd q \<noteq> CHR ''*'' \<Longrightarrow> chunk_len False q > 0"
  by (cases q) (auto split: list.split)

lemma scan_chunk_length:
  assumes "scan_chunk p = (star, chunk, rest)" "p \<noteq> []" "\<not> (star \<and> chunk = [])"
  shows "length rest < length p"
proof -
  let ?q = "dropWhile (\<lambda>c. c = CHR ''*'') p"
  have l: "length ?q \<le> length p" by (rule length_dropWhile_le)
  have r: "rest = drop (chunk_len False ?q) ?q" "chunk = take (chunk_len False ?q) ?q"
    "star \<longleftrightarrow> hd p = CHR ''*''"
    using assms(1,2) by (auto simp: scan_chunk_def Let_def)
  show ?thesis
  proof (cases "?q = []")
    case True
    then have "rest = []" using r(1) by (simp only: drop_Nil)
    then show ?thesis using assms(2) by simp
  next
    case False
    then have "chunk_len False ?q > 0" by (intro chunk_len_pos) (use hd_dropWhile [of "\<lambda>c. c = CHR ''*''" p] in auto)
    then have "length rest < length ?q" using False r(1) by simp
    then show ?thesis using l by simp
  qed
qed

text \<open>\<^verbatim>\<open>matched && err == nil\<close> for \<^verbatim>\<open>filepath.Match(pattern, name)\<close>.\<close>

function path_match :: "string \<Rightarrow> string \<Rightarrow> bool" where
  "path_match pattern name =
     (if pattern = [] then name = []
      else case scan_chunk pattern of
        (star, chunk, rest) \<Rightarrow>
          (if star \<and> chunk = [] then CHR ''/'' \<notin> set name
           else case match_chunk False chunk name of
             BadPattern \<Rightarrow> False
           | MatchRest t \<Rightarrow>
               (if t = [] \<or> rest \<noteq> [] then path_match rest t
                else if star then
                  (case star_skip (rest = []) chunk name of MatchRest u \<Rightarrow> path_match rest u | _ \<Rightarrow> False)
                else False)
           | NoMatch \<Rightarrow>
               (if star then
                  (case star_skip (rest = []) chunk name of MatchRest u \<Rightarrow> path_match rest u | _ \<Rightarrow> False)
                else False)))"
  by pat_completeness auto

termination
  by (relation "measure (\<lambda>(p, n). length p)") (auto dest!: scan_chunk_length [OF sym])

declare path_match.simps [simp del]

text \<open>A literal is its own pattern, and a literal with a star at the end matches names in the same directory.\<close>

definition literal :: "string \<Rightarrow> bool" where
  "literal p \<longleftrightarrow> (\<forall>c \<in> set p. c \<noteq> CHR ''*'' \<and> c \<noteq> CHR ''?'' \<and> c \<noteq> CHR ''['' \<and> c \<noteq> CHR 0x5C)"

lemma chunk_len_literal:
  "literal p \<Longrightarrow> q = [] \<or> hd q = CHR ''*'' \<Longrightarrow> chunk_len False (p @ q) = length p"
  by (induction p; cases q) (auto simp: literal_def split: list.split)

lemma scan_literal:
  assumes "literal p" "p \<noteq> []" "q = [] \<or> hd q = CHR ''*''"
  shows "scan_chunk (p @ q) = (False, p, q)"
proof -
  have "hd p \<noteq> CHR ''*''" using assms(1,2) by (auto simp: literal_def)
  then have "dropWhile (\<lambda>c. c = CHR ''*'') (p @ q) = p @ q" using assms(2) by (cases p) auto
  then show ?thesis
    using \<open>hd p \<noteq> CHR ''*''\<close> assms chunk_len_literal [OF assms(1,3)] by (simp add: scan_chunk_def)
qed

lemma match_chunk_Nil: "match_chunk failed [] s = (if failed then NoMatch else MatchRest s)"
  by (simp add: match_chunk.simps [of failed])

lemma match_chunk_step:
  "c \<noteq> CHR ''['' \<Longrightarrow> c \<noteq> CHR ''?'' \<Longrightarrow> c \<noteq> CHR 0x5C \<Longrightarrow>
     match_chunk failed (c # p) s =
       (if failed \<or> s = [] then match_chunk True p s else match_chunk (c \<noteq> hd s) p (tl s))"
  by (subst match_chunk.simps) simp

lemma match_chunk_literal:
  assumes "literal p"
  shows "match_chunk failed p s =
    (if \<not> failed \<and> has_prefix s p then MatchRest (drop (length p) s) else NoMatch)"
  using assms
proof (induction p arbitrary: failed s)
  case (Cons c p)
  then have l: "literal p" "c \<noteq> CHR ''[''" "c \<noteq> CHR ''?''" "c \<noteq> CHR 0x5C" by (simp_all add: literal_def)
  show ?case
    by (cases s) (simp_all add: match_chunk_step l(2-4) Cons.IH [OF l(1)])
qed (simp add: match_chunk_Nil)

lemma path_match_Nil: "path_match [] s \<longleftrightarrow> s = []"
  by (simp add: path_match.simps)

lemma path_match_star: "path_match ''*'' s \<longleftrightarrow> CHR ''/'' \<notin> set s"
  by (subst path_match.simps) (simp add: scan_chunk_def)

lemma path_match_literal_star:
  assumes "literal p" "p \<noteq> []"
  shows "path_match (p @ ''*'') s \<longleftrightarrow> has_prefix s p \<and> CHR ''/'' \<notin> set (drop (length p) s)"
  using assms
  by (subst path_match.simps) (simp add: scan_literal match_chunk_literal path_match_star)

lemma path_match_literal:
  assumes "literal p"
  shows "path_match p s \<longleftrightarrow> s = p"
proof (cases "p = []")
  case False
  then show ?thesis
    using assms scan_literal [OF assms False, of "[]"]
    by (subst path_match.simps) (auto simp: match_chunk_literal path_match_Nil has_prefix_iff)
qed (simp add: path_match_Nil)

end
