(* ===== verification/Json.thy ===== *)
theory Json
  imports Prelude
begin

text \<open>
  The part of \<^verbatim>\<open>encoding/json\<close> the program relies on, on syntax trees: decoding into a
  map (last duplicate wins, \<^verbatim>\<open>null\<close> gives the nil map), decoding a struct field (keys
  compared without regard to case, every occurrence is applied in order, \<^verbatim>\<open>null\<close> is
  skipped, a value of another type is an error) and encoding a map (keys sorted).

  A body is either a document or bytes that are not JSON.  Writing to a nil map is a panic of
  the Go program and an explicit result here.  Integer literals are \<open>JNum\<close>; any other number
  is kept as text.
\<close>

datatype json =
    JNull
  | JBool bool
  | JNum int
  | JFlt string
  | JStr string
  | JArr "json list"
  | JObj "(string \<times> json) list"

datatype body = Raw string | Doc json

datatype go_panic = NilMapWrite

type_synonym jmap = "(string \<times> json) list"

section \<open>Go maps\<close>

text \<open>A map is an association list sorted by key, which is also the order of its encoding.\<close>

definition map_put :: "string \<Rightarrow> 'a \<Rightarrow> (string \<times> 'a) list \<Rightarrow> (string \<times> 'a) list" where
  "map_put k v m = insort_key fst (k, v) (filter (\<lambda>p. fst p \<noteq> k) m)"

definition to_map :: "(string \<times> 'a) list \<Rightarrow> (string \<times> 'a) list" where
  "to_map es = fold (\<lambda>(k, v). map_put k v) es []"

text \<open>
  \<^verbatim>\<open>json.Unmarshal(data, &m)\<close> for a map of raw values: \<^term>\<open>None\<close> is an error,
  \<^term>\<open>Some None\<close> the nil map.
\<close>

fun dec_map :: "json \<Rightarrow> jmap option option" where
  "dec_map (JObj es) = Some (Some (to_map es))"
| "dec_map JNull = Some None"
| "dec_map _ = None"

fun body_map :: "body \<Rightarrow> jmap option option" where
  "body_map (Doc j) = dec_map j"
| "body_map (Raw _) = None"

text \<open>Reading a key of a map that may be nil.\<close>

definition get_key :: "jmap option \<Rightarrow> string \<Rightarrow> json option" where
  "get_key om k = (case om of None \<Rightarrow> None | Some m \<Rightarrow> map_of m k)"

text \<open>Writing a key: a nil map panics.\<close>

definition set_key :: "string \<Rightarrow> json \<Rightarrow> jmap option \<Rightarrow> (go_panic, jmap) result" where
  "set_key k v om = (case om of None \<Rightarrow> Inl NilMapWrite | Some m \<Rightarrow> Inr (map_put k v m))"

text \<open>\<^verbatim>\<open>_ = json.Unmarshal(raw, &s)\<close> into a string that was empty.\<close>

fun str_or_empty :: "json option \<Rightarrow> string" where
  "str_or_empty (Some (JStr s)) = s"
| "str_or_empty _ = []"

fun dec_raw_list :: "json \<Rightarrow> json list option" where
  "dec_raw_list (JArr xs) = Some xs"
| "dec_raw_list JNull = Some []"
| "dec_raw_list _ = None"

fun dec_str :: "json \<Rightarrow> string option" where
  "dec_str (JStr s) = Some s"
| "dec_str JNull = Some []"
| "dec_str _ = None"

fun dec_bool :: "json \<Rightarrow> bool option" where
  "dec_bool (JBool b) = Some b"
| "dec_bool JNull = Some False"
| "dec_bool _ = None"

fun all_some :: "'a option list \<Rightarrow> 'a list option" where
  "all_some [] = Some []"
| "all_some (None # _) = None"
| "all_some (Some x # xs) = map_option (\<lambda>ys. x # ys) (all_some xs)"

fun dec_str_list :: "json \<Rightarrow> string list option" where
  "dec_str_list (JArr xs) = all_some (map dec_str xs)"
| "dec_str_list JNull = Some []"
| "dec_str_list _ = None"

text \<open>
  A map of strings.  A value of another type is stored as the empty string and makes the
  decoding fail at the end; \<open>str_map_ign\<close> is the map when the error is ignored.
\<close>

definition str_entry :: "json \<Rightarrow> string" where
  "str_entry j = (case j of JStr s \<Rightarrow> s | _ \<Rightarrow> [])"

fun str_map_ign :: "json \<Rightarrow> (string \<times> string) list" where
  "str_map_ign (JObj es) = to_map (map (\<lambda>(k, j). (k, str_entry j)) es)"
| "str_map_ign _ = []"

fun dec_str_map :: "json \<Rightarrow> (string \<times> string) list option" where
  "dec_str_map (JObj es) =
     (if list_all (\<lambda>(k, j). dec_str j \<noteq> None) es
      then Some (to_map (map (\<lambda>(k, j). (k, str_entry j)) es)) else None)"
| "dec_str_map JNull = Some []"
| "dec_str_map _ = None"

definition enc_str_map :: "(string \<times> string) list \<Rightarrow> json" where
  "enc_str_map m = JObj (map (\<lambda>(k, v). (k, JStr v)) m)"

section \<open>Struct fields\<close>

fun obj_entries :: "json \<Rightarrow> jmap option" where
  "obj_entries (JObj es) = Some es"
| "obj_entries JNull = Some []"
| "obj_entries _ = None"

definition field_values :: "string \<Rightarrow> jmap \<Rightarrow> json list" where
  "field_values name es = map snd (filter (\<lambda>p. equal_fold (fst p) name) es)"

text \<open>A scalar field: the last occurrence that is not null, each one decoded.\<close>

definition field_with :: "(json \<Rightarrow> 'a option) \<Rightarrow> 'a \<Rightarrow> string \<Rightarrow> jmap \<Rightarrow> 'a option" where
  "field_with dec zero name es =
     fold (\<lambda>j acc. case acc of
                     None \<Rightarrow> None
                   | Some old \<Rightarrow> (if j = JNull then Some old else dec j))
       (field_values name es) (Some zero)"

text \<open>
  A slice field: each occurrence replaces the value, and null resets it to nil.  (That Go decodes
  the elements of a repeated slice over the old ones is not modelled.)
\<close>

definition field_slice :: "(json \<Rightarrow> 'a list option) \<Rightarrow> string \<Rightarrow> jmap \<Rightarrow> 'a list option" where
  "field_slice dec name es =
     fold (\<lambda>j acc. case acc of
                     None \<Rightarrow> None
                   | Some _ \<Rightarrow> (if j = JNull then Some [] else dec j))
       (field_values name es) (Some [])"

text \<open>A map field: the occurrences are merged, and null resets it to nil.\<close>

definition field_map :: "string \<Rightarrow> jmap \<Rightarrow> jmap option" where
  "field_map name es =
     map_option to_map
       (fold (\<lambda>j acc. case acc of
                        None \<Rightarrow> None
                      | Some m \<Rightarrow> (case j of JNull \<Rightarrow> Some [] | JObj o' \<Rightarrow> Some (m @ o') | _ \<Rightarrow> None))
          (field_values name es) (Some []))"

text \<open>A field that is itself a struct: the entries of all occurrences, one after the other.\<close>

definition sub_struct :: "string \<Rightarrow> jmap \<Rightarrow> jmap option" where
  "sub_struct name es = map_option concat (all_some (map obj_entries (field_values name es)))"

abbreviation field_str :: "string \<Rightarrow> jmap \<Rightarrow> string option" where
  "field_str \<equiv> field_with dec_str []"

definition dec_int64 :: "json \<Rightarrow> int option" where
  "dec_int64 j = (case j of JNum n \<Rightarrow> (if min_int64 \<le> n \<and> n \<le> max_int64 then Some n else None) | _ \<Rightarrow> None)"

abbreviation field_int64 :: "string \<Rightarrow> jmap \<Rightarrow> int option" where
  "field_int64 \<equiv> field_with dec_int64 0"

text \<open>The entries of a body decoded as a struct.\<close>

fun body_struct :: "body \<Rightarrow> jmap option" where
  "body_struct (Doc j) = obj_entries j"
| "body_struct (Raw _) = None"

section \<open>Lemmas\<close>

lemma map_of_insort: "distinct (map fst (p # m)) \<Longrightarrow> map_of (insort_key fst p m) = (map_of m)(fst p \<mapsto> snd p)"
  by (induction m) (auto simp: fun_eq_iff)

lemma set_insort: "set (insort_key f x xs) = insert x (set xs)"
  by (induction xs) auto

lemma distinct_fst_put: "distinct (map fst m) \<Longrightarrow> distinct (map fst (map_put k v m))"
proof -
  have "distinct (map fst (insort_key fst p xs)) \<longleftrightarrow> distinct (map fst (p # xs))" for p :: "string \<times> 'a" and xs
    by (induction xs) (auto simp: set_insort)
  moreover assume "distinct (map fst m)"
  then have "distinct (map fst ((k, v) # filter (\<lambda>p. fst p \<noteq> k) m))"
    by (induction m) auto
  ultimately show ?thesis unfolding map_put_def by blast
qed

lemma map_of_put [simp]:
  assumes "distinct (map fst m)"
  shows "map_of (map_put k v m) = (map_of m)(k \<mapsto> v)"
proof -
  have d: "distinct (map fst ((k, v) # filter (\<lambda>p. fst p \<noteq> k) m))"
    using assms by (induction m) auto
  have "(map_of (filter (\<lambda>p. fst p \<noteq> k) m))(k \<mapsto> v) = (map_of m)(k \<mapsto> v)"
    by (rule ext) (simp add: map_of_filter_other)
  then show ?thesis using map_of_insort [OF d] by (simp add: map_put_def)
qed

lemma distinct_to_map [simp]: "distinct (map fst (to_map es))"
proof -
  have "distinct (map fst m) \<Longrightarrow> distinct (map fst (fold (\<lambda>(k, v). map_put k v) es m))" for m
    by (induction es arbitrary: m) (auto simp: distinct_fst_put)
  then show ?thesis by (simp add: to_map_def)
qed

lemma sorted_put: "sorted (map fst m) \<Longrightarrow> sorted (map fst (map_put k v m))"
  unfolding map_put_def by (simp add: sorted_insort_key sorted_filter)

lemma map_of_to_map: "map_of (to_map es) = map_of (rev es)"
proof -
  have "distinct (map fst m) \<Longrightarrow> map_of (fold (\<lambda>(k, v). map_put k v) es m) = map_of m ++ map_of (rev es)" for m
    by (induction es arbitrary: m) (auto simp: distinct_fst_put)
  then show ?thesis by (simp add: to_map_def)
qed

lemma body_map_distinct: "body_map b = Some (Some m) \<Longrightarrow> distinct (map fst m)"
  by (cases b rule: body_map.cases; cases "case b of Doc j \<Rightarrow> j | _ \<Rightarrow> JNull" rule: dec_map.cases) auto

end
