(* ===== verification/Names.thy ===== *)
theory Names
  imports Policy Json
begin

text \<open>
  Package \<^verbatim>\<open>internal/isolation\<close>: the labels the proxy writes into every container
  (\<^verbatim>\<open>labels.go\<close>), the per-user name prefixes of containers, volumes and networks, their
  injection into request bodies and request paths, and their removal from responses
  (\<^verbatim>\<open>network.go\<close>, \<^verbatim>\<open>volume.go\<close>, \<^verbatim>\<open>storage.go\<close>).  The rewriting of a
  request URL is a function of its path (and query).
\<close>

section \<open>labels.go\<close>

abbreviation LabelOwnerUsername :: string where "LabelOwnerUsername \<equiv> ''system.authz.owner.username''"
abbreviation LabelOwnerUID :: string where "LabelOwnerUID \<equiv> ''system.authz.owner.uid''"
abbreviation LabelOwnerGID :: string where "LabelOwnerGID \<equiv> ''system.authz.owner.gid''"
abbreviation LabelCallerType :: string where "LabelCallerType \<equiv> ''system.authz.caller.type''"
abbreviation LabelEffectiveUID :: string where "LabelEffectiveUID \<equiv> ''system.authz.effective.uid''"
abbreviation LabelOwner :: string where "LabelOwner \<equiv> ''owner''"
abbreviation LabelOwnerID :: string where "LabelOwnerID \<equiv> ''user_id''"

type_synonym labels = "(string \<times> string) list"

definition appendLabel :: "string \<Rightarrow> string \<Rightarrow> labels \<Rightarrow> labels" where
  "appendLabel key value ls =
     (case map_of ls key of
        Some existing \<Rightarrow> map_put key (existing @ '','' @ value) ls
      | None \<Rightarrow> map_put key value ls)"

definition setLabel :: "string \<Rightarrow> string \<Rightarrow> labels \<Rightarrow> labels" where
  "setLabel key value ls = map_put key value ls"

definition system_labels :: "CallerIdentity \<Rightarrow> labels \<Rightarrow> labels" where
  "system_labels i ls =
     appendLabel LabelOwnerID (itoa (RealUID i))
      (appendLabel LabelOwner (RealUsername i)
       (setLabel LabelEffectiveUID (itoa (EffectiveUID i))
        (setLabel LabelCallerType (UserType_String (idUserType i))
         (setLabel LabelOwnerGID (itoa (RealGID i))
          (appendLabel LabelOwnerUID (itoa (RealUID i))
           (appendLabel LabelOwnerUsername (RealUsername i) ls))))))"

definition InjectSystemLabels :: "body \<Rightarrow> CallerIdentity \<Rightarrow> (go_panic, body) result" where
  "InjectSystemLabels b i =
     (case body_map b of
        None \<Rightarrow> Inr b
      | Some req \<Rightarrow>
          (let ls = (case get_key req ''Labels'' of
                       Some raw \<Rightarrow> (if raw = JNull then [] else str_map_ign raw)
                     | None \<Rightarrow> [])
           in case set_key ''Labels'' (enc_str_map (system_labels i ls)) req of
                Inl p \<Rightarrow> Inl p
              | Inr m \<Rightarrow> Inr (Doc (JObj m))))"

definition GetLastLabelValue :: "string \<Rightarrow> string" where
  "GetLastLabelValue value = trim_space (last (split_char CHR '','' value))"

section \<open>Prefixes\<close>

definition UserResourcePrefix :: "CallerIdentity \<Rightarrow> string" where
  "UserResourcePrefix i = RealUsername i @ ''_u'' @ itoa (RealUID i) @ ''_''"

definition UserContainerPrefix :: "int \<Rightarrow> string" where
  "UserContainerPrefix uid = ''user-'' @ itoa uid @ ''-''"

definition UserVolumePrefix :: "int \<Rightarrow> string" where
  "UserVolumePrefix uid = ''user-'' @ itoa uid @ ''-volume-''"

definition UserBridgeName :: "int \<Rightarrow> string" where
  "UserBridgeName uid = ''user-'' @ itoa uid @ ''-bridge''"

definition PeerNetworkName :: "int \<Rightarrow> int \<Rightarrow> string" where
  "PeerNetworkName uidA uidB =
     (if uidA > uidB then ''peer-'' @ itoa uidB @ ''-'' @ itoa uidA
      else ''peer-'' @ itoa uidA @ ''-'' @ itoa uidB)"

section \<open>Injection into request bodies\<close>

text \<open>The result carries the body and the name that goes upstream.\<close>

definition InjectContainerNamePrefix :: "body \<Rightarrow> CallerIdentity \<Rightarrow> body \<times> string" where
  "InjectContainerNamePrefix b i =
     (case body_map b of
        None \<Rightarrow> (b, [])
      | Some req \<Rightarrow>
          (let pfx = UserContainerPrefix (RealUID i);
               name = str_or_empty (get_key req ''Name'')
           in if name = [] \<or> has_prefix name pfx then (b, name)
              else case set_key ''Name'' (JStr (pfx @ name)) req of
                Inl _ \<Rightarrow> (b, name)
              | Inr m \<Rightarrow> (Doc (JObj m), pfx @ name)))"

definition InjectVolumeNamePrefix :: "body \<Rightarrow> CallerIdentity \<Rightarrow> (go_panic, body) result" where
  "InjectVolumeNamePrefix b i =
     (case body_map b of
        None \<Rightarrow> Inr b
      | Some req \<Rightarrow>
          (let pfx = UserVolumePrefix (RealUID i);
               name = str_or_empty (get_key req ''Name'')
           in if has_prefix name pfx
              then Inr (Doc (case req of None \<Rightarrow> JNull | Some m \<Rightarrow> JObj m))
              else case set_key ''Name'' (JStr (pfx @ name)) req of
                Inl p \<Rightarrow> Inl p
              | Inr m \<Rightarrow> Inr (Doc (JObj m))))"

abbreviation bridgeNameOpt :: string where
  "bridgeNameOpt \<equiv> ''com.docker.network.bridge.name''"

text \<open>The three stages of \<^verbatim>\<open>InjectNetworkNamePrefixWithName\<close> on the decoded map.\<close>

definition rewrite_config_from :: "string \<Rightarrow> jmap \<Rightarrow> jmap" where
  "rewrite_config_from pfx req =
     (case map_of req ''ConfigFrom'' of
        None \<Rightarrow> req
      | Some cfRaw \<Rightarrow>
          (case dec_map cfRaw of
             None \<Rightarrow> req
           | Some configFrom \<Rightarrow>
               (let cfNetwork = str_or_empty (get_key configFrom ''Network'') in
                if cfNetwork \<noteq> [] \<and> \<not> has_prefix cfNetwork pfx
                then (case configFrom of
                        None \<Rightarrow> req
                      | Some cf \<Rightarrow>
                          map_put ''ConfigFrom''
                            (JObj (map_put ''Network'' (JStr (pfx @ cfNetwork)) cf)) req)
                else req)))"

definition skip_bridge_name :: "jmap \<Rightarrow> bool" where
  "skip_bridge_name req =
     (let config_only = (case map_of req ''ConfigOnly'' of
                           None \<Rightarrow> False
                         | Some co \<Rightarrow> (case dec_bool co of None \<Rightarrow> False | Some b \<Rightarrow> b))
      in if config_only then True
         else (case map_of req ''ConfigFrom'' of
                 None \<Rightarrow> False
               | Some cfRaw \<Rightarrow>
                   (case obj_entries cfRaw of
                      None \<Rightarrow> False
                    | Some es \<Rightarrow>
                        (case field_str ''Network'' es of None \<Rightarrow> False | Some n \<Rightarrow> n \<noteq> []))))"

definition inject_bridge_name :: "string \<Rightarrow> jmap \<Rightarrow> jmap" where
  "inject_bridge_name userVisibleName req =
     (if \<not> skip_bridge_name req \<and> userVisibleName \<noteq> [] \<and> length userVisibleName \<le> 15 then
        (let driver = str_or_empty (map_of req ''Driver'') in
         if driver = [] \<or> driver = ''bridge'' then
           (let opts = (case map_of req ''Options'' of
                          None \<Rightarrow> []
                        | Some optRaw \<Rightarrow> (case dec_map optRaw of Some (Some m) \<Rightarrow> m | _ \<Rightarrow> []))
            in case map_of opts bridgeNameOpt of
                 Some _ \<Rightarrow> req
               | None \<Rightarrow> map_put ''Options''
                           (JObj (map_put bridgeNameOpt (JStr userVisibleName) opts)) req)
         else req)
      else req)"

definition InjectNetworkNamePrefixWithName :: "body \<Rightarrow> CallerIdentity \<Rightarrow> (go_panic, body \<times> string) result" where
  "InjectNetworkNamePrefixWithName b i =
     (case body_map b of
        None \<Rightarrow> Inr (b, [])
      | Some oreq \<Rightarrow>
          (let pfx = UserResourcePrefix i;
               name = str_or_empty (get_key oreq ''Name'');
               actualName = (if has_prefix name pfx then name else pfx @ name)
           in case (if has_prefix name pfx
                    then (case oreq of None \<Rightarrow> Inr [] | Some m \<Rightarrow> Inr m)
                    else set_key ''Name'' (JStr actualName) oreq) of
                Inl p \<Rightarrow> Inl p
              | Inr req \<Rightarrow>
                  Inr (Doc (JObj (inject_bridge_name (trim_prefix name pfx)
                                    (rewrite_config_from pfx req))), actualName)))"

definition isHexID :: "string \<Rightarrow> bool" where
  "isHexID s \<longleftrightarrow>
     (length s = 12 \<or> length s = 64) \<and> list_all (\<lambda>c. c \<in> set ''0123456789abcdefABCDEF'') s"

definition RewriteContainerInNetworkBody :: "body \<Rightarrow> int \<Rightarrow> body" where
  "RewriteContainerInNetworkBody b uid =
     (case body_map b of
        Some (Some req) \<Rightarrow>
          (case map_of req ''Container'' of
             None \<Rightarrow> b
           | Some raw \<Rightarrow>
               (case dec_str raw of
                  None \<Rightarrow> b
                | Some containerName \<Rightarrow>
                    (let pfx = UserContainerPrefix uid in
                     if containerName = [] \<or> has_prefix containerName pfx \<or> isHexID containerName
                     then b
                     else Doc (JObj (map_put ''Container'' (JStr (pfx @ containerName)) req)))))
      | _ \<Rightarrow> b)"

section \<open>Rewriting of request paths\<close>

definition ExtractVolumeName :: "string \<Rightarrow> string" where
  "ExtractVolumeName path =
     (let p = StripAPIVersion path in
      if \<not> has_prefix p ''/volumes/'' then [] else up_to_slash (drop (length ''/volumes/'') p))"

definition ExtractNetworkID :: "string \<Rightarrow> string" where
  "ExtractNetworkID path =
     (let p = StripAPIVersion path in
      if \<not> has_prefix p ''/networks/'' then [] else up_to_slash (drop (length ''/networks/'') p))"

definition RewriteVolumeURL :: "string \<Rightarrow> int \<Rightarrow> string" where
  "RewriteVolumeURL path uid =
     (let volName = ExtractVolumeName path in
      if volName = [] \<or> volName = ''create'' \<or> volName = ''prune'' then path
      else if isHexID volName then path
      else if has_prefix volName (UserVolumePrefix uid) then path
      else replace_first path (''/volumes/'' @ volName) (''/volumes/'' @ UserVolumePrefix uid @ volName))"

text \<open>The names of the networks the proxy manages are left alone.\<close>

definition managed_network_name :: "string \<Rightarrow> int \<Rightarrow> bool" where
  "managed_network_name netName uid =
     (let uidStr = itoa uid in
      netName = UserBridgeName uid \<or>
      (has_prefix netName ''peer-'' \<and>
       (has_prefix (drop (length ''peer-'') netName) (uidStr @ ''-'') \<or>
        contains_str netName (''-'' @ uidStr @ ''-'') \<or>
        has_suffix netName (''-'' @ uidStr))))"

definition RewriteNetworkURL :: "string \<Rightarrow> CallerIdentity \<Rightarrow> string" where
  "RewriteNetworkURL path i =
     (let netName = ExtractNetworkID path in
      if netName = [] \<or> netName = ''create'' \<or> netName = ''prune'' then path
      else if isHexID netName then path
      else if managed_network_name netName (RealUID i) then path
      else if has_prefix netName (UserResourcePrefix i) then path
      else replace_first path (''/networks/'' @ netName) (''/networks/'' @ UserResourcePrefix i @ netName))"

definition containerSpecialIDs :: "string list" where
  "containerSpecialIDs = [''json'', ''create'', ''prune'']"

type_synonym query_params = "(string \<times> string) list"

definition query_get :: "query_params \<Rightarrow> string \<Rightarrow> string" where
  "query_get q k = (case map_of q k of None \<Rightarrow> [] | Some v \<Rightarrow> v)"

text \<open>\<^verbatim>\<open>q.Set(k, v)\<close> followed by \<^verbatim>\<open>q.Encode()\<close>, which sorts by key.\<close>

definition query_set :: "string \<Rightarrow> string \<Rightarrow> query_params \<Rightarrow> query_params" where
  "query_set k v q = sort_key fst (filter (\<lambda>p. fst p \<noteq> k) q @ [(k, v)])"

definition RewriteContainerURL :: "string \<times> query_params \<Rightarrow> int \<Rightarrow> string \<times> query_params" where
  "RewriteContainerURL url uid =
     (case url of (path, q) \<Rightarrow>
        (let p = StripAPIVersion path; pfx = UserContainerPrefix uid in
         if p = ''/commit'' then
           (let containerParam = query_get q ''container'' in
            if containerParam \<noteq> [] \<and> \<not> has_prefix containerParam pfx \<and> \<not> isHexID containerParam
            then (path, query_set ''container'' (pfx @ containerParam) q)
            else (path, q))
         else if \<not> has_prefix p ''/containers/'' then (path, q)
         else
           (let containerID = up_to_slash (drop (length ''/containers/'') p) in
            if containerID = [] \<or> containerID \<in> set containerSpecialIDs \<or> isHexID containerID then (path, q)
            else if list_ex (\<lambda>c. c = CHR '':'' \<or> c = CHR ''/'') containerID then (path, q)
            else if has_prefix containerID pfx then (path, q)
            else (replace_first path (''/containers/'' @ containerID)
                    (''/containers/'' @ pfx @ containerID), q))))"

text \<open>
  \<^verbatim>\<open>ExtractRequestedNetworks\<close>: Go iterates over the endpoint map in random order, here in
  the order of its keys.
\<close>

definition ExtractRequestedNetworks :: "body \<Rightarrow> string list" where
  "ExtractRequestedNetworks b =
     (case body_struct b of
        None \<Rightarrow> []
      | Some es \<Rightarrow>
          (case (sub_struct ''HostConfig'' es, sub_struct ''NetworkingConfig'' es) of
             (Some hc, Some nc) \<Rightarrow>
               (case (field_str ''NetworkMode'' hc, field_map ''EndpointsConfig'' nc) of
                  (Some mode, Some eps) \<Rightarrow>
                    (if mode \<noteq> [] then [mode] else []) @
                    filter (\<lambda>n. mode = [] \<or> n \<noteq> mode) (map fst eps)
                | _ \<Rightarrow> [])
           | _ \<Rightarrow> []))"

section \<open>Removal from responses\<close>

definition StripVolumeInspectPrefix :: "body \<Rightarrow> int \<Rightarrow> body" where
  "StripVolumeInspectPrefix b uid =
     (case body_map b of
        Some (Some resp) \<Rightarrow>
          (let pfx = UserVolumePrefix uid; name = str_or_empty (map_of resp ''Name'') in
           if \<not> has_prefix name pfx then b
           else
             (let stripped = trim_prefix name pfx;
                  resp1 = map_put ''Name'' (JStr stripped) resp
              in case map_of resp1 ''Mountpoint'' of
                   None \<Rightarrow> Doc (JObj resp1)
                 | Some raw \<Rightarrow>
                     (case dec_str raw of
                        None \<Rightarrow> Doc (JObj resp1)
                      | Some mp \<Rightarrow>
                          (if contains_str mp name
                           then Doc (JObj (map_put ''Mountpoint'' (JStr (replace_first mp name stripped)) resp1))
                           else Doc (JObj resp1)))))
      | _ \<Rightarrow> b)"

definition StripVolumeNamePrefix :: "body \<Rightarrow> int \<Rightarrow> body" where
  "StripVolumeNamePrefix b uid =
     (case body_map b of
        Some (Some resp) \<Rightarrow>
          (let pfx = UserVolumePrefix uid; name = str_or_empty (map_of resp ''Name'') in
           if \<not> has_prefix name pfx then b
           else Doc (JObj (map_put ''Name'' (JStr (trim_prefix name pfx)) resp)))
      | _ \<Rightarrow> b)"

text \<open>The first of the prefixes that matches is removed, once.\<close>

fun strip_first_prefix :: "string list \<Rightarrow> string \<Rightarrow> string option" where
  "strip_first_prefix [] dns = None"
| "strip_first_prefix (p # ps) dns =
     (if p \<noteq> [] \<and> has_prefix dns p then Some (trim_prefix dns p) else strip_first_prefix ps dns)"

definition stripNetworkEntryDNSPrefix :: "json \<Rightarrow> string list \<Rightarrow> json \<times> bool" where
  "stripNetworkEntryDNSPrefix entry pfxs =
     (case dec_map entry of
        Some (Some obj) \<Rightarrow>
          (case map_of obj ''DNSNames'' of
             None \<Rightarrow> (entry, False)
           | Some dnsRaw \<Rightarrow>
               (if dnsRaw = JNull then (entry, False)
                else case dec_str_list dnsRaw of
                  None \<Rightarrow> (entry, False)
                | Some dnsNames \<Rightarrow>
                    (if list_ex (\<lambda>d. strip_first_prefix pfxs d \<noteq> None) dnsNames
                     then (JObj (map_put ''DNSNames''
                             (JArr (map (\<lambda>d. JStr (case strip_first_prefix pfxs d of
                                                     None \<Rightarrow> d | Some d' \<Rightarrow> d')) dnsNames)) obj), True)
                     else (entry, False))))
      | _ \<Rightarrow> (entry, False))"

definition strip_network_key :: "string \<Rightarrow> string \<Rightarrow> string" where
  "strip_network_key netPrefix key =
     (let newKey = trim_prefix key netPrefix in if newKey = [] then key else newKey)"

text \<open>Colliding keys are resolved in the order of the map, where Go's order is random.\<close>

definition StripContainerInspectNetworkPrefix :: "body \<Rightarrow> string \<Rightarrow> string \<Rightarrow> body" where
  "StripContainerInspectNetworkPrefix b netPrefix containerPrefix =
     (if b = Raw [] \<or> (netPrefix = [] \<and> containerPrefix = []) then b
      else case body_map b of
        Some (Some resp) \<Rightarrow>
          (case map_of resp ''NetworkSettings'' of
             None \<Rightarrow> b
           | Some nsRaw \<Rightarrow>
               (case dec_map nsRaw of
                  Some (Some ns) \<Rightarrow>
                    (case map_of ns ''Networks'' of
                       None \<Rightarrow> b
                     | Some networksRaw \<Rightarrow>
                         (case dec_map networksRaw of
                            Some (Some networks) \<Rightarrow>
                              (let out = map (\<lambda>(key, entry). (strip_network_key netPrefix key,
                                           stripNetworkEntryDNSPrefix entry [netPrefix, containerPrefix])) networks;
                                   changed = list_ex (\<lambda>((key, entry), (newKey, (e, c))). newKey \<noteq> key \<or> c)
                                               (zip networks out);
                                   newNetworks = to_map (map (\<lambda>(k, (e, c)). (k, e)) out)
                               in if networks = [] \<or> \<not> changed then b
                                  else Doc (JObj (map_put ''NetworkSettings''
                                         (JObj (map_put ''Networks'' (JObj newNetworks) ns)) resp)))
                          | _ \<Rightarrow> b))
                | _ \<Rightarrow> b))
      | _ \<Rightarrow> b)"

end
