(* ===== verification/Sql.thy ===== *)
theory Sql
  imports Prelude
begin

text \<open>
  The statements of SQL the program sends to SQLite, on a table given as the list of its rows
  in rowid order: \<^verbatim>\<open>INSERT OR REPLACE\<close> drops the row with the same key and appends the
  new one, \<^verbatim>\<open>INSERT OR IGNORE\<close> keeps an existing row, an upsert rewrites it in place,
  and a plain \<^verbatim>\<open>INSERT\<close> fails on a key that is taken.  The locale \<open>owner_store\<close>
  is the contract between a table of resource owners and the code that uses it.
\<close>

section \<open>Statements\<close>

definition insert_or_replace :: "('r \<Rightarrow> 'k) \<Rightarrow> 'r \<Rightarrow> 'r list \<Rightarrow> 'r list" where
  "insert_or_replace key row t = filter (\<lambda>r. key r \<noteq> key row) t @ [row]"

definition insert_or_ignore :: "('r \<Rightarrow> 'k) \<Rightarrow> 'r \<Rightarrow> 'r list \<Rightarrow> 'r list" where
  "insert_or_ignore key row t = (if list_ex (\<lambda>r. key r = key row) t then t else t @ [row])"

definition insert_unique :: "('r \<Rightarrow> 'k) \<Rightarrow> 'r \<Rightarrow> 'r list \<Rightarrow> 'r list option" where
  "insert_unique key row t = (if list_ex (\<lambda>r. key r = key row) t then None else Some (t @ [row]))"

definition upsert :: "('r \<Rightarrow> 'k) \<Rightarrow> ('r \<Rightarrow> 'r) \<Rightarrow> 'r \<Rightarrow> 'r list \<Rightarrow> 'r list" where
  "upsert key upd row t =
     (if list_ex (\<lambda>r. key r = key row) t
      then map (\<lambda>r. if key r = key row then upd r else r) t else t @ [row])"

definition delete_where :: "('r \<Rightarrow> bool) \<Rightarrow> 'r list \<Rightarrow> 'r list" where
  "delete_where P t = filter (\<lambda>r. \<not> P r) t"

definition update_where :: "('r \<Rightarrow> bool) \<Rightarrow> ('r \<Rightarrow> 'r) \<Rightarrow> 'r list \<Rightarrow> 'r list" where
  "update_where P f t = map (\<lambda>r. if P r then f r else r) t"

definition count_where :: "('r \<Rightarrow> bool) \<Rightarrow> 'r list \<Rightarrow> nat" where
  "count_where P t = length (filter P t)"

lemmas sql_defs = insert_or_replace_def insert_or_ignore_def insert_unique_def upsert_def
  delete_where_def update_where_def count_where_def

section \<open>Keys\<close>

definition unique_key :: "('r \<Rightarrow> 'k) \<Rightarrow> 'r list \<Rightarrow> bool" where
  "unique_key key t \<longleftrightarrow> distinct (map key t)"

lemma distinct_map_filter': "distinct (map f xs) \<Longrightarrow> distinct (map f (filter P xs))"
  by (induction xs) auto

named_theorems sql_keys \<open>statements keep keys unique\<close>

lemma unique_key_Nil [sql_keys]: "unique_key key []"
  by (simp add: unique_key_def)

lemma unique_key_replace [sql_keys]: "unique_key key t \<Longrightarrow> unique_key key (insert_or_replace key row t)"
  by (auto simp: unique_key_def insert_or_replace_def distinct_map_filter')

lemma unique_key_ignore [sql_keys]: "unique_key key t \<Longrightarrow> unique_key key (insert_or_ignore key row t)"
  by (auto simp: unique_key_def insert_or_ignore_def list_ex_iff)

lemma unique_key_unique [sql_keys]:
  "unique_key key t \<Longrightarrow> insert_unique key row t = Some t' \<Longrightarrow> unique_key key t'"
  by (fastforce simp: unique_key_def insert_unique_def list_ex_iff split: if_splits)

lemma unique_key_upsert [sql_keys]:
  assumes "unique_key key t" "\<And>r. key (upd r) = key r"
  shows "unique_key key (upsert key upd row t)"
proof -
  have "map key (map (\<lambda>r. if key r = key row then upd r else r) t) = map key t"
    using assms(2) by (induction t) auto
  then show ?thesis
    using assms(1) by (auto simp: unique_key_def upsert_def list_ex_iff simp del: map_map)
qed

lemma unique_key_delete [sql_keys]: "unique_key key t \<Longrightarrow> unique_key key (delete_where P t)"
  by (auto simp: unique_key_def delete_where_def distinct_map_filter')

lemma unique_key_update [sql_keys]:
  assumes "unique_key key t" "\<And>r. key (f r) = key r"
  shows "unique_key key (update_where P f t)"
proof -
  have "map key (update_where P f t) = map key t"
    using assms(2) by (induction t) (auto simp: update_where_def)
  then show ?thesis using assms(1) by (simp add: unique_key_def)
qed

lemma unique_key_eq:
  "unique_key key t \<Longrightarrow> x \<in> set t \<Longrightarrow> y \<in> set t \<Longrightarrow> key x = key y \<Longrightarrow> x = y"
  unfolding unique_key_def by (metis distinct_map inj_onD)

section \<open>Queries after statements\<close>

lemma find_append: "find P (xs @ ys) = (case find P xs of None \<Rightarrow> find P ys | Some x \<Rightarrow> Some x)"
  by (induction xs) auto

lemma find_none: "(\<And>x. x \<in> set xs \<Longrightarrow> \<not> P x) \<Longrightarrow> find P xs = None"
  by (induction xs) auto

lemma find_replace_same [simp]:
  "find (\<lambda>r. key r = key row) (insert_or_replace key row t) = Some row"
proof -
  have "find (\<lambda>r. key r = key row) (filter (\<lambda>r. key r \<noteq> key row) t) = None"
    by (rule find_none) auto
  then show ?thesis by (simp add: insert_or_replace_def find_append)
qed

lemma find_filter_other:
  "(\<And>x. P x \<Longrightarrow> Q x) \<Longrightarrow> find P (filter Q xs) = find P xs"
  by (induction xs) auto

lemma find_replace_other:
  "k \<noteq> key row \<Longrightarrow> find (\<lambda>r. key r = k) (insert_or_replace key row t) = find (\<lambda>r. key r = k) t"
proof -
  assume k: "k \<noteq> key row"
  then have "find (\<lambda>r. key r = k) (filter (\<lambda>r. key r \<noteq> key row) t) = find (\<lambda>r. key r = k) t"
    by (intro find_filter_other) auto
  then show ?thesis using k by (simp add: insert_or_replace_def find_append split: option.splits)
qed

lemma find_delete_same [simp]: "find (\<lambda>r. key r = k) (delete_where (\<lambda>r. key r = k) t) = None"
  unfolding delete_where_def by (rule find_none) auto

lemma find_delete_other:
  "k' \<noteq> k \<Longrightarrow> find (\<lambda>r. key r = k') (delete_where (\<lambda>r. key r = k) t) = find (\<lambda>r. key r = k') t"
  unfolding delete_where_def by (rule find_filter_other) auto

lemma find_upsert_same:
  "(\<And>r. key (upd r) = key r) \<Longrightarrow> find (\<lambda>r. key r = key row) (upsert key upd row t) =
     (case find (\<lambda>r. key r = key row) t of None \<Rightarrow> Some row | Some r \<Rightarrow> Some (upd r))"
proof (cases "find (\<lambda>r. key r = key row) t")
  case None
  then have "\<not> list_ex (\<lambda>r. key r = key row) t" by (auto simp: list_ex_iff find_None_iff)
  then show ?thesis using None by (simp add: upsert_def find_append)
next
  case (Some r)
  assume upd: "\<And>r. key (upd r) = key r"
  have ex: "list_ex (\<lambda>r. key r = key row) t"
    using find_Some_iff [OF Some] by (auto simp: list_ex_iff)
  have "find (\<lambda>r. key r = key row) (map (\<lambda>r. if key r = key row then upd r else r) t) = Some (upd r)"
    using Some by (induction t) (auto simp: upd split: if_splits)
  then show ?thesis using ex Some by (simp add: upsert_def)
qed

lemma find_upsert_other:
  "k \<noteq> key row \<Longrightarrow> (\<And>r. key (upd r) = key r) \<Longrightarrow>
     find (\<lambda>r. key r = k) (upsert key upd row t) = find (\<lambda>r. key r = k) t"
proof -
  assume k: "k \<noteq> key row" and upd: "\<And>r. key (upd r) = key r"
  have "find (\<lambda>r. key r = k) (map (\<lambda>r. if key r = key row then upd r else r) t) = find (\<lambda>r. key r = k) t"
    using k by (induction t) (auto simp: upd)
  then show ?thesis using k by (auto simp: upsert_def find_append split: option.splits)
qed

section \<open>The contract of a table of owners\<close>

text \<open>The operations a client performs on one table.\<close>

datatype ('k, 'v) store_op = Put 'k 'v | Del 'k

text \<open>The abstract table: a map from keys to owners.\<close>

fun store_spec :: "('v \<Rightarrow> 'w) \<Rightarrow> ('k, 'v) store_op \<Rightarrow> ('k \<rightharpoonup> 'w) \<Rightarrow> ('k \<rightharpoonup> 'w)" where
  "store_spec info (Put k v) m = m(k \<mapsto> info v)"
| "store_spec info (Del k) m = m(k := None)"

locale owner_store =
  fixes put :: "'k \<Rightarrow> 'v \<Rightarrow> 's \<Rightarrow> 's"
    and get :: "'s \<Rightarrow> 'k \<Rightarrow> 'w option"
    and del :: "'k \<Rightarrow> 's \<Rightarrow> 's"
    and info :: "'v \<Rightarrow> 'w"
    and healthy :: "'s \<Rightarrow> bool"
  assumes get_put_same: "healthy s \<Longrightarrow> get (put k v s) k = Some (info v)"
    and get_put_other: "healthy s \<Longrightarrow> k' \<noteq> k \<Longrightarrow> get (put k v s) k' = get s k'"
    and get_del_same: "healthy s \<Longrightarrow> get (del k s) k = None"
    and get_del_other: "healthy s \<Longrightarrow> k' \<noteq> k \<Longrightarrow> get (del k s) k' = get s k'"
    and healthy_put: "healthy s \<Longrightarrow> healthy (put k v s)"
    and healthy_del: "healthy s \<Longrightarrow> healthy (del k s)"
begin

fun exec :: "('k, 'v) store_op \<Rightarrow> 's \<Rightarrow> 's" where
  "exec (Put k v) s = put k v s"
| "exec (Del k) s = del k s"

lemma healthy_exec: "healthy s \<Longrightarrow> healthy (exec oper s)"
  by (cases oper) (auto simp: healthy_put healthy_del)

lemma healthy_run: "healthy s \<Longrightarrow> healthy (fold exec ops s)"
  by (induction ops arbitrary: s) (auto simp: healthy_exec)

text \<open>Every history of operations refines the same history on the abstract map.\<close>

lemma get_exec: "healthy s \<Longrightarrow> get (exec oper s) = store_spec info oper (get s)"
  by (cases oper) (auto simp: fun_eq_iff get_put_same get_put_other get_del_same get_del_other)

lemma get_history: "healthy s \<Longrightarrow> get (fold exec ops s) = fold (store_spec info) ops (get s)"
  by (induction ops arbitrary: s) (auto simp: get_exec healthy_exec)

end

end
