(* ===== verification/Ownership.thy ===== *)
theory Ownership
  imports Identity Sql
begin

text \<open>
  Package \<^verbatim>\<open>internal/authz\<close>, file \<^verbatim>\<open>ownership.go\<close>: the SQLite database that
  records who owns which container, image, network, volume, host port and swarm object, the
  grants between users, and the network peerings.

  The database is a record of tables (lists of rows in rowid order, the \<^verbatim>\<open>created_at\<close>
  columns left out).  Each statement a method sends can fail: \<open>dbFault db m n\<close> says
  that the \<open>n\<close>-th statement of method \<open>m\<close> fails, in which case it changes
  nothing.  A method that writes returns its error, if any, and the new database.
  SQL leaves the order of rows without \<^verbatim>\<open>ORDER BY\<close> open; the model returns rowid order.
\<close>

section \<open>Tables\<close>

record container_row =
  cId :: string
  cOwnerUsername :: string
  cOwnerUID :: int
  cOwnerGID :: int
  cImageID :: string
  cPrivCtx :: int

record image_row =
  iId :: string
  iOwnerUsername :: string
  iOwnerUID :: int
  iOwnerGID :: int
  iPublic :: int
  iPrivCtx :: int
  iSource :: string

record image_access_row =
  aImageID :: string
  aUserUID :: int
  aPrivCtx :: int

record network_row =
  nId :: string
  nName :: string
  nOwnerUID :: int
  nOwnerUsername :: string
  nShared :: int
  nPrivCtx :: int

record network_access_row =
  naNetworkID :: string
  naUserUID :: int

record volume_row =
  vName :: string
  vOwnerUID :: int
  vOwnerUsername :: string
  vPrivCtx :: int

record PortMappingInfo =
  HostPort :: int
  Protocol :: string
  ContainerPort :: int
  pmContainerID :: string
  pmOwnerUID :: int
  pmOwnerUsername :: string

record NetworkPeerInfo =
  UidA :: int
  UidB :: int
  PeerNetworkID :: string
  ContainerIDA :: string
  ContainerIDB :: string

record VolumesFromGrant =
  vfContainerID :: string
  GranteeUID :: int
  GrantedBy :: int

record swarm_row =
  sId :: string
  sName :: string
  sOwnerUID :: int
  sOwnerUsername :: string

record OwnershipDB =
  tContainers :: "container_row list"
  tImages :: "image_row list"
  tImageAccess :: "image_access_row list"
  tNetworks :: "network_row list"
  tNetworkAccess :: "network_access_row list"
  tVolumes :: "volume_row list"
  tPorts :: "PortMappingInfo list"
  tPeers :: "NetworkPeerInfo list"
  tVolumesFrom :: "VolumesFromGrant list"
  tServices :: "swarm_row list"
  tSecrets :: "swarm_row list"
  tConfigs :: "swarm_row list"
  dbFault :: "string \<Rightarrow> nat \<Rightarrow> bool"

record OwnerInfo =
  oiUsername :: string
  oiUID :: int
  oiGID :: int
  oiSource :: string

datatype db_error = DBError

type_synonym 'a query = "(db_error, 'a) result"
type_synonym db_write = "OwnershipDB \<Rightarrow> db_error option \<times> OwnershipDB"

definition emptyDB :: "(string \<Rightarrow> nat \<Rightarrow> bool) \<Rightarrow> OwnershipDB" where
  "emptyDB f =
     \<lparr>tContainers = [], tImages = [], tImageAccess = [], tNetworks = [], tNetworkAccess = [],
      tVolumes = [], tPorts = [], tPeers = [], tVolumesFrom = [], tServices = [], tSecrets = [],
      tConfigs = [], dbFault = f\<rparr>"

text \<open>One statement that writes: it fails without effect, or applies its update.\<close>

definition exec_stmt :: "string \<Rightarrow> nat \<Rightarrow> (OwnershipDB \<Rightarrow> OwnershipDB) \<Rightarrow> db_write" where
  "exec_stmt m n upd db = (if dbFault db m n then (Some DBError, db) else (None, upd db))"

text \<open>A statement that reads rows, and one that reads the first row (no row is an error).\<close>

definition query_stmt :: "string \<Rightarrow> nat \<Rightarrow> OwnershipDB \<Rightarrow> 'a \<Rightarrow> 'a query" where
  "query_stmt m n db v = (if dbFault db m n then Inl DBError else Inr v)"

definition query_row :: "string \<Rightarrow> nat \<Rightarrow> OwnershipDB \<Rightarrow> 'a option \<Rightarrow> 'a option" where
  "query_row m n db v = (if dbFault db m n then None else v)"

text \<open>\<^verbatim>\<open>_ = QueryRow("SELECT COUNT...").Scan(&count)\<close>: the count stays 0 on an error.\<close>

definition query_count :: "string \<Rightarrow> nat \<Rightarrow> OwnershipDB \<Rightarrow> nat \<Rightarrow> nat" where
  "query_count m n db v = (if dbFault db m n then 0 else v)"

lemmas stmt_defs = exec_stmt_def query_stmt_def query_row_def query_count_def

definition priv_ctx :: "CallerIdentity \<Rightarrow> int" where
  "priv_ctx i = (if IsSudoCommand i then 1 else 0)"

section \<open>Containers\<close>

definition SetContainerOwner :: "string \<Rightarrow> CallerIdentity \<Rightarrow> string \<Rightarrow> db_write" where
  "SetContainerOwner cid i imageID =
     exec_stmt ''SetContainerOwner'' 0
       (tContainers_update (insert_or_replace cId
          \<lparr>cId = cid, cOwnerUsername = RealUsername i, cOwnerUID = RealUID i, cOwnerGID = RealGID i,
           cImageID = imageID, cPrivCtx = priv_ctx i\<rparr>))"

definition HasContainerUsingImage :: "OwnershipDB \<Rightarrow> int \<Rightarrow> string \<Rightarrow> bool query" where
  "HasContainerUsingImage db uid imageID =
     query_stmt ''HasContainerUsingImage'' 0 db
       (count_where (\<lambda>r. cOwnerUID r = uid \<and> cImageID r = imageID) (tContainers db) > 0)"

definition GetContainerOwner :: "OwnershipDB \<Rightarrow> string \<Rightarrow> OwnerInfo option" where
  "GetContainerOwner db cid =
     query_row ''GetContainerOwner'' 0 db
       (map_option (\<lambda>r. \<lparr>oiUsername = cOwnerUsername r, oiUID = cOwnerUID r, oiGID = cOwnerGID r,
                         oiSource = []\<rparr>)
          (find (\<lambda>r. cId r = cid) (tContainers db)))"

definition GetContainerOwnerAndPrivCtx :: "OwnershipDB \<Rightarrow> string \<Rightarrow> (int \<times> int) option" where
  "GetContainerOwnerAndPrivCtx db cid =
     query_row ''GetContainerOwnerAndPrivCtx'' 0 db
       (map_option (\<lambda>r. (cOwnerUID r, cPrivCtx r)) (find (\<lambda>r. cId r = cid) (tContainers db)))"

definition DeleteContainer :: "string \<Rightarrow> db_write" where
  "DeleteContainer cid =
     exec_stmt ''DeleteContainer'' 0 (tContainers_update (delete_where (\<lambda>r. cId r = cid)))"

definition CountContainersByOwner :: "OwnershipDB \<Rightarrow> int \<Rightarrow> nat query" where
  "CountContainersByOwner db uid =
     query_stmt ''CountContainersByOwner'' 0 db
       (count_where (\<lambda>r. cOwnerUID r = uid) (tContainers db))"

definition CountAccessibleImages :: "OwnershipDB \<Rightarrow> int \<Rightarrow> nat query" where
  "CountAccessibleImages db uid =
     query_stmt ''CountAccessibleImages'' 0 db
       (length (remdups
          (map iId (filter (\<lambda>r. iOwnerUID r = uid \<or> iPublic r = 1) (tImages db)) @
           map aImageID (filter (\<lambda>r. aUserUID r = uid) (tImageAccess db)))))"

definition GetContainerIDsByOwner :: "OwnershipDB \<Rightarrow> int \<Rightarrow> string list query" where
  "GetContainerIDsByOwner db uid =
     query_stmt ''GetContainerIDsByOwner'' 0 db
       (map cId (filter (\<lambda>r. cOwnerUID r = uid \<and> cPrivCtx r = 0) (tContainers db)))"

section \<open>Images\<close>

definition normalizeImageID :: "string \<Rightarrow> string" where
  "normalizeImageID iid = trim_prefix iid ''sha256:''"

definition matchesImageID :: "string \<Rightarrow> string \<Rightarrow> bool" where
  "matchesImageID stored query =
     (let s = normalizeImageID stored; q = normalizeImageID query in
      if s = q then True
      else if length s < length q then has_prefix q s
      else has_prefix s q)"

definition image_key :: "image_access_row \<Rightarrow> string \<times> int" where
  "image_key r = (aImageID r, aUserUID r)"

text \<open>The \<^verbatim>\<open>ON CONFLICT\<close> clause on \<^verbatim>\<open>images\<close>: only a pull takes over a build.\<close>

definition take_over :: "image_row \<Rightarrow> image_row \<Rightarrow> image_row" where
  "take_over new r =
     (if iSource r = ''build'' \<and> iSource new = ''pull''
      then r \<lparr>iOwnerUsername := iOwnerUsername new, iOwnerUID := iOwnerUID new,
              iOwnerGID := iOwnerGID new, iPrivCtx := iPrivCtx new, iSource := iSource new\<rparr>
      else r)"

definition SetImageOwner :: "string \<Rightarrow> CallerIdentity \<Rightarrow> bool \<Rightarrow> string \<Rightarrow> db_write" where
  "SetImageOwner iid i isPublic source db =
     (let imageID = normalizeImageID iid;
          row = \<lparr>iId = imageID, iOwnerUsername = RealUsername i, iOwnerUID = RealUID i,
                 iOwnerGID = RealGID i, iPublic = (if isPublic then 1 else 0),
                 iPrivCtx = priv_ctx i, iSource = source\<rparr>;
          acc = \<lparr>aImageID = imageID, aUserUID = RealUID i, aPrivCtx = priv_ctx i\<rparr>
      in case exec_stmt ''SetImageOwner'' 0 (tImages_update (upsert iId (take_over row) row)) db of
           (Some e, db1) \<Rightarrow> (Some e, db1)
         | (None, db1) \<Rightarrow>
             exec_stmt ''SetImageOwner'' 1
               (tImageAccess_update
                  (upsert image_key (\<lambda>r. r \<lparr>aPrivCtx := min (aPrivCtx r) (priv_ctx i)\<rparr>) acc)) db1)"

definition is_hex :: "char \<Rightarrow> bool" where
  "is_hex c \<longleftrightarrow> c \<in> set ''0123456789abcdefABCDEF''"

text \<open>\<^verbatim>\<open>LIKE\<close> ignores the case of ASCII letters.\<close>

definition like_prefix :: "string \<Rightarrow> string \<Rightarrow> bool" where
  "like_prefix s p \<longleftrightarrow> has_prefix (to_lower s) (to_lower p)"

definition resolveImageIDInDB :: "OwnershipDB \<Rightarrow> string \<Rightarrow> string" where
  "resolveImageIDInDB db imageID =
     (let norm = normalizeImageID imageID in
      case query_row ''resolveImageIDInDB'' 0 db (find (\<lambda>r. iId r = norm) (tImages db)) of
        Some r \<Rightarrow> iId r
      | None \<Rightarrow>
          (if length norm \<ge> 12 \<and> list_all is_hex (take 12 norm) then
             (let short = take 12 norm in
              case query_row ''resolveImageIDInDB'' 1 db
                     (find (\<lambda>r. iId r = short \<or> like_prefix (iId r) short) (tImages db)) of
                Some r \<Rightarrow> iId r
              | None \<Rightarrow> [])
           else []))"

definition GetImageOwner :: "OwnershipDB \<Rightarrow> string \<Rightarrow> (OwnerInfo \<times> bool \<times> int) option" where
  "GetImageOwner db imageID =
     (let resolvedID = resolveImageIDInDB db imageID in
      if resolvedID = [] then None
      else query_row ''GetImageOwner'' 0 db
             (map_option (\<lambda>r. (\<lparr>oiUsername = iOwnerUsername r, oiUID = iOwnerUID r,
                                oiGID = iOwnerGID r, oiSource = iSource r\<rparr>, iPublic r \<noteq> 0, iPrivCtx r))
                (find (\<lambda>r. iId r = resolvedID) (tImages db))))"

definition HasImageAccess :: "OwnershipDB \<Rightarrow> string \<Rightarrow> int \<Rightarrow> bool" where
  "HasImageAccess db iid uid =
     (let imageID = normalizeImageID iid in
      if imageID = [] then False
      else query_count ''HasImageAccess'' 0 db
             (count_where (\<lambda>r. aImageID r = imageID \<and> aUserUID r = uid \<and> aPrivCtx r = 0)
                (tImageAccess db)) > 0)"

definition GetVolumePrivCtx :: "OwnershipDB \<Rightarrow> string \<Rightarrow> int option" where
  "GetVolumePrivCtx db name =
     query_row ''GetVolumePrivCtx'' 0 db
       (map_option vPrivCtx (find (\<lambda>r. vName r = name) (tVolumes db)))"

definition GetNetworkPrivCtxByName :: "OwnershipDB \<Rightarrow> string \<Rightarrow> int option" where
  "GetNetworkPrivCtxByName db name =
     query_row ''GetNetworkPrivCtxByName'' 0 db
       (map_option nPrivCtx (find (\<lambda>r. nName r = name) (tNetworks db)))"

definition CanUseImage :: "OwnershipDB \<Rightarrow> int \<Rightarrow> string \<Rightarrow> bool" where
  "CanUseImage db realUID imageID =
     (let resolvedID = resolveImageIDInDB db imageID in
      if resolvedID = [] then realUID = 0
      else case query_row ''CanUseImage'' 0 db (find (\<lambda>r. iId r = resolvedID) (tImages db)) of
        None \<Rightarrow> realUID = 0
      | Some r \<Rightarrow>
          (if iPublic r \<noteq> 0 then True
           else if iOwnerUID r = realUID then True
           else query_count ''CanUseImage'' 1 db
                  (count_where (\<lambda>a. aImageID a = resolvedID \<and> aUserUID a = realUID)
                     (tImageAccess db)) > 0))"

definition CanSeeImage :: "OwnershipDB \<Rightarrow> int \<Rightarrow> string \<Rightarrow> bool" where
  "CanSeeImage db realUID imageID =
     (let resolvedID = resolveImageIDInDB db imageID in
      if resolvedID = [] then False
      else
        (let visible = (case query_row ''CanSeeImage'' 0 db
                               (find (\<lambda>r. iId r = resolvedID \<and> iPrivCtx r = 0) (tImages db)) of
                          None \<Rightarrow> False
                        | Some r \<Rightarrow> iPublic r \<noteq> 0 \<or> iOwnerUID r = realUID)
         in if visible then True
            else query_count ''CanSeeImage'' 1 db
                   (count_where (\<lambda>a. aImageID a = resolvedID \<and> aUserUID a = realUID \<and> aPrivCtx a = 0)
                      (tImageAccess db)) > 0))"

definition MarkImagePublic :: "string \<Rightarrow> bool \<Rightarrow> db_write" where
  "MarkImagePublic iid isPublic =
     exec_stmt ''MarkImagePublic'' 0
       (tImages_update (update_where (\<lambda>r. iId r = normalizeImageID iid)
          (\<lambda>r. r \<lparr>iPublic := (if isPublic then 1 else 0)\<rparr>)))"

text \<open>The result is the pair of \<^verbatim>\<open>shouldDelete\<close> and the error.\<close>

definition RemoveUserImageAccess :: "string \<Rightarrow> int \<Rightarrow> OwnershipDB \<Rightarrow> (bool \<times> db_error option) \<times> OwnershipDB" where
  "RemoveUserImageAccess iid uid db =
     (let imageID = normalizeImageID iid in
      case exec_stmt ''RemoveUserImageAccess'' 0
             (tImageAccess_update (delete_where (\<lambda>a. aImageID a = imageID \<and> aUserUID a = uid))) db of
        (Some e, db1) \<Rightarrow> ((False, Some e), db1)
      | (None, db1) \<Rightarrow>
          (case query_stmt ''RemoveUserImageAccess'' 1 db1
                  (count_where (\<lambda>a. aImageID a = imageID) (tImageAccess db1)) of
             Inl e \<Rightarrow> ((False, Some e), db1)
           | Inr count \<Rightarrow> ((count = 0, None), db1)))"

definition GetImageRefCount :: "OwnershipDB \<Rightarrow> string \<Rightarrow> nat query" where
  "GetImageRefCount db iid =
     query_stmt ''GetImageRefCount'' 0 db
       (count_where (\<lambda>a. aImageID a = normalizeImageID iid) (tImageAccess db))"

definition GetImageRefCountExcluding :: "OwnershipDB \<Rightarrow> string \<Rightarrow> int \<Rightarrow> nat query" where
  "GetImageRefCountExcluding db iid excludeUID =
     query_stmt ''GetImageRefCountExcluding'' 0 db
       (count_where (\<lambda>a. aImageID a = normalizeImageID iid \<and> aUserUID a \<noteq> excludeUID) (tImageAccess db))"

definition GetImageRefUsers :: "OwnershipDB \<Rightarrow> string \<Rightarrow> int list query" where
  "GetImageRefUsers db iid =
     query_stmt ''GetImageRefUsers'' 0 db
       (map aUserUID (filter (\<lambda>a. aImageID a = normalizeImageID iid) (tImageAccess db)))"

definition HasUserImageAccess :: "OwnershipDB \<Rightarrow> string \<Rightarrow> int \<Rightarrow> bool query" where
  "HasUserImageAccess db iid uid =
     query_stmt ''HasUserImageAccess'' 0 db
       (count_where (\<lambda>a. aImageID a = normalizeImageID iid \<and> aUserUID a = uid) (tImageAccess db) > 0)"

definition EnsureImageAccess :: "string \<Rightarrow> int \<Rightarrow> db_write" where
  "EnsureImageAccess iid uid =
     exec_stmt ''EnsureImageAccess'' 0
       (tImageAccess_update (insert_or_ignore image_key
          \<lparr>aImageID = normalizeImageID iid, aUserUID = uid, aPrivCtx = 0\<rparr>))"

definition DeleteImage :: "string \<Rightarrow> db_write" where
  "DeleteImage iid db =
     (let resolved = resolveImageIDInDB db iid;
          imageID = (if resolved \<noteq> [] then resolved else normalizeImageID iid);
          (_, db1) = exec_stmt ''DeleteImage'' 0
                       (tImageAccess_update (delete_where (\<lambda>a. aImageID a = imageID))) db
      in exec_stmt ''DeleteImage'' 1 (tImages_update (delete_where (\<lambda>r. iId r = imageID))) db1)"

definition GetImageIDsByOwner :: "OwnershipDB \<Rightarrow> int \<Rightarrow> string list query" where
  "GetImageIDsByOwner db uid =
     query_stmt ''GetImageIDsByOwner'' 0 db
       (map iId (filter (\<lambda>r. iOwnerUID r = uid \<and> iPublic r = 0) (tImages db)))"

definition GetPublicImageIDs :: "OwnershipDB \<Rightarrow> string list query" where
  "GetPublicImageIDs db =
     query_stmt ''GetPublicImageIDs'' 0 db (map iId (filter (\<lambda>r. iPublic r = 1) (tImages db)))"

definition SetImagePublic :: "string \<Rightarrow> bool \<Rightarrow> db_write" where
  "SetImagePublic iid isPublic =
     exec_stmt ''SetImagePublic'' 0
       (tImages_update (update_where (\<lambda>r. iId r = normalizeImageID iid)
          (\<lambda>r. r \<lparr>iPublic := (if isPublic then 1 else 0)\<rparr>)))"

definition IsImagePublic :: "OwnershipDB \<Rightarrow> string \<Rightarrow> bool query" where
  "IsImagePublic db imageID =
     (case query_row ''IsImagePublic'' 0 db (find (\<lambda>r. iId r = imageID) (tImages db)) of
        None \<Rightarrow> Inl DBError
      | Some r \<Rightarrow> Inr (iPublic r = 1))"

section \<open>Networks\<close>

definition network_key :: "network_access_row \<Rightarrow> string \<times> int" where
  "network_key r = (naNetworkID r, naUserUID r)"

definition SetNetworkOwner :: "string \<Rightarrow> string \<Rightarrow> CallerIdentity \<Rightarrow> db_write" where
  "SetNetworkOwner networkID name i =
     exec_stmt ''SetNetworkOwner'' 0
       (tNetworks_update (insert_or_replace nId
          \<lparr>nId = networkID, nName = name, nOwnerUID = RealUID i, nOwnerUsername = RealUsername i,
           nShared = 0, nPrivCtx = priv_ctx i\<rparr>))"

definition SetManagedNetworkOwner :: "string \<Rightarrow> string \<Rightarrow> int \<Rightarrow> string \<Rightarrow> db_write" where
  "SetManagedNetworkOwner networkID name uid username =
     exec_stmt ''SetManagedNetworkOwner'' 0
       (tNetworks_update (insert_or_replace nId
          \<lparr>nId = networkID, nName = name, nOwnerUID = uid, nOwnerUsername = username,
           nShared = 0, nPrivCtx = 0\<rparr>))"

definition GetNetworkIDByName :: "OwnershipDB \<Rightarrow> string \<Rightarrow> string option" where
  "GetNetworkIDByName db name =
     query_row ''GetNetworkIDByName'' 0 db
       (map_option nId (find (\<lambda>r. nName r = name) (tNetworks db)))"

definition GetNetworkOwner :: "OwnershipDB \<Rightarrow> string \<Rightarrow> OwnerInfo option" where
  "GetNetworkOwner db networkID =
     query_row ''GetNetworkOwner'' 0 db
       (map_option (\<lambda>r. \<lparr>oiUsername = nOwnerUsername r, oiUID = nOwnerUID r, oiGID = 0, oiSource = []\<rparr>)
          (find (\<lambda>r. nId r = networkID) (tNetworks db)))"

definition DeleteNetwork :: "string \<Rightarrow> db_write" where
  "DeleteNetwork networkID db =
     (case exec_stmt ''DeleteNetwork'' 0
             (tNetworks_update (delete_where (\<lambda>r. nId r = networkID))) db of
        (Some e, db1) \<Rightarrow> (Some e, db1)
      | (None, db1) \<Rightarrow>
          exec_stmt ''DeleteNetwork'' 1
            (tNetworkAccess_update (delete_where (\<lambda>a. naNetworkID a = networkID))) db1)"

text \<open>The loop over the granted uids, counted from 1: it stops at the first error.\<close>

fun grant_network :: "string \<Rightarrow> nat \<Rightarrow> int list \<Rightarrow> db_write" where
  "grant_network networkID n [] db = (None, db)"
| "grant_network networkID n (uid # uids) db =
     (case exec_stmt ''SetNetworkShared'' n
             (tNetworkAccess_update (insert_or_ignore network_key
                \<lparr>naNetworkID = networkID, naUserUID = uid\<rparr>)) db of
        (Some e, db1) \<Rightarrow> (Some e, db1)
      | (None, db1) \<Rightarrow> grant_network networkID (Suc n) uids db1)"

definition SetNetworkShared :: "string \<Rightarrow> int list \<Rightarrow> db_write" where
  "SetNetworkShared networkID allowedUIDs db =
     (case exec_stmt ''SetNetworkShared'' 0
             (tNetworks_update (update_where (\<lambda>r. nId r = networkID) (\<lambda>r. r \<lparr>nShared := 1\<rparr>))) db of
        (Some e, db1) \<Rightarrow> (Some e, db1)
      | (None, db1) \<Rightarrow> grant_network networkID 1 allowedUIDs db1)"

definition CanUserAccessNetwork :: "OwnershipDB \<Rightarrow> string \<Rightarrow> int \<Rightarrow> bool query" where
  "CanUserAccessNetwork db networkID uid =
     (case GetNetworkOwner db networkID of
        Some owner \<Rightarrow>
          (if oiUID owner = uid then Inr True
           else query_stmt ''CanUserAccessNetwork'' 0 db
                  (count_where (\<lambda>a. naNetworkID a = networkID \<and> naUserUID a = uid)
                     (tNetworkAccess db) > 0))
      | None \<Rightarrow>
          query_stmt ''CanUserAccessNetwork'' 0 db
            (count_where (\<lambda>a. naNetworkID a = networkID \<and> naUserUID a = uid) (tNetworkAccess db) > 0))"

definition GetNetworkIDsByOwner :: "OwnershipDB \<Rightarrow> int \<Rightarrow> string list query" where
  "GetNetworkIDsByOwner db uid =
     query_stmt ''GetNetworkIDsByOwner'' 0 db
       (map nId (filter (\<lambda>r. nOwnerUID r = uid \<and> nPrivCtx r = 0) (tNetworks db)))"

text \<open>A \<^verbatim>\<open>UNION\<close> drops duplicates and delivers the rows sorted.\<close>

definition GetAccessibleNetworkIDs :: "OwnershipDB \<Rightarrow> int \<Rightarrow> string list query" where
  "GetAccessibleNetworkIDs db uid =
     query_stmt ''GetAccessibleNetworkIDs'' 0 db
       (sort (remdups
          (map nId (filter (\<lambda>r. nOwnerUID r = uid \<and> nPrivCtx r = 0) (tNetworks db)) @
           map naNetworkID (filter (\<lambda>a. naUserUID a = uid) (tNetworkAccess db)))))"

section \<open>Volumes\<close>

definition SetVolumeOwner :: "string \<Rightarrow> CallerIdentity \<Rightarrow> db_write" where
  "SetVolumeOwner name i =
     exec_stmt ''SetVolumeOwner'' 0
       (tVolumes_update (insert_or_replace vName
          \<lparr>vName = name, vOwnerUID = RealUID i, vOwnerUsername = RealUsername i,
           vPrivCtx = priv_ctx i\<rparr>))"

definition GetVolumeOwner :: "OwnershipDB \<Rightarrow> string \<Rightarrow> OwnerInfo option" where
  "GetVolumeOwner db name =
     query_row ''GetVolumeOwner'' 0 db
       (map_option (\<lambda>r. \<lparr>oiUsername = vOwnerUsername r, oiUID = vOwnerUID r, oiGID = 0, oiSource = []\<rparr>)
          (find (\<lambda>r. vName r = name) (tVolumes db)))"

definition DeleteVolume :: "string \<Rightarrow> db_write" where
  "DeleteVolume name =
     exec_stmt ''DeleteVolume'' 0 (tVolumes_update (delete_where (\<lambda>r. vName r = name)))"

definition GetAllVolumeNames :: "OwnershipDB \<Rightarrow> string list query" where
  "GetAllVolumeNames db = query_stmt ''GetAllVolumeNames'' 0 db (map vName (tVolumes db))"

definition GetVolumeNamesByOwner :: "OwnershipDB \<Rightarrow> int \<Rightarrow> string list query" where
  "GetVolumeNamesByOwner db uid =
     query_stmt ''GetVolumeNamesByOwner'' 0 db
       (map vName (filter (\<lambda>r. vOwnerUID r = uid \<and> vPrivCtx r = 0) (tVolumes db)))"

section \<open>Host ports\<close>

record PortConflictError =
  pcHostPort :: int
  pcProtocol :: string
  ExistingContainer :: string
  ExistingOwner :: string
  ExistingOwnerUID :: int

definition port_key :: "PortMappingInfo \<Rightarrow> int \<times> string" where
  "port_key m = (HostPort m, Protocol m)"

definition truncateID :: "string \<Rightarrow> string" where
  "truncateID cid = (if length cid > 12 then take 12 cid else cid)"

definition PortConflictError_Error :: "PortConflictError \<Rightarrow> string" where
  "PortConflictError_Error e =
     ''port '' @ itoa (pcHostPort e) @ ''/'' @ pcProtocol e @ '' already in use by container ''
     @ truncateID (ExistingContainer e) @ '' (owner: '' @ ExistingOwner e @ '' uid=''
     @ itoa (ExistingOwnerUID e) @ '')''"

text \<open>The holder of a port as the error path reads it: zero values when the read fails.\<close>

definition conflict_of :: "OwnershipDB \<Rightarrow> nat \<Rightarrow> PortMappingInfo \<Rightarrow> PortConflictError" where
  "conflict_of db n m =
     (case query_row ''AddPortMappings'' (2 * n + 1) db
             (find (\<lambda>r. HostPort r = HostPort m \<and> Protocol r = Protocol m) (tPorts db)) of
        None \<Rightarrow> \<lparr>pcHostPort = HostPort m, pcProtocol = Protocol m, ExistingContainer = [],
                 ExistingOwner = [], ExistingOwnerUID = 0\<rparr>
      | Some r \<Rightarrow> \<lparr>pcHostPort = HostPort m, pcProtocol = Protocol m,
                   ExistingContainer = pmContainerID r, ExistingOwner = pmOwnerUsername r,
                   ExistingOwnerUID = pmOwnerUID r\<rparr>)"

fun add_ports :: "nat \<Rightarrow> PortMappingInfo list \<Rightarrow> OwnershipDB \<Rightarrow> PortConflictError option \<times> OwnershipDB" where
  "add_ports n [] db = (None, db)"
| "add_ports n (m # ms) db =
     (case (if dbFault db ''AddPortMappings'' (2 * n) then None
            else insert_unique port_key m (tPorts db)) of
        None \<Rightarrow> (Some (conflict_of db n m), db)
      | Some t \<Rightarrow> add_ports (Suc n) ms (db \<lparr>tPorts := t\<rparr>))"

definition AddPortMappings :: "PortMappingInfo list \<Rightarrow> OwnershipDB \<Rightarrow> PortConflictError option \<times> OwnershipDB" where
  "AddPortMappings mappings db = add_ports 0 mappings db"

definition ReleasePortMappings :: "string \<Rightarrow> db_write" where
  "ReleasePortMappings containerID =
     exec_stmt ''ReleasePortMappings'' 0
       (tPorts_update (delete_where (\<lambda>m. pmContainerID m = containerID)))"

definition GetPortMappingsByOwner :: "OwnershipDB \<Rightarrow> int \<Rightarrow> PortMappingInfo list query" where
  "GetPortMappingsByOwner db uid =
     query_stmt ''GetPortMappingsByOwner'' 0 db
       (sort_key HostPort (filter (\<lambda>m. pmOwnerUID m = uid) (tPorts db)))"

definition GetPortMapping :: "OwnershipDB \<Rightarrow> int \<Rightarrow> string \<Rightarrow> PortMappingInfo option" where
  "GetPortMapping db hostPort protocol =
     query_row ''GetPortMapping'' 0 db
       (find (\<lambda>m. HostPort m = hostPort \<and> Protocol m = protocol) (tPorts db))"

section \<open>Network peerings\<close>

definition IsUserLevel :: "NetworkPeerInfo \<Rightarrow> bool" where
  "IsUserLevel p \<longleftrightarrow> ContainerIDA p = [] \<and> ContainerIDB p = []"

definition peer_key :: "NetworkPeerInfo \<Rightarrow> int \<times> int \<times> string \<times> string" where
  "peer_key p = (UidA p, UidB p, ContainerIDA p, ContainerIDB p)"

text \<open>The smaller uid comes first, and the containers are exchanged with the uids.\<close>

definition order_peer :: "int \<Rightarrow> int \<Rightarrow> string \<Rightarrow> string \<Rightarrow> int \<times> int \<times> string \<times> string" where
  "order_peer uidA uidB ca cb = (if uidA > uidB then (uidB, uidA, cb, ca) else (uidA, uidB, ca, cb))"

definition AddNetworkPeer :: "int \<Rightarrow> int \<Rightarrow> string \<Rightarrow> string \<Rightarrow> string \<Rightarrow> db_write" where
  "AddNetworkPeer uidA uidB peerNetworkID containerIDA containerIDB =
     (case order_peer uidA uidB containerIDA containerIDB of (a, b, ca, cb) \<Rightarrow>
        exec_stmt ''AddNetworkPeer'' 0
          (tPeers_update (insert_or_replace peer_key
             \<lparr>UidA = a, UidB = b, PeerNetworkID = peerNetworkID, ContainerIDA = ca, ContainerIDB = cb\<rparr>)))"

definition peer_selected :: "int \<times> int \<times> string \<times> string \<Rightarrow> NetworkPeerInfo \<Rightarrow> bool" where
  "peer_selected k p =
     (case k of (a, b, ca, cb) \<Rightarrow>
        (if ca = [] \<and> cb = [] then UidA p = a \<and> UidB p = b
         else UidA p = a \<and> UidB p = b \<and> ContainerIDA p = ca \<and> ContainerIDB p = cb))"

text \<open>The identifiers of the selected networks are returned even when the deletion fails.\<close>

definition RemoveNetworkPeer ::
  "int \<Rightarrow> int \<Rightarrow> string \<Rightarrow> string \<Rightarrow> OwnershipDB \<Rightarrow> (string list \<times> db_error option) \<times> OwnershipDB" where
  "RemoveNetworkPeer uidA uidB containerIDA containerIDB db =
     (let k = order_peer uidA uidB containerIDA containerIDB in
      case query_stmt ''RemoveNetworkPeer'' 0 db
             (map PeerNetworkID (filter (peer_selected k) (tPeers db))) of
        Inl e \<Rightarrow> (([], Some e), db)
      | Inr ids \<Rightarrow>
          (case exec_stmt ''RemoveNetworkPeer'' 1 (tPeers_update (delete_where (peer_selected k))) db of
             (err, db1) \<Rightarrow> ((ids, err), db1)))"

definition GetNetworkPeer :: "OwnershipDB \<Rightarrow> int \<Rightarrow> int \<Rightarrow> NetworkPeerInfo option" where
  "GetNetworkPeer db uidA uidB =
     query_row ''GetNetworkPeer'' 0 db
       (find (\<lambda>p. peer_key p = order_peer uidA uidB [] []) (tPeers db))"

definition GetContainerPeer :: "OwnershipDB \<Rightarrow> int \<Rightarrow> int \<Rightarrow> string \<Rightarrow> string \<Rightarrow> NetworkPeerInfo option" where
  "GetContainerPeer db uidA uidB containerIDA containerIDB =
     query_row ''GetContainerPeer'' 0 db
       (find (\<lambda>p. peer_key p = order_peer uidA uidB containerIDA containerIDB) (tPeers db))"

definition GetAllNetworkPeers :: "OwnershipDB \<Rightarrow> NetworkPeerInfo list query" where
  "GetAllNetworkPeers db = query_stmt ''GetAllNetworkPeers'' 0 db (tPeers db)"

definition GetNetworkPeersByContainer :: "OwnershipDB \<Rightarrow> string \<Rightarrow> NetworkPeerInfo list query" where
  "GetNetworkPeersByContainer db containerID =
     query_stmt ''GetNetworkPeersByContainer'' 0 db
       (filter (\<lambda>p. ContainerIDA p = containerID \<or> ContainerIDB p = containerID) (tPeers db))"

definition GetNetworkPeersByUID :: "OwnershipDB \<Rightarrow> int \<Rightarrow> NetworkPeerInfo list query" where
  "GetNetworkPeersByUID db uid =
     query_stmt ''GetNetworkPeersByUID'' 0 db (filter (\<lambda>p. UidA p = uid \<or> UidB p = uid) (tPeers db))"

section \<open>Grants of volumes-from\<close>

definition grant_key :: "VolumesFromGrant \<Rightarrow> string \<times> int" where
  "grant_key g = (vfContainerID g, GranteeUID g)"

definition GrantVolumesFrom :: "string \<Rightarrow> int \<Rightarrow> int \<Rightarrow> db_write" where
  "GrantVolumesFrom containerID granteeUID grantedBy =
     exec_stmt ''GrantVolumesFrom'' 0
       (tVolumesFrom_update (insert_or_replace grant_key
          \<lparr>vfContainerID = containerID, GranteeUID = granteeUID, GrantedBy = grantedBy\<rparr>))"

definition RevokeVolumesFrom :: "string \<Rightarrow> int \<Rightarrow> db_write" where
  "RevokeVolumesFrom containerID granteeUID =
     (if granteeUID = -999 then
        exec_stmt ''RevokeVolumesFrom'' 0
          (tVolumesFrom_update (delete_where (\<lambda>g. vfContainerID g = containerID)))
      else
        exec_stmt ''RevokeVolumesFrom'' 0
          (tVolumesFrom_update
             (delete_where (\<lambda>g. vfContainerID g = containerID \<and> GranteeUID g = granteeUID))))"

definition CanVolumesFrom :: "OwnershipDB \<Rightarrow> string \<Rightarrow> int \<Rightarrow> bool query" where
  "CanVolumesFrom db containerID uid =
     query_stmt ''CanVolumesFrom'' 0 db
       (count_where (\<lambda>g. vfContainerID g = containerID \<and> (GranteeUID g = uid \<or> GranteeUID g = -1))
          (tVolumesFrom db) > 0)"

section \<open>Swarm services, secrets and configs\<close>

definition swarm_entry :: "string \<Rightarrow> string \<Rightarrow> CallerIdentity \<Rightarrow> swarm_row" where
  "swarm_entry sid name i =
     \<lparr>sId = sid, sName = name, sOwnerUID = RealUID i, sOwnerUsername = RealUsername i\<rparr>"

definition swarm_owner :: "swarm_row \<Rightarrow> OwnerInfo" where
  "swarm_owner r = \<lparr>oiUsername = sOwnerUsername r, oiUID = sOwnerUID r, oiGID = 0, oiSource = []\<rparr>"

definition SetServiceOwner :: "string \<Rightarrow> string \<Rightarrow> CallerIdentity \<Rightarrow> db_write" where
  "SetServiceOwner sid name i =
     exec_stmt ''SetServiceOwner'' 0
       (tServices_update (insert_or_replace sId (swarm_entry sid name i)))"

definition GetServiceOwner :: "OwnershipDB \<Rightarrow> string \<Rightarrow> OwnerInfo option" where
  "GetServiceOwner db sid =
     query_row ''GetServiceOwner'' 0 db (map_option swarm_owner (find (\<lambda>r. sId r = sid) (tServices db)))"

definition DeleteService :: "string \<Rightarrow> db_write" where
  "DeleteService sid =
     exec_stmt ''DeleteService'' 0 (tServices_update (delete_where (\<lambda>r. sId r = sid)))"

definition GetServiceIDsByOwner :: "OwnershipDB \<Rightarrow> int \<Rightarrow> string list query" where
  "GetServiceIDsByOwner db uid =
     query_stmt ''GetServiceIDsByOwner'' 0 db (map sId (filter (\<lambda>r. sOwnerUID r = uid) (tServices db)))"

definition SetSecretOwner :: "string \<Rightarrow> string \<Rightarrow> CallerIdentity \<Rightarrow> db_write" where
  "SetSecretOwner sid name i =
     exec_stmt ''SetSecretOwner'' 0
       (tSecrets_update (insert_or_replace sId (swarm_entry sid name i)))"

definition GetSecretOwner :: "OwnershipDB \<Rightarrow> string \<Rightarrow> OwnerInfo option" where
  "GetSecretOwner db sid =
     query_row ''GetSecretOwner'' 0 db (map_option swarm_owner (find (\<lambda>r. sId r = sid) (tSecrets db)))"

definition DeleteSecret :: "string \<Rightarrow> db_write" where
  "DeleteSecret sid =
     exec_stmt ''DeleteSecret'' 0 (tSecrets_update (delete_where (\<lambda>r. sId r = sid)))"

definition GetSecretIDsByOwner :: "OwnershipDB \<Rightarrow> int \<Rightarrow> string list query" where
  "GetSecretIDsByOwner db uid =
     query_stmt ''GetSecretIDsByOwner'' 0 db (map sId (filter (\<lambda>r. sOwnerUID r = uid) (tSecrets db)))"

definition SetConfigOwner :: "string \<Rightarrow> string \<Rightarrow> CallerIdentity \<Rightarrow> db_write" where
  "SetConfigOwner sid name i =
     exec_stmt ''SetConfigOwner'' 0
       (tConfigs_update (insert_or_replace sId (swarm_entry sid name i)))"

definition GetConfigOwner :: "OwnershipDB \<Rightarrow> string \<Rightarrow> OwnerInfo option" where
  "GetConfigOwner db sid =
     query_row ''GetConfigOwner'' 0 db (map_option swarm_owner (find (\<lambda>r. sId r = sid) (tConfigs db)))"

definition DeleteConfig :: "string \<Rightarrow> db_write" where
  "DeleteConfig sid =
     exec_stmt ''DeleteConfig'' 0 (tConfigs_update (delete_where (\<lambda>r. sId r = sid)))"

definition GetConfigIDsByOwner :: "OwnershipDB \<Rightarrow> int \<Rightarrow> string list query" where
  "GetConfigIDsByOwner db uid =
     query_stmt ''GetConfigIDsByOwner'' 0 db (map sId (filter (\<lambda>r. sOwnerUID r = uid) (tConfigs db)))"

section \<open>The tables of owners meet the contract\<close>

lemma exec_stmt_ok: "\<not> dbFault db m n \<Longrightarrow> exec_stmt m n upd db = (None, upd db)"
  by (simp add: exec_stmt_def)

lemma query_row_ok: "\<not> dbFault db m n \<Longrightarrow> query_row m n db v = v"
  by (simp add: query_row_def)

lemmas owner_table_defs = exec_stmt_def query_row_def find_replace_other find_delete_other

interpretation containers: owner_store
  "\<lambda>k v db. snd (SetContainerOwner k (fst v) (snd v) db)" GetContainerOwner
  "\<lambda>k db. snd (DeleteContainer k db)"
  "\<lambda>v. \<lparr>oiUsername = RealUsername (fst v), oiUID = RealUID (fst v), oiGID = RealGID (fst v), oiSource = []\<rparr>"
  "\<lambda>db. \<not> dbFault db ''SetContainerOwner'' 0 \<and> \<not> dbFault db ''GetContainerOwner'' 0
        \<and> \<not> dbFault db ''DeleteContainer'' 0"
proof (unfold_locales, goal_cases)
  case (1 s k v)
  then show ?case
    using find_replace_same [of cId "\<lparr>cId = k, cOwnerUsername = RealUsername (fst v),
      cOwnerUID = RealUID (fst v), cOwnerGID = RealGID (fst v), cImageID = snd v, cPrivCtx = priv_ctx (fst v)\<rparr>"]
    by (simp add: SetContainerOwner_def GetContainerOwner_def owner_table_defs)
qed (simp_all add: SetContainerOwner_def GetContainerOwner_def DeleteContainer_def owner_table_defs)

interpretation networks: owner_store
  "\<lambda>k v db. snd (SetNetworkOwner k (snd v) (fst v) db)" GetNetworkOwner
  "\<lambda>k db. snd (DeleteNetwork k db)"
  "\<lambda>v. \<lparr>oiUsername = RealUsername (fst v), oiUID = RealUID (fst v), oiGID = 0, oiSource = []\<rparr>"
  "\<lambda>db. \<not> dbFault db ''SetNetworkOwner'' 0 \<and> \<not> dbFault db ''GetNetworkOwner'' 0
        \<and> \<not> dbFault db ''DeleteNetwork'' 0 \<and> \<not> dbFault db ''DeleteNetwork'' 1"
proof (unfold_locales, goal_cases)
  case (1 s k v)
  then show ?case
    using find_replace_same [of nId "\<lparr>nId = k, nName = snd v, nOwnerUID = RealUID (fst v),
      nOwnerUsername = RealUsername (fst v), nShared = 0, nPrivCtx = priv_ctx (fst v)\<rparr>"]
    by (simp add: SetNetworkOwner_def GetNetworkOwner_def owner_table_defs)
qed (simp_all add: SetNetworkOwner_def GetNetworkOwner_def DeleteNetwork_def owner_table_defs)

interpretation volumes: owner_store
  "\<lambda>k v db. snd (SetVolumeOwner k v db)" GetVolumeOwner "\<lambda>k db. snd (DeleteVolume k db)"
  "\<lambda>v. \<lparr>oiUsername = RealUsername v, oiUID = RealUID v, oiGID = 0, oiSource = []\<rparr>"
  "\<lambda>db. \<not> dbFault db ''SetVolumeOwner'' 0 \<and> \<not> dbFault db ''GetVolumeOwner'' 0
        \<and> \<not> dbFault db ''DeleteVolume'' 0"
proof (unfold_locales, goal_cases)
  case (1 s k v)
  then show ?case
    using find_replace_same [of vName "\<lparr>vName = k, vOwnerUID = RealUID v,
      vOwnerUsername = RealUsername v, vPrivCtx = priv_ctx v\<rparr>"]
    by (simp add: SetVolumeOwner_def GetVolumeOwner_def owner_table_defs)
qed (simp_all add: SetVolumeOwner_def GetVolumeOwner_def DeleteVolume_def owner_table_defs)

lemma sId_swarm_entry [simp]: "sId (swarm_entry sid name i) = sid"
  by (simp add: swarm_entry_def)

lemma find_swarm_same:
  "find (\<lambda>r. sId r = sid) (insert_or_replace sId (swarm_entry sid name i) t) = Some (swarm_entry sid name i)"
  using find_replace_same [of sId "swarm_entry sid name i"] by simp

interpretation services: owner_store
  "\<lambda>k v db. snd (SetServiceOwner k (snd v) (fst v) db)" GetServiceOwner "\<lambda>k db. snd (DeleteService k db)"
  "\<lambda>v. \<lparr>oiUsername = RealUsername (fst v), oiUID = RealUID (fst v), oiGID = 0, oiSource = []\<rparr>"
  "\<lambda>db. \<not> dbFault db ''SetServiceOwner'' 0 \<and> \<not> dbFault db ''GetServiceOwner'' 0
        \<and> \<not> dbFault db ''DeleteService'' 0"
  by unfold_locales
    (simp_all add: SetServiceOwner_def GetServiceOwner_def DeleteService_def owner_table_defs
      find_swarm_same swarm_owner_def, simp add: swarm_entry_def)

interpretation secrets: owner_store
  "\<lambda>k v db. snd (SetSecretOwner k (snd v) (fst v) db)" GetSecretOwner "\<lambda>k db. snd (DeleteSecret k db)"
  "\<lambda>v. \<lparr>oiUsername = RealUsername (fst v), oiUID = RealUID (fst v), oiGID = 0, oiSource = []\<rparr>"
  "\<lambda>db. \<not> dbFault db ''SetSecretOwner'' 0 \<and> \<not> dbFault db ''GetSecretOwner'' 0
        \<and> \<not> dbFault db ''DeleteSecret'' 0"
  by unfold_locales
    (simp_all add: SetSecretOwner_def GetSecretOwner_def DeleteSecret_def owner_table_defs
      find_swarm_same swarm_owner_def, simp add: swarm_entry_def)

interpretation configs: owner_store
  "\<lambda>k v db. snd (SetConfigOwner k (snd v) (fst v) db)" GetConfigOwner "\<lambda>k db. snd (DeleteConfig k db)"
  "\<lambda>v. \<lparr>oiUsername = RealUsername (fst v), oiUID = RealUID (fst v), oiGID = 0, oiSource = []\<rparr>"
  "\<lambda>db. \<not> dbFault db ''SetConfigOwner'' 0 \<and> \<not> dbFault db ''GetConfigOwner'' 0
        \<and> \<not> dbFault db ''DeleteConfig'' 0"
  by unfold_locales
    (simp_all add: SetConfigOwner_def GetConfigOwner_def DeleteConfig_def owner_table_defs
      find_swarm_same swarm_owner_def, simp add: swarm_entry_def)

section \<open>The database as a state machine\<close>

text \<open>
  Every method that writes is a step; between steps the set of failing statements may change
  arbitrarily.
\<close>

inductive db_step :: "OwnershipDB \<Rightarrow> OwnershipDB \<Rightarrow> bool" where
  "db_step db (snd (SetContainerOwner cid i img db))"
| "db_step db (snd (DeleteContainer cid db))"
| "db_step db (snd (SetImageOwner iid i pub src db))"
| "db_step db (snd (MarkImagePublic iid pub db))"
| "db_step db (snd (RemoveUserImageAccess iid uid db))"
| "db_step db (snd (EnsureImageAccess iid uid db))"
| "db_step db (snd (DeleteImage iid db))"
| "db_step db (snd (SetImagePublic iid pub db))"
| "db_step db (snd (SetNetworkOwner nid name i db))"
| "db_step db (snd (SetManagedNetworkOwner nid name uid un db))"
| "db_step db (snd (DeleteNetwork nid db))"
| "db_step db (snd (SetNetworkShared nid uids db))"
| "db_step db (snd (SetVolumeOwner name i db))"
| "db_step db (snd (DeleteVolume name db))"
| "db_step db (snd (AddPortMappings ms db))"
| "db_step db (snd (ReleasePortMappings cid db))"
| "db_step db (snd (AddNetworkPeer uidA uidB net ca cb db))"
| "db_step db (snd (RemoveNetworkPeer uidA uidB ca cb db))"
| "db_step db (snd (GrantVolumesFrom cid uid by_uid db))"
| "db_step db (snd (RevokeVolumesFrom cid uid db))"
| "db_step db (snd (SetServiceOwner sid name i db))"
| "db_step db (snd (DeleteService sid db))"
| "db_step db (snd (SetSecretOwner sid name i db))"
| "db_step db (snd (DeleteSecret sid db))"
| "db_step db (snd (SetConfigOwner sid name i db))"
| "db_step db (snd (DeleteConfig sid db))"
| "db_step db (db \<lparr>dbFault := f\<rparr>)"

definition db_reachable :: "OwnershipDB \<Rightarrow> bool" where
  "db_reachable db \<longleftrightarrow> (\<exists>f. db_step\<^sup>*\<^sup>* (emptyDB f) db)"

text \<open>The keys the schema declares, and what the code adds to them.\<close>

definition keys_inv :: "OwnershipDB \<Rightarrow> bool" where
  "keys_inv db \<longleftrightarrow>
     unique_key cId (tContainers db) \<and> unique_key iId (tImages db) \<and>
     unique_key image_key (tImageAccess db) \<and> unique_key nId (tNetworks db) \<and>
     unique_key network_key (tNetworkAccess db) \<and> unique_key vName (tVolumes db) \<and>
     unique_key port_key (tPorts db) \<and> unique_key peer_key (tPeers db) \<and>
     unique_key grant_key (tVolumesFrom db) \<and> unique_key sId (tServices db) \<and>
     unique_key sId (tSecrets db) \<and> unique_key sId (tConfigs db)"

definition data_inv :: "OwnershipDB \<Rightarrow> bool" where
  "data_inv db \<longleftrightarrow>
     (\<forall>p \<in> set (tPeers db). UidA p \<le> UidB p) \<and>
     (\<forall>a \<in> set (tImageAccess db). aPrivCtx a \<in> {0, 1}) \<and>
     (\<forall>r \<in> set (tContainers db). cPrivCtx r \<in> {0, 1})"

lemma exec_inv: "P db \<Longrightarrow> P (upd db) \<Longrightarrow> P (snd (exec_stmt m n upd db))"
  by (simp add: exec_stmt_def)

lemma priv_ctx_range: "priv_ctx i = 0 \<or> priv_ctx i = 1"
  by (simp add: priv_ctx_def)

lemma image_key_upd: "image_key (r \<lparr>aPrivCtx := p\<rparr>) = image_key r"
  by (simp add: image_key_def)

lemma iId_take_over: "iId (take_over row r) = iId r"
  by (simp add: take_over_def)

lemma keys_SetImageOwner: "keys_inv db \<Longrightarrow> keys_inv (snd (SetImageOwner iid i pub src db))"
  by (auto simp: SetImageOwner_def exec_stmt_def keys_inv_def Let_def iId_take_over image_key_upd
      intro!: sql_keys)

lemma keys_DeleteImage: "keys_inv db \<Longrightarrow> keys_inv (snd (DeleteImage iid db))"
  by (auto simp: DeleteImage_def exec_stmt_def keys_inv_def Let_def intro!: sql_keys)

lemma keys_RemoveUserImageAccess: "keys_inv db \<Longrightarrow> keys_inv (snd (RemoveUserImageAccess iid uid db))"
  by (auto simp: RemoveUserImageAccess_def stmt_defs keys_inv_def Let_def intro!: sql_keys)

lemma keys_network_access:
  "keys_inv db \<Longrightarrow> keys_inv (tNetworkAccess_update (insert_or_ignore network_key row) db)"
  by (simp add: keys_inv_def sql_keys)

lemma keys_grant_network: "keys_inv db \<Longrightarrow> keys_inv (snd (grant_network nid n uids db))"
  by (induction nid n uids db rule: grant_network.induct)
    (simp_all add: exec_stmt_def keys_network_access)

lemma keys_network_shared:
  "keys_inv db \<Longrightarrow> keys_inv (tNetworks_update (update_where P (\<lambda>r. r \<lparr>nShared := 1\<rparr>)) db)"
  by (simp add: keys_inv_def sql_keys)

lemma keys_SetNetworkShared: "keys_inv db \<Longrightarrow> keys_inv (snd (SetNetworkShared nid uids db))"
  by (simp add: SetNetworkShared_def exec_stmt_def keys_grant_network keys_network_shared)

lemma keys_insert_port:
  "keys_inv db \<Longrightarrow> insert_unique port_key m (tPorts db) = Some t \<Longrightarrow> keys_inv (db \<lparr>tPorts := t\<rparr>)"
  unfolding keys_inv_def by (auto intro: unique_key_unique)

lemma keys_add_ports: "keys_inv db \<Longrightarrow> keys_inv (snd (add_ports n ms db))"
proof (induction n ms db rule: add_ports.induct)
  case (2 n m ms db)
  show ?case
  proof (cases "if dbFault db ''AddPortMappings'' (2 * n) then None else insert_unique port_key m (tPorts db)")
    case (Some t)
    then have "keys_inv (db \<lparr>tPorts := t\<rparr>)"
      using 2(2) by (auto intro: keys_insert_port split: if_splits)
    then show ?thesis using 2(1) [OF Some] Some by simp
  qed (simp add: 2(2))
qed simp

lemma keys_step: "db_step db db' \<Longrightarrow> keys_inv db \<Longrightarrow> keys_inv db'"
proof (induction rule: db_step.induct)
  case (3 db iid i pub src) then show ?case by (rule keys_SetImageOwner)
next
  case (5 db iid uid) then show ?case by (rule keys_RemoveUserImageAccess)
next
  case (7 db iid) then show ?case by (rule keys_DeleteImage)
next
  case (12 db nid uids) then show ?case by (rule keys_SetNetworkShared)
next
  case (15 db ms) then show ?case by (simp add: AddPortMappings_def keys_add_ports)
qed (simp add: SetContainerOwner_def DeleteContainer_def MarkImagePublic_def EnsureImageAccess_def
    SetImagePublic_def SetNetworkOwner_def SetManagedNetworkOwner_def DeleteNetwork_def
    SetVolumeOwner_def DeleteVolume_def ReleasePortMappings_def AddNetworkPeer_def
    RemoveNetworkPeer_def GrantVolumesFrom_def RevokeVolumesFrom_def SetServiceOwner_def
    DeleteService_def SetSecretOwner_def DeleteSecret_def SetConfigOwner_def DeleteConfig_def
    order_peer_def Let_def stmt_defs keys_inv_def sql_keys)+

lemma data_upsert_access:
  "data_inv db \<Longrightarrow> p \<in> {0, 1} \<Longrightarrow> aPrivCtx acc = p \<Longrightarrow>
     data_inv (tImageAccess_update (upsert image_key (\<lambda>r. r \<lparr>aPrivCtx := min (aPrivCtx r) p\<rparr>) acc) db)"
  by (auto simp: data_inv_def upsert_def)

lemma data_SetImageOwner: "data_inv db \<Longrightarrow> data_inv (snd (SetImageOwner iid i pub src db))"
proof -
  assume inv: "data_inv db"
  have im: "data_inv (tImages_update f db)" for f using inv by (simp add: data_inv_def)
  show ?thesis
    using inv im priv_ctx_range [of i]
    by (simp add: SetImageOwner_def exec_stmt_def Let_def data_upsert_access)
qed

lemma data_grant_network: "data_inv db \<Longrightarrow> data_inv (snd (grant_network nid n uids db))"
proof (induction nid n uids db rule: grant_network.induct)
  case (2 nid n uid uids db)
  have "data_inv (tNetworkAccess_update f db)" for f using 2(2) by (simp add: data_inv_def)
  then show ?case using 2 by (simp add: exec_stmt_def)
qed simp

lemma data_add_ports: "data_inv db \<Longrightarrow> data_inv (snd (add_ports n ms db))"
proof (induction n ms db rule: add_ports.induct)
  case (2 n m ms db)
  have "data_inv (db \<lparr>tPorts := t\<rparr>)" for t using 2(2) by (simp add: data_inv_def)
  then show ?case using 2 by (simp split: option.split)
qed simp

lemma data_access_delete: "data_inv db \<Longrightarrow> data_inv (tImageAccess_update (delete_where P) db)"
  by (simp add: data_inv_def delete_where_def)

lemma data_images: "data_inv db \<Longrightarrow> data_inv (tImages_update f db)"
  by (simp add: data_inv_def)

lemma data_networks: "data_inv db \<Longrightarrow> data_inv (tNetworks_update f db)"
  by (simp add: data_inv_def)

lemma data_step: "db_step db db' \<Longrightarrow> data_inv db \<Longrightarrow> data_inv db'"
proof (induction rule: db_step.induct)
  case (3 db iid i pub src) then show ?case by (rule data_SetImageOwner)
next
  case (5 db iid uid)
  then show ?case by (simp add: RemoveUserImageAccess_def stmt_defs Let_def data_access_delete)
next
  case (7 db iid)
  then show ?case by (simp add: DeleteImage_def exec_stmt_def Let_def data_access_delete data_images)
next
  case (12 db nid uids)
  then show ?case by (simp add: SetNetworkShared_def exec_stmt_def data_grant_network data_networks)
next
  case (15 db ms) then show ?case by (simp add: AddPortMappings_def data_add_ports)
next
  case (1 db cid i img)
  then show ?case using priv_ctx_range [of i]
    by (auto simp: SetContainerOwner_def exec_stmt_def data_inv_def insert_or_replace_def)
next
  case (17 db uidA uidB net ca cb)
  then show ?case
    by (auto simp: AddNetworkPeer_def order_peer_def exec_stmt_def data_inv_def insert_or_replace_def)
qed (simp add: DeleteContainer_def MarkImagePublic_def EnsureImageAccess_def
    SetImagePublic_def SetNetworkOwner_def SetManagedNetworkOwner_def DeleteNetwork_def
    SetVolumeOwner_def DeleteVolume_def ReleasePortMappings_def
    RemoveNetworkPeer_def GrantVolumesFrom_def RevokeVolumesFrom_def SetServiceOwner_def
    DeleteService_def SetSecretOwner_def DeleteSecret_def SetConfigOwner_def DeleteConfig_def
    order_peer_def Let_def stmt_defs data_inv_def delete_where_def insert_or_ignore_def)+

lemma reachable_inv:
  assumes "db_reachable db"
  shows "keys_inv db" "data_inv db"
proof -
  obtain f where "db_step\<^sup>*\<^sup>* (emptyDB f) db" using assms by (auto simp: db_reachable_def)
  then have "keys_inv db \<and> data_inv db"
  proof (induction rule: rtranclp_induct)
    case base
    then show ?case by (simp add: keys_inv_def data_inv_def emptyDB_def unique_key_def)
  next
    case (step y z)
    then show ?case by (auto intro: keys_step data_step)
  qed
  then show "keys_inv db" "data_inv db" by auto
qed

lemma reachable_step: "db_reachable db \<Longrightarrow> db_step db db' \<Longrightarrow> db_reachable db'"
  unfolding db_reachable_def by (meson rtranclp.rtrancl_into_rtrancl)

lemma reachable_empty: "db_reachable (emptyDB f)"
  unfolding db_reachable_def by blast

section \<open>Lemmas on images, ports and peers\<close>

definition no_faults :: "OwnershipDB \<Rightarrow> bool" where
  "no_faults db \<longleftrightarrow> (\<forall>m n. \<not> dbFault db m n)"

definition clear_faults :: "OwnershipDB \<Rightarrow> OwnershipDB" where
  "clear_faults db = db \<lparr>dbFault := (\<lambda>_ _. False)\<rparr>"

lemma count_where_pos: "count_where P t > 0 \<longleftrightarrow> (\<exists>r \<in> set t. P r)"
  by (auto simp: count_where_def filter_empty_conv)

lemma find_unique:
  assumes "unique_key key t" "r \<in> set t"
  shows "find (\<lambda>x. key x = key r) t = Some r"
proof -
  obtain y where y: "find (\<lambda>x. key x = key r) t = Some y"
    using assms(2) by (cases "find (\<lambda>x. key x = key r) t") (auto simp: find_None_iff)
  then have "y = r" using find_Some_iff [OF y] unique_key_eq [OF assms(1) _ assms(2)] by blast
  then show ?thesis using y by simp
qed

text \<open>The image row a reference resolves to when no statement fails.\<close>

lemma resolve_row:
  assumes "no_faults db" "resolveImageIDInDB db iid \<noteq> []"
  obtains r where "r \<in> set (tImages db)" "iId r = resolveImageIDInDB db iid"
  using assms
  by (auto simp: resolveImageIDInDB_def no_faults_def query_row_def Let_def
      split: option.splits if_splits dest!: find_Some_iff)

lemma resolve_exact:
  "\<not> dbFault db ''resolveImageIDInDB'' 0 \<Longrightarrow>
   find (\<lambda>r. iId r = normalizeImageID iid) (tImages db) = Some r \<Longrightarrow>
   resolveImageIDInDB db iid = normalizeImageID iid"
  by (auto simp: resolveImageIDInDB_def query_row_def dest: find_Some_iff)

lemma CanUseImage_resolved:
  assumes "no_faults db" "keys_inv db" "r \<in> set (tImages db)" "resolveImageIDInDB db iid = iId r" "iId r \<noteq> []"
  shows "CanUseImage db uid iid \<longleftrightarrow>
           iPublic r \<noteq> 0 \<or> iOwnerUID r = uid \<or> (\<exists>a \<in> set (tImageAccess db). aImageID a = iId r \<and> aUserUID a = uid)"
  using assms find_unique [of iId "tImages db" r]
  by (auto simp: CanUseImage_def keys_inv_def no_faults_def stmt_defs count_where_pos Let_def)

lemma CanSeeImage_resolved:
  assumes "no_faults db" "keys_inv db" "r \<in> set (tImages db)" "resolveImageIDInDB db iid = iId r" "iId r \<noteq> []"
  shows "CanSeeImage db uid iid \<longleftrightarrow>
           iPrivCtx r = 0 \<and> (iPublic r \<noteq> 0 \<or> iOwnerUID r = uid) \<or>
           (\<exists>a \<in> set (tImageAccess db). aImageID a = iId r \<and> aUserUID a = uid \<and> aPrivCtx a = 0)"
proof -
  have u: "unique_key iId (tImages db)" using assms(2) by (simp add: keys_inv_def)
  have "find (\<lambda>x. iId x = iId r \<and> iPrivCtx x = 0) (tImages db) = (if iPrivCtx r = 0 then Some r else None)"
  proof (cases "find (\<lambda>x. iId x = iId r \<and> iPrivCtx x = 0) (tImages db)")
    case None
    then show ?thesis using assms(3) by (auto simp: find_None_iff)
  next
    case (Some y)
    then show ?thesis using find_Some_iff [OF Some] unique_key_eq [OF u _ assms(3)] by auto
  qed
  then show ?thesis
    using assms by (auto simp: CanSeeImage_def no_faults_def stmt_defs count_where_pos Let_def)
qed

text \<open>A row keyed by the written pair exists after an upsert.\<close>

lemma upsert_row:
  assumes "\<And>r. key (upd r) = key r"
  shows "\<exists>r \<in> set (upsert key upd row t). key r = key row \<and> (r = row \<or> (\<exists>r' \<in> set t. key r' = key row \<and> r = upd r'))"
proof (cases "list_ex (\<lambda>r. key r = key row) t")
  case True
  then obtain r' where r: "r' \<in> set t" "key r' = key row" by (auto simp: list_ex_iff)
  then have "upd r' \<in> set (upsert key upd row t)"
    using True by (auto simp: upsert_def image_iff intro!: bexI [of _ r'])
  then show ?thesis using r assms by (intro bexI [of _ "upd r'"]) auto
qed (simp add: upsert_def)

lemma set_upsert_other:
  "key x \<noteq> key row \<Longrightarrow> (\<And>r. key (upd r) = key r) \<Longrightarrow> x \<in> set (upsert key upd row t) \<longleftrightarrow> x \<in> set t"
  unfolding upsert_def list_ex_iff by auto

lemma insert_unique_Some: "insert_unique key row t = Some t' \<Longrightarrow> t' = t @ [row] \<and> (\<forall>r \<in> set t. key r \<noteq> key row)"
  by (auto simp: insert_unique_def list_ex_iff split: if_splits)

lemma add_ports_ok:
  "add_ports n ms db = (None, db') \<Longrightarrow> tPorts db' = tPorts db @ ms \<and> db' = db \<lparr>tPorts := tPorts db @ ms\<rparr>"
proof (induction n ms db arbitrary: db' rule: add_ports.induct)
  case (2 n m ms db)
  then obtain t where t: "insert_unique port_key m (tPorts db) = Some t"
    "\<not> dbFault db ''AddPortMappings'' (2 * n)" "add_ports (Suc n) ms (db \<lparr>tPorts := t\<rparr>) = (None, db')"
    by (auto split: option.splits if_splits)
  then show ?case using 2(1) [of t db'] insert_unique_Some [OF t(1)] by simp
qed simp

lemma add_ports_fail:
  assumes "no_faults db" "add_ports n ms db = (Some e, db')"
  shows "\<exists>pre m post r. ms = pre @ m # post \<and> db' = db \<lparr>tPorts := tPorts db @ pre\<rparr>
           \<and> r \<in> set (tPorts db @ pre) \<and> HostPort r = HostPort m \<and> Protocol r = Protocol m
           \<and> e = \<lparr>pcHostPort = HostPort m, pcProtocol = Protocol m, ExistingContainer = pmContainerID r,
                  ExistingOwner = pmOwnerUsername r, ExistingOwnerUID = pmOwnerUID r\<rparr>"
  using assms
proof (induction n ms db arbitrary: db' rule: add_ports.induct)
  case (2 n m ms db)
  show ?case
  proof (cases "insert_unique port_key m (tPorts db)")
    case None
    then have "find (\<lambda>r. HostPort r = HostPort m \<and> Protocol r = Protocol m) (tPorts db) \<noteq> None"
      by (auto simp: insert_unique_def list_ex_iff port_key_def find_None_iff split: if_splits)
    then obtain r where r: "find (\<lambda>r. HostPort r = HostPort m \<and> Protocol r = Protocol m) (tPorts db) = Some r"
      by blast
    have "db' = db" "e = conflict_of db n m"
      using 2(2,3) None by (auto simp: no_faults_def)
    then show ?thesis
      using r find_Some_iff [OF r] 2(2)
      by (intro exI [of _ "[]"] exI [of _ m] exI [of _ ms] exI [of _ r])
        (simp add: conflict_of_def query_row_def no_faults_def)
  next
    case (Some t)
    note t = insert_unique_Some [OF Some]
    have nf: "no_faults (db \<lparr>tPorts := t\<rparr>)" using 2(2) by (simp add: no_faults_def)
    have "add_ports (Suc n) ms (db \<lparr>tPorts := t\<rparr>) = (Some e, db')"
      using 2(2,3) Some by (simp add: no_faults_def)
    then obtain pre m' post r where "ms = pre @ m' # post" "db' = db \<lparr>tPorts := t @ pre\<rparr>"
      "r \<in> set (t @ pre)" "HostPort r = HostPort m'" "Protocol r = Protocol m'"
      "e = \<lparr>pcHostPort = HostPort m', pcProtocol = Protocol m', ExistingContainer = pmContainerID r,
            ExistingOwner = pmOwnerUsername r, ExistingOwnerUID = pmOwnerUID r\<rparr>"
      using 2(1) [of t db'] nf Some 2(2) by (auto simp: no_faults_def)
    then show ?thesis
      using t by (intro exI [of _ "m # pre"] exI [of _ m'] exI [of _ post] exI [of _ r]) auto
  qed
qed simp

end
