(* ===== verification/ListFilter.thy ===== *)
theory ListFilter
  imports Names Ownership
begin

text \<open>
  Package \<^verbatim>\<open>internal/isolation\<close>: the filters on list responses of the daemon
  (\<^verbatim>\<open>filter.go\<close>, and the volume and network lists of \<^verbatim>\<open>volume.go\<close> and
  \<^verbatim>\<open>network.go\<close>).  The interface \<^verbatim>\<open>OwnershipReader\<close> is a record of query
  functions, and \<open>db_reader\<close> the instance the proxy passes.  A filter returns the new body
  and an error.
\<close>

record OwnershipReader =
  rContainerIDs :: "int \<Rightarrow> string list query"
  rAccessibleNetworkIDs :: "int \<Rightarrow> string list query"
  rVolumeNames :: "int \<Rightarrow> string list query"
  rCanSeeImage :: "int \<Rightarrow> string \<Rightarrow> bool"
  rImageIDs :: "int \<Rightarrow> string list query"
  rServiceIDs :: "int \<Rightarrow> string list query"
  rSecretIDs :: "int \<Rightarrow> string list query"
  rConfigIDs :: "int \<Rightarrow> string list query"

definition db_reader :: "OwnershipDB \<Rightarrow> OwnershipReader" where
  "db_reader db =
     \<lparr>rContainerIDs = GetContainerIDsByOwner db, rAccessibleNetworkIDs = GetAccessibleNetworkIDs db,
      rVolumeNames = GetVolumeNamesByOwner db, rCanSeeImage = CanSeeImage db,
      rImageIDs = GetImageIDsByOwner db, rServiceIDs = GetServiceIDsByOwner db,
      rSecretIDs = GetSecretIDsByOwner db, rConfigIDs = GetConfigIDsByOwner db\<rparr>"

datatype filter_error = DecodeError | QueryError db_error

type_synonym filtered = "body \<times> filter_error option"

definition emptyJSONArray :: body where
  "emptyJSONArray = Doc (JArr [])"

fun body_list :: "body \<Rightarrow> json list option" where
  "body_list (Doc j) = dec_raw_list j"
| "body_list (Raw _) = None"

definition CountJSONArray :: "body \<Rightarrow> nat" where
  "CountJSONArray b = (case body_list b of None \<Rightarrow> 0 | Some xs \<Rightarrow> length xs)"

definition CountVolumeList :: "body \<Rightarrow> nat" where
  "CountVolumeList b =
     (case body_struct b of
        None \<Rightarrow> 0
      | Some es \<Rightarrow> (case field_slice dec_raw_list ''Volumes'' es of None \<Rightarrow> 0 | Some vs \<Rightarrow> length vs))"

text \<open>\<^verbatim>\<open>json.Unmarshal(raw, &item)\<close> for a struct with the one string field.\<close>

definition item_str :: "string \<Rightarrow> json \<Rightarrow> string option" where
  "item_str name raw = (case obj_entries raw of None \<Rightarrow> None | Some es \<Rightarrow> field_str name es)"

text \<open>The set of full and twelve-character identifiers, and the test against it.\<close>

definition id_set :: "string list \<Rightarrow> string list" where
  "id_set ids = ids @ map (take 12) (filter (\<lambda>i. length i \<ge> 12) ids)"

definition id_owned :: "string list \<Rightarrow> string \<Rightarrow> bool" where
  "id_owned ids i \<longleftrightarrow> i \<in> set (id_set ids) \<or> (length i \<ge> 12 \<and> take 12 i \<in> set (id_set ids))"

section \<open>Containers\<close>

definition parseUID :: "string \<Rightarrow> int" where
  "parseUID s =
     (if list_all is_digit s then foldl (\<lambda>u c. wrap64 (wrap64 (u * 10) + digit_val c)) 0 s else -1)"

definition label_value :: "(string \<times> json) list \<Rightarrow> string \<Rightarrow> string" where
  "label_value ls k = GetLastLabelValue (str_or_empty (map_of ls k))"

text \<open>The decision on one element of the list; a value of a label that is no string is an error.\<close>

definition container_visible :: "string list \<Rightarrow> int \<Rightarrow> string \<Rightarrow> json \<Rightarrow> bool" where
  "container_visible ownedIDs realUID realUsername raw =
     (case obj_entries raw of
        None \<Rightarrow> False
      | Some es \<Rightarrow>
          (case (field_str ''Id'' es, field_map ''Labels'' es) of
             (Some cid, Some ls) \<Rightarrow>
               (if list_ex (\<lambda>(k, j). dec_str j = None) ls then False
                else if id_owned ownedIDs cid then True
                else if ls = [] then False
                else if label_value ls LabelCallerType = ''sudo'' then False
                else if label_value ls LabelOwnerUID \<noteq> [] \<and> parseUID (label_value ls LabelOwnerUID) \<ge> 0
                        \<and> parseUID (label_value ls LabelOwnerUID) = realUID then True
                else label_value ls LabelOwner \<noteq> [] \<and> label_value ls LabelOwner = realUsername)
           | _ \<Rightarrow> False))"

definition strip_container_name :: "string \<Rightarrow> string \<Rightarrow> string" where
  "strip_container_name pfx name =
     (if has_prefix name (''/'' @ pfx) then ''/'' @ drop (1 + length pfx) name else name)"

definition strip_container_names :: "string \<Rightarrow> json \<Rightarrow> json" where
  "strip_container_names pfx raw =
     (case dec_map raw of
        Some (Some item) \<Rightarrow>
          (case map_of item ''Names'' of
             None \<Rightarrow> raw
           | Some namesRaw \<Rightarrow>
               (case dec_str_list namesRaw of
                  None \<Rightarrow> raw
                | Some names \<Rightarrow>
                    (if list_ex (\<lambda>n. has_prefix n (''/'' @ pfx)) names
                     then JObj (map_put ''Names'' (JArr (map (\<lambda>n. JStr (strip_container_name pfx n)) names)) item)
                     else raw)))
      | _ \<Rightarrow> raw)"

definition FilterContainerListResponse ::
  "body \<Rightarrow> int \<Rightarrow> string \<Rightarrow> bool \<Rightarrow> OwnershipReader \<Rightarrow> filtered" where
  "FilterContainerListResponse b realUID realUsername privileged db =
     (if privileged then (b, None)
      else case body_list b of
        None \<Rightarrow> (b, None)
      | Some containers \<Rightarrow>
          (case rContainerIDs db realUID of
             Inl e \<Rightarrow> (emptyJSONArray, Some (QueryError e))
           | Inr ownedIDs \<Rightarrow>
               (Doc (JArr (map (strip_container_names (UserContainerPrefix realUID))
                  (filter (container_visible ownedIDs realUID realUsername) containers))), None)))"

section \<open>Images\<close>

text \<open>The loop over the list; the state is the set of public identifiers already shown.\<close>

fun filter_images :: "OwnershipReader \<Rightarrow> int \<Rightarrow> string list \<Rightarrow> string list \<Rightarrow> json list \<Rightarrow> json list" where
  "filter_images db realUID ownedIDs publicSeen [] = []"
| "filter_images db realUID ownedIDs publicSeen (raw # rest) =
     (case item_str ''Id'' raw of
        None \<Rightarrow> filter_images db realUID ownedIDs publicSeen rest
      | Some iid \<Rightarrow>
          (if \<not> rCanSeeImage db realUID iid then filter_images db realUID ownedIDs publicSeen rest
           else if trim_prefix iid ''sha256:'' \<in> set ownedIDs
           then raw # filter_images db realUID ownedIDs publicSeen rest
           else if iid \<in> set publicSeen then filter_images db realUID ownedIDs publicSeen rest
           else raw # filter_images db realUID ownedIDs (iid # publicSeen) rest))"

definition FilterImageListResponse :: "body \<Rightarrow> int \<Rightarrow> bool \<Rightarrow> OwnershipReader \<Rightarrow> filtered" where
  "FilterImageListResponse b realUID privileged db =
     (if privileged then (b, None)
      else case body_list b of
        None \<Rightarrow> (emptyJSONArray, Some DecodeError)
      | Some images \<Rightarrow>
          (let ownedIDs = (case rImageIDs db realUID of Inl _ \<Rightarrow> [] | Inr ids \<Rightarrow> ids)
           in (Doc (JArr (filter_images db realUID ownedIDs [] images)), None)))"

section \<open>Swarm services, secrets and configs\<close>

text \<open>The body the three filters have in common, for a query of the owned identifiers.\<close>

definition filter_id_list :: "(int \<Rightarrow> string list query) \<Rightarrow> body \<Rightarrow> int \<Rightarrow> bool \<Rightarrow> filtered" where
  "filter_id_list ids b uid privileged =
     (if privileged then (b, None)
      else case body_list b of
        None \<Rightarrow> (emptyJSONArray, Some DecodeError)
      | Some items \<Rightarrow>
          (case ids uid of
             Inl e \<Rightarrow> (emptyJSONArray, Some (QueryError e))
           | Inr ownedIDs \<Rightarrow>
               (Doc (JArr (filter (\<lambda>raw. case item_str ''ID'' raw of None \<Rightarrow> False | Some i \<Rightarrow> i \<in> set ownedIDs)
                             items)), None)))"

definition FilterServiceListResponse :: "body \<Rightarrow> int \<Rightarrow> bool \<Rightarrow> OwnershipReader \<Rightarrow> filtered" where
  "FilterServiceListResponse b uid privileged db = filter_id_list (rServiceIDs db) b uid privileged"

definition FilterSecretListResponse :: "body \<Rightarrow> int \<Rightarrow> bool \<Rightarrow> OwnershipReader \<Rightarrow> filtered" where
  "FilterSecretListResponse b uid privileged db = filter_id_list (rSecretIDs db) b uid privileged"

definition FilterConfigListResponse :: "body \<Rightarrow> int \<Rightarrow> bool \<Rightarrow> OwnershipReader \<Rightarrow> filtered" where
  "FilterConfigListResponse b uid privileged db = filter_id_list (rConfigIDs db) b uid privileged"

section \<open>Volumes\<close>

text \<open>One volume of the list: dropped, or kept with its prefix removed.\<close>

definition filter_volume :: "string list \<Rightarrow> string \<Rightarrow> json \<Rightarrow> json option" where
  "filter_volume ownedNames pfx raw =
     (case dec_map raw of
        None \<Rightarrow> None
      | Some om \<Rightarrow>
          (let name = str_or_empty (get_key om ''Name'') in
           if name \<notin> set ownedNames \<and> \<not> has_prefix name pfx then None
           else case om of
             None \<Rightarrow> Some JNull
           | Some item \<Rightarrow>
               Some (JObj (if has_prefix name pfx
                           then map_put ''Name'' (JStr (trim_prefix name pfx)) item else item))))"

text \<open>A slice of strings written back: nil stays null.\<close>

definition reencode_strs :: "string \<Rightarrow> jmap \<Rightarrow> json option" where
  "reencode_strs name es =
     (case field_slice dec_str_list name es of
        None \<Rightarrow> None
      | Some xs \<Rightarrow>
          Some (if field_values name es = [] \<or> last (field_values name es) = JNull then JNull
                else JArr (map JStr xs)))"

definition volume_list_body :: "json list \<Rightarrow> json \<Rightarrow> body" where
  "volume_list_body vs warnings = Doc (JObj [(''Volumes'', JArr vs), (''Warnings'', warnings)])"

definition FilterVolumeListResponse :: "body \<Rightarrow> int \<Rightarrow> bool \<Rightarrow> OwnershipReader \<Rightarrow> filtered" where
  "FilterVolumeListResponse b realUID privileged db =
     (if privileged then (b, None)
      else case body_struct b of
        None \<Rightarrow> (volume_list_body [] JNull, None)
      | Some es \<Rightarrow>
          (case (field_slice dec_raw_list ''Volumes'' es, reencode_strs ''Warnings'' es) of
             (Some vs, Some warnings) \<Rightarrow>
               (case rVolumeNames db realUID of
                  Inl _ \<Rightarrow> (volume_list_body [] JNull, None)
                | Inr ownedNames \<Rightarrow>
                    (volume_list_body
                       (List.map_filter (filter_volume ownedNames (UserVolumePrefix realUID)) vs) warnings, None))
           | _ \<Rightarrow> (volume_list_body [] JNull, None)))"

section \<open>Networks\<close>

definition filter_network :: "string list \<Rightarrow> string \<Rightarrow> json \<Rightarrow> json option" where
  "filter_network accessibleIDs pfx raw =
     (case dec_map raw of
        None \<Rightarrow> None
      | Some om \<Rightarrow>
          (let nid = str_or_empty (get_key om ''Id''); name = str_or_empty (get_key om ''Name'') in
           if \<not> (id_owned accessibleIDs nid \<or> has_prefix name pfx) then None
           else case om of
             None \<Rightarrow> Some JNull
           | Some item \<Rightarrow>
               Some (JObj (if has_prefix name pfx
                           then map_put ''Name'' (JStr (trim_prefix name pfx)) item else item))))"

definition FilterNetworkListResponse :: "os_env \<Rightarrow> body \<Rightarrow> int \<Rightarrow> bool \<Rightarrow> OwnershipReader \<Rightarrow> filtered" where
  "FilterNetworkListResponse env b realUID privileged db =
     (if privileged then (b, None)
      else case body_list b of
        None \<Rightarrow> (emptyJSONArray, Some DecodeError)
      | Some networks \<Rightarrow>
          (case rAccessibleNetworkIDs db realUID of
             Inl e \<Rightarrow> (emptyJSONArray, Some (QueryError e))
           | Inr accessibleIDs \<Rightarrow>
               (let pfx = LookupUsername env realUID @ ''_u'' @ itoa realUID @ ''_''
                in (Doc (JArr (List.map_filter (filter_network accessibleIDs pfx) networks)), None))))"

section \<open>system df and swarm inspect\<close>

definition EmptySystemDFBody :: body where
  "EmptySystemDFBody =
     Doc (JObj [(''LayersSize'', JNum 0), (''Images'', JArr []), (''Containers'', JArr []),
                (''Volumes'', JArr []), (''BuildCache'', JArr [])])"

definition rebuildUsageField :: "json option \<Rightarrow> json list \<Rightarrow> string \<Rightarrow> json option" where
  "rebuildUsageField orig items kind =
     (case orig of
        None \<Rightarrow> None
      | Some raw \<Rightarrow>
          (let m0 = (case dec_map raw of Some (Some m) \<Rightarrow> m | _ \<Rightarrow> []);
               total = JNum (int (length items));
               m1 = map_put ''Items'' (JArr items) (map_put ''TotalCount'' total m0);
               m2 = (if map_of m1 ''ActiveCount'' \<noteq> None then map_put ''ActiveCount'' total m1 else m1);
               m3 = map_put ''TotalSize'' (JNum 0) m2;
               m4 = (if kind = ''container'' then map_put ''Reclaimable'' (JNum 0) m3 else m3)
           in Some (JObj m4)))"

definition usage_items :: "json option \<Rightarrow> json list" where
  "usage_items orig =
     (case orig of
        None \<Rightarrow> []
      | Some raw \<Rightarrow>
          (case obj_entries raw of
             None \<Rightarrow> []
           | Some es \<Rightarrow> (case field_slice dec_raw_list ''Items'' es of None \<Rightarrow> [] | Some xs \<Rightarrow> xs)))"

text \<open>The entries to filter: the array at the top, or the items of the usage field.\<close>

definition df_items :: "jmap option \<Rightarrow> string \<Rightarrow> string \<Rightarrow> json list" where
  "df_items rawMap arr usage =
     (let xs = (case get_key rawMap arr of
                  None \<Rightarrow> []
                | Some j \<Rightarrow> (case dec_raw_list j of None \<Rightarrow> [] | Some ys \<Rightarrow> ys))
      in if xs = [] then usage_items (get_key rawMap usage) else xs)"

definition df_volume :: "string list \<Rightarrow> string \<Rightarrow> json \<Rightarrow> json option" where
  "df_volume ownedVols volPrefix rawItem =
     (case item_str ''Name'' rawItem of
        None \<Rightarrow> None
      | Some name \<Rightarrow>
          (if name \<in> set ownedVols \<or> has_prefix name volPrefix then
             (if has_prefix name volPrefix then
                (case dec_map rawItem of
                   Some (Some item) \<Rightarrow> Some (JObj (map_put ''Name'' (JStr (trim_prefix name volPrefix)) item))
                 | _ \<Rightarrow> Some rawItem)
              else Some rawItem)
           else None))"

fun opt_entry :: "string \<Rightarrow> json option \<Rightarrow> jmap" where
  "opt_entry k None = []"
| "opt_entry k (Some j) = [(k, j)]"

text \<open>The answer in the format of the daemon: usage fields only, or arrays and usage fields.\<close>

definition df_output :: "jmap option \<Rightarrow> json list \<Rightarrow> json list \<Rightarrow> json list \<Rightarrow> body" where
  "df_output rawMap images containers volumes =
     (let imageUsage = rebuildUsageField (get_key rawMap ''ImageUsage'') images ''image'';
          containerUsage = rebuildUsageField (get_key rawMap ''ContainerUsage'') containers ''container'';
          volumeUsage = rebuildUsageField (get_key rawMap ''VolumeUsage'') volumes ''volume'';
          buildCache = (case get_key rawMap ''BuildCache'' of
                          None \<Rightarrow> []
                        | Some j \<Rightarrow> (case dec_raw_list j of None \<Rightarrow> [] | Some xs \<Rightarrow> xs))
      in if get_key rawMap ''Images'' = None \<and> get_key rawMap ''ImageUsage'' \<noteq> None
         then Doc (JObj (to_map
                (opt_entry ''ImageUsage'' imageUsage @ opt_entry ''ContainerUsage'' containerUsage @
                 opt_entry ''VolumeUsage'' volumeUsage @
                 opt_entry ''BuildCacheUsage'' (get_key rawMap ''BuildCacheUsage''))))
         else Doc (JObj
                ([(''LayersSize'', JNum 0), (''Images'', JArr images), (''Containers'', JArr containers),
                  (''Volumes'', JArr volumes), (''BuildCache'', JArr buildCache)] @
                 opt_entry ''ImageUsage'' imageUsage @ opt_entry ''ContainerUsage'' containerUsage @
                 opt_entry ''VolumeUsage'' volumeUsage)))"

definition FilterSystemDFResponse :: "body \<Rightarrow> int \<Rightarrow> bool \<Rightarrow> OwnershipReader \<Rightarrow> filtered" where
  "FilterSystemDFResponse b realUID privileged db =
     (if privileged then (b, None)
      else case body_map b of
        None \<Rightarrow> (b, None)
      | Some rawMap \<Rightarrow>
          (case rContainerIDs db realUID of
             Inl e \<Rightarrow> (EmptySystemDFBody, Some (QueryError e))
           | Inr cids \<Rightarrow>
               (let containers = filter (\<lambda>raw. case item_str ''Id'' raw of None \<Rightarrow> False | Some i \<Rightarrow> id_owned cids i)
                                   (df_items rawMap ''Containers'' ''ContainerUsage'');
                    images = filter (\<lambda>raw. case item_str ''Id'' raw of None \<Rightarrow> False | Some i \<Rightarrow> rCanSeeImage db realUID i)
                               (df_items rawMap ''Images'' ''ImageUsage'')
                in case rVolumeNames db realUID of
                     Inl e \<Rightarrow> (EmptySystemDFBody, Some (QueryError e))
                   | Inr vnames \<Rightarrow>
                       (df_output rawMap images containers
                          (List.map_filter (df_volume vnames (UserVolumePrefix realUID))
                             (df_items rawMap ''Volumes'' ''VolumeUsage'')), None))))"

text \<open>The hint of the masked tokens is a text in Chinese; it is a parameter here.\<close>

definition masked_tokens :: "string \<Rightarrow> json" where
  "masked_tokens hint =
     JObj [(''Worker'', JStr (replicate 40 CHR ''*'')), (''Manager'', JStr (replicate 40 CHR ''*'')),
           (''_hint'', JStr hint)]"

definition FilterSwarmInspectResponse :: "string \<Rightarrow> body \<Rightarrow> bool \<Rightarrow> (go_panic, body) result" where
  "FilterSwarmInspectResponse hint b privileged =
     (if privileged then Inr b
      else case body_map b of
        None \<Rightarrow> Inr b
      | Some raw \<Rightarrow>
          (case set_key ''JoinTokens'' (masked_tokens hint) raw of
             Inl p \<Rightarrow> Inl p
           | Inr m \<Rightarrow> Inr (Doc (JObj m))))"

end
