(* ===== verification/Storage.thy ===== *)
theory Storage
  imports Paths ListFilter
begin

text \<open>
  Package \<^verbatim>\<open>internal/isolation\<close>: the checks on the mounts of a container
  (\<^verbatim>\<open>storage.go\<close> and the named volumes of \<^verbatim>\<open>volume.go\<close>): bind mounts,
  named volumes, tmpfs sizes, devices and volumes-from, and the cleanup of orphaned volumes.
  A check returns the violation, if any.  Go ranges over a map in no fixed order; the model takes
  the order of the keys, which only decides which of several violations is reported.
\<close>

section \<open>Bind mounts\<close>

definition UserStorageRoot :: "string \<Rightarrow> int \<Rightarrow> string" where
  "UserStorageRoot base uid = path_join base (''user-'' @ itoa uid)"

record BindMountViolation =
  bmSource :: string
  AllowedRoots :: "string list"

definition underAnyRoot :: "string \<Rightarrow> string list \<Rightarrow> bool" where
  "underAnyRoot cleanSrc roots =
     list_ex (\<lambda>r. r \<noteq> [] \<and> (cleanSrc = r \<or> has_prefix cleanSrc (r @ ''/''))) roots"

text \<open>The element structs of a slice: null elements are the zero struct.\<close>

fun dec_structs :: "(jmap \<Rightarrow> 'a option) \<Rightarrow> json \<Rightarrow> 'a list option" where
  "dec_structs f (JArr xs) =
     all_some (map (\<lambda>x. case obj_entries x of None \<Rightarrow> None | Some es \<Rightarrow> f es) xs)"
| "dec_structs f JNull = Some []"
| "dec_structs f _ = None"

definition mount_fields :: "jmap \<Rightarrow> (string \<times> string) option" where
  "mount_fields es =
     (case (field_str ''Type'' es, field_str ''Source'' es) of
        (Some t, Some s) \<Rightarrow> Some (t, s)
      | _ \<Rightarrow> None)"

definition host_config :: "body \<Rightarrow> jmap option" where
  "host_config b = (case body_struct b of None \<Rightarrow> None | Some es \<Rightarrow> sub_struct ''HostConfig'' es)"

definition parseBindMounts :: "body \<Rightarrow> string list" where
  "parseBindMounts b =
     (case host_config b of
        None \<Rightarrow> []
      | Some hc \<Rightarrow>
          (case (field_slice dec_str_list ''Binds'' hc, field_slice (dec_structs mount_fields) ''Mounts'' hc) of
             (Some binds, Some mounts) \<Rightarrow>
               map (before_char CHR '':'') binds @
               map snd (filter (\<lambda>(t, s). equal_fold t ''bind'' \<and> s \<noteq> []) mounts)
           | _ \<Rightarrow> []))"

definition bind_roots :: "string \<Rightarrow> int \<Rightarrow> string \<Rightarrow> string list" where
  "bind_roots storageBase uid homeDir =
     path_clean (UserStorageRoot storageBase uid) # (if homeDir = [] then [] else [path_clean homeDir])"

definition bind_refused :: "string list \<Rightarrow> string \<Rightarrow> bool" where
  "bind_refused roots src \<longleftrightarrow> has_prefix src ''/'' \<and> \<not> underAnyRoot (path_clean src) roots"

definition ValidateBindMounts :: "body \<Rightarrow> string \<Rightarrow> int \<Rightarrow> string \<Rightarrow> BindMountViolation option" where
  "ValidateBindMounts b storageBase uid homeDir =
     (if uid = 0 then None
      else let roots = bind_roots storageBase uid homeDir in
        map_option (\<lambda>src. \<lparr>bmSource = src, AllowedRoots = roots\<rparr>)
          (find (bind_refused roots) (parseBindMounts b)))"

section \<open>Named volumes\<close>

text \<open>A rewriting of a request either panics, names a volume that is not the caller's, or succeeds.\<close>

datatype volume_error = VolumePanic go_panic | NamedVolumeViolation string

definition splitBindSrc :: "string \<Rightarrow> string \<times> string" where
  "splitBindSrc b = (case index_char CHR '':'' b of None \<Rightarrow> (b, []) | Some i \<Rightarrow> (take i b, drop i b))"

fun rewrite_binds :: "string \<Rightarrow> string list \<Rightarrow> string list \<Rightarrow> (volume_error, string list) result" where
  "rewrite_binds pfx owned [] = Inr []"
| "rewrite_binds pfx owned (b # bs) =
     (case splitBindSrc b of
        (src, rest) \<Rightarrow>
          (if has_prefix src ''/'' \<or> has_prefix src pfx then
             (case rewrite_binds pfx owned bs of Inl e \<Rightarrow> Inl e | Inr out \<Rightarrow> Inr (b # out))
           else if pfx @ src \<notin> set owned then Inl (NamedVolumeViolation src)
           else (case rewrite_binds pfx owned bs of Inl e \<Rightarrow> Inl e | Inr out \<Rightarrow> Inr ((pfx @ src @ rest) # out))))"

text \<open>The decoded mounts and the raw ones are walked together; the raw list may be shorter.\<close>

fun rewrite_mounts ::
  "string \<Rightarrow> string list \<Rightarrow> (string \<times> string) list \<Rightarrow> json list \<Rightarrow> (volume_error, json list) result" where
  "rewrite_mounts pfx owned [] rs = Inr rs"
| "rewrite_mounts pfx owned ((t, src) # ms) rs =
     (let skip = (case rs of
                    [] \<Rightarrow> rewrite_mounts pfx owned ms []
                  | r # rs' \<Rightarrow> (case rewrite_mounts pfx owned ms rs' of Inl e \<Rightarrow> Inl e | Inr out \<Rightarrow> Inr (r # out)))
      in if \<not> equal_fold t ''volume'' \<or> src = [] \<or> has_prefix src pfx then skip
         else if pfx @ src \<notin> set owned then Inl (NamedVolumeViolation src)
         else (case rs of
                 [] \<Rightarrow> skip
               | r # rs' \<Rightarrow>
                   (case dec_map r of
                      None \<Rightarrow> skip
                    | Some om \<Rightarrow>
                        (case set_key ''Source'' (JStr (pfx @ src)) om of
                           Inl p \<Rightarrow> Inl (VolumePanic p)
                         | Inr item \<Rightarrow>
                             (case rewrite_mounts pfx owned ms rs' of
                                Inl e \<Rightarrow> Inl e
                              | Inr out \<Rightarrow> Inr (JObj item # out))))))"

definition volume_mount_fields :: "jmap \<Rightarrow> (string \<times> string) option" where
  "volume_mount_fields es = (case field_str ''Target'' es of None \<Rightarrow> None | Some _ \<Rightarrow> mount_fields es)"

text \<open>The binds written back into the host configuration.\<close>

definition put_binds :: "string list \<Rightarrow> string list \<Rightarrow> jmap option \<Rightarrow> (volume_error, jmap option) result" where
  "put_binds binds newBinds hcRaw =
     (if binds = [] then Inr hcRaw
      else case set_key ''Binds'' (JArr (map JStr newBinds)) hcRaw of
        Inl p \<Rightarrow> Inl (VolumePanic p)
      | Inr m \<Rightarrow> Inr (Some m))"

definition put_mounts ::
  "string \<Rightarrow> string list \<Rightarrow> (string \<times> string) list \<Rightarrow> jmap option \<Rightarrow> (volume_error, jmap option) result" where
  "put_mounts pfx owned mounts hcRaw =
     (if mounts = [] then Inr hcRaw
      else case get_key hcRaw ''Mounts'' of
        None \<Rightarrow> Inr hcRaw
      | Some j \<Rightarrow>
          (case dec_raw_list j of
             None \<Rightarrow> Inr hcRaw
           | Some mountsRaw \<Rightarrow>
               (case rewrite_mounts pfx owned mounts mountsRaw of
                  Inl e \<Rightarrow> Inl e
                | Inr out \<Rightarrow>
                    (case set_key ''Mounts'' (if j = JNull then JNull else JArr out) hcRaw of
                       Inl p \<Rightarrow> Inl (VolumePanic p)
                     | Inr m \<Rightarrow> Inr (Some m)))))"

fun enc_map :: "jmap option \<Rightarrow> json" where
  "enc_map None = JNull"
| "enc_map (Some m) = JObj m"

definition ValidateAndRewriteNamedVolumes :: "body \<Rightarrow> int \<Rightarrow> OwnershipReader \<Rightarrow> (volume_error, body) result" where
  "ValidateAndRewriteNamedVolumes b uid db =
     (if uid = 0 then Inr b
      else case rVolumeNames db uid of
        Inl _ \<Rightarrow> Inr b
      | Inr owned \<Rightarrow>
          (case (body_map b, host_config b) of
             (Some raw, Some hc) \<Rightarrow>
               (case (field_slice dec_str_list ''Binds'' hc,
                      field_slice (dec_structs volume_mount_fields) ''Mounts'' hc) of
                  (Some binds, Some mounts) \<Rightarrow>
                    (case rewrite_binds (UserVolumePrefix uid) owned binds of
                       Inl e \<Rightarrow> Inl e
                     | Inr newBinds \<Rightarrow>
                         (case get_key raw ''HostConfig'' of
                            None \<Rightarrow> Inr b
                          | Some hj \<Rightarrow>
                              (case dec_map hj of
                                 None \<Rightarrow> Inr b
                               | Some hcRaw \<Rightarrow>
                                   (case put_binds binds newBinds hcRaw of
                                      Inl e \<Rightarrow> Inl e
                                    | Inr hc1 \<Rightarrow>
                                        (case put_mounts (UserVolumePrefix uid) owned mounts hc1 of
                                           Inl e \<Rightarrow> Inl e
                                         | Inr hc2 \<Rightarrow>
                                             (case set_key ''HostConfig'' (enc_map hc2) raw of
                                                Inl p \<Rightarrow> Inl (VolumePanic p)
                                              | Inr m \<Rightarrow> Inr (Doc (JObj m))))))))
                | _ \<Rightarrow> Inr b)
           | _ \<Rightarrow> Inr b))"

section \<open>Sizes of tmpfs mounts\<close>

text \<open>\<^verbatim>\<open>fmt.Sscanf(s, "%d", &n)\<close>: blanks, a sign, digits; what follows is ignored.\<close>

definition sscan_d :: "string \<Rightarrow> int option" where
  "sscan_d s =
     (let s1 = dropWhile (\<lambda>c. is_space c \<and> c \<noteq> CHR 0x0A) s;
          neg = (s1 \<noteq> [] \<and> hd s1 = CHR ''-'');
          s2 = (if s1 \<noteq> [] \<and> hd s1 \<in> {CHR ''-'', CHR ''+''} then tl s1 else s1);
          ds = takeWhile is_digit s2;
          n = (if neg then - digits_val ds else digits_val ds)
      in if ds = [] \<or> n < min_int64 \<or> n > max_int64 then None else Some n)"

definition size_value :: "string \<Rightarrow> int" where
  "size_value val =
     (if val = [] then 0
      else let unit = last val; n = (case sscan_d (butlast val) of None \<Rightarrow> 0 | Some k \<Rightarrow> k) in
        if unit \<in> {CHR ''k'', CHR ''K''} then wrap64 (n * 1024)
        else if unit \<in> {CHR ''m'', CHR ''M''} then wrap64 (n * 1024 * 1024)
        else if unit \<in> {CHR ''g'', CHR ''G''} then wrap64 (n * 1024 * 1024 * 1024)
        else (case sscan_d val of None \<Rightarrow> n | Some k \<Rightarrow> k))"

fun first_size :: "string list \<Rightarrow> int" where
  "first_size [] = 0"
| "first_size (p # ps) =
     (let part = trim_space p in
      if has_prefix part ''size='' then size_value (drop 5 part) else first_size ps)"

definition parseTmpfsSize :: "string \<Rightarrow> int" where
  "parseTmpfsSize opts = first_size (split_char CHR '','' opts)"

record TmpfsViolation =
  RequestedMB :: int
  LimitMB :: int

definition int64_or_zero :: "json option \<Rightarrow> int" where
  "int64_or_zero oj =
     (case oj of None \<Rightarrow> 0 | Some j \<Rightarrow> (case dec_int64 j of None \<Rightarrow> 0 | Some n \<Rightarrow> n))"

definition sub_map :: "json option \<Rightarrow> jmap option" where
  "sub_map oj = (case oj of None \<Rightarrow> None | Some j \<Rightarrow> (case dec_map j of Some om \<Rightarrow> om | None \<Rightarrow> None))"

definition tmpfs_size :: "jmap option \<Rightarrow> int" where
  "tmpfs_size mount = int64_or_zero (get_key (sub_map (get_key mount ''TmpfsOptions'')) ''SizeBytes'')"

definition is_tmpfs :: "jmap option \<Rightarrow> bool" where
  "is_tmpfs mount = equal_fold (str_or_empty (get_key mount ''Type'')) ''tmpfs''"

definition put_opt :: "string \<Rightarrow> json \<Rightarrow> jmap option \<Rightarrow> jmap" where
  "put_opt k v om = map_put k v (case om of None \<Rightarrow> [] | Some m \<Rightarrow> m)"

text \<open>One mount: the refused size, or the new mount and whether it was changed.\<close>

definition tmpfs_mount :: "int \<Rightarrow> json \<Rightarrow> (int, json \<times> bool) result" where
  "tmpfs_mount limitBytes m =
     (case dec_map m of
        None \<Rightarrow> Inr (m, False)
      | Some mount \<Rightarrow>
          (if \<not> is_tmpfs mount then Inr (m, False)
           else if tmpfs_size mount > limitBytes then Inl (tmpfs_size mount)
           else if tmpfs_size mount = 0 then
             Inr (JObj (put_opt ''TmpfsOptions''
                    (JObj (put_opt ''SizeBytes'' (JNum limitBytes) (sub_map (get_key mount ''TmpfsOptions'')))) mount), True)
           else Inr (m, False)))"

fun tmpfs_mounts :: "int \<Rightarrow> json list \<Rightarrow> (int, json list \<times> bool) result" where
  "tmpfs_mounts limitBytes [] = Inr ([], False)"
| "tmpfs_mounts limitBytes (m # ms) =
     (case tmpfs_mount limitBytes m of
        Inl n \<Rightarrow> Inl n
      | Inr (m', c) \<Rightarrow>
          (case tmpfs_mounts limitBytes ms of
             Inl n \<Rightarrow> Inl n
           | Inr (ms', cs) \<Rightarrow> Inr (m' # ms', c \<or> cs)))"

definition tmpfs_opts :: "int \<Rightarrow> string \<Rightarrow> (int, string \<times> bool) result" where
  "tmpfs_opts limitBytes opts =
     (let n = parseTmpfsSize opts; sizeOpt = ''size='' @ itoa limitBytes in
      if n > limitBytes then Inl n
      else if n = 0 then Inr (if opts = [] then sizeOpt else opts @ '','' @ sizeOpt, True)
      else Inr (opts, False))"

fun tmpfs_map :: "int \<Rightarrow> (string \<times> string) list \<Rightarrow> (int, (string \<times> string) list \<times> bool) result" where
  "tmpfs_map limitBytes [] = Inr ([], False)"
| "tmpfs_map limitBytes ((target, opts) # rest) =
     (case tmpfs_opts limitBytes opts of
        Inl n \<Rightarrow> Inl n
      | Inr (opts', c) \<Rightarrow>
          (case tmpfs_map limitBytes rest of
             Inl n \<Rightarrow> Inl n
           | Inr (rest', cs) \<Rightarrow> Inr ((target, opts') # rest', c \<or> cs)))"

text \<open>The two halves of the host configuration, each with a flag that tells whether it changed.\<close>

definition limit_mounts :: "int \<Rightarrow> jmap option \<Rightarrow> (int, jmap option \<times> bool) result" where
  "limit_mounts limitBytes hc =
     (case get_key hc ''Mounts'' of
        None \<Rightarrow> Inr (hc, False)
      | Some j \<Rightarrow>
          (case dec_raw_list j of
             None \<Rightarrow> Inr (hc, False)
           | Some ms \<Rightarrow>
               (case tmpfs_mounts limitBytes ms of
                  Inl n \<Rightarrow> Inl n
                | Inr (ms', c) \<Rightarrow> Inr (if c then Some (put_opt ''Mounts'' (JArr ms') hc) else hc, c))))"

definition limit_tmpfs :: "int \<Rightarrow> jmap option \<Rightarrow> (int, jmap option \<times> bool) result" where
  "limit_tmpfs limitBytes hc =
     (case get_key hc ''Tmpfs'' of
        None \<Rightarrow> Inr (hc, False)
      | Some j \<Rightarrow>
          (case dec_str_map j of
             None \<Rightarrow> Inr (hc, False)
           | Some tm \<Rightarrow>
               (case tmpfs_map limitBytes tm of
                  Inl n \<Rightarrow> Inl n
                | Inr (tm', c) \<Rightarrow> Inr (if c then Some (put_opt ''Tmpfs'' (enc_str_map tm') hc) else hc, c))))"

definition limit_bytes :: "int \<Rightarrow> int" where
  "limit_bytes limitMB = wrap64 (wrap64 limitMB * 1024 * 1024)"

definition ValidateAndInjectTmpfs :: "body \<Rightarrow> int \<Rightarrow> (TmpfsViolation, body) result" where
  "ValidateAndInjectTmpfs b limitMB =
     (if limitMB = 0 then Inr b
      else case body_map b of
        None \<Rightarrow> Inr b
      | Some raw \<Rightarrow>
          (case get_key raw ''HostConfig'' of
             None \<Rightarrow> Inr b
           | Some hj \<Rightarrow>
               (case dec_map hj of
                  None \<Rightarrow> Inr b
                | Some hc \<Rightarrow>
                    (let refuse = (\<lambda>n. Inl \<lparr>RequestedMB = go_quot (go_quot n 1024) 1024, LimitMB = limitMB\<rparr>) in
                     case limit_mounts (limit_bytes limitMB) hc of
                       Inl n \<Rightarrow> refuse n
                     | Inr (hc1, c1) \<Rightarrow>
                         (case limit_tmpfs (limit_bytes limitMB) hc1 of
                            Inl n \<Rightarrow> refuse n
                          | Inr (hc2, c2) \<Rightarrow>
                              (if \<not> (c1 \<or> c2) then Inr b
                               else Inr (Doc (JObj (put_opt ''HostConfig'' (enc_map hc2) raw)))))))))"

section \<open>Devices\<close>

definition deviceAllowed :: "string \<Rightarrow> string list \<Rightarrow> bool" where
  "deviceAllowed path patterns = list_ex (\<lambda>pattern. path_match pattern path) patterns"

definition requested_devices :: "body \<Rightarrow> string list" where
  "requested_devices b =
     (case host_config b of
        None \<Rightarrow> []
      | Some hc \<Rightarrow>
          (case field_slice (dec_structs (field_str ''PathOnHost'')) ''Devices'' hc of
             None \<Rightarrow> []
           | Some ds \<Rightarrow> ds))"

definition ValidateDeviceMounts :: "body \<Rightarrow> string list \<Rightarrow> int \<Rightarrow> string option" where
  "ValidateDeviceMounts b allowedPatterns uid =
     (if uid = 0 then None
      else find (\<lambda>path. path \<noteq> [] \<and> \<not> deviceAllowed path allowedPatterns) (requested_devices b))"

section \<open>volumes-from\<close>

text \<open>The container of a reference, without the access mode.\<close>

definition volumes_from_ref :: "string \<Rightarrow> string" where
  "volumes_from_ref ref =
     (case last_index_char CHR '':'' ref of
        None \<Rightarrow> ref
      | Some i \<Rightarrow> (if drop (Suc i) ref \<in> {''ro'', ''rw''} then take i ref else ref))"

definition requested_volumes_from :: "body \<Rightarrow> string list" where
  "requested_volumes_from b =
     (case host_config b of
        None \<Rightarrow> []
      | Some hc \<Rightarrow>
          (case field_slice dec_str_list ''VolumesFrom'' hc of None \<Rightarrow> [] | Some refs \<Rightarrow> refs))"

text \<open>The resolver of names is a parameter; it asks the daemon.\<close>

definition volumes_from_id :: "(string \<Rightarrow> string) option \<Rightarrow> string \<Rightarrow> string" where
  "volumes_from_id resolver ref =
     (case resolver of None \<Rightarrow> ref | Some f \<Rightarrow> (if f ref \<noteq> [] then f ref else ref))"

definition volumes_from_refused :: "OwnershipDB \<Rightarrow> (string \<Rightarrow> string) option \<Rightarrow> int \<Rightarrow> string \<Rightarrow> bool" where
  "volumes_from_refused db resolver uid ref =
     (let cid = volumes_from_id resolver ref in
      case GetContainerOwner db cid of
        None \<Rightarrow> True
      | Some owner \<Rightarrow> oiUID owner \<noteq> uid \<and> (case CanVolumesFrom db cid uid of Inl _ \<Rightarrow> True | Inr granted \<Rightarrow> \<not> granted))"

definition ValidateVolumesFrom ::
  "body \<Rightarrow> int \<Rightarrow> bool \<Rightarrow> OwnershipDB \<Rightarrow> (string \<Rightarrow> string) option \<Rightarrow> string option" where
  "ValidateVolumesFrom b uid privileged db resolver =
     (if uid = 0 \<or> privileged then None
      else find (volumes_from_refused db resolver uid) (map volumes_from_ref (requested_volumes_from b)))"

section \<open>Cleanup of orphaned volumes\<close>

definition isUserVolumePrefix :: "string \<Rightarrow> bool" where
  "isUserVolumePrefix name =
     (has_prefix name ''user-'' \<and>
      (let rest = drop 5 name in
       takeWhile is_digit rest \<noteq> [] \<and> has_prefix (dropWhile is_digit rest) ''-volume-''))"

text \<open>
  The loop over the dangling volumes of the daemon.  The call that removes a volume is a
  parameter that tells whether it succeeded; the result is the list of removed volumes and the
  database.
\<close>

fun cleanup_volumes ::
  "(string \<Rightarrow> bool) \<Rightarrow> string list \<Rightarrow> string list \<Rightarrow> OwnershipDB \<Rightarrow> string list \<times> OwnershipDB" where
  "cleanup_volumes removeVolume ownedSet [] db = ([], db)"
| "cleanup_volumes removeVolume ownedSet (v # vs) db =
     (if \<not> isUserVolumePrefix v \<or> v \<in> set ownedSet \<or> GetVolumeOwner db v \<noteq> None \<or> \<not> removeVolume v
      then cleanup_volumes removeVolume ownedSet vs db
      else (case cleanup_volumes removeVolume ownedSet vs (snd (DeleteVolume v db)) of
              (removed, db') \<Rightarrow> (v # removed, db')))"

definition runCleanup ::
  "(string \<Rightarrow> bool) \<Rightarrow> string list option \<Rightarrow> OwnershipDB \<Rightarrow> string list \<times> OwnershipDB" where
  "runCleanup removeVolume dangling db =
     (case GetAllVolumeNames db of
        Inl _ \<Rightarrow> ([], db)
      | Inr ownedVols \<Rightarrow>
          (case dangling of None \<Rightarrow> ([], db) | Some vs \<Rightarrow> cleanup_volumes removeVolume ownedVols vs db))"

end
