(* ===== verification/Quota.thy ===== *)
theory Quota
  imports Storage Complex_Main "HOL-Library.Log_Nat"
begin

text \<open>
  Package \<^verbatim>\<open>internal/isolation\<close>, file \<^verbatim>\<open>quota.go\<close>: the quota manager,
  the effective quota of a caller, the check and injection of limits into a container request and
  the check of an update.  The YAML decoder and the number of processors are parameters.  The
  texts of the error and the summary for the audit log are left out: a refusal names the resource,
  the requested amount and the limit.

  A quota of processors is a float64.  The model keeps the exact rational value of the float; the
  only arithmetic on it is the product with \<open>10\<^sup>9\<close>, which is rounded to 53 bits before it is
  truncated to an integer.
\<close>

section \<open>Floats\<close>

text \<open>The nearest multiple of a positive unit, ties to even.\<close>

definition round_even :: "rat \<Rightarrow> int" where
  "round_even x =
     (let f = floor x; d = x - of_int f
      in if d < 1 / 2 then f else if d > 1 / 2 then f + 1 else if even f then f else f + 1)"

definition pow2 :: "int \<Rightarrow> rat" where
  "pow2 e = (if e \<ge> 0 then 2 ^ nat e else 1 / 2 ^ nat (- e))"

text \<open>Rounding of a positive number to 53 bits, without the limits of the exponent.\<close>

definition round53 :: "rat \<Rightarrow> rat" where
  "round53 x =
     (if x \<le> 0 then x
      else case quotient_of x of
        (n, d) \<Rightarrow>
          (let e0 = bitlen n - bitlen d - 52;
               e = (if x < pow2 (e0 + 52) then e0 - 1 else e0)
           in of_int (round_even (x / pow2 e)) * pow2 e))"

text \<open>\<^verbatim>\<open>int64(cores * 1e9)\<close>\<close>

definition nanos :: "rat \<Rightarrow> int" where
  "nanos cores = floor (round53 (cores * 10 ^ 9))"

section \<open>Configuration\<close>

definition builtinAllowedDevices :: "string list" where
  "builtinAllowedDevices =
     [''/dev/null'', ''/dev/zero'', ''/dev/urandom'', ''/dev/random'', ''/dev/full'', ''/dev/tty'']"

record QuotaEntry =
  CPUCores :: rat
  MemMB :: int
  StorageGB :: int
  MaxContainers :: int
  TmpfsSizeMB :: int
  AllowedDevices :: "string list"

text \<open>In an entry of the file an absent field is inherited, and a zero is a value.\<close>

record quotaEntryRaw =
  rawCPUCores :: "rat option"
  rawMemMB :: "int option"
  rawStorageGB :: "int option"
  rawMaxContainers :: "int option"
  rawTmpfsSizeMB :: "int option"
  rawAllowedDevices :: "string list"

record QuotaConfig =
  cfgDefaults :: QuotaEntry
  cfgUsers :: "(string \<times> quotaEntryRaw) list"
  cfgGroups :: "(string \<times> quotaEntryRaw) list"

record QuotaManager =
  defaults :: QuotaEntry
  users :: "string \<rightharpoonup> quotaEntryRaw"
  groups :: "string \<rightharpoonup> quotaEntryRaw"

fun deref :: "'a option \<Rightarrow> 'a \<Rightarrow> 'a" where
  "deref None fallback = fallback"
| "deref (Some v) fallback = v"

definition rawToEntry :: "quotaEntryRaw \<Rightarrow> QuotaEntry" where
  "rawToEntry r =
     \<lparr>CPUCores = deref (rawCPUCores r) 0, MemMB = deref (rawMemMB r) 0, StorageGB = deref (rawStorageGB r) 0,
      MaxContainers = deref (rawMaxContainers r) 0, TmpfsSizeMB = deref (rawTmpfsSizeMB r) 0,
      AllowedDevices = rawAllowedDevices r\<rparr>"

definition entryToRaw :: "QuotaEntry \<Rightarrow> quotaEntryRaw" where
  "entryToRaw e =
     \<lparr>rawCPUCores = Some (CPUCores e), rawMemMB = Some (MemMB e), rawStorageGB = Some (StorageGB e),
      rawMaxContainers = Some (MaxContainers e), rawTmpfsSizeMB = Some (TmpfsSizeMB e),
      rawAllowedDevices = AllowedDevices e\<rparr>"

section \<open>The quota manager\<close>

datatype quota_file_error = EmptyPath | ReadFailed | ParseFailed | NegativeDefaults | NegativeUser string

definition zero_entry :: QuotaEntry where
  "zero_entry = \<lparr>CPUCores = 0, MemMB = 0, StorageGB = 0, MaxContainers = 0, TmpfsSizeMB = 0, AllowedDevices = []\<rparr>"

definition DefaultQuotaManager :: QuotaManager where
  "DefaultQuotaManager = \<lparr>defaults = zero_entry, users = Map.empty, groups = Map.empty\<rparr>"

definition negative_entry :: "QuotaEntry \<Rightarrow> bool" where
  "negative_entry e \<longleftrightarrow> CPUCores e < 0 \<or> MemMB e < 0 \<or> StorageGB e < 0"

definition negative_raw :: "quotaEntryRaw \<Rightarrow> bool" where
  "negative_raw e \<longleftrightarrow> deref (rawCPUCores e) 0 < 0 \<or> deref (rawMemMB e) 0 < 0 \<or> deref (rawStorageGB e) 0 < 0"

definition manager_of :: "QuotaConfig \<Rightarrow> QuotaManager" where
  "manager_of cfg =
     \<lparr>defaults = cfgDefaults cfg, users = map_of (cfgUsers cfg), groups = map_of (cfgGroups cfg)\<rparr>"

text \<open>The decoded file: \<^term>\<open>None\<close> when it cannot be read, \<^term>\<open>Some None\<close> when it is no quota file.\<close>

definition LoadQuotaManager :: "QuotaConfig option option \<Rightarrow> (quota_file_error, QuotaManager) result" where
  "LoadQuotaManager file =
     (case file of
        None \<Rightarrow> Inl ReadFailed
      | Some None \<Rightarrow> Inl ParseFailed
      | Some (Some cfg) \<Rightarrow>
          (if negative_entry (cfgDefaults cfg) then Inl NegativeDefaults else Inr (manager_of cfg)))"

definition Reload :: "string \<Rightarrow> QuotaConfig option option \<Rightarrow> QuotaManager \<Rightarrow> quota_file_error option \<times> QuotaManager" where
  "Reload path file m =
     (if path = [] then (Some EmptyPath, m)
      else case file of
        None \<Rightarrow> (Some ReadFailed, m)
      | Some None \<Rightarrow> (Some ParseFailed, m)
      | Some (Some cfg) \<Rightarrow>
          (if negative_entry (cfgDefaults cfg) then (Some NegativeDefaults, m)
           else case find (\<lambda>(name, e). negative_raw e) (cfgUsers cfg) of
             Some (name, _) \<Rightarrow> (Some (NegativeUser name), m)
           | None \<Rightarrow> (None, manager_of cfg)))"

definition SetUserQuota :: "string \<Rightarrow> QuotaEntry \<Rightarrow> QuotaManager \<Rightarrow> QuotaManager" where
  "SetUserQuota username e m = m\<lparr>users := (users m)(username \<mapsto> entryToRaw e)\<rparr>"

definition DeleteUserQuota :: "string \<Rightarrow> QuotaManager \<Rightarrow> QuotaManager" where
  "DeleteUserQuota username m = m\<lparr>users := (users m)(username := None)\<rparr>"

definition GetUserQuota :: "QuotaManager \<Rightarrow> string \<Rightarrow> QuotaEntry option" where
  "GetUserQuota m username = map_option rawToEntry (users m username)"

definition SetGroupQuota :: "string \<Rightarrow> QuotaEntry \<Rightarrow> QuotaManager \<Rightarrow> QuotaManager" where
  "SetGroupQuota groupname e m = m\<lparr>groups := (groups m)(groupname \<mapsto> entryToRaw e)\<rparr>"

definition DeleteGroupQuota :: "string \<Rightarrow> QuotaManager \<Rightarrow> QuotaManager" where
  "DeleteGroupQuota groupname m = m\<lparr>groups := (groups m)(groupname := None)\<rparr>"

definition SetDefaultQuota :: "QuotaEntry \<Rightarrow> QuotaManager \<Rightarrow> QuotaManager" where
  "SetDefaultQuota e m = m\<lparr>defaults := e\<rparr>"

section \<open>The effective quota\<close>

text \<open>A group raises a limit, or lifts it with a zero.\<close>

definition raise_to :: "'a :: {zero, linorder} option \<Rightarrow> 'a \<Rightarrow> 'a" where
  "raise_to v q = (case v of None \<Rightarrow> q | Some x \<Rightarrow> (if x = 0 \<or> x > q then x else q))"

definition apply_group :: "quotaEntryRaw \<Rightarrow> QuotaEntry \<Rightarrow> QuotaEntry" where
  "apply_group ge q =
     \<lparr>CPUCores = raise_to (rawCPUCores ge) (CPUCores q), MemMB = raise_to (rawMemMB ge) (MemMB q),
      StorageGB = raise_to (rawStorageGB ge) (StorageGB q),
      MaxContainers = raise_to (rawMaxContainers ge) (MaxContainers q),
      TmpfsSizeMB = raise_to (rawTmpfsSizeMB ge) (TmpfsSizeMB q),
      AllowedDevices = AllowedDevices q @ rawAllowedDevices ge\<rparr>"

definition apply_user :: "quotaEntryRaw \<Rightarrow> QuotaEntry \<Rightarrow> QuotaEntry" where
  "apply_user ue q =
     \<lparr>CPUCores = deref (rawCPUCores ue) (CPUCores q), MemMB = deref (rawMemMB ue) (MemMB q),
      StorageGB = deref (rawStorageGB ue) (StorageGB q),
      MaxContainers = deref (rawMaxContainers ue) (MaxContainers q),
      TmpfsSizeMB = deref (rawTmpfsSizeMB ue) (TmpfsSizeMB q),
      AllowedDevices = AllowedDevices q @ rawAllowedDevices ue\<rparr>"

definition group_entries :: "os_env \<Rightarrow> QuotaManager \<Rightarrow> int \<Rightarrow> quotaEntryRaw list" where
  "group_entries env m uid =
     List.map_filter (\<lambda>gid. if LookupGroupName env gid = [] then None else groups m (LookupGroupName env gid))
       (GetUserGroups env uid)"

definition GetQuota :: "os_env \<Rightarrow> QuotaManager \<Rightarrow> CallerIdentity \<Rightarrow> QuotaEntry" where
  "GetQuota env m i =
     (let q1 = fold apply_group (group_entries env m (RealUID i)) (defaults m);
          q2 = (case users m (RealUsername i) of None \<Rightarrow> q1 | Some ue \<Rightarrow> apply_user ue q1)
      in q2\<lparr>TmpfsSizeMB := (if TmpfsSizeMB q2 = 0 then 512 else TmpfsSizeMB q2),
            AllowedDevices := builtinAllowedDevices @ AllowedDevices q2\<rparr>)"

section \<open>The request\<close>

record containerCreateRequest =
  NanoCPUs :: int
  CpuQuota :: int
  CpuPeriod :: int
  reqMemory :: int
  MemoryReservation :: int
  StorageOpt :: "(string \<times> string) list"

text \<open>A field that is a map of strings.\<close>

definition field_str_map :: "string \<Rightarrow> jmap \<Rightarrow> (string \<times> string) list option" where
  "field_str_map name es =
     map_option (\<lambda>m. to_map (map (\<lambda>(k, j). (k, str_entry j)) m))
       (fold (\<lambda>j acc. case acc of
                        None \<Rightarrow> None
                      | Some m \<Rightarrow>
                          (case j of
                             JNull \<Rightarrow> Some []
                           | JObj o' \<Rightarrow> (if list_all (\<lambda>(k, v). dec_str v \<noteq> None) o' then Some (m @ o') else None)
                           | _ \<Rightarrow> None))
          (field_values name es) (Some []))"

text \<open>The other fields of the struct are decoded too, and a value of the wrong type in them is an error.\<close>

definition audit_fields_ok :: "jmap \<Rightarrow> bool" where
  "audit_fields_ok hc \<longleftrightarrow>
     field_int64 ''CpuShares'' hc \<noteq> None \<and> field_str ''CpusetCpus'' hc \<noteq> None \<and>
     field_int64 ''MemorySwap'' hc \<noteq> None \<and> field_int64 ''MemorySwappiness'' hc \<noteq> None"

definition parseContainerRequest :: "body \<Rightarrow> containerCreateRequest option" where
  "parseContainerRequest b =
     (case host_config b of
        None \<Rightarrow> None
      | Some hc \<Rightarrow>
          (case (field_int64 ''NanoCpus'' hc, field_int64 ''CpuQuota'' hc, field_int64 ''CpuPeriod'' hc,
                 field_int64 ''Memory'' hc, field_int64 ''MemoryReservation'' hc, field_str_map ''StorageOpt'' hc) of
             (Some n, Some q, Some p, Some mem, Some res, Some st) \<Rightarrow>
               (if audit_fields_ok hc
                then Some \<lparr>NanoCPUs = n, CpuQuota = q, CpuPeriod = p, reqMemory = mem,
                           MemoryReservation = res, StorageOpt = st\<rparr>
                else None)
           | _ \<Rightarrow> None))"

text \<open>\<^verbatim>\<open>CpuQuota * 1e9 / period\<close>, with the product in 64 bits.\<close>

definition quota_nanos :: "int \<Rightarrow> int \<Rightarrow> int" where
  "quota_nanos q period = go_quot (wrap64 (q * 10 ^ 9)) (if period \<le> 0 then 100000 else period)"

definition effectiveCPUNanos :: "containerCreateRequest \<Rightarrow> int" where
  "effectiveCPUNanos req =
     (if NanoCPUs req > 0 then NanoCPUs req
      else if CpuQuota req > 0 then quota_nanos (CpuQuota req) (CpuPeriod req)
      else 0)"

definition parseStorageGB :: "string \<Rightarrow> int" where
  "parseStorageGB s =
     (if length s < 2 then 0
      else let unit = last s; n = (case sscan_d (butlast s) of None \<Rightarrow> 0 | Some k \<Rightarrow> k) in
        if unit \<in> {CHR ''G'', CHR ''g''} then n
        else if unit \<in> {CHR ''T'', CHR ''t''} then wrap64 (n * 1024)
        else if unit \<in> {CHR ''M'', CHR ''m''} then (if n \<ge> 1024 then go_quot n 1024 else 0)
        else 0)"

section \<open>Check and injection\<close>

record QuotaExceededError =
  qeResource :: string
  qeRequested :: int
  qeLimit :: int

definition mem_bytes :: "int \<Rightarrow> int" where
  "mem_bytes mb = wrap64 (mb * 1024 * 1024)"

definition exceeded :: "string \<Rightarrow> int \<Rightarrow> int \<Rightarrow> QuotaExceededError" where
  "exceeded res requested limit = \<lparr>qeResource = res, qeRequested = requested, qeLimit = limit\<rparr>"

text \<open>The check of the number of containers; a failing query is ignored.\<close>

definition containers_exceeded :: "QuotaEntry \<Rightarrow> int \<Rightarrow> OwnershipDB \<Rightarrow> QuotaExceededError option" where
  "containers_exceeded quota uid db =
     (if MaxContainers quota > 0 then
        (case CountContainersByOwner db uid of
           Inl _ \<Rightarrow> None
         | Inr count \<Rightarrow>
             (if int count \<ge> MaxContainers quota then Some (exceeded ''containers'' (int count + 1) (MaxContainers quota))
              else None))
      else None)"

text \<open>The checks of processors, shared by creation and update.\<close>

definition cpu_exceeded :: "int \<Rightarrow> QuotaEntry \<Rightarrow> int \<Rightarrow> int \<Rightarrow> int \<Rightarrow> QuotaExceededError option" where
  "cpu_exceeded numCPU quota nano cpuQuota reqNano =
     (if CPUCores quota > 0 \<and> reqNano > 0 \<and> reqNano > nanos (CPUCores quota)
      then Some (exceeded ''cpu'' reqNano (nanos (CPUCores quota)))
      else if nano = 0 \<and> cpuQuota > 0 \<and> reqNano > 0 \<and> reqNano > wrap64 (numCPU * 10 ^ 9)
      then Some (exceeded ''cpu'' reqNano (wrap64 (numCPU * 10 ^ 9)))
      else None)"

definition memory_exceeded :: "QuotaEntry \<Rightarrow> int \<Rightarrow> QuotaExceededError option" where
  "memory_exceeded quota mem =
     (if MemMB quota > 0 \<and> mem > 0 \<and> mem > mem_bytes (MemMB quota)
      then Some (exceeded ''memory'' mem (mem_bytes (MemMB quota))) else None)"

definition storage_exceeded :: "QuotaEntry \<Rightarrow> (string \<times> string) list \<Rightarrow> QuotaExceededError option" where
  "storage_exceeded quota opts =
     (if StorageGB quota > 0 then
        (case map_of opts ''size'' of
           None \<Rightarrow> None
         | Some s \<Rightarrow>
             (if s \<noteq> [] \<and> parseStorageGB s > 0 \<and> parseStorageGB s > StorageGB quota
              then Some (exceeded ''storage'' (parseStorageGB s) (StorageGB quota)) else None))
      else None)"

definition request_exceeded :: "int \<Rightarrow> QuotaEntry \<Rightarrow> containerCreateRequest \<Rightarrow> QuotaExceededError option" where
  "request_exceeded numCPU quota req =
     (case cpu_exceeded numCPU quota (NanoCPUs req) (CpuQuota req) (effectiveCPUNanos req) of
        Some e \<Rightarrow> Some e
      | None \<Rightarrow>
          (case memory_exceeded quota (reqMemory req) of
             Some e \<Rightarrow> Some e
           | None \<Rightarrow> storage_exceeded quota (StorageOpt req)))"

definition default_or_limit :: "int \<Rightarrow> int \<Rightarrow> int" where
  "default_or_limit dflt limit = (if dflt > 0 then min dflt limit else limit)"

definition inject_cpu :: "QuotaEntry \<Rightarrow> rat \<Rightarrow> containerCreateRequest \<Rightarrow> jmap \<Rightarrow> jmap" where
  "inject_cpu quota defaultCPUCores req hc =
     (if CPUCores quota > 0 \<and> effectiveCPUNanos req = 0
      then map_put ''NanoCpus'' (JNum (default_or_limit (nanos defaultCPUCores) (nanos (CPUCores quota)))) hc
      else hc)"

definition final_memory :: "QuotaEntry \<Rightarrow> int \<Rightarrow> containerCreateRequest \<Rightarrow> int" where
  "final_memory quota defaultMemMB req =
     (if reqMemory req = 0 then default_or_limit (mem_bytes defaultMemMB) (mem_bytes (MemMB quota))
      else reqMemory req)"

definition inject_memory :: "QuotaEntry \<Rightarrow> int \<Rightarrow> containerCreateRequest \<Rightarrow> jmap \<Rightarrow> jmap" where
  "inject_memory quota defaultMemMB req hc =
     (if MemMB quota > 0 then
        (let mem = final_memory quota defaultMemMB req;
             hc1 = map_put ''MemorySwappiness'' (JNum 0)
                     (map_put ''MemorySwap'' (JNum mem) (map_put ''Memory'' (JNum mem) hc))
         in if MemoryReservation req > mem then map_put ''MemoryReservation'' (JNum mem) hc1 else hc1)
      else hc)"

definition inject_storage :: "QuotaEntry \<Rightarrow> containerCreateRequest \<Rightarrow> jmap \<Rightarrow> jmap" where
  "inject_storage quota req hc =
     (if StorageGB quota > 0 then
        (let opts = StorageOpt req;
             opts' = (if map_of opts ''size'' \<in> {None, Some []}
                      then map_put ''size'' (itoa (StorageGB quota) @ ''G'') opts else opts)
         in map_put ''StorageOpt'' (enc_str_map opts') hc)
      else hc)"

definition injectQuotaLimits ::
  "body \<Rightarrow> containerCreateRequest \<Rightarrow> QuotaEntry \<Rightarrow> rat \<Rightarrow> int \<Rightarrow> (go_panic, body) result" where
  "injectQuotaLimits b req quota defaultCPUCores defaultMemMB =
     (case body_map b of
        None \<Rightarrow> Inr b
      | Some raw \<Rightarrow>
          (let hc0 = (case sub_map (get_key raw ''HostConfig'') of None \<Rightarrow> [] | Some m \<Rightarrow> m);
               hc = inject_storage quota req (inject_memory quota defaultMemMB req (inject_cpu quota defaultCPUCores req hc0))
           in case set_key ''HostConfig'' (JObj hc) raw of
                Inl p \<Rightarrow> Inl p
              | Inr m \<Rightarrow> Inr (Doc (JObj m))))"

datatype quota_error = QuotaPanic go_panic | QuotaExceeded QuotaExceededError

definition CheckAndInjectQuota ::
  "int \<Rightarrow> body \<Rightarrow> QuotaEntry \<Rightarrow> int \<Rightarrow> OwnershipDB \<Rightarrow> rat \<Rightarrow> int \<Rightarrow> (quota_error, body) result" where
  "CheckAndInjectQuota numCPU b quota uid db defaultCPUCores defaultMemMB =
     (case containers_exceeded quota uid db of
        Some e \<Rightarrow> Inl (QuotaExceeded e)
      | None \<Rightarrow>
          (case parseContainerRequest b of
             None \<Rightarrow> Inr b
           | Some req \<Rightarrow>
               (case request_exceeded numCPU quota req of
                  Some e \<Rightarrow> Inl (QuotaExceeded e)
                | None \<Rightarrow>
                    (case injectQuotaLimits b req quota defaultCPUCores defaultMemMB of
                       Inl p \<Rightarrow> Inl (QuotaPanic p)
                     | Inr b' \<Rightarrow> Inr b'))))"

section \<open>Updates\<close>

definition update_nanos :: "int \<Rightarrow> int \<Rightarrow> int \<Rightarrow> int" where
  "update_nanos nano cpuQuota cpuPeriod =
     (if nano > 0 then nano else if cpuQuota > 0 then quota_nanos cpuQuota cpuPeriod else 0)"

definition CheckUpdateQuota :: "int \<Rightarrow> body \<Rightarrow> QuotaEntry \<Rightarrow> QuotaExceededError option" where
  "CheckUpdateQuota numCPU b quota =
     (case body_struct b of
        None \<Rightarrow> None
      | Some es \<Rightarrow>
          (case (field_int64 ''NanoCpus'' es, field_int64 ''CpuQuota'' es, field_int64 ''CpuPeriod'' es,
                 field_int64 ''Memory'' es) of
             (Some n, Some q, Some p, Some mem) \<Rightarrow>
               (case cpu_exceeded numCPU quota n q (update_nanos n q p) of
                  Some e \<Rightarrow> Some e
                | None \<Rightarrow> memory_exceeded quota mem)
           | _ \<Rightarrow> None))"

end
