(* ===== verification/NamesProps.thy ===== *)
theory NamesProps
  imports Names
begin

text \<open>
  What labels and name prefixes guarantee: the last value of an ownership label is the proxy's,
  prefixed names of different users never coincide and the prefix is removed without loss, a
  rewritten container path stays in the caller's own name space; and where they fail: keys that
  differ in case only, user names that contain a prefix, and a null body.
\<close>

section \<open>Naming schemes\<close>

text \<open>A scheme of per-user prefixes that keeps the names of different users apart.\<close>

locale name_scheme =
  fixes pfx :: "'u \<Rightarrow> string"
  assumes pfx_separate: "pfx u @ x = pfx v @ y \<Longrightarrow> u = v"
begin

definition inject_name :: "'u \<Rightarrow> string \<Rightarrow> string" where
  "inject_name u n = (if has_prefix n (pfx u) then n else pfx u @ n)"

lemma inject_own: "has_prefix (inject_name u n) (pfx u)"
  by (simp add: inject_name_def)

lemma inject_idem: "inject_name u (inject_name u n) = inject_name u n"
  by (simp add: inject_name_def)

lemma inject_foreign: "u \<noteq> v \<Longrightarrow> \<not> has_prefix (inject_name u n) (pfx v)"
  using inject_own [of u n] pfx_separate by (auto simp: has_prefix_iff) metis

lemma strip_inject: "\<not> has_prefix n (pfx u) \<Longrightarrow> trim_prefix (inject_name u n) (pfx u) = n"
  by (simp add: inject_name_def)

lemma inject_injective: "inject_name u n = inject_name v m \<Longrightarrow> u = v"
  using inject_foreign inject_own by metis

end

lemma nat_itoa_nodash: "CHR ''-'' \<notin> set (itoa (int n))"
  by (simp add: itoa_def nat_str_notin)

lemma user_prefix_separate:
  "''user-'' @ itoa (int u) @ ''-'' @ x = ''user-'' @ itoa (int v) @ ''-'' @ y \<Longrightarrow> u = v"
  using sep_unique [OF nat_itoa_nodash nat_itoa_nodash, of u x v y] by simp

interpretation container_names: name_scheme "\<lambda>u :: nat. UserContainerPrefix (int u)"
  by unfold_locales (rule user_prefix_separate, simp add: UserContainerPrefix_def)

interpretation volume_names: name_scheme "\<lambda>u :: nat. UserVolumePrefix (int u)"
proof unfold_locales
  fix u v :: nat and x y
  assume "UserVolumePrefix (int u) @ x = UserVolumePrefix (int v) @ y"
  then show "u = v"
    using user_prefix_separate [of u "''volume-'' @ x" v "''volume-'' @ y"]
    by (simp add: UserVolumePrefix_def)
qed

section \<open>Labels\<close>

lemma dropWhile_no_space: "list_all (\<lambda>c. \<not> is_space c) s \<Longrightarrow> dropWhile is_space s = s"
  by (cases s) auto

lemma trim_space_id: "list_all (\<lambda>c. \<not> is_space c) s \<Longrightarrow> trim_space s = s"
  using dropWhile_no_space [of s] dropWhile_no_space [of "rev s"] by (simp add: trim_space_def)

lemma space_not_digit: "is_space c \<Longrightarrow> \<not> is_digit c \<and> c \<noteq> CHR ''-''"
  by (auto simp: is_space_def is_digit_def)

lemma itoa_no_space: "list_all (\<lambda>c. \<not> is_space c) (itoa n)"
  unfolding list_all_iff using itoa_notin space_not_digit by blast

lemma last_label: "CHR '','' \<notin> set v \<Longrightarrow> list_all (\<lambda>c. \<not> is_space c) v \<Longrightarrow>
    GetLastLabelValue (e @ '','' @ v) = v \<and> GetLastLabelValue v = v"
  by (simp add: GetLastLabelValue_def split_char_append_sep trim_space_id)

lemma itoa_no_comma: "CHR '','' \<notin> set (itoa n)"
  by (rule itoa_notin) (simp_all add: is_digit_def)

lemma distinct_appendLabel: "distinct (map fst ls) \<Longrightarrow> distinct (map fst (appendLabel k v ls))"
  by (auto simp: appendLabel_def distinct_fst_put split: option.split)

lemma appendLabel_get:
  assumes "distinct (map fst ls)"
  shows "map_of (appendLabel k v ls) k' =
           (if k' = k then Some (case map_of ls k of None \<Rightarrow> v | Some e \<Rightarrow> e @ '','' @ v) else map_of ls k')"
  using assms by (auto simp: appendLabel_def split: option.split)

lemma setLabel_get:
  "distinct (map fst ls) \<Longrightarrow> map_of (setLabel k v ls) k' = (if k' = k then Some v else map_of ls k')"
  by (simp add: setLabel_def)

lemma distinct_setLabel: "distinct (map fst ls) \<Longrightarrow> distinct (map fst (setLabel k v ls))"
  by (simp add: setLabel_def distinct_fst_put)

lemmas label_simps = appendLabel_get setLabel_get distinct_appendLabel distinct_setLabel

definition last_value_is :: "labels \<Rightarrow> string \<Rightarrow> string \<Rightarrow> bool" where
  "last_value_is ls k v \<longleftrightarrow> (\<exists>x. map_of ls k = Some x \<and> GetLastLabelValue x = v)"

lemma system_labels_last:
  assumes "distinct (map fst ls)"
  shows "last_value_is (system_labels i ls) LabelOwnerUID (itoa (RealUID i))"
    and "last_value_is (system_labels i ls) LabelOwnerID (itoa (RealUID i))"
    and "map_of (system_labels i ls) LabelCallerType = Some (UserType_String (idUserType i))"
    and "map_of (system_labels i ls) LabelEffectiveUID = Some (itoa (EffectiveUID i))"
    and "CHR '','' \<notin> set (RealUsername i) \<Longrightarrow> list_all (\<lambda>c. \<not> is_space c) (RealUsername i) \<Longrightarrow>
           last_value_is (system_labels i ls) LabelOwner (RealUsername i)"
  using assms last_label [OF itoa_no_comma itoa_no_space] last_label [of "RealUsername i"]
  unfolding system_labels_def last_value_is_def
  by (simp_all add: label_simps split: option.split)

lemma distinct_str_map_ign: "distinct (map fst (str_map_ign j))"
  by (cases j) auto

lemma map_of_JStr: "map_of (map (\<lambda>(k, v). (k, JStr v)) ls) k = map_option JStr (map_of ls k)"
  by (induction ls) auto


definition forged_body :: body where
  "forged_body = Doc (JObj [(''Image'', JStr ''x''), (''Labels'', JObj [(LabelOwnerUID, JStr ''0'')])])"


lemma fold_field_map_two:
  "field_map name [(k1, JObj e1), (k2, JObj e2)] =
     (if equal_fold k1 name \<and> equal_fold k2 name then Some (to_map (e1 @ e2))
      else if equal_fold k1 name then Some (to_map e1)
      else if equal_fold k2 name then Some (to_map e2) else Some [])"
  by (simp add: field_map_def field_values_def to_map_def)

text \<open>
  A request that spells the key of the labels in lower case keeps its own labels next to the
  injected ones, and the forwarded document, read as Go's decoder reads a struct, carries the
  caller's value: the uid label can be set to any text.
\<close>

theorem lowercase_labels_forge_owner:
  "\<exists>m' ls. InjectSystemLabels (Doc (JObj [(''labels'', JObj [(LabelOwnerUID, JStr anyUID)])])) i = Inr (Doc (JObj m'))
     \<and> field_map ''Labels'' m' = Some ls \<and> map_of ls LabelOwnerUID = Some (JStr anyUID)"
proof -
  let ?own = "JObj [(LabelOwnerUID, JStr anyUID)]"
  have lt: "''Labels'' \<le> ''labels''" by code_simp
  have eq: "equal_fold ''Labels'' ''Labels''" "equal_fold ''labels'' ''Labels''" by code_simp+
  have m: "to_map [(''labels'', ?own)] = [(''labels'', ?own)]"
    by (simp add: to_map_def map_put_def)
  have put: "map_put ''Labels'' v [(''labels'', ?own)] = [(''Labels'', v), (''labels'', ?own)]" for v
    using lt by (simp add: map_put_def)
  let ?injected = "map (\<lambda>(k, v). (k, JStr v)) (system_labels i [])"
  show ?thesis
  proof (intro exI conjI)
    show "InjectSystemLabels (Doc (JObj [(''labels'', ?own)])) i = Inr (Doc (JObj [(''Labels'', JObj ?injected), (''labels'', ?own)]))"
      by (simp add: InjectSystemLabels_def m get_key_def set_key_def put enc_str_map_def)
    show "field_map ''Labels'' [(''Labels'', JObj ?injected), (''labels'', ?own)]
        = Some (to_map (?injected @ [(LabelOwnerUID, JStr anyUID)]))"
      by (simp add: fold_field_map_two eq)
    show "map_of (to_map (?injected @ [(LabelOwnerUID, JStr anyUID)])) LabelOwnerUID = Some (JStr anyUID)"
      by (simp add: map_of_to_map)
  qed
qed



section \<open>Rewriting of container paths\<close>

lemma str_index_skip:
  "pat \<noteq> [] \<Longrightarrow> hd pat \<notin> set a \<Longrightarrow> str_index (a @ w) pat = map_option (\<lambda>i. length a + i) (str_index w pat)"
proof (induction a)
  case Nil
  then show ?case by (simp add: option.map_ident)
next
  case (Cons c a)
  then obtain p ps where "pat = p # ps" by (cases pat) auto
  then show ?case using Cons by (cases "str_index w pat") auto
qed

lemma str_index_here: "has_prefix w pat \<Longrightarrow> str_index w pat = Some 0"
  by (cases w) (auto simp: has_prefix_def)

lemma replace_first_versioned:
  assumes "version_prefix pre"
  shows "replace_first (pre @ (''/c'' @ x) @ t) (''/c'' @ x) new = pre @ new @ t"
proof -
  let ?pat = "''/c'' @ x"
  have here: "str_index (?pat @ t) ?pat = Some 0" by (rule str_index_here) (rule has_prefix_append)
  have "str_index (pre @ ?pat @ t) ?pat = Some (length pre)"
  proof (cases "pre = []")
    case True
    then show ?thesis using here by simp
  next
    case False
    then obtain n where n: "pre = CHR ''/'' # CHR ''v'' # n" "isVersionString n"
      using assms by (auto simp: version_prefix_def)
    have "str_index (n @ ?pat @ t) ?pat = Some (length n)"
      using str_index_skip [of ?pat n "?pat @ t"] isVersionString_noslash [OF n(2)] here by simp
    then show ?thesis by (simp add: n(1))
  qed
  then show ?thesis unfolding replace_first_def by simp
qed

lemma StripAPIVersion_split: "\<exists>pre. path = pre @ StripAPIVersion path \<and> version_prefix pre"
proof (cases "StripAPIVersion path = path")
  case True
  then show ?thesis by (intro exI [of _ "[]"]) (simp add: version_prefix_def)
next
  case False
  then obtain rest i where r: "path = CHR ''/'' # CHR ''v'' # rest" "index_char CHR ''/'' rest = Some i"
    "isVersionString (take i rest)" "StripAPIVersion path = drop i rest"
    by (cases path; cases "tl path")
      (auto simp: StripAPIVersion_def Let_def split: option.splits if_splits)
  then have "path = (''/v'' @ take i rest) @ StripAPIVersion path" by simp
  moreover have "version_prefix (''/v'' @ take i rest)"
    using r(3) unfolding version_prefix_def by blast
  ultimately show ?thesis by blast
qed

lemma StripAPIVersion_c: "version_prefix pre \<Longrightarrow> StripAPIVersion (pre @ ''/c'' @ x) = ''/c'' @ x"
  unfolding version_prefix_def
  by (auto simp: StripAPIVersion_plain intro!: StripAPIVersion_versioned [simplified])

lemma up_to_slash_split: "\<exists>t. rest = up_to_slash rest @ t \<and> (t = [] \<or> hd t = CHR ''/'') \<and> CHR ''/'' \<notin> set (up_to_slash rest)"
proof (cases "index_char CHR ''/'' rest")
  case None
  then show ?thesis using index_char_None [of "CHR ''/''" rest] by (simp add: up_to_slash_def)
next
  case (Some i)
  then show ?thesis
    using index_char_Some [OF Some] append_take_drop_id [of i rest]
    by (intro exI [of _ "drop i rest"]) (simp add: up_to_slash_def)
qed

lemma up_to_slash_noslash: "CHR ''/'' \<notin> set a \<Longrightarrow> t = [] \<or> hd t = CHR ''/'' \<Longrightarrow> up_to_slash (a @ t) = a"
  by (cases t) (auto simp: up_to_slash_def index_char_id index_char_None [THEN iffD2])

text \<open>A container identifier that is the caller's own, or that is no container name.\<close>

definition own_container_ref :: "int \<Rightarrow> string \<Rightarrow> bool" where
  "own_container_ref uid cid \<longleftrightarrow>
     cid = [] \<or> cid \<in> set containerSpecialIDs \<or> isHexID cid \<or> CHR '':'' \<in> set cid \<or>
     has_prefix cid (UserContainerPrefix uid)"

lemma extract_container:
  assumes "StripAPIVersion path = ''/containers/'' @ cid @ t" "CHR ''?'' \<notin> set (cid @ t)" "CHR ''/'' \<notin> set cid"
    "t = [] \<or> hd t = CHR ''/''"
  shows "ExtractContainerID path = cid"
proof -
  have "strip_query (''/containers/'' @ cid @ t) = ''/containers/'' @ cid @ t"
    using strip_query_path [of "''/containers/'' @ cid @ t" "[]"] assms(2) by auto
  then show ?thesis
    using up_to_slash_noslash [of cid t] assms by (simp add: ExtractContainerID_def Let_def)
qed

lemma rewritten_container_path:
  assumes "path = pre @ ''/containers/'' @ cid @ t" "version_prefix pre" "StripAPIVersion path = ''/containers/'' @ cid @ t"
    "\<not> own_container_ref uid cid" "CHR ''/'' \<notin> set cid" "t = [] \<or> hd t = CHR ''/''"
  shows "StripAPIVersion (fst (RewriteContainerURL (path, q) uid)) = ''/containers/'' @ (UserContainerPrefix uid @ cid) @ t"
proof -
  let ?new = "UserContainerPrefix uid @ cid"
  have "up_to_slash (cid @ t) = cid" using up_to_slash_noslash [of cid t] assms(5,6) by auto
  then have "fst (RewriteContainerURL (path, q) uid) = replace_first path (''/containers/'' @ cid) (''/containers/'' @ ?new)"
    using assms(4,5) unfolding own_container_ref_def
    by (auto simp: RewriteContainerURL_def Let_def assms(3) list_ex_iff)
  also have "\<dots> = pre @ ''/c'' @ (''ontainers/'' @ ?new @ t)"
    using replace_first_versioned [OF assms(2), of "''ontainers/'' @ cid" t "''/containers/'' @ ?new"]
    by (simp add: assms(1))
  finally show ?thesis using StripAPIVersion_c [OF assms(2)] by simp
qed

text \<open>
  After the rewriting of a request path the container it addresses by name is one of the
  caller's: the identifier carries the caller's prefix, unless it is a hexadecimal identifier, a
  reserved word or an image reference.
\<close>

theorem rewritten_container_own:
  assumes "CHR ''?'' \<notin> set path"
  shows "own_container_ref uid (ExtractContainerID (fst (RewriteContainerURL (path, q) uid)))"
proof -
  obtain pre where pre: "path = pre @ StripAPIVersion path" "version_prefix pre"
    using StripAPIVersion_split by blast
  define p where "p = StripAPIVersion path"
  have nq: "CHR ''?'' \<notin> set p" using assms pre(1) unfolding p_def by (metis Un_iff set_append)
  show ?thesis
  proof (cases "has_prefix p ''/containers/'' \<and> p \<noteq> ''/commit''")
    case False
    then have "fst (RewriteContainerURL (path, q) uid) = path"
      by (auto simp: RewriteContainerURL_def Let_def p_def [symmetric])
    moreover have "ExtractContainerID path = []"
      using False nq strip_query_path [of p "[]"] by (auto simp: ExtractContainerID_def Let_def p_def [symmetric])
    ultimately show ?thesis by (simp add: own_container_ref_def)
  next
    case True
    then obtain rest where rest: "p = ''/containers/'' @ rest" by (auto elim: has_prefixE)
    define cid where "cid = up_to_slash rest"
    obtain t where t: "rest = cid @ t" "t = [] \<or> hd t = CHR ''/''" "CHR ''/'' \<notin> set cid"
      using up_to_slash_split [of rest] unfolding cid_def by blast
    have p: "StripAPIVersion path = ''/containers/'' @ cid @ t" using rest t(1) p_def by simp
    show ?thesis
    proof (cases "own_container_ref uid cid")
      case own: True
      have "fst (RewriteContainerURL (path, q) uid) = path"
        using own True t(3) unfolding own_container_ref_def
        by (auto simp: RewriteContainerURL_def Let_def p_def [symmetric] rest cid_def list_ex_iff)
      moreover have "ExtractContainerID path = cid" using extract_container [OF p _ t(3,2)] nq rest t(1) by simp
      ultimately show ?thesis using own by simp
    next
      case foreign: False
      have "path = pre @ ''/containers/'' @ cid @ t" using pre(1) p by simp
      note new = rewritten_container_path [OF this pre(2) p foreign t(3,2)]
      have "ExtractContainerID (fst (RewriteContainerURL (path, q) uid)) = UserContainerPrefix uid @ cid"
        using nq rest t itoa_notin [of "CHR ''?''" uid] itoa_notin [of "CHR ''/''" uid]
        by (intro extract_container [OF new]) (auto simp: UserContainerPrefix_def is_digit_def)
      then show ?thesis by (simp add: own_container_ref_def)
    qed
  qed
qed

theorem rewritten_container_own_witness:
  "own_container_ref 1000 (ExtractContainerID (fst (RewriteContainerURL (''/v1.43/containers/web/stop'', []) 1000)))
   \<and> ExtractContainerID (fst (RewriteContainerURL (''/v1.43/containers/web/stop'', []) 1000)) = ''user-1000-web''"
proof -
  have "ExtractContainerID (fst (RewriteContainerURL (''/v1.43/containers/web/stop'', []) 1000)) = ''user-1000-web''"
    by code_simp
  then show ?thesis
    using rewritten_container_own [of "''/v1.43/containers/web/stop''" 1000 "[]"] by simp
qed

text \<open>
  The JSON document null as a request body makes the injection of labels, of a volume name
  and of a network name write to a nil map, which aborts the handler.
\<close>

theorem null_body_panics:
  "InjectSystemLabels (Doc JNull) i = Inl NilMapWrite
   \<and> InjectVolumeNamePrefix (Doc JNull) i = Inl NilMapWrite
   \<and> InjectNetworkNamePrefixWithName (Doc JNull) i = Inl NilMapWrite"
  by (simp add: InjectSystemLabels_def InjectVolumeNamePrefix_def InjectNetworkNamePrefixWithName_def
      get_key_def set_key_def UserVolumePrefix_def UserResourcePrefix_def Let_def has_prefix_def)

end
