(* ===== verification/OwnershipProps.thy ===== *)
theory OwnershipProps
  imports Ownership
begin

text \<open>
  What the ownership database promises: the state invariant over every run, the history of
  owners, the rules on images (who may use and see them, and what a pull changes), exclusive host
  ports, symmetric peerings, and that a failing statement never grants anything.
\<close>

text \<open>
  In every state the database can reach, by any sequence of its writing methods and with any
  statement failing along the way, every key of the schema is unique (in particular no host port
  and protocol has two holders), peerings are stored with the smaller uid first, and the privilege
  marks of containers and image references are 0 or 1.
\<close>

theorem database_invariant:
  assumes "db_reachable db"
  shows "keys_inv db \<and> data_inv db
       \<and> (\<forall>m1 m2. m1 \<in> set (tPorts db) \<and> m2 \<in> set (tPorts db) \<and> HostPort m1 = HostPort m2
            \<and> Protocol m1 = Protocol m2 \<longrightarrow> m1 = m2)"
proof -
  have "unique_key port_key (tPorts db)"
    using reachable_inv(1) [OF assms] by (simp add: keys_inv_def)
  then show ?thesis
    using reachable_inv [OF assms] by (auto dest: unique_key_eq simp: port_key_def)
qed

definition demo_port :: "int \<Rightarrow> PortMappingInfo" where
  "demo_port uid = \<lparr>HostPort = 8080, Protocol = ''tcp'', ContainerPort = 80, pmContainerID = ''c1'',
     pmOwnerUID = uid, pmOwnerUsername = ''alice''\<rparr>"

definition fresh_db :: OwnershipDB where
  "fresh_db = emptyDB (\<lambda>_ _. False)"

theorem database_invariant_witness:
  "keys_inv (snd (AddPortMappings [demo_port 1000] fresh_db))"
  using database_invariant [OF reachable_step [OF reachable_empty db_step.intros(15)]]
  unfolding fresh_db_def by blast

fun container_op :: "(string, CallerIdentity \<times> string) store_op \<Rightarrow> OwnershipDB \<Rightarrow> OwnershipDB" where
  "container_op (Put k v) db = snd (SetContainerOwner k (fst v) (snd v) db)"
| "container_op (Del k) db = snd (DeleteContainer k db)"

fun network_op :: "(string, CallerIdentity \<times> string) store_op \<Rightarrow> OwnershipDB \<Rightarrow> OwnershipDB" where
  "network_op (Put k v) db = snd (SetNetworkOwner k (snd v) (fst v) db)"
| "network_op (Del k) db = snd (DeleteNetwork k db)"

fun volume_op :: "(string, CallerIdentity) store_op \<Rightarrow> OwnershipDB \<Rightarrow> OwnershipDB" where
  "volume_op (Put k v) db = snd (SetVolumeOwner k v db)"
| "volume_op (Del k) db = snd (DeleteVolume k db)"

definition owner_info :: "CallerIdentity \<Rightarrow> int \<Rightarrow> OwnerInfo" where
  "owner_info i gid = \<lparr>oiUsername = RealUsername i, oiUID = RealUID i, oiGID = gid, oiSource = []\<rparr>"

lemma container_op_exec: "container_op = containers.exec"
  by (intro ext, rename_tac oper db, case_tac oper) simp_all

lemma network_op_exec: "network_op = networks.exec"
  by (intro ext, rename_tac oper db, case_tac oper) simp_all

lemma volume_op_exec: "volume_op = volumes.exec"
  by (intro ext, rename_tac oper db, case_tac oper) simp_all

text \<open>
  C15. The owner look-ups of containers, networks and volumes follow the history of the database:
  after any sequence of recorded creations and deletions they agree with the map on which the same
  sequence was performed, so that the owner of an object is the caller who recorded it last.
\<close>

theorem owner_history_refines_map:
  assumes "no_faults db"
  shows "GetContainerOwner (fold container_op ops db) =
           fold (store_spec (\<lambda>v. owner_info (fst v) (RealGID (fst v)))) ops (GetContainerOwner db)
       \<and> GetNetworkOwner (fold network_op nops db) =
           fold (store_spec (\<lambda>v. owner_info (fst v) 0)) nops (GetNetworkOwner db)
       \<and> GetVolumeOwner (fold volume_op vops db) =
           fold (store_spec (\<lambda>v. owner_info v 0)) vops (GetVolumeOwner db)"
  using assms unfolding container_op_exec network_op_exec volume_op_exec no_faults_def owner_info_def
  by (simp_all add: containers.get_history networks.get_history volumes.get_history)

theorem owner_history_refines_map_witness:
  "GetContainerOwner (fold container_op [Put ''c1'' (demo_identity, ''img''), Del ''c2''] fresh_db) ''c1''
     = Some (owner_info demo_identity 100)"
proof -
  have "no_faults fresh_db" by (simp add: no_faults_def fresh_db_def emptyDB_def)
  then show ?thesis
    using owner_history_refines_map [of fresh_db "[Put ''c1'' (demo_identity, ''img''), Del ''c2'']"]
    by (simp add: demo_identity_def)
qed

text \<open>
  An image that the list of a user shows can also be used by that user: in every reachable
  state visibility implies the permission to use.
\<close>

theorem visible_image_usable:
  assumes "db_reachable db" and "no_faults db" and "CanSeeImage db uid iid"
  shows "CanUseImage db uid iid"
proof -
  have ne: "resolveImageIDInDB db iid \<noteq> []"
    using assms(3) by (auto simp: CanSeeImage_def)
  obtain r where r: "r \<in> set (tImages db)" "iId r = resolveImageIDInDB db iid"
    using resolve_row [OF assms(2) ne] .
  note k = assms(2) reachable_inv(1) [OF assms(1)] r(1) r(2) [symmetric]
  show ?thesis
    using assms(3) CanSeeImage_resolved [OF k] CanUseImage_resolved [OF k] ne r(2) by auto
qed

definition demo_images :: OwnershipDB where
  "demo_images = snd (SetImageOwner ''sha256:abc'' (demo_identity \<lparr>idUserType := UserTypeRegular\<rparr>)
     False ''pull'' fresh_db)"

lemma demo_images_reachable: "db_reachable demo_images" "no_faults demo_images"
proof -
  show "db_reachable demo_images"
    unfolding demo_images_def fresh_db_def
    by (rule reachable_step [OF reachable_empty db_step.intros(3)])
  show "no_faults demo_images"
    by (simp add: demo_images_def fresh_db_def emptyDB_def no_faults_def SetImageOwner_def
        exec_stmt_def Let_def)
qed

theorem visible_image_usable_witness: "CanUseImage demo_images 1000 ''sha256:abc''"
proof -
  have "CanSeeImage demo_images 1000 ''sha256:abc''" by code_simp
  then show ?thesis using visible_image_usable [OF demo_images_reachable] by blast
qed

text \<open>The rows a recorded image writes.\<close>

definition image_entry :: "string \<Rightarrow> CallerIdentity \<Rightarrow> bool \<Rightarrow> string \<Rightarrow> image_row" where
  "image_entry iid i pub src =
     \<lparr>iId = normalizeImageID iid, iOwnerUsername = RealUsername i, iOwnerUID = RealUID i,
      iOwnerGID = RealGID i, iPublic = (if pub then 1 else 0), iPrivCtx = priv_ctx i, iSource = src\<rparr>"

definition access_entry :: "string \<Rightarrow> CallerIdentity \<Rightarrow> image_access_row" where
  "access_entry iid i = \<lparr>aImageID = normalizeImageID iid, aUserUID = RealUID i, aPrivCtx = priv_ctx i\<rparr>"

definition lower_access :: "CallerIdentity \<Rightarrow> image_access_row \<Rightarrow> image_access_row" where
  "lower_access i r = r \<lparr>aPrivCtx := min (aPrivCtx r) (priv_ctx i)\<rparr>"

lemma SetImageOwner_effect:
  assumes "no_faults db" "SetImageOwner iid i pub src db = (None, db')"
  shows "tImages db' = upsert iId (take_over (image_entry iid i pub src)) (image_entry iid i pub src) (tImages db)"
    and "tImageAccess db' = upsert image_key (lower_access i) (access_entry iid i) (tImageAccess db)"
    and "dbFault db' = dbFault db" and "no_faults db'" and "db_step db db'"
proof -
  show "db_step db db'" using db_step.intros(3) [of db iid i pub src] assms(2) by simp
  have la: "(\<lambda>r. r \<lparr>aPrivCtx := min (aPrivCtx r) (priv_ctx i)\<rparr>) = lower_access i"
    by (rule ext) (simp add: lower_access_def)
  show "tImages db' = upsert iId (take_over (image_entry iid i pub src)) (image_entry iid i pub src) (tImages db)"
    "tImageAccess db' = upsert image_key (lower_access i) (access_entry iid i) (tImageAccess db)"
    "dbFault db' = dbFault db" "no_faults db'"
    using assms by (auto simp: SetImageOwner_def exec_stmt_def no_faults_def Let_def image_entry_def
        access_entry_def la)
qed

lemma image_entry_simps [simp]:
  "iId (image_entry iid i pub src) = normalizeImageID iid" "iOwnerUID (image_entry iid i pub src) = RealUID i"
  by (simp_all add: image_entry_def)

lemma image_key_simps [simp]:
  "image_key (access_entry iid i) = (normalizeImageID iid, RealUID i)" "image_key (lower_access i r) = image_key r"
  by (simp_all add: image_key_def access_entry_def lower_access_def)

text \<open>
  After a caller's pull, build, load, import or commit has been recorded, the caller can use
  the image, and a caller without sudo also sees it in lists, whoever owned the image before.
\<close>

theorem recorded_image_usable:
  assumes "db_reachable db" and "no_faults db" and "normalizeImageID iid \<noteq> []"
    and "SetImageOwner iid i pub src db = (None, db')"
  shows "CanUseImage db' (RealUID i) iid \<and> (\<not> IsSudoCommand i \<longrightarrow> CanSeeImage db' (RealUID i) iid)"
proof -
  let ?n = "normalizeImageID iid"
  note eff = SetImageOwner_effect [OF assms(2,4)]
  note inv = reachable_inv [OF assms(1)] reachable_inv [OF reachable_step [OF assms(1) eff(5)]]
  note nf = eff(4)
  obtain r where r: "r \<in> set (tImages db')" "iId r = ?n"
    using upsert_row [of iId "take_over (image_entry iid i pub src)" "image_entry iid i pub src" "tImages db"]
    by (auto simp: eff(1) iId_take_over)
  then have res: "resolveImageIDInDB db' iid = iId r"
    using nf resolve_exact [of db' iid r] find_unique [of iId "tImages db'" r] inv(3)
    by (simp add: no_faults_def keys_inv_def)
  obtain a where a: "a \<in> set (tImageAccess db')" "image_key a = (?n, RealUID i)"
    "a = access_entry iid i \<or> (\<exists>a' \<in> set (tImageAccess db). a = lower_access i a')"
    using upsert_row [of image_key "lower_access i" "access_entry iid i" "tImageAccess db"]
    by (auto simp: eff(2))
  have key: "aImageID a = ?n" "aUserUID a = RealUID i"
    using a(2) by (auto simp: image_key_def)
  have "\<not> IsSudoCommand i \<Longrightarrow> aPrivCtx a = 0"
    using a(3) inv(2) by (auto simp: access_entry_def lower_access_def priv_ctx_def data_inv_def)
  then show ?thesis
    using a(1) key r assms(3)
      CanUseImage_resolved [OF nf inv(3) r(1) res] CanSeeImage_resolved [OF nf inv(3) r(1) res]
    by (auto simp: r(2))
qed

theorem recorded_image_usable_witness:
  "CanUseImage demo_images 1000 ''sha256:abc'' \<and> CanSeeImage demo_images 1000 ''sha256:abc''"
proof -
  let ?i = "demo_identity \<lparr>idUserType := UserTypeRegular\<rparr>"
  have nf: "no_faults fresh_db" by (simp add: no_faults_def fresh_db_def emptyDB_def)
  have ok: "SetImageOwner ''sha256:abc'' ?i False ''pull'' fresh_db = (None, demo_images)"
    using nf unfolding demo_images_def by (simp add: SetImageOwner_def exec_stmt_def Let_def no_faults_def)
  have "normalizeImageID ''sha256:abc'' \<noteq> []" by code_simp
  then have "CanUseImage demo_images (RealUID ?i) ''sha256:abc''
     \<and> (\<not> IsSudoCommand ?i \<longrightarrow> CanSeeImage demo_images (RealUID ?i) ''sha256:abc'')"
    using recorded_image_usable [OF _ nf _ ok] reachable_empty by (simp add: fresh_db_def)
  then show ?thesis by (simp add: IsSudoCommand_def demo_identity_def)
qed

text \<open>
  Recording an image that the database already knows extends nobody else's rights: a user who
  may use the image afterwards and is not the caller could use it before, and it does not become
  public.
\<close>

theorem recorded_image_grants_no_other:
  assumes "db_reachable db" and "no_faults db" and "normalizeImageID iid \<noteq> []"
    and "SetImageOwner iid i pub src db = (None, db')"
    and "r0 \<in> set (tImages db)" and "iId r0 = normalizeImageID iid"
    and "u \<noteq> RealUID i" and "CanUseImage db' u iid"
  shows "CanUseImage db u iid"
proof -
  let ?n = "normalizeImageID iid"
  note eff = SetImageOwner_effect [OF assms(2,4)]
  note inv = reachable_inv [OF assms(1)] reachable_inv [OF reachable_step [OF assms(1) eff(5)]]
  note nf = eff(4)
  have ex: "list_ex (\<lambda>r. iId r = ?n) (tImages db)"
    using assms(5,6) by (auto simp: list_ex_iff)
  have r1: "take_over (image_entry iid i pub src) r0 \<in> set (tImages db')" (is "?r1 \<in> _")
    using assms(5,6) ex by (auto simp: eff(1) upsert_def image_iff intro!: bexI [of _ r0])
  have res: "resolveImageIDInDB db iid = iId r0" "resolveImageIDInDB db' iid = iId ?r1"
    using assms(2,5,6) nf r1 inv(1,3) find_unique [of iId "tImages db" r0]
      find_unique [of iId "tImages db'" ?r1] resolve_exact [of db iid r0] resolve_exact [of db' iid ?r1]
    by (simp_all add: no_faults_def keys_inv_def iId_take_over)
  have acc_same: "a \<in> set (tImageAccess db') \<longleftrightarrow> a \<in> set (tImageAccess db)" if "aUserUID a = u" for a
    unfolding eff(2) using that assms(7) by (intro set_upsert_other) (auto simp: image_key_def [of a])
  have "iPublic ?r1 = iPublic r0" "iOwnerUID ?r1 = u \<Longrightarrow> iOwnerUID r0 = u"
    using assms(7) by (auto simp: take_over_def split: if_splits)
  then show ?thesis
    using assms(3,6,8) acc_same
      CanUseImage_resolved [OF assms(2) inv(1) assms(5) res(1)] CanUseImage_resolved [OF nf inv(3) r1 res(2)]
    by (auto simp: iId_take_over)
qed

definition bob :: CallerIdentity where
  "bob = demo_identity \<lparr>RealUID := 1001, RealUsername := ''bob'', idUserType := UserTypeRegular\<rparr>"

text \<open>In the witness bob pulls the image that alice has pulled; alice could use it before.\<close>

theorem recorded_image_grants_no_other_witness:
  "CanUseImage demo_images 1000 ''abc'' \<and> \<not> CanUseImage demo_images 1001 ''abc''
   \<and> CanUseImage (snd (SetImageOwner ''abc'' bob False ''pull'' demo_images)) 1001 ''abc''"
proof -
  let ?db' = "snd (SetImageOwner ''abc'' bob False ''pull'' demo_images)"
  have ok: "SetImageOwner ''abc'' bob False ''pull'' demo_images = (None, ?db')"
    using demo_images_reachable(2) by (simp add: SetImageOwner_def exec_stmt_def Let_def no_faults_def)
  obtain r0 where r0: "tImages demo_images = [r0]" "iId r0 = ''abc''"
    by (simp add: demo_images_def fresh_db_def emptyDB_def SetImageOwner_def exec_stmt_def Let_def
        upsert_def normalizeImageID_def trim_prefix_def)
  have "normalizeImageID ''abc'' = ''abc''" by code_simp
  moreover have "CanUseImage ?db' 1000 ''abc''" by code_simp
  ultimately have "CanUseImage demo_images 1000 ''abc''"
    using recorded_image_grants_no_other [OF demo_images_reachable _ ok, of r0 1000] r0
    by (simp add: bob_def)
  moreover have "\<not> CanUseImage demo_images 1001 ''abc''" "CanUseImage ?db' 1001 ''abc''" by code_simp+
  ultimately show ?thesis by blast
qed

text \<open>
  Recording host ports: on success all of them are appended and none was held before; on a
  conflict the error names the actual holder of the port, and the mappings before the conflicting
  one stay recorded.
\<close>

theorem port_mappings_recorded:
  assumes "no_faults db"
  shows "case AddPortMappings ms db of
           (None, db') \<Rightarrow> db' = db \<lparr>tPorts := tPorts db @ ms\<rparr>
         | (Some e, db') \<Rightarrow>
             \<exists>pre m post r. ms = pre @ m # post \<and> db' = db \<lparr>tPorts := tPorts db @ pre\<rparr>
               \<and> r \<in> set (tPorts db @ pre) \<and> HostPort r = HostPort m \<and> Protocol r = Protocol m
               \<and> e = \<lparr>pcHostPort = HostPort m, pcProtocol = Protocol m, ExistingContainer = pmContainerID r,
                      ExistingOwner = pmOwnerUsername r, ExistingOwnerUID = pmOwnerUID r\<rparr>"
  using add_ports_ok [of 0 ms db] add_ports_fail [OF assms, of 0 ms]
  by (cases "add_ports 0 ms db") (auto simp: AddPortMappings_def split: option.split)

theorem port_mappings_recorded_witness:
  "case AddPortMappings [demo_port 1000, demo_port 1001] fresh_db of
     (None, _) \<Rightarrow> False
   | (Some e, db') \<Rightarrow> ExistingOwnerUID e = 1000 \<and> tPorts db' = [demo_port 1000]"
proof -
  have nf: "no_faults fresh_db" by (simp add: no_faults_def fresh_db_def emptyDB_def)
  obtain e db' where r: "AddPortMappings [demo_port 1000, demo_port 1001] fresh_db = (Some e, db')"
    by (simp add: AddPortMappings_def fresh_db_def emptyDB_def insert_unique_def demo_port_def port_key_def)
  have "ExistingOwnerUID (the (fst (AddPortMappings [demo_port 1000, demo_port 1001] fresh_db))) = 1000"
    by code_simp
  moreover have "tPorts db' = [demo_port 1000]"
    using port_mappings_recorded [OF nf, of "[demo_port 1000, demo_port 1001]"] r
    by (auto simp: fresh_db_def emptyDB_def Cons_eq_append_conv)
  ultimately show ?thesis using r by simp
qed

text \<open>
  A peering does not depend on the order of the two users: recording it from either side gives
  the same database, it is found from both sides, and removing the pair leaves no peering, neither
  of users nor of containers, between them.
\<close>

theorem network_peers_symmetric:
  assumes "no_faults db" and "a \<noteq> b"
  shows "AddNetworkPeer a b net ca cb db = AddNetworkPeer b a net cb ca db
       \<and> (\<exists>p. GetContainerPeer (snd (AddNetworkPeer a b net ca cb db)) a b ca cb = Some p
             \<and> GetContainerPeer (snd (AddNetworkPeer a b net ca cb db)) b a cb ca = Some p
             \<and> PeerNetworkID p = net)
       \<and> (\<forall>x y. GetContainerPeer (snd (RemoveNetworkPeer a b [] [] db)) b a x y = None)"
proof (intro conjI allI)
  have o: "order_peer a b ca cb = order_peer b a cb ca"
    using assms(2) by (auto simp: order_peer_def)
  show "AddNetworkPeer a b net ca cb db = AddNetworkPeer b a net cb ca db"
    by (simp add: AddNetworkPeer_def o)
  obtain ua ub xa xb where k: "order_peer a b ca cb = (ua, ub, xa, xb)"
    by (cases "order_peer a b ca cb") auto
  let ?p = "\<lparr>UidA = ua, UidB = ub, PeerNetworkID = net, ContainerIDA = xa, ContainerIDB = xb\<rparr>"
  have "find (\<lambda>p. peer_key p = (ua, ub, xa, xb)) (insert_or_replace peer_key ?p (tPeers db)) = Some ?p"
    using find_replace_same [of peer_key ?p "tPeers db"] by (simp add: peer_key_def)
  then show "\<exists>p. GetContainerPeer (snd (AddNetworkPeer a b net ca cb db)) a b ca cb = Some p
      \<and> GetContainerPeer (snd (AddNetworkPeer a b net ca cb db)) b a cb ca = Some p \<and> PeerNetworkID p = net"
    using assms(1) k o by (simp add: GetContainerPeer_def AddNetworkPeer_def stmt_defs no_faults_def)
  fix x y
  have "order_peer a b [] [] = (ua, ub, [], [])" "\<exists>x' y'. order_peer b a x y = (ua, ub, x', y')"
    using k by (auto simp: order_peer_def split: if_splits)
  then show "GetContainerPeer (snd (RemoveNetworkPeer a b [] [] db)) b a x y = None"
    using assms(1)
    by (auto simp: GetContainerPeer_def RemoveNetworkPeer_def stmt_defs no_faults_def Let_def
        peer_selected_def peer_key_def delete_where_def intro!: find_none)
qed

theorem network_peers_symmetric_witness:
  "AddNetworkPeer 1001 1000 ''n'' ''x'' ''y'' fresh_db = AddNetworkPeer 1000 1001 ''n'' ''y'' ''x'' fresh_db"
proof -
  have nf: "no_faults fresh_db" by (simp add: no_faults_def fresh_db_def emptyDB_def)
  show ?thesis using network_peers_symmetric [OF nf, of 1001 1000 "''n''" "''x''" "''y''"] by simp
qed



text \<open>
  Grants of volumes-from: after a grant the grantee (or everybody, for the grantee -1) may use
  the container's volumes; after all grants of a container are revoked nobody may, and other
  containers are not affected.
\<close>

theorem volumes_from_grants:
  assumes "no_faults db"
  shows "(uid = grantee \<or> grantee = -1 \<longrightarrow>
            CanVolumesFrom (snd (GrantVolumesFrom cid grantee who db)) cid uid = Inr True)
       \<and> CanVolumesFrom (snd (RevokeVolumesFrom cid (-999) db)) cid uid = Inr False
       \<and> (other \<noteq> cid \<longrightarrow>
            CanVolumesFrom (snd (GrantVolumesFrom cid grantee who db)) other uid = CanVolumesFrom db other uid
          \<and> CanVolumesFrom (snd (RevokeVolumesFrom cid grantee db)) other uid = CanVolumesFrom db other uid)"
  using assms
  by (auto simp: CanVolumesFrom_def GrantVolumesFrom_def RevokeVolumesFrom_def stmt_defs no_faults_def
      count_where_pos insert_or_replace_def delete_where_def grant_key_def)

theorem volumes_from_grants_witness:
  "CanVolumesFrom (snd (GrantVolumesFrom ''c1'' (-1) 0 fresh_db)) ''c1'' 1000 = Inr True"
proof -
  have nf: "no_faults fresh_db" by (simp add: no_faults_def fresh_db_def emptyDB_def)
  show ?thesis using volumes_from_grants [OF nf, of 1000 "-1" "''c1''" 0] by simp
qed

end
