(* ===== verification/FilterProps.thy ===== *)
theory FilterProps
  imports ListFilter NamesProps OwnershipProps
begin

text \<open>
  What the list filters guarantee.  The locale \<open>ownership_reader\<close> is the contract of the
  interface \<^verbatim>\<open>OwnershipReader\<close> for one kind of resource: the query returns exactly what the
  user owns.  It is interpreted on the queries of the ownership database, and the exactness of the
  filters rests on it.
\<close>

section \<open>The contract of the reader\<close>

text \<open>Two identifiers agree when one is the other or their first twelve characters are the same.\<close>

definition same_id :: "string \<Rightarrow> string \<Rightarrow> bool" where
  "same_id i x \<longleftrightarrow> i = x \<or> (12 \<le> length x \<and> i = take 12 x) \<or> (12 \<le> length i \<and> take 12 i = x)
     \<or> (12 \<le> length i \<and> 12 \<le> length x \<and> take 12 i = take 12 x)"

lemma id_owned_iff: "id_owned ids i \<longleftrightarrow> (\<exists>x \<in> set ids. same_id i x)"
  by (auto simp: id_owned_def id_set_def same_id_def)

locale ownership_reader =
  fixes ids :: "int \<Rightarrow> string list query"
    and owns :: "int \<Rightarrow> string \<Rightarrow> bool"
  assumes ids_exact: "ids uid = Inr xs \<Longrightarrow> x \<in> set xs \<longleftrightarrow> owns uid x"
begin

lemma owned_iff: "ids uid = Inr xs \<Longrightarrow> id_owned xs i \<longleftrightarrow> (\<exists>x. owns uid x \<and> same_id i x)"
  using ids_exact by (auto simp: id_owned_iff)

text \<open>The common body of the swarm filters keeps exactly the owned elements, in order.\<close>

lemma id_list_exact:
  assumes "ids uid = Inr xs" "body_list b = Some items"
  shows "filter_id_list ids b uid False =
    (Doc (JArr (filter (\<lambda>raw. \<exists>i. item_str ''ID'' raw = Some i \<and> owns uid i) items)), None)"
proof -
  have "(case item_str ''ID'' raw of None \<Rightarrow> False | Some i \<Rightarrow> i \<in> set xs) \<longleftrightarrow>
      (\<exists>i. item_str ''ID'' raw = Some i \<and> owns uid i)" for raw
    using ids_exact [OF assms(1)] by (cases "item_str ''ID'' raw") auto
  then show ?thesis by (simp add: filter_id_list_def assms)
qed

lemma id_list_result:
  assumes "body_list b = Some items" "ids uid = (if f then Inl e else Inr xs)"
  shows "filter_id_list ids b uid False =
    (if f then (emptyJSONArray, Some (QueryError e))
     else (Doc (JArr (filter (\<lambda>raw. \<exists>i. item_str ''ID'' raw = Some i \<and> owns uid i) items)), None))"
  using id_list_exact [of uid xs b items] assms by (simp add: filter_id_list_def)

end

definition owns_container :: "OwnershipDB \<Rightarrow> int \<Rightarrow> string \<Rightarrow> bool" where
  "owns_container db uid x \<longleftrightarrow> (\<exists>r \<in> set (tContainers db). cId r = x \<and> cOwnerUID r = uid \<and> cPrivCtx r = 0)"

definition owns_volume :: "OwnershipDB \<Rightarrow> int \<Rightarrow> string \<Rightarrow> bool" where
  "owns_volume db uid x \<longleftrightarrow> (\<exists>r \<in> set (tVolumes db). vName r = x \<and> vOwnerUID r = uid \<and> vPrivCtx r = 0)"

definition reaches_network :: "OwnershipDB \<Rightarrow> int \<Rightarrow> string \<Rightarrow> bool" where
  "reaches_network db uid x \<longleftrightarrow>
     (\<exists>r \<in> set (tNetworks db). nId r = x \<and> nOwnerUID r = uid \<and> nPrivCtx r = 0) \<or>
     (\<exists>a \<in> set (tNetworkAccess db). naNetworkID a = x \<and> naUserUID a = uid)"

definition owns_swarm :: "swarm_row list \<Rightarrow> int \<Rightarrow> string \<Rightarrow> bool" where
  "owns_swarm t uid x \<longleftrightarrow> (\<exists>r \<in> set t. sId r = x \<and> sOwnerUID r = uid)"

interpretation container_reader: ownership_reader "GetContainerIDsByOwner db" "owns_container db" for db
  by unfold_locales (auto simp: GetContainerIDsByOwner_def query_stmt_def owns_container_def split: if_splits)

interpretation volume_reader: ownership_reader "GetVolumeNamesByOwner db" "owns_volume db" for db
  by unfold_locales (auto simp: GetVolumeNamesByOwner_def query_stmt_def owns_volume_def split: if_splits)

interpretation network_reader: ownership_reader "GetAccessibleNetworkIDs db" "reaches_network db" for db
  by unfold_locales (auto simp: GetAccessibleNetworkIDs_def query_stmt_def reaches_network_def split: if_splits)

interpretation service_reader: ownership_reader "GetServiceIDsByOwner db" "owns_swarm (tServices db)" for db
  by unfold_locales (auto simp: GetServiceIDsByOwner_def query_stmt_def owns_swarm_def split: if_splits)

interpretation secret_reader: ownership_reader "GetSecretIDsByOwner db" "owns_swarm (tSecrets db)" for db
  by unfold_locales (auto simp: GetSecretIDsByOwner_def query_stmt_def owns_swarm_def split: if_splits)

interpretation config_reader: ownership_reader "GetConfigIDsByOwner db" "owns_swarm (tConfigs db)" for db
  by unfold_locales (auto simp: GetConfigIDsByOwner_def query_stmt_def owns_swarm_def split: if_splits)

section \<open>Containers\<close>

text \<open>What makes a container of the list the caller's: the database, or its last label values.\<close>

definition container_of_user :: "OwnershipDB \<Rightarrow> int \<Rightarrow> string \<Rightarrow> json \<Rightarrow> bool" where
  "container_of_user db uid username raw \<longleftrightarrow>
     (\<exists>es cid ls. obj_entries raw = Some es \<and> field_str ''Id'' es = Some cid
        \<and> field_map ''Labels'' es = Some ls \<and> (\<forall>(k, j) \<in> set ls. dec_str j \<noteq> None)
        \<and> ((\<exists>x. owns_container db uid x \<and> same_id cid x)
           \<or> ls \<noteq> [] \<and> label_value ls LabelCallerType \<noteq> ''sudo''
             \<and> (label_value ls LabelOwnerUID \<noteq> [] \<and> uid \<ge> 0 \<and> parseUID (label_value ls LabelOwnerUID) = uid
                \<or> username \<noteq> [] \<and> label_value ls LabelOwner = username)))"

lemma container_visible_iff:
  assumes "GetContainerIDsByOwner db uid = Inr cids"
  shows "container_visible cids uid username raw \<longleftrightarrow> container_of_user db uid username raw"
proof (cases "obj_entries raw")
  case None
  then show ?thesis by (simp add: container_visible_def container_of_user_def)
next
  case (Some es)
  show ?thesis
  proof (cases "field_str ''Id'' es"; cases "field_map ''Labels'' es")
    fix cid ls
    assume f: "field_str ''Id'' es = Some cid" "field_map ''Labels'' es = Some ls"
    have own: "id_owned cids cid \<longleftrightarrow> (\<exists>x. owns_container db uid x \<and> same_id cid x)"
      by (rule container_reader.owned_iff [OF assms])
    have bad: "list_ex (\<lambda>(k, j). dec_str j = None) ls \<longleftrightarrow> \<not> (\<forall>(k, j) \<in> set ls. dec_str j \<noteq> None)"
      by (simp add: list_ex_iff case_prod_beta)
    let ?u = "label_value ls LabelOwnerUID" and ?o = "label_value ls LabelOwner"
    have u: "(?u \<noteq> [] \<and> parseUID ?u \<ge> 0 \<and> parseUID ?u = uid) = (?u \<noteq> [] \<and> uid \<ge> 0 \<and> parseUID ?u = uid)"
      and o: "(?o \<noteq> [] \<and> ?o = username) = (username \<noteq> [] \<and> ?o = username)" by auto
    have spec: "container_of_user db uid username raw \<longleftrightarrow>
        (\<forall>(k, j) \<in> set ls. dec_str j \<noteq> None) \<and> ((\<exists>x. owns_container db uid x \<and> same_id cid x)
          \<or> ls \<noteq> [] \<and> label_value ls LabelCallerType \<noteq> ''sudo''
             \<and> (?u \<noteq> [] \<and> uid \<ge> 0 \<and> parseUID ?u = uid \<or> username \<noteq> [] \<and> ?o = username))"
      unfolding container_of_user_def by (simp only: Some f option.inject ex_simps simp_thms)
    show ?thesis
      unfolding container_visible_def Some f option.case prod.case bad own u o spec by argo
  qed (auto simp: container_visible_def container_of_user_def Some)
qed

text \<open>
  C32. The container list of an unprivileged caller is exactly the caller's part of the daemon's
  list, in the same order and with the name prefix removed; when the ownership query fails the list
  is empty.
\<close>

theorem container_list_exact:
  assumes "body_list b = Some xs"
  shows "FilterContainerListResponse b uid username False (db_reader db) =
           (if dbFault db ''GetContainerIDsByOwner'' 0 then (emptyJSONArray, Some (QueryError DBError))
            else (Doc (JArr (map (strip_container_names (UserContainerPrefix uid))
                    (filter (container_of_user db uid username) xs))), None))"
proof (cases "dbFault db ''GetContainerIDsByOwner'' 0")
  case True
  then show ?thesis
    using assms by (simp add: FilterContainerListResponse_def db_reader_def GetContainerIDsByOwner_def query_stmt_def)
next
  case False
  then obtain cids where c: "GetContainerIDsByOwner db uid = Inr cids"
    by (simp add: GetContainerIDsByOwner_def query_stmt_def)
  have "container_visible cids uid username = container_of_user db uid username"
    by (rule ext) (rule container_visible_iff [OF c])
  then show ?thesis
    using assms False c by (simp add: FilterContainerListResponse_def db_reader_def)
qed

definition demo_list :: body where
  "demo_list = Doc (JArr [JObj [(''Id'', JStr ''c1'')], JObj [(''Id'', JStr ''c2'')]])"

definition demo_containers :: OwnershipDB where
  "demo_containers = snd (SetContainerOwner ''c2'' bob [] fresh_db)"

theorem container_list_exact_witness:
  "FilterContainerListResponse demo_list 1001 ''bob'' False (db_reader demo_containers)
     = (Doc (JArr [JObj [(''Id'', JStr ''c2'')]]), None)"
proof -
  have l: "body_list demo_list = Some [JObj [(''Id'', JStr ''c1'')], JObj [(''Id'', JStr ''c2'')]]"
    by (simp add: demo_list_def)
  have e: "FilterContainerListResponse demo_list 1001 ''bob'' False (db_reader demo_containers)
     = (Doc (JArr [JObj [(''Id'', JStr ''c2'')]]), None)" by code_simp
  show ?thesis using container_list_exact [OF l, of 1001 "''bob''" demo_containers] e by simp
qed

section \<open>Images\<close>

lemma filter_images_subseq: "subseq (filter_images r uid own seen xs) xs"
  by (induction r uid own seen xs rule: filter_images.induct) (auto split: option.split)

lemma filter_images_visible:
  "x \<in> set (filter_images r uid own seen xs) \<Longrightarrow> \<exists>iid. item_str ''Id'' x = Some iid \<and> rCanSeeImage r uid iid"
  by (induction r uid own seen xs rule: filter_images.induct) (auto split: option.splits if_splits)

lemma filter_images_complete:
  "x \<in> set xs \<Longrightarrow> item_str ''Id'' x = Some iid \<Longrightarrow> rCanSeeImage r uid iid \<Longrightarrow> iid \<notin> set seen \<Longrightarrow>
     \<exists>y \<in> set (filter_images r uid own seen xs). item_str ''Id'' y = Some iid"
  by (induction r uid own seen xs rule: filter_images.induct) (auto split: option.split)

definition shown_once :: "string list \<Rightarrow> json list \<Rightarrow> bool" where
  "shown_once own xs \<longleftrightarrow>
     distinct (filter (\<lambda>iid. trim_prefix iid ''sha256:'' \<notin> set own) (List.map_filter (item_str ''Id'') xs))"

lemma filter_images_once:
  "shown_once own (filter_images r uid own seen xs) \<and>
   set (filter (\<lambda>iid. trim_prefix iid ''sha256:'' \<notin> set own) (List.map_filter (item_str ''Id'') (filter_images r uid own seen xs)))
     \<inter> set seen = {}"
  by (induction r uid own seen xs rule: filter_images.induct)
    (auto simp: shown_once_def map_filter_simps split: option.splits if_splits)

text \<open>
  C33. The image list of an unprivileged caller is a part of the daemon's list, in its order, that
  contains only images the caller may see; every visible image is in it; and an image that is not
  the caller's own is shown once, so that other tags of it stay hidden.
\<close>

theorem image_list_visible:
  assumes "body_list b = Some xs"
    and "FilterImageListResponse b uid False (db_reader db) = (out, err)"
  shows "\<exists>ys own. out = Doc (JArr ys) \<and> err = None \<and> subseq ys xs
           \<and> (\<forall>y \<in> set ys. \<exists>iid. item_str ''Id'' y = Some iid \<and> CanSeeImage db uid iid)
           \<and> (\<forall>x \<in> set xs. \<forall>iid. item_str ''Id'' x = Some iid \<and> CanSeeImage db uid iid \<longrightarrow>
                (\<exists>y \<in> set ys. item_str ''Id'' y = Some iid))
           \<and> (\<forall>iid \<in> set own. \<exists>r \<in> set (tImages db). iId r = iid \<and> iOwnerUID r = uid)
           \<and> shown_once own ys"
proof -
  define own where "own = (case GetImageIDsByOwner db uid of Inl _ \<Rightarrow> [] | Inr ids \<Rightarrow> ids)"
  let ?ys = "filter_images (db_reader db) uid own [] xs"
  have "\<forall>iid \<in> set own. \<exists>r \<in> set (tImages db). iId r = iid \<and> iOwnerUID r = uid"
    by (auto simp: own_def GetImageIDsByOwner_def query_stmt_def)
  moreover have "out = Doc (JArr ?ys)" "err = None"
    using assms by (auto simp: FilterImageListResponse_def db_reader_def own_def Let_def)
  ultimately show ?thesis
    using filter_images_subseq [of "db_reader db" uid own "[]" xs]
      filter_images_visible [of _ "db_reader db" uid own "[]" xs]
      filter_images_complete [of _ xs _ "db_reader db" uid "[]" own]
      filter_images_once [of own "db_reader db" uid "[]" xs]
    by (intro exI [of _ ?ys] exI [of _ own]) (simp add: db_reader_def)
qed

theorem image_list_visible_witness:
  "\<exists>ys. FilterImageListResponse (Doc (JArr [JObj [(''Id'', JStr ''sha256:abc'')], JObj [(''Id'', JStr ''zz'')]]))
          1000 False (db_reader demo_images) = (Doc (JArr ys), None)
        \<and> ys = [JObj [(''Id'', JStr ''sha256:abc'')]]"
proof -
  let ?b = "Doc (JArr [JObj [(''Id'', JStr ''sha256:abc'')], JObj [(''Id'', JStr ''zz'')]])"
  obtain out err where o: "FilterImageListResponse ?b 1000 False (db_reader demo_images) = (out, err)"
    by fastforce
  have "fst (FilterImageListResponse ?b 1000 False (db_reader demo_images)) =
      Doc (JArr [JObj [(''Id'', JStr ''sha256:abc'')]])" by code_simp
  then show ?thesis
    using image_list_visible [OF _ o] o by auto
qed

section \<open>Volumes\<close>

definition volume_name :: "json \<Rightarrow> string" where
  "volume_name raw = (case dec_map raw of Some om \<Rightarrow> str_or_empty (get_key om ''Name'') | None \<Rightarrow> [])"

definition volume_of_user :: "OwnershipDB \<Rightarrow> int \<Rightarrow> json \<Rightarrow> bool" where
  "volume_of_user db uid raw \<longleftrightarrow>
     dec_map raw \<noteq> None \<and> (owns_volume db uid (volume_name raw) \<or> has_prefix (volume_name raw) (UserVolumePrefix uid))"

lemma filter_volume_iff:
  assumes "GetVolumeNamesByOwner db uid = Inr names"
  shows "(\<exists>v. filter_volume names (UserVolumePrefix uid) raw = Some v) \<longleftrightarrow> volume_of_user db uid raw"
  using volume_reader.ids_exact [OF assms]
  by (cases "dec_map raw") (auto simp: filter_volume_def volume_of_user_def volume_name_def Let_def split: option.splits)

lemma map_of_rev_distinct:
  assumes "distinct (map fst m)"
  shows "map_of (rev m) = map_of m"
proof (rule ext)
  fix k
  have "distinct (map fst (rev m))" using assms by (simp flip: rev_map)
  then show "map_of (rev m) k = map_of m k"
    using assms by (intro option.expand) (auto simp: map_of_eq_None_iff dest!: map_of_SomeD intro: eq_key_imp_eq_value)
qed

lemma filter_volume_name:
  assumes "filter_volume names pfx raw = Some v" "volume_name raw \<noteq> []"
  shows "volume_name v = trim_prefix (volume_name raw) pfx"
proof -
  obtain om where om: "dec_map raw = Some om" using assms(1) by (auto simp: filter_volume_def split: option.splits)
  then obtain m where m: "om = Some m" using assms(2) by (cases om) (auto simp: volume_name_def get_key_def)
  have d: "distinct (map fst m)" using om m by (cases raw rule: dec_map.cases) auto
  have v: "v = JObj (if has_prefix (volume_name raw) pfx
             then map_put ''Name'' (JStr (trim_prefix (volume_name raw) pfx)) m else m)"
    using assms(1) om m by (auto simp: filter_volume_def volume_name_def Let_def split: if_splits)
  show ?thesis
  proof (cases "has_prefix (volume_name raw) pfx")
    case True
    then have "map_of (to_map (map_put ''Name'' (JStr (trim_prefix (volume_name raw) pfx)) m)) ''Name''
        = Some (JStr (trim_prefix (volume_name raw) pfx))"
      using d by (simp add: map_of_to_map map_of_rev_distinct distinct_fst_put)
    then show ?thesis using v True by (simp add: volume_name_def get_key_def)
  next
    case False
    then have "volume_name v = volume_name raw"
      using v d om m by (simp add: volume_name_def get_key_def map_of_to_map map_of_rev_distinct)
    then show ?thesis using False by (simp add: trim_prefix_def)
  qed
qed

lemma filter_volumes_names:
  assumes "GetVolumeNamesByOwner db uid = Inr names"
  shows "list_all2 (\<lambda>y raw. volume_name raw \<noteq> [] \<longrightarrow>
      volume_name y = trim_prefix (volume_name raw) (UserVolumePrefix uid))
    (List.map_filter (filter_volume names (UserVolumePrefix uid)) vs) (filter (volume_of_user db uid) vs)"
proof (induction vs)
  case (Cons raw vs)
  then show ?case
    using filter_volume_iff [OF assms, of raw] filter_volume_name [of names "UserVolumePrefix uid" raw]
    by (cases "filter_volume names (UserVolumePrefix uid) raw") (auto simp: map_filter_simps)
qed (simp add: map_filter_simps)

lemma volume_list_foreign:
  "\<forall>raw. (\<exists>u. u \<noteq> uid \<and> has_prefix (volume_name raw) (UserVolumePrefix (int u))
     \<and> \<not> owns_volume db (int uid) (volume_name raw)) \<longrightarrow> \<not> volume_of_user db (int uid) raw"
proof (intro allI impI, elim exE conjE)
  fix raw u
  assume a: "u \<noteq> uid" "has_prefix (volume_name raw) (UserVolumePrefix (int u))"
    "\<not> owns_volume db (int uid) (volume_name raw)"
  have "\<not> has_prefix (volume_name raw) (UserVolumePrefix (int uid))"
    using a(1,2) volume_names.pfx_separate [of u _ uid] unfolding has_prefix_iff by metis
  then show "\<not> volume_of_user db (int uid) raw" using a(3) by (simp add: volume_of_user_def)
qed

text \<open>
  C34. The volume list of an unprivileged caller holds exactly the volumes that are recorded as the
  caller's or carry the caller's prefix, in the daemon's order and under the names the caller gave
  them; a volume with another user's prefix that is not recorded as the caller's is not among them;
  and when the ownership query fails the list is empty.
\<close>

theorem volume_list_isolated:
  assumes "body_struct b = Some es" "field_slice dec_raw_list ''Volumes'' es = Some vs"
    and "reencode_strs ''Warnings'' es = Some w"
  shows "\<exists>ys w'. FilterVolumeListResponse b (int uid) False (db_reader db) = (volume_list_body ys w', None)
     \<and> (dbFault db ''GetVolumeNamesByOwner'' 0 \<longrightarrow> ys = [])
     \<and> (\<not> dbFault db ''GetVolumeNamesByOwner'' 0 \<longrightarrow>
          list_all2 (\<lambda>y raw. volume_name raw \<noteq> [] \<longrightarrow>
              volume_name y = trim_prefix (volume_name raw) (UserVolumePrefix (int uid)))
            ys (filter (volume_of_user db (int uid)) vs))
     \<and> (\<forall>raw u. u \<noteq> uid \<and> has_prefix (volume_name raw) (UserVolumePrefix (int u))
            \<and> \<not> owns_volume db (int uid) (volume_name raw) \<longrightarrow> \<not> volume_of_user db (int uid) raw)"
proof (cases "dbFault db ''GetVolumeNamesByOwner'' 0")
  case True
  show ?thesis
    using True assms volume_list_foreign
    by (intro exI [of _ "[]"] exI [of _ JNull])
      (simp add: FilterVolumeListResponse_def db_reader_def GetVolumeNamesByOwner_def query_stmt_def)
next
  case False
  then obtain names where n: "GetVolumeNamesByOwner db (int uid) = Inr names"
    by (simp add: GetVolumeNamesByOwner_def query_stmt_def)
  show ?thesis
    using False assms n volume_list_foreign filter_volumes_names [OF n]
    by (intro exI [of _ "List.map_filter (filter_volume names (UserVolumePrefix (int uid))) vs"] exI [of _ w])
      (simp add: FilterVolumeListResponse_def db_reader_def)
qed

definition demo_volumes :: body where
  "demo_volumes = Doc (JObj [(''Volumes'', JArr [JObj [(''Name'', JStr ''user-1000-volume-data'')],
                                                  JObj [(''Name'', JStr ''user-1001-volume-data'')]]),
                             (''Warnings'', JNull)])"

theorem volume_list_isolated_witness:
  "\<exists>ys w. FilterVolumeListResponse demo_volumes (int 1001) False (db_reader fresh_db) = (volume_list_body ys w, None)
     \<and> map volume_name ys = [''data'']"
proof -
  let ?vs = "[JObj [(''Name'', JStr ''user-1000-volume-data'')], JObj [(''Name'', JStr ''user-1001-volume-data'')]]"
  let ?es = "[(''Volumes'', JArr ?vs), (''Warnings'', JNull)]"
  have h: "body_struct demo_volumes = Some ?es" "field_slice dec_raw_list ''Volumes'' ?es = Some ?vs"
    "reencode_strs ''Warnings'' ?es = Some JNull"
    by (simp add: demo_volumes_def, code_simp, code_simp)
  have e: "filter (volume_of_user fresh_db 1001) ?vs = [JObj [(''Name'', JStr ''user-1001-volume-data'')]]"
    "volume_name (JObj [(''Name'', JStr ''user-1001-volume-data'')]) = ''user-1001-volume-data''"
    "trim_prefix ''user-1001-volume-data'' (UserVolumePrefix 1001) = ''data''"
    "dbFault fresh_db ''GetVolumeNamesByOwner'' 0 = False"
    by code_simp+
  show ?thesis
    using volume_list_isolated [OF h, of 1001 fresh_db] e by (auto simp: list_all2_Cons2)
qed

section \<open>Swarm objects\<close>

text \<open>
  The service, secret and config lists of an unprivileged caller are exactly the elements whose
  identifier is recorded for the caller, in order; a failing query gives the empty list.
\<close>

theorem swarm_lists_exact:
  assumes "body_list b = Some items"
  shows "FilterServiceListResponse b uid False (db_reader db) =
           (if dbFault db ''GetServiceIDsByOwner'' 0 then (emptyJSONArray, Some (QueryError DBError))
            else (Doc (JArr (filter (\<lambda>x. \<exists>i. item_str ''ID'' x = Some i \<and> owns_swarm (tServices db) uid i) items)), None))
       \<and> FilterSecretListResponse b uid False (db_reader db) =
           (if dbFault db ''GetSecretIDsByOwner'' 0 then (emptyJSONArray, Some (QueryError DBError))
            else (Doc (JArr (filter (\<lambda>x. \<exists>i. item_str ''ID'' x = Some i \<and> owns_swarm (tSecrets db) uid i) items)), None))
       \<and> FilterConfigListResponse b uid False (db_reader db) =
           (if dbFault db ''GetConfigIDsByOwner'' 0 then (emptyJSONArray, Some (QueryError DBError))
            else (Doc (JArr (filter (\<lambda>x. \<exists>i. item_str ''ID'' x = Some i \<and> owns_swarm (tConfigs db) uid i) items)), None))"
  unfolding FilterServiceListResponse_def FilterSecretListResponse_def FilterConfigListResponse_def
  by (intro conjI; simp only: db_reader_def OwnershipReader.select_convs;
      rule service_reader.id_list_result secret_reader.id_list_result config_reader.id_list_result;
      simp add: assms GetServiceIDsByOwner_def GetSecretIDsByOwner_def GetConfigIDsByOwner_def query_stmt_def)

definition demo_services :: OwnershipDB where
  "demo_services = snd (SetServiceOwner ''s2'' ''web'' bob fresh_db)"

theorem swarm_lists_exact_witness:
  "FilterServiceListResponse (Doc (JArr [JObj [(''ID'', JStr ''s1'')], JObj [(''ID'', JStr ''s2'')]])) 1001 False
     (db_reader demo_services) = (Doc (JArr [JObj [(''ID'', JStr ''s2'')]]), None)"
proof -
  let ?xs = "[JObj [(''ID'', JStr ''s1'')], JObj [(''ID'', JStr ''s2'')]]"
  have l: "body_list (Doc (JArr ?xs)) = Some ?xs" by simp
  have e: "item_str ''ID'' (JObj [(''ID'', JStr ''s1'')]) = Some ''s1''"
    "item_str ''ID'' (JObj [(''ID'', JStr ''s2'')]) = Some ''s2''"
    "owns_swarm (tServices demo_services) 1001 ''s1'' = False" "owns_swarm (tServices demo_services) 1001 ''s2''"
    "dbFault demo_services ''GetServiceIDsByOwner'' 0 = False"
    by code_simp+
  show ?thesis
    using swarm_lists_exact [OF l, of 1001 demo_services] e by simp
qed

section \<open>Disk usage\<close>

text \<open>
  The report on disk usage is made of the caller's containers and of the images the caller can
  see, in either of the daemon's formats.
\<close>

lemma df_lists_own:
  assumes "body_map b = Some rawMap" "snd (FilterSystemDFResponse b uid False db) = None"
  shows "\<exists>cids images containers volumes. rContainerIDs db uid = Inr cids \<and>
    FilterSystemDFResponse b uid False db = (df_output rawMap images containers volumes, None) \<and>
    (\<forall>raw \<in> set containers. \<exists>i. item_str ''Id'' raw = Some i \<and> id_owned cids i) \<and>
    (\<forall>raw \<in> set images. \<exists>i. item_str ''Id'' raw = Some i \<and> rCanSeeImage db uid i)"
proof -
  obtain cids where c: "rContainerIDs db uid = Inr cids"
    using assms by (cases "rContainerIDs db uid") (auto simp: FilterSystemDFResponse_def)
  obtain vs where v: "rVolumeNames db uid = Inr vs"
    using assms c by (cases "rVolumeNames db uid") (auto simp: FilterSystemDFResponse_def Let_def)
  show ?thesis
    by (intro exI conjI, rule c, simp add: FilterSystemDFResponse_def assms(1) c v Let_def)
      (auto split: option.splits)
qed

end
