(* ===== verification/StorageProps.thy ===== *)
theory StorageProps
  imports Storage FilterProps
begin

text \<open>
  What the mount checks guarantee: bind mounts stay below the caller's directories, which are
  disjoint for different users; named volumes are the caller's; sizes of tmpfs mounts stay below
  the limit; volumes-from needs ownership or a grant; the cleanup keeps recorded volumes.  The
  section on the decoding of requests shows where the first guarantee ends.
\<close>

section \<open>Bind mounts\<close>

lemma digit_not_slash: "CHR ''/'' \<notin> set (itoa n)"
  by (rule itoa_notin) (simp_all add: is_digit_def)

lemma user_dir_plain: "plain_seg (''user-'' @ itoa uid)"
  using digit_not_slash by (simp add: plain_seg_def)

lemma walk_append_seg:
  assumes "plain_seg s"
  shows "walk (base @ ''/'' @ s) = walk base @ [s]"
proof -
  have "split_char CHR ''/'' (base @ ''/'' @ s) = split_char CHR ''/'' base @ [s]"
    using split_char_append_sep [of "CHR ''/''" base s] assms by (simp add: plain_seg_def)
  then show ?thesis by (simp add: walk_def walk_step_plain [OF assms])
qed

lemma rooted_clean: "rooted p \<Longrightarrow> rooted (path_clean p)"
  by (simp add: clean_rooted rooted_def)

lemma walk_join_plain: "list_all plain_seg d \<Longrightarrow> walk (''/'' @ join_str ''/'' d) = d"
proof (cases "d = []")
  case False
  assume d: "list_all plain_seg d"
  have "foldl walk_step e d = e @ d" for e
    using d by (induction d arbitrary: e) (simp_all add: walk_step_plain)
  then show ?thesis
    using split_join_plain [OF False d] by (simp add: walk_def walk_step_def)
qed (simp add: walk_def walk_step_def)

lemma walk_clean: "rooted p \<Longrightarrow> walk (path_clean p) = walk p"
  using walk_join_plain [OF walk_plain] by (simp add: clean_rooted)

lemma storage_root_walk:
  assumes "rooted base"
  shows "rooted (path_clean (UserStorageRoot base uid))"
    and "walk (path_clean (UserStorageRoot base uid)) = walk base @ [''user-'' @ itoa uid]"
proof -
  have e: "UserStorageRoot base uid = path_clean (base @ ''/'' @ ''user-'' @ itoa uid)"
    using assms by (auto simp: UserStorageRoot_def path_join_def rooted_def)
  have r: "rooted (base @ ''/'' @ ''user-'' @ itoa uid)"
    using assms by (cases base) (auto simp: rooted_def)
  show "rooted (path_clean (UserStorageRoot base uid))"
    unfolding e by (intro rooted_clean r)
  show "walk (path_clean (UserStorageRoot base uid)) = walk base @ [''user-'' @ itoa uid]"
    unfolding e using r rooted_clean [OF r] walk_append_seg [OF user_dir_plain, of base uid]
    by (simp add: walk_clean)
qed

lemma clean_idem: "rooted p \<Longrightarrow> path_clean (path_clean p) = path_clean p"
  using rooted_clean [of p] walk_clean [of p] by (simp add: clean_rooted)

definition name_seg :: "string \<Rightarrow> bool" where
  "name_seg s \<longleftrightarrow> s \<noteq> [] \<and> CHR ''/'' \<notin> set s"

lemma clean_step_names:
  "list_all name_seg d \<Longrightarrow> CHR ''/'' \<notin> set s \<Longrightarrow> list_all name_seg (clean_step r d s)"
  by (auto simp: clean_step_def name_seg_def intro: butlast_all)

lemma clean_segments_names: "list_all name_seg (clean_segments r p)"
proof -
  have "list_all name_seg d \<Longrightarrow> list_all (\<lambda>s. CHR ''/'' \<notin> set s) ss \<Longrightarrow>
      list_all name_seg (foldl (clean_step r) d ss)" for d ss
    by (induction ss arbitrary: d) (simp_all add: clean_step_names)
  then show ?thesis by (simp add: clean_segments_def split_no_sep)
qed

lemma join_names_hd:
  "list_all name_seg d \<Longrightarrow> d \<noteq> [] \<Longrightarrow> join_str ''/'' d \<noteq> [] \<and> hd (join_str ''/'' d) \<noteq> CHR ''/''"
  by (cases "(''/'', d)" rule: join_str.cases) (auto simp: name_seg_def dest!: hd_in_set)

lemma clean_hd: "path_clean p \<noteq> [] \<and> (p \<noteq> [] \<and> \<not> rooted p \<longrightarrow> hd (path_clean p) \<noteq> CHR ''/'')"
  using join_names_hd [OF clean_segments_names, of False p]
  by (cases p) (auto simp: path_clean_def rooted_def)

lemmas clean_not_Nil = clean_hd [THEN conjunct1]

text \<open>A relative root never contains an absolute path.\<close>

lemma relative_root:
  assumes "\<not> rooted r" "r \<noteq> []" "rooted s"
  shows "s \<noteq> path_clean r \<and> \<not> has_prefix s (path_clean r @ ''/'')"
  using assms clean_hd [of r] by (cases s; cases "path_clean r") (auto simp: rooted_def)

definition below :: "string \<Rightarrow> string \<Rightarrow> bool" where
  "below root p \<longleftrightarrow> rooted root \<and> (if walk root = [] then walk p = [] else prefix (walk root) (walk p))"

lemma under_root_iff:
  assumes "rooted p" "r \<noteq> []"
  shows "(path_clean p = path_clean r \<or> has_prefix (path_clean p) (path_clean r @ ''/'')) \<longleftrightarrow> below r p"
  using assms clean_below_iff [of p r] relative_root [of r "path_clean p"] rooted_clean [of p]
  by (cases "rooted r") (auto simp: below_def)

lemma bind_refused_iff:
  assumes "rooted base"
  shows "bind_refused (bind_roots base uid home) src \<longleftrightarrow>
    rooted src \<and> \<not> prefix (walk base @ [''user-'' @ itoa uid]) (walk src) \<and> \<not> (home \<noteq> [] \<and> below home src)"
proof (cases "rooted src")
  case True
  let ?r = "path_clean (UserStorageRoot base uid)"
  have "?r \<noteq> []" by (rule clean_not_Nil)
  have s: "UserStorageRoot base uid \<noteq> []" using assms clean_not_Nil by (auto simp: UserStorageRoot_def path_join_def rooted_def)
  have rs: "rooted (UserStorageRoot base uid)"
    using assms rooted_clean by (cases base) (auto simp: UserStorageRoot_def path_join_def rooted_def)
  have "(path_clean src = ?r \<or> has_prefix (path_clean src) (?r @ ''/'')) \<longleftrightarrow>
      prefix (walk base @ [''user-'' @ itoa uid]) (walk src)"
    using under_root_iff [OF True s] storage_root_walk(2) [OF assms, of uid] walk_clean [OF rs] rs by (simp add: below_def)
  then show ?thesis
    using True \<open>?r \<noteq> []\<close> clean_not_Nil [of home] under_root_iff [OF True, of home]
    by (auto simp: bind_refused_def bind_roots_def underAnyRoot_def rooted_def)
qed (simp add: bind_refused_def rooted_def)


definition bind_body :: "string list \<Rightarrow> body" where
  "bind_body binds = Doc (JObj [(''HostConfig'', JObj [(''Binds'', JArr (map JStr binds))])])"


section \<open>The request that is checked and the request that is forwarded\<close>

definition two_configs :: body where
  "two_configs = Doc (JObj [(''hostconfig'', JObj [(''Binds'', JArr [JStr ''/:/host''])]),
                            (''HostConfig'', JObj [(''Binds'', JArr [])])])"

text \<open>
  The check on bind mounts, taken alone, does not bind a body that is encoded again after it:
  with two host configurations whose keys differ in case, the last one counts, and sorting the
  keys exchanges them.  In the order of the handler the body has been encoded with sorted keys
  before this check whenever a quota applies.
\<close>

theorem bind_check_not_stable:
  "ValidateBindMounts two_configs ''/data'' 7 [] = None
   \<and> (\<exists>b. InjectSystemLabels two_configs i = Inr b \<and> parseBindMounts b = [''/'']
        \<and> ValidateBindMounts b ''/data'' 7 [] \<noteq> None)"
proof -
  have "ValidateBindMounts two_configs ''/data'' 7 [] = None" by code_simp
  moreover have m: "body_map two_configs = Some (Some [(''HostConfig'', JObj [(''Binds'', JArr [])]),
      (''hostconfig'', JObj [(''Binds'', JArr [JStr ''/:/host''])])])" by code_simp
  obtain ls where b: "InjectSystemLabels two_configs i =
      Inr (Doc (JObj (map_put ''Labels'' ls [(''HostConfig'', JObj [(''Binds'', JArr [])]),
        (''hostconfig'', JObj [(''Binds'', JArr [JStr ''/:/host''])])])))"
    using m by (auto simp: InjectSystemLabels_def set_key_def Let_def)
  have e: "map_put ''Labels'' ls [(''HostConfig'', JObj [(''Binds'', JArr [])]),
        (''hostconfig'', JObj [(''Binds'', JArr [JStr ''/:/host''])])] =
      [(''HostConfig'', JObj [(''Binds'', JArr [])]), (''Labels'', ls),
       (''hostconfig'', JObj [(''Binds'', JArr [JStr ''/:/host''])])]" by code_simp
  have "parseBindMounts (Doc (JObj [(''HostConfig'', JObj [(''Binds'', JArr [])]), (''Labels'', ls),
       (''hostconfig'', JObj [(''Binds'', JArr [JStr ''/:/host''])])])) = [''/'']" by code_simp
  moreover have "bind_refused (bind_roots ''/data'' 7 []) ''/''" by code_simp
  ultimately show ?thesis
    using b e by (simp add: ValidateBindMounts_def)
qed

section \<open>Named volumes\<close>

lemma splitBindSrc_append: "splitBindSrc b = (src, rest) \<Longrightarrow> b = src @ rest"
  by (auto simp: splitBindSrc_def split: option.splits)

text \<open>How a bind is forwarded: a path and a name with the caller's prefix as they are, any other
  name under the prefix, and then the prefixed volume is the caller's.\<close>

definition own_bind :: "string \<Rightarrow> string list \<Rightarrow> string \<Rightarrow> string \<Rightarrow> bool" where
  "own_bind pfx owned b' b \<longleftrightarrow>
     (if has_prefix (fst (splitBindSrc b)) ''/'' \<or> has_prefix (fst (splitBindSrc b)) pfx then b' = b
      else b' = pfx @ b \<and> pfx @ fst (splitBindSrc b) \<in> set owned)"

lemma rewrite_binds_own:
  "rewrite_binds pfx owned bs = Inr out \<Longrightarrow> list_all2 (own_bind pfx owned) out bs"
proof (induction bs arbitrary: out)
  case (Cons b bs)
  obtain src rest where s: "splitBindSrc b = (src, rest)" by (cases "splitBindSrc b")
  obtain o1 where r: "rewrite_binds pfx owned bs = Inr o1"
    using Cons.prems s by (auto split: if_splits sum.splits)
  have "own_bind pfx owned (hd out) b \<and> out = hd out # o1"
    using Cons.prems s r splitBindSrc_append [OF s] by (auto simp: own_bind_def split: if_splits)
  then show ?case using Cons.IH [OF r] by (metis list_all2_Cons)
qed simp

lemma own_bind_local: "own_bind pfx owned b' b \<Longrightarrow> has_prefix b' ''/'' \<or> has_prefix b' pfx"
  using splitBindSrc_append [of b "fst (splitBindSrc b)" "snd (splitBindSrc b)"]
  by (auto simp: own_bind_def intro: has_prefix_trans split: if_splits) (metis has_prefix_append has_prefix_trans)+

lemma list_all2_left: "list_all2 P xs ys \<Longrightarrow> x \<in> set xs \<Longrightarrow> \<exists>y \<in> set ys. P x y"
  by (induction rule: list_all2_induct) auto

lemma list_all2_right: "list_all2 P xs ys \<Longrightarrow> y \<in> set ys \<Longrightarrow> \<exists>x \<in> set xs. P x y"
  by (induction rule: list_all2_induct) auto

lemma map_of_put_opt: "(case om of None \<Rightarrow> True | Some m \<Rightarrow> distinct (map fst m)) \<Longrightarrow>
    map_of (put_opt k v om) k' = (if k' = k then Some v else get_key om k')"
  by (cases om) (simp_all add: put_opt_def get_key_def)

lemma dec_map_distinct: "dec_map j = Some (Some m) \<Longrightarrow> distinct (map fst m)"
  by (cases j rule: dec_map.cases) auto

lemma put_binds_result:
  "put_binds binds new (Some hc) = Inr r \<Longrightarrow>
     \<exists>h. r = Some h \<and> (distinct (map fst hc) \<longrightarrow> distinct (map fst h))
       \<and> (binds \<noteq> [] \<and> distinct (map fst hc) \<longrightarrow> map_of h ''Binds'' = Some (JArr (map JStr new)))"
  by (auto simp: put_binds_def set_key_def distinct_fst_put split: if_splits)

lemma put_mounts_keeps:
  "put_mounts pfx owned mounts (Some hc) = Inr r \<Longrightarrow> distinct (map fst hc) \<Longrightarrow>
     \<exists>h. r = Some h \<and> map_of h ''Binds'' = map_of hc ''Binds''"
  by (auto simp: put_mounts_def set_key_def split: if_splits option.splits sum.splits)


definition demo_volume_db :: OwnershipDB where
  "demo_volume_db = snd (SetVolumeOwner ''user-1001-volume-data'' bob fresh_db)"


definition lower_mounts :: body where
  "lower_mounts = Doc (JObj [(''HostConfig'', JObj [(''mounts'', JArr [JObj
     [(''Source'', JStr ''user-1000-volume-data''), (''Target'', JStr ''/x''), (''Type'', JStr ''volume'')]])])])"

text \<open>
  A volume mount that is listed under a key in lower case is decoded as a mount but neither
  checked nor rewritten: the volume of another user is forwarded under its internal name.
\<close>

theorem lowercase_mounts_unchecked:
  "ValidateAndRewriteNamedVolumes lower_mounts 1001 (db_reader fresh_db) = Inr lower_mounts
   \<and> ValidateBindMounts lower_mounts base 1001 home = None
   \<and> (case host_config lower_mounts of
        Some hc \<Rightarrow> field_slice (dec_structs mount_fields) ''Mounts'' hc = Some [(''volume'', ''user-1000-volume-data'')]
      | None \<Rightarrow> False)"
proof -
  have "ValidateAndRewriteNamedVolumes lower_mounts 1001 (db_reader fresh_db) = Inr lower_mounts" by code_simp
  moreover have "parseBindMounts lower_mounts = []" by code_simp
  moreover have "host_config lower_mounts = Some [(''mounts'', JArr [JObj
     [(''Source'', JStr ''user-1000-volume-data''), (''Target'', JStr ''/x''), (''Type'', JStr ''volume'')]])]"
    by code_simp
  moreover have "field_slice (dec_structs mount_fields) ''Mounts'' [(''mounts'', JArr [JObj
     [(''Source'', JStr ''user-1000-volume-data''), (''Target'', JStr ''/x''), (''Type'', JStr ''volume'')]])]
     = Some [(''volume'', ''user-1000-volume-data'')]" by code_simp
  ultimately show ?thesis by (simp add: ValidateBindMounts_def)
qed

section \<open>Sizes of tmpfs mounts\<close>

definition distinct_map :: "jmap option \<Rightarrow> bool" where
  "distinct_map om \<longleftrightarrow> (case om of None \<Rightarrow> True | Some m \<Rightarrow> distinct (map fst m))"

lemma distinct_map_dec: "dec_map j = Some om \<Longrightarrow> distinct_map om"
  by (cases om) (auto simp: distinct_map_def dest: dec_map_distinct)

lemma distinct_put_opt: "distinct_map om \<Longrightarrow> distinct (map fst (put_opt k v om))"
  by (cases om) (simp_all add: distinct_map_def put_opt_def distinct_fst_put)

lemma get_put_opt: "distinct_map om \<Longrightarrow> map_of (put_opt k v om) k' = (if k' = k then Some v else get_key om k')"
  by (simp add: map_of_put_opt distinct_map_def)

lemma map_of_to_map_id: "distinct (map fst m) \<Longrightarrow> map_of (to_map m) = map_of m"
  by (simp add: map_of_to_map map_of_rev_distinct)

lemma distinct_sub_map: "distinct_map (sub_map oj)"
  by (auto simp: sub_map_def distinct_map_def dest: dec_map_distinct split: option.splits)

text \<open>What is read back from a map written with one more entry.\<close>

lemma read_back:
  assumes "distinct_map om"
  shows "dec_map (JObj (put_opt k v om)) = Some (Some (to_map (put_opt k v om)))"
    and "get_key (Some (to_map (put_opt k v om))) k' = (if k' = k then Some v else get_key om k')"
  using distinct_put_opt [OF assms] get_put_opt [OF assms] by (simp_all add: get_key_def map_of_to_map_id)

definition size_within :: "int \<Rightarrow> json \<Rightarrow> bool" where
  "size_within L m \<longleftrightarrow>
     (\<forall>mount. dec_map m = Some mount \<and> is_tmpfs mount \<longrightarrow> tmpfs_size mount \<le> L \<and> tmpfs_size mount \<noteq> 0)"

lemma tmpfs_mount_within:
  assumes "tmpfs_mount L m = Inr (m', c)" "0 < L" "L \<le> max_int64"
  shows "size_within L m' \<and> (\<not> c \<longrightarrow> m' = m)"
proof (cases "c")
  case True
  then obtain mount where mt: "dec_map m = Some mount" and
    m': "m' = JObj (put_opt ''TmpfsOptions'' (JObj (put_opt ''SizeBytes'' (JNum L)
           (sub_map (get_key mount ''TmpfsOptions'')))) mount)"
    using assms(1) by (auto simp: tmpfs_mount_def split: option.splits if_splits)
  let ?o = "put_opt ''SizeBytes'' (JNum L) (sub_map (get_key mount ''TmpfsOptions''))"
  have d: "distinct_map mount" by (rule distinct_map_dec [OF mt])
  have "get_key (sub_map (Some (JObj ?o))) ''SizeBytes'' = Some (JNum L)"
    using read_back [OF distinct_sub_map] by (simp add: sub_map_def)
  then have "tmpfs_size (Some (to_map (put_opt ''TmpfsOptions'' (JObj ?o) mount))) = L"
    using assms(2,3) read_back(2) [OF d]
    by (simp add: tmpfs_size_def int64_or_zero_def dec_int64_def min_int64_def)
  then show ?thesis
    using m' read_back(1) [OF d] True assms(2) by (simp add: size_within_def)
next
  case False
  then show ?thesis
    using assms(1) by (auto simp: tmpfs_mount_def size_within_def split: option.splits if_splits)
qed

lemma tmpfs_mounts_within:
  "tmpfs_mounts L ms = Inr (ms', c) \<Longrightarrow> 0 < L \<Longrightarrow> L \<le> max_int64 \<Longrightarrow>
     (\<forall>m \<in> set ms'. size_within L m) \<and> (\<not> c \<longrightarrow> ms' = ms)"
  by (induction ms arbitrary: ms' c) (auto dest: tmpfs_mount_within split: sum.splits prod.splits)

lemma first_size_append:
  "first_size (xs @ ys) =
     (if list_ex (\<lambda>p. has_prefix (trim_space p) ''size='') xs then first_size xs else first_size ys)"
  by (induction xs) (auto simp: Let_def)

lemma sscan_itoa:
  assumes "0 < n" "n \<le> max_int64"
  shows "sscan_d (itoa n) = Some n"
proof -
  have i: "itoa n = nat_str n" using assms(1) by (simp add: itoa_def)
  have dg: "\<forall>c \<in> set (nat_str n). is_digit c" using list_all_is_digit_nat_str by (simp add: list_all_iff)
  obtain c cs where c: "nat_str n = c # cs" using nat_str_not_Nil [of n] by (cases "nat_str n") auto
  have "is_digit c" using dg c by simp
  then have "\<not> is_space c" "c \<noteq> CHR ''-''" "c \<noteq> CHR ''+''" by (auto simp: is_digit_def is_space_def)
  moreover have "takeWhile is_digit (nat_str n) = nat_str n" using dg by (simp add: takeWhile_eq_all_conv)
  ultimately show ?thesis
    using assms i c digits_val_nat_str [of n] by (simp add: sscan_d_def min_int64_def)
qed

lemma size_value_itoa:
  assumes "0 < n" "n \<le> max_int64"
  shows "size_value (itoa n) = n"
proof -
  have "is_digit (last (itoa n))"
    using assms(1) list_all_is_digit_nat_str [of n] last_in_set [OF nat_str_not_Nil, of n]
    by (auto simp: itoa_def list_all_iff)
  then have "last (itoa n) \<notin> {CHR ''k'', CHR ''K'', CHR ''m'', CHR ''M'', CHR ''g'', CHR ''G''}"
    by (auto simp: is_digit_def)
  then show ?thesis by (simp add: size_value_def sscan_itoa [OF assms])
qed

lemma tmpfs_opts_within:
  assumes "tmpfs_opts L opts = Inr (opts', c)" "0 < L" "L \<le> max_int64"
  shows "parseTmpfsSize opts' \<le> L \<and> (\<not> c \<longrightarrow> opts' = opts)"
proof (cases c)
  case True
  let ?s = "''size='' @ itoa L"
  have z: "parseTmpfsSize opts = 0" and o: "opts' = (if opts = [] then ?s else opts @ '','' @ ?s)"
    using assms(1) True by (auto simp: tmpfs_opts_def Let_def split: if_splits)
  have t: "trim_space ?s = ?s"
    by (rule trim_space_id) (use itoa_no_space [of L] in \<open>simp add: is_space_def\<close>)
  have f: "first_size [?s] = L" using t size_value_itoa [OF assms(2,3)] by simp
  have "split_char CHR '','' ?s = [?s]" using itoa_no_comma [of L] by (intro split_char_id) simp
  then have "split_char CHR '','' (opts @ CHR '','' # ?s) = split_char CHR '','' opts @ [?s]"
    by (simp only: split_char_append_sep)
  then have "parseTmpfsSize opts' = 0 \<or> parseTmpfsSize opts' = L"
    using o z f \<open>split_char CHR '','' ?s = [?s]\<close>
    by (auto simp: parseTmpfsSize_def first_size_append simp del: first_size.simps)
  then show ?thesis using True assms(2) by auto
next
  case False
  then show ?thesis using assms(1) by (auto simp: tmpfs_opts_def Let_def split: if_splits)
qed

lemma tmpfs_map_within:
  "tmpfs_map L tm = Inr (tm', c) \<Longrightarrow> 0 < L \<Longrightarrow> L \<le> max_int64 \<Longrightarrow>
     (\<forall>p \<in> set tm'. parseTmpfsSize (snd p) \<le> L) \<and> (\<not> c \<longrightarrow> tm' = tm)"
proof (induction tm arbitrary: tm' c)
  case (Cons p tm)
  obtain t opts where p: "p = (t, opts)" by (cases p)
  obtain o1 c1 where o1: "tmpfs_opts L opts = Inr (o1, c1)"
    using Cons.prems(1) p by (auto split: sum.splits)
  obtain tm1 c2 where t1: "tmpfs_map L tm = Inr (tm1, c2)"
    using Cons.prems(1) p o1 by (auto split: sum.splits)
  show ?case
    using Cons.IH [OF t1 Cons.prems(2,3)] tmpfs_opts_within [OF o1 Cons.prems(2,3)] Cons.prems(1) p o1 t1 by auto
qed simp

text \<open>A host configuration is within the limit when every tmpfs mount of both lists is.\<close>

definition mounts_within :: "int \<Rightarrow> json option \<Rightarrow> bool" where
  "mounts_within L oj \<longleftrightarrow>
     (case oj of None \<Rightarrow> True | Some j \<Rightarrow> (case dec_raw_list j of None \<Rightarrow> True | Some ms \<Rightarrow> \<forall>m \<in> set ms. size_within L m))"

definition options_within :: "int \<Rightarrow> json option \<Rightarrow> bool" where
  "options_within L oj \<longleftrightarrow>
     (case oj of None \<Rightarrow> True | Some j \<Rightarrow>
        (case dec_str_map j of None \<Rightarrow> True | Some tm \<Rightarrow> \<forall>p \<in> set tm. parseTmpfsSize (snd p) \<le> L))"

lemma set_put: "set (map_put k v m) \<subseteq> insert (k, v) (set m)"
  by (auto simp: map_put_def set_insort)

lemma set_to_map: "set (to_map es) \<subseteq> set es"
proof -
  have "set (fold (\<lambda>(k, v). map_put k v) es m) \<subseteq> set m \<union> set es" for m
  proof (induction es arbitrary: m)
    case (Cons p es)
    then show ?case using set_put [of "fst p" "snd p" m] by (cases p) fastforce
  qed simp
  from this [of "[]"] show ?thesis by (simp add: to_map_def)
qed

lemma dec_enc_str_map: "dec_str_map (enc_str_map tm) = Some (to_map tm)"
  by (auto simp: enc_str_map_def list_all_iff str_entry_def case_prod_beta comp_def)

lemma limit_mounts_within:
  assumes "limit_mounts L hc = Inr (hc', c)" "0 < L" "L \<le> max_int64" "distinct_map hc"
  shows "mounts_within L (get_key hc' ''Mounts'') \<and> distinct_map hc' \<and> (hc \<noteq> None \<longrightarrow> hc' \<noteq> None) \<and> (\<not> c \<longrightarrow> hc' = hc)"
  using assms get_put_opt [OF assms(4), of "''Mounts''"] distinct_put_opt [OF assms(4)]
  by (auto simp: limit_mounts_def mounts_within_def get_key_def [of "Some _"] distinct_map_def [of "Some _"]
      dest!: tmpfs_mounts_within split: option.splits sum.splits if_splits)

lemma limit_tmpfs_within:
  assumes "limit_tmpfs L hc = Inr (hc', c)" "0 < L" "L \<le> max_int64" "distinct_map hc"
  shows "options_within L (get_key hc' ''Tmpfs'') \<and> get_key hc' ''Mounts'' = get_key hc ''Mounts''
     \<and> distinct_map hc' \<and> (hc \<noteq> None \<longrightarrow> hc' \<noteq> None) \<and> (\<not> c \<longrightarrow> hc' = hc)"
proof (cases "c")
  case True
  then obtain j tm tm' where t: "get_key hc ''Tmpfs'' = Some j" "dec_str_map j = Some tm"
    "tmpfs_map L tm = Inr (tm', True)" "hc' = Some (put_opt ''Tmpfs'' (enc_str_map tm') hc)"
    using assms(1) by (auto simp: limit_tmpfs_def split: option.splits sum.splits if_splits)
  have "\<forall>p \<in> set (to_map tm'). parseTmpfsSize (snd p) \<le> L"
    using tmpfs_map_within [OF t(3) assms(2,3)] set_to_map by blast
  then show ?thesis
    using t(4) True get_put_opt [OF assms(4), of "''Tmpfs''"] distinct_put_opt [OF assms(4)]
    by (simp add: options_within_def dec_enc_str_map get_key_def [of "Some _"] distinct_map_def [of "Some _"])
next
  case False
  then show ?thesis
    using assms by (auto simp: limit_tmpfs_def options_within_def dest!: tmpfs_map_within
        split: option.splits sum.splits if_splits)
qed

definition tmpfs_within :: "int \<Rightarrow> body \<Rightarrow> bool" where
  "tmpfs_within L b \<longleftrightarrow>
     (\<forall>raw. body_map b = Some raw \<longrightarrow>
        mounts_within L (get_key (sub_map (get_key raw ''HostConfig'')) ''Mounts'') \<and>
        options_within L (get_key (sub_map (get_key raw ''HostConfig'')) ''Tmpfs''))"

lemma within_None [simp]: "mounts_within L None" "options_within L None"
  by (simp_all add: mounts_within_def options_within_def)

lemma limit_bytes_range: "limit_bytes n \<le> max_int64"
  unfolding limit_bytes_def using wrap64_range by blast

text \<open>
  With a positive limit, every request that is not refused is forwarded with each tmpfs mount,
  as the proxy itself reads it, of a size other than zero and not above the limit; sizes that were
  missing are set to the limit, in both forms of the request.
\<close>

theorem tmpfs_bounded:
  assumes "ValidateAndInjectTmpfs b limitMB = Inr b'" "0 < limit_bytes limitMB"
  shows "tmpfs_within (limit_bytes limitMB) b'"
proof -
  let ?L = "limit_bytes limitMB"
  have nz: "limitMB \<noteq> 0" using assms(2) by (auto simp: limit_bytes_def wrap64_def)
  show ?thesis
  proof (cases "\<exists>raw hj hc. body_map b = Some raw \<and> get_key raw ''HostConfig'' = Some hj \<and> dec_map hj = Some hc")
    case True
    then obtain raw hj hc where r: "body_map b = Some raw" "get_key raw ''HostConfig'' = Some hj" "dec_map hj = Some hc"
      by blast
    obtain hc1 c1 hc2 c2 where h: "limit_mounts ?L hc = Inr (hc1, c1)" "limit_tmpfs ?L hc1 = Inr (hc2, c2)"
      "b' = (if \<not> (c1 \<or> c2) then b else Doc (JObj (put_opt ''HostConfig'' (enc_map hc2) raw)))"
      using assms(1) nz r by (auto simp: ValidateAndInjectTmpfs_def Let_def split: sum.splits if_splits)
    note m = limit_mounts_within [OF h(1) assms(2) limit_bytes_range distinct_map_dec [OF r(3)]]
    then have "distinct_map hc1" by blast
    note t = limit_tmpfs_within [OF h(2) assms(2) limit_bytes_range this]
    have w: "mounts_within ?L (get_key hc2 ''Mounts'')" "options_within ?L (get_key hc2 ''Tmpfs'')" "distinct_map hc2"
      using m t by auto
    show ?thesis
    proof (cases "c1 \<or> c2")
      case True
      obtain rm where rm: "raw = Some rm" using r(2) by (cases raw) (auto simp: get_key_def)
      have d: "distinct_map raw" using body_map_distinct r(1) rm by (simp add: distinct_map_def)
      have "get_key (sub_map (Some (enc_map hc2))) k = get_key hc2 k" for k
        using w(3) by (cases hc2) (auto simp: sub_map_def get_key_def distinct_map_def map_of_to_map_id)
      moreover have "body_map b' = Some (Some (to_map (put_opt ''HostConfig'' (enc_map hc2) raw)))"
        using h(3) True by simp
      ultimately show ?thesis
        using w read_back(2) [OF d, of "''HostConfig''"] by (simp add: tmpfs_within_def)
    next
      case False
      then have "b' = b" "hc2 = hc" using h(3) m t by auto
      then show ?thesis using w r by (simp add: tmpfs_within_def sub_map_def)
    qed
  next
    case False
    then have "b' = b" using assms(1) nz by (auto simp: ValidateAndInjectTmpfs_def split: option.splits)
    moreover have "body_map b = Some raw \<Longrightarrow> sub_map (get_key raw ''HostConfig'') = None" for raw
      using False by (auto simp: sub_map_def split: option.split)
    ultimately show ?thesis by (auto simp: tmpfs_within_def get_key_def)
  qed
qed

definition tmpfs_body :: "string \<Rightarrow> body" where
  "tmpfs_body opts = Doc (JObj [(''HostConfig'', JObj [(''Tmpfs'', JObj [(''/t'', JStr opts)])])])"

theorem tmpfs_bounded_witness:
  "ValidateAndInjectTmpfs (tmpfs_body ''rw'') 64 = Inr (tmpfs_body ''rw,size=67108864'')
   \<and> tmpfs_within 67108864 (tmpfs_body ''rw,size=67108864'')"
proof -
  have e: "ValidateAndInjectTmpfs (tmpfs_body ''rw'') 64 = Inr (tmpfs_body ''rw,size=67108864'')" by code_simp
  have l: "limit_bytes 64 = 67108864" by code_simp
  show ?thesis using tmpfs_bounded [OF e] e l by simp
qed

text \<open>
  Only the first size option of a tmpfs mount is compared with the limit: a second option that
  would be refused on its own is forwarded unchanged, and so are a size in per cent and a negative
  size.
\<close>

theorem tmpfs_later_size_unchecked:
  "ValidateAndInjectTmpfs (tmpfs_body ''size=1m,size=100g'') 64 = Inr (tmpfs_body ''size=1m,size=100g'')
   \<and> (\<exists>v. ValidateAndInjectTmpfs (tmpfs_body ''size=100g'') 64 = Inl v)
   \<and> ValidateAndInjectTmpfs (tmpfs_body ''size=90%'') 64 = Inr (tmpfs_body ''size=90%'')
   \<and> ValidateAndInjectTmpfs (tmpfs_body ''size=-1'') 64 = Inr (tmpfs_body ''size=-1'')"
proof (intro conjI)
  show "ValidateAndInjectTmpfs (tmpfs_body ''size=1m,size=100g'') 64 = Inr (tmpfs_body ''size=1m,size=100g'')"
    by code_simp
  have "ValidateAndInjectTmpfs (tmpfs_body ''size=100g'') 64 = Inl \<lparr>RequestedMB = 102400, LimitMB = 64\<rparr>"
    by code_simp
  then show "\<exists>v. ValidateAndInjectTmpfs (tmpfs_body ''size=100g'') 64 = Inl v" by blast
  show "ValidateAndInjectTmpfs (tmpfs_body ''size=90%'') 64 = Inr (tmpfs_body ''size=90%'')" by code_simp
  show "ValidateAndInjectTmpfs (tmpfs_body ''size=-1'') 64 = Inr (tmpfs_body ''size=-1'')" by code_simp
qed

section \<open>volumes-from\<close>

text \<open>
  An unprivileged request that passes the check on volumes-from names only containers that are
  recorded in the database for the caller, or for which a grant to the caller or to all users is
  recorded.  This holds for every pattern of failing statements.
\<close>

theorem volumes_from_authorised:
  assumes "ValidateVolumesFrom b uid False db resolver = None" "uid \<noteq> 0" "ref \<in> set (requested_volumes_from b)"
    and "cid = volumes_from_id resolver (volumes_from_ref ref)"
  shows "\<exists>r \<in> set (tContainers db). cId r = cid \<and>
           (cOwnerUID r = uid \<or>
            (\<exists>g \<in> set (tVolumesFrom db). vfContainerID g = cid \<and> (GranteeUID g = uid \<or> GranteeUID g = -1)))"
proof -
  have nr: "\<not> volumes_from_refused db resolver uid (volumes_from_ref ref)"
    using assms(1-3) by (auto simp: ValidateVolumesFrom_def find_None_iff)
  then obtain ow where o: "GetContainerOwner db cid = Some ow"
    "oiUID ow = uid \<or> CanVolumesFrom db cid uid = Inr True"
    using assms(4) by (auto simp: volumes_from_refused_def Let_def split: option.splits sum.splits)
  then obtain r where r: "find (\<lambda>r. cId r = cid) (tContainers db) = Some r" "oiUID ow = cOwnerUID r"
    by (auto simp: GetContainerOwner_def query_row_def split: if_splits)
  have "r \<in> set (tContainers db)" "cId r = cid" using find_Some_iff [OF r(1)] by auto
  moreover have "CanVolumesFrom db cid uid = Inr True \<Longrightarrow>
      \<exists>g \<in> set (tVolumesFrom db). vfContainerID g = cid \<and> (GranteeUID g = uid \<or> GranteeUID g = -1)"
    by (auto simp: CanVolumesFrom_def query_stmt_def count_where_def filter_empty_conv split: if_splits)
  ultimately show ?thesis using o(2) r(2) by auto
qed

definition volumes_from_body :: body where
  "volumes_from_body = Doc (JObj [(''HostConfig'', JObj [(''VolumesFrom'', JArr [JStr ''c2:ro''])])])"

theorem volumes_from_authorised_witness:
  "\<exists>r \<in> set (tContainers demo_containers). cId r = ''c2'' \<and> cOwnerUID r = 1001"
proof -
  have h: "ValidateVolumesFrom volumes_from_body 1001 False demo_containers None = None"
    "''c2:ro'' \<in> set (requested_volumes_from volumes_from_body)" "''c2'' = volumes_from_id None (volumes_from_ref ''c2:ro'')"
    by code_simp+
  have "tVolumesFrom demo_containers = []" by code_simp
  then show ?thesis using volumes_from_authorised [OF h(1) _ h(2,3)] by auto
qed

section \<open>Cleanup\<close>

lemma cleanup_volumes_removed:
  assumes "cleanup_volumes rm owned vs db = (removed, db')" "vName ` set (tVolumes db) \<subseteq> set owned"
  shows "(\<forall>v \<in> set removed. v \<in> set vs \<and> isUserVolumePrefix v \<and> v \<notin> set owned \<and> rm v) \<and> tVolumes db' = tVolumes db"
  using assms
proof (induction rm owned vs db arbitrary: removed db' rule: cleanup_volumes.induct)
  case (2 rm owned v vs db)
  show ?case
  proof (cases "\<not> isUserVolumePrefix v \<or> v \<in> set owned \<or> GetVolumeOwner db v \<noteq> None \<or> \<not> rm v")
    case True
    then have "cleanup_volumes rm owned vs db = (removed, db')" using 2(3) by (simp only: cleanup_volumes.simps if_True)
    then show ?thesis using 2(1) [OF True _ 2(4)] by auto
  next
    case False
    have t: "tVolumes (snd (DeleteVolume v db)) = tVolumes db"
      using False 2(4) by (auto simp: DeleteVolume_def exec_stmt_def delete_where_def filter_id_conv)
    obtain rest where r: "cleanup_volumes rm owned vs (snd (DeleteVolume v db)) = (rest, db')" "removed = v # rest"
      using 2(3) False by (auto simp only: cleanup_volumes.simps if_False split: prod.splits)
    show ?thesis using 2(2) [OF False r(1)] 2(4) t False r(2) by auto
  qed
qed simp

text \<open>
  The cleanup removes only volumes of the daemon's list that have the name of a user volume and
  no owner in the database, whatever statements fail; it deletes nothing from the table of volumes,
  and removes nothing when the table cannot be read.  Every name the proxy gives to a volume is of
  the form the cleanup looks for.
\<close>

theorem cleanup_keeps_recorded:
  "(case runCleanup rm dangling db of (removed, db') \<Rightarrow>
      (\<forall>v \<in> set removed. isUserVolumePrefix v \<and> v \<notin> vName ` set (tVolumes db) \<and> (\<exists>vs. dangling = Some vs \<and> v \<in> set vs))
      \<and> tVolumes db' = tVolumes db
      \<and> (dbFault db ''GetAllVolumeNames'' 0 \<longrightarrow> removed = []))
   \<and> isUserVolumePrefix (UserVolumePrefix (int uid) @ name)"
proof
  have d: "takeWhile is_digit (nat_str (int uid) @ ''-volume-'' @ name) = nat_str (int uid)"
    "dropWhile is_digit (nat_str (int uid) @ ''-volume-'' @ name) = ''-volume-'' @ name"
    using list_all_is_digit_nat_str [of "int uid"]
    by (simp_all add: takeWhile_append dropWhile_append list_all_iff is_digit_def)
  show "isUserVolumePrefix (UserVolumePrefix (int uid) @ name)"
    using d by (simp add: isUserVolumePrefix_def UserVolumePrefix_def itoa_def)
  show "case runCleanup rm dangling db of (removed, db') \<Rightarrow>
      (\<forall>v \<in> set removed. isUserVolumePrefix v \<and> v \<notin> vName ` set (tVolumes db) \<and> (\<exists>vs. dangling = Some vs \<and> v \<in> set vs))
      \<and> tVolumes db' = tVolumes db \<and> (dbFault db ''GetAllVolumeNames'' 0 \<longrightarrow> removed = [])"
    using cleanup_volumes_removed [of rm "map vName (tVolumes db)" _ db]
    by (auto simp: runCleanup_def GetAllVolumeNames_def query_stmt_def split: prod.splits option.splits)
qed

definition demo_dangling :: "string list" where
  "demo_dangling = [''user-1001-volume-data'', ''user-1001-volume-old'', ''db'']"

theorem cleanup_keeps_recorded_witness:
  "fst (runCleanup (\<lambda>v. True) (Some demo_dangling) demo_volume_db) = [''user-1001-volume-old'']
   \<and> ''user-1001-volume-old'' \<notin> vName ` set (tVolumes demo_volume_db)"
proof -
  have e: "fst (runCleanup (\<lambda>v. True) (Some demo_dangling) demo_volume_db) = [''user-1001-volume-old'']" by code_simp
  obtain removed db' where r: "runCleanup (\<lambda>v. True) (Some demo_dangling) demo_volume_db = (removed, db')" by fastforce
  show ?thesis
    using cleanup_keeps_recorded [where rm = "\<lambda>v. True" and dangling = "Some demo_dangling" and db = demo_volume_db] e
    unfolding r by simp
qed

end
