(* ===== verification/QuotaProps.thy ===== *)
theory QuotaProps
  imports Quota StorageProps
begin

text \<open>
  What the quotas guarantee: a request that is not refused is forwarded with limits that do not
  exceed the quota of the caller; settings of a user take precedence and affect nobody else; a
  failed reload changes nothing.  The last section shows requests that are not measured as the
  daemon measures them.
\<close>

section \<open>Limits of a forwarded request\<close>

lemma default_or_limit_le: "default_or_limit d l \<le> l"
  by (simp add: default_or_limit_def)

lemma inject_cpu_get:
  assumes "distinct (map fst hc)"
  shows "distinct (map fst (inject_cpu q d req hc))"
    and "k \<noteq> ''NanoCpus'' \<Longrightarrow> map_of (inject_cpu q d req hc) k = map_of hc k"
    and "CPUCores q > 0 \<Longrightarrow> effectiveCPUNanos req = 0 \<Longrightarrow>
      map_of (inject_cpu q d req hc) ''NanoCpus'' = Some (JNum (default_or_limit (nanos d) (nanos (CPUCores q))))"
    and "CPUCores q > 0 \<Longrightarrow> effectiveCPUNanos req \<noteq> 0 \<Longrightarrow> inject_cpu q d req hc = hc"
  using assms by (simp_all add: inject_cpu_def distinct_fst_put del: map_of_eq_Some_iff)

lemma inject_memory_get:
  assumes "distinct (map fst hc)"
  shows "distinct (map fst (inject_memory q d req hc))"
    and "k \<notin> {''Memory'', ''MemorySwap'', ''MemorySwappiness'', ''MemoryReservation''} \<Longrightarrow>
      map_of (inject_memory q d req hc) k = map_of hc k"
    and "MemMB q > 0 \<Longrightarrow> map_of (inject_memory q d req hc) ''Memory'' = Some (JNum (final_memory q d req))"
    and "MemMB q > 0 \<Longrightarrow> map_of (inject_memory q d req hc) ''MemorySwap'' = Some (JNum (final_memory q d req))"
    and "MemMB q > 0 \<Longrightarrow> map_of (inject_memory q d req hc) ''MemorySwappiness'' = Some (JNum 0)"
  using assms by (simp_all add: inject_memory_def Let_def distinct_fst_put del: map_of_eq_Some_iff)

lemma inject_storage_get:
  assumes "distinct (map fst hc)"
  shows "k \<noteq> ''StorageOpt'' \<Longrightarrow> map_of (inject_storage q req hc) k = map_of hc k"
  using assms by (simp add: inject_storage_def Let_def)

lemma round_even_nonneg: "0 \<le> x \<Longrightarrow> 0 \<le> round_even x"
  by (simp add: round_even_def Let_def)

lemma nanos_nonneg:
  assumes "0 < c"
  shows "0 \<le> nanos c"
proof -
  have p: "0 < pow2 e" for e by (simp add: pow2_def)
  have "0 \<le> of_int (round_even (x / pow2 e)) * pow2 e" if "0 < x" for x e
    using round_even_nonneg [of "x / pow2 e"] p [of e] that by simp
  then have "0 \<le> round53 (c * 10 ^ 9)"
    using assms by (simp add: round53_def Let_def split: prod.split)
  then show ?thesis by (simp add: nanos_def)
qed

lemma request_within:
  assumes "request_exceeded numCPU q req = None"
  shows "CPUCores q > 0 \<Longrightarrow> effectiveCPUNanos req \<le> nanos (CPUCores q)"
    and "MemMB q > 0 \<Longrightarrow> 0 \<le> mem_bytes (MemMB q) \<Longrightarrow> final_memory q d req \<le> mem_bytes (MemMB q)"
  using assms default_or_limit_le nanos_nonneg [of "CPUCores q"]
  by (auto simp: request_exceeded_def cpu_exceeded_def memory_exceeded_def final_memory_def
      split: option.splits if_splits)


definition demo_quota :: QuotaEntry where
  "demo_quota = \<lparr>CPUCores = 2, MemMB = 512, StorageGB = 10, MaxContainers = 3, TmpfsSizeMB = 64, AllowedDevices = []\<rparr>"

definition mem_request :: "int \<Rightarrow> body" where
  "mem_request n = Doc (JObj [(''HostConfig'', JObj [(''Memory'', JNum n)])])"


section \<open>The manager\<close>

lemma user_change [simp]:
  "group_entries env (SetUserQuota v e m) n = group_entries env m n"
  "group_entries env (DeleteUserQuota v m) n = group_entries env m n"
  "defaults (SetUserQuota v e m) = defaults m" "defaults (DeleteUserQuota v m) = defaults m"
  by (simp_all add: group_entries_def SetUserQuota_def DeleteUserQuota_def cong del: if_weak_cong)

lemma user_quota_limits:
  "CPUCores (GetQuota env (SetUserQuota (RealUsername i) e m) i) = CPUCores e"
  "MemMB (GetQuota env (SetUserQuota (RealUsername i) e m) i) = MemMB e"
  "StorageGB (GetQuota env (SetUserQuota (RealUsername i) e m) i) = StorageGB e"
  "MaxContainers (GetQuota env (SetUserQuota (RealUsername i) e m) i) = MaxContainers e"
  "TmpfsSizeMB (GetQuota env (SetUserQuota (RealUsername i) e m) i) = (if TmpfsSizeMB e = 0 then 512 else TmpfsSizeMB e)"
  "set builtinAllowedDevices \<union> set (AllowedDevices e)
     \<subseteq> set (AllowedDevices (GetQuota env (SetUserQuota (RealUsername i) e m) i))"
  by (simp_all add: GetQuota_def Let_def, auto simp: SetUserQuota_def apply_user_def entryToRaw_def)

text \<open>
  A quota set for a user determines that user's limits, whatever the groups and the defaults
  say, can be read back, and leaves every other user's effective quota alone; deleting it again
  restores the effective quota of everyone if the user had no entry before.
\<close>

theorem user_quota_effective:
  "(let q = GetQuota env (SetUserQuota (RealUsername i) e m) i in
      CPUCores q = CPUCores e \<and> MemMB q = MemMB e \<and> StorageGB q = StorageGB e \<and> MaxContainers q = MaxContainers e
      \<and> TmpfsSizeMB q = (if TmpfsSizeMB e = 0 then 512 else TmpfsSizeMB e)
      \<and> set builtinAllowedDevices \<union> set (AllowedDevices e) \<subseteq> set (AllowedDevices q))
   \<and> GetUserQuota (SetUserQuota u e m) u = Some e
   \<and> (RealUsername i \<noteq> u \<longrightarrow> GetQuota env (SetUserQuota u e m) i = GetQuota env m i)
   \<and> (users m u = None \<longrightarrow> GetQuota env (DeleteUserQuota u (SetUserQuota u e m)) i = GetQuota env m i)"
proof (intro conjI impI)
  show "let q = GetQuota env (SetUserQuota (RealUsername i) e m) i in
      CPUCores q = CPUCores e \<and> MemMB q = MemMB e \<and> StorageGB q = StorageGB e \<and> MaxContainers q = MaxContainers e
      \<and> TmpfsSizeMB q = (if TmpfsSizeMB e = 0 then 512 else TmpfsSizeMB e)
      \<and> set builtinAllowedDevices \<union> set (AllowedDevices e) \<subseteq> set (AllowedDevices q)"
    unfolding Let_def by (intro conjI user_quota_limits)
  show "GetUserQuota (SetUserQuota u e m) u = Some e"
    by (simp add: GetUserQuota_def SetUserQuota_def rawToEntry_def entryToRaw_def)
  show "GetQuota env (SetUserQuota u e m) i = GetQuota env m i" if "RealUsername i \<noteq> u"
    using that by (simp add: GetQuota_def Let_def) (simp add: SetUserQuota_def)
  show "GetQuota env (DeleteUserQuota u (SetUserQuota u e m)) i = GetQuota env m i" if "users m u = None"
    using that by (simp add: GetQuota_def Let_def) (simp add: SetUserQuota_def DeleteUserQuota_def)
qed

theorem user_quota_effective_witness:
  "MemMB (GetQuota demo_env (SetUserQuota ''alice'' demo_quota DefaultQuotaManager) demo_identity) = 512
   \<and> GetQuota demo_env (SetUserQuota ''alice'' demo_quota DefaultQuotaManager) bob
       = GetQuota demo_env DefaultQuotaManager bob"
proof -
  have n: "RealUsername demo_identity = ''alice''" "RealUsername bob \<noteq> ''alice''" by code_simp+
  show ?thesis
    using user_quota_effective [of demo_env demo_identity demo_quota DefaultQuotaManager "''alice''"]
      user_quota_effective [of demo_env bob demo_quota DefaultQuotaManager "''alice''"] n
    by (simp add: Let_def demo_quota_def)
qed

definition negative_file :: QuotaConfig where
  "negative_file = \<lparr>cfgDefaults = zero_entry,
     cfgUsers = [(''alice'', (entryToRaw zero_entry)\<lparr>rawMemMB := Some (-1)\<rparr>)], cfgGroups = []\<rparr>"

text \<open>
  A reload either fails and leaves the manager as it was, or gives the manager that a restart
  with the same file would give.  The converse fails: a file with a negative limit for a user is
  refused by a reload and accepted at the start.
\<close>

theorem reload_as_restart:
  "(case Reload path file m of
      (None, m') \<Rightarrow> LoadQuotaManager file = Inr m'
    | (Some e, m') \<Rightarrow> m' = m)
   \<and> LoadQuotaManager (Some (Some negative_file)) = Inr (manager_of negative_file)
   \<and> fst (Reload ''quota.yaml'' (Some (Some negative_file)) m) = Some (NegativeUser ''alice'')"
  by (simp add: Reload_def LoadQuotaManager_def negative_file_def negative_entry_def negative_raw_def
      zero_entry_def entryToRaw_def split: option.split prod.split)

section \<open>Requests that are not measured as they are meant\<close>

definition cpu_request :: "int \<Rightarrow> body" where
  "cpu_request n = Doc (JObj [(''HostConfig'', JObj [(''CpuQuota'', JNum n)])])"

definition storage_request :: "string \<Rightarrow> body" where
  "storage_request s = Doc (JObj [(''HostConfig'', JObj [(''StorageOpt'', JObj [(''size'', JStr s)])])])"

text \<open>
  Three requests beyond a quota of two processors and ten gigabytes that are not refused: a
  processor quota whose conversion overflows 64 bits, and sizes of the storage with a unit of two
  letters or in bytes; the same amounts in the units the check knows are refused.
\<close>

theorem quota_units_unchecked:
  "(\<exists>b'. CheckAndInjectQuota 8 (cpu_request 18446744074) demo_quota 1000 fresh_db 1 256 = Inr b')
   \<and> (\<exists>e. CheckAndInjectQuota 8 (cpu_request 18446744) demo_quota 1000 fresh_db 1 256 = Inl (QuotaExceeded e))
   \<and> (\<exists>b'. CheckAndInjectQuota 8 (storage_request ''500GB'') demo_quota 1000 fresh_db 1 256 = Inr b')
   \<and> (\<exists>b'. CheckAndInjectQuota 8 (storage_request ''536870912000'') demo_quota 1000 fresh_db 1 256 = Inr b')
   \<and> (\<exists>e. CheckAndInjectQuota 8 (storage_request ''500G'') demo_quota 1000 fresh_db 1 256 = Inl (QuotaExceeded e))"
proof -
  have c: "containers_exceeded demo_quota 1000 fresh_db = None" by code_simp
  have acc: "\<exists>b'. CheckAndInjectQuota 8 b demo_quota 1000 fresh_db 1 256 = Inr b'"
    if "parseContainerRequest b = Some r" "request_exceeded 8 demo_quota r = None" "body_map b = Some (Some m)" for b r m
    using that c by (auto simp: CheckAndInjectQuota_def injectQuotaLimits_def set_key_def Let_def)
  have ref: "\<exists>e. CheckAndInjectQuota 8 b demo_quota 1000 fresh_db 1 256 = Inl (QuotaExceeded e)"
    if "parseContainerRequest b = Some r" "request_exceeded 8 demo_quota r = Some x" for b r x
    using that c by (auto simp: CheckAndInjectQuota_def)
  let ?c = "\<lambda>q. \<lparr>NanoCPUs = 0, CpuQuota = q, CpuPeriod = 0, reqMemory = 0, MemoryReservation = 0, StorageOpt = []\<rparr>"
  let ?s = "\<lambda>s. \<lparr>NanoCPUs = 0, CpuQuota = 0, CpuPeriod = 0, reqMemory = 0, MemoryReservation = 0, StorageOpt = [(''size'', s)]\<rparr>"
  have "map parseContainerRequest
      [cpu_request 18446744074, cpu_request 18446744, storage_request ''500GB'', storage_request ''536870912000'', storage_request ''500G''] =
    [Some (?c 18446744074), Some (?c 18446744), Some (?s ''500GB''), Some (?s ''536870912000''), Some (?s ''500G'')]"
    by code_simp
  then have p: "parseContainerRequest (cpu_request 18446744074) = Some (?c 18446744074)"
    "parseContainerRequest (cpu_request 18446744) = Some (?c 18446744)"
    "parseContainerRequest (storage_request ''500GB'') = Some (?s ''500GB'')"
    "parseContainerRequest (storage_request ''536870912000'') = Some (?s ''536870912000'')"
    "parseContainerRequest (storage_request ''500G'') = Some (?s ''500G'')"
    by simp_all
  have "map (request_exceeded 8 demo_quota)
      [?c 18446744074, ?c 18446744, ?s ''500GB'', ?s ''536870912000'', ?s ''500G''] =
    [None, Some (exceeded ''cpu'' 184467440000 2000000000), None, None, Some (exceeded ''storage'' 500 10)]"
    by code_simp
  then have r: "request_exceeded 8 demo_quota (?c 18446744074) = None"
    "request_exceeded 8 demo_quota (?c 18446744) = Some (exceeded ''cpu'' 184467440000 2000000000)"
    "request_exceeded 8 demo_quota (?s ''500GB'') = None"
    "request_exceeded 8 demo_quota (?s ''536870912000'') = None"
    "request_exceeded 8 demo_quota (?s ''500G'') = Some (exceeded ''storage'' 500 10)"
    by simp_all
  have m: "body_map (cpu_request n) = Some (Some [(''HostConfig'', JObj [(''CpuQuota'', JNum n)])])"
    "body_map (storage_request s) =
       Some (Some [(''HostConfig'', JObj [(''StorageOpt'', JObj [(''size'', JStr s)])])])" for n s
    by (simp_all add: cpu_request_def storage_request_def to_map_def map_put_def)
  show ?thesis
    using acc [OF p(1) r(1) m(1)] ref [OF p(2) r(2)] acc [OF p(3) r(3) m(2)] acc [OF p(4) r(4) m(2)]
      ref [OF p(5) r(5)] by blast
qed

text \<open>
  A zero in the entry of a group does not lift a limit for good: the entry of a later group
  sets it again, so that the order of the groups matters; and a tmpfs limit of zero becomes 512.
\<close>

theorem group_zero_overridden:
  "MemMB (fold apply_group [(entryToRaw zero_entry), (entryToRaw demo_quota)] q) = 512
   \<and> MemMB (fold apply_group [(entryToRaw demo_quota), (entryToRaw zero_entry)] q) = 0
   \<and> TmpfsSizeMB (GetQuota env (SetUserQuota (RealUsername i) zero_entry m) i) = 512"
  by (simp add: user_quota_limits apply_group_def entryToRaw_def zero_entry_def demo_quota_def raise_to_def Let_def)

section \<open>Two host configurations\<close>

definition two_memory_limits :: body where
  "two_memory_limits =
     Doc (JObj [(''hostconfig'', JObj [(''Memory'', JNum 107374182400)]), (''HostConfig'', JObj [(''Memory'', JNum 1048576)])])"

text \<open>
  The quota that is checked is not the one the daemon reads.  With two host configurations whose
  keys differ in case the last one counts for every reader; the check sees one megabyte in the
  second, but the body it forwards has its keys sorted, and reads as a request for a hundred
  gigabytes, which the same check refuses.
\<close>

theorem quota_check_not_stable:
  "\<exists>b' req. CheckAndInjectQuota 8 two_memory_limits demo_quota 1000 fresh_db 1 256 = Inr b' \<and>
     parseContainerRequest b' = Some req \<and> reqMemory req = 107374182400 \<and>
     request_exceeded 8 demo_quota req \<noteq> None"
proof -
  have "case CheckAndInjectQuota 8 two_memory_limits demo_quota 1000 fresh_db 1 256 of
          Inl _ \<Rightarrow> False
        | Inr b' \<Rightarrow> (case parseContainerRequest b' of
                      None \<Rightarrow> False
                    | Some req \<Rightarrow> reqMemory req = 107374182400 \<and> request_exceeded 8 demo_quota req \<noteq> None)"
    by code_simp
  then show ?thesis by (auto split: sum.splits option.splits)
qed

end
