(* ===== verification/Urls.thy ===== *)
theory Urls
  imports Names
begin

text \<open>
  The query string of a request URL, as \<^verbatim>\<open>net/url\<close> reads and writes it:
  \<^verbatim>\<open>QueryUnescape\<close>, \<^verbatim>\<open>ParseQuery\<close> (bad parameters are dropped and
  reported), \<^verbatim>\<open>QueryEscape\<close> and \<^verbatim>\<open>Values.Encode\<close>.  The proxy
  parses the query, replaces one value and encodes the result; the round trip shows that nothing
  else of the query is changed by that.
\<close>

section \<open>Escaping\<close>

definition hex_digit :: "nat \<Rightarrow> char" where
  "hex_digit n = ''0123456789ABCDEF'' ! (n mod 16)"

definition hex_val :: "char \<Rightarrow> nat" where
  "hex_val c =
     (let n = of_char c in
      if is_digit c then n - 48 else if 97 \<le> n \<and> n \<le> 102 then n - 87 else n - 55)"

definition unreserved :: "char \<Rightarrow> bool" where
  "unreserved c =
     (let n = (of_char c :: nat) in
      is_digit c \<or> (65 \<le> n \<and> n \<le> 90) \<or> (97 \<le> n \<and> n \<le> 122) \<or>
      c = CHR ''-'' \<or> c = CHR ''_'' \<or> c = CHR ''.'' \<or> c = CHR ''~'')"

definition escape_char :: "char \<Rightarrow> string" where
  "escape_char c =
     (if unreserved c then [c]
      else if c = CHR '' '' then ''+''
      else [CHR ''%'', hex_digit (of_char c div 16), hex_digit (of_char c mod 16)])"

definition query_escape :: "string \<Rightarrow> string" where
  "query_escape s = concat (map escape_char s)"

definition is_hex_digit :: "char \<Rightarrow> bool" where
  "is_hex_digit c = (c \<in> set ''0123456789abcdefABCDEF'')"

fun query_unescape :: "string \<Rightarrow> string option" where
  "query_unescape [] = Some []"
| "query_unescape (c # s) =
     (if c = CHR ''%'' then
        (case s of
           a # b # s' \<Rightarrow>
             (if is_hex_digit a \<and> is_hex_digit b
              then map_option (\<lambda>r. char_of (hex_val a * 16 + hex_val b) # r) (query_unescape s')
              else None)
         | _ \<Rightarrow> None)
      else map_option (\<lambda>r. (if c = CHR ''+'' then CHR '' '' else c) # r) (query_unescape s))"

section \<open>Values\<close>

text \<open>One parameter: \<^term>\<open>None\<close> is an error, \<^term>\<open>Some []\<close> an empty parameter.\<close>

definition parse_param :: "string \<Rightarrow> query_params option" where
  "parse_param p =
     (if CHR '';'' \<in> set p then None
      else if p = [] then Some []
      else case (query_unescape (before_char CHR ''='' p), query_unescape (after_char CHR ''='' p)) of
        (Some k, Some v) \<Rightarrow> Some [(k, v)]
      | _ \<Rightarrow> None)"

definition parse_params :: "string \<Rightarrow> query_params option list" where
  "parse_params raw = map parse_param (split_char CHR ''&'' raw)"

text \<open>\<^verbatim>\<open>r.URL.Query()\<close> drops what it cannot read.\<close>

definition url_values :: "string \<Rightarrow> query_params" where
  "url_values raw = concat (map (\<lambda>o'. case o' of None \<Rightarrow> [] | Some ps \<Rightarrow> ps) (parse_params raw))"

text \<open>\<^verbatim>\<open>url.ParseQuery\<close> with its error.\<close>

definition ParseQuery :: "string \<Rightarrow> query_params option" where
  "ParseQuery raw = (if None \<in> set (parse_params raw) then None else Some (url_values raw))"

definition encode_param :: "string \<times> string \<Rightarrow> string" where
  "encode_param p = query_escape (fst p) @ ''='' @ query_escape (snd p)"

definition Values_Encode :: "query_params \<Rightarrow> string" where
  "Values_Encode q = join_str ''&'' (map encode_param (sort_key fst q))"

section \<open>Round trip\<close>

lemma of_char_div: "of_char c div 16 < (16::nat)"
proof -
  have "(of_char c :: nat) < 256"
    using range_nat_of_char by (metis atLeastLessThan_iff rangeI)
  then show ?thesis by (intro less_mult_imp_div_less) simp
qed

lemma hex_digit_facts:
  assumes "n < 16"
  shows "hex_val (hex_digit n) = n" and "is_hex_digit (hex_digit n)"
    and "hex_digit n \<notin> {CHR '';'', CHR ''&'', CHR ''='', CHR ''%'', CHR ''+''}"
proof -
  have "list_all (\<lambda>n. hex_val (hex_digit n) = n \<and> is_hex_digit (hex_digit n) \<and>
      hex_digit n \<notin> {CHR '';'', CHR ''&'', CHR ''='', CHR ''%'', CHR ''+''}) [0..<16]"
    by code_simp
  then have "hex_val (hex_digit n) = n \<and> is_hex_digit (hex_digit n) \<and>
      hex_digit n \<notin> {CHR '';'', CHR ''&'', CHR ''='', CHR ''%'', CHR ''+''}"
    using assms unfolding list_all_iff set_upt by (meson atLeastLessThan_iff zero_le)
  then show "hex_val (hex_digit n) = n" "is_hex_digit (hex_digit n)"
    "hex_digit n \<notin> {CHR '';'', CHR ''&'', CHR ''='', CHR ''%'', CHR ''+''}" by blast+
qed

lemma unreserved_plain:
  assumes "unreserved c"
  shows "c \<notin> {CHR '';'', CHR ''&'', CHR ''='', CHR ''%'', CHR ''+''}"
  using assms by (auto simp: unreserved_def is_digit_def)

lemma escape_char_plain: "set (escape_char c) \<inter> {CHR '';'', CHR ''&'', CHR ''=''} = {}"
proof -
  have "of_char c div 16 < (16::nat)" "of_char c mod 16 < (16::nat)"
    by (simp_all add: of_char_div)
  then show ?thesis
    using unreserved_plain [of c] hex_digit_facts(3) [of "of_char c div 16"] hex_digit_facts(3) [of "of_char c mod 16"]
    by (auto simp: escape_char_def)
qed

lemma unescape_escape_char: "query_unescape (escape_char c @ s) = map_option (\<lambda>r. c # r) (query_unescape s)"
proof (cases "unreserved c")
  case True
  then show ?thesis using unreserved_plain [OF True] by (simp add: escape_char_def)
next
  case False
  show ?thesis
  proof (cases "c = CHR '' ''")
    case True
    then show ?thesis using False by (simp add: escape_char_def)
  next
    case no_space: False
    have "of_char c div 16 < (16::nat)" "of_char c mod 16 < (16::nat)" by (simp_all add: of_char_div)
    then show ?thesis
      using False no_space by (simp add: escape_char_def hex_digit_facts)
  qed
qed

lemma unescape_escape [simp]: "query_unescape (query_escape s) = Some s"
  by (induction s) (simp_all add: query_escape_def unescape_escape_char)

lemma escape_plain: "set (query_escape s) \<inter> {CHR '';'', CHR ''&'', CHR ''=''} = {}"
  using escape_char_plain by (fastforce simp: query_escape_def)

lemma parse_encode_param: "parse_param (encode_param (k, v)) = Some [(k, v)]"
proof -
  have k: "\<forall>x\<in>set (query_escape k). x \<noteq> CHR ''=''" using escape_plain [of k] by auto
  have b: "before_char CHR ''='' (encode_param (k, v)) = query_escape k"
    using k by (simp add: before_char_def encode_param_def takeWhile_append2)
  have a: "after_char CHR ''='' (encode_param (k, v)) = query_escape v"
    using k by (simp add: after_char_def encode_param_def dropWhile_append2)
  have "CHR '';'' \<notin> set (encode_param (k, v))" "encode_param (k, v) \<noteq> []"
    using escape_plain [of k] escape_plain [of v] by (auto simp: encode_param_def)
  then show ?thesis by (simp add: parse_param_def a b)
qed

lemma join_of_split:
  assumes "\<forall>x\<in>set xs. c \<notin> set x" "xs \<noteq> []"
  shows "split_char c (join_str [c] xs) = xs"
proof -
  have one: "c \<notin> set x \<Longrightarrow> split_char c x = [x]" for x by (induction x) auto
  have two: "c \<notin> set x \<Longrightarrow> split_char c (x @ c # r) = x # split_char c r" for x r
    by (induction x) auto
  show ?thesis using assms by (induction "[c]" xs rule: join_str.induct) (auto simp: one two)
qed

text \<open>An encoded query is read back without error, as the same parameters in the order of their keys.\<close>

lemma parse_encode: "ParseQuery (Values_Encode q) = Some (sort_key fst q)" and
  url_values_encode: "url_values (Values_Encode q) = sort_key fst q"
proof -
  have amp: "CHR ''&'' \<notin> set (encode_param p)" for p
    using escape_plain [of "fst p"] escape_plain [of "snd p"] by (auto simp: encode_param_def)
  have ps: "map parse_param (map encode_param xs) = map (\<lambda>p. Some [p]) xs" for xs
    using parse_encode_param by (simp add: split_paired_all)
  have "parse_params (Values_Encode q) = (if q = [] then [Some []] else map (\<lambda>p. Some [p]) (sort_key fst q))"
  proof (cases "q = []")
    case False
    then have "sort_key fst q \<noteq> []" by (metis length_sort length_0_conv)
    then have "split_char CHR ''&'' (Values_Encode q) = map encode_param (sort_key fst q)"
      unfolding Values_Encode_def by (intro join_of_split) (auto simp: amp)
    then show ?thesis using False ps unfolding parse_params_def by simp
  qed (simp add: parse_params_def Values_Encode_def parse_param_def)
  moreover have "concat (map (\<lambda>x. [x]) xs) = xs" for xs :: query_params by (induction xs) auto
  ultimately show "ParseQuery (Values_Encode q) = Some (sort_key fst q)" "url_values (Values_Encode q) = sort_key fst q"
    by (auto simp: ParseQuery_def url_values_def o_def)
qed

end
