(* ===== verification/Bridge.thy ===== *)
theory Bridge
  imports Storage
begin

text \<open>
  Package \<^verbatim>\<open>internal/isolation\<close>, file \<^verbatim>\<open>netbridge.go\<close>, the part that
  reads and rewrites container requests: published ports and the networks of a container.  Go
  ranges over a map in no fixed order; the model takes the order of the keys.
\<close>

section \<open>Published ports\<close>

record PortMapping =
  pmHostPort :: int
  pmContainerPort :: int
  pmProtocol :: string

definition scan_or_zero :: "string \<Rightarrow> int" where
  "scan_or_zero s = (case sscan_d s of None \<Rightarrow> 0 | Some n \<Rightarrow> n)"

text \<open>The mappings of one entry of the map: the key is the container port and the protocol.\<close>

definition port_entry :: "string \<Rightarrow> string list \<Rightarrow> PortMapping list" where
  "port_entry portProto hostPorts =
     (case split_two CHR ''/'' portProto of
        [port, proto] \<Rightarrow>
          map (\<lambda>h. \<lparr>pmHostPort = scan_or_zero h, pmContainerPort = scan_or_zero port, pmProtocol = proto\<rparr>)
            (filter (\<lambda>h. h \<noteq> [] \<and> scan_or_zero h > 0) hostPorts)
      | _ \<Rightarrow> [])"

definition ExtractPortMappings :: "body \<Rightarrow> PortMapping list" where
  "ExtractPortMappings b =
     (case host_config b of
        None \<Rightarrow> []
      | Some hc \<Rightarrow>
          (case field_map ''PortBindings'' hc of
             None \<Rightarrow> []
           | Some bindings \<Rightarrow>
               (case all_some (map (\<lambda>(k, j). map_option (\<lambda>hs. (k, hs)) (dec_structs (field_str ''HostPort'') j)) bindings) of
                  None \<Rightarrow> []
                | Some entries \<Rightarrow> concat (map (\<lambda>(k, hs). port_entry k hs) entries))))"

section \<open>Networks of a container\<close>

definition endpoints_of :: "json option \<Rightarrow> jmap" where
  "endpoints_of nc =
     (case nc of
        None \<Rightarrow> []
      | Some j \<Rightarrow>
          (case obj_entries j of
             None \<Rightarrow> []
           | Some es \<Rightarrow> (case field_map ''EndpointsConfig'' es of None \<Rightarrow> [] | Some m \<Rightarrow> m)))"

text \<open>The configuration of a requested network: under the name in the request, or under the full name.\<close>

definition endpoint_config :: "jmap \<Rightarrow> string list \<Rightarrow> nat \<Rightarrow> string \<Rightarrow> json" where
  "endpoint_config orig rawNames i netName =
     (let origName = (if i < length rawNames then rawNames ! i else netName) in
      case map_of orig origName of
        Some cfg \<Rightarrow> cfg
      | None \<Rightarrow> (case map_of orig netName of Some cfg \<Rightarrow> cfg | None \<Rightarrow> JObj []))"

fun add_requested :: "jmap \<Rightarrow> string list \<Rightarrow> string \<Rightarrow> nat \<Rightarrow> string list \<Rightarrow> jmap \<Rightarrow> jmap" where
  "add_requested orig rawNames bridgeName i [] eps = eps"
| "add_requested orig rawNames bridgeName i (n # ns) eps =
     add_requested orig rawNames bridgeName (Suc i) ns
       (if n = [] \<or> n = bridgeName then eps else map_put n (endpoint_config orig rawNames i n) eps)"

definition add_peers :: "string list \<Rightarrow> jmap \<Rightarrow> jmap" where
  "add_peers ids eps =
     fold (\<lambda>n e. if n \<noteq> [] \<and> map_of e n = None then map_put n (JObj []) e else e) ids eps"

definition primary_network :: "int \<Rightarrow> string list \<Rightarrow> string" where
  "primary_network uid nets =
     (if nets \<noteq> [] \<and> hd nets \<noteq> [] then hd nets else UserBridgeName uid)"

definition user_endpoints :: "body \<Rightarrow> jmap \<Rightarrow> int \<Rightarrow> string list \<Rightarrow> string list \<Rightarrow> jmap" where
  "user_endpoints b req uid peerNetworkIDs nets =
     add_peers peerNetworkIDs
       (add_requested (endpoints_of (map_of req ''NetworkingConfig'')) (ExtractRequestedNetworks b)
          (UserBridgeName uid) 0 nets [(UserBridgeName uid, JObj [])])"

definition InjectUserNetwork :: "body \<Rightarrow> int \<Rightarrow> string list \<Rightarrow> string list \<Rightarrow> (go_panic, body) result" where
  "InjectUserNetwork b uid peerNetworkIDs nets =
     (case body_map b of
        None \<Rightarrow> Inr b
      | Some None \<Rightarrow> Inl NilMapWrite
      | Some (Some req) \<Rightarrow>
          (let hc0 = (case sub_map (map_of req ''HostConfig'') of None \<Rightarrow> [] | Some m \<Rightarrow> m);
               hc = map_put ''NetworkMode'' (JStr (primary_network uid nets)) hc0;
               nc = JObj [(''EndpointsConfig'', JObj (user_endpoints b req uid peerNetworkIDs nets))]
           in Inr (Doc (JObj (map_put ''HostConfig'' (JObj hc) (map_put ''NetworkingConfig'' nc req))))))"

text \<open>The networks a request names that are the caller's own, under their full names.\<close>

definition skipped_network :: "CallerIdentity \<Rightarrow> string \<Rightarrow> bool" where
  "skipped_network i netName \<longleftrightarrow>
     netName \<in> {''default'', ''bridge'', ''host'', ''none'', UserBridgeName (RealUID i)}"

definition userRequestedNets :: "CallerIdentity \<Rightarrow> body \<Rightarrow> string list" where
  "userRequestedNets i b =
     map (\<lambda>n. if has_prefix n (UserResourcePrefix i) then n else UserResourcePrefix i @ n)
       (filter (\<lambda>n. \<not> skipped_network i n) (ExtractRequestedNetworks b))"

section \<open>Isolation of the forwarded request\<close>

lemma put_keys: "x \<in> fst ` set (map_put n v m) \<Longrightarrow> x = n \<or> x \<in> fst ` set m"
  by (auto simp: map_put_def set_insort)

lemma add_requested_keys:
  "x \<in> fst ` set (add_requested orig raw br i ns eps) \<Longrightarrow> x \<in> fst ` set eps \<or> x \<in> set ns"
proof (induction ns arbitrary: i eps)
  case (Cons n ns)
  let ?eps = "if n = [] \<or> n = br then eps else map_put n (endpoint_config orig raw i n) eps"
  have "x \<in> fst ` set ?eps \<or> x \<in> set ns" using Cons.IH [of "Suc i" ?eps] Cons.prems by simp
  then show ?case using put_keys [of x n _ eps] by (auto split: if_splits)
qed simp

lemma add_peers_keys: "x \<in> fst ` set (add_peers ids eps) \<Longrightarrow> x \<in> fst ` set eps \<or> x \<in> set ids"
proof (induction ids arbitrary: eps)
  case (Cons n ids)
  have u: "add_peers (n # ids) eps =
      add_peers ids (if n \<noteq> [] \<and> map_of eps n = None then map_put n (JObj []) eps else eps)"
    by (simp add: add_peers_def)
  show ?case using Cons.prems Cons.IH put_keys [of x n _ eps] unfolding u by (auto split: if_splits)
qed (simp add: add_peers_def)

lemma user_endpoints_keys:
  "x \<in> fst ` set (user_endpoints b req uid peers nets) \<Longrightarrow> x = UserBridgeName uid \<or> x \<in> set nets \<or> x \<in> set peers"
  unfolding user_endpoints_def using add_peers_keys add_requested_keys by fastforce

end
