(* ===== verification/Upstream.thy ===== *)
theory Upstream
  imports Urls Quota Bridge
begin

text \<open>
  What the proxy asks the Docker daemon itself, and the small helpers of
  \<^verbatim>\<open>internal/forward/proxy.go\<close> on identifiers, image references and replies.

  The daemon is a parameter: a function from method, path, raw query and body to the status and
  the body of the answer, \<^term>\<open>None\<close> when the round trip fails.  It stands for the answers the
  daemon gives while one request is handled.  Paths are taken in their unescaped form, and
  \<^verbatim>\<open>%q\<close> is the identity between quotes: names with characters that need escaping are
  outside the model.
\<close>

type_synonym daemon = "string \<Rightarrow> string \<Rightarrow> string \<Rightarrow> body \<Rightarrow> (int \<times> body) option"

abbreviation no_body :: body where
  "no_body \<equiv> Raw []"

definition daemon_get :: "daemon \<Rightarrow> string \<Rightarrow> string \<Rightarrow> (int \<times> body) option" where
  "daemon_get d path query = d ''GET'' path query no_body"

section \<open>Identifiers and references\<close>

definition truncID :: "string \<Rightarrow> string" where
  "truncID i = take 12 (trim_prefix i ''sha256:'')"

definition isValidHexID :: "string \<Rightarrow> bool" where
  "isValidHexID i \<longleftrightarrow> i \<noteq> [] \<and> length i \<le> 64 \<and> list_all is_hex_digit i"

definition normalizeImageRef :: "string \<Rightarrow> string" where
  "normalizeImageRef ref =
     (if has_prefix ref ''docker.io/library/'' then drop (length ''docker.io/library/'') ref else ref)"

definition parseImageRefFromURI :: "string \<Rightarrow> string" where
  "parseImageRefFromURI requestURI =
     (case index_char CHR ''?'' requestURI of
        None \<Rightarrow> []
      | Some idx \<Rightarrow>
          (case ParseQuery (drop (idx + 1) requestURI) of
             None \<Rightarrow> []
           | Some params \<Rightarrow>
               (let fromImage = query_get params ''fromImage'' in
                if fromImage = [] then []
                else
                  (let image = normalizeImageRef fromImage; tag = query_get params ''tag'' in
                   if tag \<noteq> [] \<and> tag \<noteq> ''latest'' then image @ '':'' @ tag else image))))"

definition refImageDigest :: "string \<Rightarrow> string" where
  "refImageDigest imageRef =
     (case last_index_char CHR ''@'' imageRef of
        Some i \<Rightarrow> (if i + 1 < length imageRef then drop (i + 1) imageRef else [])
      | None \<Rightarrow> [])"

definition isBuildKitImage :: "string \<Rightarrow> bool" where
  "isBuildKitImage imageRef =
     (let ref = to_lower imageRef in
      contains_str ref ''moby/buildkit'' \<or> contains_str ref ''docker/buildkit'')"

fun buildx_tags :: "string list \<Rightarrow> string list" where
  "buildx_tags [] = []"
| "buildx_tags [p] = (if has_prefix p ''--tag='' then [trim_prefix p ''--tag=''] else [])"
| "buildx_tags (p # v # ps) =
     (if p = ''-t'' \<or> p = ''--tag'' then v # buildx_tags ps
      else if has_prefix p ''--tag='' then trim_prefix p ''--tag='' # buildx_tags (v # ps)
      else buildx_tags (v # ps))"

definition parseBuildxTags :: "string \<Rightarrow> string list" where
  "parseBuildxTags cmd = buildx_tags (fields_str cmd)"

text \<open>
  The \<^verbatim>\<open>Image\<close> field of a body.  The error of the decoder is ignored, so a value of
  another type leaves the field as it was.
\<close>

definition image_field :: "body \<Rightarrow> string" where
  "image_field b =
     (case body_struct b of
        None \<Rightarrow> []
      | Some es \<Rightarrow> fold (\<lambda>j s. case j of JStr t \<Rightarrow> t | _ \<Rightarrow> s) (field_values ''Image'' es) [])"

section \<open>Questions to the daemon\<close>

text \<open>The string field of an answer with status 200, empty on every failure.\<close>

definition answer_field :: "string \<Rightarrow> (int \<times> body) option \<Rightarrow> string" where
  "answer_field name ans =
     (case ans of
        None \<Rightarrow> []
      | Some (status, b) \<Rightarrow>
          (if status \<noteq> 200 then []
           else case body_struct b of
             None \<Rightarrow> []
           | Some es \<Rightarrow> (case field_str name es of None \<Rightarrow> [] | Some s \<Rightarrow> s)))"

definition resolveImageIDByRef :: "daemon \<Rightarrow> string \<Rightarrow> string" where
  "resolveImageIDByRef d imageRef = answer_field ''Id'' (daemon_get d (''/images/'' @ imageRef @ ''/json'') [])"

definition resolveContainerDockerID :: "daemon \<Rightarrow> string \<Rightarrow> string" where
  "resolveContainerDockerID d nameOrID =
     answer_field ''Id'' (daemon_get d (''/containers/'' @ nameOrID @ ''/json'') [])"

text \<open>A map field is nil when it does not occur or its last occurrence is null.\<close>

definition nil_field :: "string \<Rightarrow> jmap \<Rightarrow> bool" where
  "nil_field name es = (let vs = field_values name es in vs = [] \<or> last vs = JNull)"

definition fetchContainerLabels :: "daemon \<Rightarrow> string \<Rightarrow> labels option" where
  "fetchContainerLabels d containerID =
     (case daemon_get d (''/containers/'' @ containerID @ ''/json'') [] of
        None \<Rightarrow> None
      | Some (status, b) \<Rightarrow>
          (if status \<noteq> 200 then None
           else case body_struct b of
             None \<Rightarrow> None
           | Some es \<Rightarrow>
               (case sub_struct ''Config'' es of
                  None \<Rightarrow> None
                | Some cfg \<Rightarrow>
                    (case field_str_map ''Labels'' cfg of
                       None \<Rightarrow> None
                     | Some ls \<Rightarrow> (if nil_field ''Labels'' cfg then None else Some ls)))))"

abbreviation quote :: string where
  "quote \<equiv> [CHR 0x22]"

definition reference_filter :: "string \<Rightarrow> string" where
  "reference_filter repo =
     ''filters='' @ query_escape (''{'' @ quote @ ''reference'' @ quote @ '':['' @ quote @ repo @ '':*'' @ quote @ '']}'')"

definition listImageIDsByRepo :: "daemon \<Rightarrow> string \<Rightarrow> string list" where
  "listImageIDsByRepo d repo =
     (case daemon_get d ''/images/json'' (reference_filter repo) of
        Some (status, Doc j) \<Rightarrow>
          (if status \<noteq> 200 then []
           else case dec_structs (field_str ''Id'') j of
             None \<Rightarrow> []
           | Some ids \<Rightarrow> rev (remdups (rev (filter (\<lambda>i. i \<noteq> []) ids))))
      | _ \<Rightarrow> [])"

definition imageHasOtherTags :: "daemon \<Rightarrow> string \<Rightarrow> string \<Rightarrow> bool" where
  "imageHasOtherTags d imageID excludeTag =
     (case daemon_get d (''/images/'' @ imageID @ ''/json'') [] of
        None \<Rightarrow> False
      | Some (status, b) \<Rightarrow>
          (if status \<noteq> 200 then False
           else case body_struct b of
             None \<Rightarrow> False
           | Some es \<Rightarrow>
               (case field_slice dec_str_list ''RepoTags'' es of
                  None \<Rightarrow> False
                | Some tags \<Rightarrow> list_ex (\<lambda>t. t \<noteq> excludeTag) tags)))"

section \<open>Replies\<close>

text \<open>
  What the proxy answers without the daemon: a not-found message of some kind, an error with
  a message, the violations found by the isolation checks (which carry their own text), or a
  success it makes up.  A panic ends the connection without an answer.
\<close>

datatype reply =
    NotFound string string
  | ErrorMsg int string
  | QuotaDenied QuotaExceededError
  | BindDenied BindMountViolation
  | TmpfsDenied TmpfsViolation
  | DeviceDenied string
  | VolumesFromDenied string
  | VolumeDenied string
  | Served body
  | Aborted go_panic

fun reply_status :: "reply \<Rightarrow> int option" where
  "reply_status (NotFound _ _) = Some 404"
| "reply_status (ErrorMsg code _) = Some code"
| "reply_status (QuotaDenied _) = Some 403"
| "reply_status (BindDenied _) = Some 403"
| "reply_status (TmpfsDenied _) = Some 403"
| "reply_status (DeviceDenied _) = Some 403"
| "reply_status (VolumesFromDenied _) = Some 403"
| "reply_status (VolumeDenied _) = Some 500"
| "reply_status (Served _) = Some 200"
| "reply_status (Aborted _) = None"

definition writeDockerNotFound :: "string \<Rightarrow> string \<Rightarrow> string" where
  "writeDockerNotFound kind name =
     (if kind = ''volume'' then ''get '' @ name @ '': no such volume''
      else if kind = ''image'' then ''No such image: '' @ name
      else if kind = ''network'' then ''network '' @ name @ '' not found''
      else ''No such container: '' @ name)"

section \<open>Requests\<close>

text \<open>
  A request as the handlers see it.  \<open>rqHasBody\<close> tells whether its body is a reader other
  than \<^verbatim>\<open>http.NoBody\<close>; the last two fields are the values the handlers pass on in the
  context of the request (published ports, and the name a resource gets upstream).
\<close>

record request =
  rqMethod :: string
  rqPath :: string
  rqRawQuery :: string
  rqBody :: body
  rqHasBody :: bool
  rqUpgrade :: string
  rqConnection :: string
  rqPorts :: "PortMapping list"
  rqRewritten :: string

definition url_query :: "request \<Rightarrow> query_params" where
  "url_query r = url_values (rqRawQuery r)"

definition query_param :: "request \<Rightarrow> string \<Rightarrow> string" where
  "query_param r k = query_get (url_query r) k"

definition RequestURI :: "request \<Rightarrow> string" where
  "RequestURI r = rqPath r @ (if rqRawQuery r = [] then [] else ''?'' @ rqRawQuery r)"

definition extractImageRefFromBody :: "request \<Rightarrow> string" where
  "extractImageRefFromBody r = image_field (rqBody r)"

text \<open>The three URL rewritings of a request of an unprivileged caller.\<close>

definition rewrite_url :: "CallerIdentity \<Rightarrow> request \<Rightarrow> request" where
  "rewrite_url i r =
     (case RewriteContainerURL (rqPath r, url_query r) (RealUID i) of
        (p, q) \<Rightarrow>
          r \<lparr>rqPath := RewriteVolumeURL (RewriteNetworkURL p i) (RealUID i),
             rqRawQuery := (if q = url_query r then rqRawQuery r else Values_Encode q)\<rparr>)"

end
