(* ===== verification/Firewall.thy ===== *)
theory Firewall
  imports Upstream
begin

text \<open>
  Package \<^verbatim>\<open>internal/isolation\<close>, file \<^verbatim>\<open>netbridge.go\<close>: the bridge network
  of each user, the isolation rules between bridges, and the networks shared by two users.

  \<^verbatim>\<open>iptables\<close> is the program of that name: a rule is matched by the incoming and the
  outgoing interface, the commands \<^verbatim>\<open>-N\<close>, \<^verbatim>\<open>-A\<close>, \<^verbatim>\<open>-I\<close>
  and \<^verbatim>\<open>-D\<close> behave as documented (\<^verbatim>\<open>-D\<close> removes the first equal rule and
  fails when there is none), and any call may fail without effect (\<open>fwFault\<close>).
\<close>

section \<open>iptables\<close>

datatype fw_target = DROP | Jump string

text \<open>An interface is matched as given, or negated (\<^verbatim>\<open>! -o br\<close>).\<close>

datatype iface_match = AnyIface | Is string | Not string

record fw_rule =
  rIn :: iface_match
  rOut :: iface_match
  rTarget :: fw_target

datatype ipt_cmd =
    NewChain string
  | AppendRule string fw_rule
  | InsertRule string fw_rule
  | DeleteRule string fw_rule

record firewall =
  fwChains :: "string \<rightharpoonup> fw_rule list"
  fwFault :: "ipt_cmd \<Rightarrow> bool"

fun ipt_run :: "ipt_cmd \<Rightarrow> (string \<rightharpoonup> fw_rule list) \<Rightarrow> (string \<rightharpoonup> fw_rule list) option" where
  "ipt_run (NewChain c) cs = (if cs c = None then Some (cs(c \<mapsto> [])) else None)"
| "ipt_run (AppendRule c r) cs = (case cs c of None \<Rightarrow> None | Some rs \<Rightarrow> Some (cs(c \<mapsto> rs @ [r])))"
| "ipt_run (InsertRule c r) cs = (case cs c of None \<Rightarrow> None | Some rs \<Rightarrow> Some (cs(c \<mapsto> r # rs)))"
| "ipt_run (DeleteRule c r) cs =
     (case cs c of
        None \<Rightarrow> None
      | Some rs \<Rightarrow> (if r \<in> set rs then Some (cs(c \<mapsto> remove1 r rs)) else None))"

definition iptables :: "ipt_cmd \<Rightarrow> firewall \<Rightarrow> bool \<times> firewall" where
  "iptables cmd fw =
     (if fwFault fw cmd then (False, fw)
      else case ipt_run cmd (fwChains fw) of
        None \<Rightarrow> (False, fw)
      | Some cs \<Rightarrow> (True, fw \<lparr>fwChains := cs\<rparr>))"

fun iface_matches :: "iface_match \<Rightarrow> string \<Rightarrow> bool" where
  "iface_matches AnyIface i = True"
| "iface_matches (Is n) i = (i = n)"
| "iface_matches (Not n) i = (i \<noteq> n)"

definition rule_matches :: "fw_rule \<Rightarrow> string \<Rightarrow> string \<Rightarrow> bool" where
  "rule_matches r inIf outIf \<longleftrightarrow> iface_matches (rIn r) inIf \<and> iface_matches (rOut r) outIf"

text \<open>
  Whether a packet is dropped by a chain.  A chain that is jumped to returns when no rule of it
  drops the packet; the chains of the program nest once, and a deeper jump has no effect here.
\<close>

definition chain_drops :: "fw_rule list \<Rightarrow> string \<Rightarrow> string \<Rightarrow> bool" where
  "chain_drops rs inIf outIf = list_ex (\<lambda>r. rule_matches r inIf outIf \<and> rTarget r = DROP) rs"

definition drops :: "(string \<rightharpoonup> fw_rule list) \<Rightarrow> fw_rule list \<Rightarrow> string \<Rightarrow> string \<Rightarrow> bool" where
  "drops cs rs inIf outIf =
     list_ex (\<lambda>r. rule_matches r inIf outIf \<and>
                  (case rTarget r of
                     DROP \<Rightarrow> True
                   | Jump c \<Rightarrow> (case cs c of None \<Rightarrow> False | Some sub \<Rightarrow> chain_drops sub inIf outIf))) rs"

section \<open>Isolation rules\<close>

definition iptablesChain :: string where
  "iptablesChain = ''DOCKER-USER''"

definition isolationChain :: string where
  "isolationChain = ''DOCKER-AUTHZ-ISOLATION''"

definition old_in_rule :: "string \<Rightarrow> fw_rule" where
  "old_in_rule br = \<lparr>rIn = Not br, rOut = Is br, rTarget = DROP\<rparr>"

definition old_out_rule :: "string \<Rightarrow> fw_rule" where
  "old_out_rule br = \<lparr>rIn = Is br, rOut = Not br, rTarget = DROP\<rparr>"

definition drop_rule :: "string \<Rightarrow> fw_rule" where
  "drop_rule br = \<lparr>rIn = AnyIface, rOut = Is br, rTarget = DROP\<rparr>"

definition jump_rule :: "string \<Rightarrow> fw_rule" where
  "jump_rule br = \<lparr>rIn = Is br, rOut = Not br, rTarget = Jump isolationChain\<rparr>"

text \<open>\<^verbatim>\<open>_ = iptables(...)\<close>.\<close>

definition ipt_ign :: "ipt_cmd \<Rightarrow> firewall \<Rightarrow> firewall" where
  "ipt_ign cmd fw = snd (iptables cmd fw)"

definition ensureIsolationChain :: "firewall \<Rightarrow> firewall" where
  "ensureIsolationChain fw = ipt_ign (NewChain isolationChain) fw"

definition addIsolationRules :: "string \<Rightarrow> firewall \<Rightarrow> bool \<times> firewall" where
  "addIsolationRules br fw =
     (let fw1 = ensureIsolationChain fw;
          fw2 = ipt_ign (DeleteRule iptablesChain (old_in_rule br)) fw1;
          fw3 = ipt_ign (DeleteRule iptablesChain (old_out_rule br)) fw2;
          fw4 = ipt_ign (DeleteRule isolationChain (drop_rule br)) fw3
      in case iptables (AppendRule isolationChain (drop_rule br)) fw4 of
           (False, fw5) \<Rightarrow> (False, fw5)
         | (True, fw5) \<Rightarrow>
             (let fw6 = ipt_ign (DeleteRule iptablesChain (jump_rule br)) fw5
              in case iptables (InsertRule iptablesChain (jump_rule br)) fw6 of
                   (False, fw7) \<Rightarrow> (False, ipt_ign (DeleteRule isolationChain (drop_rule br)) fw7)
                 | (True, fw7) \<Rightarrow> (True, fw7)))"

definition removeIsolationRules :: "string \<Rightarrow> firewall \<Rightarrow> firewall" where
  "removeIsolationRules br fw =
     ipt_ign (DeleteRule iptablesChain (old_out_rule br))
      (ipt_ign (DeleteRule iptablesChain (old_in_rule br))
       (ipt_ign (DeleteRule isolationChain (drop_rule br))
        (ipt_ign (DeleteRule iptablesChain (jump_rule br)) fw)))"

section \<open>Networks of the daemon\<close>

datatype net_error = Unreachable | BadStatus int | BadAnswer | NoInterface

definition findNetworkByName :: "daemon \<Rightarrow> string \<Rightarrow> (net_error, string) result" where
  "findNetworkByName d name =
     (case daemon_get d (''/networks/'' @ name) [] of
        None \<Rightarrow> Inl Unreachable
      | Some (status, b) \<Rightarrow>
          (if status = 404 then Inr []
           else if status \<noteq> 200 then Inl (BadStatus status)
           else case body_struct b of
             None \<Rightarrow> Inl BadAnswer
           | Some es \<Rightarrow> (case field_str ''Id'' es of None \<Rightarrow> Inl BadAnswer | Some i \<Rightarrow> Inr i)))"

definition createNetwork :: "daemon \<Rightarrow> json \<Rightarrow> (net_error, string) result" where
  "createNetwork d req =
     (case d ''POST'' ''/networks/create'' [] (Doc req) of
        None \<Rightarrow> Inl Unreachable
      | Some (status, b) \<Rightarrow>
          (if status \<noteq> 201 then Inl (BadStatus status)
           else case body_struct b of
             None \<Rightarrow> Inl BadAnswer
           | Some es \<Rightarrow> (case field_str ''Id'' es of None \<Rightarrow> Inl BadAnswer | Some i \<Rightarrow> Inr i)))"

definition getBridgeInterface :: "daemon \<Rightarrow> string \<Rightarrow> (net_error, string) result" where
  "getBridgeInterface d networkID =
     (case daemon_get d (''/networks/'' @ networkID) [] of
        None \<Rightarrow> Inl Unreachable
      | Some (status, b) \<Rightarrow>
          (if status \<noteq> 200 then Inl (BadStatus status)
           else case body_struct b of
             None \<Rightarrow> Inl BadAnswer
           | Some es \<Rightarrow>
               (case field_str_map ''Options'' es of
                  None \<Rightarrow> Inl BadAnswer
                | Some opts \<Rightarrow>
                    (case map_of opts bridgeNameOpt of
                       Some iface \<Rightarrow>
                         (if iface \<noteq> [] then Inr iface
                          else if length networkID \<ge> 12 then Inr (''br-'' @ take 12 networkID)
                          else Inl NoInterface)
                     | None \<Rightarrow>
                         (if length networkID \<ge> 12 then Inr (''br-'' @ take 12 networkID)
                          else Inl NoInterface)))))"

text \<open>
  The bodies of the requests that create a network, with the keys in the order of the encoder.
\<close>

definition bridge_options :: json where
  "bridge_options =
     JObj [(''com.docker.network.bridge.enable_icc'', JStr ''true''),
           (''com.docker.network.bridge.enable_ip_masquerade'', JStr ''true'')]"

definition bridge_request :: "int \<Rightarrow> string \<Rightarrow> json" where
  "bridge_request uid username =
     JObj [(''Driver'', JStr ''bridge''),
           (''Labels'',
            JObj [(''docker-authz-proxy.managed'', JStr ''true''),
                  (''docker-authz-proxy.owner_uid'', JStr (itoa uid)),
                  (''docker-authz-proxy.owner_username'', JStr username)]),
           (''Name'', JStr (UserBridgeName uid)),
           (''Options'', bridge_options)]"

definition peer_request :: "string \<Rightarrow> int \<Rightarrow> int \<Rightarrow> json" where
  "peer_request name uidA uidB =
     JObj [(''Driver'', JStr ''bridge''),
           (''Labels'',
            JObj [(''docker-authz-proxy.managed'', JStr ''true''),
                  (''docker-authz-proxy.peer_uid_a'', JStr (itoa uidA)),
                  (''docker-authz-proxy.peer_uid_b'', JStr (itoa uidB)),
                  (''docker-authz-proxy.type'', JStr ''peer'')]),
           (''Name'', JStr name),
           (''Options'', bridge_options)]"

text \<open>The bridge manager keeps the rules and the networks whose rules it has migrated.\<close>

record bridge_state =
  bsFirewall :: firewall
  bsMigrated :: "string list"

definition isolate_network :: "daemon \<Rightarrow> string \<Rightarrow> firewall \<Rightarrow> firewall" where
  "isolate_network d networkID fw =
     (case getBridgeInterface d networkID of
        Inr br \<Rightarrow> (if br \<noteq> [] then snd (addIsolationRules br fw) else fw)
      | Inl _ \<Rightarrow> fw)"

definition found_network :: "daemon \<Rightarrow> string \<Rightarrow> string option" where
  "found_network d name =
     (case findNetworkByName d name of Inr i \<Rightarrow> (if i = [] then None else Some i) | Inl _ \<Rightarrow> None)"

definition EnsureUserBridge ::
  "daemon \<Rightarrow> int \<Rightarrow> string \<Rightarrow> bridge_state \<Rightarrow> (net_error, string) result \<times> bridge_state" where
  "EnsureUserBridge d uid username st =
     (case found_network d (UserBridgeName uid) of
        Some i \<Rightarrow>
          (if i \<in> set (bsMigrated st) then (Inr i, st)
           else (Inr i, st \<lparr>bsMigrated := i # bsMigrated st,
                            bsFirewall := isolate_network d i (bsFirewall st)\<rparr>))
      | None \<Rightarrow>
          (case createNetwork d (bridge_request uid username) of
             Inl e \<Rightarrow> (Inl e, st)
           | Inr networkID \<Rightarrow>
               (Inr networkID, st \<lparr>bsFirewall := isolate_network d networkID (bsFirewall st)\<rparr>)))"

definition deleteNetwork :: "daemon \<Rightarrow> string \<Rightarrow> net_error option" where
  "deleteNetwork d i =
     (case d ''DELETE'' (''/networks/'' @ i) [] no_body of
        None \<Rightarrow> Some Unreachable
      | Some (status, _) \<Rightarrow> (if status \<noteq> 204 \<and> status \<noteq> 200 then Some (BadStatus status) else None))"

definition DeleteUserBridge :: "daemon \<Rightarrow> int \<Rightarrow> bridge_state \<Rightarrow> net_error option \<times> bridge_state" where
  "DeleteUserBridge d uid st =
     (case found_network d (UserBridgeName uid) of
        None \<Rightarrow> (None, st)
      | Some i \<Rightarrow>
          (let fw = (case getBridgeInterface d i of
                       Inr br \<Rightarrow> (if br \<noteq> [] then removeIsolationRules br (bsFirewall st) else bsFirewall st)
                     | Inl _ \<Rightarrow> bsFirewall st)
           in (deleteNetwork d i, st \<lparr>bsFirewall := fw\<rparr>)))"

definition createPeerNetworkWithName :: "daemon \<Rightarrow> string \<Rightarrow> int \<Rightarrow> int \<Rightarrow> (net_error, string) result" where
  "createPeerNetworkWithName d name uidA uidB =
     (case found_network d name of
        Some i \<Rightarrow> Inr i
      | None \<Rightarrow> createNetwork d (peer_request name uidA uidB))"

definition CreatePeerNetwork :: "daemon \<Rightarrow> int \<Rightarrow> int \<Rightarrow> (net_error, string) result" where
  "CreatePeerNetwork d uidA uidB = createPeerNetworkWithName d (PeerNetworkName uidA uidB) uidA uidB"

definition CreateContainerPeerNetwork ::
  "daemon \<Rightarrow> int \<Rightarrow> int \<Rightarrow> string \<Rightarrow> string \<Rightarrow> (net_error, string) result" where
  "CreateContainerPeerNetwork d uidA uidB shortA shortB =
     createPeerNetworkWithName d
       (''cpeer-'' @ itoa uidA @ ''-'' @ itoa uidB @ ''-'' @ shortA @ ''-'' @ shortB) uidA uidB"

section \<open>Which packets the rules drop\<close>

text \<open>
  The abstract content of the firewall is the set of isolated bridges.  Without faults the rules
  represent it exactly; with faults a successful call still isolates its bridge.
\<close>

lemma chains_differ [simp]: "iptablesChain \<noteq> isolationChain" "isolationChain \<noteq> iptablesChain"
  by (simp_all add: iptablesChain_def isolationChain_def)

lemma rules_inj [simp]:
  "jump_rule a = jump_rule b \<longleftrightarrow> a = b" "drop_rule a = drop_rule b \<longleftrightarrow> a = b"
  "old_in_rule a \<noteq> jump_rule b" "old_out_rule a \<noteq> jump_rule b"
  by (simp_all add: jump_rule_def drop_rule_def old_in_rule_def old_out_rule_def)

lemma remove1_map_inj: "inj f \<Longrightarrow> remove1 (f x) (map f xs) = map f (remove1 x xs)"
  by (induction xs) (auto simp: inj_eq)

lemma inj_rules: "inj jump_rule" "inj drop_rule"
  by (simp_all add: inj_def)

definition represents :: "firewall \<Rightarrow> string set \<Rightarrow> bool" where
  "represents fw S \<longleftrightarrow>
     (\<forall>c. \<not> fwFault fw c) \<and>
     (\<exists>us ds. fwChains fw iptablesChain = Some (map jump_rule us) \<and> distinct us \<and> set us = S \<and>
              distinct ds \<and> set ds = S \<and>
              (fwChains fw isolationChain = Some (map drop_rule ds) \<or>
               fwChains fw isolationChain = None \<and> ds = []))"

lemma representsI:
  assumes "\<And>c. \<not> fwFault fw c" "fwChains fw iptablesChain = Some (map jump_rule us)"
    "fwChains fw isolationChain = Some (map drop_rule ds) \<or> fwChains fw isolationChain = None \<and> ds = []"
    "distinct us" "set us = S" "distinct ds" "set ds = S"
  shows "represents fw S"
  using assms unfolding represents_def by blast

lemma representsE:
  assumes "represents fw S"
  obtains us ds where "\<And>c. \<not> fwFault fw c" "fwChains fw iptablesChain = Some (map jump_rule us)"
    "distinct us" "set us = S" "distinct ds" "set ds = S"
    "fwChains fw isolationChain = Some (map drop_rule ds) \<or> fwChains fw isolationChain = None \<and> ds = []"
  using assms unfolding represents_def by blast

lemma ipt_delete:
  assumes "\<not> fwFault fw (DeleteRule c r)" "fwChains fw c = Some rs"
  shows "ipt_ign (DeleteRule c r) fw = fw \<lparr>fwChains := (fwChains fw)(c \<mapsto> remove1 r rs)\<rparr>"
proof (cases "r \<in> set rs")
  case False
  then have "(fwChains fw)(c \<mapsto> remove1 r rs) = fwChains fw"
    using assms by (auto simp: remove1_idem)
  then show ?thesis using assms False by (simp add: ipt_ign_def iptables_def)
qed (use assms in \<open>simp add: ipt_ign_def iptables_def\<close>)

lemma remove1_notin: "x \<notin> set xs \<Longrightarrow> remove1 x xs = xs"
  by (induction xs) auto

lemma old_rules_absent:
  "remove1 (old_in_rule br) (map jump_rule us) = map jump_rule us"
  "remove1 (old_out_rule br) (map jump_rule us) = map jump_rule us"
  by (auto intro!: remove1_notin)

lemma ensure_chain:
  assumes "represents fw S"
  obtains us ds where "\<And>c. \<not> fwFault (ensureIsolationChain fw) c"
    "fwChains (ensureIsolationChain fw) iptablesChain = Some (map jump_rule us)"
    "fwChains (ensureIsolationChain fw) isolationChain = Some (map drop_rule ds)"
    "distinct us" "set us = S" "distinct ds" "set ds = S"
proof -
  obtain us ds where
    u: "\<And>c. \<not> fwFault fw c" "fwChains fw iptablesChain = Some (map jump_rule us)" and
    d: "distinct us" "set us = S" "distinct ds" "set ds = S" and
    i: "fwChains fw isolationChain = Some (map drop_rule ds) \<or> fwChains fw isolationChain = None \<and> ds = []"
    using representsE [OF assms] by metis
  have "\<not> fwFault (ensureIsolationChain fw) c" for c
    using u i by (auto simp: ensureIsolationChain_def ipt_ign_def iptables_def)
  moreover have "fwChains (ensureIsolationChain fw) iptablesChain = Some (map jump_rule us)"
    "fwChains (ensureIsolationChain fw) isolationChain = Some (map drop_rule ds)"
    using u i by (auto simp: ensureIsolationChain_def ipt_ign_def iptables_def)
  ultimately show thesis using that d by blast
qed

lemma add_represents:
  assumes "represents fw S"
  shows "fst (addIsolationRules br fw)" and "represents (snd (addIsolationRules br fw)) (insert br S)"
proof -
  obtain us ds where
    f: "\<And>c. \<not> fwFault (ensureIsolationChain fw) c" and
    c: "fwChains (ensureIsolationChain fw) iptablesChain = Some (map jump_rule us)"
       "fwChains (ensureIsolationChain fw) isolationChain = Some (map drop_rule ds)" and
    d: "distinct us" "set us = S" "distinct ds" "set ds = S"
    using ensure_chain [OF assms] by metis
  let ?us = "br # remove1 br us" and ?ds = "remove1 br ds @ [br]"
  have eq: "addIsolationRules br fw = (True, ensureIsolationChain fw
      \<lparr>fwChains := (fwChains (ensureIsolationChain fw))
         (isolationChain \<mapsto> map drop_rule ?ds, iptablesChain \<mapsto> map jump_rule ?us)\<rparr>)"
    using f c
    by (simp add: addIsolationRules_def Let_def ipt_delete old_rules_absent remove1_map_inj inj_rules iptables_def
        fun_upd_twist fun_upd_idem)
  show "fst (addIsolationRules br fw)" by (simp add: eq)
  have "distinct ?us" "set ?us = insert br S" "distinct ?ds" "set ?ds = insert br S"
    using d by (auto simp: set_remove1_eq distinct_remove1)
  then show "represents (snd (addIsolationRules br fw)) (insert br S)"
    using f by (intro representsI [where us = ?us and ds = ?ds]) (simp_all add: eq)
qed

lemma remove_represents:
  assumes "represents fw S"
  shows "represents (removeIsolationRules br fw) (S - {br})"
proof -
  obtain us ds where
    f: "\<And>c. \<not> fwFault fw c" and c: "fwChains fw iptablesChain = Some (map jump_rule us)" and
    d: "distinct us" "set us = S" "distinct ds" "set ds = S" and
    i: "fwChains fw isolationChain = Some (map drop_rule ds) \<or> fwChains fw isolationChain = None \<and> ds = []"
    using representsE [OF assms] by metis
  let ?us = "remove1 br us" and ?ds = "remove1 br ds"
  have s: "distinct ?us" "set ?us = S - {br}" "distinct ?ds" "set ?ds = S - {br}"
    using d by (auto simp: set_remove1_eq distinct_remove1)
  from i show ?thesis
  proof
    assume "fwChains fw isolationChain = Some (map drop_rule ds)"
    then have "removeIsolationRules br fw = fw \<lparr>fwChains := (fwChains fw)
        (iptablesChain \<mapsto> map jump_rule ?us, isolationChain \<mapsto> map drop_rule ?ds)\<rparr>"
      using f c by (simp add: removeIsolationRules_def ipt_delete old_rules_absent remove1_map_inj inj_rules fun_upd_idem)
    then show ?thesis using f s by (intro representsI [where us = ?us and ds = ?ds]) simp_all
  next
    assume n: "fwChains fw isolationChain = None \<and> ds = []"
    have "ipt_ign (DeleteRule isolationChain r) fw' = fw'" if "fwChains fw' isolationChain = None" for r fw'
      using that by (simp add: ipt_ign_def iptables_def)
    then have "removeIsolationRules br fw = fw \<lparr>fwChains := (fwChains fw)(iptablesChain \<mapsto> map jump_rule ?us)\<rparr>"
      using f c n by (simp add: removeIsolationRules_def ipt_delete old_rules_absent remove1_map_inj inj_rules fun_upd_idem)
    then show ?thesis using f s n by (intro representsI [where us = ?us and ds = ?ds]) simp_all
  qed
qed

lemma represents_drops:
  assumes "represents fw S" "fwChains fw iptablesChain = Some rs"
  shows "drops (fwChains fw) rs a b \<longleftrightarrow> a \<noteq> b \<and> a \<in> S \<and> b \<in> S"
proof -
  obtain us ds where
    c: "fwChains fw iptablesChain = Some (map jump_rule us)" and
    d: "set us = S" "set ds = S" and
    i: "fwChains fw isolationChain = Some (map drop_rule ds) \<or> fwChains fw isolationChain = None \<and> ds = []"
    using representsE [OF assms(1)] by metis
  have sub: "(case fwChains fw isolationChain of None \<Rightarrow> False | Some s \<Rightarrow> chain_drops s a b) \<longleftrightarrow> b \<in> S"
  proof -
    have "chain_drops (map drop_rule ds) a b \<longleftrightarrow> b \<in> set ds"
      by (simp add: chain_drops_def list_ex_iff rule_matches_def drop_rule_def)
    then show ?thesis using i unfolding d(2) [symmetric] by (elim disjE) simp_all
  qed
  have "drops (fwChains fw) rs a b \<longleftrightarrow> (\<exists>u\<in>set us. a = u \<and> b \<noteq> u \<and>
      (case fwChains fw isolationChain of None \<Rightarrow> False | Some s \<Rightarrow> chain_drops s a b))"
    using c assms(2) by (simp add: drops_def list_ex_iff rule_matches_def jump_rule_def)
  then show ?thesis unfolding sub using d by blast
qed

section \<open>Isolation of the bridges\<close>

text \<open>The two operations of the program on the rules, and what they do to the set of isolated bridges.\<close>

datatype fw_op = AddBridge string | RemoveBridge string

fun fw_exec :: "fw_op \<Rightarrow> firewall \<Rightarrow> firewall" where
  "fw_exec (AddBridge br) fw = snd (addIsolationRules br fw)"
| "fw_exec (RemoveBridge br) fw = removeIsolationRules br fw"

fun fw_spec :: "fw_op \<Rightarrow> string set \<Rightarrow> string set" where
  "fw_spec (AddBridge br) S = insert br S"
| "fw_spec (RemoveBridge br) S = S - {br}"

text \<open>The firewall as dockerd leaves it: an empty chain for the user's rules.\<close>

definition docker_firewall :: firewall where
  "docker_firewall = \<lparr>fwChains = [iptablesChain \<mapsto> []], fwFault = (\<lambda>_. False)\<rparr>"

definition packet_dropped :: "firewall \<Rightarrow> string \<Rightarrow> string \<Rightarrow> bool" where
  "packet_dropped fw inIf outIf =
     (case fwChains fw iptablesChain of None \<Rightarrow> False | Some rs \<Rightarrow> drops (fwChains fw) rs inIf outIf)"

lemma run_represents: "represents (fold fw_exec ops docker_firewall) (fold fw_spec ops {})"
proof -
  have step: "represents fw S \<Longrightarrow> represents (fw_exec x fw) (fw_spec x S)" for x fw S
    by (cases x) (simp_all add: add_represents remove_represents)
  have "represents fw S \<Longrightarrow> represents (fold fw_exec ops fw) (fold fw_spec ops S)" for fw S
    by (induction ops arbitrary: fw S) (simp_all add: step)
  moreover have "represents docker_firewall {}"
    by (intro representsI [where us = "[]" and ds = "[]"]) (simp_all add: docker_firewall_def)
  ultimately show ?thesis by blast
qed

text \<open>
  C2. After any sequence of additions and removals of bridges, the rules drop a
  packet exactly when it goes from one isolated bridge to another one: bridges of different users
  are separated, while traffic inside a bridge and to other interfaces passes.
\<close>

theorem isolation_exact:
  "packet_dropped (fold fw_exec ops docker_firewall) a b \<longleftrightarrow>
     a \<noteq> b \<and> a \<in> fold fw_spec ops {} \<and> b \<in> fold fw_spec ops {}"
proof -
  obtain rs where "fwChains (fold fw_exec ops docker_firewall) iptablesChain = Some rs"
    using run_represents representsE by metis
  then show ?thesis
    using represents_drops [OF run_represents] by (simp add: packet_dropped_def)
qed

end
