(* ===== verification/Access.thy ===== *)
theory Access
  imports Firewall
begin

text \<open>
  Package \<^verbatim>\<open>internal/forward\<close>, file \<^verbatim>\<open>proxy.go\<close>: the checks on
  single resources that \<^verbatim>\<open>checkOwnershipPreRequest\<close> is made of (containers, images,
  networks, ports, volumes and swarm objects).

  A handler works on the state of the proxy and either answers the client itself (a reply) or
  lets the request go on.  Log and audit entries are left out.
\<close>

section \<open>State and configuration of the proxy\<close>

record pruneOwnerInfo =
  ownerUID :: int
  poPrivCtx :: int

text \<open>
  \<open>wPendingBuilds\<close> tells for which users a BuildKit build ended less than 30 seconds ago;
  the last five maps bridge the time between an operation and the daemon's event about it.
\<close>

record world =
  wDB :: OwnershipDB
  wBridge :: bridge_state
  wPendingBuilds :: "int \<Rightarrow> bool"
  pendingBuildTags :: "string \<rightharpoonup> pruneOwnerInfo"
  pendingPullRefs :: "string \<rightharpoonup> pruneOwnerInfo"
  completedPullOwner :: "string \<rightharpoonup> pruneOwnerInfo"
  completedBuildOwner :: "string \<rightharpoonup> pruneOwnerInfo"
  completedPruneOwner :: "string \<rightharpoonup> pruneOwnerInfo"

text \<open>
  The configuration and the surroundings of one request: policy, quotas, the operating system,
  the daemon and the databases the handler finds when it polls while other requests go on.
\<close>

record proxy =
  pxPolicy :: Policy
  pxQuota :: "QuotaManager option"
  pxStorageBase :: string
  pxAllowHomeBind :: bool
  pxOS :: os_env
  pxCPUs :: int
  pxDaemon :: daemon
  pxPolls :: "OwnershipDB list"

type_synonym 'a handler = "world \<Rightarrow> (reply, 'a) result \<times> world"

definition pass :: "'a \<Rightarrow> 'a handler" where
  "pass x w = (Inr x, w)"

definition refuse :: "reply \<Rightarrow> 'a handler" where
  "refuse r w = (Inl r, w)"

definition and_then :: "'a handler \<Rightarrow> ('a \<Rightarrow> 'b handler) \<Rightarrow> 'b handler" where
  "and_then m f w = (case m w of (Inl r, w') \<Rightarrow> (Inl r, w') | (Inr x, w') \<Rightarrow> f x w')"

text \<open>A check that only reads the database.\<close>

definition check_db :: "(OwnershipDB \<Rightarrow> reply option) \<Rightarrow> unit handler" where
  "check_db f w = (case f (wDB w) of Some r \<Rightarrow> (Inl r, w) | None \<Rightarrow> (Inr (), w))"

definition only_if :: "bool \<Rightarrow> unit handler \<Rightarrow> unit handler" where
  "only_if b m = (if b then m else pass ())"

abbreviation apostrophe :: string where
  "apostrophe \<equiv> [CHR 0x27]"

definition not_permitted :: "CallerIdentity \<Rightarrow> string \<Rightarrow> reply" where
  "not_permitted i action =
     ErrorMsg 403 (''user '' @ apostrophe @ RealUsername i @ apostrophe @ ''(uid='' @ itoa (RealUID i) @
                   '') not permitted to perform: '' @ action)"

section \<open>Containers\<close>

text \<open>The uid in a label: digits only, in 64-bit arithmetic.\<close>

definition label_uid :: "string \<Rightarrow> int option" where
  "label_uid s =
     (if list_all is_digit s then Some (fold (\<lambda>c u. wrap64 (u * 10 + digit_val c)) s 0) else None)"

definition label_of :: "labels \<Rightarrow> string \<Rightarrow> string" where
  "label_of ls k = GetLastLabelValue (case map_of ls k of None \<Rightarrow> [] | Some v \<Rightarrow> v)"

definition labels_match :: "CallerIdentity \<Rightarrow> labels \<Rightarrow> bool" where
  "labels_match i ls \<longleftrightarrow>
     (label_of ls LabelOwnerUID \<noteq> [] \<and> label_uid (label_of ls LabelOwnerUID) = Some (RealUID i)) \<or>
     (label_of ls LabelOwner \<noteq> [] \<and> label_of ls LabelOwner = RealUsername i)"

definition checkContainerOwnershipByLabel ::
  "daemon \<Rightarrow> CallerIdentity \<Rightarrow> string \<Rightarrow> string \<Rightarrow> reply option" where
  "checkContainerOwnershipByLabel d i containerID action =
     (case fetchContainerLabels d containerID of
        None \<Rightarrow>
          (if action = ActionInspect \<and> resolveImageIDByRef d containerID \<noteq> [] then None
           else if action \<in> {ActionRemoveContainer, ActionStop, ActionKill, ActionPause, ActionUnpause} then None
           else Some (NotFound ''container'' (trim_prefix containerID (UserContainerPrefix (RealUID i)))))
      | Some ls \<Rightarrow> (if labels_match i ls then None else Some (NotFound ''container'' containerID)))"

definition check_container ::
  "daemon \<Rightarrow> CallerIdentity \<Rightarrow> string \<Rightarrow> string \<Rightarrow> OwnershipDB \<Rightarrow> reply option" where
  "check_container d i containerID action db =
     (if containerID \<noteq> [] \<and> containerID \<notin> {''json'', ''create'', ''prune''} then
        (case GetContainerOwner db containerID of
           None \<Rightarrow>
             (if IsPrivileged i then None else checkContainerOwnershipByLabel d i containerID action)
         | Some owner \<Rightarrow>
             (if oiUID owner \<noteq> RealUID i \<and> \<not> IsPrivileged i
              then Some (NotFound ''container'' (trim_prefix containerID (UserContainerPrefix (RealUID i))))
              else None))
      else None)"

text \<open>A commit names its container in the query; the daemon translates the name.\<close>

definition check_commit :: "daemon \<Rightarrow> CallerIdentity \<Rightarrow> string \<Rightarrow> string \<Rightarrow> OwnershipDB \<Rightarrow> reply option" where
  "check_commit d i qContainerID action db =
     (if qContainerID = [] then None
      else
        (let resolved = resolveContainerDockerID d qContainerID;
             dockerID = (if resolved = [] then qContainerID else resolved)
         in case GetContainerOwner db dockerID of
              None \<Rightarrow>
                (if IsPrivileged i then None else checkContainerOwnershipByLabel d i qContainerID action)
            | Some owner \<Rightarrow>
                (if oiUID owner \<noteq> RealUID i \<and> \<not> IsPrivileged i
                 then Some (NotFound ''container'' qContainerID) else None)))"

section \<open>Images\<close>

definition bridgeImageAccessByRefDigest ::
  "CallerIdentity \<Rightarrow> string \<Rightarrow> string \<Rightarrow> OwnershipDB \<Rightarrow> bool \<times> OwnershipDB" where
  "bridgeImageAccessByRefDigest i imageRef configID db =
     (let dg = refImageDigest imageRef in
      if dg = [] \<or> configID = [] then (False, db)
      else if \<not> CanUseImage db (RealUID i) dg then (False, db)
      else case (case GetImageOwner db configID of
                   None \<Rightarrow> SetImageOwner configID i False ''pull'' db
                 | Some _ \<Rightarrow> EnsureImageAccess configID (RealUID i) db) of
             (Some _, db') \<Rightarrow> (False, db')
           | (None, db') \<Rightarrow> (True, db'))"

text \<open>The image of a container that is to be created.\<close>

definition no_such_image :: "string \<Rightarrow> reply" where
  "no_such_image imageRef = ErrorMsg 404 (''No such image: '' @ imageRef)"

definition create_image_db :: "daemon \<Rightarrow> CallerIdentity \<Rightarrow> string \<Rightarrow> OwnershipDB \<Rightarrow> reply option \<times> OwnershipDB" where
  "create_image_db d i imageRef db =
     (let resolvedID = resolveImageIDByRef d imageRef in
      if resolvedID = [] then (None, db)
      else case GetImageOwner db resolvedID of
        None \<Rightarrow>
          (if IsPrivileged i then (None, db)
           else case bridgeImageAccessByRefDigest i imageRef resolvedID db of
             (True, db') \<Rightarrow> (None, db')
           | (False, db') \<Rightarrow> (Some (no_such_image imageRef), db'))
      | Some (_, isPublic, _) \<Rightarrow>
          (if isPublic then (None, snd (EnsureImageAccess resolvedID (RealUID i) db))
           else if CanUseImage db (RealUID i) resolvedID then (None, db)
           else case bridgeImageAccessByRefDigest i imageRef resolvedID db of
             (True, db') \<Rightarrow> (None, db')
           | (False, db') \<Rightarrow> (Some (no_such_image imageRef), db')))"

definition check_create_image :: "proxy \<Rightarrow> CallerIdentity \<Rightarrow> request \<Rightarrow> unit handler" where
  "check_create_image p i r w =
     (let imageRef = extractImageRefFromBody r in
      if imageRef = [] then (Inr (), w)
      else if \<not> IsPrivileged i \<and> isBuildKitImage imageRef \<and> IsDenied (pxOS p) (pxPolicy p) i ActionBuild
      then (Inl (not_permitted i ActionBuild), w)
      else case create_image_db (pxDaemon p) i imageRef (wDB w) of
        (Some reply, db) \<Rightarrow> (Inl reply, w \<lparr>wDB := db\<rparr>)
      | (None, db) \<Rightarrow> (Inr (), w \<lparr>wDB := db\<rparr>))"

text \<open>\<^verbatim>\<open>inspect\<close>, \<^verbatim>\<open>save\<close> and \<^verbatim>\<open>history\<close> of an image.\<close>

definition check_image_read :: "daemon \<Rightarrow> CallerIdentity \<Rightarrow> request \<Rightarrow> string \<Rightarrow> OwnershipDB \<Rightarrow> reply option" where
  "check_image_read d i r action db =
     (let ref0 = ExtractImageID (rqPath r);
          imageRef = (if action = ActionSave \<and> (ref0 = [] \<or> ref0 = ''get'') then query_param r ''names'' else ref0)
      in if imageRef = [] then None
         else
           (let resolvedRef = resolveImageIDByRef d imageRef in
            if resolvedRef = [] then None
            else if \<not> CanUseImage db (RealUID i) resolvedRef \<and> \<not> CanUseImage db (RealUID i) imageRef \<and>
                    \<not> CanUseImage db (RealUID i) (''sha256:'' @ imageRef)
            then Some (NotFound ''image'' imageRef) else None))"

text \<open>
  The polling loops of \<^verbatim>\<open>checkImageRemovePermission\<close>: the database is read again
  until the condition holds or the deadline passes.  The result is the last database read and the
  remaining ones.
\<close>

fun await :: "(OwnershipDB \<Rightarrow> bool) \<Rightarrow> OwnershipDB list \<Rightarrow> OwnershipDB \<Rightarrow> OwnershipDB \<times> OwnershipDB list" where
  "await ok [] db = (db, [])"
| "await ok (x # xs) db = (if ok x then (x, xs) else await ok xs x)"

definition wait_for_build ::
  "proxy \<Rightarrow> CallerIdentity \<Rightarrow> (OwnershipDB \<Rightarrow> bool) \<Rightarrow> world \<Rightarrow> OwnershipDB list \<Rightarrow> world \<times> OwnershipDB list" where
  "wait_for_build p i ok w polls =
     (if \<not> ok (wDB w) \<and> \<not> IsPrivileged i \<and> wPendingBuilds w (RealUID i)
      then (case await ok polls (wDB w) of (db, rest) \<Rightarrow> (w \<lparr>wDB := db\<rparr>, rest))
      else (w, polls))"

definition has_user_access :: "string \<Rightarrow> int \<Rightarrow> OwnershipDB \<Rightarrow> bool" where
  "has_user_access imageID uid db = (case HasUserImageAccess db imageID uid of Inl _ \<Rightarrow> False | Inr b \<Rightarrow> b)"

text \<open>The answer that imitates the daemon when only the caller's reference is removed.\<close>

definition untagged_answer :: "daemon \<Rightarrow> string \<Rightarrow> string \<Rightarrow> body" where
  "untagged_answer d imageRef resolvedID =
     (let deleted = JObj [(''Deleted'', JStr resolvedID)]; untagged = JObj [(''Untagged'', JStr imageRef)] in
      if imageRef \<noteq> [] \<and> contains_str imageRef '':'' \<and> \<not> has_prefix imageRef ''sha256:'' then
        (if imageHasOtherTags d resolvedID imageRef then Doc (JArr [untagged])
         else Doc (JArr [untagged, deleted]))
      else Doc (JArr [deleted]))"

definition only_owner_msg :: "string \<Rightarrow> string \<Rightarrow> bool \<Rightarrow> string" where
  "only_owner_msg resolvedID ownerName isPublic =
     ''image '' @ apostrophe @ truncID resolvedID @ apostrophe @
     (if isPublic then '' is public and belongs to user '' else '' belongs to user '') @
     apostrophe @ ownerName @ apostrophe @ '', only the owner can remove it''"

text \<open>The owner or a privileged caller removes the image itself.\<close>

definition remove_physically ::
  "CallerIdentity \<Rightarrow> request \<Rightarrow> string \<Rightarrow> OwnerInfo \<Rightarrow> bool \<Rightarrow> unit handler" where
  "remove_physically i r resolvedID owner isPublic w =
     (case HasContainerUsingImage (wDB w) (RealUID i) resolvedID of
        Inr False \<Rightarrow>
          (let force = query_param r ''force'';
               privilegedForceDelete = IsPrivileged i \<and> (force = ''1'' \<or> force = ''true'')
           in if (IsPrivileged i \<or> oiUID owner = RealUID i) \<and> isPublic \<and> \<not> privilegedForceDelete then
                (case GetImageRefCountExcluding (wDB w) resolvedID (RealUID i) of
                   Inl _ \<Rightarrow> (Inl (ErrorMsg 500 ''internal error''), w)
                 | Inr otherCount \<Rightarrow>
                     (if otherCount > 0
                      then (Inl (ErrorMsg 409 (''image '' @ apostrophe @ truncID resolvedID @ apostrophe @
                              '' is still referenced by '' @ itoa (int otherCount) @
                              '' other user(s); cannot delete until all references are removed'')), w)
                      else (Inr (), w)))
              else (Inr (), w))
      | _ \<Rightarrow> (Inl (ErrorMsg 409 (''image '' @ apostrophe @ truncID resolvedID @ apostrophe @
                '' is still used by your containers, remove them first'')), w))"

definition checkImageRemovePermission :: "proxy \<Rightarrow> CallerIdentity \<Rightarrow> request \<Rightarrow> unit handler" where
  "checkImageRemovePermission p i r w0 =
     (let imageRef = ExtractImageID (rqPath r); resolvedID = resolveImageIDByRef (pxDaemon p) imageRef in
      if imageRef = [] \<or> resolvedID = [] then (Inr (), w0)
      else
        (case wait_for_build p i (\<lambda>db. GetImageOwner db resolvedID \<noteq> None) w0 (pxPolls p) of
           (w, polls) \<Rightarrow>
             (case GetImageOwner (wDB w) resolvedID of
                None \<Rightarrow> (if IsPrivileged i then (Inr (), w) else (Inl (NotFound ''image'' resolvedID), w))
              | Some (owner, isPublic, _) \<Rightarrow>
                  (if \<not> IsPrivileged i \<and> oiUID owner \<noteq> RealUID i then
                     (case wait_for_build p i (has_user_access resolvedID (RealUID i)) w polls of
                        (w', _) \<Rightarrow>
                          (if has_user_access resolvedID (RealUID i) (wDB w')
                           then (Inl (Served (untagged_answer (pxDaemon p) imageRef resolvedID)),
                                 w' \<lparr>wDB := snd (RemoveUserImageAccess resolvedID (RealUID i) (wDB w'))\<rparr>)
                           else (Inl (ErrorMsg 403 (only_owner_msg resolvedID (oiUsername owner) isPublic)), w')))
                   else remove_physically i r resolvedID owner isPublic w))))"

definition pull_complete :: "string \<Rightarrow> reply" where
  "pull_complete resolvedID =
     Served (Doc (JObj [(''status'', JStr ''Pull complete''), (''id'', JStr (truncID resolvedID))]))"

text \<open>Access recorded for the caller, and a pull that is only imitated.\<close>

definition virtual_pull :: "CallerIdentity \<Rightarrow> string \<Rightarrow> unit handler" where
  "virtual_pull i resolvedID w =
     (case EnsureImageAccess resolvedID (RealUID i) (wDB w) of
        (Some _, db) \<Rightarrow> (Inl (ErrorMsg 500 ''internal error''), w \<lparr>wDB := db\<rparr>)
      | (None, db) \<Rightarrow> (Inl (pull_complete resolvedID), w \<lparr>wDB := db\<rparr>))"

definition checkImagePullPermission :: "proxy \<Rightarrow> CallerIdentity \<Rightarrow> request \<Rightarrow> unit handler" where
  "checkImagePullPermission p i r w =
     (if IsPrivileged i then (Inr (), w)
      else if query_param r ''authz.public'' = ''true''
      then (Inl (ErrorMsg 403 ''only root can mark images as public''), w)
      else
        (let imageRef = parseImageRefFromURI (RequestURI r) in
         if imageRef = [] then (Inr (), w)
         else if isBuildKitImage imageRef \<and> IsDenied (pxOS p) (pxPolicy p) i ActionBuild
         then (Inl (not_permitted i ActionBuild), w)
         else
           (let resolvedID = resolveImageIDByRef (pxDaemon p) imageRef in
            if resolvedID = [] then (Inr (), w)
            else case GetImageOwner (wDB w) resolvedID of
              None \<Rightarrow> (Inr (), w)
            | Some (owner, isPublic, _) \<Rightarrow>
                (if oiUID owner = RealUID i then (Inr (), w)
                 else if isPublic then virtual_pull i resolvedID w
                 else if oiSource owner = ''build'' then
                   (if CanSeeImage (wDB w) (RealUID i) resolvedID then (Inl (pull_complete resolvedID), w)
                    else (Inl (ErrorMsg 403 (''image '' @ apostrophe @ imageRef @ apostrophe @
                            '' is private (built by '' @ oiUsername owner @
                            ''); request access from the owner'')), w))
                 else virtual_pull i resolvedID w))))"

definition checkImageTagPermission :: "daemon \<Rightarrow> CallerIdentity \<Rightarrow> request \<Rightarrow> OwnershipDB \<Rightarrow> reply option" where
  "checkImageTagPermission d i r db =
     (let imageRef = ExtractImageID (rqPath r) in
      if IsPrivileged i \<or> imageRef = [] then None
      else
        (let resolved = resolveImageIDByRef d imageRef;
             resolvedID = (if resolved = [] then imageRef else resolved)
         in case GetImageOwner db resolvedID of
              None \<Rightarrow> None
            | Some (owner, _, _) \<Rightarrow>
                (if oiUID owner \<noteq> RealUID i \<and> \<not> CanUseImage db (RealUID i) resolvedID
                 then Some (NotFound ''image'' resolvedID) else None)))"

text \<open>The references a push may stand for, in the order in which they are tried.\<close>

definition push_candidates :: "string \<Rightarrow> string \<Rightarrow> string list" where
  "push_candidates imageRef tag =
     (if tag \<noteq> [] then [imageRef @ '':'' @ tag] else []) @ [imageRef] @
     (case index_char CHR ''/'' imageRef of
        None \<Rightarrow> []
      | Some idx \<Rightarrow>
          (let shortRef = drop (idx + 1) imageRef in
           (if tag \<noteq> [] then [shortRef @ '':'' @ tag] else []) @ [shortRef]))"

fun first_resolved :: "daemon \<Rightarrow> string list \<Rightarrow> string" where
  "first_resolved d [] = []"
| "first_resolved d (ref # refs) =
     (let rid = resolveImageIDByRef d ref in if rid \<noteq> [] then rid else first_resolved d refs)"

definition untracked_push :: "string \<Rightarrow> reply" where
  "untracked_push imageID =
     ErrorMsg 403 (''image '' @ apostrophe @ truncID imageID @ apostrophe @
                   '' not tracked by proxy (only root can push untracked images)'')"

definition push_one :: "CallerIdentity \<Rightarrow> string \<Rightarrow> string \<Rightarrow> OwnershipDB \<Rightarrow> reply option" where
  "push_one i imageRef resolvedID db =
     (case GetImageOwner db resolvedID of
        None \<Rightarrow> Some (untracked_push resolvedID)
      | Some _ \<Rightarrow> (if CanUseImage db (RealUID i) resolvedID then None else Some (NotFound ''image'' imageRef)))"

definition checkImagePushPermission :: "daemon \<Rightarrow> CallerIdentity \<Rightarrow> request \<Rightarrow> OwnershipDB \<Rightarrow> reply option" where
  "checkImagePushPermission d i r db =
     (let imageRef = ExtractImageID (rqPath r) in
      if IsPrivileged i \<or> imageRef = [] then None
      else
        (let tag = query_param r ''tag'';
             resolvedID = first_resolved d (push_candidates imageRef tag);
             all = (if resolvedID = [] \<and> tag = [] then listImageIDsByRepo d imageRef else [])
         in if all \<noteq> [] then map_option untracked_push (find (\<lambda>img. \<not> CanUseImage db (RealUID i) img) all)
            else push_one i imageRef (if resolvedID = [] then imageRef else resolvedID) db))"

section \<open>Networks, ports, volumes and swarm objects\<close>

text \<open>A network a create request names that its caller may not use.\<close>

definition network_refused :: "OwnershipDB \<Rightarrow> CallerIdentity \<Rightarrow> string \<Rightarrow> bool" where
  "network_refused db i netName =
     (if netName \<in> {''default'', ''bridge'', ''host'', ''none''} then False
      else if netName = UserBridgeName (RealUID i) then False
      else if has_prefix netName (UserResourcePrefix i) then False
      else
        (let lookupID = (case GetNetworkIDByName db (UserResourcePrefix i @ netName) of
                           Some docID \<Rightarrow> docID
                         | None \<Rightarrow> netName)
         in case CanUserAccessNetwork db lookupID (RealUID i) of Inl _ \<Rightarrow> True | Inr ok \<Rightarrow> \<not> ok))"

definition checkCreateContainerNetworks :: "CallerIdentity \<Rightarrow> request \<Rightarrow> OwnershipDB \<Rightarrow> reply option" where
  "checkCreateContainerNetworks i r db =
     map_option (NotFound ''network'')
       (find (network_refused db i) (ExtractRequestedNetworks (rqBody r)))"

definition port_taken_msg :: "PortMapping \<Rightarrow> PortMappingInfo \<Rightarrow> string" where
  "port_taken_msg m existing =
     ''port '' @ itoa (pmHostPort m) @ ''/'' @ pmProtocol m @ '' already in use by container '' @
     take 12 (pmContainerID existing) @ '' (owner: '' @ pmOwnerUsername existing @ '')''"

fun port_conflict :: "OwnershipDB \<Rightarrow> PortMapping list \<Rightarrow> reply option" where
  "port_conflict db [] = None"
| "port_conflict db (m # ms) =
     (case GetPortMapping db (pmHostPort m) (pmProtocol m) of
        Some existing \<Rightarrow> Some (ErrorMsg 409 (port_taken_msg m existing))
      | None \<Rightarrow> port_conflict db ms)"

definition checkPortConflict :: "body \<Rightarrow> OwnershipDB \<Rightarrow> reply option" where
  "checkPortConflict b db = port_conflict db (ExtractPortMappings b)"

text \<open>
  Access to one network.  A name the rewriting prefixed although the network is stored without
  prefix is replaced by the identifier of that network.
\<close>

definition check_network :: "CallerIdentity \<Rightarrow> request \<Rightarrow> OwnershipDB \<Rightarrow> (reply, request) result" where
  "check_network i r db =
     (let networkName = ExtractNetworkID (rqPath r) in
      if networkName = [] \<or> IsPrivileged i then Inr r
      else
        (let userVisibleName = trim_prefix networkName (UserResourcePrefix i);
             (lookupID, needURLFix) =
               (case GetNetworkIDByName db networkName of
                  Some docID \<Rightarrow> (docID, False)
                | None \<Rightarrow>
                    (if userVisibleName \<noteq> networkName then
                       (case GetNetworkIDByName db userVisibleName of
                          Some docID \<Rightarrow> (docID, True)
                        | None \<Rightarrow> (networkName, False))
                     else (networkName, False)))
         in case CanUserAccessNetwork db lookupID (RealUID i) of
              Inr True \<Rightarrow>
                Inr (if needURLFix \<and> lookupID \<noteq> networkName
                     then r \<lparr>rqPath := replace_first (rqPath r) (''/networks/'' @ networkName)
                                         (''/networks/'' @ lookupID)\<rparr>
                     else r)
            | _ \<Rightarrow> Inl (NotFound ''network'' userVisibleName)))"

definition check_volume_remove :: "CallerIdentity \<Rightarrow> request \<Rightarrow> OwnershipDB \<Rightarrow> reply option" where
  "check_volume_remove i r db =
     (let name = ExtractVolumeName (rqPath r); pfx = UserVolumePrefix (RealUID i) in
      if name = [] \<or> IsPrivileged i then None
      else
        (let volName = (if has_prefix name pfx then name else pfx @ name) in
         case GetVolumeOwner db volName of
           None \<Rightarrow> Some (NotFound ''volume'' (trim_prefix volName pfx))
         | Some owner \<Rightarrow>
             (if oiUID owner \<noteq> RealUID i then Some (NotFound ''volume'' (trim_prefix volName pfx)) else None)))"

definition swarm_admin_actions :: "string list" where
  "swarm_admin_actions =
     [ActionSwarmInit, ActionSwarmJoin, ActionSwarmLeave, ActionSwarmUpdate, ActionSwarmUnlock,
      ActionNodeUpdate, ActionNodeRemove]"

text \<open>
  Services, secrets and configs are checked alike: the object must be recorded for the caller.
\<close>

definition check_swarm_object ::
  "(OwnershipDB \<Rightarrow> string \<Rightarrow> OwnerInfo option) \<Rightarrow> string \<Rightarrow> CallerIdentity \<Rightarrow> string \<Rightarrow> OwnershipDB \<Rightarrow> reply option" where
  "check_swarm_object getOwner kind i objID db =
     (if objID = [] \<or> IsPrivileged i then None
      else case getOwner db objID of
        None \<Rightarrow> Some (NotFound kind objID)
      | Some owner \<Rightarrow> (if oiUID owner \<noteq> RealUID i then Some (NotFound kind objID) else None))"

definition check_service :: "CallerIdentity \<Rightarrow> request \<Rightarrow> string \<Rightarrow> OwnershipDB \<Rightarrow> reply option" where
  "check_service i r action db =
     (if action \<in> {ActionServiceInspect, ActionServiceUpdate, ActionServiceRemove, ActionServiceLogs}
      then check_swarm_object GetServiceOwner ''service'' i (ExtractServiceID (rqPath r)) db else None)"

definition check_secret :: "CallerIdentity \<Rightarrow> request \<Rightarrow> string \<Rightarrow> OwnershipDB \<Rightarrow> reply option" where
  "check_secret i r action db =
     (if action \<in> {ActionSecretInspect, ActionSecretUpdate, ActionSecretRemove}
      then check_swarm_object GetSecretOwner ''secret'' i (ExtractSecretID (rqPath r)) db else None)"

definition check_config :: "CallerIdentity \<Rightarrow> request \<Rightarrow> string \<Rightarrow> OwnershipDB \<Rightarrow> reply option" where
  "check_config i r action db =
     (if action \<in> {ActionConfigInspect, ActionConfigUpdate, ActionConfigRemove}
      then check_swarm_object GetConfigOwner ''config'' i (ExtractConfigID (rqPath r)) db else None)"

end
