(* ===== verification/PreRequest.thy ===== *)
theory PreRequest
  imports Access
begin

text \<open>
  Package \<^verbatim>\<open>internal/forward\<close>, file \<^verbatim>\<open>proxy.go\<close>: the whole of
  \<^verbatim>\<open>checkOwnershipPreRequest\<close>, with the creation of a container as the longest path
  (image, networks, quota, mounts, devices, volumes, ports, and the injected networks).  The
  reading of the request body cannot fail here, and the text of an error of the daemon is left out
  of the message about a failed bridge.
\<close>

section \<open>Creation of a container\<close>

definition create_quota :: "proxy \<Rightarrow> CallerIdentity \<Rightarrow> request \<Rightarrow> request handler" where
  "create_quota p i r w =
     (case pxQuota p of
        None \<Rightarrow> (Inr r, w)
      | Some m \<Rightarrow>
          (case CheckAndInjectQuota (pxCPUs p) (rqBody r) (GetQuota (pxOS p) m i) (RealUID i) (wDB w)
                  (CPUCores (defaults m)) (MemMB (defaults m)) of
             Inl (QuotaPanic e) \<Rightarrow> (Inl (Aborted e), w)
           | Inl (QuotaExceeded e) \<Rightarrow> (Inl (QuotaDenied e), w)
           | Inr b \<Rightarrow> (Inr (r \<lparr>rqBody := b\<rparr>), w)))"

definition home_dir :: "proxy \<Rightarrow> CallerIdentity \<Rightarrow> string" where
  "home_dir p i = (if pxAllowHomeBind p then LookupHomeDir (pxOS p) (RealUID i) else [])"

text \<open>The mounts of the container: bind sources, tmpfs sizes, devices, volumes-from, named volumes.\<close>

definition create_mounts :: "proxy \<Rightarrow> CallerIdentity \<Rightarrow> body \<Rightarrow> OwnershipDB \<Rightarrow> (reply, body) result" where
  "create_mounts p i b db =
     (case ValidateBindMounts b (pxStorageBase p) (RealUID i) (home_dir p i) of
        Some v \<Rightarrow> Inl (BindDenied v)
      | None \<Rightarrow>
          (case (case pxQuota p of
                   None \<Rightarrow> Inr b
                 | Some m \<Rightarrow> ValidateAndInjectTmpfs b (TmpfsSizeMB (GetQuota (pxOS p) m i))) of
             Inl v \<Rightarrow> Inl (TmpfsDenied v)
           | Inr b1 \<Rightarrow>
               (case (case pxQuota p of
                        None \<Rightarrow> None
                      | Some m \<Rightarrow> ValidateDeviceMounts b1 (AllowedDevices (GetQuota (pxOS p) m i)) (RealUID i)) of
                  Some dev \<Rightarrow> Inl (DeviceDenied dev)
                | None \<Rightarrow>
                    (case ValidateVolumesFrom b1 (RealUID i) (IsPrivileged i) db
                            (Some (resolveContainerDockerID (pxDaemon p))) of
                       Some ref \<Rightarrow> Inl (VolumesFromDenied ref)
                     | None \<Rightarrow>
                         (case ValidateAndRewriteNamedVolumes b1 (RealUID i) (db_reader db) of
                            Inl (VolumePanic e) \<Rightarrow> Inl (Aborted e)
                          | Inl (NamedVolumeViolation n) \<Rightarrow> Inl (VolumeDenied n)
                          | Inr b2 \<Rightarrow> Inr b2)))))"

text \<open>The user's bridge, the shared networks and the user's own networks are written into the request.\<close>

definition peer_network_ids :: "OwnershipDB \<Rightarrow> int \<Rightarrow> string list" where
  "peer_network_ids db uid =
     (case GetNetworkPeersByUID db uid of
        Inl _ \<Rightarrow> []
      | Inr peers \<Rightarrow> map PeerNetworkID (filter IsUserLevel peers))"

definition create_network :: "proxy \<Rightarrow> CallerIdentity \<Rightarrow> request \<Rightarrow> body \<Rightarrow> request handler" where
  "create_network p i r b w =
     (case EnsureUserBridge (pxDaemon p) (RealUID i) (RealUsername i) (wBridge w) of
        (Inl e, st) \<Rightarrow> (Inl (ErrorMsg 500 ''failed to initialize user network''), w \<lparr>wBridge := st\<rparr>)
      | (Inr networkID, st) \<Rightarrow>
          (let db = (if networkID \<noteq> []
                     then snd (SetManagedNetworkOwner networkID (UserBridgeName (RealUID i)) (RealUID i)
                                 (RealUsername i) (wDB w))
                     else wDB w);
               w' = w \<lparr>wBridge := st, wDB := db\<rparr>
           in case InjectUserNetwork b (RealUID i) (peer_network_ids db (RealUID i)) (userRequestedNets i b) of
                Inl e \<Rightarrow> (Inl (Aborted e), w')
              | Inr b' \<Rightarrow> (Inr (r \<lparr>rqBody := b'\<rparr>), w')))"

definition create_isolation :: "proxy \<Rightarrow> CallerIdentity \<Rightarrow> request \<Rightarrow> request handler" where
  "create_isolation p i r w =
     (if IsPrivileged i then (Inr r, w)
      else case create_mounts p i (rqBody r) (wDB w) of
        Inl reply \<Rightarrow> (Inl reply, w)
      | Inr b \<Rightarrow>
          (case checkPortConflict b (wDB w) of
             Some reply \<Rightarrow> (Inl reply, w)
           | None \<Rightarrow> create_network p i (r \<lparr>rqPorts := ExtractPortMappings b\<rparr>) b w))"

definition create_container :: "proxy \<Rightarrow> CallerIdentity \<Rightarrow> request \<Rightarrow> request handler" where
  "create_container p i r =
     and_then (check_create_image p i r) (\<lambda>_.
     and_then (only_if (\<not> IsPrivileged i) (check_db (checkCreateContainerNetworks i r))) (\<lambda>_.
     and_then (create_quota p i r) (create_isolation p i)))"

section \<open>All requests\<close>

definition check_image_action :: "proxy \<Rightarrow> CallerIdentity \<Rightarrow> request \<Rightarrow> string \<Rightarrow> unit handler" where
  "check_image_action p i r action =
     (if action \<in> {ActionInspect, ActionSave, ActionHistory} then
        check_db (check_image_read (pxDaemon p) i r action)
      else if action = ActionRemoveImage then checkImageRemovePermission p i r
      else if action = ActionPull then checkImagePullPermission p i r
      else if action = ActionTag then check_db (checkImageTagPermission (pxDaemon p) i r)
      else if action = ActionPush then check_db (checkImagePushPermission (pxDaemon p) i r)
      else pass ())"

definition check_update :: "proxy \<Rightarrow> CallerIdentity \<Rightarrow> request \<Rightarrow> string \<Rightarrow> unit handler" where
  "check_update p i r action w =
     (case pxQuota p of
        None \<Rightarrow> (Inr (), w)
      | Some m \<Rightarrow>
          (if action \<noteq> ActionUpdate then (Inr (), w)
           else case CheckUpdateQuota (pxCPUs p) (rqBody r) (GetQuota (pxOS p) m i) of
             Some e \<Rightarrow> (Inl (QuotaDenied e), w)
           | None \<Rightarrow> (Inr (), w)))"

definition check_network_action :: "CallerIdentity \<Rightarrow> request \<Rightarrow> string \<Rightarrow> request handler" where
  "check_network_action i r action w =
     (if action \<in> {ActionNetworkInspect, ActionNetworkConnect, ActionNetworkDisconnect, ActionNetworkRemove}
      then (case check_network i r (wDB w) of Inl reply \<Rightarrow> (Inl reply, w) | Inr r' \<Rightarrow> (Inr r', w))
      else (Inr r, w))"

definition check_objects :: "CallerIdentity \<Rightarrow> request \<Rightarrow> string \<Rightarrow> unit handler" where
  "check_objects i r action =
     and_then (only_if (action = ActionVolumeRemove) (check_db (check_volume_remove i r))) (\<lambda>_.
     and_then (only_if (action \<in> set swarm_admin_actions \<and> \<not> IsPrivileged i) (refuse (not_permitted i action))) (\<lambda>_.
     and_then (check_db (check_service i r action)) (\<lambda>_.
     and_then (check_db (check_secret i r action)) (\<lambda>_.
     check_db (check_config i r action)))))"

definition checkOwnershipPreRequest :: "proxy \<Rightarrow> CallerIdentity \<Rightarrow> string \<Rightarrow> request \<Rightarrow> request handler" where
  "checkOwnershipPreRequest p i action r =
     and_then (check_db (check_container (pxDaemon p) i (ExtractContainerID (rqPath r)) action)) (\<lambda>_.
     and_then (only_if (action = ActionCommit)
                 (check_db (check_commit (pxDaemon p) i (query_param r ''container'') action))) (\<lambda>_.
     and_then (if action = ActionCreateContainer then create_container p i r else pass r) (\<lambda>r1.
     and_then (check_image_action p i r1 action) (\<lambda>_.
     and_then (check_update p i r1 action) (\<lambda>_.
     and_then (check_network_action i r1 action) (\<lambda>r2.
     and_then (check_objects i r2 action) (\<lambda>_. pass r2)))))))"

end
