(* ===== verification/Auxiliary.thy ===== *)
theory Auxiliary
  imports Upstream
begin

text \<open>
  Package \<^verbatim>\<open>internal/forward\<close>, file \<^verbatim>\<open>proxy.go\<close>: which requests are
  exempt from the policy because they only accompany another docker command
  (\<^verbatim>\<open>isAuxiliaryCall\<close>), which ones take over the connection, which ones are answered by
  a long stream and which ones wait for a registry.
\<close>

section \<open>The actions each docker command is about\<close>

definition targets_top :: "(string \<times> string list) list" where
  "targets_top =
     [(''run'', [ActionPull, ActionCreateContainer, ActionStartContainer, ActionRemoveContainer]),
      (''create'', [ActionCreateContainer]),
      (''start'', [ActionStartContainer]),
      (''stop'', [ActionStop]),
      (''restart'', [ActionRestart]),
      (''kill'', [ActionKill]),
      (''rm'', [ActionRemoveContainer]),
      (''exec'', [ActionExec]),
      (''attach'', [ActionAttach]),
      (''logs'', [ActionLogs]),
      (''stats'', [ActionLogs]),
      (''top'', [ActionLogs]),
      (''cp'', [ActionCp]),
      (''commit'', [ActionCommit]),
      (''ps'', [ActionPS]),
      (''inspect'', [ActionInspect]),
      (''port'', [ActionPort]),
      (''pause'', [ActionPause]),
      (''unpause'', [ActionUnpause]),
      (''wait'', [ActionWait]),
      (''rename'', [ActionRename]),
      (''update'', [ActionUpdate]),
      (''diff'', [ActionDiff]),
      (''pull'', [ActionPull]),
      (''import'', [ActionImport]),
      (''push'', [ActionPush]),
      (''build'', [ActionBuild]),
      (''images'', [ActionImages]),
      (''rmi'', [ActionRemoveImage]),
      (''tag'', [ActionTag]),
      (''save'', [ActionSave]),
      (''load'', [ActionLoad]),
      (''search'', [ActionSearch]),
      (''info'', [ActionSystemInfo]),
      (''version'', [ActionSystemVersion]),
      (''events'', [ActionSystemEvents]),
      (''login'', [ActionSystemLogin]),
      (''logout'', [ActionSystemLogin]),
      (''df'', [ActionSystemDF]),
      (''prune'', [ActionPrune])]"

definition targets_system :: "(string \<times> string list) list" where
  "targets_system =
     [(''system/info'', [ActionSystemInfo]),
      (''system/version'', [ActionSystemVersion]),
      (''system/df'', [ActionSystemDF]),
      (''system/events'', [ActionSystemEvents]),
      (''system/prune'', [ActionPrune])]"

definition targets_container :: "(string \<times> string list) list" where
  "targets_container =
     [(''container/run'', [ActionPull, ActionCreateContainer, ActionStartContainer, ActionRemoveContainer]),
      (''container/create'', [ActionCreateContainer]),
      (''container/start'', [ActionStartContainer]),
      (''container/stop'', [ActionStop]),
      (''container/restart'', [ActionRestart]),
      (''container/kill'', [ActionKill]),
      (''container/rm'', [ActionRemoveContainer]),
      (''container/exec'', [ActionExec]),
      (''container/attach'', [ActionAttach]),
      (''container/logs'', [ActionLogs]),
      (''container/stats'', [ActionLogs]),
      (''container/top'', [ActionLogs]),
      (''container/cp'', [ActionCp]),
      (''container/commit'', [ActionCommit]),
      (''container/ls'', [ActionPS]),
      (''container/ps'', [ActionPS]),
      (''container/inspect'', [ActionInspect]),
      (''container/port'', [ActionPort]),
      (''container/pause'', [ActionPause]),
      (''container/unpause'', [ActionUnpause]),
      (''container/rename'', [ActionRename]),
      (''container/update'', [ActionUpdate]),
      (''container/diff'', [ActionDiff]),
      (''container/wait'', [ActionWait]),
      (''container/export'', [ActionExport]),
      (''container/prune'', [ActionPrune])]"

definition targets_image :: "(string \<times> string list) list" where
  "targets_image =
     [(''image/ls'', [ActionImages]),
      (''image/list'', [ActionImages]),
      (''image/pull'', [ActionPull]),
      (''image/push'', [ActionPush]),
      (''image/build'', [ActionBuild]),
      (''image/rm'', [ActionRemoveImage]),
      (''image/rmi'', [ActionRemoveImage]),
      (''image/tag'', [ActionTag]),
      (''image/save'', [ActionSave]),
      (''image/load'', [ActionLoad]),
      (''image/import'', [ActionImport]),
      (''image/inspect'', [ActionInspect]),
      (''image/history'', [ActionHistory]),
      (''image/prune'', [ActionPrune])]"

definition targets_network :: "(string \<times> string list) list" where
  "targets_network =
     [(''network/ls'', [ActionNetworkList]),
      (''network/list'', [ActionNetworkList]),
      (''network/create'', [ActionNetworkCreate]),
      (''network/inspect'', [ActionNetworkInspect]),
      (''network/rm'', [ActionNetworkRemove]),
      (''network/remove'', [ActionNetworkRemove]),
      (''network/connect'', [ActionNetworkConnect]),
      (''network/disconnect'', [ActionNetworkDisconnect]),
      (''network/prune'', [ActionPrune])]"

definition targets_volume :: "(string \<times> string list) list" where
  "targets_volume =
     [(''volume/ls'', [ActionVolumeList]),
      (''volume/list'', [ActionVolumeList]),
      (''volume/create'', [ActionVolumeCreate]),
      (''volume/inspect'', [ActionVolumeInspect]),
      (''volume/rm'', [ActionVolumeRemove]),
      (''volume/remove'', [ActionVolumeRemove]),
      (''volume/prune'', [ActionPrune])]"

definition targets_plugin :: "(string \<times> string list) list" where
  "targets_plugin =
     [(''plugin/ls'', [ActionPluginList]),
      (''plugin/list'', [ActionPluginList]),
      (''plugin/inspect'', [ActionPluginInspect]),
      (''plugin/install'', [ActionPluginInstall]),
      (''plugin/rm'', [ActionPluginRemove]),
      (''plugin/remove'', [ActionPluginRemove]),
      (''plugin/enable'', [ActionPluginEnable]),
      (''plugin/disable'', [ActionPluginDisable]),
      (''plugin/upgrade'', [ActionPluginUpgrade]),
      (''plugin/set'', [ActionPluginSet]),
      (''plugin/push'', [ActionPluginPush]),
      (''plugin/create'', [ActionPluginCreate])]"

definition targets_builder :: "(string \<times> string list) list" where
  "targets_builder =
     [(''builder/build'', [ActionBuild]),
      (''builder/prune'', [ActionPrune]),
      (''builder/bake'', [ActionBuild]),
      (''builder/create'', [ActionBuilderManage]),
      (''builder/inspect'', [ActionBuilderManage]),
      (''builder/ls'', [ActionBuilderManage]),
      (''builder/rm'', [ActionBuilderManage]),
      (''builder/stop'', [ActionBuilderManage]),
      (''builder/use'', [ActionBuilderManage]),
      (''builder/version'', [ActionSystemVersion]),
      (''builder/du'', [ActionSystemDF]),
      (''builder/dial-stdio'', [ActionBuilderManage])]"

definition targets_context :: "(string \<times> string list) list" where
  "targets_context =
     [(''context/ls'', [ActionContextList]),
      (''context/list'', [ActionContextList]),
      (''context/show'', [ActionContextList]),
      (''context/create'', [ActionContextCreate]),
      (''context/inspect'', [ActionContextInspect]),
      (''context/rm'', [ActionContextRemove]),
      (''context/remove'', [ActionContextRemove]),
      (''context/update'', [ActionContextUpdate]),
      (''context/export'', [ActionContextExport]),
      (''context/import'', [ActionContextImport]),
      (''context/use'', [ActionContextUse])]"

definition targets_manifest :: "(string \<times> string list) list" where
  "targets_manifest =
     [(''manifest/inspect'', [ActionManifestInspect]),
      (''manifest/create'', [ActionManifestCreate]),
      (''manifest/push'', [ActionManifestPush]),
      (''manifest/annotate'', [ActionManifestAnnotate]),
      (''manifest/rm'', [ActionManifestRemove])]"

definition targets_swarm :: "(string \<times> string list) list" where
  "targets_swarm =
     [(''swarm/init'', [ActionSwarmInit]),
      (''swarm/join'', [ActionSwarmJoin]),
      (''swarm/leave'', [ActionSwarmLeave]),
      (''swarm/update'', [ActionSwarmUpdate]),
      (''swarm/unlock'', [ActionSwarmUnlock]),
      (''swarm/ca'', [ActionSwarmUpdate])]"

definition targets_node :: "(string \<times> string list) list" where
  "targets_node =
     [(''node/ls'', [ActionNodeList]),
      (''node/list'', [ActionNodeList]),
      (''node/inspect'', [ActionNodeInspect]),
      (''node/update'', [ActionNodeUpdate]),
      (''node/rm'', [ActionNodeRemove]),
      (''node/remove'', [ActionNodeRemove]),
      (''node/ps'', [ActionTaskList]),
      (''node/demote'', [ActionNodeUpdate]),
      (''node/promote'', [ActionNodeUpdate])]"

definition targets_service :: "(string \<times> string list) list" where
  "targets_service =
     [(''service/ls'', [ActionServiceList]),
      (''service/list'', [ActionServiceList]),
      (''service/create'', [ActionServiceCreate]),
      (''service/inspect'', [ActionServiceInspect]),
      (''service/update'', [ActionServiceUpdate]),
      (''service/rm'', [ActionServiceRemove]),
      (''service/remove'', [ActionServiceRemove]),
      (''service/logs'', [ActionServiceLogs]),
      (''service/ps'', [ActionTaskList]),
      (''service/scale'', [ActionServiceUpdate]),
      (''service/rollback'', [ActionServiceUpdate])]"

definition targets_task :: "(string \<times> string list) list" where
  "targets_task =
     [(''task/ls'', [ActionTaskList]),
      (''task/inspect'', [ActionTaskInspect])]"

definition targets_secret :: "(string \<times> string list) list" where
  "targets_secret =
     [(''secret/ls'', [ActionSecretList]),
      (''secret/list'', [ActionSecretList]),
      (''secret/create'', [ActionSecretCreate]),
      (''secret/inspect'', [ActionSecretInspect]),
      (''secret/rm'', [ActionSecretRemove]),
      (''secret/remove'', [ActionSecretRemove])]"

definition targets_config :: "(string \<times> string list) list" where
  "targets_config =
     [(''config/ls'', [ActionConfigList]),
      (''config/list'', [ActionConfigList]),
      (''config/create'', [ActionConfigCreate]),
      (''config/inspect'', [ActionConfigInspect]),
      (''config/rm'', [ActionConfigRemove]),
      (''config/remove'', [ActionConfigRemove])]"

definition targets_stack :: "(string \<times> string list) list" where
  "targets_stack =
     [(''stack/deploy'', [ActionServiceCreate, ActionServiceUpdate, ActionNetworkCreate, ActionSecretCreate, ActionConfigCreate]),
      (''stack/up'', [ActionServiceCreate, ActionServiceUpdate, ActionNetworkCreate, ActionSecretCreate, ActionConfigCreate]),
      (''stack/ls'', [ActionServiceList]),
      (''stack/list'', [ActionServiceList]),
      (''stack/ps'', [ActionTaskList]),
      (''stack/services'', [ActionServiceList]),
      (''stack/rm'', [ActionServiceRemove, ActionNetworkRemove, ActionSecretRemove, ActionConfigRemove]),
      (''stack/remove'', [ActionServiceRemove, ActionNetworkRemove, ActionSecretRemove, ActionConfigRemove]),
      (''stack/config'', [ActionServiceInspect])]"

definition cmdTargetActions :: "(string \<times> string list) list" where
  "cmdTargetActions =
     targets_top @
     targets_system @
     targets_container @
     targets_image @
     targets_network @
     targets_volume @
     targets_plugin @
     targets_builder @
     targets_context @
     targets_manifest @
     targets_swarm @
     targets_node @
     targets_service @
     targets_task @
     targets_secret @
     targets_config @
     targets_stack"

section \<open>Classes of requests\<close>

definition is_ping :: "string \<Rightarrow> string \<Rightarrow> bool" where
  "is_ping method path \<longleftrightarrow>
     (method = ''GET'' \<or> method = ''HEAD'') \<and> (path = ''/_ping'' \<or> has_suffix path ''/_ping'')"

definition isAuxiliaryCall :: "string \<Rightarrow> string \<Rightarrow> string \<Rightarrow> string \<Rightarrow> bool" where
  "isAuxiliaryCall dockerCmd action method path =
     (if is_ping method path then True
      else if action \<in> {ActionSystemInfo, ActionSystemVersion} \<and>
              dockerCmd \<notin> {''info'', ''version'', ''system/info'', ''system/version''} then True
      else if dockerCmd = [] then False
      else case map_of cmdTargetActions dockerCmd of
        None \<Rightarrow> False
      | Some targetActions \<Rightarrow> action \<notin> set targetActions)"

definition isHijackRequest :: "request \<Rightarrow> bool" where
  "isHijackRequest r =
     (if equal_fold (rqUpgrade r) ''tcp'' then True
      else if list_ex (\<lambda>v. equal_fold (trim_space v) ''upgrade'') (split_char CHR '','' (rqConnection r)) then True
      else
        (let path = StripAPIVersion (rqPath r) in
         rqMethod r = ''POST'' \<and>
         (has_suffix path ''/attach'' \<or> contains_str path ''/exec/'' \<and> has_suffix path ''/start'')))"

definition isLongLivedRequest :: "request \<Rightarrow> bool" where
  "isLongLivedRequest r =
     (let path = StripAPIVersion (rqPath r) in
      if has_suffix path ''/events'' then True
      else if \<not> has_suffix path ''/stats'' \<and> \<not> has_suffix path ''/logs'' then False
      else if has_suffix path ''/stats'' then query_param r ''stream'' \<notin> {''false'', ''0'', ''no''}
      else query_param r ''follow'' \<notin> {[], ''0'', ''false'', ''no''})"

definition isSlowAction :: "string \<Rightarrow> bool" where
  "isSlowAction action \<longleftrightarrow> action \<in> {ActionPull, ActionPush, ActionImport}"

end
