(* ===== verification/JsonText.thy ===== *)
theory JsonText
  imports Json
begin

text \<open>
  The text of JSON documents, as \<^verbatim>\<open>encoding/json\<close> writes and reads it: \<open>json_text\<close> is
  \<^verbatim>\<open>json.Marshal\<close> (compact, with HTML escaping) and \<open>parse_json\<close> the scanner behind
  \<^verbatim>\<open>json.Unmarshal\<close>.  Strings are bytes; a byte that is not part of a valid UTF-8 sequence
  becomes U+FFFD in both directions.  The scanner's limit of 10000 nested values is not modelled.

  The lemmas show that what is written contains no control character, so that a document is one
  line of a log, and that reading what was written gives the document back.
\<close>

section \<open>UTF-8\<close>

text \<open>
  The length of the valid sequence at the head of a string, 0 when there is none
  (\<^verbatim>\<open>utf8.DecodeRune\<close> gives the error rune of width 1).
\<close>

definition rune_width :: "nat \<Rightarrow> nat \<Rightarrow> nat \<Rightarrow> nat \<Rightarrow> nat" where
  "rune_width n b0 b1 b2 =
     (let cont = (\<lambda>b. 0x80 \<le> b \<and> b \<le> 0xBF)
      in if n < 0x80 then 1
         else if 0xC2 \<le> n \<and> n \<le> 0xDF then (if cont b0 then 2 else 0)
         else if 0xE0 \<le> n \<and> n \<le> 0xEF then
           (if (if n = 0xE0 then 0xA0 else 0x80) \<le> b0 \<and> b0 \<le> (if n = 0xED then 0x9F else 0xBF) \<and> cont b1
            then 3 else 0)
         else if 0xF0 \<le> n \<and> n \<le> 0xF4 then
           (if (if n = 0xF0 then 0x90 else 0x80) \<le> b0 \<and> b0 \<le> (if n = 0xF4 then 0x8F else 0xBF) \<and> cont b1 \<and> cont b2
            then 4 else 0)
         else 0)"

definition byte_at :: "string \<Rightarrow> nat \<Rightarrow> nat" where
  "byte_at s i = (if i < length s then of_char (s ! i) else 0)"

fun rune_len :: "string \<Rightarrow> nat" where
  "rune_len [] = 0"
| "rune_len (c # cs) = rune_width (of_char c) (byte_at cs 0) (byte_at cs 1) (byte_at cs 2)"

definition utf8_error :: string where
  "utf8_error = [CHR 0xEF, CHR 0xBF, CHR 0xBD]"

definition utf8_encode :: "nat \<Rightarrow> string" where
  "utf8_encode r =
     (if r < 0x80 then [char_of r]
      else if r < 0x800 then [char_of (0xC0 + r div 64), char_of (0x80 + r mod 64)]
      else if r < 0x10000 then
        [char_of (0xE0 + r div 4096), char_of (0x80 + r div 64 mod 64), char_of (0x80 + r mod 64)]
      else [char_of (0xF0 + r div 262144), char_of (0x80 + r div 4096 mod 64),
            char_of (0x80 + r div 64 mod 64), char_of (0x80 + r mod 64)])"

text \<open>\<^verbatim>\<open>strings.ToValidUTF8(s, "\<close>U+FFFD\<^verbatim>\<open>")\<close>, byte by byte.\<close>

function utf8_fix :: "string \<Rightarrow> string" where
  "utf8_fix [] = []"
| "utf8_fix (c # cs) =
     (case rune_len (c # cs) of
        0 \<Rightarrow> utf8_error @ utf8_fix cs
      | Suc n \<Rightarrow> c # take n cs @ utf8_fix (drop n cs))"
  by pat_completeness auto

termination utf8_fix
  by (relation "measure length") auto

section \<open>Writing\<close>

definition hex_digit :: "nat \<Rightarrow> char" where
  "hex_digit d = ''0123456789abcdef'' ! d"

definition line_sep :: "string \<Rightarrow> bool" where
  "line_sep s \<longleftrightarrow> has_prefix s [CHR 0xE2, CHR 0x80, CHR 0xA8] \<or> has_prefix s [CHR 0xE2, CHR 0x80, CHR 0xA9]"

definition esc_ascii :: "char \<Rightarrow> string" where
  "esc_ascii c =
     (let n = (of_char c :: nat)
      in if c = CHR 0x22 \<or> c = CHR 0x5C then [CHR 0x5C, c]
         else if c = CHR 0x0A then [CHR 0x5C, CHR ''n'']
         else if c = CHR 0x0D then [CHR 0x5C, CHR ''r'']
         else if c = CHR 0x09 then [CHR 0x5C, CHR ''t'']
         else if n < 0x20 \<or> c \<in> set ''<>&'' then CHR 0x5C # ''u00'' @ [hex_digit (n div 16), hex_digit (n mod 16)]
         else [c])"

function quote_chars :: "string \<Rightarrow> string" where
  "quote_chars [] = []"
| "quote_chars (c # cs) =
     (if (of_char c :: nat) < 0x80 then esc_ascii c @ quote_chars cs
      else (case rune_len (c # cs) of
              0 \<Rightarrow> CHR 0x5C # ''ufffd'' @ quote_chars cs
            | Suc n \<Rightarrow>
                (if line_sep (c # cs)
                 then CHR 0x5C # ''u202'' @ [hex_digit (of_char (cs ! 1) mod 16)] @ quote_chars (drop n cs)
                 else c # take n cs @ quote_chars (drop n cs))))"
  by pat_completeness auto

termination quote_chars
  by (relation "measure length") auto

definition quote_str :: "string \<Rightarrow> string" where
  "quote_str s = CHR 0x22 # quote_chars s @ [CHR 0x22]"

fun json_text :: "json \<Rightarrow> string"
  and arr_text :: "json list \<Rightarrow> string"
  and obj_text :: "(string \<times> json) list \<Rightarrow> string" where
  "json_text JNull = ''null''"
| "json_text (JBool b) = (if b then ''true'' else ''false'')"
| "json_text (JNum n) = itoa n"
| "json_text (JFlt s) = s"
| "json_text (JStr s) = quote_str s"
| "json_text (JArr xs) = CHR ''['' # arr_text xs @ '']''"
| "json_text (JObj es) = CHR ''{'' # obj_text es @ ''}''"
| "arr_text [] = []"
| "arr_text (x # xs) = json_text x @ (if xs = [] then [] else CHR '','' # arr_text xs)"
| "obj_text [] = []"
| "obj_text ((k, v) # es) = quote_str k @ CHR '':'' # json_text v @ (if es = [] then [] else CHR '','' # obj_text es)"

section \<open>Reading\<close>

definition json_ws :: "char \<Rightarrow> bool" where
  "json_ws c \<longleftrightarrow> c \<in> set [CHR '' '', CHR 0x09, CHR 0x0A, CHR 0x0D]"

abbreviation skip_ws :: "string \<Rightarrow> string" where
  "skip_ws s \<equiv> dropWhile json_ws s"

definition hex_val :: "char \<Rightarrow> nat option" where
  "hex_val c = (let n = of_char c in
     if 48 \<le> n \<and> n \<le> 57 then Some (n - 48)
     else if 97 \<le> n \<and> n \<le> 102 then Some (n - 87)
     else if 65 \<le> n \<and> n \<le> 70 then Some (n - 55)
     else None)"

fun hex4 :: "string \<Rightarrow> nat option" where
  "hex4 (a # b # c # d # _) =
     (case (hex_val a, hex_val b, hex_val c, hex_val d) of
        (Some w, Some x, Some y, Some z) \<Rightarrow> Some (((w * 16 + x) * 16 + y) * 16 + z)
      | _ \<Rightarrow> None)"
| "hex4 _ = None"

text \<open>
  The characters after \<^verbatim>\<open>\u\<close>: what they stand for and how many are consumed.  A high
  surrogate followed by a low one is one character; a lone surrogate is U+FFFD.
\<close>

definition unescape_u :: "string \<Rightarrow> (string \<times> nat) option" where
  "unescape_u s =
     (case hex4 s of
        None \<Rightarrow> None
      | Some r \<Rightarrow>
          (if 0xD800 \<le> r \<and> r < 0xE000 then
             (case (if r < 0xDC00 \<and> has_prefix (drop 4 s) [CHR 0x5C, CHR ''u''] then hex4 (drop 6 s) else None) of
                None \<Rightarrow> Some (utf8_error, 4)
              | Some q \<Rightarrow>
                  (if 0xDC00 \<le> q \<and> q < 0xE000
                   then Some (utf8_encode ((r - 0xD800) * 1024 + (q - 0xDC00) + 0x10000), 10)
                   else Some (utf8_error, 4)))
           else Some (utf8_encode r, 4)))"

definition simple_escape :: "char \<Rightarrow> char option" where
  "simple_escape c =
     (if c \<in> set [CHR 0x22, CHR 0x5C, CHR ''/''] then Some c
      else map_of [(CHR ''b'', CHR 0x08), (CHR ''f'', CHR 0x0C), (CHR ''n'', CHR 0x0A),
                   (CHR ''r'', CHR 0x0D), (CHR ''t'', CHR 0x09)] c)"

text \<open>The rest of a string literal after its opening quote: its value and what follows it.\<close>

function parse_chars :: "string \<Rightarrow> (string \<times> string) option" where
  "parse_chars [] = None"
| "parse_chars (c # cs) =
     (if c = CHR 0x22 then Some ([], cs)
      else if c = CHR 0x5C then
        (case cs of
           [] \<Rightarrow> None
         | e # es \<Rightarrow>
             (if e = CHR ''u'' then
                (case unescape_u es of
                   None \<Rightarrow> None
                 | Some (u, n) \<Rightarrow> map_option (\<lambda>(v, r). (u @ v, r)) (parse_chars (drop n es)))
              else (case simple_escape e of
                      None \<Rightarrow> None
                    | Some d \<Rightarrow> map_option (\<lambda>(v, r). (d # v, r)) (parse_chars es))))
      else if (of_char c :: nat) < 0x20 then None
      else (case rune_len (c # cs) of
              0 \<Rightarrow> map_option (\<lambda>(v, r). (utf8_error @ v, r)) (parse_chars cs)
            | Suc n \<Rightarrow> map_option (\<lambda>(v, r). (c # take n cs @ v, r)) (parse_chars (drop n cs))))"
  by pat_completeness auto

termination parse_chars
  by (relation "measure length") auto

definition num_char :: "char \<Rightarrow> bool" where
  "num_char c \<longleftrightarrow> is_digit c \<or> c \<in> set ''+-.eE''"

text \<open>The grammar of numbers; one without fraction and exponent is an integer.\<close>

definition digits1 :: "string \<Rightarrow> bool" where
  "digits1 s \<longleftrightarrow> s \<noteq> [] \<and> list_all is_digit s"

definition is_exponent :: "string \<Rightarrow> bool" where
  "is_exponent s \<longleftrightarrow>
     (case s of
        [] \<Rightarrow> True
      | c # r \<Rightarrow> c \<in> set ''eE'' \<and> digits1 (case r of d # r' \<Rightarrow> (if d \<in> set ''+-'' then r' else r) | [] \<Rightarrow> []))"

definition is_fraction :: "string \<Rightarrow> bool" where
  "is_fraction s \<longleftrightarrow>
     (case s of
        [] \<Rightarrow> True
      | c # r \<Rightarrow> (if c = CHR ''.'' then digits1 (takeWhile is_digit r) \<and> is_exponent (dropWhile is_digit r)
                  else is_exponent s))"

definition int_part :: "string \<Rightarrow> bool" where
  "int_part s \<longleftrightarrow> digits1 s \<and> (hd s = CHR ''0'' \<longrightarrow> tl s = [])"

definition parse_num :: "string \<Rightarrow> json option" where
  "parse_num s =
     (let u = trim_prefix s ''-''; i = takeWhile is_digit u; f = dropWhile is_digit u
      in if int_part i \<and> is_fraction f
         then Some (if f = [] then JNum (if has_prefix s ''-'' then - digits_val i else digits_val i) else JFlt s)
         else None)"

fun parse_val :: "nat \<Rightarrow> string \<Rightarrow> (json \<times> string) option"
  and parse_elems :: "nat \<Rightarrow> string \<Rightarrow> (json list \<times> string) option"
  and parse_members :: "nat \<Rightarrow> string \<Rightarrow> ((string \<times> json) list \<times> string) option" where
  "parse_val 0 s = None"
| "parse_val (Suc n) s =
     (case skip_ws s of
        [] \<Rightarrow> None
      | c # r \<Rightarrow>
          (if c = CHR 0x22 then map_option (\<lambda>(v, r'). (JStr v, r')) (parse_chars r)
           else if c = CHR ''['' then
             (if has_prefix (skip_ws r) '']'' then Some (JArr [], tl (skip_ws r))
              else map_option (\<lambda>(v, r'). (JArr v, r')) (parse_elems n r))
           else if c = CHR ''{'' then
             (if has_prefix (skip_ws r) ''}'' then Some (JObj [], tl (skip_ws r))
              else map_option (\<lambda>(v, r'). (JObj v, r')) (parse_members n r))
           else if has_prefix (c # r) ''null'' then Some (JNull, drop 4 (c # r))
           else if has_prefix (c # r) ''true'' then Some (JBool True, drop 4 (c # r))
           else if has_prefix (c # r) ''false'' then Some (JBool False, drop 5 (c # r))
           else map_option (\<lambda>v. (v, dropWhile num_char (c # r))) (parse_num (takeWhile num_char (c # r)))))"
| "parse_elems 0 s = None"
| "parse_elems (Suc n) s =
     (case parse_val n s of
        None \<Rightarrow> None
      | Some (v, r) \<Rightarrow>
          (case skip_ws r of
             [] \<Rightarrow> None
           | c # r' \<Rightarrow>
               (if c = CHR '','' then map_option (\<lambda>(vs, q). (v # vs, q)) (parse_elems n r')
                else if c = CHR '']'' then Some ([v], r')
                else None)))"
| "parse_members 0 s = None"
| "parse_members (Suc n) s =
     (case skip_ws s of
        [] \<Rightarrow> None
      | c # r \<Rightarrow>
          (if c \<noteq> CHR 0x22 then None
           else (case parse_chars r of
                   None \<Rightarrow> None
                 | Some (k, r1) \<Rightarrow>
                     (if \<not> has_prefix (skip_ws r1) '':'' then None
                      else (case parse_val n (tl (skip_ws r1)) of
                              None \<Rightarrow> None
                            | Some (v, r2) \<Rightarrow>
                                (case skip_ws r2 of
                                   [] \<Rightarrow> None
                                 | d # r3 \<Rightarrow>
                                     (if d = CHR '','' then map_option (\<lambda>(es, q). ((k, v) # es, q)) (parse_members n r3)
                                      else if d = CHR ''}'' then Some ([(k, v)], r3)
                                      else None)))))))"

text \<open>\<^verbatim>\<open>json.Unmarshal\<close> of bytes into a syntax tree; the fuel is the length of the text.\<close>

definition parse_json :: "string \<Rightarrow> body" where
  "parse_json s =
     (case parse_val (length s) s of
        Some (j, r) \<Rightarrow> (if skip_ws r = [] then Doc j else Raw s)
      | None \<Rightarrow> Raw s)"

section \<open>Strings\<close>

lemma hex_val_digit: "d < 16 \<Longrightarrow> hex_val (hex_digit d) = Some d"
proof -
  have "list_all (\<lambda>d. hex_val (hex_digit d) = Some d) [0..<16]"
    by code_simp
  then show "d < 16 \<Longrightarrow> ?thesis" by (simp add: list_all_iff)
qed

lemma rune_len_ascii: "(of_char c :: nat) < 0x80 \<Longrightarrow> rune_len (c # cs) = 1"
  by (simp add: rune_width_def)

text \<open>The width depends only on the bytes it counts, and those are there.\<close>

lemma rune_width_prefix:
  assumes "rune_width n a b d = Suc k" "0 < k \<Longrightarrow> a' = a" "1 < k \<Longrightarrow> b' = b" "2 < k \<Longrightarrow> d' = d"
  shows "rune_width n a' b' d' = Suc k"
  using assms unfolding rune_width_def Let_def
  by (cases "n < 0x80"; cases "0xC2 \<le> n \<and> n \<le> 0xDF"; cases "0xE0 \<le> n \<and> n \<le> 0xEF"; cases "0xF0 \<le> n \<and> n \<le> 0xF4")
    (simp_all split: if_split_asm)

lemma rune_width_zero:
  "rune_width n a b d = Suc k \<Longrightarrow> k \<le> 3 \<and> (0 < k \<longrightarrow> a \<noteq> 0) \<and> (1 < k \<longrightarrow> b \<noteq> 0) \<and> (2 < k \<longrightarrow> d \<noteq> 0)"
  unfolding rune_width_def Let_def by (simp split: if_split_asm)

lemma rune_len_bound: "rune_len (c # cs) = Suc n \<Longrightarrow> n \<le> length cs"
proof -
  have less: "byte_at cs i \<noteq> 0 \<Longrightarrow> i < length cs" for i
    by (simp add: byte_at_def split: if_splits)
  assume "rune_len (c # cs) = Suc n"
  then have "n \<le> 3 \<and> (0 < n \<longrightarrow> 0 < length cs) \<and> (1 < n \<longrightarrow> 1 < length cs) \<and> (2 < n \<longrightarrow> 2 < length cs)"
    using rune_width_zero less by (metis rune_len.simps(2))
  then show ?thesis by linarith
qed

lemma rune_len_take:
  assumes "rune_len (c # cs) = Suc n"
  shows "rune_len (c # take n cs @ r) = Suc n"
proof -
  have "n \<le> length cs" by (rule rune_len_bound [OF assms])
  then have "byte_at (take n cs @ r) i = byte_at cs i" if "i < n" for i
    using that by (simp add: byte_at_def nth_append)
  then show ?thesis
    using assms by (auto intro: rune_width_prefix)
qed

declare rune_len.simps(2) [simp del]

lemma unescape_u_ascii:
  assumes "n < 0x80"
  shows "unescape_u (CHR ''0'' # CHR ''0'' # hex_digit (n div 16) # hex_digit (n mod 16) # r) = Some ([char_of n], 4)"
proof -
  have "hex_val CHR ''0'' = Some 0" by code_simp
  moreover have "hex_val (hex_digit (n div 16)) = Some (n div 16)" "hex_val (hex_digit (n mod 16)) = Some (n mod 16)"
    using assms by (auto intro!: hex_val_digit)
  ultimately show ?thesis
    using assms by (simp add: unescape_u_def utf8_encode_def)
qed

text \<open>Every escape of a character below 0x80 reads back as that character.\<close>

lemma parse_esc_ascii:
  assumes c: "(of_char c :: nat) < 0x80"
  shows "parse_chars (esc_ascii c @ r) = map_option (\<lambda>(v, q). (c # v, q)) (parse_chars r)"
proof (cases "c \<in> set [CHR 0x22, CHR 0x5C, CHR 0x0A, CHR 0x0D, CHR 0x09]")
  case True
  then show ?thesis by (auto simp: esc_ascii_def simple_escape_def)
next
  case plain: False
  show ?thesis
  proof (cases "(of_char c :: nat) < 0x20 \<or> c \<in> set ''<>&''")
    case True
    then have "esc_ascii c = CHR 0x5C # ''u00'' @ [hex_digit (of_char c div 16), hex_digit (of_char c mod 16)]"
      using plain by (auto simp: esc_ascii_def Let_def)
    then show ?thesis using unescape_u_ascii [OF c, of r] by simp
  next
    case False
    then have "esc_ascii c = [c]" using plain by (auto simp: esc_ascii_def Let_def)
    then show ?thesis using False plain rune_len_ascii [OF c] by simp
  qed
qed

lemma char_of_eq: "of_char c = (n :: nat) \<Longrightarrow> char_of n = c"
  by auto

lemma utf8_fffd: "utf8_encode 65533 = utf8_error"
  by (simp add: utf8_encode_def utf8_error_def char_of_eq)

lemma utf8_line_sep: "utf8_encode 8232 = [CHR 0xE2, CHR 0x80, CHR 0xA8]" "utf8_encode 8233 = [CHR 0xE2, CHR 0x80, CHR 0xA9]"
  by (simp_all add: utf8_encode_def char_of_eq)

lemma line_sepE:
  assumes "line_sep s"
  obtains d t where "s = CHR 0xE2 # CHR 0x80 # d # t" "d = CHR 0xA8 \<or> d = CHR 0xA9"
  using assms by (auto simp: line_sep_def has_prefix_iff)

lemma parse_quote_chars:
  "parse_chars (quote_chars s @ CHR 0x22 # r) = Some (utf8_fix s, r)"
proof (induction s rule: quote_chars.induct)
  case 1
  then show ?case by simp
next
  case (2 c cs)
  show ?case
  proof (cases "(of_char c :: nat) < 0x80")
    case True
    then show ?thesis using 2(1) parse_esc_ascii [OF True] by (simp add: rune_len_ascii)
  next
    case high: False
    show ?thesis
    proof (cases "rune_len (c # cs)")
      case 0
      have "unescape_u (''fffd'' @ x) = Some (utf8_error, 4)" for x
        using utf8_fffd by (simp add: unescape_u_def hex_val_def Let_def)
      then show ?thesis using high 0 2(2) by simp
    next
      case (Suc n)
      show ?thesis
      proof (cases "line_sep (c # cs)")
        case True
        then obtain d t where cs: "c = CHR 0xE2" "cs = CHR 0x80 # d # t" and d: "d = CHR 0xA8 \<or> d = CHR 0xA9"
          by (auto elim: line_sepE)
        have n: "n = 2" using Suc d by (auto simp: cs rune_len.simps byte_at_def rune_width_def)
        have "unescape_u (CHR ''2'' # CHR ''0'' # CHR ''2'' # hex_digit (of_char d mod 16) # x) = Some ([CHR 0xE2, CHR 0x80, d], 4)" for x
          using d by (auto simp: unescape_u_def hex_val_def hex_digit_def Let_def utf8_line_sep)
        then show ?thesis using high Suc True 2(3) [OF high Suc True] n by (simp add: cs)
      next
        case False
        have "c \<noteq> CHR 0x22" "c \<noteq> CHR 0x5C" "\<not> (of_char c :: nat) < 0x20" using high by auto
        moreover have "length (take n cs) = n" using rune_len_bound [OF Suc] by simp
        ultimately show ?thesis
          using high Suc False 2(4) rune_len_take [OF Suc] by simp
      qed
    qed
  qed
qed

section \<open>Numbers\<close>

lemma nat_str_hd: "0 < n \<Longrightarrow> hd (nat_str n) \<noteq> CHR ''0''"
proof (induction n rule: nat_str.induct)
  case (1 n)
  show ?case
  proof (cases "n < 10")
    case True
    then have "digit_val (digit_char n) \<noteq> digit_val CHR ''0''"
      using 1(2) by (simp add: digit_val_def [of "CHR ''0''"])
    then show ?thesis using True by (subst nat_str.simps) auto
  next
    case False
    then show ?thesis using 1 by (subst nat_str.simps) simp
  qed
qed

lemma int_part_nat_str: "0 \<le> n \<Longrightarrow> int_part (nat_str n)"
proof (cases "n = 0")
  case True
  then show ?thesis by (subst nat_str.simps) (simp add: int_part_def digits1_def)
next
  case False
  then show "0 \<le> n \<Longrightarrow> ?thesis"
    using nat_str_hd [of n] by (simp add: int_part_def digits1_def)
qed

lemma takeWhile_digits: "list_all is_digit s \<Longrightarrow> takeWhile is_digit s = s \<and> dropWhile is_digit s = []"
  by (simp add: list_all_iff)

lemma nat_str_no_minus: "\<not> has_prefix (nat_str n) ''-''"
  using nat_str_notin [OF sep_not_digit(4), of n] by (auto simp: has_prefix_iff)

lemma parse_num_itoa: "parse_num (itoa n) = Some (JNum n)"
proof (cases "n < 0")
  case True
  then show ?thesis
    by (simp add: itoa_def parse_num_def trim_prefix_def takeWhile_digits int_part_nat_str is_fraction_def)
next
  case False
  then show ?thesis
    using nat_str_no_minus [of n]
    by (simp add: itoa_def parse_num_def trim_prefix_def takeWhile_digits int_part_nat_str is_fraction_def)
qed

lemma num_chars_itoa: "list_all num_char (itoa n)"
  using list_all_is_digit_nat_str
  by (auto simp: itoa_def num_char_def list_all_iff)

definition num_end :: "string \<Rightarrow> bool" where
  "num_end r \<longleftrightarrow> r = [] \<or> \<not> num_char (hd r)"

lemma num_span:
  assumes "list_all num_char s" "num_end r"
  shows "takeWhile num_char (s @ r) = s" "dropWhile num_char (s @ r) = r"
  using assms by (cases r; auto simp: num_end_def list_all_iff takeWhile_append dropWhile_append)+

lemma num_char_not:
  assumes "num_char c"
  shows "\<not> json_ws c \<and> c \<notin> set (CHR 0x22 # ''[]{}ntf'')"
proof -
  have "list_all (\<lambda>c. \<not> json_ws c \<and> c \<notin> set (CHR 0x22 # ''[]{}ntf'')) (''0123456789'' @ ''+-.eE'')"
    by code_simp
  moreover have "c \<in> set (''0123456789'' @ ''+-.eE'')"
    using assms by (simp only: num_char_def is_digit_def set_append Un_iff)
  ultimately show ?thesis unfolding list_all_iff by blast
qed

lemma parse_val_num:
  assumes "list_all num_char s" "s \<noteq> []" "num_end r" "parse_num s = Some v"
  shows "parse_val (Suc n) (s @ r) = Some (v, r)"
proof -
  obtain c t where s: "s = c # t" using assms(2) by (cases s) auto
  then have "num_char c" using assms(1) by simp
  then have c: "\<not> json_ws c" "c \<noteq> CHR 0x22" "c \<noteq> CHR ''[''" "c \<noteq> CHR ''{''" "c \<noteq> CHR ''n''" "c \<noteq> CHR ''t''" "c \<noteq> CHR ''f''"
    using num_char_not [of c] by auto
  have "takeWhile num_char (c # t @ r) = s" "dropWhile num_char (c # t @ r) = r"
    using num_span [OF assms(1,3)] s by auto
  then show ?thesis
    using c assms(4) by (simp add: s)
qed

section \<open>Documents\<close>

text \<open>Numbers in JSON's notation, and the document that is read back: its strings in UTF-8.\<close>

fun json_ok :: "json \<Rightarrow> bool"
  and arr_ok :: "json list \<Rightarrow> bool"
  and obj_ok :: "(string \<times> json) list \<Rightarrow> bool" where
  "json_ok (JFlt s) \<longleftrightarrow> list_all num_char s \<and> s \<noteq> [] \<and> parse_num s = Some (JFlt s)"
| "json_ok (JArr xs) \<longleftrightarrow> arr_ok xs"
| "json_ok (JObj es) \<longleftrightarrow> obj_ok es"
| "json_ok j \<longleftrightarrow> True"
| "arr_ok [] \<longleftrightarrow> True"
| "arr_ok (x # xs) \<longleftrightarrow> json_ok x \<and> arr_ok xs"
| "obj_ok [] \<longleftrightarrow> True"
| "obj_ok ((k, v) # es) \<longleftrightarrow> json_ok v \<and> obj_ok es"

fun json_fix :: "json \<Rightarrow> json"
  and arr_fix :: "json list \<Rightarrow> json list"
  and obj_fix :: "(string \<times> json) list \<Rightarrow> (string \<times> json) list" where
  "json_fix (JStr s) = JStr (utf8_fix s)"
| "json_fix (JArr xs) = JArr (arr_fix xs)"
| "json_fix (JObj es) = JObj (obj_fix es)"
| "json_fix j = j"
| "arr_fix [] = []"
| "arr_fix (x # xs) = json_fix x # arr_fix xs"
| "obj_fix [] = []"
| "obj_fix ((k, v) # es) = (utf8_fix k, json_fix v) # obj_fix es"

lemma text_nonempty: "json_ok j \<Longrightarrow> json_text j \<noteq> []"
  by (cases j) (auto simp: quote_str_def)

lemma num_end_sep [simp]: "num_end (CHR '','' # r)" "num_end (CHR '']'' # r)" "num_end (CHR ''}'' # r)" "num_end []"
  by (simp_all add: num_end_def num_char_def is_digit_def)

lemma not_ws [simp]:
  "\<not> json_ws CHR 0x22" "\<not> json_ws CHR ''[''" "\<not> json_ws CHR ''{''" "\<not> json_ws CHR '']''" "\<not> json_ws CHR ''}''"
  "\<not> json_ws CHR '',''" "\<not> json_ws CHR '':''" "\<not> json_ws CHR ''n''" "\<not> json_ws CHR ''t''" "\<not> json_ws CHR ''f''"
  by (simp_all add: json_ws_def)

lemma parse_val_str: "parse_val (Suc n) (quote_str s @ r) = Some (JStr (utf8_fix s), r)"
  by (simp add: quote_str_def parse_quote_chars)

text \<open>The text of a value does not begin with white space, a closing bracket or brace.\<close>

definition value_start :: "string \<Rightarrow> bool" where
  "value_start s \<longleftrightarrow> s \<noteq> [] \<and> \<not> json_ws (hd s) \<and> hd s \<notin> set '']}''"

lemma value_start_num: "list_all num_char s \<Longrightarrow> s \<noteq> [] \<Longrightarrow> value_start s"
  using num_char_not [of "hd s"] by (cases s) (auto simp: value_start_def)

lemma value_start_text: "json_ok j \<Longrightarrow> value_start (json_text j)"
proof (cases j)
  case (JNum n)
  then show ?thesis using value_start_num [OF num_chars_itoa] by simp
next
  case (JFlt s)
  then show "json_ok j \<Longrightarrow> ?thesis" using value_start_num by simp
qed (auto simp: quote_str_def value_start_def)

lemma value_start_no_close: "value_start s \<Longrightarrow> \<not> has_prefix (skip_ws (s @ r)) '']'' \<and> \<not> has_prefix (skip_ws (s @ r)) ''}''"
  by (cases s) (auto simp: value_start_def)

lemma arr_text_open: "arr_ok xs \<Longrightarrow> xs \<noteq> [] \<Longrightarrow> \<not> has_prefix (skip_ws (arr_text xs @ r)) '']''"
  using value_start_no_close [OF value_start_text] by (cases xs) auto

lemma obj_text_open: "es \<noteq> [] \<Longrightarrow> \<not> has_prefix (skip_ws (obj_text es @ r)) ''}''"
  by (cases es rule: obj_text.cases) (auto simp: quote_str_def)

lemma parse_scalar:
  assumes "json_ok j" "num_end r" "length (json_text j) \<le> n" "\<forall>xs. j \<noteq> JArr xs" "\<forall>es. j \<noteq> JObj es"
  shows "parse_val n (json_text j @ r) = Some (json_fix j, r)"
proof -
  obtain m where "n = Suc m" using text_nonempty [OF assms(1)] assms(3) by (cases n) auto
  then show ?thesis
    using assms by (cases j) (simp_all add: parse_val_num parse_num_itoa num_chars_itoa parse_val_str del: parse_val.simps,
      simp_all)
qed

lemma parse_text:
  "json_ok j \<Longrightarrow> num_end r \<Longrightarrow> length (json_text j) \<le> n \<Longrightarrow> parse_val n (json_text j @ r) = Some (json_fix j, r)"
  "arr_ok xs \<Longrightarrow> xs \<noteq> [] \<Longrightarrow> length (arr_text xs) < n \<Longrightarrow> parse_elems n (arr_text xs @ '']'' @ r) = Some (arr_fix xs, r)"
  "obj_ok es \<Longrightarrow> es \<noteq> [] \<Longrightarrow> length (obj_text es) < n \<Longrightarrow> parse_members n (obj_text es @ ''}'' @ r) = Some (obj_fix es, r)"
proof (induction j and xs and es arbitrary: n r and n r and n r rule: json_text_arr_text_obj_text.induct)
  case (6 xs)
  then show ?case
    using arr_text_open [of xs "CHR '']'' # r"] by (cases "xs = []"; cases n) auto
next
  case (7 es)
  then show ?case
    using obj_text_open [of es "CHR ''}'' # r"] by (cases "es = []"; cases n) auto
next
  case (9 x xs)
  obtain m where n: "n = Suc m" using 9 by (cases n) auto
  show ?case
  proof (cases "xs = []")
    case True
    then show ?thesis using 9 n by simp
  next
    case False
    have "json_ok x" using 9 by simp
    then have "parse_val m (json_text x @ CHR '','' # arr_text xs @ '']'' @ r) = Some (json_fix x, CHR '','' # arr_text xs @ '']'' @ r)"
      "parse_elems m (arr_text xs @ '']'' @ r) = Some (arr_fix xs, r)"
      using 9 n False text_nonempty [of x] by simp_all
    then show ?thesis using n False by simp
  qed
next
  case (11 k v es)
  obtain m where n: "n = Suc m" using 11 by (cases n) auto
  show ?case
  proof (cases "es = []")
    case True
    then have "parse_val m (json_text v @ ''}'' @ r) = Some (json_fix v, ''}'' @ r)"
      using 11 n by simp
    then show ?thesis using n True by (simp add: quote_str_def parse_quote_chars)
  next
    case False
    then have "parse_val m (json_text v @ CHR '','' # obj_text es @ ''}'' @ r) = Some (json_fix v, CHR '','' # obj_text es @ ''}'' @ r)"
      "parse_members m (obj_text es @ ''}'' @ r) = Some (obj_fix es, r)"
      using 11 n by simp_all
    then show ?thesis using n False by (simp add: quote_str_def parse_quote_chars)
  qed
qed (rule parse_scalar; simp | simp)+

theorem parse_json_text: "json_ok j \<Longrightarrow> parse_json (json_text j) = Doc (json_fix j)"
  using parse_text(1) [of j "[]" "length (json_text j)"] by (simp add: parse_json_def)

section \<open>One line\<close>

definition no_ctrl :: "string \<Rightarrow> bool" where
  "no_ctrl s \<longleftrightarrow> list_all (\<lambda>c. (0x20 :: nat) \<le> of_char c) s"

lemma no_ctrl_simps [simp]:
  "no_ctrl []" "no_ctrl (c # s) \<longleftrightarrow> (0x20 :: nat) \<le> of_char c \<and> no_ctrl s" "no_ctrl (s @ t) \<longleftrightarrow> no_ctrl s \<and> no_ctrl t"
  by (simp_all add: no_ctrl_def)

lemma no_ctrl_notin: "no_ctrl s \<Longrightarrow> (of_char c :: nat) < 0x20 \<Longrightarrow> c \<notin> set s"
  by (auto simp: no_ctrl_def list_all_iff)

lemma rune_width_cont:
  "rune_width n a b d = Suc k \<Longrightarrow> (0 < k \<longrightarrow> 0x20 \<le> a) \<and> (1 < k \<longrightarrow> 0x20 \<le> b) \<and> (2 < k \<longrightarrow> 0x20 \<le> d)"
  unfolding rune_width_def Let_def by (simp split: if_split_asm)

lemma no_ctrl_rune:
  assumes "rune_len (c # cs) = Suc n"
  shows "no_ctrl (take n cs)"
proof -
  have n: "n \<le> length cs" "n \<le> 3"
    using rune_len_bound [OF assms] rune_width_zero assms by (auto simp: rune_len.simps)
  have w: "(0 < n \<longrightarrow> 0x20 \<le> byte_at cs 0) \<and> (1 < n \<longrightarrow> 0x20 \<le> byte_at cs 1) \<and> (2 < n \<longrightarrow> 0x20 \<le> byte_at cs 2)"
    using assms rune_width_cont by (simp add: rune_len.simps)
  have "0x20 \<le> byte_at cs i" if "i < n" for i
  proof -
    have "i = 0 \<or> i = 1 \<or> i = 2" using that n by linarith
    then show ?thesis using w that by (elim disjE) simp_all
  qed
  then show ?thesis using n by (auto simp: no_ctrl_def list_all_length byte_at_def split: if_splits)
qed

lemma hex_digit_ctrl: "d < 16 \<Longrightarrow> (0x20 :: nat) \<le> of_char (hex_digit d)"
proof -
  have "list_all (\<lambda>d. (0x20 :: nat) \<le> of_char (hex_digit d)) [0..<16]"
    by code_simp
  then show "d < 16 \<Longrightarrow> ?thesis" by (simp add: list_all_iff)
qed

lemma no_ctrl_esc: "(of_char c :: nat) < 0x80 \<Longrightarrow> no_ctrl (esc_ascii c)"
  by (auto simp: esc_ascii_def Let_def intro!: hex_digit_ctrl)

lemma no_ctrl_quote: "no_ctrl (quote_chars s)"
proof (induction s rule: quote_chars.induct)
  case (2 c cs)
  show ?case
    using 2 no_ctrl_esc [of c] no_ctrl_rune [of c cs]
    by (cases "(of_char c :: nat) < 0x80"; cases "rune_len (c # cs)"; cases "line_sep (c # cs)")
      (simp_all add: hex_digit_ctrl)
qed simp

lemma no_ctrl_num: "list_all num_char s \<Longrightarrow> no_ctrl s"
proof -
  have "list_all (\<lambda>c. (0x20 :: nat) \<le> of_char c) (''0123456789'' @ ''+-.eE'')"
    by code_simp
  then have "num_char c \<Longrightarrow> (0x20 :: nat) \<le> of_char c" for c
    unfolding num_char_def is_digit_def list_all_iff by (metis Un_iff set_append)
  then show "list_all num_char s \<Longrightarrow> ?thesis" by (auto simp: no_ctrl_def list_all_iff)
qed

lemma no_ctrl_text:
  "json_ok j \<Longrightarrow> no_ctrl (json_text j)" "arr_ok xs \<Longrightarrow> no_ctrl (arr_text xs)" "obj_ok es \<Longrightarrow> no_ctrl (obj_text es)"
  by (induction j and xs and es rule: json_text_arr_text_obj_text.induct)
    (auto simp: no_ctrl_num num_chars_itoa quote_str_def no_ctrl_quote)

section \<open>Fuel\<close>

lemma parse_chars_rest: "parse_chars s = Some (v, r) \<Longrightarrow> length r < length s"
proof (induction s arbitrary: v r rule: parse_chars.induct)
  case (2 c cs)
  then show ?case
    by (fastforce split: if_splits list.splits option.splits prod.splits nat.splits)
qed simp

lemma length_skip_ws: "skip_ws s = c # r \<Longrightarrow> length r < length s"
  by (metis Suc_le_lessD length_Cons length_dropWhile_le)

lemma parse_num_rest: "parse_num (takeWhile num_char s) = Some v \<Longrightarrow> length (dropWhile num_char s) < length s"
proof -
  assume "parse_num (takeWhile num_char s) = Some v"
  then have "takeWhile num_char s \<noteq> []"
    by (auto simp: parse_num_def int_part_def digits1_def trim_prefix_def)
  then have "s \<noteq> []" "num_char (hd s)" by (cases s; auto split: if_splits)+
  then show ?thesis by (rule length_dropWhile_lt)
qed

text \<open>
  A value that parses with some fuel parses with any fuel of at least the number of characters it
  consumes; so the length of the text is always enough.
\<close>

definition fuel_ok :: "(nat \<Rightarrow> string \<Rightarrow> ('a \<times> string) option) \<Rightarrow> string \<Rightarrow> 'a \<Rightarrow> string \<Rightarrow> bool" where
  "fuel_ok f s x r \<longleftrightarrow> length r < length s \<and> (\<forall>m. length s - length r \<le> m \<longrightarrow> f m s = Some (x, r))"

lemma fuel_okI:
  assumes "length r < length s" "\<And>k. length s - length r \<le> Suc k \<Longrightarrow> f (Suc k) s = Some (x, r)"
  shows "fuel_ok f s x r"
proof -
  have "f m s = Some (x, r)" if "length s - length r \<le> m" for m
    using assms that by (cases m) auto
  then show ?thesis using assms(1) by (simp add: fuel_ok_def)
qed

lemma fuel_ok_less: "fuel_ok f s x r \<Longrightarrow> length r < length s"
  by (simp add: fuel_ok_def)

lemma fuel_okD: "fuel_ok f s x r \<Longrightarrow> length s - length r \<le> m \<Longrightarrow> f m s = Some (x, r)"
  by (simp add: fuel_ok_def)

lemma elems_step:
  assumes v: "fuel_ok parse_val s v q" and c: "skip_ws q = c # q'"
    and next_elem: "c = CHR '','' \<and> xs = v # ys \<and> fuel_ok parse_elems q' ys r \<or> c = CHR '']'' \<and> xs = [v] \<and> r = q'"
  shows "fuel_ok parse_elems s xs r"
proof (rule fuel_okI)
  have l: "length q' < length q" "length q < length s" "length r \<le> length q'"
    using length_skip_ws [OF c] fuel_ok_less [OF v] next_elem fuel_ok_less [of parse_elems q' ys r] by auto
  then show "length r < length s" by simp
  fix k assume "length s - length r \<le> Suc k"
  then have "length s - length q \<le> k" "length q' - length r \<le> k" using l by auto
  then show "parse_elems (Suc k) s = Some (xs, r)"
    using fuel_okD [OF v, of k] fuel_okD [of parse_elems q' ys r k] next_elem c by auto
qed

lemma members_step:
  assumes k: "skip_ws s = CHR 0x22 # q0" "parse_chars q0 = Some (key, q1)" "skip_ws q1 = CHR '':'' # q2"
    and v: "fuel_ok parse_val q2 v q" and c: "skip_ws q = c # q'"
    and next_mem: "c = CHR '','' \<and> es = (key, v) # ms \<and> fuel_ok parse_members q' ms r \<or> c = CHR ''}'' \<and> es = [(key, v)] \<and> r = q'"
  shows "fuel_ok parse_members s es r"
proof (rule fuel_okI)
  have l: "length q0 < length s" "length q1 < length q0" "length q2 < length q1" "length q < length q2"
    "length q' < length q" "length r \<le> length q'"
    using length_skip_ws [OF k(1)] length_skip_ws [OF k(3)] length_skip_ws [OF c] parse_chars_rest [OF k(2)]
      fuel_ok_less [OF v] next_mem fuel_ok_less [of parse_members q' ms r] by auto
  then show "length r < length s" by simp
  fix n assume "length s - length r \<le> Suc n"
  then have "length q2 - length q \<le> n" "length q' - length r \<le> n" using l by auto
  then show "parse_members (Suc n) s = Some (es, r)"
    using fuel_okD [OF v, of n] fuel_okD [of parse_members q' ms r n] next_mem c k by auto
qed

lemma val_step_arr:
  assumes c: "skip_ws s = CHR ''['' # q" and "\<not> has_prefix (skip_ws q) '']''" "fuel_ok parse_elems q xs r"
  shows "fuel_ok parse_val s (JArr xs) r"
proof (rule fuel_okI)
  have l: "length q < length s" by (rule length_skip_ws [OF c])
  then show "length r < length s" using fuel_ok_less [OF assms(3)] by simp
  fix k assume "length s - length r \<le> Suc k"
  then have "parse_elems k q = Some (xs, r)" using l by (intro fuel_okD [OF assms(3)]) simp
  then show "parse_val (Suc k) s = Some (JArr xs, r)" using assms(2) by (simp add: c)
qed

lemma val_step_obj:
  assumes c: "skip_ws s = CHR ''{'' # q" and "\<not> has_prefix (skip_ws q) ''}''" "fuel_ok parse_members q es r"
  shows "fuel_ok parse_val s (JObj es) r"
proof (rule fuel_okI)
  have l: "length q < length s" by (rule length_skip_ws [OF c])
  then show "length r < length s" using fuel_ok_less [OF assms(3)] by simp
  fix k assume "length s - length r \<le> Suc k"
  then have "parse_members k q = Some (es, r)" using l by (intro fuel_okD [OF assms(3)]) simp
  then show "parse_val (Suc k) s = Some (JObj es, r)" using assms(2) by (simp add: c)
qed

text \<open>A value without elements needs one step.\<close>

lemma val_flat:
  assumes p: "parse_val (Suc n) s = Some (j, r)" and c: "skip_ws s = c # q"
    and "c = CHR ''['' \<Longrightarrow> has_prefix (skip_ws q) '']''" "c = CHR ''{'' \<Longrightarrow> has_prefix (skip_ws q) ''}''"
  shows "fuel_ok parse_val s j r"
proof (rule fuel_okI)
  have q: "length q < length s" by (rule length_skip_ws [OF c])
  have "length r \<le> length q"
  proof (cases "c = CHR 0x22 \<or> c = CHR ''['' \<or> c = CHR ''{''")
    case True
    then show ?thesis
      using p c assms(3,4) parse_chars_rest [of q] length_dropWhile_le [of json_ws q]
      by (auto simp: has_prefix_iff)
  next
    case False
    then show ?thesis
      using p c parse_num_rest [of "c # q"] by (auto split: if_splits simp del: dropWhile.simps takeWhile.simps)
  qed
  then show "length r < length s" using q by simp
  have "parse_val (Suc k) s = parse_val (Suc n) s" for k
    using assms(3,4) by (cases "c = CHR ''[''"; cases "c = CHR ''{''") (simp_all add: c)
  then show "parse_val (Suc k) s = Some (j, r)" for k
    using p by (simp del: parse_val.simps)
qed

lemma parse_fuel:
  "parse_val n s = Some (j, r) \<Longrightarrow> fuel_ok parse_val s j r"
  "parse_elems n s = Some (xs, r) \<Longrightarrow> fuel_ok parse_elems s xs r"
  "parse_members n s = Some (es, r) \<Longrightarrow> fuel_ok parse_members s es r"
proof (induction n s and n s and n s arbitrary: j r and xs r and es r rule: parse_val_parse_elems_parse_members.induct)
  case (2 n s)
  obtain c q where c: "skip_ws s = c # q" using 2(3) by (auto split: list.splits)
  show ?case
  proof (cases "(c = CHR ''['' \<longrightarrow> has_prefix (skip_ws q) '']'') \<and> (c = CHR ''{'' \<longrightarrow> has_prefix (skip_ws q) ''}'')")
    case True
    then show ?thesis by (intro val_flat [OF 2(3) c]) auto
  next
    case False
    then consider "c = CHR ''[''" "\<not> has_prefix (skip_ws q) '']''" | "c = CHR ''{''" "\<not> has_prefix (skip_ws q) ''}''"
      by auto
    then show ?thesis
    proof cases
      case arr: 1
      then obtain xs where "parse_elems n q = Some (xs, r)" "j = JArr xs" using 2(3) c by auto
      then show ?thesis using arr 2(1) [OF c] c by (simp add: val_step_arr)
    next
      case obj: 2
      then obtain es where "parse_members n q = Some (es, r)" "j = JObj es" using 2(3) c by auto
      then show ?thesis using obj 2(2) [OF c] c by (simp add: val_step_obj)
    qed
  qed
next
  case (4 n s)
  obtain v q where v: "parse_val n s = Some (v, q)"
    using 4(3) by (auto split: option.splits)
  obtain c q' where c: "skip_ws q = c # q'"
    using 4(3) v by (auto split: list.splits)
  show ?case
    using 4(1) [OF v] 4(2) [OF v _ c] 4(3) v c by (auto intro: elems_step split: if_splits)
next
  case (6 n s)
  obtain q0 where q0: "skip_ws s = CHR 0x22 # q0"
    using 6(3) by (auto split: list.splits if_splits)
  obtain key q1 where q1: "parse_chars q0 = Some (key, q1)" "has_prefix (skip_ws q1) '':''"
    using 6(3) q0 by (auto split: option.splits if_splits)
  obtain q2 where q2: "skip_ws q1 = CHR '':'' # q2"
    using q1(2) by (cases "skip_ws q1") auto
  obtain v q c q' where v: "parse_val n q2 = Some (v, q)" and c: "skip_ws q = c # q'"
    using 6(3) q0 q1 q2 by (auto split: option.splits list.splits)
  have val: "fuel_ok parse_val q2 v q"
    using 6(1) [OF q0 _ q1(1)] v q1 q2 by simp
  show ?case
  proof (cases "c = CHR '',''")
    case True
    then obtain ms where ms: "parse_members n q' = Some (ms, r)" "es = (key, v) # ms"
      using 6(3) v c q0 q1 q2 by auto
    then have "fuel_ok parse_members q' ms r"
      using 6(2) [OF q0 _ q1(1)] v c q1 q2 True by simp
    then show ?thesis using ms True by (intro members_step [OF q0 q1(1) q2 val c]) simp
  next
    case False
    then show ?thesis
      using 6(3) v c q0 q1 q2 by (intro members_step [OF q0 q1(1) q2 val c]) (simp split: if_splits)
  qed
qed simp_all

lemma parse_enough: "parse_val n s = Some (j, r) \<Longrightarrow> parse_val (length s) s = Some (j, r)"
  using parse_fuel(1) [of n s j r] by (auto intro: fuel_okD)

end
