(* ===== verification/Prune.thy ===== *)
theory Prune
  imports Access JsonText
begin

text \<open>
  Package \<^verbatim>\<open>internal/forward\<close>, file \<^verbatim>\<open>proxy.go\<close>: the prune requests,
  which the proxy carries out itself, one resource at a time.  Each loop returns the paths of the
  \<^verbatim>\<open>DELETE\<close> requests it sent, what it reports as deleted and the new state.
\<close>

section \<open>Deleting one resource\<close>

definition delete_ok :: "daemon \<Rightarrow> string \<Rightarrow> bool" where
  "delete_ok d path =
     (case d ''DELETE'' path [] no_body of None \<Rightarrow> False | Some (status, _) \<Rightarrow> status = 204 \<or> status = 200)"

definition note_pruned :: "string \<Rightarrow> pruneOwnerInfo \<Rightarrow> world \<Rightarrow> world" where
  "note_pruned key entry w = w \<lparr>completedPruneOwner := (completedPruneOwner w)(key \<mapsto> entry)\<rparr>"

definition write_db :: "db_write \<Rightarrow> world \<Rightarrow> world" where
  "write_db f w = w \<lparr>wDB := snd (f (wDB w))\<rparr>"

section \<open>Volumes\<close>

fun dec_map_of :: "(json \<Rightarrow> 'a option) \<Rightarrow> json \<Rightarrow> (string \<times> 'a) list option" where
  "dec_map_of dec (JObj es) = map_option to_map (all_some (map (\<lambda>(k, j). map_option (\<lambda>x. (k, x)) (dec j)) es))"
| "dec_map_of dec JNull = Some []"
| "dec_map_of dec _ = None"

definition parsePruneLabelFilters :: "string \<Rightarrow> string list option" where
  "parsePruneLabelFilters raw =
     (if raw = [] then Some []
      else case parse_json raw of
        Raw _ \<Rightarrow> None
      | Doc j \<Rightarrow>
          (case dec_map_of (dec_map_of dec_bool) j of
             Some f1 \<Rightarrow> Some (case map_of f1 ''label'' of None \<Rightarrow> [] | Some m \<Rightarrow> map fst m)
           | None \<Rightarrow>
               (case dec_map_of dec_str_list j of
                  Some f2 \<Rightarrow> Some (case map_of f2 ''label'' of None \<Rightarrow> [] | Some ls \<Rightarrow> ls)
                | None \<Rightarrow> None)))"

definition filter_holds :: "labels \<Rightarrow> string \<Rightarrow> bool" where
  "filter_holds ls f =
     (if CHR ''='' \<in> set f
      then (case map_of ls (before_char CHR ''='' f) of None \<Rightarrow> [] | Some v \<Rightarrow> v) = after_char CHR ''='' f
      else map_of ls f \<noteq> None)"

definition volumeMatchesLabelFilters :: "daemon \<Rightarrow> string \<Rightarrow> string list \<Rightarrow> bool" where
  "volumeMatchesLabelFilters d volName filters =
     (case daemon_get d (''/volumes/'' @ volName) [] of
        None \<Rightarrow> False
      | Some (status, b) \<Rightarrow>
          (if status \<noteq> 200 then False
           else case body_struct b of
             None \<Rightarrow> False
           | Some es \<Rightarrow>
               (case field_str_map ''Labels'' es of
                  None \<Rightarrow> False
                | Some ls \<Rightarrow> list_all (filter_holds ls) filters)))"

text \<open>The path of the request that deletes a volume, and the loop over the volumes.\<close>

definition volume_path :: "string \<Rightarrow> string" where
  "volume_path n = ''/volumes/'' @ n"

fun prune_volumes ::
  "daemon \<Rightarrow> CallerIdentity \<Rightarrow> string list \<Rightarrow> string list \<Rightarrow> world \<Rightarrow> string list \<times> string list \<times> world" where
  "prune_volumes d i filters [] w = ([], [], w)"
| "prune_volumes d i filters (volName # vs) w =
     (if \<not> isUserVolumePrefix volName \<or>
         (filters \<noteq> [] \<and> \<not> volumeMatchesLabelFilters d volName filters)
      then prune_volumes d i filters vs w
      else if delete_ok d (volume_path volName) then
        (let w1 = note_pruned (''volume:'' @ volName) \<lparr>ownerUID = RealUID i, poPrivCtx = 0\<rparr> w;
             w2 = write_db (DeleteVolume volName) w1;
             shown = (if IsPrivileged i then volName else trim_prefix volName (UserVolumePrefix (RealUID i)))
         in case prune_volumes d i filters vs w2 of
              (calls, deleted, w') \<Rightarrow> (volume_path volName # calls, shown # deleted, w'))
      else case prune_volumes d i filters vs w of
        (calls, deleted, w') \<Rightarrow> (volume_path volName # calls, deleted, w'))"

definition volumes_answer :: "string list \<Rightarrow> body" where
  "volumes_answer deleted =
     Doc (JObj [(''VolumesDeleted'', JArr (map JStr deleted)), (''SpaceReclaimed'', JNum 0)])"

definition handleVolumePrune :: "proxy \<Rightarrow> CallerIdentity \<Rightarrow> request \<Rightarrow> world \<Rightarrow> string list \<times> reply \<times> world" where
  "handleVolumePrune p i r w =
     (case parsePruneLabelFilters (query_param r ''filters'') of
        None \<Rightarrow> ([], Served (volumes_answer []), w)
      | Some filters \<Rightarrow>
          (case (if IsPrivileged i then GetAllVolumeNames (wDB w)
                 else GetVolumeNamesByOwner (wDB w) (RealUID i)) of
             Inl _ \<Rightarrow> ([], Served (volumes_answer []), w)
           | Inr vols \<Rightarrow>
               (case prune_volumes (pxDaemon p) i filters vols w of
                  (calls, deleted, w') \<Rightarrow> (calls, Served (volumes_answer deleted), w'))))"

section \<open>Containers\<close>

definition container_path :: "string \<Rightarrow> string" where
  "container_path cid = ''/containers/'' @ cid"

definition forget_container :: "string \<Rightarrow> world \<Rightarrow> world" where
  "forget_container cid w = write_db (ReleasePortMappings cid) (write_db (DeleteContainer cid) w)"

text \<open>The flag tells whether the deletion is noted for the events, which the system prune does not do.\<close>

fun prune_containers ::
  "daemon \<Rightarrow> CallerIdentity \<Rightarrow> bool \<Rightarrow> string list \<Rightarrow> world \<Rightarrow> string list \<times> string list \<times> world" where
  "prune_containers d i note [] w = ([], [], w)"
| "prune_containers d i note (cid # cs) w =
     (if delete_ok d (container_path cid) then
        (let w1 = (if note then note_pruned (''container:'' @ cid) \<lparr>ownerUID = RealUID i, poPrivCtx = 0\<rparr> w else w)
         in case prune_containers d i note cs (forget_container cid w1) of
              (calls, deleted, w') \<Rightarrow> (container_path cid # calls, cid # deleted, w'))
      else case prune_containers d i note cs w of
        (calls, deleted, w') \<Rightarrow> (container_path cid # calls, deleted, w'))"

definition containers_answer :: "string list \<Rightarrow> body" where
  "containers_answer deleted =
     Doc (JObj [(''ContainersDeleted'', JArr (map JStr deleted)), (''SpaceReclaimed'', JNum 0)])"

text \<open>\<^term>\<open>None\<close> as reply: a privileged caller's request goes to the daemon.\<close>

definition handleContainerPrune ::
  "proxy \<Rightarrow> CallerIdentity \<Rightarrow> world \<Rightarrow> string list \<times> reply option \<times> world" where
  "handleContainerPrune p i w =
     (if IsPrivileged i then ([], None, w)
      else case GetContainerIDsByOwner (wDB w) (RealUID i) of
        Inl _ \<Rightarrow> ([], Some (Served (containers_answer [])), w)
      | Inr ids \<Rightarrow>
          (case prune_containers (pxDaemon p) i True ids w of
             (calls, deleted, w') \<Rightarrow> (calls, Some (Served (containers_answer deleted)), w')))"

section \<open>Images\<close>

definition image_path :: "string \<Rightarrow> string" where
  "image_path img = ''/images/'' @ img"

definition dangling_filter :: string where
  "dangling_filter =
     ''filters='' @ query_escape (''{'' @ quote @ ''dangling'' @ quote @ '':['' @ quote @ ''true'' @ quote @ '']}'')"

text \<open>The dangling images of the daemon; the status of the answer is not looked at.\<close>

definition dangling_images :: "daemon \<Rightarrow> string list option" where
  "dangling_images d =
     (case daemon_get d ''/images/json'' dangling_filter of
        None \<Rightarrow> None
      | Some (_, b) \<Rightarrow> (case b of Raw _ \<Rightarrow> None | Doc j \<Rightarrow> dec_structs (field_str ''Id'') j))"

text \<open>The items of an answer to the deletion of an image.\<close>

record pruneDeleted =
  pdDeleted :: string
  pdUntagged :: string

definition item_fields :: "jmap \<Rightarrow> pruneDeleted option" where
  "item_fields es =
     (case (field_str ''Deleted'' es, field_str ''Untagged'' es) of
        (Some del, Some unt) \<Rightarrow> Some \<lparr>pdDeleted = del, pdUntagged = unt\<rparr>
      | _ \<Rightarrow> None)"

definition deleted_items :: "body \<Rightarrow> pruneDeleted list option" where
  "deleted_items b = (case b of Raw _ \<Rightarrow> None | Doc j \<Rightarrow> dec_structs item_fields j)"

definition enc_item :: "pruneDeleted \<Rightarrow> json" where
  "enc_item it =
     JObj ((if pdDeleted it = [] then [] else [(''Deleted'', JStr (pdDeleted it))]) @
           (if pdUntagged it = [] then [] else [(''Untagged'', JStr (pdUntagged it))]))"

definition image_of_other :: "OwnershipDB \<Rightarrow> int \<Rightarrow> string \<Rightarrow> bool" where
  "image_of_other db uid img =
     (case GetImageOwner db img of None \<Rightarrow> False | Some (owner, _, _) \<Rightarrow> oiUID owner \<noteq> uid)"

definition image_priv_ctx :: "OwnershipDB \<Rightarrow> string \<Rightarrow> int" where
  "image_priv_ctx db img = (case GetImageOwner db img of None \<Rightarrow> 0 | Some (_, _, pc) \<Rightarrow> pc)"

text \<open>
  The first flag tells whether an answer that is no list of items is reported as the deletion of
  the image itself, which the system prune does not do.
\<close>

fun prune_images ::
  "daemon \<Rightarrow> CallerIdentity \<Rightarrow> bool \<Rightarrow> string list \<Rightarrow> world \<Rightarrow> string list \<times> pruneDeleted list \<times> world" where
  "prune_images d i report [] w = ([], [], w)"
| "prune_images d i report (img # imgs) w =
     (if image_of_other (wDB w) (RealUID i) img then prune_images d i report imgs w
      else case d ''DELETE'' (image_path img) [] no_body of
        None \<Rightarrow> (case prune_images d i report imgs w of (calls, items, w') \<Rightarrow> (image_path img # calls, items, w'))
      | Some (status, b) \<Rightarrow>
          (if status \<noteq> 200
           then (case prune_images d i report imgs w of (calls, items, w') \<Rightarrow> (image_path img # calls, items, w'))
           else
             (let entry = \<lparr>ownerUID = RealUID i, poPrivCtx = image_priv_ctx (wDB w) img\<rparr>;
                  w1 = write_db (DeleteImage img) (note_pruned (''image:'' @ img) entry w);
                  new = (case deleted_items b of
                           Some its \<Rightarrow> its
                         | None \<Rightarrow> (if report then [\<lparr>pdDeleted = img, pdUntagged = []\<rparr>] else []))
              in case prune_images d i report imgs w1 of
                   (calls, items, w') \<Rightarrow> (image_path img # calls, new @ items, w'))))"

definition images_answer :: "pruneDeleted list \<Rightarrow> body" where
  "images_answer items =
     Doc (JObj [(''ImagesDeleted'', JArr (map enc_item items)), (''SpaceReclaimed'', JNum 0)])"

definition handleImagePrune :: "proxy \<Rightarrow> CallerIdentity \<Rightarrow> world \<Rightarrow> string list \<times> reply option \<times> world" where
  "handleImagePrune p i w =
     (if IsPrivileged i then ([], None, w)
      else case dangling_images (pxDaemon p) of
        None \<Rightarrow> ([], Some (Served (images_answer [])), w)
      | Some imgs \<Rightarrow>
          (case prune_images (pxDaemon p) i True imgs w of
             (calls, items, w') \<Rightarrow> (calls, Some (Served (images_answer items)), w')))"

section \<open>Networks\<close>

definition network_path :: "string \<Rightarrow> string" where
  "network_path n = ''/networks/'' @ n"

fun prune_networks :: "daemon \<Rightarrow> string list \<Rightarrow> world \<Rightarrow> string list \<times> string list \<times> world" where
  "prune_networks d [] w = ([], [], w)"
| "prune_networks d (netID # ns) w =
     (if \<not> isValidHexID netID then prune_networks d ns w
      else if delete_ok d (network_path netID) then
        (case prune_networks d ns (write_db (DeleteNetwork netID) w) of
           (calls, deleted, w') \<Rightarrow> (network_path netID # calls, netID # deleted, w'))
      else case prune_networks d ns w of (calls, deleted, w') \<Rightarrow> (network_path netID # calls, deleted, w'))"

definition networks_answer :: "string list \<Rightarrow> body" where
  "networks_answer deleted = Doc (JObj [(''NetworksDeleted'', JArr (map JStr deleted))])"

definition handleNetworkPrune :: "proxy \<Rightarrow> CallerIdentity \<Rightarrow> world \<Rightarrow> string list \<times> reply option \<times> world" where
  "handleNetworkPrune p i w =
     (if IsPrivileged i then ([], None, w)
      else case GetNetworkIDsByOwner (wDB w) (RealUID i) of
        Inl _ \<Rightarrow> ([], Some (Served (networks_answer [])), w)
      | Inr ids \<Rightarrow>
          (case prune_networks (pxDaemon p) ids w of
             (calls, deleted, w') \<Rightarrow> (calls, Some (Served (networks_answer deleted)), w')))"

section \<open>Everything\<close>

text \<open>The loop over the volumes of a system prune: no filters, and nothing is noted for the events.\<close>

fun prune_own_volumes :: "daemon \<Rightarrow> CallerIdentity \<Rightarrow> string list \<Rightarrow> world \<Rightarrow> string list \<times> string list \<times> world" where
  "prune_own_volumes d i [] w = ([], [], w)"
| "prune_own_volumes d i (volName # vs) w =
     (if \<not> isUserVolumePrefix volName then prune_own_volumes d i vs w
      else if delete_ok d (volume_path volName) then
        (case prune_own_volumes d i vs (write_db (DeleteVolume volName) w) of
           (calls, deleted, w') \<Rightarrow>
             (volume_path volName # calls, trim_prefix volName (UserVolumePrefix (RealUID i)) # deleted, w'))
      else case prune_own_volumes d i vs w of
        (calls, deleted, w') \<Rightarrow> (volume_path volName # calls, deleted, w'))"

definition handleSystemPrune :: "proxy \<Rightarrow> CallerIdentity \<Rightarrow> world \<Rightarrow> string list \<times> reply option \<times> world" where
  "handleSystemPrune p i w =
     (if IsPrivileged i then ([], None, w)
      else
        (let d = pxDaemon p;
             (c1, cs, w1) = (case GetContainerIDsByOwner (wDB w) (RealUID i) of
                               Inl _ \<Rightarrow> ([], [], w) | Inr ids \<Rightarrow> prune_containers d i False ids w);
             (c2, is, w2) = (case dangling_images d of
                               None \<Rightarrow> ([], [], w1) | Some imgs \<Rightarrow> prune_images d i False imgs w1);
             (c3, ns, w3) = (case GetNetworkIDsByOwner (wDB w2) (RealUID i) of
                               Inl _ \<Rightarrow> ([], [], w2) | Inr ids \<Rightarrow> prune_networks d ids w2);
             (c4, vs, w4) = (case GetVolumeNamesByOwner (wDB w3) (RealUID i) of
                               Inl _ \<Rightarrow> ([], [], w3) | Inr vols \<Rightarrow> prune_own_volumes d i vols w3)
         in (c1 @ c2 @ c3 @ c4,
             Some (Served (Doc (JObj [(''ContainersDeleted'', JArr (map JStr cs)),
                                      (''ImagesDeleted'', JArr (map enc_item is)),
                                      (''NetworksDeleted'', JArr (map JStr ns)),
                                      (''VolumesDeleted'', JArr (map JStr vs)),
                                      (''SpaceReclaimed'', JNum 0)]))), w4)))"

end
