(* ===== verification/Forward.thy ===== *)
theory Forward
  imports Access
begin

text \<open>
  Package \<^verbatim>\<open>internal/forward\<close>, file \<^verbatim>\<open>proxy.go\<close>: the last changes to a
  request before it goes to the daemon (\<^verbatim>\<open>preprocessRequest\<close>) and the round trip with
  its retries (\<^verbatim>\<open>forward\<close>).
\<close>

section \<open>Preprocessing\<close>

definition syncMemorySwapForUpdate :: "body \<Rightarrow> body" where
  "syncMemorySwapForUpdate b =
     (case body_map b of
        Some (Some obj) \<Rightarrow>
          (case map_of obj ''Memory'' of
             None \<Rightarrow> b
           | Some raw \<Rightarrow>
               (case dec_int64 raw of
                  None \<Rightarrow> b
                | Some mem \<Rightarrow> (if mem \<le> 0 then b else Doc (JObj (map_put ''MemorySwap'' raw obj)))))
      | _ \<Rightarrow> b)"

text \<open>The name in the query gets the prefix of the user, unless it has it.\<close>

definition prefix_name :: "CallerIdentity \<Rightarrow> request \<Rightarrow> request" where
  "prefix_name i r =
     (let name = query_param r ''name''; pfx = UserContainerPrefix (RealUID i) in
      if name \<noteq> [] \<and> \<not> has_prefix name pfx
      then r \<lparr>rqRawQuery := Values_Encode (query_set ''name'' (pfx @ name) (url_query r))\<rparr>
      else r)"

definition note_name :: "CallerIdentity \<Rightarrow> request \<Rightarrow> request" where
  "note_name i r =
     (let name = query_param r ''name''; pfx = UserContainerPrefix (RealUID i) in
      if name \<noteq> [] \<and> \<not> has_prefix name pfx then r \<lparr>rqRewritten := pfx @ name\<rparr> else r)"

definition pre_create :: "CallerIdentity \<Rightarrow> request \<Rightarrow> (reply, request) result" where
  "pre_create i r =
     (let r1 = (if IsPrivileged i then r else note_name i r);
          r2 = (if IsPrivileged i then r1 else prefix_name i r1)
      in case InjectSystemLabels (rqBody r) i of
           Inl e \<Rightarrow> Inl (Aborted e)
         | Inr b \<Rightarrow> Inr (r2 \<lparr>rqBody := b\<rparr>))"

definition noted_name :: "request \<Rightarrow> request" where
  "noted_name r =
     (case body_struct (rqBody r) of
        None \<Rightarrow> r
      | Some es \<Rightarrow>
          (case field_str ''Name'' es of
             None \<Rightarrow> r
           | Some n \<Rightarrow> (if n \<noteq> [] then r \<lparr>rqRewritten := n\<rparr> else r)))"

definition pre_network_create :: "CallerIdentity \<Rightarrow> request \<Rightarrow> (reply, request) result" where
  "pre_network_create i r =
     (if IsPrivileged i then Inr (noted_name r)
      else case InjectNetworkNamePrefixWithName (rqBody r) i of
        Inl e \<Rightarrow> Inl (Aborted e)
      | Inr (b, actualName) \<Rightarrow>
          Inr (r \<lparr>rqBody := b, rqRewritten := (if actualName \<noteq> [] then actualName else rqRewritten r)\<rparr>))"

definition pre_volume_create :: "CallerIdentity \<Rightarrow> request \<Rightarrow> (reply, request) result" where
  "pre_volume_create i r =
     (if IsPrivileged i then Inr (noted_name r)
      else case InjectVolumeNamePrefix (rqBody r) i of
        Inl e \<Rightarrow> Inl (Aborted e)
      | Inr b \<Rightarrow> Inr (r \<lparr>rqBody := b\<rparr>))"

definition preprocessRequest :: "CallerIdentity \<Rightarrow> string \<Rightarrow> request \<Rightarrow> (reply, request) result" where
  "preprocessRequest i action r =
     (if action \<notin> {ActionCreateContainer, ActionNetworkCreate, ActionVolumeCreate, ActionUpdate, ActionRename,
                    ActionNetworkConnect, ActionNetworkDisconnect}
      then Inr r
      else
        map_sum (\<lambda>e. e) (\<lambda>r'. r' \<lparr>rqHasBody := True\<rparr>)
          (if action = ActionCreateContainer then pre_create i r
           else if action = ActionNetworkCreate then pre_network_create i r
           else if action = ActionVolumeCreate then pre_volume_create i r
           else if action = ActionRename then Inr (if IsPrivileged i then r else prefix_name i r)
           else if action = ActionUpdate then Inr (r \<lparr>rqBody := syncMemorySwapForUpdate (rqBody r)\<rparr>)
           else Inr (if IsPrivileged i then r
                     else r \<lparr>rqBody := RewriteContainerInNetworkBody (rqBody r) (RealUID i)\<rparr>)))"

section \<open>Round trips\<close>

text \<open>
  An answer of the daemon; one that is read line by line (load, pull, build, events) is given by
  its lines as well.
\<close>

record response =
  rsStatus :: int
  rsBody :: body
  rsLines :: "body list"

text \<open>
  The outcome of one attempt: a transport error (and whether it means that the daemon is not
  listening) or an answer.  The attempts of a request are numbered from 0.
\<close>

datatype round_trip = TransportError bool | Answer response

definition retryable :: "request \<Rightarrow> bool" where
  "retryable r \<longleftrightarrow> rqHasBody r \<or> rqMethod r = ''GET'' \<or> rqMethod r = ''HEAD''"

definition maxRetries :: nat where
  "maxRetries = 2"

definition try_again :: "bool \<Rightarrow> round_trip \<Rightarrow> nat \<Rightarrow> bool" where
  "try_again canRetry out attempt \<longleftrightarrow>
     canRetry \<and> attempt < maxRetries \<and>
     (case out of TransportError _ \<Rightarrow> True | Answer rs \<Rightarrow> rsStatus rs = 502 \<or> rsStatus rs = 503)"

text \<open>The result, an upstream error code or an answer, with the number of requests sent.\<close>

function send_from :: "(nat \<Rightarrow> round_trip) \<Rightarrow> bool \<Rightarrow> nat \<Rightarrow> (int, response) result \<times> nat" where
  "send_from tr canRetry attempt =
     (if try_again canRetry (tr attempt) attempt then send_from tr canRetry (Suc attempt)
      else (case tr attempt of
              TransportError refused \<Rightarrow> (Inl (if refused then 503 else 500), Suc attempt)
            | Answer rs \<Rightarrow> (Inr rs, Suc attempt)))"
  by pat_completeness auto

termination send_from
  by (relation "measure (\<lambda>(_, _, attempt). Suc maxRetries - attempt)") (auto simp: try_again_def)

declare send_from.simps [simp del]

text \<open>
  The body of the request is read to its end, so that a later reader of the same request finds
  nothing.
\<close>

definition forward :: "(nat \<Rightarrow> round_trip) \<Rightarrow> request \<Rightarrow> ((int, response) result \<times> nat) \<times> request" where
  "forward tr r = (send_from tr (retryable r) 0, if rqHasBody r then r \<lparr>rqBody := no_body\<rparr> else r)"

section \<open>Properties of the round trip\<close>

lemma send_stop:
  "\<not> try_again canRetry (tr n) n \<Longrightarrow> send_from tr canRetry n =
    (case tr n of TransportError refused \<Rightarrow> Inl (if refused then 503 else 500) | Answer rs \<Rightarrow> Inr rs, Suc n)"
  by (subst send_from.simps) (simp split: round_trip.split)

lemma send_next: "try_again canRetry (tr n) n \<Longrightarrow> send_from tr canRetry n = send_from tr canRetry (Suc n)"
  by (subst send_from.simps) simp

lemma send_from_first:
  assumes "\<not> try_again canRetry (tr n) n" "\<forall>k<n. try_again canRetry (tr k) k" "attempt \<le> n"
  shows "send_from tr canRetry attempt =
    (case tr n of TransportError refused \<Rightarrow> Inl (if refused then 503 else 500) | Answer rs \<Rightarrow> Inr rs, Suc n)"
  using assms(3)
proof (induction "n - attempt" arbitrary: attempt)
  case 0
  then show ?case using assms(1) by (simp add: send_stop)
next
  case (Suc m)
  then have "attempt < n" "m = n - Suc attempt" by linarith+
  then show ?case using Suc.hyps(1) [of "Suc attempt"] assms(2) by (simp add: send_next)
qed

text \<open>
  C13. Every request is answered after at most three round trips.  The
  outcome is that of the first attempt that either cannot be repeated or was answered with
  another status than 502 and 503; a request without body whose method is neither GET nor HEAD is
  sent exactly once.
\<close>

theorem forward_terminates:
  "\<exists>n \<le> 2. fst (forward tr r) =
       (case tr n of TransportError refused \<Rightarrow> Inl (if refused then 503 else 500) | Answer rs \<Rightarrow> Inr rs, Suc n) \<and>
     (\<forall>k < n. try_again (retryable r) (tr k) k) \<and> \<not> try_again (retryable r) (tr n) n \<and>
     (\<not> retryable r \<longrightarrow> n = 0)"
proof -
  let ?stop = "\<lambda>n. \<not> try_again (retryable r) (tr n) n"
  have "?stop maxRetries" by (simp add: try_again_def)
  then obtain n where n: "?stop n" "n \<le> maxRetries" and min: "\<forall>k < n. \<not> ?stop k"
    using LeastI [of ?stop maxRetries] not_less_Least [of _ ?stop] Least_le [of ?stop maxRetries] by blast
  have "\<not> retryable r \<Longrightarrow> n = 0" using min by (cases n) (auto simp: try_again_def)
  moreover have "fst (forward tr r) = send_from tr (retryable r) 0" by (simp add: forward_def)
  ultimately show ?thesis using send_from_first [of "retryable r" tr n 0] n min by (fastforce simp: maxRetries_def)
qed

definition demo_attempts :: "nat \<Rightarrow> round_trip" where
  "demo_attempts n =
     (if n = 0 then TransportError True else if n = 1 then Answer \<lparr>rsStatus = 503, rsBody = no_body, rsLines = []\<rparr>
      else Answer \<lparr>rsStatus = 200, rsBody = no_body, rsLines = []\<rparr>)"

definition demo_get :: request where
  "demo_get = \<lparr>rqMethod = ''GET'', rqPath = ''/info'', rqRawQuery = [], rqBody = no_body, rqHasBody = False,
     rqUpgrade = [], rqConnection = [], rqPorts = [], rqRewritten = []\<rparr>"

text \<open>A refused connection and an answer 503 are both repeated, and the third answer counts.\<close>

theorem forward_terminates_witness:
  "fst (forward demo_attempts demo_get) = (Inr \<lparr>rsStatus = 200, rsBody = no_body, rsLines = []\<rparr>, 3)"
proof -
  have t: "try_again (retryable demo_get) (demo_attempts 0) 0" "try_again (retryable demo_get) (demo_attempts 1) 1"
    by (simp_all add: try_again_def retryable_def demo_get_def demo_attempts_def maxRetries_def)
  obtain n where n: "n \<le> 2" "\<not> try_again (retryable demo_get) (demo_attempts n) n" "fst (forward demo_attempts demo_get) =
      (case demo_attempts n of TransportError refused \<Rightarrow> Inl (if refused then 503 else 500) | Answer rs \<Rightarrow> Inr rs, Suc n)"
    using forward_terminates [of demo_attempts demo_get] by blast
  then have "n \<noteq> 0" "n \<noteq> 1" using t by metis+
  then have "n = 2" using n(1) by linarith
  then show ?thesis using n(3) by (simp add: demo_attempts_def)
qed

end
