(* ===== verification/Responses.thy ===== *)
theory Responses
  imports Prune Forward
begin

text \<open>
  Package \<^verbatim>\<open>internal/forward\<close>, file \<^verbatim>\<open>proxy.go\<close>,
  \<^verbatim>\<open>postprocessResponse\<close>: what the proxy records in its database and in the maps
  for the events when the daemon has answered, and how list answers are filtered.

  The rewriting
  of names in the text of inspect and stats answers is not modelled; timers that remove
  an entry of the event maps after 30 seconds are not modelled either.
\<close>

definition owner_entry :: "CallerIdentity \<Rightarrow> pruneOwnerInfo" where
  "owner_entry i = \<lparr>ownerUID = RealUID i, poPrivCtx = priv_ctx i\<rparr>"

definition body_field :: "string \<Rightarrow> body \<Rightarrow> string" where
  "body_field name b =
     (case body_struct b of
        None \<Rightarrow> []
      | Some es \<Rightarrow> (case field_str name es of None \<Rightarrow> [] | Some s \<Rightarrow> s))"

definition note_build :: "string \<Rightarrow> pruneOwnerInfo \<Rightarrow> world \<Rightarrow> world" where
  "note_build key e w = w \<lparr>completedBuildOwner := (completedBuildOwner w)(key \<mapsto> e)\<rparr>"

text \<open>An entry is removed only if it still is the one that was stored.\<close>

definition compare_and_delete :: "string \<Rightarrow> pruneOwnerInfo \<Rightarrow> (string \<rightharpoonup> pruneOwnerInfo) \<Rightarrow> (string \<rightharpoonup> pruneOwnerInfo)" where
  "compare_and_delete k e m = (if m k = Some e then m(k := None) else m)"

section \<open>Containers\<close>

definition extractContainerIDFromCreateResponse :: "body \<Rightarrow> string" where
  "extractContainerIDFromCreateResponse b = body_field ''Id'' b"

definition port_info :: "CallerIdentity \<Rightarrow> string \<Rightarrow> PortMapping \<Rightarrow> PortMappingInfo" where
  "port_info i containerID m =
     \<lparr>HostPort = pmHostPort m, Protocol = pmProtocol m, ContainerPort = pmContainerPort m,
      pmContainerID = containerID, pmOwnerUID = RealUID i, pmOwnerUsername = RealUsername i\<rparr>"

definition post_create :: "proxy \<Rightarrow> CallerIdentity \<Rightarrow> request \<Rightarrow> response \<Rightarrow> world \<Rightarrow> world" where
  "post_create p i r rs w =
     (let containerID = extractContainerIDFromCreateResponse (rsBody rs) in
      if rsStatus rs \<noteq> 201 \<or> containerID = [] then w
      else
        (let imageRef = extractImageRefFromBody r;
             resolved = resolveImageIDByRef (pxDaemon p) imageRef;
             resolvedImageID = (if imageRef = [] then [] else if resolved = [] then imageRef else resolved);
             w1 = write_db (SetContainerOwner containerID i resolvedImageID) w
         in if IsPrivileged i \<or> rqPorts r = [] then w1
            else w1 \<lparr>wDB := snd (AddPortMappings (map (port_info i containerID) (rqPorts r)) (wDB w1))\<rparr>))"

definition post_remove_container :: "string \<Rightarrow> response \<Rightarrow> world \<Rightarrow> world" where
  "post_remove_container requestURI rs w =
     (let containerID = ExtractContainerID requestURI in
      if rsStatus rs \<in> {204, 200} \<and> containerID \<noteq> [] then forget_container containerID w else w)"

section \<open>Images\<close>

text \<open>An image that becomes the caller's; what follows depends on whether the record could be written.\<close>

definition own_image :: "string \<Rightarrow> CallerIdentity \<Rightarrow> string \<Rightarrow> world \<Rightarrow> bool \<times> world" where
  "own_image imageID i source w =
     (case SetImageOwner imageID i False source (wDB w) of
        (e, db) \<Rightarrow> (e = None, w \<lparr>wDB := db\<rparr>))"

definition own_and_access :: "string \<Rightarrow> CallerIdentity \<Rightarrow> string \<Rightarrow> world \<Rightarrow> world" where
  "own_and_access imageID i source w =
     write_db (EnsureImageAccess imageID (RealUID i)) (snd (own_image imageID i source w))"

text \<open>\<^verbatim>\<open>docker load\<close>: the identifiers and the tags announced in the stream.\<close>

definition load_line :: "body \<Rightarrow> string \<times> string" where
  "load_line l =
     (let stream = body_field ''stream'' l in
      if has_prefix stream ''Loaded image ID: ''
      then (trim_space (trim_prefix stream ''Loaded image ID: ''), [])
      else if has_prefix stream ''Loaded image: ''
      then ([], trim_space (trim_prefix stream ''Loaded image: ''))
      else ([], []))"

definition streamAndCaptureLoadedImageIDs :: "body list \<Rightarrow> string list \<times> string list" where
  "streamAndCaptureLoadedImageIDs ls =
     (filter (\<lambda>s. s \<noteq> []) (map (fst \<circ> load_line) ls), filter (\<lambda>s. s \<noteq> []) (map (snd \<circ> load_line) ls))"

definition load_tag :: "CallerIdentity \<Rightarrow> string \<Rightarrow> world \<Rightarrow> world" where
  "load_tag i tag w =
     (let tagRef = normalizeImageRef tag in
      if tagRef = [] then w else note_build tagRef (owner_entry i) w)"

definition load_image :: "CallerIdentity \<Rightarrow> string \<Rightarrow> world \<Rightarrow> world" where
  "load_image i imageID w =
     (case own_image imageID i ''load'' w of
        (True, w1) \<Rightarrow>
          note_build imageID (owner_entry i) (write_db (EnsureImageAccess imageID (RealUID i)) w1)
      | (False, w1) \<Rightarrow> w1)"

definition post_load :: "CallerIdentity \<Rightarrow> response \<Rightarrow> world \<Rightarrow> world" where
  "post_load i rs w =
     (if rsStatus rs \<noteq> 200 then w
      else case streamAndCaptureLoadedImageIDs (rsLines rs) of
        (ids, tags) \<Rightarrow> fold (load_image i) ids (fold (load_tag i) tags w))"

definition post_commit :: "CallerIdentity \<Rightarrow> response \<Rightarrow> world \<Rightarrow> world" where
  "post_commit i rs w =
     (let iid = body_field ''Id'' (rsBody rs); imageID = trim_prefix iid ''sha256:'' in
      if rsStatus rs \<noteq> 201 \<or> iid = [] then w
      else case own_image imageID i ''commit'' w of
        (True, w1) \<Rightarrow>
          note_build (''sha256:'' @ imageID) (owner_entry i) (write_db (EnsureImageAccess imageID (RealUID i)) w1)
      | (False, w1) \<Rightarrow> w1)"

definition raw_text :: "body \<Rightarrow> string" where
  "raw_text b = (case b of Raw s \<Rightarrow> s | Doc _ \<Rightarrow> [])"

definition post_import :: "CallerIdentity \<Rightarrow> response \<Rightarrow> world \<Rightarrow> world" where
  "post_import i rs w =
     (let status = body_field ''status'' (rsBody rs);
          imageID = (if status \<noteq> [] then trim_prefix (trim_space status) ''sha256:''
                     else trim_right (trim_prefix (trim_space (raw_text (rsBody rs))) ''sha256:'') [CHR 0x0D, CHR 0x0A])
      in if rsStatus rs \<noteq> 200 \<or> imageID = [] then w else own_and_access imageID i ''import'' w)"

text \<open>The identifier in the last lines of a build or pull stream.\<close>

definition aux_struct :: "body \<Rightarrow> jmap option" where
  "aux_struct l =
     (case body_struct l of
        None \<Rightarrow> None
      | Some es \<Rightarrow> (if nil_field ''aux'' es then None else sub_struct ''aux'' es))"

definition aux_id :: "body \<Rightarrow> string" where
  "aux_id l =
     (case aux_struct l of
        None \<Rightarrow> []
      | Some aux \<Rightarrow> (case field_str ''ID'' aux of None \<Rightarrow> [] | Some s \<Rightarrow> s))"

definition aux_digest :: "body \<Rightarrow> string" where
  "aux_digest l =
     (case aux_struct l of
        None \<Rightarrow> []
      | Some aux \<Rightarrow>
          (case (field_str ''Tag'' aux, field_str ''Digest'' aux, field_int64 ''Size'' aux) of
             (Some _, Some s, Some _) \<Rightarrow> s
           | _ \<Rightarrow> []))"

abbreviation built_marker :: string where
  "built_marker \<equiv> ''Successfully built ''"

definition build_line_id :: "body \<Rightarrow> string option" where
  "build_line_id l =
     (let s = trim_space (body_field ''stream'' l) in
      if aux_id l \<noteq> [] then Some (trim_prefix (aux_id l) ''sha256:'')
      else if has_prefix s built_marker then Some (trim_prefix s built_marker)
      else if has_prefix (raw_text l) built_marker then Some (trim_prefix (raw_text l) built_marker)
      else None)"

definition pull_line_id :: "body \<Rightarrow> string option" where
  "pull_line_id l =
     (let s = body_field ''status'' l in
      if aux_digest l \<noteq> [] then Some (aux_digest l)
      else if has_prefix s ''Digest: '' then Some (trim_prefix s ''Digest: '')
      else None)"

fun first_id :: "(body \<Rightarrow> string option) \<Rightarrow> body list \<Rightarrow> string" where
  "first_id f [] = []"
| "first_id f (l # ls) = (case f l of Some s \<Rightarrow> s | None \<Rightarrow> first_id f ls)"

definition extractImageIDFromStreamLines :: "body list \<Rightarrow> string \<Rightarrow> string" where
  "extractImageIDFromStreamLines ls source =
     first_id (if source = ''build'' then build_line_id else if source = ''pull'' then pull_line_id else (\<lambda>_. None))
       (rev ls)"

definition streamAndCaptureImageID :: "body list \<Rightarrow> string \<Rightarrow> string" where
  "streamAndCaptureImageID ls source =
     extractImageIDFromStreamLines (drop (length ls - 20) ls) source"

definition post_pull :: "proxy \<Rightarrow> CallerIdentity \<Rightarrow> string \<Rightarrow> response \<Rightarrow> world \<Rightarrow> world" where
  "post_pull p i requestURI rs w =
     (let imageRef = parseImageRefFromURI requestURI;
          resolved = resolveImageIDByRef (pxDaemon p) imageRef;
          imageID = (if resolved = [] then streamAndCaptureImageID (rsLines rs) ''pull'' else resolved)
      in if rsStatus rs \<noteq> 200 \<or> imageRef = [] \<or> imageID = [] then w
         else
           (let w1 = own_and_access imageID i ''pull'' w;
                w2 = (if IsPrivileged i \<and> contains_str requestURI ''authz.public=true''
                      then write_db (SetImagePublic imageID True) w1 else w1)
            in w2 \<lparr>completedPullOwner := (completedPullOwner w2)(imageRef \<mapsto> owner_entry i)\<rparr>))"

definition uri_query :: "string \<Rightarrow> query_params" where
  "uri_query requestURI = url_values (query_part requestURI)"

definition query_all :: "query_params \<Rightarrow> string \<Rightarrow> string list" where
  "query_all q k = map snd (filter (\<lambda>p. fst p = k) q)"

text \<open>
  A build registers its tags as pending while the stream is read; when it returns they are moved
  to the completed ones.
\<close>

definition start_tag :: "CallerIdentity \<Rightarrow> string \<Rightarrow> world \<Rightarrow> world" where
  "start_tag i tag w = w \<lparr>pendingBuildTags := (pendingBuildTags w)(tag \<mapsto> owner_entry i)\<rparr>"

definition move_tag :: "CallerIdentity \<Rightarrow> string \<Rightarrow> world \<Rightarrow> world" where
  "move_tag i tag w =
     (let w1 = note_build tag (owner_entry i) w in
      w1 \<lparr>pendingBuildTags := compare_and_delete tag (owner_entry i) (pendingBuildTags w1)\<rparr>)"

definition post_build :: "proxy \<Rightarrow> CallerIdentity \<Rightarrow> string \<Rightarrow> response \<Rightarrow> world \<Rightarrow> world" where
  "post_build p i requestURI rs w =
     (let tags = query_all (uri_query requestURI) ''t'';
          w0 = fold (start_tag i) tags w;
          captured = streamAndCaptureImageID (rsLines rs) ''build'';
          tag = query_get (uri_query requestURI) ''t'';
          byTag = (if tag = [] then [] else resolveImageIDByRef (pxDaemon p) tag);
          byID = resolveImageIDByRef (pxDaemon p) captured;
          imageID = (if byTag \<noteq> [] then byTag else if byID \<noteq> [] then byID else captured);
          w1 = (if captured \<noteq> [] \<and> rsStatus rs = 200 then own_and_access imageID i ''build'' w0 else w0)
      in fold (move_tag i) (rev tags) w1)"

definition new_ref :: "string \<Rightarrow> string" where
  "new_ref requestURI =
     (let repo = query_get (uri_query requestURI) ''repo''; tag = query_get (uri_query requestURI) ''tag'' in
      if repo \<noteq> [] \<and> tag \<noteq> [] then repo @ '':'' @ tag else if repo \<noteq> [] then repo @ '':latest'' else [])"

definition post_tag :: "proxy \<Rightarrow> CallerIdentity \<Rightarrow> string \<Rightarrow> response \<Rightarrow> world \<Rightarrow> world" where
  "post_tag p i requestURI rs w =
     (let newRef = new_ref requestURI;
          direct = resolveImageIDByRef (pxDaemon p) newRef;
          contentID = (if direct = [] then resolveImageIDByRef (pxDaemon p) (ExtractImageID requestURI) else direct)
      in if rsStatus rs = 201 \<and> \<not> IsPrivileged i \<and> newRef \<noteq> [] \<and> contentID \<noteq> []
         then write_db (EnsureImageAccess contentID (RealUID i)) w else w)"

text \<open>
  The answer to the removal of an image: the untagged references are grouped around the
  deleted images, in two passes.
\<close>

record rmiGroup =
  deletedID :: string
  untagged :: "string list"

definition group_item :: "pruneDeleted \<Rightarrow> rmiGroup list \<times> bool \<Rightarrow> rmiGroup list \<times> bool" where
  "group_item it acc =
     (case acc of (gs, open_group) \<Rightarrow>
        (if pdDeleted it \<noteq> [] then (gs @ [\<lparr>deletedID = pdDeleted it, untagged = []\<rparr>], True)
         else if pdUntagged it \<noteq> [] then
           (if open_group
            then (butlast gs @ [(last gs) \<lparr>untagged := untagged (last gs) @ [pdUntagged it]\<rparr>], True)
            else (gs @ [\<lparr>deletedID = [], untagged = [pdUntagged it]\<rparr>], False))
         else acc))"

definition merge_group :: "rmiGroup \<Rightarrow> rmiGroup list \<times> string list \<Rightarrow> rmiGroup list \<times> string list" where
  "merge_group g acc =
     (case acc of (merged, orphans) \<Rightarrow>
        (if deletedID g = [] then (merged, orphans @ untagged g)
         else (merged @ [g \<lparr>untagged := orphans @ untagged g\<rparr>], [])))"

definition rmi_groups :: "pruneDeleted list \<Rightarrow> rmiGroup list" where
  "rmi_groups items = fst (fold merge_group (fst (fold group_item items ([], False))) ([], []))"

definition rmi_entry :: "CallerIdentity \<Rightarrow> OwnershipDB \<Rightarrow> string \<Rightarrow> pruneOwnerInfo option" where
  "rmi_entry i db imageID =
     (case GetImageOwner db imageID of
        Some (owner, isPublic, pc) \<Rightarrow>
          (if isPublic then None else Some \<lparr>ownerUID = oiUID owner, poPrivCtx = pc\<rparr>)
      | None \<Rightarrow> (if IsPrivileged i then Some (owner_entry i) else None))"

definition rmi_group :: "CallerIdentity \<Rightarrow> rmiGroup \<Rightarrow> world \<Rightarrow> world" where
  "rmi_group i g w =
     (let w1 = (case rmi_entry i (wDB w) (deletedID g) of
                  None \<Rightarrow> w
                | Some e \<Rightarrow>
                    fold (\<lambda>tag. if tag = [] then (\<lambda>x. x) else note_pruned (''image:'' @ tag) e) (untagged g)
                      (note_pruned (''image:'' @ deletedID g) e w))
      in write_db (DeleteImage (deletedID g)) w1)"

definition post_remove_image :: "CallerIdentity \<Rightarrow> response \<Rightarrow> world \<Rightarrow> world" where
  "post_remove_image i rs w =
     (if rsStatus rs \<noteq> 200 then w
      else case deleted_items (rsBody rs) of
        None \<Rightarrow> w
      | Some items \<Rightarrow> fold (rmi_group i) (rmi_groups items) w)"

section \<open>Networks, volumes and swarm objects\<close>

definition post_network_create :: "CallerIdentity \<Rightarrow> request \<Rightarrow> response \<Rightarrow> world \<Rightarrow> world" where
  "post_network_create i r rs w =
     (let netID = body_field ''Id'' (rsBody rs);
          actualName = (if rqRewritten r = [] then netID else rqRewritten r)
      in if rsStatus rs = 201 \<and> netID \<noteq> [] then write_db (SetNetworkOwner netID actualName i) w else w)"

definition post_network_remove :: "CallerIdentity \<Rightarrow> string \<Rightarrow> response \<Rightarrow> world \<Rightarrow> world" where
  "post_network_remove i requestURI rs w =
     (let networkID = ExtractNetworkID requestURI in
      if rsStatus rs \<notin> {204, 200} \<or> networkID = [] then w
      else
        (let w1 = (if GetNetworkPrivCtxByName (wDB w) networkID = Some 1
                   then note_pruned (''network:'' @ networkID) \<lparr>ownerUID = RealUID i, poPrivCtx = 1\<rparr> w else w);
             realID = (case GetNetworkIDByName (wDB w) networkID of None \<Rightarrow> networkID | Some n \<Rightarrow> n)
         in write_db (DeleteNetwork realID) w1))"

definition post_volume_create :: "CallerIdentity \<Rightarrow> response \<Rightarrow> world \<Rightarrow> world" where
  "post_volume_create i rs w =
     (let name = body_field ''Name'' (rsBody rs) in
      if rsStatus rs = 201 \<and> name \<noteq> [] then write_db (SetVolumeOwner name i) w else w)"

definition post_volume_remove :: "string \<Rightarrow> response \<Rightarrow> world \<Rightarrow> world" where
  "post_volume_remove requestURI rs w =
     (let volName = ExtractVolumeName requestURI in
      if rsStatus rs \<notin> {204, 200} \<or> volName = [] then w
      else
        (let w1 = (case GetVolumeOwner (wDB w) volName of
                     None \<Rightarrow> w
                   | Some owner \<Rightarrow>
                       note_pruned (''volume:'' @ volName)
                         \<lparr>ownerUID = oiUID owner,
                          poPrivCtx = (case GetVolumePrivCtx (wDB w) volName of None \<Rightarrow> 0 | Some pc \<Rightarrow> pc)\<rparr> w)
         in write_db (DeleteVolume volName) w1))"

definition post_swarm_create ::
  "(string \<Rightarrow> string \<Rightarrow> CallerIdentity \<Rightarrow> db_write) \<Rightarrow> CallerIdentity \<Rightarrow> response \<Rightarrow> world \<Rightarrow> world" where
  "post_swarm_create setOwner i rs w =
     (let objID = body_field ''ID'' (rsBody rs) in
      if rsStatus rs \<in> {201, 200} \<and> objID \<noteq> [] then write_db (setOwner objID objID i) w else w)"

definition post_swarm_remove :: "(string \<Rightarrow> db_write) \<Rightarrow> string \<Rightarrow> response \<Rightarrow> world \<Rightarrow> world" where
  "post_swarm_remove del objID rs w =
     (if rsStatus rs \<in> {200, 204} \<and> objID \<noteq> [] then write_db (del objID) w else w)"

section \<open>Prunes the daemon carried out\<close>

definition body_strs :: "string \<Rightarrow> body \<Rightarrow> string list option" where
  "body_strs name b = (case body_struct b of None \<Rightarrow> None | Some es \<Rightarrow> field_slice dec_str_list name es)"

definition body_items :: "body \<Rightarrow> pruneDeleted list option" where
  "body_items b =
     (case body_struct b of None \<Rightarrow> None | Some es \<Rightarrow> field_slice (dec_structs item_fields) ''ImagesDeleted'' es)"

definition forget_images :: "pruneDeleted list \<Rightarrow> world \<Rightarrow> world" where
  "forget_images items w =
     fold (\<lambda>it. if pdDeleted it = [] then (\<lambda>x. x) else write_db (DeleteImage (pdDeleted it))) items w"

definition forget_network :: "string \<Rightarrow> world \<Rightarrow> world" where
  "forget_network name w =
     (case GetNetworkIDByName (wDB w) name of None \<Rightarrow> w | Some realID \<Rightarrow> write_db (DeleteNetwork realID) w)"

definition post_system_prune :: "body \<Rightarrow> world \<Rightarrow> world" where
  "post_system_prune b w =
     (case (body_strs ''ContainersDeleted'' b, body_items b, body_strs ''VolumesDeleted'' b,
            body_strs ''NetworksDeleted'' b) of
        (Some cs, Some is, Some vs, Some ns) \<Rightarrow>
          fold forget_network ns
            (fold (\<lambda>v. write_db (DeleteVolume v)) vs (forget_images is (fold forget_container cs w)))
      | _ \<Rightarrow> w)"

definition post_prune :: "string \<Rightarrow> response \<Rightarrow> world \<Rightarrow> world" where
  "post_prune requestURI rs w =
     (if rsStatus rs \<noteq> 200 then w
      else if has_prefix requestURI ''/containers'' \<or> contains_str requestURI ''/containers/'' then
        (case body_strs ''ContainersDeleted'' (rsBody rs) of None \<Rightarrow> w | Some cs \<Rightarrow> fold forget_container cs w)
      else if has_prefix requestURI ''/images'' \<or> contains_str requestURI ''/images/'' \<or>
              has_prefix requestURI ''/build'' then
        (case body_items (rsBody rs) of None \<Rightarrow> w | Some is \<Rightarrow> forget_images is w)
      else if has_prefix requestURI ''/volumes'' then
        (case body_strs ''VolumesDeleted'' (rsBody rs) of
           None \<Rightarrow> w | Some vs \<Rightarrow> fold (\<lambda>v. write_db (DeleteVolume v)) vs w)
      else if has_prefix requestURI ''/system'' then post_system_prune (rsBody rs) w
      else w)"

section \<open>All answers\<close>

abbreviation post_service_create :: "CallerIdentity \<Rightarrow> response \<Rightarrow> world \<Rightarrow> world" where
  "post_service_create i rs w \<equiv> post_swarm_create SetServiceOwner i rs w"

abbreviation post_service_remove :: "string \<Rightarrow> response \<Rightarrow> world \<Rightarrow> world" where
  "post_service_remove requestURI rs w \<equiv> post_swarm_remove DeleteService (ExtractServiceID requestURI) rs w"

abbreviation post_secret_create :: "CallerIdentity \<Rightarrow> response \<Rightarrow> world \<Rightarrow> world" where
  "post_secret_create i rs w \<equiv> post_swarm_create SetSecretOwner i rs w"

abbreviation post_secret_remove :: "string \<Rightarrow> response \<Rightarrow> world \<Rightarrow> world" where
  "post_secret_remove requestURI rs w \<equiv> post_swarm_remove DeleteSecret (ExtractSecretID requestURI) rs w"

abbreviation post_config_create :: "CallerIdentity \<Rightarrow> response \<Rightarrow> world \<Rightarrow> world" where
  "post_config_create i rs w \<equiv> post_swarm_create SetConfigOwner i rs w"

abbreviation post_config_remove :: "string \<Rightarrow> response \<Rightarrow> world \<Rightarrow> world" where
  "post_config_remove requestURI rs w \<equiv> post_swarm_remove DeleteConfig (ExtractConfigID requestURI) rs w"

definition record_response ::
  "proxy \<Rightarrow> CallerIdentity \<Rightarrow> string \<Rightarrow> string \<Rightarrow> request \<Rightarrow> response \<Rightarrow> world \<Rightarrow> world" where
  "record_response p i action requestURI r rs w =
     (if action = ActionCreateContainer then post_create p i r rs w
      else if action = ActionLoad then post_load i rs w
      else if action = ActionCommit then post_commit i rs w
      else if action = ActionPrune then post_prune requestURI rs w
      else if action = ActionRemoveContainer then post_remove_container requestURI rs w
      else if action = ActionImport then post_import i rs w
      else if action = ActionPull then post_pull p i requestURI rs w
      else if action = ActionBuild then post_build p i requestURI rs w
      else if action = ActionTag then post_tag p i requestURI rs w
      else if action = ActionRemoveImage then post_remove_image i rs w
      else if action = ActionNetworkCreate then post_network_create i r rs w
      else if action = ActionNetworkRemove then post_network_remove i requestURI rs w
      else if action = ActionVolumeCreate then post_volume_create i rs w
      else if action = ActionVolumeRemove then post_volume_remove requestURI rs w
      else if action = ActionServiceCreate then post_service_create i rs w
      else if action = ActionServiceRemove then post_service_remove requestURI rs w
      else if action = ActionSecretCreate then post_secret_create i rs w
      else if action = ActionSecretRemove then post_secret_remove requestURI rs w
      else if action = ActionConfigCreate then post_config_create i rs w
      else if action = ActionConfigRemove then post_config_remove requestURI rs w
      else w)"

text \<open>A filter that fails is replaced by an empty answer.\<close>

definition or_empty :: "body \<Rightarrow> filtered \<Rightarrow> body" where
  "or_empty fallback f = (case f of (b, None) \<Rightarrow> b | (_, Some _) \<Rightarrow> fallback)"

definition empty_volume_list :: body where
  "empty_volume_list = Doc (JObj [(''Volumes'', JArr []), (''Warnings'', JNull)])"

text \<open>The lists, one definition for each class of requests.\<close>

definition answer_ps :: "CallerIdentity \<Rightarrow> response \<Rightarrow> OwnershipDB \<Rightarrow> body" where
  "answer_ps i rs db =
     or_empty emptyJSONArray
       (FilterContainerListResponse (rsBody rs) (RealUID i) (RealUsername i) (IsPrivileged i) (db_reader db))"

definition answer_images :: "CallerIdentity \<Rightarrow> response \<Rightarrow> OwnershipDB \<Rightarrow> body" where
  "answer_images i rs db =
     or_empty emptyJSONArray (FilterImageListResponse (rsBody rs) (RealUID i) (IsPrivileged i) (db_reader db))"

definition answer_df :: "CallerIdentity \<Rightarrow> response \<Rightarrow> OwnershipDB \<Rightarrow> body" where
  "answer_df i rs db =
     (if rsStatus rs = 200
      then or_empty EmptySystemDFBody (FilterSystemDFResponse (rsBody rs) (RealUID i) (IsPrivileged i) (db_reader db))
      else rsBody rs)"

definition answer_networks :: "proxy \<Rightarrow> CallerIdentity \<Rightarrow> response \<Rightarrow> OwnershipDB \<Rightarrow> body" where
  "answer_networks p i rs db =
     or_empty emptyJSONArray
       (FilterNetworkListResponse (pxOS p) (rsBody rs) (RealUID i) (IsPrivileged i) (db_reader db))"

definition answer_volumes :: "CallerIdentity \<Rightarrow> response \<Rightarrow> OwnershipDB \<Rightarrow> body" where
  "answer_volumes i rs db =
     or_empty empty_volume_list (FilterVolumeListResponse (rsBody rs) (RealUID i) (IsPrivileged i) (db_reader db))"

definition answer_services :: "CallerIdentity \<Rightarrow> response \<Rightarrow> OwnershipDB \<Rightarrow> body" where
  "answer_services i rs db =
     or_empty emptyJSONArray (FilterServiceListResponse (rsBody rs) (RealUID i) (IsPrivileged i) (db_reader db))"

definition answer_secrets :: "CallerIdentity \<Rightarrow> response \<Rightarrow> OwnershipDB \<Rightarrow> body" where
  "answer_secrets i rs db =
     or_empty emptyJSONArray (FilterSecretListResponse (rsBody rs) (RealUID i) (IsPrivileged i) (db_reader db))"

definition answer_configs :: "CallerIdentity \<Rightarrow> response \<Rightarrow> OwnershipDB \<Rightarrow> body" where
  "answer_configs i rs db =
     or_empty emptyJSONArray (FilterConfigListResponse (rsBody rs) (RealUID i) (IsPrivileged i) (db_reader db))"

definition filter_response ::
  "proxy \<Rightarrow> CallerIdentity \<Rightarrow> string \<Rightarrow> response \<Rightarrow> OwnershipDB \<Rightarrow> body" where
  "filter_response p i action rs db =
     (if action = ActionPS then answer_ps i rs db
      else if action = ActionImages then answer_images i rs db
      else if action = ActionSystemDF then answer_df i rs db
      else if action = ActionNetworkList then answer_networks p i rs db
      else if action = ActionVolumeList then answer_volumes i rs db
      else if action = ActionServiceList then answer_services i rs db
      else if action = ActionSecretList then answer_secrets i rs db
      else if action = ActionConfigList then answer_configs i rs db
      else rsBody rs)"

end
