(* ===== verification/BuildTrack.thy ===== *)
theory BuildTrack
  imports Responses
begin

text \<open>
  Package \<^verbatim>\<open>internal/forward\<close>, file \<^verbatim>\<open>proxy.go\<close>: images made by BuildKit.
  A build runs over a connection the proxy cannot read, so that the list of images before the
  connection is compared with the list after it.  Go ranges over its maps in no fixed order;
  the model takes the order of the keys.
\<close>

section \<open>Snapshots\<close>

record imageSnapshot =
  idSet :: "string list"
  tagToID :: "(string \<times> string) list"

definition image_tags :: "jmap \<Rightarrow> (string \<times> string list) option" where
  "image_tags es =
     (case (field_str ''Id'' es, field_slice dec_str_list ''RepoTags'' es) of
        (Some iid, Some tags) \<Rightarrow> Some (iid, tags)
      | _ \<Rightarrow> None)"

definition add_image :: "string \<times> string list \<Rightarrow> imageSnapshot \<Rightarrow> imageSnapshot" where
  "add_image img snap =
     (let iid = trim_prefix (fst img) ''sha256:'' in
      \<lparr>idSet = List.insert iid (idSet snap),
       tagToID = fold (\<lambda>tag m. if tag = ''<none>:<none>'' then m else map_put tag iid m) (snd img) (tagToID snap)\<rparr>)"

definition snapshotImageState :: "daemon \<Rightarrow> imageSnapshot option" where
  "snapshotImageState d =
     (case daemon_get d ''/images/json'' [] of
        Some (_, Doc j) \<Rightarrow>
          map_option (\<lambda>imgs. fold add_image imgs \<lparr>idSet = [], tagToID = []\<rparr>) (dec_structs image_tags j)
      | _ \<Rightarrow> None)"

section \<open>Owners of the new images\<close>

text \<open>
  The loop over the tags after the build.  Its state is the world, the images to be recorded and
  the tags that are new.
\<close>

type_synonym track_state = "world \<times> string list \<times> string list"

definition track_tag :: "CallerIdentity \<Rightarrow> string list \<Rightarrow> imageSnapshot \<Rightarrow> string \<times> string \<Rightarrow> track_state \<Rightarrow> track_state" where
  "track_tag i expectedTags pre entry st =
     (case (entry, st) of ((tag, postID), (w, taggedIDs, newTags)) \<Rightarrow>
        (if map_of (tagToID pre) tag \<noteq> Some postID then
           (if tag \<notin> set expectedTags then st
            else (w, List.insert postID taggedIDs, newTags @ [tag]))
         else case GetImageOwner (wDB w) postID of
           None \<Rightarrow> (if tag \<in> set expectedTags then (w, List.insert postID taggedIDs, newTags) else st)
         | Some (existingOwner, _, _) \<Rightarrow>
             (if oiUID existingOwner \<noteq> RealUID i
              then (write_db (EnsureImageAccess postID (RealUID i)) w, taggedIDs, newTags)
              else st)))"

text \<open>New images without a tag, or with a tag the command names.\<close>

definition other_ids :: "string list \<Rightarrow> imageSnapshot \<Rightarrow> imageSnapshot \<Rightarrow> string list \<Rightarrow> string list" where
  "other_ids expectedTags pre post taggedIDs =
     filter (\<lambda>iid. iid \<notin> set (idSet pre) \<and> iid \<notin> set taggedIDs \<and>
                   (let imgTags = map fst (filter (\<lambda>e. snd e = iid) (tagToID post)) in
                    imgTags = [] \<or> list_ex (\<lambda>t. t \<in> set expectedTags) imgTags))
       (idSet post)"

definition writeOne :: "CallerIdentity \<Rightarrow> string \<Rightarrow> world \<Rightarrow> world" where
  "writeOne i imageID w =
     (case GetImageOwner (wDB w) imageID of
        Some (existingOwner, _, _) \<Rightarrow>
          (if oiUID existingOwner \<noteq> RealUID i then write_db (EnsureImageAccess imageID (RealUID i)) w else w)
      | None \<Rightarrow>
          (case own_image imageID i ''build'' w of
             (True, w1) \<Rightarrow> write_db (EnsureImageAccess imageID (RealUID i)) w1
           | (False, w1) \<Rightarrow> w1))"

definition trackBuildKitImages :: "daemon \<Rightarrow> CallerIdentity \<Rightarrow> imageSnapshot \<Rightarrow> world \<Rightarrow> world" where
  "trackBuildKitImages d i pre w =
     (case snapshotImageState d of
        None \<Rightarrow> w
      | Some post \<Rightarrow>
          (let expectedTags = parseBuildxTags (CmdLine i) in
           case fold (track_tag i expectedTags pre) (tagToID post) (w, [], []) of
             (w1, taggedIDs, newTags) \<Rightarrow>
               fold (move_tag i) newTags
                 (fold (writeOne i) (other_ids expectedTags pre post taggedIDs)
                   (fold (writeOne i) taggedIDs w1))))"

end
