(* ===== verification/Events.thy ===== *)
theory Events
  imports Access
begin

text \<open>
  Package \<^verbatim>\<open>internal/forward\<close>, file \<^verbatim>\<open>proxy.go\<close>,
  \<^verbatim>\<open>eventBelongsToUser\<close>: which lines of the daemon's event stream an unprivileged
  subscriber gets to see.
\<close>

section \<open>Events\<close>

record docker_event =
  evType :: string
  evAction :: string
  evActorID :: string
  evAttributes :: labels

definition parse_event :: "body \<Rightarrow> docker_event option" where
  "parse_event line =
     (case body_struct line of
        None \<Rightarrow> None
      | Some es \<Rightarrow>
          (case sub_struct ''Actor'' es of
             None \<Rightarrow> None
           | Some actor \<Rightarrow>
               (case (field_str ''Type'' es, field_str ''Action'' es, field_str ''ID'' actor,
                      field_str_map ''Attributes'' actor) of
                  (Some t, Some a, Some i, Some attrs) \<Rightarrow>
                    Some \<lparr>evType = t, evAction = a, evActorID = i, evAttributes = attrs\<rparr>
                | _ \<Rightarrow> None)))"

definition attr :: "docker_event \<Rightarrow> string \<Rightarrow> string" where
  "attr ev k = (case map_of (evAttributes ev) k of None \<Rightarrow> [] | Some v \<Rightarrow> v)"

text \<open>An entry of one of the maps decides for its owner, unless it belongs to a sudo session.\<close>

definition entry_visible :: "int \<Rightarrow> bool \<Rightarrow> pruneOwnerInfo \<Rightarrow> bool" where
  "entry_visible uid sudoCtx e \<longleftrightarrow> ownerUID e = uid \<and> (sudoCtx \<or> poPrivCtx e \<noteq> 1)"

definition privileged_only :: "bool \<Rightarrow> int option \<Rightarrow> bool" where
  "privileged_only sudoCtx pc \<longleftrightarrow> \<not> sudoCtx \<and> pc = Some 1"

section \<open>Networks\<close>

text \<open>The digits of the first segment \<open>_u<digits>_\<close> of a network name.\<close>

fun uid_segment :: "string \<Rightarrow> string option" where
  "uid_segment [] = None"
| "uid_segment (c # cs) =
     (let ds = takeWhile is_digit (drop 1 cs); rest = dropWhile is_digit (drop 1 cs) in
      if c = CHR ''_'' \<and> take 1 cs = ''u'' \<and> ds \<noteq> [] \<and> take 1 rest = ''_'' then Some ds
      else uid_segment cs)"

text \<open>A connect or disconnect event on a network of the daemon is decided by its container.\<close>

definition container_visible_to :: "world \<Rightarrow> int \<Rightarrow> bool \<Rightarrow> string \<Rightarrow> bool" where
  "container_visible_to w uid sudoCtx ctnID =
     (if ctnID = [] then True
      else case GetContainerOwnerAndPrivCtx (wDB w) ctnID of
        Some (ctnUID, ctnPrivCtx) \<Rightarrow> ctnUID = uid \<and> (sudoCtx \<or> ctnPrivCtx \<noteq> 1)
      | None \<Rightarrow>
          (case completedPruneOwner w (''container:'' @ ctnID) of
             Some e \<Rightarrow> entry_visible uid sudoCtx e
           | None \<Rightarrow> True))"

definition network_event :: "world \<Rightarrow> int \<Rightarrow> bool \<Rightarrow> docker_event \<Rightarrow> bool" where
  "network_event w uid sudoCtx ev =
     (let name = attr ev ''name''; uidStr = itoa uid in
      if name = ''user-'' @ uidStr @ ''-bridge'' then True
      else if has_prefix name ''user-'' \<and> has_suffix name ''-bridge'' then False
      else if has_prefix name ''peer-'' then
        uidStr \<in> set (split_char CHR ''-'' (drop (length ''peer-'') name))
      else case uid_segment name of
        Some foundUID \<Rightarrow>
          foundUID = uidStr \<and> \<not> privileged_only sudoCtx (GetNetworkPrivCtxByName (wDB w) name)
      | None \<Rightarrow>
          \<not> privileged_only sudoCtx (GetNetworkPrivCtxByName (wDB w) name) \<and>
          \<not> privileged_only sudoCtx (map_option poPrivCtx (completedPruneOwner w (''network:'' @ name))) \<and>
          container_visible_to w uid sudoCtx (attr ev ''container''))"

section \<open>Volumes\<close>

definition volume_of_user :: "string \<Rightarrow> bool" where
  "volume_of_user name \<longleftrightarrow>
     has_prefix name ''user-'' \<and>
     (let rest = drop (length ''user-'') name in
      takeWhile is_digit rest \<noteq> [] \<and> has_prefix (dropWhile is_digit rest) ''-volume-'')"

definition volume_event :: "world \<Rightarrow> int \<Rightarrow> bool \<Rightarrow> docker_event \<Rightarrow> bool" where
  "volume_event w uid sudoCtx ev =
     (let name = (if evActorID ev = [] then attr ev ''name'' else evActorID ev) in
      if has_prefix name (''user-'' @ itoa uid @ ''-volume-'')
      then \<not> privileged_only sudoCtx (GetVolumePrivCtx (wDB w) name)
      else if volume_of_user name then False
      else case completedPruneOwner w (''volume:'' @ name) of
        Some e \<Rightarrow> entry_visible uid sudoCtx e
      | None \<Rightarrow>
          (case GetVolumeOwner (wDB w) name of
             None \<Rightarrow> True
           | Some owner \<Rightarrow>
               oiUID owner = uid \<and> \<not> privileged_only sudoCtx (GetVolumePrivCtx (wDB w) name)))"

section \<open>Images\<close>

definition is_sha :: "string \<Rightarrow> bool" where
  "is_sha s = has_prefix s ''sha256:''"

definition lookup_if :: "bool \<Rightarrow> (string \<rightharpoonup> pruneOwnerInfo) \<Rightarrow> string \<Rightarrow> pruneOwnerInfo option" where
  "lookup_if b m k = (if b then m k else None)"

text \<open>The maps in the order in which they are asked; the first entry found decides.\<close>

definition image_entry :: "world \<Rightarrow> docker_event \<Rightarrow> pruneOwnerInfo option" where
  "image_entry w ev =
     (let name = attr ev ''name''; actor = evActorID ev;
          named = (name \<noteq> [] \<and> \<not> is_sha name); ref = (actor \<noteq> [] \<and> \<not> is_sha actor)
      in first_some
           [lookup_if named (pendingBuildTags w) name,
            lookup_if named (completedBuildOwner w) name,
            lookup_if named (pendingPullRefs w) name,
            lookup_if (ref \<and> evAction ev \<noteq> ''pull'') (pendingBuildTags w) actor,
            lookup_if (ref \<and> evAction ev \<noteq> ''pull'') (completedBuildOwner w) actor,
            lookup_if ref (pendingPullRefs w) actor,
            lookup_if (evAction ev = ''create'' \<and> is_sha actor) (completedBuildOwner w) actor,
            lookup_if named (completedPullOwner w) name,
            lookup_if ref (completedPullOwner w) actor])"

definition image_event :: "world \<Rightarrow> int \<Rightarrow> bool \<Rightarrow> docker_event \<Rightarrow> bool" where
  "image_event w uid sudoCtx ev =
     (case image_entry w ev of
        Some e \<Rightarrow> entry_visible uid sudoCtx e
      | None \<Rightarrow>
          (let imageID = (if evActorID ev = [] then attr ev ''name'' else evActorID ev) in
           if imageID = [] then True
           else case GetImageOwner (wDB w) imageID of
             Some (owner, isPublic, pc) \<Rightarrow>
               (if isPublic then True
                else if oiUID owner = uid then \<not> privileged_only sudoCtx (Some pc)
                else HasImageAccess (wDB w) imageID uid)
           | None \<Rightarrow>
               (case completedPruneOwner w (''image:'' @ imageID) of
                  Some e \<Rightarrow> entry_visible uid sudoCtx e
                | None \<Rightarrow> True)))"

section \<open>All events\<close>

definition other_event :: "int \<Rightarrow> bool \<Rightarrow> docker_event \<Rightarrow> bool" where
  "other_event uid sudoCtx ev =
     (case map_of (evAttributes ev) LabelOwnerUID of
        Some v \<Rightarrow> v = itoa uid \<and> (sudoCtx \<or> GetLastLabelValue (attr ev LabelCallerType) \<noteq> ''sudo'')
      | None \<Rightarrow> (case map_of (evAttributes ev) LabelOwnerID of Some v \<Rightarrow> v = itoa uid | None \<Rightarrow> True))"

definition eventBelongsToUser :: "world \<Rightarrow> int \<Rightarrow> bool \<Rightarrow> body \<Rightarrow> bool" where
  "eventBelongsToUser w uid sudoCtx line =
     (case parse_event line of
        None \<Rightarrow> True
      | Some ev \<Rightarrow>
          (if evType ev = ''network'' then network_event w uid sudoCtx ev
           else if evType ev = ''volume'' then volume_event w uid sudoCtx ev
           else if evType ev = ''image'' then image_event w uid sudoCtx ev
           else other_event uid sudoCtx ev))"

text \<open>The loop over the stream: privileged callers see every line, and only events are filtered.\<close>

definition stream_lines :: "world \<Rightarrow> CallerIdentity \<Rightarrow> string \<Rightarrow> body list \<Rightarrow> body list" where
  "stream_lines w i path ls =
     filter (\<lambda>l. \<not> (contains_str path ''/events'' \<and> \<not> IsPrivileged i) \<or>
                 eventBelongsToUser w (RealUID i) (IsSudoCommand i) l) ls"

end
