(* ===== verification/LogFiles.thy ===== *)
theory LogFiles
  imports Paths Json
begin

text \<open>
  The part of the file system the loggers use: names of files, the contents they lead to, and
  files opened for appending, which keep leading to the same contents when the name is moved.
  Opening a name may fail; writing to an open file does not.  \<open>scan_lines\<close> is
  \<^verbatim>\<open>bufio.Scanner\<close> over a text.
\<close>

record inode =
  inData :: string
  inUid :: int
  inGid :: int
  inMode :: int

record fsys =
  fsDir :: "(string \<times> nat) list"
  fsNode :: "nat \<Rightarrow> inode"
  fsNext :: nat
  fsFault :: "string \<Rightarrow> bool"

record ofile =
  ofName :: string
  ofNode :: nat
  ofOpen :: bool

definition new_inode :: "int \<Rightarrow> inode" where
  "new_inode mode = \<lparr>inData = [], inUid = 0, inGid = 0, inMode = mode\<rparr>"

text \<open>\<^verbatim>\<open>os.OpenFile(path, O_CREATE|O_APPEND|O_WRONLY, mode)\<close>, as root.\<close>

definition open_append :: "string \<Rightarrow> int \<Rightarrow> fsys \<Rightarrow> ofile option \<times> fsys" where
  "open_append path mode s =
     (if fsFault s path then (None, s)
      else case map_of (fsDir s) path of
        Some n \<Rightarrow> (Some \<lparr>ofName = path, ofNode = n, ofOpen = True\<rparr>, s)
      | None \<Rightarrow>
          (Some \<lparr>ofName = path, ofNode = fsNext s, ofOpen = True\<rparr>,
           s\<lparr>fsDir := map_put path (fsNext s) (fsDir s), fsNode := (fsNode s)(fsNext s := new_inode mode),
             fsNext := Suc (fsNext s)\<rparr>))"

definition write_file :: "ofile \<Rightarrow> string \<Rightarrow> fsys \<Rightarrow> fsys" where
  "write_file f out s =
     (if ofOpen f
      then s\<lparr>fsNode := (fsNode s)(ofNode f := (fsNode s (ofNode f))\<lparr>inData := inData (fsNode s (ofNode f)) @ out\<rparr>)\<rparr>
      else s)"

definition close_file :: "ofile \<Rightarrow> ofile" where
  "close_file f = f\<lparr>ofOpen := False\<rparr>"

definition chown_path :: "string \<Rightarrow> int \<Rightarrow> int \<Rightarrow> fsys \<Rightarrow> fsys" where
  "chown_path path uid gid s =
     (case map_of (fsDir s) path of
        None \<Rightarrow> s
      | Some n \<Rightarrow> s\<lparr>fsNode := (fsNode s)(n := (fsNode s n)\<lparr>inUid := uid, inGid := gid\<rparr>)\<rparr>)"

text \<open>What a reader of a name finds.\<close>

definition file_data :: "fsys \<Rightarrow> string \<Rightarrow> string option" where
  "file_data s path = map_option (\<lambda>n. inData (fsNode s n)) (map_of (fsDir s) path)"

text \<open>The move of a file by the rotation of logs, which is not part of the program.\<close>

definition rename_path :: "string \<Rightarrow> string \<Rightarrow> fsys \<Rightarrow> fsys" where
  "rename_path a b s =
     (case map_of (fsDir s) a of
        None \<Rightarrow> s
      | Some n \<Rightarrow> s\<lparr>fsDir := map_put b n (filter (\<lambda>e. fst e \<noteq> a) (fsDir s))\<rparr>)"

text \<open>\<^verbatim>\<open>os.ReadDir\<close>: the names of the files in a directory, sorted.\<close>

definition dir_files :: "fsys \<Rightarrow> string \<Rightarrow> string list" where
  "dir_files s dir =
     filter (\<lambda>n. CHR ''/'' \<notin> set n)
       (map (\<lambda>e. trim_prefix (fst e) (dir @ ''/'')) (filter (\<lambda>e. has_prefix (fst e) (dir @ ''/'')) (fsDir s)))"

section \<open>Lines\<close>

text \<open>
  \<^verbatim>\<open>bufio.ScanLines\<close>: the text up to each newline, and a last part that is not empty.  The
  scanner's buffer holds 65536 bytes; a line that does not fit with its end ends the scan with an
  error (the second component).  A carriage return before the newline is dropped.
\<close>

definition text_lines :: "string \<Rightarrow> string list" where
  "text_lines s =
     (let ls = split_char CHR 0x0A s in if last ls = [] then butlast ls else ls)"

definition drop_cr :: "string \<Rightarrow> string" where
  "drop_cr l = (if l \<noteq> [] \<and> last l = CHR 0x0D then butlast l else l)"

definition max_token :: int where
  "max_token = 65536"

definition line_fits :: "string \<Rightarrow> bool" where
  "line_fits l \<longleftrightarrow> int (length l) < max_token"

definition scan_lines :: "string \<Rightarrow> string list \<times> bool" where
  "scan_lines s =
     (map drop_cr (takeWhile line_fits (text_lines s)), \<not> list_all line_fits (text_lines s))"

section \<open>Lemmas\<close>

text \<open>The names of a file system are distinct and lead to different contents that exist.\<close>

definition fs_ok :: "fsys \<Rightarrow> bool" where
  "fs_ok s \<longleftrightarrow> distinct (map fst (fsDir s)) \<and> distinct (map snd (fsDir s)) \<and> list_all (\<lambda>e. snd e < fsNext s) (fsDir s)"

lemma distinct_snd_put:
  assumes "distinct (map snd m)" "n \<notin> snd ` set m"
  shows "distinct (map snd (map_put k n m))"
proof -
  have "distinct (map snd (insort_key fst p xs)) \<longleftrightarrow> distinct (map snd (p # xs))" for p :: "string \<times> 'a" and xs
    by (induction xs) (auto simp: set_insort)
  moreover have "distinct (map snd ((k, n) # filter (\<lambda>p. fst p \<noteq> k) m))"
    using assms by (induction m) auto
  ultimately show ?thesis unfolding map_put_def by blast
qed

text \<open>The text under a name; a name that is not there has the empty text.\<close>

definition log_text :: "fsys \<Rightarrow> string \<Rightarrow> string" where
  "log_text s q = (case file_data s q of None \<Rightarrow> [] | Some d \<Rightarrow> d)"

lemma fs_ok_node: "fs_ok s \<Longrightarrow> map_of (fsDir s) q = Some n \<Longrightarrow> n < fsNext s"
  by (auto simp: fs_ok_def list_all_iff dest!: map_of_SomeD)

lemma fs_ok_inj: "fs_ok s \<Longrightarrow> map_of (fsDir s) p = Some n \<Longrightarrow> map_of (fsDir s) q = Some n \<Longrightarrow> p = q"
  by (auto simp: fs_ok_def distinct_map dest!: map_of_SomeD dest: inj_onD [of snd _ "(p, n)" "(q, n)"])

text \<open>A file system that has more names than another, and under all of them the same text.\<close>

definition fs_grow :: "fsys \<Rightarrow> fsys \<Rightarrow> bool" where
  "fs_grow s s' \<longleftrightarrow>
     (fs_ok s \<longrightarrow> fs_ok s') \<and> fsFault s' = fsFault s \<and> (fs_ok s \<longrightarrow> log_text s' = log_text s) \<and>
     (\<forall>q n. fs_ok s \<longrightarrow> map_of (fsDir s) q = Some n \<longrightarrow> map_of (fsDir s') q = Some n)"

lemma fs_grow_refl [simp]: "fs_grow s s"
  by (simp add: fs_grow_def)

lemma fs_grow_trans: "fs_grow s s' \<Longrightarrow> fs_grow s' s'' \<Longrightarrow> fs_grow s s''"
  by (auto simp: fs_grow_def)

lemma fs_ok_open:
  assumes "fs_ok s" "map_of (fsDir s) path = None" "\<not> fsFault s path"
  shows "fs_ok (snd (open_append path mode s))"
proof -
  have "fsNext s \<notin> snd ` set (fsDir s)" using assms(1) by (auto simp: fs_ok_def list_all_iff)
  moreover have "set (map_put path n (fsDir s)) \<subseteq> insert (path, n) (set (fsDir s))" for n
    by (auto simp: map_put_def set_insort)
  ultimately show ?thesis
    using assms by (fastforce simp: open_append_def fs_ok_def distinct_fst_put distinct_snd_put list_all_iff intro: less_SucI)
qed

lemma log_text_open:
  assumes "fs_ok s"
  shows "log_text (snd (open_append path mode s)) q = log_text s q"
proof (cases "map_of (fsDir s) q")
  case None
  then show ?thesis
    using assms by (auto simp: log_text_def file_data_def open_append_def new_inode_def fs_ok_def split: option.splits)
next
  case (Some n)
  then show ?thesis
    using assms fs_ok_node [OF assms Some]
    by (auto simp: log_text_def file_data_def open_append_def fs_ok_def split: option.splits)
qed

lemma fs_grow_open: "fs_grow s (snd (open_append path mode s))"
proof -
  have "fs_ok s \<Longrightarrow> fs_ok (snd (open_append path mode s))"
    using fs_ok_open [of s path mode] by (cases "map_of (fsDir s) path") (auto simp: open_append_def)
  moreover have "fs_ok s \<Longrightarrow> map_of (fsDir s) q = Some n \<Longrightarrow> map_of (fsDir (snd (open_append path mode s))) q = Some n" for q n
    by (auto simp: open_append_def fs_ok_def split: option.splits)
  moreover have "fsFault (snd (open_append path mode s)) = fsFault s"
    by (simp add: open_append_def split: option.splits)
  ultimately show ?thesis using log_text_open [of s path mode] by (auto simp: fs_grow_def)
qed

text \<open>Opening succeeds unless the system refuses it, and the file then leads where its name leads.\<close>

lemma open_ok:
  assumes "fs_ok s" "\<not> fsFault s path"
  obtains f s' where "open_append path mode s = (Some f, s')" "ofName f = path" "ofOpen f"
    "map_of (fsDir s') path = Some (ofNode f)" "fs_grow s s'"
proof -
  obtain fo s' where e: "open_append path mode s = (fo, s')" by fastforce
  have "fo \<noteq> None" using assms(2) e by (auto simp: open_append_def split: option.splits)
  then obtain f where f: "fo = Some f" by blast
  have "ofName f = path" "ofOpen f" "map_of (fsDir s') path = Some (ofNode f)"
    using assms e f by (auto simp: open_append_def fs_ok_def split: option.splits)
  then show ?thesis using that e f fs_grow_open [of s path mode] by simp
qed

lemma write_simps [simp]:
  "fsDir (write_file f x s) = fsDir s" "fsNext (write_file f x s) = fsNext s" "fsFault (write_file f x s) = fsFault s"
  "fs_ok (write_file f x s) = fs_ok s"
  by (simp_all add: write_file_def fs_ok_def)

lemma chown_data [simp]: "fsDir (chown_path p u g s) = fsDir s" "file_data (chown_path p u g s) q = file_data s q"
  by (auto simp: chown_path_def file_data_def split: option.splits intro!: option.map_cong)

lemma fs_grow_chown [simp]: "fs_grow s (chown_path p u g s)"
proof -
  have "fs_ok (chown_path p u g s) = fs_ok s" "fsFault (chown_path p u g s) = fsFault s"
    by (auto simp: chown_path_def fs_ok_def split: option.splits)
  then show ?thesis by (simp add: fs_grow_def log_text_def fun_eq_iff)
qed

lemma log_text_write:
  "log_text (write_file f x s) q = log_text s q @ (if map_of (fsDir s) q = Some (ofNode f) \<and> ofOpen f then x else [])"
  by (auto simp: log_text_def file_data_def write_file_def split: option.splits)

text \<open>A text that ends with a newline, and the lines added to it.\<close>

definition whole_lines :: "string \<Rightarrow> bool" where
  "whole_lines s \<longleftrightarrow> s = [] \<or> last s = CHR 0x0A"

lemma text_lines_append:
  assumes "whole_lines s" "CHR 0x0A \<notin> set l"
  shows "text_lines (s @ l @ [CHR 0x0A]) = text_lines s @ [l]"
proof (cases "s = []")
  case True
  then show ?thesis using assms by (simp add: text_lines_def)
next
  case False
  then obtain t where t: "s = t @ [CHR 0x0A]"
    using assms(1) by (metis append_butlast_last_id whole_lines_def)
  have "split_char CHR 0x0A (s @ l @ [CHR 0x0A]) = split_char CHR 0x0A t @ [l, []]"
    using assms(2) by (simp add: t split_char_append_sep)
  moreover have "split_char CHR 0x0A s = split_char CHR 0x0A t @ [[]]"
    by (simp add: t split_char_append_sep)
  ultimately show ?thesis by (simp add: text_lines_def butlast_append)
qed

lemma text_lines_split: "text_lines (x @ [CHR 0x0A] @ y) = text_lines (x @ [CHR 0x0A]) @ text_lines y"
proof -
  have "split_char CHR 0x0A (x @ [CHR 0x0A] @ y) = split_char CHR 0x0A x @ split_char CHR 0x0A y"
    "split_char CHR 0x0A (x @ [CHR 0x0A]) = split_char CHR 0x0A x @ [[]]"
    by (simp_all add: split_char_append_sep)
  then show ?thesis by (simp add: text_lines_def butlast_append Let_def)
qed

lemma text_lines_Nil [simp]: "text_lines [] = []"
  by (simp add: text_lines_def)

lemma whole_lines_append [simp]: "whole_lines (s @ l @ [CHR 0x0A])"
  by (simp add: whole_lines_def)

end
