(* ===== verification/Times.thy ===== *)
theory Times
  imports Prelude
begin

text \<open>
  Instants as the log and the reports of the program use them: seconds since 1970 in UTC, written
  and read in RFC 3339 as \<^verbatim>\<open>time.Format\<close> and \<^verbatim>\<open>time.Parse\<close> do.  Instants that are
  read are in nanoseconds.  Years are those of the proleptic Gregorian calendar; the years beyond
  9999, which RFC 3339 cannot write, are not treated as Go does.
\<close>

section \<open>The calendar\<close>

text \<open>A day, counted from 1970-01-01, as year, month and day; years begin in March inside.\<close>

definition civil_of_day :: "int \<Rightarrow> int \<times> int \<times> int" where
  "civil_of_day z =
     (let n = z + 719468; era = n div 146097; doe = n mod 146097;
          yoe = (doe - doe div 1460 + doe div 36524 - doe div 146096) div 365;
          doy = doe - (365 * yoe + yoe div 4 - yoe div 100);
          mp = (5 * doy + 2) div 153;
          m = (if mp < 10 then mp + 3 else mp - 9)
      in (yoe + era * 400 + (if m \<le> 2 then 1 else 0), m, doy - (153 * mp + 2) div 5 + 1))"

definition day_of_civil :: "int \<Rightarrow> int \<Rightarrow> int \<Rightarrow> int" where
  "day_of_civil y m d =
     (let y' = (if m \<le> 2 then y - 1 else y); yoe = y' mod 400;
          doy = (153 * (if m > 2 then m - 3 else m + 9) + 2) div 5 + d - 1
      in y' div 400 * 146097 + (yoe * 365 + yoe div 4 - yoe div 100 + doy) - 719468)"

definition is_leap :: "int \<Rightarrow> bool" where
  "is_leap y \<longleftrightarrow> y mod 4 = 0 \<and> (y mod 100 \<noteq> 0 \<or> y mod 400 = 0)"

definition days_in :: "int \<Rightarrow> int \<Rightarrow> int" where
  "days_in y m = (if m = 2 then (if is_leap y then 29 else 28) else if m \<in> set [4, 6, 9, 11] then 30 else 31)"

section \<open>RFC 3339\<close>

definition pad_left :: "nat \<Rightarrow> string \<Rightarrow> string" where
  "pad_left n s = replicate (n - length s) CHR ''0'' @ s"

definition two :: "int \<Rightarrow> string" where
  "two n = pad_left 2 (nat_str n)"

definition format_rfc3339 :: "int \<Rightarrow> string" where
  "format_rfc3339 t =
     (case civil_of_day (t div 86400) of
        (y, m, d) \<Rightarrow>
          (let s = t mod 86400
           in pad_left 4 (nat_str y) @ ''-'' @ two m @ ''-'' @ two d @ ''T'' @
              two (s div 3600) @ '':'' @ two (s div 60 mod 60) @ '':'' @ two (s mod 60) @ ''Z''))"

text \<open>A field of exactly \<open>n\<close> digits at the head of a text, within bounds.\<close>

definition num_field :: "nat \<Rightarrow> int \<Rightarrow> int \<Rightarrow> string \<Rightarrow> (int \<times> string) option" where
  "num_field n lo hi s =
     (let v = digits_val (take n s)
      in if length s < n \<or> \<not> list_all is_digit (take n s) \<or> v < lo \<or> hi < v then None else Some (v, drop n s))"

definition expect :: "char \<Rightarrow> string \<Rightarrow> string option" where
  "expect c s = (case s of d # r \<Rightarrow> (if d = c then Some r else None) | [] \<Rightarrow> None)"

text \<open>A fraction of a second, in nanoseconds; digits after the ninth are dropped.\<close>

definition fraction_ns :: "string \<Rightarrow> int \<times> string" where
  "fraction_ns s =
     (case s of
        c # r \<Rightarrow>
          (if (c = CHR ''.'' \<or> c = CHR '','') \<and> r \<noteq> [] \<and> is_digit (hd r)
           then (digits_val (take 9 (takeWhile is_digit r @ replicate 9 CHR ''0'')), dropWhile is_digit r)
           else (0, s))
      | [] \<Rightarrow> (0, s))"

definition zone_offset :: "string \<Rightarrow> int option" where
  "zone_offset s =
     (if s = ''Z'' then Some 0
      else case s of
        c # r \<Rightarrow>
          (if c \<in> set ''+-'' then
             (case num_field 2 0 24 r of
                None \<Rightarrow> None
              | Some (h, r1) \<Rightarrow>
                  (case Option.bind (expect CHR '':'' r1) (num_field 2 0 60) of
                     Some (m, []) \<Rightarrow> Some (if c = CHR ''-'' then - (h * 3600 + m * 60) else h * 3600 + m * 60)
                   | _ \<Rightarrow> None))
           else None)
      | [] \<Rightarrow> None)"

definition next_field :: "char \<Rightarrow> nat \<Rightarrow> int \<Rightarrow> int \<Rightarrow> string \<Rightarrow> (int \<times> string) option" where
  "next_field c n lo hi s = Option.bind (expect c s) (num_field n lo hi)"

definition parse_rfc3339 :: "string \<Rightarrow> int option" where
  "parse_rfc3339 s =
     (case num_field 4 0 9999 s of None \<Rightarrow> None | Some (y, s1) \<Rightarrow>
     (case next_field CHR ''-'' 2 1 12 s1 of None \<Rightarrow> None | Some (m, s2) \<Rightarrow>
     (case next_field CHR ''-'' 2 1 (days_in y m) s2 of None \<Rightarrow> None | Some (d, s3) \<Rightarrow>
     (case next_field CHR ''T'' 2 0 23 s3 of None \<Rightarrow> None | Some (h, s4) \<Rightarrow>
     (case next_field CHR '':'' 2 0 59 s4 of None \<Rightarrow> None | Some (mi, s5) \<Rightarrow>
     (case next_field CHR '':'' 2 0 59 s5 of None \<Rightarrow> None | Some (sec, s6) \<Rightarrow>
       (case fraction_ns s6 of (ns, s7) \<Rightarrow>
          (case zone_offset s7 of
             None \<Rightarrow> None
           | Some off \<Rightarrow>
               Some ((day_of_civil y m d * 86400 + h * 3600 + mi * 60 + sec - off) * 1000000000 + ns)))))))))"

text \<open>The zero instant, 0001-01-01T00:00:00Z, stands for no instant at all.\<close>

definition zero_time :: int where
  "zero_time = day_of_civil 1 1 1 * 86400 * 1000000000"

section \<open>Examples\<close>

lemma format_example: "format_rfc3339 1776250000 = ''2026-04-15T10:46:40Z''"
  by code_simp

lemma parse_example:
  "parse_rfc3339 ''2026-04-15T10:46:40Z'' = Some (1776250000 * 1000000000)"
  "parse_rfc3339 ''2026-04-15T12:46:40.5+02:00'' = Some (1776250000 * 1000000000 + 500000000)"
  "parse_rfc3339 ''2026-02-29T10:46:40Z'' = None"
  by code_simp+

end
