(* ===== verification/AuditLog.thy ===== *)
theory AuditLog
  imports JsonText LogFiles Times Upstream
begin

text \<open>
  Package audit: the records of requests, of connections and of the life of containers, and the
  loggers that append them to one file per user, as in \<^verbatim>\<open>audit.go\<close>, \<^verbatim>\<open>container.go\<close> and
  \<^verbatim>\<open>logger.go\<close>; the records the proxy makes (\<^verbatim>\<open>makeAuditEntry\<close>).  Operations of a logger
  run under its lock, so each is one step; the clock is an argument.  \<open>nil\<close> loggers are \<^term>\<open>None\<close>.
  A Go map of open files is a list sorted by name; Go's order of iteration is not fixed, and the
  names of the map do not collide.
\<close>

section \<open>Records\<close>

record AuthAuditEntry =
  auTime :: string
  auEvent :: string
  auPID :: int
  auClientAddr :: string
  auEffectiveUID :: int
  auEffectiveUsername :: string
  auLoginUID :: int
  auLoginUsername :: string
  auRealUID :: int
  auRealUsername :: string
  auSwitchedIdentity :: bool
  auSwitchType :: string
  auPasswdVerified :: bool
  auFailureReason :: string
  auForgeryDetail :: string

record AuditEntry =
  aeTime :: string
  aeUser :: string
  aeUID :: int
  aeClientIP :: string
  aeAuthSource :: string
  aeMethod :: string
  aeAction :: string
  aeURI :: string
  aeRewrittenPath :: string
  aeResult :: string
  aePrivSource :: string
  aeDenyReason :: string
  aeContainerID :: string
  aeStatusCode :: int
  aeLatencyMs :: int
  aeTotalCount :: int
  aeFilteredCount :: int
  aeResourceUsage :: "(string \<times> string) list"

record ContainerEvent =
  ceTime :: string
  ceContainerID :: string
  ceAction :: string
  ceImage :: string
  ceUsername :: string
  ceUID :: int
  ceExitCode :: string
  ceError :: string

text \<open>Fields with \<^verbatim>\<open>omitempty\<close> are left out when they have the zero value.\<close>

definition opt_str :: "string \<Rightarrow> string \<Rightarrow> (string \<times> json) list" where
  "opt_str k v = (if v = [] then [] else [(k, JStr v)])"

definition opt_int :: "string \<Rightarrow> int \<Rightarrow> (string \<times> json) list" where
  "opt_int k v = (if v = 0 then [] else [(k, JNum v)])"

definition enc_auth :: "AuthAuditEntry \<Rightarrow> json" where
  "enc_auth e = JObj
     ([(''time'', JStr (auTime e)), (''event'', JStr (auEvent e)), (''pid'', JNum (auPID e))]
      @ opt_str ''client_addr'' (auClientAddr e)
      @ [(''effective_uid'', JNum (auEffectiveUID e))] @ opt_str ''effective_username'' (auEffectiveUsername e)
      @ [(''login_uid'', JNum (auLoginUID e))] @ opt_str ''login_username'' (auLoginUsername e)
      @ [(''real_uid'', JNum (auRealUID e))] @ opt_str ''real_username'' (auRealUsername e)
      @ [(''switched_identity'', JBool (auSwitchedIdentity e))] @ opt_str ''switch_type'' (auSwitchType e)
      @ [(''passwd_verified'', JBool (auPasswdVerified e))] @ opt_str ''failure_reason'' (auFailureReason e)
      @ opt_str ''forgery_detail'' (auForgeryDetail e))"

definition enc_entry :: "AuditEntry \<Rightarrow> json" where
  "enc_entry e = JObj
     ([(''time'', JStr (aeTime e)), (''user'', JStr (aeUser e)), (''uid'', JNum (aeUID e))]
      @ opt_str ''client_ip'' (aeClientIP e)
      @ [(''auth_source'', JStr (aeAuthSource e))] @ opt_str ''method'' (aeMethod e)
      @ [(''action'', JStr (aeAction e)), (''uri'', JStr (aeURI e))] @ opt_str ''rewritten_path'' (aeRewrittenPath e)
      @ [(''result'', JStr (aeResult e))] @ opt_str ''priv_source'' (aePrivSource e)
      @ opt_str ''deny_reason'' (aeDenyReason e) @ opt_str ''container_id'' (aeContainerID e)
      @ [(''status_code'', JNum (aeStatusCode e))] @ opt_int ''latency_ms'' (aeLatencyMs e)
      @ opt_int ''total_count'' (aeTotalCount e) @ opt_int ''filtered_count'' (aeFilteredCount e)
      @ (if aeResourceUsage e = [] then [] else [(''resource_usage'', enc_str_map (aeResourceUsage e))]))"

definition enc_event :: "ContainerEvent \<Rightarrow> json" where
  "enc_event e = JObj
     ([(''time'', JStr (ceTime e)), (''container_id'', JStr (ceContainerID e)), (''action'', JStr (ceAction e))]
      @ opt_str ''image'' (ceImage e) @ opt_str ''username'' (ceUsername e) @ opt_int ''uid'' (ceUID e)
      @ opt_str ''exit_code'' (ceExitCode e) @ opt_str ''error'' (ceError e))"

text \<open>The line of a record: its JSON without the outer braces.\<close>

definition strip_braces :: "string \<Rightarrow> string" where
  "strip_braces l =
     (if length l \<ge> 2 \<and> hd l = CHR ''{'' \<and> last l = CHR ''}'' then butlast (tl l) else l)"

definition log_line :: "json \<Rightarrow> string" where
  "log_line j = strip_braces (json_text j)"

abbreviation nl :: string where
  "nl \<equiv> [CHR 0x0A]"

section \<open>Files per user\<close>

text \<open>
  The state the operation log and the container log share: open files and user ids by user name.
  The group of a file is set to the number of the user id.
\<close>

definition log_mode :: int where
  "log_mode = 6 * 64 + 4 * 8"

record log_files =
  lfFiles :: "(string \<times> ofile) list"
  lfUids :: "(string \<times> int) list"

definition log_path :: "string \<Rightarrow> string \<Rightarrow> string \<Rightarrow> string" where
  "log_path dir sub user = path_join (path_join dir sub) (user @ ''.log'')"

definition get_file :: "string \<Rightarrow> string \<Rightarrow> string \<Rightarrow> int \<Rightarrow> log_files \<Rightarrow> fsys \<Rightarrow> ofile option \<times> log_files \<times> fsys" where
  "get_file dir sub user uid a s =
     (case map_of (lfFiles a) user of
        Some f \<Rightarrow> (Some f, a, s)
      | None \<Rightarrow>
          (let path = log_path dir sub user
           in case open_append path log_mode s of
                (None, s1) \<Rightarrow> (None, a, s1)
              | (Some f, s1) \<Rightarrow>
                  (Some f, a\<lparr>lfFiles := map_put user f (lfFiles a), lfUids := map_put user uid (lfUids a)\<rparr>,
                   chown_path path 0 uid s1)))"

definition append_line :: "string \<Rightarrow> string \<Rightarrow> string \<Rightarrow> int \<Rightarrow> string \<Rightarrow> log_files \<Rightarrow> fsys \<Rightarrow> log_files \<times> fsys" where
  "append_line dir sub user uid line a s =
     (case get_file dir sub user uid a s of
        (None, a1, s1) \<Rightarrow> (a1, s1)
      | (Some f, a1, s1) \<Rightarrow> (a1, write_file f (line @ nl) s1))"

text \<open>Reopening after the rotation of the logs: a file that cannot be opened is forgotten.\<close>

fun reopen_files :: "(string \<times> int) list \<Rightarrow> (string \<times> ofile) list \<Rightarrow> fsys \<Rightarrow> (string \<times> ofile) list \<times> fsys" where
  "reopen_files uids [] s = ([], s)"
| "reopen_files uids ((u, f) # fs) s =
     (case open_append (ofName f) log_mode s of
        (Some f', s1) \<Rightarrow>
          (let s2 = (case map_of uids u of Some uid \<Rightarrow> chown_path (ofName f) 0 uid s1 | None \<Rightarrow> s1);
               (rest, s3) = reopen_files uids fs s2
           in ((u, f') # rest, s3))
      | (None, s1) \<Rightarrow> reopen_files uids fs s1)"

definition reopen_all :: "log_files \<Rightarrow> fsys \<Rightarrow> log_files \<times> fsys" where
  "reopen_all a s =
     (case reopen_files (lfUids a) (lfFiles a) s of (fs, s1) \<Rightarrow> (a\<lparr>lfFiles := fs\<rparr>, s1))"

definition close_all :: "log_files \<Rightarrow> log_files" where
  "close_all a = a\<lparr>lfFiles := map (\<lambda>(u, f). (u, close_file f)) (lfFiles a)\<rparr>"

section \<open>The audit log\<close>

record AuditLogger =
  alDir :: string
  alFiles :: log_files
  alAuth :: "ofile option"

datatype log_error = MkdirFailed | OpenFailed

definition NewAuditLogger :: "string \<Rightarrow> bool \<Rightarrow> fsys \<Rightarrow> (log_error, AuditLogger) result \<times> fsys" where
  "NewAuditLogger dir mkdir_ok s =
     (if \<not> mkdir_ok then (Inl MkdirFailed, s)
      else case open_append (path_join dir ''auth.log'') log_mode s of
        (None, s1) \<Rightarrow> (Inl OpenFailed, s1)
      | (Some f, s1) \<Rightarrow>
          (Inr \<lparr>alDir = dir, alFiles = \<lparr>lfFiles = [], lfUids = []\<rparr>, alAuth = Some f\<rparr>, s1))"

definition LogAuth :: "int \<Rightarrow> AuthAuditEntry \<Rightarrow> AuditLogger option \<Rightarrow> fsys \<Rightarrow> fsys" where
  "LogAuth now e oa s =
     (case oa of
        None \<Rightarrow> s
      | Some a \<Rightarrow>
          (let e1 = (if auTime e = [] then e\<lparr>auTime := format_rfc3339 now\<rparr> else e)
           in case alAuth a of
                None \<Rightarrow> s
              | Some f \<Rightarrow> write_file f (log_line (enc_auth e1) @ nl) s))"

definition complete_entry :: "int \<Rightarrow> AuditEntry \<Rightarrow> AuditEntry" where
  "complete_entry now e =
     (let e1 = (if aeTime e = [] then e\<lparr>aeTime := format_rfc3339 now\<rparr> else e)
      in if aeAuthSource e1 = [] then e1\<lparr>aeAuthSource := ''os_peercred''\<rparr> else e1)"

definition WriteEntry :: "int \<Rightarrow> AuditEntry \<Rightarrow> AuditLogger option \<Rightarrow> fsys \<Rightarrow> AuditLogger option \<times> fsys" where
  "WriteEntry now e oa s =
     (case oa of
        None \<Rightarrow> (None, s)
      | Some a \<Rightarrow>
          (let e1 = complete_entry now e;
               (fs, s1) = append_line (alDir a) ''user-operation'' (aeUser e1) (aeUID e1) (log_line (enc_entry e1)) (alFiles a) s
           in (Some (a\<lparr>alFiles := fs\<rparr>), s1)))"

definition log_entry :: "string \<Rightarrow> int \<Rightarrow> string \<Rightarrow> string \<Rightarrow> string \<Rightarrow> string \<Rightarrow> string \<Rightarrow> string \<Rightarrow> string \<Rightarrow> int \<Rightarrow>
    int \<Rightarrow> int \<Rightarrow> int \<Rightarrow> (string \<times> string) list \<Rightarrow> AuditEntry" where
  "log_entry username uid authSource action uri rewrittenPath res denyReason containerID statusCode
     latencyMs totalCount filteredCount resourceUsage =
     \<lparr>aeTime = [], aeUser = username, aeUID = uid, aeClientIP = [], aeAuthSource = authSource, aeMethod = [],
      aeAction = action, aeURI = uri, aeRewrittenPath = rewrittenPath, aeResult = res, aePrivSource = [],
      aeDenyReason = denyReason, aeContainerID = containerID, aeStatusCode = statusCode, aeLatencyMs = latencyMs,
      aeTotalCount = totalCount, aeFilteredCount = filteredCount, aeResourceUsage = resourceUsage\<rparr>"

definition LogFull :: "int \<Rightarrow> string \<Rightarrow> int \<Rightarrow> string \<Rightarrow> string \<Rightarrow> string \<Rightarrow> string \<Rightarrow> string \<Rightarrow> string \<Rightarrow> string \<Rightarrow> int \<Rightarrow>
    int \<Rightarrow> int \<Rightarrow> int \<Rightarrow> (string \<times> string) list \<Rightarrow> AuditLogger option \<Rightarrow> fsys \<Rightarrow> AuditLogger option \<times> fsys" where
  "LogFull now username uid authSource action uri rewrittenPath res denyReason containerID statusCode
     latencyMs totalCount filteredCount resourceUsage =
     WriteEntry now (log_entry username uid authSource action uri rewrittenPath res denyReason containerID statusCode
       latencyMs totalCount filteredCount resourceUsage)"

definition LogWithResources :: "int \<Rightarrow> string \<Rightarrow> int \<Rightarrow> string \<Rightarrow> string \<Rightarrow> string \<Rightarrow> string \<Rightarrow> string \<Rightarrow> string \<Rightarrow> int \<Rightarrow>
    (string \<times> string) list \<Rightarrow> AuditLogger option \<Rightarrow> fsys \<Rightarrow> AuditLogger option \<times> fsys" where
  "LogWithResources now username uid authSource action uri res denyReason containerID statusCode resourceUsage =
     LogFull now username uid authSource action uri [] res denyReason containerID statusCode 0 0 0 resourceUsage"

definition Log :: "int \<Rightarrow> string \<Rightarrow> int \<Rightarrow> string \<Rightarrow> string \<Rightarrow> string \<Rightarrow> string \<Rightarrow> string \<Rightarrow> string \<Rightarrow> int \<Rightarrow>
    AuditLogger option \<Rightarrow> fsys \<Rightarrow> AuditLogger option \<times> fsys" where
  "Log now username uid authSource action uri res denyReason containerID statusCode =
     LogFull now username uid authSource action uri [] res denyReason containerID statusCode 0 0 0 []"

definition Reopen :: "AuditLogger option \<Rightarrow> fsys \<Rightarrow> AuditLogger option \<times> fsys" where
  "Reopen oa s =
     (case oa of
        None \<Rightarrow> (None, s)
      | Some a \<Rightarrow>
          (case reopen_all (alFiles a) s of
             (fs, s1) \<Rightarrow>
               (case alAuth a of
                  None \<Rightarrow> (Some (a\<lparr>alFiles := fs\<rparr>), s1)
                | Some f \<Rightarrow>
                    (case open_append (ofName f) log_mode s1 of
                       (f', s2) \<Rightarrow> (Some (a\<lparr>alFiles := fs, alAuth := f'\<rparr>), s2)))))"

definition CloseAudit :: "AuditLogger option \<Rightarrow> AuditLogger option" where
  "CloseAudit oa =
     map_option (\<lambda>a. a\<lparr>alFiles := close_all (alFiles a), alAuth := map_option close_file (alAuth a)\<rparr>) oa"

section \<open>The entries of the proxy\<close>

fun AuthSource_string :: "AuthSource \<Rightarrow> string" where
  "AuthSource_string AuthSourceNone = []"
| "AuthSource_string AuthSourceOS = ''os_peercred''"
| "AuthSource_string AuthSourceJWT = ''jwt''"
| "AuthSource_string AuthSourceCert = ''mtls_cert''"

definition privSource :: "CallerIdentity option \<Rightarrow> string" where
  "privSource oi = (case oi of Some i \<Rightarrow> (if ConfigPrivileged i then ''config'' else []) | None \<Rightarrow> [])"

definition makeAuditEntry ::
    "CallerIdentity \<Rightarrow> request option \<Rightarrow> string \<Rightarrow> string \<Rightarrow> string \<Rightarrow> string \<Rightarrow> int \<Rightarrow> AuditEntry" where
  "makeAuditEntry i orq action res denyReason containerID statusCode =
     (let (method, uri) = (case orq of None \<Rightarrow> ([], []) | Some r \<Rightarrow> (rqMethod r, RequestURI r))
      in \<lparr>aeTime = [], aeUser = RealUsername i, aeUID = RealUID i, aeClientIP = ClientAddr i,
          aeAuthSource = AuthSource_string (idAuthSource i), aeMethod = method, aeAction = action, aeURI = uri,
          aeRewrittenPath = [], aeResult = res, aePrivSource = privSource (Some i), aeDenyReason = denyReason,
          aeContainerID = containerID, aeStatusCode = statusCode, aeLatencyMs = 0, aeTotalCount = 0,
          aeFilteredCount = 0, aeResourceUsage = []\<rparr>)"

section \<open>The container log\<close>

record ContainerLogger =
  clDir :: string
  clFiles :: log_files

definition NewContainerLogger :: "string \<Rightarrow> bool \<Rightarrow> (log_error, ContainerLogger) result" where
  "NewContainerLogger dir mkdir_ok =
     (if mkdir_ok then Inr \<lparr>clDir = dir, clFiles = \<lparr>lfFiles = [], lfUids = []\<rparr>\<rparr> else Inl MkdirFailed)"

definition write_event :: "string \<Rightarrow> int \<Rightarrow> ContainerEvent \<Rightarrow> ContainerLogger \<Rightarrow> fsys \<Rightarrow> ContainerLogger \<times> fsys" where
  "write_event username uid e c s =
     (case append_line (clDir c) ''container-run'' (if username = [] then ''unknown'' else username) uid
             (log_line (enc_event e)) (clFiles c) s of
        (fs, s1) \<Rightarrow> (c\<lparr>clFiles := fs\<rparr>, s1))"

text \<open>A line of the daemon's event stream, decoded, or skipped.\<close>

definition lifecycle_actions :: "string list" where
  "lifecycle_actions =
     [''create'', ''start'', ''stop'', ''die'', ''kill'', ''oom'', ''destroy'', ''pause'', ''unpause'', ''restart'']"

definition str_attrs :: "string \<Rightarrow> jmap \<Rightarrow> (string \<times> string) list option" where
  "str_attrs name es =
     (case field_map name es of None \<Rightarrow> None | Some m \<Rightarrow> dec_str_map (JObj m))"

definition event_of_line :: "(string \<Rightarrow> (string \<times> int) option) \<Rightarrow> string \<Rightarrow> ContainerEvent option" where
  "event_of_line ownerLookup line =
     (if line = [] then None
      else case body_struct (parse_json line) of
        None \<Rightarrow> None
      | Some es \<Rightarrow>
          (case (field_str ''status'' es, field_str ''Action'' es, sub_struct ''Actor'' es, field_int64 ''time'' es) of
             (Some status, Some action0, Some actor, Some t) \<Rightarrow>
               (case (field_str ''ID'' actor, str_attrs ''Attributes'' actor) of
                  (Some cid, Some attrs) \<Rightarrow>
                    (let action = (if action0 = [] then status else action0);
                         attr = (\<lambda>k. case map_of attrs k of Some v \<Rightarrow> v | None \<Rightarrow> []);
                         (username, uid) = (case ownerLookup cid of Some o' \<Rightarrow> o' | None \<Rightarrow> ([], 0))
                     in if action \<in> set lifecycle_actions
                        then Some \<lparr>ceTime = format_rfc3339 t, ceContainerID = take 12 cid, ceAction = action,
                                   ceImage = attr ''image'', ceUsername = username, ceUID = uid,
                                   ceExitCode = attr ''exitCode'', ceError = []\<rparr>
                        else None)
                | _ \<Rightarrow> None)
           | _ \<Rightarrow> None))"

definition log_event_line :: "(string \<Rightarrow> (string \<times> int) option) \<Rightarrow> string \<Rightarrow> ContainerLogger \<times> fsys \<Rightarrow> ContainerLogger \<times> fsys" where
  "log_event_line ownerLookup line st =
     (case event_of_line ownerLookup line of
        None \<Rightarrow> st
      | Some e \<Rightarrow> write_event (ceUsername e) (ceUID e) e (fst st) (snd st))"

text \<open>
  One connection to the event stream: the text that arrives and whether the connection breaks
  (\<^term>\<open>None\<close>: there is no connection).  The result tells whether \<^verbatim>\<open>stream\<close> returns an
  error.
\<close>

type_synonym connection = "(string \<times> bool) option"

definition stream ::
    "(string \<Rightarrow> (string \<times> int) option) \<Rightarrow> connection \<Rightarrow> ContainerLogger \<times> fsys \<Rightarrow> bool \<times> ContainerLogger \<times> fsys" where
  "stream ownerLookup conn st =
     (case conn of
        None \<Rightarrow> (True, st)
      | Some (text, broken) \<Rightarrow>
          (case scan_lines text of
             (ls, toolong) \<Rightarrow> (toolong \<or> broken, fold (log_event_line ownerLookup) ls st)))"

text \<open>
  The watch: one connection after the other until one ends without an error or, at the end of the
  list, the context is cancelled.
\<close>

fun run_events ::
    "(string \<Rightarrow> (string \<times> int) option) \<Rightarrow> connection list \<Rightarrow> ContainerLogger \<times> fsys \<Rightarrow> ContainerLogger \<times> fsys" where
  "run_events ownerLookup [] st = st"
| "run_events ownerLookup (conn # conns) st =
     (case stream ownerLookup conn st of
        (err, st1) \<Rightarrow> (if err then run_events ownerLookup conns st1 else st1))"

definition ReopenContainer :: "ContainerLogger \<Rightarrow> fsys \<Rightarrow> ContainerLogger \<times> fsys" where
  "ReopenContainer c s = (case reopen_all (clFiles c) s of (fs, s1) \<Rightarrow> (c\<lparr>clFiles := fs\<rparr>, s1))"

definition CloseContainer :: "ContainerLogger \<Rightarrow> ContainerLogger" where
  "CloseContainer c = c\<lparr>clFiles := close_all (clFiles c)\<rparr>"

section \<open>The log of the proxy's own messages\<close>

record ProxyLogger =
  plFile :: "ofile option"
  plPath :: string

definition NewProxyRunLogger :: "int \<Rightarrow> string \<Rightarrow> bool \<Rightarrow> fsys \<Rightarrow> (log_error, ProxyLogger) result \<times> fsys" where
  "NewProxyRunLogger now dir mkdir_ok s =
     (if \<not> mkdir_ok then (Inl MkdirFailed, s)
      else let path = path_join (path_join dir ''proxy-run'') (''proxy-'' @ take 10 (format_rfc3339 now) @ ''.log'')
           in case open_append path log_mode s of
                (None, s1) \<Rightarrow> (Inl OpenFailed, s1)
              | (Some f, s1) \<Rightarrow> (Inr \<lparr>plFile = Some f, plPath = path\<rparr>, s1))"

definition proxy_write :: "string \<Rightarrow> ProxyLogger \<Rightarrow> fsys \<Rightarrow> fsys" where
  "proxy_write b p s = (case plFile p of None \<Rightarrow> s | Some f \<Rightarrow> write_file f b s)"

definition ReopenProxy :: "ProxyLogger \<Rightarrow> fsys \<Rightarrow> ProxyLogger \<times> fsys" where
  "ReopenProxy p s = (case open_append (plPath p) log_mode s of (f, s1) \<Rightarrow> (p\<lparr>plFile := f\<rparr>, s1))"

definition CloseProxy :: "ProxyLogger \<Rightarrow> ProxyLogger" where
  "CloseProxy p = p\<lparr>plFile := None\<rparr>"

text \<open>
  \<^verbatim>\<open>timeFirstWriter.Write\<close>: the end of the value that starts at a position, and the line with
  the field of the time moved to the front.
\<close>

fun string_end :: "string \<Rightarrow> nat" where
  "string_end [] = 0"
| "string_end (c # cs) =
     (if c = CHR 0x5C then (case cs of [] \<Rightarrow> 2 | _ # r \<Rightarrow> 2 + string_end r)
      else if c = CHR 0x22 then 1 else Suc (string_end cs))"

definition value_len :: "string \<Rightarrow> nat" where
  "value_len s =
     (if has_prefix s [CHR 0x22] then Suc (string_end (tl s))
      else length (takeWhile (\<lambda>c. c \<noteq> CHR '','' \<and> c \<noteq> CHR ''}'') s))"

text \<open>
  A string whose last character is a backslash ends after the line: the field is then cut out of the
  bytes that follow, here the closing brace, and cutting it out of the rest of the line is a panic
  (\<^term>\<open>None\<close>).
\<close>

definition time_first :: "string \<Rightarrow> string \<Rightarrow> string option" where
  "time_first key inner =
     (case str_index inner key of
        None \<Rightarrow> Some inner
      | Some i \<Rightarrow>
          (let e = i + length key + value_len (drop (i + length key) inner);
               kv = take (e - i) (drop i (inner @ ''}''));
               second = (0 < i \<and> inner ! (i - 1) = CHR '','');
               rest = (if second then take (i - 1) inner @ drop e inner
                       else if e < length inner \<and> inner ! e = CHR '','' then drop (Suc e) inner else [])
           in if second \<and> length inner < e then None
              else Some (kv @ (if rest = [] then [] else CHR '','' # rest))))"

definition timeFirstWrite :: "string \<Rightarrow> string \<Rightarrow> string option" where
  "timeFirstWrite timeKey p =
     (let line = trim_right p nl; key = CHR 0x22 # timeKey @ [CHR 0x22, CHR '':'']
      in if length line < 2 \<or> hd line \<noteq> CHR ''{'' \<or> last line \<noteq> CHR ''}'' then Some p
         else map_option (\<lambda>t. t @ nl) (time_first key (butlast (tl line))))"

text \<open>The set-up of the messages: least level, encoder, and where they go.\<close>

datatype zlevel = DebugLevel | InfoLevel | WarnLevel | ErrorLevel

definition zap_level :: "string \<Rightarrow> zlevel" where
  "zap_level l =
     (if l = ''debug'' then DebugLevel else if l = ''warn'' then WarnLevel
      else if l = ''error'' then ErrorLevel else InfoLevel)"

datatype zencoder = ConsoleEncoder | JSONEncoder

datatype zsink = Stdout | LogFile ofile | Extra

record zcore =
  zcEncoder :: zencoder
  zcSink :: zsink
  zcTimeFirst :: bool
  zcLevel :: zlevel

definition NewLogger :: "string \<Rightarrow> string \<Rightarrow> string \<Rightarrow> fsys \<Rightarrow> (log_error, zcore list) result \<times> fsys" where
  "NewLogger level format filePath s =
     (let enc = (if format = ''text'' then ConsoleEncoder else JSONEncoder); tf = (format \<noteq> ''text'');
          core = (\<lambda>sink. \<lparr>zcEncoder = enc, zcSink = sink, zcTimeFirst = tf, zcLevel = zap_level level\<rparr>)
      in if filePath = [] then (Inr [core Stdout], s)
         else case open_append filePath log_mode s of
           (None, s1) \<Rightarrow> (Inl OpenFailed, s1)
         | (Some f, s1) \<Rightarrow> (Inr [core Stdout, core (LogFile f)], s1))"

definition NewLoggerWithWriter :: "string \<Rightarrow> string \<Rightarrow> bool \<Rightarrow> zcore list" where
  "NewLoggerWithWriter level format extra =
     (let core = (\<lambda>sink. \<lparr>zcEncoder = JSONEncoder, zcSink = sink, zcTimeFirst = True, zcLevel = zap_level level\<rparr>)
      in core Stdout # (if extra then [core Extra] else []))"

section \<open>Messages about decisions\<close>

record IdentityInfo =
  iiRealUsername :: string
  iiRealUID :: int
  iiRealGID :: int
  iiEffectiveUsername :: string
  iiEffectiveUID :: int
  iiPID :: int
  iiCmdLine :: string
  iiUserType :: string
  iiAuthSource :: string

record LogOwnerInfo =
  loUsername :: string
  loUID :: int
  loGID :: int

definition toAuditIdentity :: "CallerIdentity \<Rightarrow> IdentityInfo" where
  "toAuditIdentity i =
     \<lparr>iiRealUsername = RealUsername i, iiRealUID = RealUID i, iiRealGID = RealGID i,
      iiEffectiveUsername = EffectiveUsername i, iiEffectiveUID = EffectiveUID i, iiPID = PID i, iiCmdLine = CmdLine i,
      iiUserType = UserType_String (idUserType i), iiAuthSource = AuthSource_string (idAuthSource i)\<rparr>"

type_synonym zfields = "(string \<times> json) list"

definition logIdentityFields :: "IdentityInfo \<Rightarrow> zfields" where
  "logIdentityFields i =
     [(''user'', JStr (iiRealUsername i @ ''(uid='' @ itoa (iiRealUID i) @ '',gid='' @ itoa (iiRealGID i) @ '')'')),
      (''effective'', JStr (iiEffectiveUsername i @ ''(uid='' @ itoa (iiEffectiveUID i) @ '')'')),
      (''user_type'', JStr (iiUserType i)), (''pid'', JNum (iiPID i)), (''cmdline'', JStr (iiCmdLine i))]"

definition logIdentityShort :: "IdentityInfo \<Rightarrow> zfields" where
  "logIdentityShort i =
     [(''user'', JStr (iiRealUsername i @ ''(uid='' @ itoa (iiRealUID i) @ '')'')), (''user_type'', JStr (iiUserType i))]"

definition logOwnerFields :: "string \<Rightarrow> LogOwnerInfo \<Rightarrow> zfields" where
  "logOwnerFields pre ow =
     [(pre, JStr (loUsername ow @ ''(uid='' @ itoa (loUID ow) @ '',gid='' @ itoa (loGID ow) @ '')''))]"

record zmessage =
  zmLevel :: zlevel
  zmText :: string
  zmFields :: zfields

definition LogAuthzAllowed :: "IdentityInfo \<Rightarrow> string \<Rightarrow> string \<Rightarrow> zmessage" where
  "LogAuthzAllowed i action uri =
     \<lparr>zmLevel = InfoLevel, zmText = ''AUTHZ_ALLOW'',
      zmFields = logIdentityShort i @ [(''action'', JStr action), (''uri'', JStr uri)]\<rparr>"

definition authz_deny :: "IdentityInfo \<Rightarrow> zfields \<Rightarrow> zmessage" where
  "authz_deny i fs = \<lparr>zmLevel = WarnLevel, zmText = ''AUTHZ_DENY'', zmFields = logIdentityFields i @ fs\<rparr>"

definition LogAuthzDeniedCommand :: "IdentityInfo \<Rightarrow> string \<Rightarrow> string \<Rightarrow> zmessage" where
  "LogAuthzDeniedCommand i action uri =
     authz_deny i [(''reason'', JStr ''command_not_permitted''), (''action'', JStr action), (''uri'', JStr uri)]"

definition LogAuthzDeniedOwnership :: "IdentityInfo \<Rightarrow> LogOwnerInfo \<Rightarrow> string \<Rightarrow> string \<Rightarrow> string \<Rightarrow> zmessage" where
  "LogAuthzDeniedOwnership i ow resourceType resourceID action =
     authz_deny i (logOwnerFields ''owner'' ow @
       [(''reason'', JStr (''not_your_'' @ resourceType)), (resourceType @ ''_id'', JStr resourceID),
        (''action'', JStr action)])"

definition LogAuthzDeniedNotTracked :: "IdentityInfo \<Rightarrow> string \<Rightarrow> string \<Rightarrow> string \<Rightarrow> zmessage" where
  "LogAuthzDeniedNotTracked i resourceType resourceID action =
     authz_deny i [(''reason'', JStr (resourceType @ ''_not_tracked'')), (resourceType @ ''_id'', JStr resourceID),
       (''action'', JStr action)]"

definition LogAuthzDeniedImageAccess :: "IdentityInfo \<Rightarrow> string \<Rightarrow> string \<Rightarrow> string \<Rightarrow> zmessage" where
  "LogAuthzDeniedImageAccess i imageRef action reason =
     authz_deny i [(''reason'', JStr reason), (''image'', JStr imageRef), (''action'', JStr action)]"

definition LogAuthzRequest :: "IdentityInfo \<Rightarrow> string \<Rightarrow> string \<Rightarrow> string \<Rightarrow> zmessage" where
  "LogAuthzRequest i action method uri =
     \<lparr>zmLevel = DebugLevel, zmText = ''AUTHZ_REQUEST'',
      zmFields = logIdentityShort i @ [(''action'', JStr action), (''method'', JStr method), (''uri'', JStr uri)]\<rparr>"

section \<open>Tables\<close>

lemma set_map_put: "set (map_put k v m) = insert (k, v) {e \<in> set m. fst e \<noteq> k}"
  by (auto simp: map_put_def set_insort)

end
