(* ===== verification/Answers.thy ===== *)
theory Answers
  imports Responses AuditLog
begin

text \<open>
  The answers the client receives, as \<^verbatim>\<open>postprocessResponse\<close> in
  \<^verbatim>\<open>internal/forward/proxy.go\<close> makes them from those of the daemon: the lists are filtered
  (theory Responses), the internal prefixes of names are taken out of inspections and error
  messages, messages about subnets are completed, and the counts of \<^verbatim>\<open>docker info\<close> are those of
  the user.

  Some steps work on the bytes of a body.  The bytes of a document are the compact text of Go's
  encoder, which is how the daemon writes them; its final newline is left out.  The headers of
  the answers are not modelled, nor is a daemon that breaks off in the middle of a body.
\<close>

section \<open>Bytes\<close>

definition bytes_str :: "nat list \<Rightarrow> string" where
  "bytes_str ns = map char_of ns"

definition body_bytes :: "body \<Rightarrow> string" where
  "body_bytes b = (case b of Raw s \<Rightarrow> s | Doc j \<Rightarrow> json_text j)"

text \<open>A replacement in the bytes of a body; when the pattern does not occur nothing changes.\<close>

definition replace_bytes_first :: "string \<Rightarrow> string \<Rightarrow> body \<Rightarrow> body" where
  "replace_bytes_first old new b =
     (if contains_str (body_bytes b) old then parse_json (replace_first (body_bytes b) old new) else b)"

function replace_all :: "string \<Rightarrow> string \<Rightarrow> string \<Rightarrow> string" where
  "replace_all [] old new = []"
| "replace_all (c # cs) old new =
     (if old \<noteq> [] \<and> has_prefix (c # cs) old then new @ replace_all (drop (length old) (c # cs)) old new
      else c # replace_all cs old new)"
  by pat_completeness auto

termination replace_all
  by (relation "measure (\<lambda>(s, _, _). length s)") auto

definition replace_bytes_all :: "string \<Rightarrow> string \<Rightarrow> body \<Rightarrow> body" where
  "replace_bytes_all old new b =
     (if contains_str (body_bytes b) old then parse_json (replace_all (body_bytes b) old new) else b)"

abbreviation dq :: string where
  "dq \<equiv> [CHR 0x22]"

section \<open>Texts\<close>

text \<open>The texts in Chinese that are added to messages, as bytes.\<close>

definition zh_change_range :: string where
  "zh_change_range = bytes_str
     [227, 128, 130, 232, 175, 183, 230, 155, 180, 230, 141, 162, 32, 73, 80, 32, 230, 174, 181, 239, 188,
      140, 232, 191, 153, 230, 152, 175, 231, 179, 187, 231, 187, 159, 233, 153, 144, 229, 136, 182]"

definition zh_used_subnets :: string where
  "zh_used_subnets = bytes_str
     [227, 128, 130, 229, 183, 178, 228, 189, 191, 231, 148, 168, 231, 154, 132, 229, 173, 144, 231, 189,
      145, 239, 188, 154]"

definition zh_exists_subnets :: string where
  "zh_exists_subnets = bytes_str
     [227, 128, 130, 232, 175, 165, 231, 189, 145, 231, 187, 156, 229, 183, 178, 229, 173, 152, 229, 156,
      168, 239, 188, 140, 229, 189, 147, 229, 137, 141, 229, 173, 144, 231, 189, 145, 239, 188, 154]"

definition zh_exists :: string where
  "zh_exists = bytes_str
     [227, 128, 130, 232, 175, 165, 231, 189, 145, 231, 187, 156, 229, 183, 178, 229, 173, 152, 229, 156,
      168]"

definition zh_remove_first :: string where
  "zh_remove_first = bytes_str
     [227, 128, 130, 229, 166, 130, 233, 156, 128, 230, 155, 180, 230, 148, 185, 229, 173, 144, 231, 189,
      145, 239, 188, 140, 232, 175, 183, 229, 133, 136, 230, 137, 167, 232, 161, 140, 32, 100, 111, 99,
      107, 101, 114, 32, 110, 101, 116, 119, 111, 114, 107, 32, 114, 109, 32]"

definition zh_configured :: string where
  "zh_configured = bytes_str
     [227, 128, 130, 232, 175, 165, 231, 189, 145, 231, 187, 156, 229, 183, 178, 233, 133, 141, 231, 189,
      174, 231, 154, 132, 229, 173, 144, 231, 189, 145, 228, 184, 186, 239, 188, 154]"

definition zh_use_range :: string where
  "zh_use_range = bytes_str
     [239, 188, 140, 232, 175, 183, 228, 189, 191, 231, 148, 168, 232, 175, 165, 232, 140, 131, 229, 155,
      180, 229, 134, 133, 231, 154, 132, 32, 73, 80, 32, 229, 156, 176, 229, 157, 128]"

definition zh_token_hint :: string where
  "zh_token_hint = bytes_str
     [229, 166, 130, 233, 156, 128, 229, 138, 160, 229, 133, 165, 233, 155, 134, 231, 190, 164, 239, 188,
      140, 232, 175, 183, 232, 129, 148, 231, 179, 187, 231, 174, 161, 231, 144, 134, 229, 145, 152]"

section \<open>Subnets\<close>

definition subnets_of :: "jmap \<Rightarrow> string list option" where
  "subnets_of es =
     (case sub_struct ''IPAM'' es of
        None \<Rightarrow> None
      | Some ipam \<Rightarrow> field_slice (dec_structs (field_str ''Subnet'')) ''Config'' ipam)"

definition listUsedSubnets :: "daemon \<Rightarrow> string list" where
  "listUsedSubnets d =
     (case daemon_get d ''/networks'' [] of
        Some (_, Doc j) \<Rightarrow>
          (case dec_structs subnets_of j of
             None \<Rightarrow> []
           | Some ss \<Rightarrow> rev (remdups (rev (filter (\<lambda>s. s \<noteq> []) (concat ss)))))
      | _ \<Rightarrow> [])"

definition listNetworkSubnets :: "daemon \<Rightarrow> string \<Rightarrow> string list" where
  "listNetworkSubnets d networkName =
     (if networkName = [] then []
      else case daemon_get d (''/networks/'' @ networkName) [] of
        None \<Rightarrow> []
      | Some (status, b) \<Rightarrow>
          (if status \<noteq> 200 then []
           else case Option.bind (body_struct b) subnets_of of
             None \<Rightarrow> []
           | Some ss \<Rightarrow> filter (\<lambda>s. s \<noteq> []) ss))"

section \<open>Messages\<close>

definition extractNetworkNameFromErrorMsg :: "string \<Rightarrow> string" where
  "extractNetworkNameFromErrorMsg msg =
     (let marker = ''invalid config for network '' in
      case str_index msg marker of
        None \<Rightarrow> []
      | Some i \<Rightarrow>
          (let rest = drop (i + length marker) msg
           in trim_space (if CHR '':'' \<in> set rest then before_char CHR '':'' rest else rest)))"

definition strip_message :: "daemon \<Rightarrow> CallerIdentity \<Rightarrow> string \<Rightarrow> string" where
  "strip_message d i orig =
     (let msg = replace_all (replace_all orig (UserResourcePrefix i) []) (UserContainerPrefix (RealUID i)) [];
          name = extractNetworkNameFromErrorMsg orig;
          subnets = listNetworkSubnets d name
      in if contains_str msg ''no configured subnet contains'' \<and> name \<noteq> [] \<and> subnets \<noteq> []
         then msg @ zh_configured @ join_str '', '' subnets @ zh_use_range else msg)"

definition stripInternalPrefixFromErrorMessage :: "daemon \<Rightarrow> body \<Rightarrow> CallerIdentity \<Rightarrow> body" where
  "stripInternalPrefixFromErrorMessage d b i =
     (case body_map b of
        Some (Some errResp) \<Rightarrow>
          (case map_of errResp ''message'' of
             None \<Rightarrow> b
           | Some raw \<Rightarrow>
               (case dec_str raw of
                  None \<Rightarrow> b
                | Some msg \<Rightarrow> Doc (JObj (map_put ''message'' (JStr (strip_message d i msg)) errResp))))
      | _ \<Rightarrow> b)"

definition replaceJSONFieldValue :: "body \<Rightarrow> string \<Rightarrow> string \<Rightarrow> string \<Rightarrow> body" where
  "replaceJSONFieldValue b key oldVal newVal =
     (let pre = dq @ key @ dq @ '':'' in
      if contains_str (body_bytes b) (pre @ oldVal) then replace_bytes_first (pre @ oldVal) (pre @ newVal) b
      else replace_bytes_first (pre @ '' '' @ oldVal) (pre @ '' '' @ newVal) b)"

definition stripNetworkNamePrefix :: "body \<Rightarrow> string \<Rightarrow> body" where
  "stripNetworkNamePrefix b pfx =
     (if b = Raw [] \<or> pfx = [] then b
      else case body_struct b of
        None \<Rightarrow> b
      | Some es \<Rightarrow>
          (case (field_str ''Name'' es, Option.bind (sub_struct ''ConfigFrom'' es) (field_str ''Network'')) of
             (Some name, Some net) \<Rightarrow>
               (if \<not> has_prefix name pfx then b
                else let b1 = replaceJSONFieldValue b ''Name'' (quote_str name) (quote_str (trim_prefix name pfx))
                     in if has_prefix net pfx
                        then replaceJSONFieldValue b1 ''Network'' (quote_str net) (quote_str (trim_prefix net pfx))
                        else b1)
           | _ \<Rightarrow> b))"

text \<open>
  The answer to the creation of a network that the daemon refused: the message is completed
  (\<^term>\<open>None\<close>: the answer is passed on as it is).
\<close>

definition network_create_message :: "daemon \<Rightarrow> CallerIdentity \<Rightarrow> string \<Rightarrow> string \<Rightarrow> string option" where
  "network_create_message d i prefixedName msg =
     (if contains_str msg ''Pool overlaps'' then
        (let used = listUsedSubnets d
         in Some (msg @ zh_change_range @ (if used = [] then [] else zh_used_subnets @ join_str '', '' used)))
      else if contains_str msg ''already exists'' then
        (let visible = (if \<not> IsPrivileged i \<and> prefixedName \<noteq> [] then trim_prefix prefixedName (UserResourcePrefix i)
                        else prefixedName);
             subnets = listNetworkSubnets d prefixedName
         in Some (msg @ (if subnets \<noteq> [] then zh_exists_subnets @ join_str '', '' subnets else zh_exists) @
              (if visible \<noteq> [] then zh_remove_first @ visible else [])))
      else None)"

definition answer_network_create :: "daemon \<Rightarrow> CallerIdentity \<Rightarrow> string \<Rightarrow> response \<Rightarrow> body" where
  "answer_network_create d i prefixedName rs =
     (if rsStatus rs = 201 then
        (if IsPrivileged i then rsBody rs else stripNetworkNamePrefix (rsBody rs) (UserResourcePrefix i))
      else if rsStatus rs \<ge> 400 then
        (case Option.bind (body_struct (rsBody rs)) (field_str ''message'') of
           None \<Rightarrow> rsBody rs
         | Some msg \<Rightarrow>
             (case network_create_message d i prefixedName msg of
                None \<Rightarrow> rsBody rs
              | Some msg' \<Rightarrow> Doc (JObj [(''message'', JStr msg')])))
      else rsBody rs)"

section \<open>Counts\<close>

record containerStateCounts =
  csTotal :: nat
  csRunning :: nat
  csPaused :: nat
  csStopped :: nat

definition state_fields :: "jmap \<Rightarrow> (string \<times> string) option" where
  "state_fields es =
     (case (field_str ''Id'' es, field_str ''State'' es) of (Some c, Some s) \<Rightarrow> Some (c, s) | _ \<Rightarrow> None)"

definition count_state :: "string \<Rightarrow> containerStateCounts \<Rightarrow> containerStateCounts" where
  "count_state st c =
     (let c1 = c\<lparr>csTotal := Suc (csTotal c)\<rparr>
      in if st = ''running'' then c1\<lparr>csRunning := Suc (csRunning c)\<rparr>
         else if st = ''paused'' then c1\<lparr>csPaused := Suc (csPaused c)\<rparr>
         else c1\<lparr>csStopped := Suc (csStopped c)\<rparr>)"

definition queryUserContainerStates :: "daemon \<Rightarrow> string list \<Rightarrow> containerStateCounts" where
  "queryUserContainerStates d containerIDs =
     (let unknown = \<lparr>csTotal = length containerIDs, csRunning = 0, csPaused = 0, csStopped = 0\<rparr> in
      if containerIDs = [] then unknown
      else case daemon_get d ''/containers/json'' ''all=1'' of
        Some (_, Doc j) \<Rightarrow>
          (case dec_structs state_fields j of
             None \<Rightarrow> unknown
           | Some cs \<Rightarrow>
               fold count_state
                 (map snd (filter (\<lambda>(c, _). c \<in> set containerIDs \<or> take 12 c \<in> set containerIDs) cs))
                 \<lparr>csTotal = 0, csRunning = 0, csPaused = 0, csStopped = 0\<rparr>)
      | _ \<Rightarrow> unknown)"

definition countUserVisibleImages :: "daemon \<Rightarrow> OwnershipDB \<Rightarrow> int \<Rightarrow> nat" where
  "countUserVisibleImages d db uid =
     (case daemon_get d ''/images/json'' [] of
        None \<Rightarrow> 0
      | Some (_, b) \<Rightarrow>
          (case FilterImageListResponse b uid False (db_reader db) of
             (_, Some _) \<Rightarrow> 0
           | (filtered, None) \<Rightarrow> CountJSONArray filtered))"

definition answer_info :: "daemon \<Rightarrow> CallerIdentity \<Rightarrow> response \<Rightarrow> OwnershipDB \<Rightarrow> (go_panic, body) result" where
  "answer_info d i rs db =
     (if IsPrivileged i \<or> rsStatus rs \<noteq> 200 then Inr (rsBody rs)
      else
        (let ids = (case GetContainerIDsByOwner db (RealUID i) of Inl _ \<Rightarrow> [] | Inr cs \<Rightarrow> cs);
             st = queryUserContainerStates d ids;
             num = (\<lambda>n. JNum (int n))
         in case body_map (rsBody rs) of
              None \<Rightarrow> Inr (rsBody rs)
            | Some None \<Rightarrow> Inl NilMapWrite
            | Some (Some info) \<Rightarrow>
                Inr (Doc (JObj
                  (map_put ''Images'' (num (countUserVisibleImages d db (RealUID i)))
                    (map_put ''ContainersStopped'' (num (csStopped st))
                      (map_put ''ContainersPaused'' (num (csPaused st))
                        (map_put ''ContainersRunning'' (num (csRunning st))
                          (map_put ''Containers'' (num (csTotal st)) info)))))))))"

section \<open>All answers\<close>

definition answer_inspect :: "CallerIdentity \<Rightarrow> response \<Rightarrow> body" where
  "answer_inspect i rs =
     (if rsStatus rs = 200 \<and> \<not> IsPrivileged i then
        StripContainerInspectNetworkPrefix
          (replace_bytes_first (dq @ ''Name'' @ dq @ '':'' @ dq @ ''/'' @ UserContainerPrefix (RealUID i))
             (dq @ ''Name'' @ dq @ '':'' @ dq @ ''/'') (rsBody rs))
          (UserResourcePrefix i) (UserContainerPrefix (RealUID i))
      else rsBody rs)"

text \<open>A line of the statistics of a container, and the answer with a single one.\<close>

definition strip_stats :: "CallerIdentity \<Rightarrow> body \<Rightarrow> body" where
  "strip_stats i =
     replace_bytes_first (dq @ ''name'' @ dq @ '':'' @ dq @ ''/'' @ UserContainerPrefix (RealUID i))
       (dq @ ''name'' @ dq @ '':'' @ dq @ ''/'')"

definition is_stats :: "CallerIdentity \<Rightarrow> request \<Rightarrow> bool" where
  "is_stats i r \<longleftrightarrow> \<not> IsPrivileged i \<and> has_suffix (rqPath r) ''/stats''"

text \<open>The answers to the operations on containers lose the internal names when they are errors.\<close>

definition answer_container :: "daemon \<Rightarrow> CallerIdentity \<Rightarrow> response \<Rightarrow> body" where
  "answer_container d i rs =
     (if rsStatus rs \<ge> 400 \<and> \<not> IsPrivileged i then stripInternalPrefixFromErrorMessage d (rsBody rs) i else rsBody rs)"

abbreviation answer_create :: "daemon \<Rightarrow> CallerIdentity \<Rightarrow> response \<Rightarrow> body" where
  "answer_create \<equiv> answer_container"

abbreviation answer_remove :: "daemon \<Rightarrow> CallerIdentity \<Rightarrow> response \<Rightarrow> body" where
  "answer_remove \<equiv> answer_container"

abbreviation answer_network_remove :: "daemon \<Rightarrow> CallerIdentity \<Rightarrow> response \<Rightarrow> body" where
  "answer_network_remove \<equiv> answer_container"

definition answer_swarm_inspect :: "CallerIdentity \<Rightarrow> response \<Rightarrow> (go_panic, body) result" where
  "answer_swarm_inspect i rs =
     (if rsStatus rs = 200 then FilterSwarmInspectResponse zh_token_hint (rsBody rs) (IsPrivileged i) else Inr (rsBody rs))"

definition answer_network_inspect :: "CallerIdentity \<Rightarrow> response \<Rightarrow> body" where
  "answer_network_inspect i rs =
     (if rsStatus rs = 200 \<and> \<not> IsPrivileged i then stripNetworkNamePrefix (rsBody rs) (UserResourcePrefix i) else rsBody rs)"

definition answer_volume_create :: "CallerIdentity \<Rightarrow> response \<Rightarrow> body" where
  "answer_volume_create i rs =
     (if rsStatus rs = 201 \<and> \<not> IsPrivileged i then StripVolumeNamePrefix (rsBody rs) (RealUID i) else rsBody rs)"

definition answer_volume_inspect :: "CallerIdentity \<Rightarrow> response \<Rightarrow> body" where
  "answer_volume_inspect i rs =
     (if IsPrivileged i then rsBody rs
      else if rsStatus rs = 200 then StripVolumeInspectPrefix (rsBody rs) (RealUID i)
      else replace_bytes_all (UserVolumePrefix (RealUID i)) [] (rsBody rs))"

definition answer_volume_remove :: "CallerIdentity \<Rightarrow> response \<Rightarrow> body" where
  "answer_volume_remove i rs =
     (if rsStatus rs \<ge> 400 \<and> \<not> IsPrivileged i then replace_bytes_all (UserVolumePrefix (RealUID i)) [] (rsBody rs) else rsBody rs)"

definition answer_other :: "CallerIdentity \<Rightarrow> request \<Rightarrow> response \<Rightarrow> body" where
  "answer_other i r rs = (if is_stats i r then strip_stats i (rsBody rs) else rsBody rs)"

definition answer_response ::
  "proxy \<Rightarrow> CallerIdentity \<Rightarrow> string \<Rightarrow> request \<Rightarrow> response \<Rightarrow> OwnershipDB \<Rightarrow> (go_panic, body) result" where
  "answer_response p i action r rs db =
     (let d = pxDaemon p in
      if action = ActionInspect then Inr (answer_inspect i rs)
      else if action = ActionCreateContainer then Inr (answer_create d i rs)
      else if action = ActionSwarmInspect then answer_swarm_inspect i rs
      else if action \<in> set [ActionStartContainer, ActionRestart, ActionStop, ActionKill, ActionPause, ActionUnpause]
      then Inr (answer_container d i rs)
      else if action = ActionRemoveContainer then Inr (answer_remove d i rs)
      else if action = ActionNetworkCreate then Inr (answer_network_create d i (rqRewritten r) rs)
      else if action = ActionNetworkInspect then Inr (answer_network_inspect i rs)
      else if action = ActionNetworkRemove then Inr (answer_network_remove d i rs)
      else if action = ActionVolumeCreate then Inr (answer_volume_create i rs)
      else if action = ActionVolumeInspect then Inr (answer_volume_inspect i rs)
      else if action = ActionVolumeRemove then Inr (answer_volume_remove i rs)
      else if action = ActionSystemInfo then answer_info d i rs db
      else if action \<in> set [ActionPS, ActionImages, ActionSystemDF, ActionNetworkList, ActionVolumeList,
                ActionServiceList, ActionSecretList, ActionConfigList] then Inr (filter_response p i action rs db)
      else Inr (answer_other i r rs))"

text \<open>The number of objects in a list before and after filtering, zero for other answers.\<close>

definition answer_counts :: "string \<Rightarrow> response \<Rightarrow> body \<Rightarrow> nat \<times> nat" where
  "answer_counts action rs filtered =
     (if action \<in> set [ActionPS, ActionImages, ActionNetworkList, ActionServiceList, ActionSecretList, ActionConfigList]
      then (CountJSONArray (rsBody rs), CountJSONArray filtered)
      else if action = ActionVolumeList then (CountVolumeList (rsBody rs), CountVolumeList filtered)
      else (0, 0))"

end
