(* ===== verification/Serve.thy ===== *)
theory Serve
  imports PreRequest Auxiliary BuildTrack Events Answers
begin

text \<open>
  Package \<^verbatim>\<open>internal/forward\<close>, file \<^verbatim>\<open>proxy.go\<close>: the handler of every
  request, \<^verbatim>\<open>ServeHTTP\<close>, from the limits on concurrent requests to the answer, and
  the requests that take over the connection (\<^verbatim>\<open>handleHijack\<close>).

  One request is handled as one step.  Its surroundings are parameters: how many requests are in
  flight, what the authenticators say, whether the daemon's socket can be dialled, and the
  outcome of each attempt to forward the request.
\<close>

section \<open>Admission and identity\<close>

text \<open>Slots for short requests and for streams; \<^term>\<open>None\<close> is no limit.\<close>

record slots =
  semaphore :: "nat option"
  semaphoreUsed :: nat
  streamSemaphore :: "nat option"
  streamUsed :: nat

definition slot_free :: "nat option \<Rightarrow> nat \<Rightarrow> bool" where
  "slot_free limit used = (case limit of None \<Rightarrow> True | Some n \<Rightarrow> used < n)"

definition admit :: "slots \<Rightarrow> request \<Rightarrow> reply option" where
  "admit s r =
     (if isHijackRequest r \<or> isLongLivedRequest r then
        (if slot_free (streamSemaphore s) (streamUsed s) then None
         else Some (ErrorMsg 503 ''too many concurrent streams, please retry later''))
      else if slot_free (semaphore s) (semaphoreUsed s) then None
      else Some (ErrorMsg 503 ''server busy, please retry later''))"

text \<open>
  The answers of the authenticators in their order: an error, no credentials, or an identity.
\<close>

type_synonym auth_answer = "CallerIdentity option option"

fun authenticate :: "auth_answer list \<Rightarrow> CallerIdentity option \<Rightarrow> CallerIdentity option" where
  "authenticate [] oi = oi"
| "authenticate (a # as) oi = (case a of Some (Some i) \<Rightarrow> Some i | _ \<Rightarrow> authenticate as oi)"

definition known :: "CallerIdentity option \<Rightarrow> bool" where
  "known oi = (case oi of None \<Rightarrow> False | Some i \<Rightarrow> RealUID i \<ge> 0)"

definition identify :: "proxy \<Rightarrow> auth_answer list \<Rightarrow> CallerIdentity option \<Rightarrow> (reply, CallerIdentity) result" where
  "identify p auths conn =
     (let oi = (if known conn then conn else authenticate auths conn) in
      case oi of
        None \<Rightarrow> Inl (ErrorMsg 401 ''authentication required'')
      | Some i \<Rightarrow>
          (if RealUID i < 0 then Inl (ErrorMsg 401 ''authentication required'')
           else if VerifyIdentityAtRequest (pxOS p) (Some i) \<noteq> None
           then Inl (ErrorMsg 403 ''identity verification failed'')
           else Inr (i \<lparr>ConfigPrivileged := IsConfigPrivileged (Some (pxPolicy p)) (Some i)\<rparr>)))"

definition command_denied :: "proxy \<Rightarrow> CallerIdentity \<Rightarrow> string \<Rightarrow> request \<Rightarrow> bool" where
  "command_denied p i action r \<longleftrightarrow>
     \<not> isAuxiliaryCall (DockerCommand i) action (rqMethod r) (rqPath r) \<and>
     IsDenied (pxOS p) (pxPolicy p) i action"

section \<open>Connections that are taken over\<close>

text \<open>What the client gets: a reply of the proxy, the answer of the daemon, or a raw connection to it.\<close>

datatype served = Replied reply | Relayed int body | Tunnelled request

definition is_grpc :: "request \<Rightarrow> bool" where
  "is_grpc r \<longleftrightarrow> rqMethod r = ''POST'' \<and> (rqPath r = ''/grpc'' \<or> has_suffix (rqPath r) ''/grpc'')"

text \<open>
  The checks may change the request, but the request that is sent is the one that came in; from
  then on bytes are copied in both directions until one side closes.  The connection can be
  taken over, as it always can for HTTP/1.1.
\<close>

definition handleHijack :: "proxy \<Rightarrow> bool \<Rightarrow> CallerIdentity \<Rightarrow> request \<Rightarrow> world \<Rightarrow> served \<times> world" where
  "handleHijack p dial i r w0 =
     (let w = (if is_grpc r then fold (start_tag i) (parseBuildxTags (CmdLine i)) w0 else w0);
          action = OverrideActionByCommand (DockerCommand i) (ClassifyAction (rqMethod r) (RequestURI r))
      in if command_denied p i action r then (Replied (not_permitted i action), w)
         else case checkOwnershipPreRequest p i action r w of
           (Inl reply, w1) \<Rightarrow> (Replied reply, w1)
         | (Inr _, w1) \<Rightarrow>
             (if \<not> dial then (Replied (ErrorMsg 502 ''upstream dial failed''), w1) else (Tunnelled r, w1)))"

text \<open>The list of images before a build, and what follows when its connection is closed.\<close>

definition hijack_snapshot :: "daemon \<Rightarrow> request \<Rightarrow> imageSnapshot option" where
  "hijack_snapshot d r = (if is_grpc r then snapshotImageState d else None)"

definition hijack_closed :: "daemon \<Rightarrow> CallerIdentity \<Rightarrow> imageSnapshot option \<Rightarrow> world \<Rightarrow> world" where
  "hijack_closed d i preSnapshot w =
     (case preSnapshot of
        None \<Rightarrow> w
      | Some pre \<Rightarrow>
          trackBuildKitImages d i pre (w \<lparr>wPendingBuilds := (wPendingBuilds w)(RealUID i := True)\<rparr>))"

definition serve_hijack :: "proxy \<Rightarrow> bool \<Rightarrow> CallerIdentity \<Rightarrow> request \<Rightarrow> world \<Rightarrow> served \<times> world" where
  "serve_hijack p dial i r w =
     (let action = ClassifyAction (rqMethod r) (RequestURI r) in
      if command_denied p i action r then (Replied (not_permitted i action), w)
      else handleHijack p dial i r w)"

section \<open>Prunes\<close>

definition serve_prune :: "proxy \<Rightarrow> CallerIdentity \<Rightarrow> request \<Rightarrow> world \<Rightarrow> reply option \<times> world" where
  "serve_prune p i r w =
     (let path = StripAPIVersion (rqPath r) in
      if has_prefix path ''/volumes/prune'' then (case handleVolumePrune p i r w of (_, a, w') \<Rightarrow> (Some a, w'))
      else if has_prefix path ''/containers/prune'' then snd (handleContainerPrune p i w)
      else if has_prefix path ''/images/prune'' then snd (handleImagePrune p i w)
      else if has_prefix path ''/networks/prune'' then snd (handleNetworkPrune p i w)
      else if has_prefix path ''/system/prune'' then snd (handleSystemPrune p i w)
      else (None, w))"

section \<open>Forwarding\<close>

definition commit_ref :: "request \<Rightarrow> string" where
  "commit_ref r =
     (let repo = query_param r ''repo''; tag = query_param r ''tag'' in
      if repo = [] then [] else repo @ '':'' @ (if tag = [] then ''latest'' else tag))"

text \<open>
  Entries that identify the owner of events which arrive before the answer; they are removed
  afterwards.  The key under which the events of a privileged creation or removal are noted:
\<close>

definition event_key :: "proxy \<Rightarrow> CallerIdentity \<Rightarrow> string \<Rightarrow> request \<Rightarrow> world \<Rightarrow> string option" where
  "event_key p i action r w =
     (if \<not> IsPrivileged i then None
      else if action = ActionVolumeCreate \<and> rqRewritten r \<noteq> [] then Some (''volume:'' @ rqRewritten r)
      else if action = ActionNetworkCreate \<and> rqRewritten r \<noteq> [] then Some (''network:'' @ rqRewritten r)
      else if action = ActionRemoveImage then
        (let rmiRef = ExtractImageID (rqPath r); resolved = resolveImageIDByRef (pxDaemon p) rmiRef in
         if rmiRef \<noteq> [] \<and> resolved \<noteq> [] \<and> GetImageOwner (wDB w) resolved = None
         then Some (''image:'' @ resolved) else None)
      else None)"

definition register_pending :: "proxy \<Rightarrow> CallerIdentity \<Rightarrow> string \<Rightarrow> request \<Rightarrow> world \<Rightarrow> world" where
  "register_pending p i action r w =
     (let e = owner_entry i; pullRef = parseImageRefFromURI (RequestURI r) in
      if action = ActionPull \<and> pullRef \<noteq> [] then w \<lparr>pendingPullRefs := (pendingPullRefs w)(pullRef \<mapsto> e)\<rparr>
      else if action = ActionCommit \<and> commit_ref r \<noteq> []
      then w \<lparr>pendingBuildTags := (pendingBuildTags w)(commit_ref r \<mapsto> e)\<rparr>
      else case event_key p i action r w of
        Some k \<Rightarrow> note_pruned k e w
      | None \<Rightarrow> w)"

definition release_pending ::
  "CallerIdentity \<Rightarrow> string \<Rightarrow> request \<Rightarrow> string option \<Rightarrow> world \<Rightarrow> world" where
  "release_pending i action r key w =
     (let e = owner_entry i; pullRef = parseImageRefFromURI (RequestURI r) in
      if action = ActionPull \<and> pullRef \<noteq> []
      then w \<lparr>pendingPullRefs := compare_and_delete pullRef e (pendingPullRefs w)\<rparr>
      else if action = ActionCommit \<and> commit_ref r \<noteq> []
      then note_build (commit_ref r) e (w \<lparr>pendingBuildTags := compare_and_delete (commit_ref r) e (pendingBuildTags w)\<rparr>)
      else case key of
        Some k \<Rightarrow> w \<lparr>completedPruneOwner := compare_and_delete k e (completedPruneOwner w)\<rparr>
      | None \<Rightarrow> w)"

definition serve_upstream ::
  "proxy \<Rightarrow> (nat \<Rightarrow> round_trip) \<Rightarrow> CallerIdentity \<Rightarrow> string \<Rightarrow> request \<Rightarrow> world \<Rightarrow> served \<times> world" where
  "serve_upstream p tr i action r w =
     (let key = event_key p i action r w; w1 = register_pending p i action r w in
      case forward tr r of
        ((Inl code, _), _) \<Rightarrow> (Replied (ErrorMsg code ''upstream error''), release_pending i action r key w1)
      | ((Inr rs, _), r') \<Rightarrow>
          (let w2 = record_response p i action (RequestURI r) r' rs w1
           in (case answer_response p i action r' rs (wDB w2) of
                 Inl e \<Rightarrow> Replied (Aborted e)
               | Inr b \<Rightarrow> Relayed (rsStatus rs) b,
               release_pending i action r key w2)))"

section \<open>The handler\<close>

definition serve_checked ::
  "proxy \<Rightarrow> (nat \<Rightarrow> round_trip) \<Rightarrow> CallerIdentity \<Rightarrow> string \<Rightarrow> request \<Rightarrow> world \<Rightarrow> served \<times> world" where
  "serve_checked p tr i action r w =
     (case (if action = ActionPrune then serve_prune p i r w else (None, w)) of
        (Some reply, w1) \<Rightarrow> (Replied reply, w1)
      | (None, w1) \<Rightarrow>
          (case preprocessRequest i action r of
             Inl reply \<Rightarrow> (Replied reply, w1)
           | Inr r' \<Rightarrow> serve_upstream p tr i action r' w1))"

definition serve_request ::
  "proxy \<Rightarrow> (nat \<Rightarrow> round_trip) \<Rightarrow> bool \<Rightarrow> CallerIdentity \<Rightarrow> request \<Rightarrow> world \<Rightarrow> served \<times> world" where
  "serve_request p tr dial i r0 w =
     (let r = (if IsPrivileged i then r0 else rewrite_url i r0) in
      if isHijackRequest r0 then serve_hijack p dial i r w
      else
        (let action = OverrideActionByCommand (DockerCommand i) (ClassifyAction (rqMethod r) (RequestURI r)) in
         if command_denied p i action r then (Replied (not_permitted i action), w)
         else case checkOwnershipPreRequest p i action r w of
           (Inl reply, w1) \<Rightarrow> (Replied reply, w1)
         | (Inr r1, w1) \<Rightarrow> serve_checked p tr i action r1 w1))"

definition ServeHTTP ::
  "proxy \<Rightarrow> slots \<Rightarrow> auth_answer list \<Rightarrow> (nat \<Rightarrow> round_trip) \<Rightarrow> bool \<Rightarrow> CallerIdentity option \<Rightarrow> request \<Rightarrow> world
    \<Rightarrow> served \<times> world" where
  "ServeHTTP p s auths tr dial conn r w =
     (case admit s r of
        Some reply \<Rightarrow> (Replied reply, w)
      | None \<Rightarrow>
          (case identify p auths conn of
             Inl reply \<Rightarrow> (Replied reply, w)
           | Inr i \<Rightarrow> serve_request p tr dial i r w))"

end
