(* ===== verification/Peers.thy ===== *)
theory Peers
  imports Prune Events
begin

text \<open>
  Package \<^verbatim>\<open>internal/forward\<close>, file \<^verbatim>\<open>proxy.go\<close>, and the client of the daemon in
  \<^verbatim>\<open>internal/isolation/netbridge.go\<close>: networks shared by two users, which an administrator
  opens and closes; the users the proxy serves with their bridges; and the listener that
  forgets containers when the daemon has destroyed them.

  The requests that change the networks of the daemon are part of the result, in the order in
  which they are sent.
\<close>

section \<open>The client of the daemon\<close>

type_synonym sent = "(string \<times> string \<times> body) list"

definition connect_request :: "string \<Rightarrow> string \<Rightarrow> string \<times> string \<times> body" where
  "connect_request networkID containerID =
     (''POST'', ''/networks/'' @ networkID @ ''/connect'', Doc (JObj [(''Container'', JStr containerID)]))"

definition disconnect_request :: "string \<Rightarrow> string \<Rightarrow> string \<times> string \<times> body" where
  "disconnect_request networkID containerID =
     (''POST'', ''/networks/'' @ networkID @ ''/disconnect'',
      Doc (JObj [(''Container'', JStr containerID), (''Force'', JBool False)]))"

definition delete_request :: "string \<Rightarrow> string \<times> string \<times> body" where
  "delete_request networkID = (''DELETE'', ''/networks/'' @ networkID, no_body)"

definition label_filter :: "string \<Rightarrow> string" where
  "label_filter flt =
     ''all=true&filters='' @
     query_escape (''{'' @ quote @ ''label'' @ quote @ '':['' @ quote @ flt @ quote @ '']}'')"

text \<open>The status of the answer is not looked at.\<close>

definition listContainersByLabel :: "daemon \<Rightarrow> string \<Rightarrow> string list option" where
  "listContainersByLabel d flt =
     (case daemon_get d ''/containers/json'' (label_filter flt) of
        Some (_, Doc j) \<Rightarrow> dec_structs (field_str ''Id'') j
      | _ \<Rightarrow> None)"

definition GetContainersByOwner :: "daemon \<Rightarrow> int \<Rightarrow> string list option" where
  "GetContainersByOwner d uid = listContainersByLabel d (LabelOwnerUID @ ''='' @ itoa uid)"

definition listNetworkContainers :: "daemon \<Rightarrow> string \<Rightarrow> string list" where
  "listNetworkContainers d networkID =
     (case daemon_get d (''/networks/'' @ networkID) [] of
        None \<Rightarrow> []
      | Some (status, b) \<Rightarrow>
          (if status \<noteq> 200 then []
           else case body_struct b of
             None \<Rightarrow> []
           | Some es \<Rightarrow>
               (case field_map ''Containers'' es of
                  None \<Rightarrow> []
                | Some cs \<Rightarrow>
                    (case all_some (map (\<lambda>(k, j). map_option (\<lambda>_. k) (obj_entries j)) cs) of
                       None \<Rightarrow> []
                     | Some ids \<Rightarrow> ids))))"

definition DeletePeerNetwork :: "daemon \<Rightarrow> string \<Rightarrow> sent" where
  "DeletePeerNetwork d networkID =
     map (disconnect_request networkID) (listNetworkContainers d networkID) @ [delete_request networkID]"

section \<open>Opening and closing\<close>

record PeerOptions =
  poContainerIDA :: string
  poContainerIDB :: string

datatype peer_error =
    NeedsBothContainers
  | CreatePeerFailed net_error
  | PeerRecordFailed db_error
  | ErrPeerNotFound

definition containers_or_none :: "daemon \<Rightarrow> int \<Rightarrow> string list" where
  "containers_or_none d uid = (case GetContainersByOwner d uid of None \<Rightarrow> [] | Some cs \<Rightarrow> cs)"

definition create_peer :: "daemon \<Rightarrow> int \<Rightarrow> int \<Rightarrow> PeerOptions \<Rightarrow> (net_error, string) result" where
  "create_peer d uidA uidB opts =
     (if poContainerIDA opts \<noteq> [] \<or> poContainerIDB opts \<noteq> []
      then CreateContainerPeerNetwork d uidA uidB (take 12 (poContainerIDA opts)) (take 12 (poContainerIDB opts))
      else CreatePeerNetwork d uidA uidB)"

definition peer_members :: "daemon \<Rightarrow> int \<Rightarrow> int \<Rightarrow> PeerOptions \<Rightarrow> string list" where
  "peer_members d uidA uidB opts =
     (if poContainerIDA opts \<noteq> [] \<or> poContainerIDB opts \<noteq> []
      then [poContainerIDA opts, poContainerIDB opts]
      else containers_or_none d uidA @ containers_or_none d uidB)"

definition peer_exists :: "OwnershipDB \<Rightarrow> int \<Rightarrow> int \<Rightarrow> PeerOptions \<Rightarrow> bool" where
  "peer_exists db uidA uidB opts =
     (if poContainerIDA opts \<noteq> [] \<or> poContainerIDB opts \<noteq> []
      then GetContainerPeer db uidA uidB (poContainerIDA opts) (poContainerIDB opts) \<noteq> None
      else GetNetworkPeer db uidA uidB \<noteq> None)"

definition AllowNetworkPeer ::
  "daemon \<Rightarrow> int \<Rightarrow> int \<Rightarrow> PeerOptions \<Rightarrow> OwnershipDB \<Rightarrow> peer_error option \<times> sent \<times> OwnershipDB" where
  "AllowNetworkPeer d uidA uidB opts db =
     (if (poContainerIDA opts = []) \<noteq> (poContainerIDB opts = []) then (Some NeedsBothContainers, [], db)
      else if peer_exists db uidA uidB opts then (None, [], db)
      else case create_peer d uidA uidB opts of
        Inl e \<Rightarrow> (Some (CreatePeerFailed e), [], db)
      | Inr peerNetworkID \<Rightarrow>
          (case AddNetworkPeer uidA uidB peerNetworkID (poContainerIDA opts) (poContainerIDB opts) db of
             (e, db') \<Rightarrow>
               (map_option PeerRecordFailed e,
                map (connect_request peerNetworkID) (peer_members d uidA uidB opts), db')))"

definition DenyNetworkPeer ::
  "daemon \<Rightarrow> int \<Rightarrow> int \<Rightarrow> PeerOptions \<Rightarrow> OwnershipDB \<Rightarrow> peer_error option \<times> sent \<times> OwnershipDB" where
  "DenyNetworkPeer d uidA uidB opts db =
     (case RemoveNetworkPeer uidA uidB (poContainerIDA opts) (poContainerIDB opts) db of
        ((_, Some e), db') \<Rightarrow> (Some (PeerRecordFailed e), [], db')
      | ((ids, None), db') \<Rightarrow>
          (if ids = [] then (Some ErrPeerNotFound, [], db')
           else (None, concat (map (DeletePeerNetwork d) ids), db')))"

text \<open>A new container joins the networks its user shares as a user.\<close>

definition connectContainerToPeerNetworks :: "string \<Rightarrow> int \<Rightarrow> OwnershipDB \<Rightarrow> sent" where
  "connectContainerToPeerNetworks containerID uid db =
     (case GetNetworkPeersByUID db uid of
        Inl _ \<Rightarrow> []
      | Inr peers \<Rightarrow> map (\<lambda>p. connect_request (PeerNetworkID p) containerID) (filter IsUserLevel peers))"

section \<open>Users and their bridges\<close>

record systemUser =
  suUsername :: string
  suUID :: int
  suGID :: int
  suHomeDir :: string

text \<open>A line of the password file: users that can log in, without those of the system.\<close>

definition system_user :: "string \<Rightarrow> systemUser option" where
  "system_user line =
     (let fs = split_char CHR '':'' line in
      if length fs < 4 then None
      else
        (let uid = scan_or_zero (fs ! 2); gid = scan_or_zero (fs ! 3);
             shell = (if length fs \<ge> 7 then trim_space (fs ! 6) else [])
         in if shell = [] \<or> has_suffix shell ''nologin'' \<or> has_suffix shell ''false'' then None
            else if uid \<noteq> 0 \<and> uid < 1000 then None
            else Some \<lparr>suUsername = fs ! 0, suUID = uid, suGID = gid,
                       suHomeDir = (if length fs \<ge> 6 then trim_space (fs ! 5) else [])\<rparr>))"

definition listSystemUsers :: "string option \<Rightarrow> systemUser list" where
  "listSystemUsers passwd =
     (case passwd of None \<Rightarrow> [] | Some data \<Rightarrow> List.map_filter system_user (split_char (CHR 0x0A) data))"

definition ensureUserBridge :: "daemon \<Rightarrow> systemUser \<Rightarrow> world \<Rightarrow> world" where
  "ensureUserBridge d u w =
     (case EnsureUserBridge d (suUID u) (suUsername u) (wBridge w) of
        (Inl _, st) \<Rightarrow> w \<lparr>wBridge := st\<rparr>
      | (Inr networkID, st) \<Rightarrow>
          write_db (SetManagedNetworkOwner networkID (UserBridgeName (suUID u)) (suUID u) (suUsername u))
            (w \<lparr>wBridge := st\<rparr>))"

section \<open>Destroyed containers\<close>

definition container_event :: "docker_event \<Rightarrow> world \<Rightarrow> world" where
  "container_event ev w =
     (if evType ev = ''container'' \<and> evAction ev = ''destroy'' \<and> evActorID ev \<noteq> []
      then write_db (DeleteContainer (evActorID ev)) (write_db (ReleasePortMappings (evActorID ev)) w)
      else w)"

section \<open>Shared networks open and close\<close>

lemma order_peer_flip: "fst (order_peer a b ca cb) = min a b" "fst (snd (order_peer a b ca cb)) = max a b"
  by (auto simp: order_peer_def)

lemma peers_of_pair_removed:
  assumes "\<not> dbFault db ''RemoveNetworkPeer'' 0" "\<not> dbFault db ''RemoveNetworkPeer'' 1"
  shows "tPeers (snd (RemoveNetworkPeer uidA uidB [] [] db)) =
      filter (\<lambda>p. \<not> (UidA p = min uidA uidB \<and> UidB p = max uidA uidB)) (tPeers db)"
  using assms
  by (auto simp: RemoveNetworkPeer_def stmt_defs Let_def order_peer_def peer_selected_def delete_where_def
      min_def max_def intro!: filter_cong)

end
