(* ===== verification/ProxyState.thy ===== *)
theory ProxyState
  imports Serve Peers
begin

text \<open>
  The proxy as a state machine.  Its steps are the requests it serves, the ends of BuildKit
  connections, the events of destroyed containers, the bridges made for new users and the
  networks an administrator opens and closes.  The theory shows that every property of the
  database that the methods of the database keep is kept by the whole proxy.
\<close>

section \<open>Handlers\<close>

lemma and_then_Inr:
  "and_then m f w = (Inr x, w') \<longleftrightarrow> (\<exists>y w1. m w = (Inr y, w1) \<and> f y w1 = (Inr x, w'))"
  by (auto simp: and_then_def split: prod.split sum.split)

lemma check_db_Inr: "check_db f w = (Inr u, w') \<longleftrightarrow> f (wDB w) = None \<and> w' = w"
  by (auto simp: check_db_def split: option.split)

lemma only_if_Inr: "only_if b m w = (Inr u, w') \<longleftrightarrow> (if b then m w = (Inr u, w') else w' = w)"
  by (auto simp: only_if_def pass_def)

lemma pass_Inr: "pass x w = (Inr y, w') \<longleftrightarrow> y = x \<and> w' = w"
  by (auto simp: pass_def)

lemma refuse_Inr: "refuse r w \<noteq> (Inr y, w')"
  by (auto simp: refuse_def)

lemmas handler_Inr = and_then_Inr check_db_Inr only_if_Inr pass_Inr refuse_Inr

section \<open>Properties that survive every write\<close>

text \<open>What a component that only uses the methods of the database can rely on.\<close>

locale db_closed =
  fixes I :: "OwnershipDB \<Rightarrow> bool"
  assumes step: "I db \<Longrightarrow> db_step db db' \<Longrightarrow> I db'"
begin

lemma step': "db_step db db' \<Longrightarrow> I db \<Longrightarrow> I db'"
  using step by blast

lemmas method_keeps = db_step.intros [THEN step']

lemma fold_keeps:
  assumes "\<And>x w. I (wDB w) \<Longrightarrow> I (wDB (f x w))" "I (wDB w)"
  shows "I (wDB (fold f xs w))"
  using assms(2) by (induction xs arbitrary: w) (auto intro: assms(1))

lemma write_keeps: "I (wDB w) \<Longrightarrow> (\<And>db. I db \<Longrightarrow> I (snd (f db))) \<Longrightarrow> I (wDB (write_db f w))"
  by (simp add: write_db_def)

lemma note_keeps [simp]:
  "wDB (note_pruned k e w) = wDB w" "wDB (note_build k e w) = wDB w" "wDB (start_tag i t w) = wDB w"
  "wDB (move_tag i t w) = wDB w"
  by (simp_all add: note_pruned_def note_build_def start_tag_def move_tag_def Let_def)

lemma await_keeps:
  assumes "\<forall>x \<in> set polls. I x" "I db" "await ok polls db = (db', rest)"
  shows "I db' \<and> (\<forall>x \<in> set rest. I x)"
  using assms by (induction ok polls db arbitrary: db' rest rule: await.induct) (auto split: if_splits)

lemma wait_keeps:
  assumes "\<forall>x \<in> set polls. I x" "I (wDB w)" "wait_for_build p i ok w polls = (w', rest)"
  shows "I (wDB w') \<and> (\<forall>x \<in> set rest. I x)"
proof (cases "\<not> ok (wDB w) \<and> \<not> IsPrivileged i \<and> wPendingBuilds w (RealUID i)")
  case True
  obtain db rest' where a: "await ok polls (wDB w) = (db, rest')" by fastforce
  have "w' = w \<lparr>wDB := db\<rparr>" "rest = rest'"
    using assms(3) True a by (simp_all add: wait_for_build_def)
  then show ?thesis using await_keeps [OF assms(1,2) a] by simp
next
  case False
  then have "wait_for_build p i ok w polls = (w, polls)" unfolding wait_for_build_def by (rule if_not_P)
  then show ?thesis using assms by simp
qed

lemma bridge_access_keeps: "I db \<Longrightarrow> I (snd (bridgeImageAccessByRefDigest i ref cfg db))"
proof -
  assume db: "I db"
  have "I (snd (SetImageOwner cfg i False ''pull'' db))" "I (snd (EnsureImageAccess cfg (RealUID i) db))"
    using db by (auto intro: method_keeps)
  then show ?thesis using db
    by (auto simp: bridgeImageAccessByRefDigest_def Let_def split: option.splits prod.splits)
qed

lemma create_image_keeps: "I db \<Longrightarrow> I (snd (create_image_db d i ref db))"
proof -
  assume db: "I db"
  let ?b = "bridgeImageAccessByRefDigest i ref (resolveImageIDByRef d ref) db"
  have "I (snd ?b)" "I (snd (EnsureImageAccess (resolveImageIDByRef d ref) (RealUID i) db))"
    using db bridge_access_keeps method_keeps by auto
  then show ?thesis using db
    by (auto simp: create_image_db_def Let_def split: option.splits prod.splits bool.splits)
qed

lemma check_create_image_keeps: "I (wDB w) \<Longrightarrow> I (wDB (snd (check_create_image p i r w)))"
  using create_image_keeps [of "wDB w" "pxDaemon p" i "extractImageRefFromBody r"]
  by (auto simp: check_create_image_def Let_def split: option.splits prod.splits)

lemma create_network_keeps: "I (wDB w) \<Longrightarrow> I (wDB (snd (create_network p i r b w)))"
  by (auto simp: create_network_def Let_def split: prod.splits sum.splits intro: method_keeps)

lemma and_then_keeps:
  assumes "I (wDB (snd (m w)))" "\<And>x w1. m w = (Inr x, w1) \<Longrightarrow> I (wDB w1) \<Longrightarrow> I (wDB (snd (f x w1)))"
  shows "I (wDB (snd (and_then m f w)))"
  using assms by (auto simp: and_then_def split: prod.split sum.split)

lemma check_db_keeps: "I (wDB w) \<Longrightarrow> I (wDB (snd (check_db f w)))"
  by (auto simp: check_db_def split: option.split)

lemma only_if_keeps: "I (wDB w) \<Longrightarrow> I (wDB (snd (m w))) \<Longrightarrow> I (wDB (snd (only_if b m w)))"
  by (auto simp: only_if_def pass_def)

lemma pass_keeps: "I (wDB w) \<Longrightarrow> I (wDB (snd (pass x w)))" "I (wDB w) \<Longrightarrow> I (wDB (snd (refuse rp w)))"
  by (auto simp: pass_def refuse_def)

lemmas handler_keeps = and_then_keeps check_db_keeps only_if_keeps pass_keeps

lemma create_isolation_keeps: "I (wDB w) \<Longrightarrow> I (wDB (snd (create_isolation p i r w)))"
  by (auto simp: create_isolation_def split: sum.split option.split intro: create_network_keeps)

lemma create_quota_keeps: "I (wDB w) \<Longrightarrow> I (wDB (snd (create_quota p i r w)))"
  by (auto simp: create_quota_def split: sum.split option.split quota_error.split)

lemma create_container_keeps: "I (wDB w) \<Longrightarrow> I (wDB (snd (create_container p i r w)))"
  unfolding create_container_def
  by (intro handler_keeps check_create_image_keeps create_quota_keeps create_isolation_keeps)

lemma remove_physically_same: "snd (remove_physically i r rid owner pub w) = w"
  by (auto simp: remove_physically_def Let_def split: sum.split bool.split)

lemma remove_permission_keeps:
  assumes "\<forall>x \<in> set (pxPolls p). I x" "I (wDB w)"
  shows "I (wDB (snd (checkImageRemovePermission p i r w)))"
proof -
  let ?rid = "resolveImageIDByRef (pxDaemon p) (ExtractImageID (rqPath r))"
  obtain w1 polls where w1: "wait_for_build p i (\<lambda>db. GetImageOwner db ?rid \<noteq> None) w (pxPolls p) = (w1, polls)"
    by fastforce
  obtain w2 polls' where w2: "wait_for_build p i (has_user_access ?rid (RealUID i)) w1 polls = (w2, polls')"
    by fastforce
  have i1: "I (wDB w1)" "\<forall>x \<in> set polls. I x" using wait_keeps [OF assms w1] by auto
  have i2: "I (wDB w2)" using wait_keeps [OF i1(2,1) w2] by auto
  have "I (snd (RemoveUserImageAccess ?rid (RealUID i) (wDB w2)))" using i2 by (rule method_keeps)
  then show ?thesis
    using assms(2) i1 i2
    by (simp add: checkImageRemovePermission_def Let_def w1 w2 remove_physically_same del: not_None_eq
        split: option.split prod.split)
qed

lemma pull_permission_keeps: "I (wDB w) \<Longrightarrow> I (wDB (snd (checkImagePullPermission p i r w)))"
proof -
  assume "I (wDB w)"
  moreover from this have "I (wDB (snd (virtual_pull i rid w)))" for rid
    using method_keeps(6) [of "wDB w" rid "RealUID i"]
    by (auto simp: virtual_pull_def split: prod.split option.split)
  ultimately show ?thesis by (simp add: checkImagePullPermission_def Let_def split: option.split prod.split)
qed

lemma image_action_keeps:
  "\<forall>x \<in> set (pxPolls p). I x \<Longrightarrow> I (wDB w) \<Longrightarrow> I (wDB (snd (check_image_action p i r action w)))"
  by (simp add: check_image_action_def remove_permission_keeps pull_permission_keeps check_db_keeps pass_keeps)

lemma check_update_same: "snd (check_update p i r action w) = w"
  by (simp add: check_update_def split: option.split)

lemma network_action_same: "snd (check_network_action i r action w) = w"
  by (simp add: check_network_action_def split: sum.split)

lemma check_objects_keeps: "I (wDB w) \<Longrightarrow> I (wDB (snd (check_objects i r action w)))"
  unfolding check_objects_def by (intro handler_keeps)

lemma pre_request_keeps:
  assumes "\<forall>x \<in> set (pxPolls p). I x" "I (wDB w)"
  shows "I (wDB (snd (checkOwnershipPreRequest p i action r w)))"
proof -
  have c: "I (wDB w) \<Longrightarrow> I (wDB (snd ((if action = ActionCreateContainer then create_container p i r else pass r) w)))"
    for w by (simp add: create_container_keeps pass_keeps)
  have u: "I (wDB w) \<Longrightarrow> I (wDB (snd (check_update p i r' action w)))" for w r'
    by (simp add: check_update_same)
  have n: "I (wDB w) \<Longrightarrow> I (wDB (snd (check_network_action i r' action w)))" for w r'
    by (simp add: network_action_same)
  show ?thesis unfolding checkOwnershipPreRequest_def
    using assms by (intro handler_keeps c u n check_objects_keeps image_action_keeps) auto
qed

lemma forget_container_keeps: "I (wDB w) \<Longrightarrow> I (wDB (forget_container cid w))"
  unfolding forget_container_def by (intro write_keeps method_keeps)

lemma prune_volumes_keeps: "I (wDB w) \<Longrightarrow> I (wDB (snd (snd (prune_volumes d i fs vs w))))"
  by (induction d i fs vs w rule: prune_volumes.induct)
    (auto simp: Let_def write_db_def method_keeps split: prod.splits)

lemma prune_own_volumes_keeps: "I (wDB w) \<Longrightarrow> I (wDB (snd (snd (prune_own_volumes d i vs w))))"
  by (induction d i vs w rule: prune_own_volumes.induct)
    (auto simp: Let_def write_db_def method_keeps split: prod.splits)

lemma prune_containers_keeps: "I (wDB w) \<Longrightarrow> I (wDB (snd (snd (prune_containers d i b cs w))))"
  by (induction d i b cs w rule: prune_containers.induct)
    (auto simp: Let_def forget_container_keeps split: prod.splits if_splits)

lemma prune_networks_keeps: "I (wDB w) \<Longrightarrow> I (wDB (snd (snd (prune_networks d ns w))))"
  by (induction d ns w rule: prune_networks.induct)
    (auto simp: write_db_def method_keeps split: prod.splits)

lemma prune_images_keeps: "I (wDB w) \<Longrightarrow> I (wDB (snd (snd (prune_images d i b imgs w))))"
proof (induction d i b imgs w rule: prune_images.induct)
  case (2 d i b img imgs w)
  let ?e = "\<lparr>ownerUID = RealUID i, poPrivCtx = image_priv_ctx (wDB w) img\<rparr>"
  have "I (wDB (write_db (DeleteImage img) (note_pruned (''image:'' @ img) ?e w)))"
    using 2(5) by (intro write_keeps method_keeps) simp
  then show ?case using 2 by (auto simp: Let_def split: prod.splits option.splits)
qed simp

lemma volume_prune_keeps: "I (wDB w) \<Longrightarrow> I (wDB (snd (snd (handleVolumePrune p i r w))))"
  using prune_volumes_keeps [of w "pxDaemon p" i]
  by (auto simp: handleVolumePrune_def split: option.split sum.split prod.split)
    (metis snd_conv)+

lemma container_prune_keeps: "I (wDB w) \<Longrightarrow> I (wDB (snd (snd (handleContainerPrune p i w))))"
  using prune_containers_keeps [of w "pxDaemon p" i True]
  by (auto simp: handleContainerPrune_def split: sum.split prod.split) (metis snd_conv)+

lemma image_prune_keeps: "I (wDB w) \<Longrightarrow> I (wDB (snd (snd (handleImagePrune p i w))))"
  using prune_images_keeps [of w "pxDaemon p" i True]
  by (auto simp: handleImagePrune_def split: option.split prod.split) (metis snd_conv)+

lemma network_prune_keeps: "I (wDB w) \<Longrightarrow> I (wDB (snd (snd (handleNetworkPrune p i w))))"
  using prune_networks_keeps [of w "pxDaemon p"]
  by (auto simp: handleNetworkPrune_def split: sum.split prod.split) (metis snd_conv)+

lemma system_prune_keeps:
  assumes "I (wDB w)"
  shows "I (wDB (snd (snd (handleSystemPrune p i w))))"
proof -
  let ?d = "pxDaemon p"
  have c: "I (wDB (snd (snd (case q of Inl _ \<Rightarrow> ([], [], w) | Inr ids \<Rightarrow> prune_containers ?d i b ids w))))"
    if "I (wDB w)" for q b w using that by (simp add: prune_containers_keeps split: sum.split)
  have im: "I (wDB (snd (snd (case q of None \<Rightarrow> ([], [], w) | Some imgs \<Rightarrow> prune_images ?d i b imgs w))))"
    if "I (wDB w)" for q b w using that by (simp add: prune_images_keeps split: option.split)
  have n: "I (wDB (snd (snd (case q of Inl _ \<Rightarrow> ([], [], w) | Inr ids \<Rightarrow> prune_networks ?d ids w))))"
    if "I (wDB w)" for q w using that by (simp add: prune_networks_keeps split: sum.split)
  have v: "I (wDB (snd (snd (case q of Inl _ \<Rightarrow> ([], [], w) | Inr vs \<Rightarrow> prune_own_volumes ?d i vs w))))"
    if "I (wDB w)" for q w using that by (simp add: prune_own_volumes_keeps split: sum.split)
  show ?thesis using assms
    by (simp add: handleSystemPrune_def Let_def case_prod_beta c im n v)
qed

lemma serve_prune_keeps: "I (wDB w) \<Longrightarrow> I (wDB (snd (serve_prune p i r w)))"
  by (simp add: serve_prune_def Let_def case_prod_beta volume_prune_keeps container_prune_keeps
      image_prune_keeps network_prune_keeps system_prune_keeps)

lemma own_image_keeps: "I (wDB w) \<Longrightarrow> I (wDB (snd (own_image iid i src w)))"
  using method_keeps(3) [of "wDB w" iid i False src] by (auto simp: own_image_def split: prod.split)

lemma own_and_access_keeps: "I (wDB w) \<Longrightarrow> I (wDB (own_and_access iid i src w))"
  by (simp add: own_and_access_def write_db_def method_keeps own_image_keeps)

lemma load_image_keeps: "I (wDB w) \<Longrightarrow> I (wDB (load_image i iid w))"
  using own_image_keeps [of w iid i "''load''"]
  by (auto simp: load_image_def write_db_def method_keeps split: prod.split bool.split)

lemma load_tag_keeps: "I (wDB w) \<Longrightarrow> I (wDB (load_tag i t w))"
  by (simp add: load_tag_def Let_def)

lemma post_load_keeps: "I (wDB w) \<Longrightarrow> I (wDB (post_load i rs w))"
  by (simp add: post_load_def case_prod_beta fold_keeps load_image_keeps load_tag_keeps)

lemma post_commit_keeps: "I (wDB w) \<Longrightarrow> I (wDB (post_commit i rs w))"
  using own_image_keeps [of w "trim_prefix (body_field ''Id'' (rsBody rs)) ''sha256:''" i "''commit''"]
  by (auto simp: post_commit_def Let_def write_db_def method_keeps split: prod.split bool.split)

lemma post_build_keeps: "I (wDB w) \<Longrightarrow> I (wDB (post_build p i uri rs w))"
  by (simp add: post_build_def Let_def fold_keeps own_and_access_keeps)

lemma forget_images_keeps: "I (wDB w) \<Longrightarrow> I (wDB (forget_images its w))"
  unfolding forget_images_def by (rule fold_keeps) (auto simp: write_db_def method_keeps)

lemma post_system_prune_keeps: "I (wDB w) \<Longrightarrow> I (wDB (post_system_prune b w))"
proof -
  have n: "I (wDB w) \<Longrightarrow> I (wDB (forget_network k w))" for k w
    by (simp add: forget_network_def write_db_def method_keeps split: option.split)
  have v: "I (wDB w) \<Longrightarrow> I (wDB (write_db (DeleteVolume k) w))" for k w
    by (simp add: write_db_def method_keeps)
  assume "I (wDB w)"
  then show ?thesis
    by (simp add: post_system_prune_def fold_keeps n v forget_images_keeps forget_container_keeps
        split: prod.split option.split)
qed

lemma post_prune_keeps: "I (wDB w) \<Longrightarrow> I (wDB (post_prune uri rs w))"
proof -
  have v: "I (wDB w) \<Longrightarrow> I (wDB (write_db (DeleteVolume k) w))" for k w
    by (simp add: write_db_def method_keeps)
  assume "I (wDB w)"
  then show ?thesis
    by (simp add: post_prune_def fold_keeps v forget_images_keeps forget_container_keeps
        post_system_prune_keeps split: option.split)
qed

lemma rmi_group_keeps: "I (wDB w) \<Longrightarrow> I (wDB (rmi_group i g w))"
proof -
  have f: "wDB (fold (\<lambda>tag. if tag = [] then (\<lambda>x. x) else note_pruned (''image:'' @ tag) e) ts w) = wDB w" for e ts w
    by (induction ts arbitrary: w) simp_all
  assume "I (wDB w)"
  then show ?thesis
    by (simp add: rmi_group_def Let_def write_db_def f method_keeps split: option.split)
qed

lemma post_simple_keeps:
  assumes "I (wDB w)"
  shows "I (wDB (post_create p i r rs w))" "I (wDB (post_remove_container uri rs w))"
    "I (wDB (post_import i rs w))" "I (wDB (post_pull p i uri rs w))" "I (wDB (post_tag p i uri rs w))"
    "I (wDB (post_remove_image i rs w))" "I (wDB (post_network_create i r rs w))"
    "I (wDB (post_network_remove i uri rs w))" "I (wDB (post_volume_create i rs w))"
    "I (wDB (post_volume_remove uri rs w))"
  using assms
  by (simp_all add: post_create_def post_remove_container_def post_import_def post_pull_def post_tag_def
      post_remove_image_def post_network_create_def post_network_remove_def post_volume_create_def
      post_volume_remove_def Let_def write_db_def method_keeps forget_container_keeps own_and_access_keeps
      fold_keeps rmi_group_keeps split: option.split)

lemma post_swarm_keeps:
  assumes "I (wDB w)"
  shows "(\<And>sid n j db. I db \<Longrightarrow> I (snd (st sid n j db))) \<Longrightarrow> I (wDB (post_swarm_create st i rs w))"
    "(\<And>sid db. I db \<Longrightarrow> I (snd (del sid db))) \<Longrightarrow> I (wDB (post_swarm_remove del oid rs w))"
  using assms by (simp_all add: post_swarm_create_def post_swarm_remove_def Let_def write_db_def)

lemma record_response_keeps: "I (wDB w) \<Longrightarrow> I (wDB (record_response p i action uri r rs w))"
  by (simp add: record_response_def post_simple_keeps post_swarm_keeps method_keeps post_load_keeps
      post_commit_keeps post_build_keeps post_prune_keeps)

lemma pending_keeps [simp]:
  "wDB (register_pending p i action r w) = wDB w" "wDB (release_pending i action r k w) = wDB w"
  by (simp_all add: register_pending_def release_pending_def Let_def split: option.split)

lemma serve_upstream_keeps: "I (wDB w) \<Longrightarrow> I (wDB (snd (serve_upstream p tr i action r w)))"
  by (simp add: serve_upstream_def Let_def record_response_keeps split: prod.split sum.split)

lemma serve_checked_keeps:
  assumes "I (wDB w)"
  shows "I (wDB (snd (serve_checked p tr i action r w)))"
proof -
  obtain a w1 where a: "(if action = ActionPrune then serve_prune p i r w else (None, w)) = (a, w1)" by fastforce
  then have "I (wDB w1)" using assms serve_prune_keeps [of w p i r] by (auto split: if_splits)
  then show ?thesis
    unfolding serve_checked_def a
    by (simp add: serve_upstream_keeps split: option.split sum.split)
qed

lemma hijack_keeps:
  assumes "\<forall>x \<in> set (pxPolls p). I x" "I (wDB w)"
  shows "I (wDB (snd (handleHijack p dial i r w)))"
proof -
  let ?a = "OverrideActionByCommand (DockerCommand i) (ClassifyAction (rqMethod r) (RequestURI r))"
  let ?w = "if is_grpc r then fold (start_tag i) (parseBuildxTags (CmdLine i)) w else w"
  have "I (wDB ?w)" using assms(2) by (simp add: fold_keeps)
  then have "I (wDB (snd (checkOwnershipPreRequest p i ?a r ?w)))" "I (wDB ?w)"
    using pre_request_keeps [OF assms(1)] by auto
  then show ?thesis unfolding handleHijack_def Let_def by (auto split: prod.splits sum.splits)
qed

lemma serve_request_keeps:
  assumes "\<forall>x \<in> set (pxPolls p). I x" "I (wDB w)"
  shows "I (wDB (snd (serve_request p tr dial i r w)))"
proof -
  have h: "I (wDB (snd (serve_hijack p dial i r' w)))" for r'
    using hijack_keeps [OF assms] assms(2) by (simp add: serve_hijack_def Let_def)
  have "I (wDB w1)" if "checkOwnershipPreRequest p i a r' w = (x, w1)" for a r' x w1
    using pre_request_keeps [OF assms, of i a r'] that by simp
  then show ?thesis using h assms(2)
    by (simp add: serve_request_def Let_def serve_checked_keeps split: prod.split sum.split)
qed

lemma ServeHTTP_keeps:
  assumes "\<forall>x \<in> set (pxPolls p). I x" "I (wDB w)"
  shows "I (wDB (snd (ServeHTTP p s auths tr dial conn r w)))"
  using assms by (simp add: ServeHTTP_def serve_request_keeps split: option.split sum.split)

lemma track_tag_keeps: "I (wDB (fst st)) \<Longrightarrow> I (wDB (fst (track_tag i ts pre e st)))"
  by (auto simp: track_tag_def write_db_def method_keeps split: prod.split option.split)

lemma writeOne_keeps: "I (wDB w) \<Longrightarrow> I (wDB (writeOne i iid w))"
  using own_image_keeps [of w iid i "''build''"]
  by (auto simp: writeOne_def write_db_def method_keeps split: option.split prod.split bool.split)

lemma track_keeps: "I (wDB w) \<Longrightarrow> I (wDB (trackBuildKitImages d i pre w))"
proof -
  assume w: "I (wDB w)"
  have t: "I (wDB (fst st)) \<Longrightarrow> I (wDB (fst (fold (track_tag i ts pre) es st)))" for ts es st
    by (induction es arbitrary: st) (simp_all add: track_tag_keeps)
  have "I (wDB w1)" if "fold (track_tag i ts pre) es (w, [], []) = (w1, x)" for ts es w1 x
    using t [of "(w, [], [])" ts es] w that by simp
  then show ?thesis using w
    by (auto simp: trackBuildKitImages_def Let_def split: option.split prod.split
        intro!: fold_keeps writeOne_keeps)
qed

lemma hijack_closed_keeps: "I (wDB w) \<Longrightarrow> I (wDB (hijack_closed d i pre w))"
  by (simp add: hijack_closed_def track_keeps split: option.split)

lemma container_event_keeps: "I (wDB w) \<Longrightarrow> I (wDB (container_event ev w))"
  by (simp add: container_event_def write_db_def method_keeps)

lemma ensureUserBridge_keeps: "I (wDB w) \<Longrightarrow> I (wDB (ensureUserBridge d u w))"
  by (simp add: ensureUserBridge_def write_db_def method_keeps split: prod.split sum.split)

lemma allow_peer_keeps: "I db \<Longrightarrow> I (snd (snd (AllowNetworkPeer d a b opts db)))"
proof -
  assume db: "I db"
  have "I (snd (AddNetworkPeer a b n (poContainerIDA opts) (poContainerIDB opts) db))" for n
    using db by (rule method_keeps)
  then show ?thesis using db
    by (simp add: AllowNetworkPeer_def case_prod_beta split: sum.split)
qed

lemma deny_peer_keeps: "I db \<Longrightarrow> I (snd (snd (DenyNetworkPeer d a b opts db)))"
proof -
  assume "I db"
  then have "I (snd (RemoveNetworkPeer a b (poContainerIDA opts) (poContainerIDB opts) db))" by (rule method_keeps)
  then show ?thesis by (auto simp: DenyNetworkPeer_def split: prod.splits option.splits)
qed

end

interpretation reachable_db: db_closed db_reachable
  by unfold_locales (rule reachable_step)

interpretation keyed_db: db_closed keys_inv
  by unfold_locales (rule keys_step)

section \<open>The state machine\<close>

text \<open>
  Entries of the maps for events expire on their own, and the set of failing SQL statements may
  change at any time.  The databases a handler reads while it polls are databases other requests
  have produced.
\<close>

inductive proxy_step :: "world \<Rightarrow> world \<Rightarrow> bool" where
  served: "(\<And>db. db \<in> set (pxPolls p) \<Longrightarrow> db_reachable db) \<Longrightarrow>
     proxy_step w (snd (ServeHTTP p s auths tr dial conn r w))"
| tunnel_closed: "proxy_step w (hijack_closed d i pre w)"
| destroyed: "proxy_step w (container_event ev w)"
| new_user: "proxy_step w (ensureUserBridge d u w)"
| peer_opened: "proxy_step w (w \<lparr>wDB := snd (snd (AllowNetworkPeer d a b opts (wDB w)))\<rparr>)"
| peer_closed: "proxy_step w (w \<lparr>wDB := snd (snd (DenyNetworkPeer d a b opts (wDB w)))\<rparr>)"
| expired: "wDB w' = wDB w \<Longrightarrow> wBridge w' = wBridge w \<Longrightarrow> proxy_step w w'"
| faults: "proxy_step w (w \<lparr>wDB := (wDB w) \<lparr>dbFault := f\<rparr>\<rparr>)"

definition proxy_reachable :: "world \<Rightarrow> bool" where
  "proxy_reachable w \<longleftrightarrow> (\<exists>w0. (\<exists>f. wDB w0 = emptyDB f) \<and> proxy_step\<^sup>*\<^sup>* w0 w)"

lemma proxy_step_db: "proxy_step w w' \<Longrightarrow> db_reachable (wDB w) \<Longrightarrow> db_reachable (wDB w')"
proof (induction rule: proxy_step.induct)
  case (served p w s auths tr dial conn r)
  then show ?case by (blast intro: reachable_db.ServeHTTP_keeps)
next
  case (faults w f)
  then show ?case by (simp add: reachable_step db_step.intros)
qed (simp_all add: reachable_db.hijack_closed_keeps reachable_db.container_event_keeps
    reachable_db.ensureUserBridge_keeps reachable_db.allow_peer_keeps reachable_db.deny_peer_keeps)

lemma proxy_reachable_db: "proxy_reachable w \<Longrightarrow> db_reachable (wDB w)"
proof -
  assume "proxy_reachable w"
  then obtain w0 f where start: "wDB w0 = emptyDB f" and steps: "proxy_step\<^sup>*\<^sup>* w0 w"
    by (auto simp: proxy_reachable_def)
  from steps show ?thesis
    by (induction rule: rtranclp_induct) (auto simp: start reachable_empty intro: proxy_step_db)
qed

text \<open>The owner of an image is read from one table.\<close>

lemma GetImageOwner_images:
  assumes "no_faults db" "no_faults db'" "tImages db' = tImages db"
  shows "GetImageOwner db' iid = GetImageOwner db iid"
proof -
  have q: "\<And>m n v. query_row m n db' v = query_row m n db v"
    using assms(1,2) by (simp add: query_row_def no_faults_def)
  show ?thesis unfolding GetImageOwner_def resolveImageIDInDB_def q assms(3) ..
qed

section \<open>Examples\<close>

definition demo_caller :: "int \<Rightarrow> string \<Rightarrow> CallerIdentity" where
  "demo_caller uid name =
     \<lparr>RealUsername = name, RealUID = uid, RealGID = uid, EffectiveUsername = name, EffectiveUID = uid,
      EffectiveGID = uid, LoginUID = uid, LoginUsername = name, PID = 0, ProcessName = [], CmdLine = [],
      DockerCommand = [], SwitchedIdentity = False, idUserType = UserTypeRegular, idAuthSource = AuthSourceJWT,
      ClientAddr = [], ConfigPrivileged = False\<rparr>"

definition demo_os :: os_env where
  "demo_os = \<lparr>passwd_file = None, group_file = None, proc_status = (\<lambda>_. None), proc_loginuid = (\<lambda>_. None),
              proc_environ = (\<lambda>_. None), proc_comm = (\<lambda>_. None), proc_cmdline = (\<lambda>_. None)\<rparr>"

definition demo_proxy :: "daemon \<Rightarrow> proxy" where
  "demo_proxy d =
     \<lparr>pxPolicy = DefaultAllowPolicy, pxQuota = None, pxStorageBase = ''/srv'', pxAllowHomeBind = False,
      pxOS = demo_os, pxCPUs = 8, pxDaemon = d, pxPolls = []\<rparr>"

definition demo_world :: "OwnershipDB \<Rightarrow> world" where
  "demo_world db =
     \<lparr>wDB = db, wBridge = \<lparr>bsFirewall = \<lparr>fwChains = Map.empty, fwFault = (\<lambda>_. False)\<rparr>, bsMigrated = []\<rparr>,
      wPendingBuilds = (\<lambda>_. False), pendingBuildTags = Map.empty, pendingPullRefs = Map.empty,
      completedPullOwner = Map.empty, completedBuildOwner = Map.empty, completedPruneOwner = Map.empty\<rparr>"

definition demo_slots :: slots where
  "demo_slots = \<lparr>semaphore = None, semaphoreUsed = 0, streamSemaphore = None, streamUsed = 0\<rparr>"

definition demo_request :: "string \<Rightarrow> string \<Rightarrow> body \<Rightarrow> request" where
  "demo_request meth path b =
     \<lparr>rqMethod = meth, rqPath = path, rqRawQuery = [], rqBody = b, rqHasBody = (b \<noteq> no_body), rqUpgrade = [],
      rqConnection = [], rqPorts = [], rqRewritten = []\<rparr>"

lemma demo_caller_simps [simp]:
  "RealUID (demo_caller uid name) = uid" "RealUsername (demo_caller uid name) = name"
  "DockerCommand (demo_caller uid name) = []" "IsPrivileged (demo_caller uid name) \<longleftrightarrow> uid = 0"
  by (simp_all add: demo_caller_def IsPrivileged_def)

lemma demo_identified [simp]:
  "uid \<ge> 0 \<Longrightarrow> identify (demo_proxy d) auths (Some (demo_caller uid name)) = Inr (demo_caller uid name)"
  by (simp add: identify_def known_def demo_proxy_def VerifyIdentityAtRequest_def demo_caller_def
      IsConfigPrivileged_def DefaultAllowPolicy_def)

lemma demo_request_simps [simp]:
  "rqMethod (demo_request m pt b) = m" "rqPath (demo_request m pt b) = pt" "rqBody (demo_request m pt b) = b"
  "rqRawQuery (demo_request m pt b) = []" "RequestURI (demo_request m pt b) = pt"
  "url_query (demo_request m pt b) = url_values []"
  by (simp_all add: demo_request_def RequestURI_def url_query_def)

lemma demo_admitted [simp]: "admit demo_slots r = None"
  by (simp add: admit_def demo_slots_def slot_free_def)

lemma demo_world_db [simp]: "wDB (demo_world db) = db"
  by (simp add: demo_world_def)

lemma demo_reachable: "proxy_reachable (snd (ServeHTTP (demo_proxy d) s auths tr dial conn r (demo_world (emptyDB f))))"
proof -
  have "proxy_step (demo_world (emptyDB f))
      (snd (ServeHTTP (demo_proxy d) s auths tr dial conn r (demo_world (emptyDB f))))"
    by (rule served) (simp add: demo_proxy_def)
  then show ?thesis unfolding proxy_reachable_def
    by (metis demo_world_db r_into_rtranclp)
qed

section \<open>The database of the running proxy\<close>



end
