(* ===== verification/ServeProps.thy ===== *)
theory ServeProps
  imports ProxyState
begin

text \<open>
  Properties of whole requests: what has been checked when a request reaches the daemon, and the
  requests that reach it unchecked.
\<close>

section \<open>Complete mediation\<close>

text \<open>The request as the checks see it, and the action it is checked under.\<close>

definition checked_request :: "CallerIdentity \<Rightarrow> request \<Rightarrow> request" where
  "checked_request i r = (if IsPrivileged i then r else rewrite_url i r)"

definition checked_action :: "CallerIdentity \<Rightarrow> request \<Rightarrow> string" where
  "checked_action i r =
     OverrideActionByCommand (DockerCommand i)
       (ClassifyAction (rqMethod (checked_request i r)) (RequestURI (checked_request i r)))"

text \<open>
  The specification of the ownership check: a resource that is named in the path and that the
  database records belongs to the caller.
\<close>

definition recorded_for :: "int \<Rightarrow> OwnerInfo option \<Rightarrow> bool" where
  "recorded_for uid oo \<longleftrightarrow> (\<exists>owner. oo = Some owner \<and> oiUID owner = uid)"

text \<open>
  A container that is not recorded must carry the labels of the caller; when the daemon does not
  give its labels, only inspecting and ending it are left to the daemon.
\<close>

definition container_allowed :: "daemon \<Rightarrow> OwnershipDB \<Rightarrow> CallerIdentity \<Rightarrow> string \<Rightarrow> string \<Rightarrow> bool" where
  "container_allowed d db i a path \<longleftrightarrow>
     (let cid = ExtractContainerID path in
      cid \<in> {[], ''json'', ''create'', ''prune''} \<or> recorded_for (RealUID i) (GetContainerOwner db cid) \<or>
      GetContainerOwner db cid = None \<and>
        (case fetchContainerLabels d cid of
           Some ls \<Rightarrow> labels_match i ls
         | None \<Rightarrow> a \<in> {ActionInspect, ActionRemoveContainer, ActionStop, ActionKill, ActionPause, ActionUnpause}))"

definition volume_allowed :: "OwnershipDB \<Rightarrow> int \<Rightarrow> string \<Rightarrow> bool" where
  "volume_allowed db uid path \<longleftrightarrow>
     (let n = ExtractVolumeName path in
      n = [] \<or> recorded_for uid (GetVolumeOwner db n) \<or>
      recorded_for uid (GetVolumeOwner db (UserVolumePrefix uid @ n)))"

definition network_allowed :: "OwnershipDB \<Rightarrow> CallerIdentity \<Rightarrow> string \<Rightarrow> bool" where
  "network_allowed db i path \<longleftrightarrow>
     (let n = ExtractNetworkID path; visible = trim_prefix n (UserResourcePrefix i) in
      n = [] \<or>
      (\<exists>nid. CanUserAccessNetwork db nid (RealUID i) = Inr True \<and>
             (GetNetworkIDByName db n = Some nid \<or> GetNetworkIDByName db visible = Some nid \<or> nid = n)))"

definition object_allowed :: "(OwnershipDB \<Rightarrow> string \<Rightarrow> OwnerInfo option) \<Rightarrow> OwnershipDB \<Rightarrow> int \<Rightarrow> string \<Rightarrow> bool" where
  "object_allowed getOwner db uid oid \<longleftrightarrow> oid = [] \<or> recorded_for uid (getOwner db oid)"

definition authorised :: "daemon \<Rightarrow> OwnershipDB \<Rightarrow> CallerIdentity \<Rightarrow> string \<Rightarrow> string \<Rightarrow> bool" where
  "authorised d db i a path \<longleftrightarrow>
     container_allowed d db i a path \<and>
     (a = ActionVolumeRemove \<longrightarrow> volume_allowed db (RealUID i) path) \<and>
     (a \<in> {ActionNetworkInspect, ActionNetworkConnect, ActionNetworkDisconnect, ActionNetworkRemove} \<longrightarrow>
        network_allowed db i path) \<and>
     (a \<in> {ActionServiceInspect, ActionServiceUpdate, ActionServiceRemove, ActionServiceLogs} \<longrightarrow>
        object_allowed GetServiceOwner db (RealUID i) (ExtractServiceID path)) \<and>
     (a \<in> {ActionSecretInspect, ActionSecretUpdate, ActionSecretRemove} \<longrightarrow>
        object_allowed GetSecretOwner db (RealUID i) (ExtractSecretID path)) \<and>
     (a \<in> {ActionConfigInspect, ActionConfigUpdate, ActionConfigRemove} \<longrightarrow>
        object_allowed GetConfigOwner db (RealUID i) (ExtractConfigID path)) \<and>
     a \<notin> set swarm_admin_actions"

lemma container_check_spec:
  "check_container d i (ExtractContainerID path) a db = None \<Longrightarrow> \<not> IsPrivileged i \<Longrightarrow>
   container_allowed d db i a path"
  by (auto simp: check_container_def checkContainerOwnershipByLabel_def container_allowed_def recorded_for_def Let_def
      split: if_splits option.splits)

lemma volume_check_spec:
  "check_volume_remove i r db = None \<Longrightarrow> \<not> IsPrivileged i \<Longrightarrow> volume_allowed db (RealUID i) (rqPath r)"
  by (auto simp: check_volume_remove_def volume_allowed_def recorded_for_def Let_def split: if_splits option.splits)

lemma network_check_spec:
  "check_network i r db = Inr r' \<Longrightarrow> \<not> IsPrivileged i \<Longrightarrow> network_allowed db i (rqPath r)"
  by (auto simp: check_network_def network_allowed_def Let_def
      split: if_splits option.splits sum.splits bool.splits)

lemma object_check_spec:
  "check_swarm_object g k i oid db = None \<Longrightarrow> \<not> IsPrivileged i \<Longrightarrow> object_allowed g db (RealUID i) oid"
  by (auto simp: check_swarm_object_def object_allowed_def recorded_for_def split: if_splits option.splits)

text \<open>Only the creation of a container and the checks on removed and pulled images write before the later checks run.\<close>

lemma image_action_state:
  assumes "check_image_action p i r a w = (Inr (), w')" "a \<noteq> ActionRemoveImage" "a \<noteq> ActionPull"
  shows "w' = w"
  using assms by (auto simp: check_image_action_def handler_Inr split: if_splits)

lemma update_state: "check_update p i r a w = (Inr u, w') \<Longrightarrow> w' = w"
  using check_update_def [of p i r a w] by (auto split: option.splits if_splits)

lemma network_action_state: "check_network_action i r a w = (Inr r', w') \<Longrightarrow> w' = w"
  by (auto simp: check_network_action_def split: sum.splits if_splits)

lemma pre_request_container:
  "checkOwnershipPreRequest p i a r w = (Inr r', w') \<Longrightarrow>
   check_container (pxDaemon p) i (ExtractContainerID (rqPath r)) a (wDB w) = None"
  by (auto simp: checkOwnershipPreRequest_def handler_Inr)

text \<open>The later checks of an action that writes nothing itself see the database the request found.\<close>

lemma pre_request_later:
  assumes "checkOwnershipPreRequest p i a r w = (Inr r', w')"
    "a \<notin> {ActionCreateContainer, ActionRemoveImage, ActionPull}"
  shows "\<exists>r2. check_network_action i r a w = (Inr r2, w) \<and> check_objects i r2 a w = (Inr (), w')"
proof -
  obtain u0 v0 u1 v1 r1 w1 u2 w2 u3 w3 r2 w4 u4 w5 where s:
    "check_db (check_container (pxDaemon p) i (ExtractContainerID (rqPath r)) a) w = (Inr u0, v0)"
    "only_if (a = ActionCommit) (check_db (check_commit (pxDaemon p) i (query_param r ''container'') a)) v0 = (Inr u1, v1)"
    "(if a = ActionCreateContainer then create_container p i r else pass r) v1 = (Inr r1, w1)"
    "check_image_action p i r1 a w1 = (Inr u2, w2)" "check_update p i r1 a w2 = (Inr u3, w3)"
    "check_network_action i r1 a w3 = (Inr r2, w4)" "check_objects i r2 a w4 = (Inr u4, w5)" "pass r2 w5 = (Inr r', w')"
    using assms(1) unfolding checkOwnershipPreRequest_def and_then_Inr by blast
  have "v0 = w" "v1 = v0" "w5 = w'" using s(1,2,8) by (auto simp: handler_Inr split: if_splits)
  moreover have "w1 = v1" "r1 = r" using s(3) assms(2) by (auto simp: pass_def)
  moreover have "w2 = w1" using image_action_state [of p i r1 a w1 w2] s(4) assms(2) by auto
  moreover have "w3 = w2" using update_state [OF s(5)] .
  moreover have "w4 = w3" using network_action_state [OF s(6)] .
  ultimately show ?thesis using s by auto
qed

lemma network_action_request:
  "check_network_action i r a w = (Inr r2, w') \<Longrightarrow>
   a \<notin> {ActionNetworkInspect, ActionNetworkConnect, ActionNetworkDisconnect, ActionNetworkRemove} \<Longrightarrow> r2 = r"
  by (auto simp: check_network_action_def)

lemma objects_spec:
  assumes "check_objects i r a w = (Inr (), w')" "\<not> IsPrivileged i"
  shows "a = ActionVolumeRemove \<Longrightarrow> volume_allowed (wDB w) (RealUID i) (rqPath r)"
    "a \<notin> set swarm_admin_actions"
    "a \<in> {ActionServiceInspect, ActionServiceUpdate, ActionServiceRemove, ActionServiceLogs} \<Longrightarrow>
       object_allowed GetServiceOwner (wDB w) (RealUID i) (ExtractServiceID (rqPath r))"
    "a \<in> {ActionSecretInspect, ActionSecretUpdate, ActionSecretRemove} \<Longrightarrow>
       object_allowed GetSecretOwner (wDB w) (RealUID i) (ExtractSecretID (rqPath r))"
    "a \<in> {ActionConfigInspect, ActionConfigUpdate, ActionConfigRemove} \<Longrightarrow>
       object_allowed GetConfigOwner (wDB w) (RealUID i) (ExtractConfigID (rqPath r))"
proof -
  obtain w1 w2 w3 w4 where s:
    "only_if (a = ActionVolumeRemove) (check_db (check_volume_remove i r)) w = (Inr (), w1)"
    "only_if (a \<in> set swarm_admin_actions \<and> \<not> IsPrivileged i) (refuse (not_permitted i a)) w1 = (Inr (), w2)"
    "check_db (check_service i r a) w2 = (Inr (), w3)" "check_db (check_secret i r a) w3 = (Inr (), w4)"
    "check_db (check_config i r a) w4 = (Inr (), w')"
    using assms(1) unfolding check_objects_def and_then_Inr by auto
  have w: "w1 = w" "w2 = w" "w3 = w" "w4 = w"
    using s by (auto simp: only_if_Inr check_db_Inr refuse_Inr split: if_splits)
  show "a = ActionVolumeRemove \<Longrightarrow> volume_allowed (wDB w) (RealUID i) (rqPath r)"
    using s(1) volume_check_spec [OF _ assms(2)] by (simp add: only_if_Inr check_db_Inr)
  show "a \<notin> set swarm_admin_actions"
    using s(2) assms(2) by (auto simp: only_if_Inr refuse_Inr split: if_splits)
  show "object_allowed GetServiceOwner (wDB w) (RealUID i) (ExtractServiceID (rqPath r))"
    if "a \<in> {ActionServiceInspect, ActionServiceUpdate, ActionServiceRemove, ActionServiceLogs}"
    using s(3) that object_check_spec [OF _ assms(2)] by (simp add: check_db_Inr check_service_def w)
  show "object_allowed GetSecretOwner (wDB w) (RealUID i) (ExtractSecretID (rqPath r))"
    if "a \<in> {ActionSecretInspect, ActionSecretUpdate, ActionSecretRemove}"
    using s(4) that object_check_spec [OF _ assms(2)] by (simp add: check_db_Inr check_secret_def w)
  show "object_allowed GetConfigOwner (wDB w) (RealUID i) (ExtractConfigID (rqPath r))"
    if "a \<in> {ActionConfigInspect, ActionConfigUpdate, ActionConfigRemove}"
    using s(5) that object_check_spec [OF _ assms(2)] by (auto simp: check_db_Inr check_config_def w)
qed

lemma pre_request_authorised:
  assumes "checkOwnershipPreRequest p i a r w = (Inr r', w')" "\<not> IsPrivileged i"
  shows "authorised (pxDaemon p) (wDB w) i a (rqPath r)"
proof (cases "a \<in> {ActionCreateContainer, ActionRemoveImage, ActionPull}")
  case True
  then show ?thesis
    using container_check_spec [OF pre_request_container [OF assms(1)] assms(2)]
    by (auto simp: authorised_def swarm_admin_actions_def)
next
  case False
  obtain r2 where r2: "check_network_action i r a w = (Inr r2, w)" "check_objects i r2 a w = (Inr (), w')"
    using pre_request_later [OF assms(1) False] by blast
  note o = objects_spec [OF r2(2) assms(2)]
  have c: "container_allowed (pxDaemon p) (wDB w) i a (rqPath r)"
    by (rule container_check_spec [OF pre_request_container [OF assms(1)] assms(2)])
  show ?thesis
  proof (cases "a \<in> {ActionNetworkInspect, ActionNetworkConnect, ActionNetworkDisconnect, ActionNetworkRemove}")
    case True
    then have "network_allowed (wDB w) i (rqPath r)"
      using r2(1) network_check_spec [OF _ assms(2)]
      by (auto simp: check_network_action_def split: sum.splits)
    then show ?thesis using True c by (auto simp: authorised_def swarm_admin_actions_def)
  next
    case False
    then have "r2 = r" using network_action_request [OF r2(1)] by simp
    then show ?thesis using False c o by (simp add: authorised_def)
  qed
qed

section \<open>Requests that reach the daemon\<close>

definition reaches_daemon :: "served \<Rightarrow> bool" where
  "reaches_daemon s = (case s of Replied _ \<Rightarrow> False | _ \<Rightarrow> True)"

lemma start_tags_db [simp]: "wDB (fold (start_tag i) ts w) = wDB w"
  by (induction ts arbitrary: w) (simp_all add: start_tag_def)

lemma hijack_authorised:
  assumes "reaches_daemon (fst (serve_hijack p dial i (checked_request i r) w))"
  shows "\<not> command_denied p i (checked_action i r) (checked_request i r) \<and>
     (\<not> IsPrivileged i \<longrightarrow> authorised (pxDaemon p) (wDB w) i (checked_action i r) (rqPath (checked_request i r)))"
proof -
  let ?r = "checked_request i r" and ?a = "checked_action i r"
  let ?w = "if is_grpc ?r then fold (start_tag i) (parseBuildxTags (CmdLine i)) w else w"
  have h: "reaches_daemon (fst (handleHijack p dial i ?r w))"
    using assms by (auto simp: serve_hijack_def Let_def reaches_daemon_def split: if_splits)
  then have nd: "\<not> command_denied p i ?a ?r"
    by (auto simp: handleHijack_def Let_def reaches_daemon_def checked_action_def split: if_splits)
  obtain x w1 where x: "checkOwnershipPreRequest p i ?a ?r ?w = (x, w1)" by fastforce
  then obtain r1 where "x = Inr r1"
    using h nd by (cases x) (auto simp: handleHijack_def Let_def reaches_daemon_def checked_action_def split: if_splits)
  moreover have "wDB ?w = wDB w" by simp
  ultimately show ?thesis using nd pre_request_authorised [of p i ?a ?r ?w r1 w1] x by metis
qed

lemma request_authorised:
  assumes "reaches_daemon (fst (serve_request p tr dial i r w))"
  shows "\<not> command_denied p i (checked_action i r) (checked_request i r) \<and>
     (\<not> IsPrivileged i \<longrightarrow> authorised (pxDaemon p) (wDB w) i (checked_action i r) (rqPath (checked_request i r)))"
proof (cases "isHijackRequest r")
  case True
  then show ?thesis
    using assms hijack_authorised [of p dial i r w] by (simp add: serve_request_def checked_request_def Let_def)
next
  case False
  let ?r = "checked_request i r" and ?a = "checked_action i r"
  obtain x w1 where x: "checkOwnershipPreRequest p i ?a ?r w = (x, w1)" by fastforce
  have e: "serve_request p tr dial i r w =
      (if command_denied p i ?a ?r then (Replied (not_permitted i ?a), w)
       else case (x, w1) of (Inl reply, w1) \<Rightarrow> (Replied reply, w1) | (Inr r1, w1) \<Rightarrow> serve_checked p tr i ?a r1 w1)"
    unfolding serve_request_def Let_def x [symmetric] checked_action_def checked_request_def using False by simp
  have nd: "\<not> command_denied p i ?a ?r" using assms by (auto simp: e reaches_daemon_def split: if_splits)
  obtain r1 where "x = Inr r1" using assms nd by (cases x) (auto simp: e reaches_daemon_def)
  then show ?thesis using nd pre_request_authorised [of p i ?a ?r w r1 w1] x by simp
qed

lemma verify_config:
  "VerifyIdentityAtRequest env (Some (i \<lparr>ConfigPrivileged := b\<rparr>)) = VerifyIdentityAtRequest env (Some i)"
  by (simp add: VerifyIdentityAtRequest_def Let_def split: sum.split prod.split)


definition demo_answer :: response where
  "demo_answer = \<lparr>rsStatus = 200, rsBody = Doc (JArr []), rsLines = []\<rparr>"

definition demo_container_db :: OwnershipDB where
  "demo_container_db =
     snd (SetContainerOwner ''c0ffeec0ffee'' (demo_caller 1000 ''alice'') [] (emptyDB (\<lambda>_ _. False)))"

lemma demo_start:
  "reaches_daemon (fst (ServeHTTP (demo_proxy (\<lambda>_ _ _ _. None)) demo_slots [] (\<lambda>_. Answer demo_answer) True
     (Some (demo_caller 1000 ''alice'')) (demo_request ''POST'' ''/containers/c0ffeec0ffee/start'' no_body)
     (demo_world demo_container_db)))"
  "checked_request (demo_caller 1000 ''alice'') (demo_request ''POST'' ''/containers/c0ffeec0ffee/start'' no_body) =
     demo_request ''POST'' ''/containers/c0ffeec0ffee/start'' no_body"
  "\<not> reaches_daemon (fst (ServeHTTP (demo_proxy (\<lambda>_ _ _ _. None)) demo_slots [] (\<lambda>_. Answer demo_answer) True
     (Some (demo_caller 1001 ''bob'')) (demo_request ''POST'' ''/containers/c0ffeec0ffee/start'' no_body)
     (demo_world demo_container_db)))"
proof -
  have "reaches_daemon (fst (ServeHTTP (demo_proxy (\<lambda>_ _ _ _. None)) demo_slots [] (\<lambda>_. Answer demo_answer) True
       (Some (demo_caller 1000 ''alice'')) (demo_request ''POST'' ''/containers/c0ffeec0ffee/start'' no_body)
       (demo_world demo_container_db))) \<and>
    checked_request (demo_caller 1000 ''alice'') (demo_request ''POST'' ''/containers/c0ffeec0ffee/start'' no_body) =
       demo_request ''POST'' ''/containers/c0ffeec0ffee/start'' no_body \<and>
    \<not> reaches_daemon (fst (ServeHTTP (demo_proxy (\<lambda>_ _ _ _. None)) demo_slots [] (\<lambda>_. Answer demo_answer) True
       (Some (demo_caller 1001 ''bob'')) (demo_request ''POST'' ''/containers/c0ffeec0ffee/start'' no_body)
       (demo_world demo_container_db)))" (is "?a \<and> ?b \<and> ?c")
    by code_simp
  then show ?a ?b ?c by blast+
qed


section \<open>Requests that reach the daemon unchecked\<close>

text \<open>Actions of which no check after that of the container takes notice.\<close>

definition unchecked_actions :: "string list" where
  "unchecked_actions = [ActionPort, ActionSystemInfo]"

lemma actions_of_other_commands:
  assumes "a \<in> set unchecked_actions"
  shows "check_image_action p i r a w = (Inr (), w)" "check_update p i r a w = (Inr (), w)"
    "check_network_action i r a w = (Inr r, w)" "check_objects i r a w = (Inr (), w)"
proof -
  have a: "a = ActionPort \<or> a = ActionSystemInfo" using assms by (simp add: unchecked_actions_def)
  show "check_image_action p i r a w = (Inr (), w)"
    using a by (elim disjE) (simp_all add: check_image_action_def pass_def)
  show "check_update p i r a w = (Inr (), w)"
    using a by (elim disjE) (simp_all add: check_update_def split: option.split)
  show "check_network_action i r a w = (Inr r, w)"
    using a by (elim disjE) (simp_all add: check_network_action_def)
  show "check_objects i r a w = (Inr (), w)"
    using a by (elim disjE) (simp_all add: check_objects_def check_service_def check_secret_def check_config_def
        swarm_admin_actions_def and_then_def check_db_def only_if_def pass_def)
qed

lemma unchecked_request:
  assumes "a \<in> set unchecked_actions" "ExtractContainerID (rqPath r) \<in> {[], ''create''}"
  shows "checkOwnershipPreRequest p i a r w = (Inr r, w)"
proof -
  have "a \<noteq> ActionCommit" "a \<noteq> ActionCreateContainer" using assms(1) by (auto simp: unchecked_actions_def)
  then show ?thesis
    using assms(2) by (auto simp: checkOwnershipPreRequest_def and_then_def check_db_def check_container_def only_if_def
        pass_def actions_of_other_commands [OF assms(1)])
qed

lemma create_path [simp]:
  "ExtractContainerID ''/containers/create'' = ''create''" "ExtractNetworkID ''/containers/create'' = []"
  "ExtractVolumeName ''/containers/create'' = []"
  by code_simp+

text \<open>
  C36. The action is derived from the command line of the calling process, which the
  caller chooses.  A process whose command line reads as docker port has every request checked
  as the action port: a request that creates a container is forwarded as it came, with any
  image, mounts, networks and privileges, without quota, name prefix and labels, and the
  container is recorded for nobody.
\<close>

theorem port_command_creates_unchecked:
  assumes "DockerCommand i = ''port''" "\<not> IsPrivileged i" "\<not> IsDenied (pxOS p) (pxPolicy p) i ActionPort"
    "rqMethod r = ''POST''" "rqPath r = ''/containers/create''" "rqRawQuery r = []" "\<not> isHijackRequest r"
    "tr 0 = Answer rs" "rsStatus rs = 201"
  shows "serve_request p tr dial i r w = (Relayed 201 (rsBody rs), w)"
proof -
  have "RewriteContainerURL (''/containers/create'', q) u = (''/containers/create'', q)" for q u
    by (simp add: RewriteContainerURL_def Let_def StripAPIVersion_def isVersionString_def containerSpecialIDs_def
        up_to_slash_def has_prefix_def)
  moreover have "RewriteNetworkURL ''/containers/create'' i = ''/containers/create''"
    "RewriteVolumeURL ''/containers/create'' u = ''/containers/create''" for u
    by (simp_all add: RewriteNetworkURL_def RewriteVolumeURL_def StripAPIVersion_def Let_def has_prefix_def)
  ultimately have r: "rewrite_url i r = r" using assms(5,6) by (simp add: rewrite_url_def url_query_def)
  have c: "checkOwnershipPreRequest p i ActionPort r w = (Inr r, w)"
    using assms(5) by (intro unchecked_request) (simp_all add: unchecked_actions_def)
  have a: "OverrideActionByCommand (DockerCommand i) x = ActionPort" for x
    by (simp add: OverrideActionByCommand_def cmdActionOverrides_def assms(1))
  have f: "fst (forward tr r) = (Inr rs, 1)"
    using assms(8,9) send_stop [of "retryable r" tr 0] by (simp add: forward_def try_again_def)
  have "rqPath (snd (forward tr r)) = ''/containers/create''" using assms(5) by (simp add: forward_def)
  then have "answer_response p i ActionPort (snd (forward tr r)) rs db = Inr (rsBody rs)" for db
    by (simp add: answer_response_def answer_other_def is_stats_def has_suffix_def)
  then have "serve_upstream p tr i ActionPort r w = (Relayed 201 (rsBody rs), w)"
    using f assms(2,9)
    by (simp add: serve_upstream_def Let_def event_key_def register_pending_def release_pending_def
        record_response_def case_prod_beta)
  then show ?thesis
    using assms(2,3,7)
    by (simp add: serve_request_def Let_def a r c command_denied_def serve_checked_def preprocessRequest_def)
qed

definition demo_port_caller :: CallerIdentity where
  "demo_port_caller = (demo_caller 1000 ''alice'') \<lparr>DockerCommand := ''port''\<rparr>"

definition demo_host_mount :: body where
  "demo_host_mount =
     Doc (JObj [(''Image'', JStr ''alpine''),
                (''HostConfig'', JObj [(''Privileged'', JBool True), (''Binds'', JArr [JStr ''/:/host''])])])"

definition demo_created :: response where
  "demo_created = \<lparr>rsStatus = 201, rsBody = Doc (JObj [(''Id'', JStr ''c0ffee'')]), rsLines = []\<rparr>"

theorem port_command_creates_unchecked_witness:
  "serve_request (demo_proxy (\<lambda>_ _ _ _. None)) (\<lambda>_. Answer demo_created) True demo_port_caller
     (demo_request ''POST'' ''/containers/create'' demo_host_mount) (demo_world (emptyDB (\<lambda>_ _. False))) =
   (Relayed 201 (rsBody demo_created), demo_world (emptyDB (\<lambda>_ _. False)))"
proof (rule port_command_creates_unchecked)
  show "\<not> IsDenied (pxOS (demo_proxy (\<lambda>_ _ _ _. None))) (pxPolicy (demo_proxy (\<lambda>_ _ _ _. None))) demo_port_caller ActionPort"
    by code_simp
  show "\<not> isHijackRequest (demo_request ''POST'' ''/containers/create'' demo_host_mount)" by code_simp
qed (simp_all add: demo_port_caller_def demo_created_def demo_caller_def IsPrivileged_def)

lemma ping_request [simp]:
  "ClassifyAction ''GET'' ''/_ping'' = ActionSystemInfo" "ExtractContainerID ''/_ping'' = []"
  "ExtractNetworkID ''/_ping'' = []" "ExtractVolumeName ''/_ping'' = []" "StripAPIVersion ''/_ping'' = ''/_ping''"
  "is_ping ''GET'' ''/_ping''"
  by code_simp+

text \<open>
  Any request that asks for an upgrade of its connection is treated like an attach.  A ping
  with the header Upgrade: tcp passes every check, for every policy and every user, and opens a
  raw connection to the daemon, on which further requests are copied without being looked at.
\<close>

theorem upgrade_opens_tunnel:
  assumes "identify p auths conn = Inr i" "admit s r = None" "rqMethod r = ''GET''" "rqPath r = ''/_ping''"
    "rqRawQuery r = []" "rqUpgrade r = ''tcp''"
  shows "ServeHTTP p s auths tr True conn r w = (Tunnelled r, w)"
proof -
  have u: "RequestURI r = ''/_ping''" using assms by (simp add: RequestURI_def)
  have h: "isHijackRequest r" using assms(6) by (simp add: isHijackRequest_def equal_fold_def)
  have "RewriteContainerURL (''/_ping'', q) j = (''/_ping'', q)" for q j
    by (simp add: RewriteContainerURL_def Let_def)
  moreover have "RewriteNetworkURL ''/_ping'' i = ''/_ping''" "RewriteVolumeURL ''/_ping'' j = ''/_ping''" for j
    by (simp_all add: RewriteNetworkURL_def RewriteVolumeURL_def Let_def)
  ultimately have r: "rewrite_url i r = r" using assms(4,5) by (simp add: rewrite_url_def url_query_def)
  have nd: "\<not> command_denied p i a r" for a
    using assms(3,4) by (simp add: command_denied_def isAuxiliaryCall_def)
  let ?a = "OverrideActionByCommand (DockerCommand i) ActionSystemInfo"
  have "?a \<in> set unchecked_actions"
    by (simp add: OverrideActionByCommand_def cmdActionOverrides_def unchecked_actions_def)
  then have c: "checkOwnershipPreRequest p i ?a r w = (Inr r, w)"
    using assms(4) by (intro unchecked_request) simp_all
  have g: "\<not> is_grpc r" using assms(3) by (simp add: is_grpc_def)
  have "handleHijack p True i r w = (Tunnelled r, w)"
    unfolding handleHijack_def u assms(3) ping_request using nd c g by (simp add: Let_def)
  then have "serve_request p tr True i r w = (Tunnelled r, w)"
    using h nd by (simp add: serve_request_def serve_hijack_def Let_def r)
  then show ?thesis using assms(1,2) by (simp add: ServeHTTP_def)
qed

theorem upgrade_opens_tunnel_witness:
  "ServeHTTP (demo_proxy (\<lambda>_ _ _ _. None)) demo_slots [] (\<lambda>_. TransportError True) True
     (Some (demo_caller 1000 ''alice'')) ((demo_request ''GET'' ''/_ping'' no_body) \<lparr>rqUpgrade := ''tcp''\<rparr>)
     (demo_world (emptyDB (\<lambda>_ _. False))) =
   (Tunnelled ((demo_request ''GET'' ''/_ping'' no_body) \<lparr>rqUpgrade := ''tcp''\<rparr>),
    demo_world (emptyDB (\<lambda>_ _. False)))"
  by (rule upgrade_opens_tunnel [of _ _ _ "demo_caller 1000 ''alice''"]) (simp_all add: demo_request_def)

end
