(* ===== verification/ImageProps.thy ===== *)
theory ImageProps
  imports ProxyState
begin

text \<open>
  Properties of the handling of images: who may remove an image, and which operations give a
  user access to an image of somebody else.
\<close>

section \<open>Removal\<close>

lemma remove_physically_ok:
  assumes "remove_physically i r rid owner pub w = (Inr (), w')" "\<not> IsPrivileged i"
  shows "HasContainerUsingImage (wDB w) (RealUID i) rid = Inr False"
    "oiUID owner = RealUID i \<Longrightarrow> pub \<Longrightarrow> GetImageRefCountExcluding (wDB w) rid (RealUID i) = Inr 0"
  using assms by (auto simp: remove_physically_def Let_def split: sum.splits bool.splits if_splits)


definition demo_image_db :: OwnershipDB where
  "demo_image_db =
     snd (SetImageOwner ''abc'' (demo_caller 1001 ''bob'') False ''load''
       (snd (SetImageOwner ''def'' (demo_caller 1000 ''alice'') False ''build'' (emptyDB (\<lambda>_ _. False)))))"

definition demo_image_daemon :: daemon where
  "demo_image_daemon m path q b =
     (if path = ''/images/app/json'' then Some (200, Doc (JObj [(''Id'', JStr ''sha256:def'')]))
      else if path = ''/images/team/app/json'' then Some (200, Doc (JObj [(''Id'', JStr ''sha256:abc'')]))
      else Some (404, Raw []))"

lemma demo_own_removal:
  "fst (checkImageRemovePermission (demo_proxy demo_image_daemon) (demo_caller 1000 ''alice'')
     (demo_request ''DELETE'' ''/images/app'' no_body) (demo_world demo_image_db)) = Inr ()"
  "resolveImageIDByRef (pxDaemon (demo_proxy demo_image_daemon)) ''app'' = ''sha256:def''"
  "ExtractImageID ''/images/app'' = ''app''"
  by code_simp+


text \<open>
  The name of an image may have several segments, of which only the first one is looked at.
  The request to remove team/app is classified as the removal of an image but checked under
  the name team: when the daemon has no such image, the request is forwarded for every caller,
  whoever the image belongs to.
\<close>

theorem multi_segment_removal_unchecked:
  assumes "rqMethod r = ''DELETE''" "rqPath r = ''/images/team/app''" "rqRawQuery r = []"
    "resolveImageIDByRef (pxDaemon p) ''team'' = []"
  shows "ClassifyAction (rqMethod r) (RequestURI r) = ActionRemoveImage \<and>
    checkOwnershipPreRequest p i ActionRemoveImage r w = (Inr r, w)"
proof -
  have e: "ExtractImageID ''/images/team/app'' = ''team''" "ExtractContainerID ''/images/team/app'' = []"
    "ClassifyAction ''DELETE'' ''/images/team/app'' = ActionRemoveImage" by code_simp+
  have im: "check_image_action p i r ActionRemoveImage w = (Inr (), w)"
    using assms(2,4) e by (simp add: check_image_action_def checkImageRemovePermission_def)
  have ot: "check_update p i r ActionRemoveImage w = (Inr (), w)"
    "check_network_action i r ActionRemoveImage w = (Inr r, w)"
    "check_objects i r ActionRemoveImage w = (Inr (), w)"
    by (simp_all add: check_update_def check_network_action_def check_objects_def check_service_def check_secret_def
        check_config_def swarm_admin_actions_def and_then_def check_db_def only_if_def pass_def split: option.split)
  show ?thesis
    using assms e by (simp add: RequestURI_def checkOwnershipPreRequest_def and_then_def check_db_def
        check_container_def only_if_def pass_def im ot)
qed

theorem multi_segment_removal_unchecked_witness:
  "checkOwnershipPreRequest (demo_proxy demo_image_daemon) (demo_caller 1000 ''alice'') ActionRemoveImage
     (demo_request ''DELETE'' ''/images/team/app'' no_body) (demo_world demo_image_db) =
   (Inr (demo_request ''DELETE'' ''/images/team/app'' no_body), demo_world demo_image_db) \<and>
   GetImageOwner demo_image_db (resolveImageIDByRef demo_image_daemon ''team/app'') =
     Some (\<lparr>oiUsername = ''bob'', oiUID = 1001, oiGID = 1001, oiSource = ''load''\<rparr>, False, 0)"
proof
  have "resolveImageIDByRef (pxDaemon (demo_proxy demo_image_daemon)) ''team'' = []" by code_simp
  then show "checkOwnershipPreRequest (demo_proxy demo_image_daemon) (demo_caller 1000 ''alice'') ActionRemoveImage
     (demo_request ''DELETE'' ''/images/team/app'' no_body) (demo_world demo_image_db) =
   (Inr (demo_request ''DELETE'' ''/images/team/app'' no_body), demo_world demo_image_db)"
    using multi_segment_removal_unchecked [of "demo_request ''DELETE'' ''/images/team/app'' no_body"] by simp
qed code_simp

section \<open>Access\<close>

text \<open>A row for the image and a row that gives the user access to it.\<close>

definition access_recorded :: "OwnershipDB \<Rightarrow> string \<Rightarrow> int \<Rightarrow> bool" where
  "access_recorded db iid uid \<longleftrightarrow>
     no_faults db \<and> keys_inv db \<and> normalizeImageID iid \<noteq> [] \<and>
     (\<exists>r \<in> set (tImages db). iId r = normalizeImageID iid) \<and>
     (\<exists>a \<in> set (tImageAccess db). aImageID a = normalizeImageID iid \<and> aUserUID a = uid)"

lemma access_recorded_usable:
  assumes "access_recorded db iid uid"
  shows "CanUseImage db uid iid"
proof -
  obtain r where r: "r \<in> set (tImages db)" "iId r = normalizeImageID iid" using assms by (auto simp: access_recorded_def)
  have nf: "no_faults db" "keys_inv db" "iId r \<noteq> []" using assms r by (auto simp: access_recorded_def)
  have "find (\<lambda>x. iId x = iId r) (tImages db) = Some r"
    using find_unique [OF _ r(1), of iId] nf(2) by (simp add: keys_inv_def)
  then have "resolveImageIDInDB db iid = iId r" using resolve_exact [of db iid r] r nf(1) by (simp add: no_faults_def)
  then show ?thesis
    using CanUseImage_resolved [OF nf(1,2) r(1) _ nf(3), of iid uid] assms r(2) by (auto simp: access_recorded_def)
qed

lemma no_faults_writes [simp]:
  "no_faults (snd (EnsureImageAccess x u db)) \<longleftrightarrow> no_faults db"
  "no_faults (snd (SetImageOwner x i pub src db)) \<longleftrightarrow> no_faults db"
  by (auto simp: no_faults_def EnsureImageAccess_def SetImageOwner_def exec_stmt_def Let_def)

lemma set_upsert_keys: "(\<And>r. key (upd r) = key r) \<Longrightarrow> x \<in> set t \<Longrightarrow> \<exists>y \<in> set (upsert key upd row t). key y = key x"
  unfolding upsert_def list_ex_iff by auto

lemma ensure_access_rows:
  assumes "no_faults db"
  shows "tImages (snd (EnsureImageAccess x u db)) = tImages db"
    "set (tImageAccess db) \<subseteq> set (tImageAccess (snd (EnsureImageAccess x u db)))"
    "\<exists>a \<in> set (tImageAccess (snd (EnsureImageAccess x u db))). aImageID a = normalizeImageID x \<and> aUserUID a = u"
  using assms
  by (auto simp: EnsureImageAccess_def exec_stmt_def no_faults_def insert_or_ignore_def list_ex_iff image_key_def)

lemma set_owner_rows:
  assumes "no_faults db"
  shows "r \<in> set (tImages db) \<Longrightarrow> \<exists>r' \<in> set (tImages (snd (SetImageOwner x i pub src db))). iId r' = iId r"
    "a \<in> set (tImageAccess db) \<Longrightarrow>
     \<exists>a' \<in> set (tImageAccess (snd (SetImageOwner x i pub src db))). image_key a' = image_key a"
  using assms
  by (auto simp: SetImageOwner_def exec_stmt_def no_faults_def Let_def
      intro!: set_upsert_keys iId_take_over image_key_upd)

lemma access_kept:
  assumes "access_recorded db iid uid"
  shows "access_recorded (snd (EnsureImageAccess x u db)) iid uid"
    "access_recorded (snd (SetImageOwner x i pub src db)) iid uid"
proof -
  have d: "no_faults db" "keys_inv db" using assms by (auto simp: access_recorded_def)
  have k: "keys_inv (snd (EnsureImageAccess x u db))" "keys_inv (snd (SetImageOwner x i pub src db))"
    using d(2) by (auto intro: keyed_db.method_keeps)
  show "access_recorded (snd (EnsureImageAccess x u db)) iid uid"
    using assms k(1) d(1) ensure_access_rows [OF d(1), of x u] by (auto simp: access_recorded_def)
  obtain r a where ra: "r \<in> set (tImages db)" "iId r = normalizeImageID iid"
    "a \<in> set (tImageAccess db)" "aImageID a = normalizeImageID iid" "aUserUID a = uid"
    using assms by (auto simp: access_recorded_def)
  then show "access_recorded (snd (SetImageOwner x i pub src db)) iid uid"
    using assms k(2) d(1) set_owner_rows(1) [OF d(1) ra(1), of x i pub src] set_owner_rows(2) [OF d(1) ra(3), of x i pub src]
    by (auto simp: access_recorded_def image_key_def)
qed

lemma access_given:
  assumes "no_faults db" "keys_inv db" "normalizeImageID iid \<noteq> []" "r \<in> set (tImages db)" "iId r = normalizeImageID iid"
  shows "access_recorded (snd (EnsureImageAccess iid uid db)) iid uid"
  using assms ensure_access_rows [OF assms(1), of iid uid] keyed_db.method_keeps(6) [OF assms(2)]
  by (auto simp: access_recorded_def)

text \<open>
  The comment on the check says that a private image can be pulled by its owner only.  For an
  image that was pulled, loaded, imported or committed the check does the opposite: a pull by
  another user is answered as if it had succeeded, and gives that user access to the image.
\<close>

theorem pull_grants_private_image:
  assumes "\<not> IsPrivileged i" "query_param r ''authz.public'' \<noteq> ''true''" "parseImageRefFromURI (RequestURI r) = ref"
    "ref \<noteq> []" "\<not> isBuildKitImage ref" "resolveImageIDByRef (pxDaemon p) ref = rid" "rid \<noteq> []"
    "GetImageOwner (wDB w) rid = Some (owner, False, pc)" "oiUID owner \<noteq> RealUID i" "oiSource owner \<noteq> ''build''"
    "no_faults (wDB w)" "keys_inv (wDB w)" "row \<in> set (tImages (wDB w))" "iId row = normalizeImageID rid"
    "normalizeImageID rid \<noteq> []"
  shows "fst (checkImagePullPermission p i r w) = Inl (pull_complete rid) \<and>
    CanUseImage (wDB (snd (checkImagePullPermission p i r w))) (RealUID i) rid"
proof -
  let ?e = "EnsureImageAccess rid (RealUID i) (wDB w)"
  have "fst ?e = None" using assms(11) by (simp add: EnsureImageAccess_def exec_stmt_def no_faults_def)
  then have v: "virtual_pull i rid w = (Inl (pull_complete rid), w \<lparr>wDB := snd ?e\<rparr>)"
    by (cases ?e) (simp add: virtual_pull_def)
  have "checkImagePullPermission p i r w = virtual_pull i rid w"
    using assms by (simp add: checkImagePullPermission_def Let_def)
  then show ?thesis
    using v access_recorded_usable [OF access_given [OF assms(11,12,15,13,14)]] by simp
qed

lemma demo_image_db_reachable: "db_reachable demo_image_db" "no_faults demo_image_db"
proof -
  show "db_reachable demo_image_db" unfolding demo_image_db_def
    by (intro reachable_db.method_keeps reachable_empty)
  have "no_faults (emptyDB (\<lambda>_ _. False))" by (simp add: no_faults_def emptyDB_def)
  then show "no_faults demo_image_db" by (simp add: demo_image_db_def)
qed

definition demo_pull :: request where
  "demo_pull = (demo_request ''POST'' ''/images/create'' no_body) \<lparr>rqRawQuery := ''fromImage=team%2Fapp''\<rparr>"

definition demo_pull_daemon :: daemon where
  "demo_pull_daemon m path q b =
     (if path = ''/images/team/app:latest/json'' \<or> path = ''/images/team/app/json''
      then Some (200, Doc (JObj [(''Id'', JStr ''sha256:abc'')])) else None)"

lemma demo_pull_facts:
  "query_param demo_pull ''authz.public'' \<noteq> ''true''"
  "resolveImageIDByRef demo_pull_daemon (parseImageRefFromURI (RequestURI demo_pull)) = ''sha256:abc''"
  "parseImageRefFromURI (RequestURI demo_pull) \<noteq> []"
  "\<not> isBuildKitImage (parseImageRefFromURI (RequestURI demo_pull))"
  "GetImageOwner demo_image_db ''sha256:abc'' =
     Some (\<lparr>oiUsername = ''bob'', oiUID = 1001, oiGID = 1001, oiSource = ''load''\<rparr>, False, 0)"
  "map iId (tImages demo_image_db) = [''def'', ''abc'']" "normalizeImageID ''sha256:abc'' = ''abc''"
  "\<not> CanUseImage demo_image_db 1000 ''sha256:abc''"
  by code_simp+

theorem pull_grants_private_image_witness:
  "\<not> CanUseImage demo_image_db 1000 ''sha256:abc'' \<and>
   CanUseImage (wDB (snd (checkImagePullPermission (demo_proxy demo_pull_daemon) (demo_caller 1000 ''alice'')
     demo_pull (demo_world demo_image_db)))) 1000 ''sha256:abc''"
proof -
  have "''abc'' \<in> set (map iId (tImages demo_image_db))" by (simp add: demo_pull_facts(6))
  then obtain row where "row \<in> set (tImages demo_image_db)" "iId row = ''abc''" by auto
  then show ?thesis
    using pull_grants_private_image [of "demo_caller 1000 ''alice''" demo_pull
        "parseImageRefFromURI (RequestURI demo_pull)" "demo_proxy demo_pull_daemon" "''sha256:abc''"
        "demo_world demo_image_db"] demo_pull_facts demo_image_db_reachable reachable_inv
    by (simp add: demo_proxy_def)
qed

section \<open>Images of BuildKit builds\<close>

lemma track_tag_access:
  assumes "access_recorded (wDB (fst st)) iid uid"
  shows "access_recorded (wDB (fst (track_tag i ts pre e st))) iid uid"
  using assms by (auto simp: track_tag_def write_db_def access_kept split: prod.split option.split)

lemma track_tags_access:
  "access_recorded (wDB (fst st)) iid uid \<Longrightarrow> access_recorded (wDB (fst (fold (track_tag i ts pre) es st))) iid uid"
  by (induction es arbitrary: st) (simp_all add: track_tag_access)

lemma writeOne_access:
  "access_recorded (wDB w) iid uid \<Longrightarrow> access_recorded (wDB (writeOne i x w)) iid uid"
  by (auto simp: writeOne_def write_db_def own_image_def access_kept split: option.split prod.split bool.split)
    (metis access_kept(1,2) prod.sel(2))+

lemma writes_access:
  "access_recorded (wDB w) iid uid \<Longrightarrow> access_recorded (wDB (fold (writeOne i) xs w)) iid uid"
  by (induction xs arbitrary: w) (simp_all add: writeOne_access)

lemma move_tags_db: "wDB (fold (move_tag i) ts w) = wDB w"
  by (induction ts arbitrary: w) simp_all

text \<open>Until a tag is reached, the rows of the images and the absence of faults do not change.\<close>

lemma track_tags_images:
  assumes "no_faults (wDB (fst st))" "keys_inv (wDB (fst st))"
  shows "no_faults (wDB (fst (fold (track_tag i ts pre) es st))) \<and> keys_inv (wDB (fst (fold (track_tag i ts pre) es st))) \<and>
    tImages (wDB (fst (fold (track_tag i ts pre) es st))) = tImages (wDB (fst st))"
  using assms
proof (induction es arbitrary: st)
  case (Cons e es)
  let ?st = "track_tag i ts pre e st"
  have "no_faults (wDB (fst ?st)) \<and> keys_inv (wDB (fst ?st)) \<and> tImages (wDB (fst ?st)) = tImages (wDB (fst st))"
    using Cons.prems keyed_db.track_tag_keeps [of st i ts pre e]
    by (auto simp: track_tag_def write_db_def ensure_access_rows(1) split: prod.split option.split)
  then show ?case using Cons.IH [of ?st] by simp
qed simp

text \<open>
  A BuildKit build gives its user access to every tagged image of every other user.  The
  comparison of the images before and after the build treats an unchanged tag as one that the
  build produced again, without asking whether the command names it.
\<close>

theorem build_grants_foreign_images:
  assumes "snapshotImageState d = Some post" "(tag, iid) \<in> set (tagToID post)" "map_of (tagToID pre) tag = Some iid"
    "GetImageOwner (wDB w) iid = Some (owner, pub, pc)" "oiUID owner \<noteq> RealUID i"
    "no_faults (wDB w)" "keys_inv (wDB w)" "row \<in> set (tImages (wDB w))" "iId row = normalizeImageID iid"
    "normalizeImageID iid \<noteq> []"
  shows "CanUseImage (wDB (hijack_closed d i (Some pre) w)) (RealUID i) iid"
proof -
  let ?ts = "parseBuildxTags (CmdLine i)"
  let ?w = "w \<lparr>wPendingBuilds := (wPendingBuilds w)(RealUID i := True)\<rparr>"
  obtain es1 es2 where es: "tagToID post = es1 @ (tag, iid) # es2" using assms(2) split_list by fastforce
  let ?st = "fold (track_tag i ?ts pre) es1 (?w, [], [])"
  have st: "no_faults (wDB (fst ?st))" "keys_inv (wDB (fst ?st))" "tImages (wDB (fst ?st)) = tImages (wDB w)"
    using track_tags_images [of "(?w, [], [])" i ?ts pre es1] assms(6,7) by simp_all
  have "GetImageOwner (wDB (fst ?st)) iid = Some (owner, pub, pc)"
    using GetImageOwner_images [OF assms(6) st(1,3)] assms(4) by simp
  then have "fst (track_tag i ?ts pre (tag, iid) ?st) = write_db (EnsureImageAccess iid (RealUID i)) (fst ?st)"
    using assms(3,5) by (cases ?st) (simp add: track_tag_def)
  then have "access_recorded (wDB (fst (track_tag i ?ts pre (tag, iid) ?st))) iid (RealUID i)"
    using access_given [OF st(1,2) assms(10)] assms(8,9) st(3) by (simp add: write_db_def)
  then have "access_recorded (wDB (fst (fold (track_tag i ?ts pre) (tagToID post) (?w, [], [])))) iid (RealUID i)"
    by (simp add: es track_tags_access)
  then have "access_recorded (wDB (trackBuildKitImages d i pre ?w)) iid (RealUID i)"
    by (auto simp: trackBuildKitImages_def assms(1) Let_def move_tags_db writes_access split: prod.split)
  then show ?thesis by (simp add: hijack_closed_def access_recorded_usable)
qed

definition demo_build_daemon :: daemon where
  "demo_build_daemon m path q b =
     (if path = ''/images/json''
      then Some (200, Doc (JArr [JObj [(''Id'', JStr ''sha256:abc''), (''RepoTags'', JArr [JStr ''bob:1''])]]))
      else None)"

definition demo_snapshot :: imageSnapshot where
  "demo_snapshot = \<lparr>idSet = [''abc''], tagToID = [(''bob:1'', ''abc'')]\<rparr>"

lemma demo_build_facts:
  "snapshotImageState demo_build_daemon = Some demo_snapshot"
  "GetImageOwner demo_image_db ''abc'' =
     Some (\<lparr>oiUsername = ''bob'', oiUID = 1001, oiGID = 1001, oiSource = ''load''\<rparr>, False, 0)"
  "\<not> CanUseImage demo_image_db 1000 ''abc''" "normalizeImageID ''abc'' = ''abc''"
  by code_simp+

theorem build_grants_foreign_images_witness:
  "\<not> CanUseImage demo_image_db 1000 ''abc'' \<and>
   CanUseImage (wDB (hijack_closed demo_build_daemon (demo_caller 1000 ''alice'') (Some demo_snapshot)
     (demo_world demo_image_db))) 1000 ''abc''"
proof -
  have "''abc'' \<in> set (map iId (tImages demo_image_db))" by (simp add: demo_pull_facts(6))
  then obtain row where "row \<in> set (tImages demo_image_db)" "iId row = ''abc''" by auto
  then show ?thesis
    using build_grants_foreign_images [OF demo_build_facts(1), of "''bob:1''" "''abc''" demo_snapshot
        "demo_world demo_image_db" _ _ _ "demo_caller 1000 ''alice''"]
      demo_build_facts(2-4) demo_image_db_reachable reachable_inv(1)
    by (simp add: demo_snapshot_def)
qed

end
