(* ===== verification/PruneProps.thy ===== *)
theory PruneProps
  imports ProxyState
begin

text \<open>
  Properties of the prune requests: what a prune of an unprivileged user deletes belongs to that
  user, and the records of everybody else are the same afterwards.
\<close>

section \<open>Records of other users\<close>

text \<open>
  The records that a prune of a user must not touch: those of other users and, for containers,
  networks and volumes, those that the user created in a sudo session.
\<close>

definition foreign :: "int \<Rightarrow> OwnershipDB \<Rightarrow> container_row list \<times> image_row list \<times> network_row list \<times> volume_row list" where
  "foreign uid db =
     (filter (\<lambda>r. cOwnerUID r \<noteq> uid \<or> cPrivCtx r \<noteq> 0) (tContainers db),
      filter (\<lambda>r. iOwnerUID r \<noteq> uid) (tImages db),
      filter (\<lambda>r. nOwnerUID r \<noteq> uid \<or> nPrivCtx r \<noteq> 0) (tNetworks db),
      filter (\<lambda>r. vOwnerUID r \<noteq> uid \<or> vPrivCtx r \<noteq> 0) (tVolumes db))"

text \<open>A name under which only records of the user are found.\<close>

definition own_container :: "int \<Rightarrow> OwnershipDB \<Rightarrow> string \<Rightarrow> bool" where
  "own_container uid db n \<longleftrightarrow> (\<forall>r \<in> set (tContainers db). cId r = n \<longrightarrow> cOwnerUID r = uid \<and> cPrivCtx r = 0)"

definition own_network :: "int \<Rightarrow> OwnershipDB \<Rightarrow> string \<Rightarrow> bool" where
  "own_network uid db n \<longleftrightarrow> (\<forall>r \<in> set (tNetworks db). nId r = n \<longrightarrow> nOwnerUID r = uid \<and> nPrivCtx r = 0)"

definition own_volume :: "int \<Rightarrow> OwnershipDB \<Rightarrow> string \<Rightarrow> bool" where
  "own_volume uid db n \<longleftrightarrow> (\<forall>r \<in> set (tVolumes db). vName r = n \<longrightarrow> vOwnerUID r = uid \<and> vPrivCtx r = 0)"

lemmas own_defs = own_container_def own_network_def own_volume_def

lemma query_own:
  assumes "query_stmt m k db (map key (filter P t)) = Inr ns" "unique_key key t" "n \<in> set ns" "r \<in> set t" "key r = n"
  shows "P r"
proof -
  have "ns = map key (filter P t)" using assms(1) by (simp add: query_stmt_def split: if_splits)
  then obtain r' where r': "r' \<in> set t" "P r'" "key r' = n" using assms(3) by auto
  have "inj_on key (set t)" using assms(2) by (simp add: unique_key_def distinct_map)
  then show ?thesis using r' assms(4,5) by (metis inj_onD)
qed

lemma listed_own:
  assumes "keys_inv db"
  shows "GetContainerIDsByOwner db uid = Inr ns \<Longrightarrow> \<forall>n \<in> set ns. own_container uid db n"
    "GetNetworkIDsByOwner db uid = Inr ns \<Longrightarrow> \<forall>n \<in> set ns. own_network uid db n"
    "GetVolumeNamesByOwner db uid = Inr ns \<Longrightarrow> \<forall>n \<in> set ns. own_volume uid db n"
  unfolding GetContainerIDsByOwner_def GetNetworkIDsByOwner_def GetVolumeNamesByOwner_def own_defs
  using assms unfolding keys_inv_def by (blast dest: query_own)+

lemma filter_deleted:
  "(\<And>r. r \<in> set t \<Longrightarrow> Q r \<Longrightarrow> \<not> P r) \<Longrightarrow> filter P (delete_where Q t) = filter P t"
  by (auto simp: delete_where_def intro!: filter_cong)

section \<open>One deletion\<close>

lemma delete_container_foreign:
  assumes "own_container uid (wDB w) n"
  shows "foreign uid (wDB (forget_container n w)) = foreign uid (wDB w)"
    "own_container uid (wDB w) m \<Longrightarrow> own_container uid (wDB (forget_container n w)) m"
  using assms
  by (auto simp: forget_container_def write_db_def ReleasePortMappings_def DeleteContainer_def exec_stmt_def foreign_def
      own_defs intro!: filter_deleted) (auto simp: delete_where_def)

lemma delete_network_foreign:
  assumes "own_network uid db n"
  shows "foreign uid (snd (DeleteNetwork n db)) = foreign uid db"
    "own_network uid db m \<Longrightarrow> own_network uid (snd (DeleteNetwork n db)) m"
  using assms
  by (auto simp: DeleteNetwork_def exec_stmt_def foreign_def own_defs intro!: filter_deleted)
    (auto simp: delete_where_def)

lemma delete_volume_foreign:
  assumes "own_volume uid db n"
  shows "foreign uid (snd (DeleteVolume n db)) = foreign uid db"
    "own_volume uid db m \<Longrightarrow> own_volume uid (snd (DeleteVolume n db)) m"
  using assms
  by (auto simp: DeleteVolume_def exec_stmt_def foreign_def own_defs intro!: filter_deleted)
    (auto simp: delete_where_def)

text \<open>For images the record itself is asked, immediately before the deletion.\<close>

definition named_images :: "OwnershipDB \<Rightarrow> bool" where
  "named_images db \<longleftrightarrow> (\<forall>r \<in> set (tImages db). iId r \<noteq> [])"

lemma delete_image_db:
  assumes "no_faults db"
  shows "no_faults (snd (DeleteImage img db)) \<and>
    set (tImages (snd (DeleteImage img db))) \<subseteq> set (tImages db) \<and>
    tContainers (snd (DeleteImage img db)) = tContainers db \<and> tNetworks (snd (DeleteImage img db)) = tNetworks db \<and>
    tVolumes (snd (DeleteImage img db)) = tVolumes db"
  using assms by (auto simp: DeleteImage_def exec_stmt_def no_faults_def Let_def delete_where_def)

definition deleted_id :: "OwnershipDB \<Rightarrow> string \<Rightarrow> string" where
  "deleted_id db img =
     (if resolveImageIDInDB db img \<noteq> [] then resolveImageIDInDB db img else normalizeImageID img)"

lemma delete_image_rows:
  "no_faults db \<Longrightarrow> tImages (snd (DeleteImage img db)) = filter (\<lambda>r. iId r \<noteq> deleted_id db img) (tImages db)"
  by (simp add: DeleteImage_def exec_stmt_def no_faults_def Let_def delete_where_def deleted_id_def)

lemma deleted_image_own:
  assumes "no_faults db" "keys_inv db" "named_images db" "\<not> image_of_other db uid img"
    "r \<in> set (tImages db)" "iId r = deleted_id db img"
  shows "iOwnerUID r = uid"
proof -
  let ?res = "resolveImageIDInDB db img"
  have nf: "\<And>m n. \<not> dbFault db m n" using assms(1) by (simp add: no_faults_def)
  have u: "find (\<lambda>x. iId x = iId r) (tImages db) = Some r" "iId r \<noteq> []"
    using find_unique [OF _ assms(5), of iId] assms(2,3,5) by (auto simp: keys_inv_def named_images_def)
  show ?thesis
  proof (cases "?res = []")
    case True
    then have "iId r = normalizeImageID img" using assms(6) by (simp add: deleted_id_def)
    then show ?thesis using True u by (simp add: resolveImageIDInDB_def query_row_def nf)
  next
    case False
    then have "find (\<lambda>x. iId x = ?res) (tImages db) = Some r" using u assms(6) by (simp add: deleted_id_def)
    then show ?thesis
      using assms(4) False by (simp add: image_of_other_def GetImageOwner_def query_row_def nf Let_def)
  qed
qed

lemma delete_image_foreign:
  assumes "no_faults db" "keys_inv db" "named_images db" "\<not> image_of_other db uid img"
  shows "foreign uid (snd (DeleteImage img db)) = foreign uid db"
  using deleted_image_own [OF assms] delete_image_rows [OF assms(1), of img] delete_image_db [OF assms(1), of img]
  by (auto simp: foreign_def intro!: filter_cong)

section \<open>The loops\<close>

lemma noted_world [simp]: "wDB (note_pruned k e w) = wDB w"
  by (simp add: note_pruned_def)

lemma prune_containers_foreign:
  "\<forall>n \<in> set ns. own_container uid (wDB w) n \<Longrightarrow>
   foreign uid (wDB (snd (snd (prune_containers d i b ns w)))) = foreign uid (wDB w)"
proof (induction d i b ns w rule: prune_containers.induct)
  case (2 d i b n ns w)
  let ?w1 = "if b then note_pruned (''container:'' @ n) \<lparr>ownerUID = RealUID i, poPrivCtx = 0\<rparr> w else w"
  have "wDB ?w1 = wDB w" by simp
  then have "foreign uid (wDB (forget_container n ?w1)) = foreign uid (wDB w)"
    "\<forall>m \<in> set ns. own_container uid (wDB (forget_container n ?w1)) m"
    using delete_container_foreign [of uid ?w1 n] 2(3) by simp_all
  then show ?case using 2 by (auto simp: Let_def split: prod.split)
qed simp

lemma prune_networks_foreign:
  "\<forall>n \<in> set ns. own_network uid (wDB w) n \<Longrightarrow>
   foreign uid (wDB (snd (snd (prune_networks d ns w)))) = foreign uid (wDB w)"
proof (induction d ns w rule: prune_networks.induct)
  case (2 d n ns w)
  then show ?case
    using delete_network_foreign [of uid "wDB w" n] by (auto simp: write_db_def split: prod.split)
qed simp

lemma prune_volumes_foreign:
  "\<forall>n \<in> set ns. own_volume uid (wDB w) n \<Longrightarrow>
   foreign uid (wDB (snd (snd (prune_volumes d i fs ns w)))) = foreign uid (wDB w)"
proof (induction d i fs ns w rule: prune_volumes.induct)
  case (2 d i fs n ns w)
  then show ?case
    using delete_volume_foreign [of uid "wDB w" n] by (auto simp: write_db_def Let_def split: prod.split)
qed simp

lemma prune_own_volumes_foreign:
  "\<forall>n \<in> set ns. own_volume uid (wDB w) n \<Longrightarrow>
   foreign uid (wDB (snd (snd (prune_own_volumes d i ns w)))) = foreign uid (wDB w)"
proof (induction d i ns w rule: prune_own_volumes.induct)
  case (2 d i n ns w)
  then show ?case
    using delete_volume_foreign [of uid "wDB w" n] by (auto simp: write_db_def split: prod.split)
qed simp

lemma image_deleted:
  assumes "no_faults (wDB w)" "keys_inv (wDB w)" "named_images (wDB w)"
  shows "no_faults (wDB (write_db (DeleteImage img) (note_pruned k e w)))"
    "keys_inv (wDB (write_db (DeleteImage img) (note_pruned k e w)))"
    "named_images (wDB (write_db (DeleteImage img) (note_pruned k e w)))"
  using delete_image_db [OF assms(1), of img] assms(2,3)
  by (auto simp: write_db_def named_images_def intro: keyed_db.method_keeps)

lemma prune_images_foreign:
  assumes "no_faults (wDB w)" "keys_inv (wDB w)" "named_images (wDB w)"
  shows "foreign (RealUID i) (wDB (snd (snd (prune_images d i b imgs w)))) = foreign (RealUID i) (wDB w)"
  using assms
proof (induction d i b imgs w rule: prune_images.induct)
  case (2 d i b img imgs w)
  let ?w1 = "write_db (DeleteImage img) (note_pruned (''image:'' @ img)
      \<lparr>ownerUID = RealUID i, poPrivCtx = image_priv_ctx (wDB w) img\<rparr> w)"
  have "\<not> image_of_other (wDB w) (RealUID i) img \<Longrightarrow> foreign (RealUID i) (wDB ?w1) = foreign (RealUID i) (wDB w)"
    using delete_image_foreign [OF 2(5-7)] by (simp add: write_db_def)
  then show ?case using 2 image_deleted [OF 2(5-7)] by (auto simp: Let_def split: prod.split option.split)
qed simp

section \<open>The requests\<close>

lemma prune_containers_state:
  "no_faults (wDB w) \<Longrightarrow> no_faults (wDB (snd (snd (prune_containers d i b ns w)))) \<and>
    tImages (wDB (snd (snd (prune_containers d i b ns w)))) = tImages (wDB w)"
proof (induction d i b ns w rule: prune_containers.induct)
  case (2 d i b n ns w)
  let ?w1 = "if b then note_pruned (''container:'' @ n) \<lparr>ownerUID = RealUID i, poPrivCtx = 0\<rparr> w else w"
  have "no_faults (wDB (forget_container n ?w1)) \<and> tImages (wDB (forget_container n ?w1)) = tImages (wDB w)"
    using 2(3) by (simp add: forget_container_def write_db_def ReleasePortMappings_def DeleteContainer_def exec_stmt_def
        no_faults_def)
  then show ?case using 2 by (auto simp: Let_def split: prod.split)
qed simp

lemma listed_foreign:
  assumes "keys_inv (wDB w)"
  shows "foreign uid (wDB (snd (snd (case GetContainerIDsByOwner (wDB w) uid of
      Inl _ \<Rightarrow> ([], [], w) | Inr ids \<Rightarrow> prune_containers d i b ids w)))) = foreign uid (wDB w)"
    "foreign uid (wDB (snd (snd (case GetNetworkIDsByOwner (wDB w) uid of
      Inl _ \<Rightarrow> ([], [], w) | Inr ids \<Rightarrow> prune_networks d ids w)))) = foreign uid (wDB w)"
    "foreign uid (wDB (snd (snd (case GetVolumeNamesByOwner (wDB w) uid of
      Inl _ \<Rightarrow> ([], [], w) | Inr vols \<Rightarrow> prune_own_volumes d i vols w)))) = foreign uid (wDB w)"
  using listed_own [OF assms, of uid]
  by (auto simp: prune_containers_foreign prune_networks_foreign prune_own_volumes_foreign split: sum.split)

lemma system_prune_foreign:
  assumes "\<not> IsPrivileged i" "no_faults (wDB w)" "keys_inv (wDB w)" "named_images (wDB w)"
  shows "foreign (RealUID i) (wDB (snd (snd (handleSystemPrune p i w)))) = foreign (RealUID i) (wDB w)"
proof -
  let ?d = "pxDaemon p" and ?u = "RealUID i"
  define w1 where w1: "w1 = snd (snd (case GetContainerIDsByOwner (wDB w) ?u of
      Inl _ \<Rightarrow> ([], [], w) | Inr ids \<Rightarrow> prune_containers ?d i False ids w))"
  define w2 where w2: "w2 = snd (snd (case dangling_images ?d of
      None \<Rightarrow> ([], [], w1) | Some imgs \<Rightarrow> prune_images ?d i False imgs w1))"
  define w3 where w3: "w3 = snd (snd (case GetNetworkIDsByOwner (wDB w2) ?u of
      Inl _ \<Rightarrow> ([], [], w2) | Inr ids \<Rightarrow> prune_networks ?d ids w2))"
  have k1: "keys_inv (wDB w1)" using assms(3) by (simp add: w1 keyed_db.prune_containers_keeps split: sum.split)
  then have k2: "keys_inv (wDB w2)" by (simp add: w2 keyed_db.prune_images_keeps split: option.split)
  then have k3: "keys_inv (wDB w3)" by (simp add: w3 keyed_db.prune_networks_keeps split: sum.split)
  have s1: "no_faults (wDB w1)" "named_images (wDB w1)"
    using prune_containers_state [OF assms(2)] assms(2,4) by (simp_all add: w1 named_images_def split: sum.split)
  have "foreign ?u (wDB w2) = foreign ?u (wDB w1)"
    using prune_images_foreign [OF s1(1) k1 s1(2)] by (simp add: w2 split: option.split)
  moreover have "snd (snd (handleSystemPrune p i w)) = snd (snd (case GetVolumeNamesByOwner (wDB w3) ?u of
      Inl _ \<Rightarrow> ([], [], w3) | Inr vols \<Rightarrow> prune_own_volumes ?d i vols w3))"
    unfolding handleSystemPrune_def Let_def case_prod_beta w1 w2 w3 using assms(1) by simp
  ultimately show ?thesis
    using listed_foreign(1) [OF assms(3), of ?u ?d i False] listed_foreign(2) [OF k2, of ?u ?d]
      listed_foreign(3) [OF k3, of ?u ?d i]
    by (simp flip: w1 w3)
qed


definition demo_prune_db :: OwnershipDB where
  "demo_prune_db =
     snd (SetVolumeOwner ''user-1001-volume-b'' (demo_caller 1001 ''bob'')
       (snd (SetVolumeOwner ''user-1000-volume-a'' (demo_caller 1000 ''alice'')
         (snd (SetContainerOwner ''c2'' (demo_caller 1001 ''bob'') []
           (snd (SetContainerOwner ''c1'' (demo_caller 1000 ''alice'') [] (emptyDB (\<lambda>_ _. False)))))))))"

definition demo_deletes :: daemon where
  "demo_deletes m path q b = (if m = ''DELETE'' then Some (204, Raw []) else Some (200, Doc (JArr [])))"

lemma demo_prune_facts:
  "no_faults demo_prune_db" "keys_inv demo_prune_db" "named_images demo_prune_db"
  "map cId (tContainers demo_prune_db) = [''c1'', ''c2'']"
  "map cId (tContainers (wDB (snd (serve_prune (demo_proxy demo_deletes) (demo_caller 1000 ''alice'')
     (demo_request ''POST'' ''/system/prune'' no_body) (demo_world demo_prune_db))))) = [''c2'']"
proof -
  have "no_faults (emptyDB (\<lambda>_ _. False))" by (simp add: no_faults_def emptyDB_def)
  then show "no_faults demo_prune_db"
    by (simp add: demo_prune_db_def SetVolumeOwner_def SetContainerOwner_def exec_stmt_def no_faults_def)
  have "db_reachable demo_prune_db" unfolding demo_prune_db_def by (intro reachable_db.method_keeps reachable_empty)
  then show "keys_inv demo_prune_db" by (simp add: reachable_inv)
  show "named_images demo_prune_db"
    by (simp add: named_images_def demo_prune_db_def SetVolumeOwner_def SetContainerOwner_def exec_stmt_def emptyDB_def)
qed code_simp+


section \<open>The requests to the daemon\<close>

lemma prune_calls:
  "set (fst (prune_containers d i b ns w)) \<subseteq> container_path ` set ns"
  "set (fst (prune_volumes d i fs ns w)) \<subseteq> volume_path ` set ns"
  "set (fst (prune_own_volumes d i ns w)) \<subseteq> volume_path ` set ns"
  "set (fst (prune_networks d ns w)) \<subseteq> network_path ` set ns"
  by (induction ns arbitrary: w) (simp_all add: Let_def case_prod_beta le_supI1 le_supI2 subset_insertI2)

text \<open>An image that is recorded for another user stays so while records of the caller are removed.\<close>

lemma find_kept: "find P t = Some x \<Longrightarrow> Q x \<Longrightarrow> find P (filter Q t) = Some x"
  by (induction t) (auto split: if_splits)

lemma find_none_kept: "find P t = None \<Longrightarrow> find P (filter Q t) = None"
  by (induction t) (auto split: if_splits)

lemma other_image_kept:
  assumes "no_faults db" "no_faults db'" "keys_inv db" "tImages db' = filter Q (tImages db)"
    "\<And>r. r \<in> set (tImages db) \<Longrightarrow> iOwnerUID r \<noteq> uid \<Longrightarrow> Q r" "image_of_other db uid img"
  shows "image_of_other db' uid img"
proof -
  have q: "query_row m n db v = v" "query_row m n db' v = v" for m n v
    using assms(1,2) by (simp_all add: query_row_def no_faults_def)
  let ?res = "resolveImageIDInDB db img"
  obtain r where r: "find (\<lambda>x. iId x = ?res) (tImages db) = Some r" "iOwnerUID r \<noteq> uid" "?res \<noteq> []"
    using assms(6) by (auto simp: image_of_other_def GetImageOwner_def q Let_def split: option.splits if_splits)
  have mem: "r \<in> set (tImages db)" "iId r = ?res" "Q r" using find_Some_iff [OF r(1)] assms(5) r(2) by auto
  have kept: "find P (tImages db') = Some r" if "find P (tImages db) = Some r1" "iId r1 = ?res" for P r1
  proof -
    have "find (\<lambda>x. iId x = ?res) (tImages db) = Some r1"
      using find_unique [of iId "tImages db" r1] assms(3) find_Some_iff [OF that(1)] that(2) by (simp add: keys_inv_def)
    then show ?thesis using that(1) r(1) find_kept [of P "tImages db" r Q] mem(3) assms(4) by simp
  qed
  have "resolveImageIDInDB db' img = ?res"
  proof (cases "find (\<lambda>x. iId x = normalizeImageID img) (tImages db)")
    case (Some r1)
    then have "iId r1 = ?res" by (simp add: resolveImageIDInDB_def q)
    then show ?thesis using kept [OF Some] mem(2) by (simp add: resolveImageIDInDB_def q)
  next
    case None
    then have n': "find (\<lambda>x. iId x = normalizeImageID img) (tImages db') = None"
      by (simp add: assms(4) find_none_kept)
    let ?s = "take 12 (normalizeImageID img)"
    obtain r1 where r1: "length (normalizeImageID img) \<ge> 12 \<and> list_all is_hex ?s"
      "find (\<lambda>x. iId x = ?s \<or> like_prefix (iId x) ?s) (tImages db) = Some r1"
      using r(3) None by (auto simp: resolveImageIDInDB_def q Let_def split: if_splits option.splits)
    then have "iId r1 = ?res" using None by (simp add: resolveImageIDInDB_def q)
    then show ?thesis using kept [OF r1(2)] n' r1(1) mem(2) by (simp add: resolveImageIDInDB_def q)
  qed
  then show ?thesis using kept [OF r(1)] r mem(2) by (simp add: image_of_other_def GetImageOwner_def q)
qed

lemma prune_images_calls:
  assumes "no_faults (wDB w)" "keys_inv (wDB w)" "named_images (wDB w)"
  shows "set (fst (prune_images d i b imgs w)) \<subseteq> image_path ` {img \<in> set imgs. \<not> image_of_other (wDB w) (RealUID i) img}"
  using assms
proof (induction imgs arbitrary: w)
  case (Cons img imgs)
  let ?w1 = "write_db (DeleteImage img) (note_pruned (''image:'' @ img)
      \<lparr>ownerUID = RealUID i, poPrivCtx = image_priv_ctx (wDB w) img\<rparr> w)"
  let ?own = "\<lambda>w. {img \<in> set imgs. \<not> image_of_other (wDB w) (RealUID i) img}"
  have mono: "?own ?w1 \<subseteq> ?own w" if "\<not> image_of_other (wDB w) (RealUID i) img"
    using other_image_kept [OF Cons.prems(1) _ Cons.prems(2), of "wDB ?w1" _ "RealUID i"]
      deleted_image_own [OF Cons.prems that] delete_image_rows [OF Cons.prems(1), of img] image_deleted(1) [OF Cons.prems]
    by (auto simp: write_db_def)
  have "set (fst (prune_images d i b imgs ?w1)) \<subseteq> image_path ` ?own w" if "\<not> image_of_other (wDB w) (RealUID i) img"
    using Cons.IH [OF image_deleted [OF Cons.prems]] mono [OF that] by (meson image_mono order_trans)
  moreover have "fst (prune_images d i b (img # imgs) w) =
      (if image_of_other (wDB w) (RealUID i) img then fst (prune_images d i b imgs w)
       else image_path img # fst (prune_images d i b imgs
         (case d ''DELETE'' (image_path img) [] no_body of None \<Rightarrow> w | Some (status, _) \<Rightarrow> if status = 200 then ?w1 else w)))"
    by (simp add: Let_def case_prod_beta split: option.split)
  ultimately show ?case
    using Cons.IH [OF Cons.prems] by (auto split: option.split if_splits prod.split)
qed simp

text \<open>The resources a prune may name: records of the caller, and images that are not recorded for anybody else.\<close>

definition own_resources :: "OwnershipDB \<Rightarrow> int \<Rightarrow> string set" where
  "own_resources db uid =
     (\<lambda>r. container_path (cId r)) ` {r \<in> set (tContainers db). cOwnerUID r = uid \<and> cPrivCtx r = 0} \<union>
     (\<lambda>r. network_path (nId r)) ` {r \<in> set (tNetworks db). nOwnerUID r = uid \<and> nPrivCtx r = 0} \<union>
     (\<lambda>r. volume_path (vName r)) ` {r \<in> set (tVolumes db). vOwnerUID r = uid \<and> vPrivCtx r = 0}"

definition prunable :: "OwnershipDB \<Rightarrow> int \<Rightarrow> string set" where
  "prunable db uid =
     own_resources db uid \<union>
     image_path ` {img. \<forall>owner pub pc. GetImageOwner db img = Some (owner, pub, pc) \<longrightarrow> oiUID owner = uid}"

lemma not_of_other:
  "\<not> image_of_other db uid img \<longleftrightarrow> (\<forall>owner pub pc. GetImageOwner db img = Some (owner, pub, pc) \<longrightarrow> oiUID owner = uid)"
  by (auto simp: image_of_other_def split: option.split)

lemma listed_calls:
  "GetContainerIDsByOwner db uid = Inr ns \<Longrightarrow> container_path ` set ns \<subseteq> own_resources db uid"
  "GetNetworkIDsByOwner db uid = Inr ns \<Longrightarrow> tNetworks db = tNetworks db' \<Longrightarrow> network_path ` set ns \<subseteq> own_resources db' uid"
  "GetVolumeNamesByOwner db uid = Inr ns \<Longrightarrow> tVolumes db = tVolumes db' \<Longrightarrow> volume_path ` set ns \<subseteq> own_resources db' uid"
  by (auto simp: GetContainerIDsByOwner_def GetNetworkIDsByOwner_def GetVolumeNamesByOwner_def query_stmt_def
      own_resources_def split: if_splits)

text \<open>Only the tables a loop is about change in it.\<close>

lemma prune_containers_other_tables:
  "tNetworks (wDB (snd (snd (prune_containers d i b ns w)))) = tNetworks (wDB w) \<and>
   tVolumes (wDB (snd (snd (prune_containers d i b ns w)))) = tVolumes (wDB w) \<and>
   tImages (wDB (snd (snd (prune_containers d i b ns w)))) = tImages (wDB w) \<and>
   dbFault (wDB (snd (snd (prune_containers d i b ns w)))) = dbFault (wDB w)"
  by (induction ns arbitrary: w)
    (simp_all add: Let_def case_prod_beta forget_container_def write_db_def ReleasePortMappings_def DeleteContainer_def
      exec_stmt_def)

lemma prune_images_other_tables:
  "tNetworks (wDB (snd (snd (prune_images d i b imgs w)))) = tNetworks (wDB w) \<and>
   tVolumes (wDB (snd (snd (prune_images d i b imgs w)))) = tVolumes (wDB w)"
proof -
  have "tNetworks (snd (DeleteImage img db)) = tNetworks db" "tVolumes (snd (DeleteImage img db)) = tVolumes db" for img db
    by (simp_all add: DeleteImage_def exec_stmt_def Let_def)
  then show ?thesis
    by (induction d i b imgs w rule: prune_images.induct)
      (auto simp: Let_def write_db_def split: option.split prod.split)
qed

lemma prune_networks_volumes: "tVolumes (wDB (snd (snd (prune_networks d ns w)))) = tVolumes (wDB w)"
  by (induction ns arbitrary: w) (simp_all add: case_prod_beta write_db_def DeleteNetwork_def exec_stmt_def)

definition prune_requests :: "proxy \<Rightarrow> CallerIdentity \<Rightarrow> request \<Rightarrow> world \<Rightarrow> string list" where
  "prune_requests p i r w =
     fst (handleVolumePrune p i r w) @ fst (handleContainerPrune p i w) @ fst (handleImagePrune p i w) @
     fst (handleNetworkPrune p i w) @ fst (handleSystemPrune p i w)"

lemma stage_calls:
  "set (fst (case GetContainerIDsByOwner db uid of
      Inl _ \<Rightarrow> ([], [], w) | Inr ids \<Rightarrow> prune_containers d i b ids w)) \<subseteq> own_resources db uid"
  "tNetworks db = tNetworks db' \<Longrightarrow> set (fst (case GetNetworkIDsByOwner db uid of
      Inl _ \<Rightarrow> ([], [], w) | Inr ids \<Rightarrow> prune_networks d ids w)) \<subseteq> own_resources db' uid"
  "tVolumes db = tVolumes db' \<Longrightarrow> set (fst (case GetVolumeNamesByOwner db uid of
      Inl _ \<Rightarrow> ([], [], w) | Inr vols \<Rightarrow> prune_own_volumes d i vols w)) \<subseteq> own_resources db' uid"
  "set (fst (case GetVolumeNamesByOwner db uid of
      Inl _ \<Rightarrow> ([], [], w) | Inr vols \<Rightarrow> prune_volumes d i fs vols w)) \<subseteq> own_resources db uid"
  using order_trans [OF prune_calls(1) listed_calls(1)] order_trans [OF prune_calls(4) listed_calls(2)]
    order_trans [OF prune_calls(3) listed_calls(3)] order_trans [OF prune_calls(2) listed_calls(3)]
  by (simp_all split: sum.split)

lemma images_stage_calls:
  assumes "no_faults (wDB w)" "keys_inv (wDB w)" "named_images (wDB w)" "no_faults db" "tImages (wDB w) = tImages db"
  shows "set (fst (case dangling_images d of None \<Rightarrow> ([], [], w) | Some imgs \<Rightarrow> prune_images d i b imgs w)) \<subseteq>
    prunable db (RealUID i)"
proof -
  have "image_of_other (wDB w) (RealUID i) = image_of_other db (RealUID i)"
    using GetImageOwner_images [OF assms(4,1,5)] by (simp add: image_of_other_def fun_eq_iff)
  moreover have "image_path ` {img. \<not> image_of_other db (RealUID i) img} \<subseteq> prunable db (RealUID i)"
    unfolding not_of_other prunable_def by blast
  ultimately show ?thesis
    using prune_images_calls [OF assms(1-3), of d i b] by (cases "dangling_images d") fastforce+
qed

lemma system_prune_calls:
  assumes "\<not> IsPrivileged i" "no_faults (wDB w)" "keys_inv (wDB w)" "named_images (wDB w)"
  shows "set (fst (handleSystemPrune p i w)) \<subseteq> prunable (wDB w) (RealUID i)"
proof -
  let ?d = "pxDaemon p" and ?u = "RealUID i"
  define x1 where x1: "x1 = (case GetContainerIDsByOwner (wDB w) ?u of
      Inl _ \<Rightarrow> ([], [], w) | Inr ids \<Rightarrow> prune_containers ?d i False ids w)"
  let ?w1 = "snd (snd x1)"
  define x2 where x2: "x2 = (case dangling_images ?d of
      None \<Rightarrow> ([], [], ?w1) | Some imgs \<Rightarrow> prune_images ?d i False imgs ?w1)"
  let ?w2 = "snd (snd x2)"
  define x3 where x3: "x3 = (case GetNetworkIDsByOwner (wDB ?w2) ?u of
      Inl _ \<Rightarrow> ([], [], ?w2) | Inr ids \<Rightarrow> prune_networks ?d ids ?w2)"
  let ?w3 = "snd (snd x3)"
  have t1: "tNetworks (wDB ?w1) = tNetworks (wDB w)" "tVolumes (wDB ?w1) = tVolumes (wDB w)"
    "tImages (wDB ?w1) = tImages (wDB w)" "dbFault (wDB ?w1) = dbFault (wDB w)"
    using prune_containers_other_tables by (simp_all add: x1 split: sum.split)
  have t2: "tNetworks (wDB ?w2) = tNetworks (wDB w)" "tVolumes (wDB ?w2) = tVolumes (wDB w)"
    using prune_images_other_tables t1 by (simp_all add: x2 split: option.split)
  have t3: "tVolumes (wDB ?w3) = tVolumes (wDB w)"
    using prune_networks_volumes t2 by (simp add: x3 split: sum.split)
  have k1: "keys_inv (wDB ?w1)" "no_faults (wDB ?w1)" "named_images (wDB ?w1)"
    using assms t1 by (simp_all add: x1 keyed_db.prune_containers_keeps no_faults_def named_images_def split: sum.split)
  have "set (fst x1) \<subseteq> prunable (wDB w) ?u"
    using stage_calls(1) [of w ?d i False "wDB w" ?u] by (auto simp: prunable_def simp flip: x1)
  moreover have "set (fst x2) \<subseteq> prunable (wDB w) ?u"
    using images_stage_calls [OF k1(2,1,3) assms(2) t1(3), of ?d i False] by (simp flip: x2)
  moreover have "set (fst x3) \<subseteq> prunable (wDB w) ?u"
    using stage_calls(2) [OF t2(1), of ?w2 ?d ?u] by (auto simp: prunable_def simp flip: x3)
  moreover have "fst (handleSystemPrune p i w) = fst x1 @ fst x2 @ fst x3 @ fst (case GetVolumeNamesByOwner (wDB ?w3) ?u of
      Inl _ \<Rightarrow> ([], [], ?w3) | Inr vols \<Rightarrow> prune_own_volumes ?d i vols ?w3)"
    unfolding handleSystemPrune_def Let_def case_prod_beta x1 x2 x3 using assms(1) by simp
  ultimately show ?thesis
    using stage_calls(3) [OF t3, of ?w3 ?d i ?u] by (auto simp: prunable_def)
qed

text \<open>
  C3. The requests to delete something that the five prune handlers send for an unprivileged user
  name only containers, networks and volumes that are recorded for that user outside a sudo
  session, and images that are recorded for nobody else.
\<close>

theorem prune_requests_own:
  assumes "\<not> IsPrivileged i" "no_faults (wDB w)" "keys_inv (wDB w)" "named_images (wDB w)"
  shows "set (prune_requests p i r w) \<subseteq> prunable (wDB w) (RealUID i)"
proof -
  let ?u = "RealUID i" and ?d = "pxDaemon p"
  have "set (fst (handleVolumePrune p i r w)) \<subseteq> prunable (wDB w) ?u"
    using assms(1) stage_calls(4) [of w ?d i _ "wDB w" ?u]
    by (auto simp: handleVolumePrune_def case_prod_beta prunable_def split: option.splits sum.splits) blast
  moreover have "set (fst (handleContainerPrune p i w)) \<subseteq> prunable (wDB w) ?u"
    using stage_calls(1) [of w ?d i True "wDB w" ?u]
    by (auto simp: handleContainerPrune_def case_prod_beta prunable_def split: sum.splits)
  moreover have "set (fst (handleImagePrune p i w)) \<subseteq> prunable (wDB w) ?u"
    using images_stage_calls [OF assms(2-4,2) refl, of ?d i True]
    by (auto simp: handleImagePrune_def case_prod_beta split: option.splits)
  moreover have "set (fst (handleNetworkPrune p i w)) \<subseteq> prunable (wDB w) ?u"
    using stage_calls(2) [of "wDB w" "wDB w" w ?d ?u]
    by (auto simp: handleNetworkPrune_def case_prod_beta prunable_def split: sum.splits)
  ultimately show ?thesis using system_prune_calls [OF assms] by (auto simp: prune_requests_def)
qed

theorem prune_requests_own_witness:
  "set (prune_requests (demo_proxy demo_deletes) (demo_caller 1000 ''alice'')
     (demo_request ''POST'' ''/system/prune'' no_body) (demo_world demo_prune_db)) \<subseteq> prunable demo_prune_db 1000 \<and>
   fst (handleSystemPrune (demo_proxy demo_deletes) (demo_caller 1000 ''alice'') (demo_world demo_prune_db)) =
     [''/containers/c1'', ''/volumes/user-1000-volume-a'']"
proof
  show "set (prune_requests (demo_proxy demo_deletes) (demo_caller 1000 ''alice'')
     (demo_request ''POST'' ''/system/prune'' no_body) (demo_world demo_prune_db)) \<subseteq> prunable demo_prune_db 1000"
    using prune_requests_own [of "demo_caller 1000 ''alice''" "demo_world demo_prune_db"] demo_prune_facts by simp
qed code_simp

end
