(* ===== verification/RecordProps.thy ===== *)
theory RecordProps
  imports ProxyState
begin

text \<open>
  Properties of what is recorded: the container that a request creates and its name, the images
  that a load brings in, and the records of shared networks.
\<close>

section \<open>Names of containers\<close>

lemma map_of_filter_key: "map_of (filter (\<lambda>p. fst p = k) xs) k = map_of xs k"
  by (induction xs) auto

lemma map_of_sort: "map_of (sort_key fst q) k = map_of q k"
  by (metis map_of_filter_key sort_key_stable)

lemma query_get_set: "query_get (query_set k v q) k' = (if k' = k then v else query_get q k')"
proof -
  have "map_of (filter (\<lambda>p. fst p \<noteq> k) q) k' = (if k' = k then None else map_of q k')" by (induction q) auto
  then show ?thesis by (simp add: query_get_def query_set_def map_of_sort map_add_def split: option.split)
qed

lemma query_get_encode: "query_get (url_values (Values_Encode q)) k = query_get q k"
  by (simp add: url_values_encode query_get_def map_of_sort)

lemma prefix_name_param:
  assumes "query_param r ''name'' = n" "n \<noteq> []" "\<not> has_prefix n (UserContainerPrefix (RealUID i))"
  shows "query_param (prefix_name i r) k =
    (if k = ''name'' then UserContainerPrefix (RealUID i) @ n else query_param r k)"
  using assms by (simp add: prefix_name_def query_param_def url_query_def query_get_encode query_get_set)

text \<open>
  C11. The name that an unprivileged user gives to a new container reaches the daemon with the
  user's prefix, through the encoding of the query and back: the daemon reads the prefix followed
  by the name, every other parameter reads as before, and what the proxy shows of the name is
  what the user wrote.  The same holds for the new name in a renaming.
\<close>

theorem created_name_round_trip:
  assumes "a \<in> {ActionCreateContainer, ActionRename}" "preprocessRequest i a r = Inr r'" "\<not> IsPrivileged i"
    "query_param r ''name'' = n" "n \<noteq> []" "\<not> has_prefix n (UserContainerPrefix (RealUID i))"
  shows "query_param r' ''name'' = UserContainerPrefix (RealUID i) @ n \<and>
    trim_prefix (query_param r' ''name'') (UserContainerPrefix (RealUID i)) = n \<and>
    (\<forall>k. k \<noteq> ''name'' \<longrightarrow> query_param r' k = query_param r k)"
proof -
  have same: "query_param (x \<lparr>rqBody := b\<rparr>) k = query_param x k"
    "query_param (x \<lparr>rqHasBody := h\<rparr>) k = query_param x k" "query_param (x \<lparr>rqRewritten := s\<rparr>) k = query_param x k"
    for x b h s k by (simp_all add: query_param_def url_query_def)
  obtain r1 where r1: "query_param r1 ''name'' = n" "\<And>k. query_param r1 k = query_param r k"
    "\<And>k. query_param r' k = query_param (prefix_name i r1) k"
  proof (cases "a = ActionRename")
    case True
    then have "r' = (prefix_name i r) \<lparr>rqHasBody := True\<rparr>"
      using assms(2,3) by (simp add: preprocessRequest_def)
    then show ?thesis using that [of r] assms(4) by (simp add: same)
  next
    case False
    then obtain b where "r' = (prefix_name i (note_name i r)) \<lparr>rqBody := b, rqHasBody := True\<rparr>"
      using assms(1-3) by (auto simp: preprocessRequest_def pre_create_def split: sum.splits)
    then show ?thesis
      using that [of "note_name i r"] assms(4-6) by (simp add: same note_name_def)
  qed
  then show ?thesis using prefix_name_param [OF r1(1) assms(5,6)] by auto
qed

definition demo_create :: request where
  "demo_create = (demo_request ''POST'' ''/containers/create'' (Doc (JObj [(''Image'', JStr ''alpine'')])))
     \<lparr>rqRawQuery := ''name=web+1&platform=''\<rparr>"

lemma demo_create_facts:
  "query_param demo_create ''name'' = ''web 1''"
  "\<not> has_prefix ''web 1'' (UserContainerPrefix (RealUID (demo_caller 1000 ''alice'')))"
  "UserContainerPrefix 1000 = ''user-1000-''"
  by code_simp+

lemma demo_create_passes:
  "\<exists>r'. preprocessRequest (demo_caller 1000 ''alice'') ActionCreateContainer demo_create = Inr r'"
  by (simp add: preprocessRequest_def pre_create_def demo_create_def demo_request_def InjectSystemLabels_def set_key_def
      split: sum.split)

theorem created_name_round_trip_witness:
  "\<exists>r'. preprocessRequest (demo_caller 1000 ''alice'') ActionCreateContainer demo_create = Inr r' \<and>
     query_param r' ''name'' = ''user-1000-web 1''"
proof -
  obtain r' where "preprocessRequest (demo_caller 1000 ''alice'') ActionCreateContainer demo_create = Inr r'"
    using demo_create_passes by blast
  then show ?thesis
    using created_name_round_trip [of ActionCreateContainer _ demo_create r'] demo_create_facts by simp
qed

section \<open>Created containers\<close>

lemma add_ports_containers:
  "tContainers (snd (add_ports n ms db)) = tContainers db" "dbFault (snd (add_ports n ms db)) = dbFault db"
  by (induction n ms db rule: add_ports.induct) (simp_all split: option.split)

lemma create_recorded:
  assumes "rsStatus rs = 201" "extractContainerIDFromCreateResponse (rsBody rs) = cid" "cid \<noteq> []"
    "rqBody r = no_body"
  shows "tContainers (wDB (post_create p i r rs w)) = tContainers (snd (SetContainerOwner cid i [] (wDB w)))"
    "dbFault (wDB (post_create p i r rs w)) = dbFault (wDB w)"
proof -
  have e: "extractImageRefFromBody r = []" using assms(4) by (simp add: extractImageRefFromBody_def image_field_def)
  show "tContainers (wDB (post_create p i r rs w)) = tContainers (snd (SetContainerOwner cid i [] (wDB w)))"
    "dbFault (wDB (post_create p i r rs w)) = dbFault (wDB w)"
    using assms(1-3) e
    by (simp_all add: post_create_def Let_def write_db_def AddPortMappings_def add_ports_containers
        SetContainerOwner_def exec_stmt_def)
qed

text \<open>
  C10. When the daemon has created a container, it is recorded for the caller, and the owners of all
  other containers are as before.  The image is not recorded: the body of the request has been
  read by then, so that the column stays empty and the check on images in use finds nothing.
\<close>

theorem created_container_recorded:
  assumes "preprocessRequest i ActionCreateContainer r = Inr r'" "fst (fst (forward tr r')) = Inr rs" "rsStatus rs = 201"
    "extractContainerIDFromCreateResponse (rsBody rs) = cid" "cid \<noteq> []" "no_faults (wDB w)"
    "serve_checked p tr i ActionCreateContainer r w = (ans, w')"
  shows "GetContainerOwner (wDB w') cid =
      Some \<lparr>oiUsername = RealUsername i, oiUID = RealUID i, oiGID = RealGID i, oiSource = []\<rparr> \<and>
    (\<forall>c. c \<noteq> cid \<longrightarrow> GetContainerOwner (wDB w') c = GetContainerOwner (wDB w) c) \<and>
    (\<forall>row \<in> set (tContainers (wDB w')). cId row = cid \<longrightarrow> cImageID row = [])"
proof -
  have b: "rqHasBody r'" using assms(1) by (cases "pre_create i r") (auto simp: preprocessRequest_def)
  let ?r = "r' \<lparr>rqBody := no_body\<rparr>" and ?w = "register_pending p i ActionCreateContainer r' w"
  have "event_key p i ActionCreateContainer r' w = None" by (simp add: event_key_def)
  then have w: "?w = w" by (simp add: register_pending_def)
  have rel: "wDB (release_pending i ActionCreateContainer r' k x) = wDB x" for k x
    by (simp add: release_pending_def split: option.split)
  have "snd (forward tr r') = ?r" using b by (simp add: forward_def)
  then obtain n where "forward tr r' = ((Inr rs, n), ?r)" using assms(2) by (metis prod.collapse)
  then have db: "wDB w' = wDB (post_create p i ?r rs w)"
    using assms(1,7) w rel by (auto simp: serve_checked_def serve_upstream_def Let_def record_response_def)
  have t: "tContainers (wDB w') = tContainers (snd (SetContainerOwner cid i [] (wDB w)))" "dbFault (wDB w') = dbFault (wDB w)"
    using create_recorded [OF assms(3-5), of ?r p i w] db by simp_all
  let ?row = "\<lparr>cId = cid, cOwnerUsername = RealUsername i, cOwnerUID = RealUID i, cOwnerGID = RealGID i,
      cImageID = [], cPrivCtx = priv_ctx i\<rparr>"
  have tb: "tContainers (wDB w') = insert_or_replace cId ?row (tContainers (wDB w))"
    using t(1) assms(6) by (simp add: SetContainerOwner_def exec_stmt_def no_faults_def)
  have "find (\<lambda>x. cId x = c) (tContainers (wDB w')) = (if c = cid then Some ?row else find (\<lambda>x. cId x = c) (tContainers (wDB w)))"
    for c using find_replace_same [of cId ?row "tContainers (wDB w)"] find_replace_other [of c cId ?row "tContainers (wDB w)"]
    by (simp add: tb)
  then have "GetContainerOwner (wDB w') c = (if c = cid
      then Some \<lparr>oiUsername = RealUsername i, oiUID = RealUID i, oiGID = RealGID i, oiSource = []\<rparr>
      else GetContainerOwner (wDB w) c)" for c
    using t(2) assms(6) by (simp add: GetContainerOwner_def query_row_def no_faults_def)
  moreover have "cImageID row = []" if "row \<in> set (tContainers (wDB w'))" "cId row = cid" for row
    using that by (auto simp: tb insert_or_replace_def)
  ultimately show ?thesis by auto
qed

definition demo_created_answer :: "nat \<Rightarrow> round_trip" where
  "demo_created_answer n = Answer \<lparr>rsStatus = 201, rsBody = Doc (JObj [(''Id'', JStr ''c0ffee'')]), rsLines = []\<rparr>"

lemma demo_created_facts:
  "extractContainerIDFromCreateResponse (Doc (JObj [(''Id'', JStr ''c0ffee'')])) = ''c0ffee''"
  by code_simp

theorem created_container_recorded_witness:
  "GetContainerOwner (wDB (snd (serve_checked (demo_proxy (\<lambda>_ _ _ _. None)) demo_created_answer
     (demo_caller 1000 ''alice'') ActionCreateContainer demo_create (demo_world (emptyDB (\<lambda>_ _. False)))))) ''c0ffee'' =
   Some \<lparr>oiUsername = ''alice'', oiUID = 1000, oiGID = 1000, oiSource = []\<rparr>"
proof -
  obtain r' where r': "preprocessRequest (demo_caller 1000 ''alice'') ActionCreateContainer demo_create = Inr r'"
    using demo_create_passes by blast
  have f: "fst (fst (forward demo_created_answer r')) =
      Inr \<lparr>rsStatus = 201, rsBody = Doc (JObj [(''Id'', JStr ''c0ffee'')]), rsLines = []\<rparr>"
    by (simp add: forward_def send_stop try_again_def demo_created_answer_def)
  obtain ans w' where w': "serve_checked (demo_proxy (\<lambda>_ _ _ _. None)) demo_created_answer
     (demo_caller 1000 ''alice'') ActionCreateContainer demo_create (demo_world (emptyDB (\<lambda>_ _. False))) = (ans, w')"
    by fastforce
  have "no_faults (emptyDB (\<lambda>_ _. False))" "RealGID (demo_caller 1000 ''alice'') = 1000"
    by (simp_all add: no_faults_def emptyDB_def demo_caller_def)
  then show ?thesis
    using created_container_recorded [OF r' f _ _ _ _ w', of "''c0ffee''"] demo_created_facts by (simp add: w')
qed

section \<open>Loaded images\<close>

lemma load_tags_db: "wDB (fold (load_tag i) ts w) = wDB w"
  by (induction ts arbitrary: w) (simp_all add: load_tag_def Let_def note_build_def)

text \<open>
  The daemon announces a loaded image by its tag when it has one, and by its identifier only
  when it has none.  A load that announces tags leaves the database as it is, so that the image
  belongs to nobody and the user who loaded it cannot use it.
\<close>

theorem loaded_tags_not_recorded:
  assumes "\<forall>l \<in> set (rsLines rs). fst (load_line l) = []"
  shows "wDB (post_load i rs w) = wDB w"
proof -
  have "filter (\<lambda>s. s \<noteq> []) (map (fst \<circ> load_line) (rsLines rs)) = []"
    using assms by (simp add: filter_empty_conv)
  then show ?thesis
    by (simp add: post_load_def streamAndCaptureLoadedImageIDs_def load_tags_db)
qed

definition demo_loaded :: response where
  "demo_loaded = \<lparr>rsStatus = 200, rsBody = no_body,
     rsLines = [Doc (JObj [(''stream'', JStr ''Loaded image: app:1'')])]\<rparr>"

lemma demo_loaded_facts:
  "\<not> CanUseImage (emptyDB (\<lambda>_ _. False)) 1000 ''sha256:abc''"
  by code_simp

theorem loaded_tags_not_recorded_witness:
  "\<not> CanUseImage (wDB (post_load (demo_caller 1000 ''alice'') demo_loaded (demo_world (emptyDB (\<lambda>_ _. False)))))
     1000 ''sha256:abc''"
proof -
  have "list_all (\<lambda>l. fst (load_line l) = []) (rsLines demo_loaded)" by code_simp
  then have "\<forall>l \<in> set (rsLines demo_loaded). fst (load_line l) = []" by (simp add: list_all_iff)
  then show ?thesis using loaded_tags_not_recorded demo_loaded_facts by simp
qed

section \<open>Shared networks\<close>


definition demo_peer_db :: OwnershipDB where
  "demo_peer_db = snd (AddNetworkPeer 1000 1001 ''net1'' [] [] (emptyDB (\<lambda>_ _. False)))"

lemma demo_peer_facts: "no_faults demo_peer_db" "data_inv demo_peer_db"
  "map (\<lambda>p. (UidA p, UidB p, PeerNetworkID p)) (tPeers demo_peer_db) = [(1000, 1001, ''net1'')]"
proof -
  have "db_reachable demo_peer_db" unfolding demo_peer_db_def by (intro reachable_db.method_keeps reachable_empty)
  then show "data_inv demo_peer_db" by (simp add: reachable_inv)
  show "no_faults demo_peer_db"
    by (simp add: demo_peer_db_def AddNetworkPeer_def exec_stmt_def no_faults_def emptyDB_def Let_def split: prod.split)
qed code_simp


section \<open>Networks of a new container\<close>

definition host_mode :: body where
  "host_mode = Doc (JObj [(''HostConfig'', JObj [(''networkmode'', JStr ''host'')])])"

text \<open>
  The network of a new container is written under the key NetworkMode.  A key in lower case
  passes the check on networks, is forwarded beside it, sorts behind it and is the one the daemon
  reads: the container shares the network of the host.
\<close>

theorem lowercase_network_mode_escapes:
  "checkCreateContainerNetworks (demo_caller 1000 ''alice'') (demo_request ''POST'' ''/containers/create'' host_mode)
     (emptyDB (\<lambda>_ _. False)) = None \<and>
   (\<exists>b'. InjectUserNetwork host_mode 1000 [] (userRequestedNets (demo_caller 1000 ''alice'') host_mode) = Inr b' \<and>
         hd (ExtractRequestedNetworks b') = ''host'')"
proof
  show "checkCreateContainerNetworks (demo_caller 1000 ''alice'') (demo_request ''POST'' ''/containers/create'' host_mode)
     (emptyDB (\<lambda>_ _. False)) = None" by code_simp
  have "case InjectUserNetwork host_mode 1000 [] (userRequestedNets (demo_caller 1000 ''alice'') host_mode) of
      Inl _ \<Rightarrow> False | Inr b' \<Rightarrow> hd (ExtractRequestedNetworks b') = ''host''" by code_simp
  then show "\<exists>b'. InjectUserNetwork host_mode 1000 [] (userRequestedNets (demo_caller 1000 ''alice'') host_mode) = Inr b' \<and>
         hd (ExtractRequestedNetworks b') = ''host''" by (auto split: sum.splits)
qed

end
