(* ===== verification/EventProps.thy ===== *)
theory EventProps
  imports ProxyState NamesProps
begin

text \<open>
  Properties of the event stream: events on the resources of other users do not reach an
  unprivileged subscriber.
\<close>

text \<open>
  An event concerns a user through the name of a volume or of the user's bridge, through the
  label of a container, or through the record of a private image which the subscriber may not use
  and for which no operation is under way.
\<close>

definition concerns :: "world \<Rightarrow> nat \<Rightarrow> nat \<Rightarrow> docker_event \<Rightarrow> bool" where
  "concerns w u v ev \<longleftrightarrow>
     evType ev = ''volume'' \<and> has_prefix (evActorID ev) (UserVolumePrefix (int v)) \<or>
     evType ev = ''network'' \<and> attr ev ''name'' = UserBridgeName (int v) \<or>
     evType ev = ''container'' \<and> map_of (evAttributes ev) LabelOwnerUID = Some (itoa (int v)) \<or>
     evType ev = ''image'' \<and> evActorID ev \<noteq> [] \<and> image_entry w ev = None \<and>
       (\<exists>owner pc. GetImageOwner (wDB w) (evActorID ev) = Some (owner, False, pc) \<and> oiUID owner = int v) \<and>
       \<not> HasImageAccess (wDB w) (evActorID ev) (int u)"

lemma nat_itoa_digits: "list_all is_digit (itoa (int n))"
  using nat_str_notin by (auto simp: itoa_def list_all_iff)

lemma user_volume_name: "has_prefix n (UserVolumePrefix (int v)) \<Longrightarrow> volume_of_user n"
proof -
  assume "has_prefix n (UserVolumePrefix (int v))"
  then obtain t where n: "n = ''user-'' @ itoa (int v) @ ''-volume-'' @ t"
    by (auto simp: has_prefix_iff UserVolumePrefix_def)
  have d: "list_all is_digit (itoa (int v))" "\<not> is_digit CHR ''-''" by (simp_all add: nat_itoa_digits is_digit_def)
  then have "takeWhile is_digit (itoa (int v) @ ''-volume-'' @ t) = itoa (int v)"
    "dropWhile is_digit (itoa (int v) @ ''-volume-'' @ t) = ''-volume-'' @ t"
    by (simp_all add: list_all_iff takeWhile_append2 dropWhile_append2)
  then show ?thesis by (simp add: n volume_of_user_def has_prefix_iff)
qed

lemma volume_event_foreign:
  assumes "u \<noteq> v" "has_prefix (evActorID ev) (UserVolumePrefix (int v))"
  shows "\<not> volume_event w (int u) s ev"
proof -
  have "\<not> has_prefix (evActorID ev) (UserVolumePrefix (int u))"
    using volume_names.pfx_separate [of u _ v] assms by (auto simp: has_prefix_iff) metis
  moreover have "evActorID ev \<noteq> []" using assms(2) by (auto simp: UserVolumePrefix_def)
  ultimately show ?thesis using user_volume_name [OF assms(2)] by (simp add: volume_event_def UserVolumePrefix_def)
qed

lemma network_event_foreign:
  assumes "u \<noteq> v" "attr ev ''name'' = UserBridgeName (int v)"
  shows "\<not> network_event w (int u) s ev"
  using assms by (simp add: network_event_def UserBridgeName_def has_prefix_iff has_suffix_iff)

lemma foreign_event_hidden:
  assumes "parse_event line = Some ev" "concerns w u v ev" "u \<noteq> v"
  shows "\<not> eventBelongsToUser w (int u) s line"
  using assms volume_event_foreign [OF assms(3), of ev w s] network_event_foreign [OF assms(3), of ev w s]
  by (auto simp: concerns_def eventBelongsToUser_def other_event_def image_event_def Let_def)

text \<open>
  C7. What an unprivileged user reads from the stream of events is a part of the daemon's stream, in
  its order, and without any event that concerns another user.
\<close>

theorem events_of_others_hidden:
  assumes "\<not> IsPrivileged i" "RealUID i = int u" "contains_str path ''/events''"
    "line \<in> set (stream_lines w i path ls)" "parse_event line = Some ev" "u \<noteq> v"
  shows "\<not> concerns w u v ev \<and> subseq (stream_lines w i path ls) ls"
proof
  have "eventBelongsToUser w (int u) (IsSudoCommand i) line" using assms(1-4) by (simp add: stream_lines_def)
  then show "\<not> concerns w u v ev" using foreign_event_hidden [OF assms(5) _ assms(6)] by blast
qed (simp add: stream_lines_def subseq_filter_left)

definition demo_event :: "string \<Rightarrow> body" where
  "demo_event name =
     Doc (JObj [(''Type'', JStr ''volume''), (''Action'', JStr ''create''), (''Actor'', JObj [(''ID'', JStr name)])])"

definition demo_volume_event :: "string \<Rightarrow> docker_event" where
  "demo_volume_event name = \<lparr>evType = ''volume'', evAction = ''create'', evActorID = name, evAttributes = []\<rparr>"

lemma demo_event_facts:
  "stream_lines (demo_world (emptyDB (\<lambda>_ _. False))) (demo_caller 1000 ''alice'') ''/v1.43/events''
     [demo_event ''user-1001-volume-b'', demo_event ''user-1000-volume-a''] = [demo_event ''user-1000-volume-a'']"
  "parse_event (demo_event ''user-1000-volume-a'') = Some (demo_volume_event ''user-1000-volume-a'')"
  "contains_str ''/v1.43/events'' ''/events''"
  by code_simp+

theorem events_of_others_hidden_witness:
  "\<not> concerns (demo_world (emptyDB (\<lambda>_ _. False))) 1000 1001 (demo_volume_event ''user-1000-volume-a'')"
  using events_of_others_hidden [of "demo_caller 1000 ''alice''" 1000 "''/v1.43/events''"
      "demo_event ''user-1000-volume-a''" "demo_world (emptyDB (\<lambda>_ _. False))"
      "[demo_event ''user-1001-volume-b'', demo_event ''user-1000-volume-a'']"
      "demo_volume_event ''user-1000-volume-a''" 1001]
    demo_event_facts by simp

end
