(* ===== verification/LogQuery.thy ===== *)
theory LogQuery
  imports AuditLog
begin

text \<open>
  The query of the logs, as in \<^verbatim>\<open>internal/audit/query.go\<close>: which files are read, which lines
  of them are printed, and how many.  The output is the list of printed lines.
\<close>

record LogQueryOptions =
  qLogDir :: string
  qLogType :: string
  qUsername :: string
  qUID :: int
  qAction :: string
  qResult :: string
  qLevel :: string
  qSince :: string
  qUntil :: string
  qLimit :: int

text \<open>The common fields of a line.\<close>

record log_base =
  lbTime :: string
  lbUser :: string
  lbUID :: int
  lbAction :: string
  lbResult :: string
  lbLevel :: string

text \<open>A line without braces gets them; a line with a time in front of a document is cut.\<close>

definition json_line :: "string \<Rightarrow> string" where
  "json_line line =
     (case line of
        [] \<Rightarrow> []
      | c # r \<Rightarrow>
          (if c = CHR ''{'' then line
           else if c = CHR 0x22 then CHR ''{'' # line @ ''}''
           else dropWhile (\<lambda>x. x \<noteq> CHR ''{'') r))"

definition decode_base :: "string \<Rightarrow> log_base option" where
  "decode_base l =
     (case body_struct (parse_json l) of
        None \<Rightarrow> None
      | Some es \<Rightarrow>
          (case (field_str ''time'' es, field_str ''user'' es, field_int64 ''uid'' es, field_str ''action'' es,
                 field_str ''result'' es, field_str ''level'' es) of
             (Some t, Some u, Some n, Some a, Some r, Some l) \<Rightarrow>
               Some \<lparr>lbTime = t, lbUser = u, lbUID = n, lbAction = a, lbResult = r, lbLevel = l\<rparr>
           | _ \<Rightarrow> None))"

definition time_matches :: "int option \<Rightarrow> int option \<Rightarrow> string \<Rightarrow> bool" where
  "time_matches since until t =
     (if since = None \<and> until = None then True
      else case parse_rfc3339 t of
        None \<Rightarrow> False
      | Some n \<Rightarrow> (case since of Some a \<Rightarrow> \<not> n < a | None \<Rightarrow> True) \<and> (case until of Some b \<Rightarrow> \<not> b < n | None \<Rightarrow> True))"

definition fold_filter :: "string \<Rightarrow> string \<Rightarrow> bool" where
  "fold_filter wanted actual \<longleftrightarrow> wanted = [] \<or> equal_fold actual wanted"

definition base_matches :: "LogQueryOptions \<Rightarrow> int option \<Rightarrow> int option \<Rightarrow> log_base \<Rightarrow> bool" where
  "base_matches q since until b \<longleftrightarrow>
     time_matches since until (lbTime b) \<and>
     (qUsername q = [] \<or> lbUser b = qUsername q) \<and>
     (qUID q < 0 \<or> lbUID b = qUID q) \<and>
     fold_filter (qAction q) (lbAction b) \<and>
     fold_filter (qResult q) (lbResult b) \<and>
     fold_filter (qLevel q) (lbLevel b)"

definition line_matches :: "LogQueryOptions \<Rightarrow> int option \<Rightarrow> int option \<Rightarrow> string \<Rightarrow> bool" where
  "line_matches q since until line \<longleftrightarrow>
     (line \<noteq> [] \<and> (case decode_base (json_line line) of None \<Rightarrow> False | Some b \<Rightarrow> base_matches q since until b))"

fun query_lines :: "LogQueryOptions \<Rightarrow> int option \<Rightarrow> int option \<Rightarrow> int \<Rightarrow> int \<Rightarrow> string list \<Rightarrow> string list" where
  "query_lines q since until remaining count [] = []"
| "query_lines q since until remaining count (l # ls) =
     (if remaining > 0 \<and> count \<ge> remaining then []
      else if line_matches q since until l then l # query_lines q since until remaining (count + 1) ls
      else query_lines q since until remaining count ls)"

definition queryFile :: "fsys \<Rightarrow> string \<Rightarrow> LogQueryOptions \<Rightarrow> int option \<Rightarrow> int option \<Rightarrow> int \<Rightarrow> string list" where
  "queryFile s path q since until remaining =
     (case file_data s path of
        None \<Rightarrow> []
      | Some d \<Rightarrow> query_lines q since until remaining 0 (fst (scan_lines d)))"

definition globLogFiles :: "fsys \<Rightarrow> string \<Rightarrow> string \<Rightarrow> string list" where
  "globLogFiles s dir username =
     (if username \<noteq> [] then [path_join dir (username @ ''.log'')]
      else map (path_join dir) (filter (\<lambda>n. has_suffix n ''.log'') (dir_files s dir)))"

definition query_paths :: "fsys \<Rightarrow> LogQueryOptions \<Rightarrow> string list" where
  "query_paths s q =
     (if qLogType q = ''auth'' then [path_join (qLogDir q) ''auth.log'']
      else if qLogType q = ''container'' then globLogFiles s (path_join (qLogDir q) ''container-run'') (qUsername q)
      else if qLogType q = ''proxy'' then globLogFiles s (path_join (qLogDir q) ''proxy-run'') []
      else globLogFiles s (path_join (qLogDir q) ''user-operation'') (qUsername q))"

fun query_files :: "fsys \<Rightarrow> LogQueryOptions \<Rightarrow> int option \<Rightarrow> int option \<Rightarrow> int \<Rightarrow> string list \<Rightarrow> string list" where
  "query_files s q since until count [] = []"
| "query_files s q since until count (p # ps) =
     (if qLimit q > 0 \<and> count \<ge> qLimit q then []
      else let ls = queryFile s p q since until (qLimit q - count)
           in ls @ query_files s q since until (count + int (length ls)) ps)"

datatype query_error = InvalidSince | InvalidUntil

definition time_option :: "string \<Rightarrow> int option option" where
  "time_option s =
     (if s = [] then Some None
      else case parse_rfc3339 s of
        None \<Rightarrow> None
      | Some t \<Rightarrow> Some (if t = zero_time then None else Some t))"

definition RunLogQuery :: "fsys \<Rightarrow> LogQueryOptions \<Rightarrow> (query_error, string list) result" where
  "RunLogQuery s q =
     (case time_option (qSince q) of
        None \<Rightarrow> Inl InvalidSince
      | Some since \<Rightarrow>
          (case time_option (qUntil q) of
             None \<Rightarrow> Inl InvalidUntil
           | Some until \<Rightarrow> Inr (query_files s q since until 0 (query_paths s q))))"

end
