(* ===== verification/AuditProps.thy ===== *)
theory AuditProps
  imports LogQuery
begin

text \<open>
  Properties of the logs: a record is one line whatever text a request contains, a line goes to the
  file of its user and to no other, after a rotation the lines go to the new file, and the query
  prints the records that match and no more than it is asked for.
\<close>

section \<open>Records are lines\<close>

lemma log_line_obj: "log_line (JObj es) = obj_text es"
  by (simp add: log_line_def strip_braces_def)

text \<open>What the loggers rely on for a type of records: an object with at least one field.\<close>

locale line_record =
  fixes enc :: "'e \<Rightarrow> json"
  assumes enc_ok: "json_ok (enc e)"
    and enc_obj: "\<exists>k v es. enc e = JObj ((k, v) # es)"
begin

lemma line_text: "json_text (enc e) = CHR ''{'' # log_line (enc e) @ ''}''"
  using enc_obj [of e] by (auto simp: log_line_obj)

lemma line_one: "CHR 0x0A \<notin> set (log_line (enc e))"
proof -
  have "no_ctrl (log_line (enc e))"
    using no_ctrl_text(1) [OF enc_ok, of e] by (simp add: line_text)
  then show ?thesis by (rule no_ctrl_notin) simp
qed

lemma line_no_cr: "CHR 0x0D \<notin> set (log_line (enc e))"
proof -
  have "no_ctrl (log_line (enc e))"
    using no_ctrl_text(1) [OF enc_ok, of e] by (simp add: line_text)
  then show ?thesis by (rule no_ctrl_notin) simp
qed

lemma line_quote: "\<exists>r. log_line (enc e) = CHR 0x22 # r"
  using enc_obj [of e] by (auto simp: log_line_obj quote_str_def)

lemma line_drop_cr: "drop_cr (log_line (enc e)) = log_line (enc e)"
  using line_no_cr [of e] by (auto simp: drop_cr_def dest: last_in_set)

lemma line_json: "json_line (log_line (enc e)) = json_text (enc e)"
  using line_quote [of e] line_text [of e] by (auto simp: json_line_def)

lemma line_parse: "parse_json (json_line (log_line (enc e))) = Doc (json_fix (enc e))"
  unfolding line_json by (rule parse_json_text [OF enc_ok])

end

lemma obj_ok_append [simp]: "obj_ok (xs @ ys) \<longleftrightarrow> obj_ok xs \<and> obj_ok ys"
  by (induction xs) auto

lemma obj_fix_append [simp]: "obj_fix (xs @ ys) = obj_fix xs @ obj_fix ys"
  by (induction xs) auto

lemma opt_ok [simp]: "obj_ok (opt_str k v)" "obj_ok (opt_int k n)"
  by (simp_all add: opt_str_def opt_int_def)

lemma str_map_ok: "json_ok (enc_str_map m)"
proof -
  have "obj_ok (map (\<lambda>(k, v). (k, JStr v)) m)" by (induction m) auto
  then show ?thesis by (simp add: enc_str_map_def)
qed

interpretation entry_line: line_record enc_entry
  by unfold_locales (simp_all add: enc_entry_def str_map_ok)

interpretation auth_line: line_record enc_auth
  by unfold_locales (simp_all add: enc_auth_def)

interpretation event_line: line_record enc_event
  by unfold_locales (simp_all add: enc_event_def)

section \<open>The files of the users\<close>

text \<open>
  Every open file is that of its user.  It is linked when its name still leads to it, which is so
  until the logs are rotated.
\<close>

definition files_named :: "string \<Rightarrow> string \<Rightarrow> (string \<times> ofile) list \<Rightarrow> bool" where
  "files_named dir sub fs \<longleftrightarrow> distinct (map fst fs) \<and> (\<forall>(u, f) \<in> set fs. ofName f = log_path dir sub u)"

definition files_linked :: "fsys \<Rightarrow> (string \<times> ofile) list \<Rightarrow> bool" where
  "files_linked s fs \<longleftrightarrow> fs_ok s \<and> (\<forall>(u, f) \<in> set fs. ofOpen f \<and> map_of (fsDir s) (ofName f) = Some (ofNode f))"

lemma files_linked_grow: "files_linked s fs \<Longrightarrow> fs_grow s s' \<Longrightarrow> files_linked s' fs"
  by (fastforce simp: files_linked_def fs_grow_def)

lemma get_file_ok:
  assumes named: "files_named dir sub (lfFiles a)" and linked: "files_linked s (lfFiles a)"
    and nofault: "\<not> fsFault s (log_path dir sub u)"
  obtains f a' s' where "get_file dir sub u uid a s = (Some f, a', s')" "ofOpen f"
    "map_of (fsDir s') (log_path dir sub u) = Some (ofNode f)" "fs_grow s s'"
    "files_named dir sub (lfFiles a')" "files_linked s' (lfFiles a')"
proof (cases "map_of (lfFiles a) u")
  case (Some f)
  then have "(u, f) \<in> set (lfFiles a)" by (rule map_of_SomeD)
  then have "ofName f = log_path dir sub u" "ofOpen f" "map_of (fsDir s) (ofName f) = Some (ofNode f)"
    using named linked by (auto simp: files_named_def files_linked_def)
  then show ?thesis using that [of f a s] Some named linked by (simp add: get_file_def)
next
  case None
  have "fs_ok s" using linked by (simp add: files_linked_def)
  then obtain f s1 where f: "open_append (log_path dir sub u) log_mode s = (Some f, s1)" "ofName f = log_path dir sub u"
      "ofOpen f" "map_of (fsDir s1) (log_path dir sub u) = Some (ofNode f)" "fs_grow s s1"
    using nofault by (rule open_ok)
  define a' where "a' = a\<lparr>lfFiles := map_put u f (lfFiles a), lfUids := map_put u uid (lfUids a)\<rparr>"
  define s' where "s' = chown_path (log_path dir sub u) 0 uid s1"
  have g: "fs_grow s s'" unfolding s'_def by (rule fs_grow_trans [OF f(5)]) simp
  have "files_named dir sub (lfFiles a')"
    using named f(2) by (auto simp: files_named_def a'_def distinct_fst_put set_map_put)
  moreover have "files_linked s' (lfFiles a')"
    using files_linked_grow [OF linked g] f
    by (auto simp: files_linked_def a'_def s'_def set_map_put)
  ultimately show ?thesis
    using that [of f a' s'] f g None by (simp add: get_file_def a'_def s'_def)
qed

lemma append_line_ok:
  assumes named: "files_named dir sub (lfFiles a)" and linked: "files_linked s (lfFiles a)"
    and nofault: "\<not> fsFault s (log_path dir sub u)" and "append_line dir sub u uid line a s = (a', s')"
  shows "files_named dir sub (lfFiles a')" "files_linked s' (lfFiles a')" "fsFault s' = fsFault s"
    "log_text s' q = log_text s q @ (if q = log_path dir sub u then line @ nl else [])"
proof -
  obtain f a1 s1 where g: "get_file dir sub u uid a s = (Some f, a1, s1)" "ofOpen f"
      "map_of (fsDir s1) (log_path dir sub u) = Some (ofNode f)" "fs_grow s s1"
      "files_named dir sub (lfFiles a1)" "files_linked s1 (lfFiles a1)"
    using named linked nofault by (rule get_file_ok)
  have "a1 = a'" using assms(4) g(1) by (simp add: append_line_def)
  note f = g [unfolded this]
  have s': "s' = write_file f (line @ nl) s1" using assms(4) f(1) by (simp add: append_line_def)
  have ok: "fs_ok s" "fs_ok s1" using linked f(6) by (auto simp: files_linked_def)
  show "files_named dir sub (lfFiles a')" by (rule f(5))
  show "files_linked s' (lfFiles a')" using f(6) by (simp add: files_linked_def s')
  show "fsFault s' = fsFault s" using f(4) by (simp add: fs_grow_def s')
  have "map_of (fsDir s1) q = Some (ofNode f) \<longleftrightarrow> q = log_path dir sub u"
    using f(3) fs_ok_inj [OF ok(2)] by blast
  then show "log_text s' q = log_text s q @ (if q = log_path dir sub u then line @ nl else [])"
    using f(2,4) ok(1) by (simp add: s' log_text_write fs_grow_def)
qed

lemma reopen_files_ok:
  assumes "\<forall>(u, f) \<in> set fs. ofName f = log_path dir sub u" "fs_ok s" "\<forall>p. \<not> fsFault s p"
    "reopen_files uids fs s = (fs', s')"
  shows "map fst fs' = map fst fs \<and> (\<forall>(u, f) \<in> set fs'. ofName f = log_path dir sub u) \<and> files_linked s' fs' \<and> fs_grow s s'"
  using assms
proof (induction fs arbitrary: s fs' s')
  case Nil
  then show ?case by (simp add: files_linked_def)
next
  case (Cons e fs)
  obtain u f where e: "e = (u, f)" by fastforce
  obtain f1 s1 where o1: "open_append (ofName f) log_mode s = (Some f1, s1)" "ofName f1 = ofName f" "ofOpen f1"
      "map_of (fsDir s1) (ofName f) = Some (ofNode f1)" "fs_grow s s1"
    using Cons.prems(2) Cons.prems(3) [rule_format, of "ofName f"] by (rule open_ok)
  define s2 where "s2 = (case map_of uids u of Some uid \<Rightarrow> chown_path (ofName f) 0 uid s1 | None \<Rightarrow> s1)"
  have g2: "fs_grow s s2" "map_of (fsDir s2) (ofName f) = Some (ofNode f1)"
    using o1 fs_grow_trans [OF o1(5)] by (auto simp: s2_def split: option.splits)
  obtain rest where r: "reopen_files uids fs s2 = (rest, s')" "fs' = (u, f1) # rest"
    using Cons.prems(4) o1(1) by (auto simp: e s2_def split: prod.splits)
  have "fs_ok s2" "\<forall>p. \<not> fsFault s2 p" using g2(1) Cons.prems by (auto simp: fs_grow_def)
  then have IH: "map fst rest = map fst fs \<and> (\<forall>(u, f) \<in> set rest. ofName f = log_path dir sub u) \<and> files_linked s' rest \<and> fs_grow s2 s'"
    using Cons.IH [OF _ _ _ r(1)] Cons.prems(1) by simp
  then have "map_of (fsDir s') (ofName f) = Some (ofNode f1)"
    using g2(2) \<open>fs_ok s2\<close> by (auto simp: fs_grow_def)
  then show ?case
    using IH o1 Cons.prems(1) fs_grow_trans [OF g2(1)] by (auto simp: r e files_linked_def)
qed

section \<open>The fields of a line\<close>

lemma utf8_fix_ascii: "list_all (\<lambda>c. (of_char c :: nat) < 0x80) s \<Longrightarrow> utf8_fix s = s"
  by (induction s rule: utf8_fix.induct) (auto simp: rune_len_ascii)

text \<open>The names of the fields: none is another one in different case.\<close>

definition key_names :: "string list" where
  "key_names =
     [''time'', ''user'', ''uid'', ''action'', ''result'', ''level'', ''client_ip'', ''auth_source'', ''method'', ''uri'',
      ''rewritten_path'', ''priv_source'', ''deny_reason'', ''container_id'', ''status_code'', ''latency_ms'',
      ''total_count'', ''filtered_count'', ''resource_usage'', ''image'', ''username'', ''exit_code'', ''error'']"

lemma key_ascii: "k \<in> set key_names \<Longrightarrow> utf8_fix k = k"
proof -
  have "list_all (list_all (\<lambda>c. (of_char c :: nat) < 0x80)) key_names"
    unfolding key_names_def by simp
  then show "k \<in> set key_names \<Longrightarrow> ?thesis" by (auto simp: list_all_iff intro!: utf8_fix_ascii)
qed

lemma key_fold: "k \<in> set key_names \<Longrightarrow> n \<in> set key_names \<Longrightarrow> equal_fold (utf8_fix k) n \<longleftrightarrow> k = n"
proof -
  have "map to_lower key_names = key_names"
    by code_simp
  then have "k \<in> set key_names \<Longrightarrow> to_lower k = k" for k
    by (metis in_set_conv_nth length_map nth_map)
  then show "k \<in> set key_names \<Longrightarrow> n \<in> set key_names \<Longrightarrow> ?thesis"
    by (simp add: equal_fold_def key_ascii)
qed

lemma field_values_keys:
  assumes "list_all (\<lambda>e. fst e \<in> set key_names) es" "n \<in> set key_names"
  shows "field_values n (obj_fix es) = map (\<lambda>e. json_fix (snd e)) (filter (\<lambda>e. fst e = n) es)"
  using assms by (induction es) (auto simp: field_values_def key_fold)

lemma filter_opt:
  "filter (\<lambda>e. fst e = n) (opt_str k v) = (if k = n then opt_str k v else [])"
  "filter (\<lambda>e. fst e = n) (opt_int k i) = (if k = n then opt_int k i else [])"
  by (simp_all add: opt_str_def opt_int_def)

lemma keys_opt:
  "list_all (\<lambda>e. fst e \<in> set key_names) (opt_str k v) \<longleftrightarrow> v = [] \<or> k \<in> set key_names"
  "list_all (\<lambda>e. fst e \<in> set key_names) (opt_int k i) \<longleftrightarrow> i = 0 \<or> k \<in> set key_names"
  by (simp_all add: opt_str_def opt_int_def)

fun obj_fields :: "json \<Rightarrow> (string \<times> json) list" where
  "obj_fields (JObj es) = es"
| "obj_fields _ = []"

lemma entry_keys: "list_all (\<lambda>e. fst e \<in> set key_names) (obj_fields (enc_entry e))"
  by (simp add: enc_entry_def keys_opt) (simp add: key_names_def)

lemma event_keys: "list_all (\<lambda>e. fst e \<in> set key_names) (obj_fields (enc_event e))"
  by (simp add: enc_event_def keys_opt) (simp add: key_names_def)

definition entry_base :: "AuditEntry \<Rightarrow> log_base" where
  "entry_base e =
     \<lparr>lbTime = utf8_fix (aeTime e), lbUser = utf8_fix (aeUser e), lbUID = aeUID e, lbAction = utf8_fix (aeAction e),
      lbResult = utf8_fix (aeResult e), lbLevel = []\<rparr>"

lemma entry_filter:
  "filter (\<lambda>f. fst f = ''time'') (obj_fields (enc_entry e)) = [(''time'', JStr (aeTime e))]"
  "filter (\<lambda>f. fst f = ''user'') (obj_fields (enc_entry e)) = [(''user'', JStr (aeUser e))]"
  "filter (\<lambda>f. fst f = ''uid'') (obj_fields (enc_entry e)) = [(''uid'', JNum (aeUID e))]"
  "filter (\<lambda>f. fst f = ''action'') (obj_fields (enc_entry e)) = [(''action'', JStr (aeAction e))]"
  "filter (\<lambda>f. fst f = ''result'') (obj_fields (enc_entry e)) = [(''result'', JStr (aeResult e))]"
  "filter (\<lambda>f. fst f = ''level'') (obj_fields (enc_entry e)) = []"
  by (simp_all add: enc_entry_def filter_opt)

lemma event_no_user: "filter (\<lambda>f. fst f = ''user'') (obj_fields (enc_event e)) = []"
  by (simp add: enc_event_def filter_opt)

lemma field_one:
  "field_values n es = [JStr v] \<Longrightarrow> field_str n es = Some v"
  "field_values n es = [] \<Longrightarrow> field_str n es = Some []"
  "field_values n es = [JNum i] \<Longrightarrow> min_int64 \<le> i \<Longrightarrow> i \<le> max_int64 \<Longrightarrow> field_int64 n es = Some i"
  by (simp_all add: field_with_def dec_int64_def)

text \<open>What the query reads from the line of an entry.\<close>

lemma decode_entry:
  assumes "min_int64 \<le> aeUID e" "aeUID e \<le> max_int64"
  shows "decode_base (json_line (log_line (enc_entry e))) = Some (entry_base e)"
proof -
  obtain es where es: "enc_entry e = JObj es" by (simp add: enc_entry_def)
  have fv: "field_values n (obj_fix es) = map (\<lambda>f. json_fix (snd f)) (filter (\<lambda>f. fst f = n) es)"
    if "n \<in> set key_names" for n
    using field_values_keys [OF _ that] entry_keys [of e] es by simp
  have "''time'' \<in> set key_names" "''user'' \<in> set key_names" "''uid'' \<in> set key_names" "''action'' \<in> set key_names"
    "''result'' \<in> set key_names" "''level'' \<in> set key_names"
    by (simp_all add: key_names_def)
  note fvs = this [THEN fv]
  show ?thesis
    unfolding decode_base_def entry_line.line_parse using es fvs entry_filter [of e] assms
    by (simp add: field_one entry_base_def)
qed

section \<open>The query\<close>

lemma query_lines_eq:
  "query_lines q since until remaining count ls =
     (if 0 < remaining then take (nat (remaining - count)) (filter (line_matches q since until) ls)
      else filter (line_matches q since until) ls)"
proof (induction ls arbitrary: count)
  case (Cons l ls)
  have "nat (remaining - count) = Suc (nat (remaining - (count + 1)))" if "\<not> (remaining \<le> count)"
    using that by simp
  then show ?case using Cons.IH by (auto simp: not_le)
qed simp

definition file_matches :: "fsys \<Rightarrow> LogQueryOptions \<Rightarrow> int option \<Rightarrow> int option \<Rightarrow> string \<Rightarrow> string list" where
  "file_matches s q since until p = filter (line_matches q since until) (fst (scan_lines (log_text s p)))"

lemma queryFile_eq:
  "queryFile s p q since until remaining =
     (if 0 < remaining then take (nat remaining) (file_matches s q since until p) else file_matches s q since until p)"
  by (auto simp: queryFile_def log_text_def file_matches_def query_lines_eq scan_lines_def split: option.splits)

lemma query_files_all: "qLimit q \<le> 0 \<Longrightarrow> 0 \<le> count \<Longrightarrow> query_files s q since until count ps = concat (map (file_matches s q since until) ps)"
  by (induction ps arbitrary: count) (auto simp: queryFile_eq Let_def)

lemma query_files_limit:
  assumes "0 < qLimit q" "0 \<le> count"
  shows "query_files s q since until count ps = take (nat (qLimit q - count)) (concat (map (file_matches s q since until) ps))"
  using assms(2)
proof (induction ps arbitrary: count)
  case (Cons p ps)
  show ?case
  proof (cases "qLimit q \<le> count")
    case False
    define ls where "ls = take (nat (qLimit q - count)) (file_matches s q since until p)"
    have "nat (qLimit q - (count + int (length ls))) = nat (qLimit q - count) - length ls"
      by simp
    moreover have "nat (qLimit q - count) - length ls = nat (qLimit q - count) - length (file_matches s q since until p)"
      by (simp add: ls_def min_def)
    ultimately show ?thesis
      using False assms(1) Cons.IH [of "count + int (length ls)"] Cons.prems
      by (simp add: queryFile_eq ls_def Let_def)
  qed (use assms in simp)
qed simp

section \<open>Properties\<close>

definition audit_path :: "AuditLogger \<Rightarrow> string \<Rightarrow> string" where
  "audit_path a u = log_path (alDir a) ''user-operation'' u"

definition audit_named :: "AuditLogger \<Rightarrow> bool" where
  "audit_named a \<longleftrightarrow> files_named (alDir a) ''user-operation'' (lfFiles (alFiles a))"

definition audit_ok :: "AuditLogger \<Rightarrow> fsys \<Rightarrow> bool" where
  "audit_ok a s \<longleftrightarrow> audit_named a \<and> files_linked s (lfFiles (alFiles a))"

definition entry_line_of :: "int \<Rightarrow> AuditEntry \<Rightarrow> string" where
  "entry_line_of now e = log_line (enc_entry (complete_entry now e))"

lemma complete_user [simp]: "aeUser (complete_entry now e) = aeUser e" "aeUID (complete_entry now e) = aeUID e"
  by (simp_all add: complete_entry_def Let_def)

lemma write_entry_ok:
  assumes "audit_ok a s" "\<not> fsFault s (audit_path a (aeUser e))" "WriteEntry now e (Some a) s = (oa, s')"
  shows "\<exists>a'. oa = Some a' \<and> alDir a' = alDir a \<and> audit_ok a' s' \<and> fsFault s' = fsFault s \<and>
    (\<forall>q. log_text s' q = log_text s q @ (if q = audit_path a (aeUser e) then entry_line_of now e @ nl else []))"
proof -
  obtain fs where fs: "append_line (alDir a) ''user-operation'' (aeUser e) (aeUID e) (entry_line_of now e) (alFiles a) s = (fs, s')"
      "oa = Some (a\<lparr>alFiles := fs\<rparr>)"
    using assms(3) by (auto simp: WriteEntry_def entry_line_of_def Let_def split: prod.splits)
  have pre: "files_named (alDir a) ''user-operation'' (lfFiles (alFiles a))" "files_linked s (lfFiles (alFiles a))"
    "\<not> fsFault s (log_path (alDir a) ''user-operation'' (aeUser e))"
    using assms(1,2) by (simp_all add: audit_ok_def audit_named_def audit_path_def)
  show ?thesis
    using append_line_ok [OF pre fs(1)] fs(2) by (simp add: audit_ok_def audit_named_def audit_path_def)
qed

section \<open>An example\<close>

definition demo_fs :: fsys where
  "demo_fs = \<lparr>fsDir = [], fsNode = (\<lambda>_. new_inode 0), fsNext = 0, fsFault = (\<lambda>_. False)\<rparr>"

definition demo_logger :: AuditLogger where
  "demo_logger = \<lparr>alDir = ''/l'', alFiles = \<lparr>lfFiles = [], lfUids = []\<rparr>, alAuth = None\<rparr>"

definition demo_entry :: AuditEntry where
  "demo_entry = log_entry ''bob'' 7 [] ''create'' [CHR ''a'', CHR 0x0A, CHR 0x22] [] ''deny'' [] [] 403 0 0 0 []"

definition demo_query :: LogQueryOptions where
  "demo_query = \<lparr>qLogDir = ''/l'', qLogType = ''operation'', qUsername = ''bob'', qUID = 7, qAction = [], qResult = ''deny'',
     qLevel = [], qSince = [], qUntil = [], qLimit = 0\<rparr>"

lemma demo_audit: "audit_ok demo_logger demo_fs" "audit_named demo_logger" "fs_ok demo_fs" "\<not> fsFault demo_fs p"
  "log_text demo_fs p = []"
  by (simp_all add: audit_ok_def audit_named_def files_named_def files_linked_def demo_logger_def demo_fs_def fs_ok_def
      log_text_def file_data_def)

lemma demo_match: "base_matches demo_query None None (entry_base (complete_entry 0 demo_entry))"
  by (simp add: base_matches_def demo_query_def demo_entry_def log_entry_def entry_base_def complete_entry_def Let_def
      time_matches_def fold_filter_def utf8_fix_ascii equal_fold_def del: utf8_fix.simps)

lemma demo_length: "line_fits (entry_line_of 0 demo_entry)"
  unfolding line_fits_def max_token_def by code_simp

lemma write_some: "\<exists>a' s'. WriteEntry now e (Some a) s = (Some a', s')"
  by (auto simp: WriteEntry_def Let_def split: prod.splits)

lemma reopen_some: "\<exists>a' s'. Reopen (Some a) s = (Some a', s')"
  by (auto simp: Reopen_def split: prod.splits option.splits)

text \<open>
  Whatever a request contains, an operation is recorded as exactly one line, in the file of its
  user: the text of that file grows by a line without a newline in it, every other file keeps its
  text, and the logger is ready for the next record.
\<close>

theorem entry_is_one_line:
  assumes "audit_ok a s" "\<not> fsFault s (audit_path a (aeUser e))" "WriteEntry now e (Some a) s = (Some a', s')"
  shows "audit_ok a' s' \<and> CHR 0x0A \<notin> set (entry_line_of now e) \<and>
    (\<forall>q. log_text s' q = log_text s q @ (if q = audit_path a (aeUser e) then entry_line_of now e @ nl else []))"
  using write_entry_ok [OF assms] entry_line.line_one by (auto simp: entry_line_of_def)

theorem entry_is_one_line_witness:
  "\<exists>a' s'. audit_ok a' s' \<and> CHR 0x0A \<notin> set (entry_line_of 0 demo_entry) \<and>
     log_text s' (audit_path demo_logger ''bob'') = entry_line_of 0 demo_entry @ nl"
proof -
  obtain a' s' where w: "WriteEntry 0 demo_entry (Some demo_logger) demo_fs = (Some a', s')"
    using write_some by blast
  have "aeUser demo_entry = ''bob''" by (simp add: demo_entry_def log_entry_def)
  then show ?thesis
    using entry_is_one_line [OF demo_audit(1,4) w] demo_audit(5) by (intro exI [of _ a'] exI [of _ s']) simp
qed

text \<open>
  After the logs were rotated, whatever names the open files have been moved to, reopening the
  logger makes the next record go to the file of its user under the proper name: all files keep
  their text, and the line is added under that name only.
\<close>

theorem rotation_reopens:
  assumes "audit_named a" "fs_ok s" "\<forall>p. \<not> fsFault s p" "Reopen (Some a) s = (Some a1, s1)"
    "WriteEntry now e (Some a1) s1 = (Some a2, s2)"
  shows "log_text s2 q = log_text s q @ (if q = audit_path a (aeUser e) then entry_line_of now e @ nl else [])"
proof -
  obtain fs sf where fs: "reopen_files (lfUids (alFiles a)) (lfFiles (alFiles a)) s = (fs, sf)" by fastforce
  have fs_ok: "map fst fs = map fst (lfFiles (alFiles a)) \<and> (\<forall>(u, f) \<in> set fs. ofName f = log_path (alDir a) ''user-operation'' u)
      \<and> files_linked sf fs \<and> fs_grow s sf"
    using reopen_files_ok [OF _ assms(2,3) fs, of "alDir a" "''user-operation''"] assms(1)
    by (simp add: audit_named_def files_named_def)
  have a1: "alDir a1 = alDir a" "lfFiles (alFiles a1) = fs" "fs_grow sf s1"
    using assms(4) fs fs_grow_open
    by (auto simp: Reopen_def reopen_all_def split: option.splits prod.splits) (metis snd_conv)
  have g: "fs_grow s s1" using fs_ok a1(3) fs_grow_trans by blast
  have "audit_ok a1 s1"
    using fs_ok assms(1) a1 files_linked_grow by (auto simp: audit_ok_def audit_named_def files_named_def)
  moreover have "\<not> fsFault s1 (audit_path a1 (aeUser e))" using g assms(3) by (simp add: fs_grow_def)
  ultimately show ?thesis
    using write_entry_ok [OF _ _ assms(5)] g assms(2) a1(1) by (simp add: fs_grow_def audit_path_def)
qed

theorem rotation_reopens_witness:
  "\<exists>s. log_text s (audit_path demo_logger ''bob'') = entry_line_of 0 demo_entry @ nl"
proof -
  obtain a1 s1 where r: "Reopen (Some demo_logger) demo_fs = (Some a1, s1)"
    using reopen_some by blast
  obtain a2 s2 where w: "WriteEntry 0 demo_entry (Some a1) s1 = (Some a2, s2)"
    using write_some by blast
  have "aeUser demo_entry = ''bob''" by (simp add: demo_entry_def log_entry_def)
  then show ?thesis
    using rotation_reopens [OF demo_audit(2,3) _ r w, of "audit_path demo_logger ''bob''"] demo_audit(4,5)
    by (intro exI [of _ s2]) simp
qed

text \<open>
  C37. The query prints, of the files it reads and in their order, the lines that match, and with a
  positive limit no more than that many.
\<close>

theorem query_exact:
  "RunLogQuery s q =
     (case (time_option (qSince q), time_option (qUntil q)) of
        (None, _) \<Rightarrow> Inl InvalidSince
      | (Some _, None) \<Rightarrow> Inl InvalidUntil
      | (Some since, Some until) \<Rightarrow>
          (let all = concat (map (file_matches s q since until) (query_paths s q))
           in Inr (if 0 < qLimit q then take (nat (qLimit q)) all else all)))"
  by (auto simp: RunLogQuery_def Let_def query_files_all query_files_limit split: option.splits)

lemma scan_whole:
  assumes "list_all line_fits (text_lines d)"
  shows "fst (scan_lines d) = map drop_cr (text_lines d)"
proof -
  have "takeWhile line_fits (text_lines d) = text_lines d"
    using assms by (simp add: list_all_iff takeWhile_eq_all_conv)
  then show ?thesis by (simp only: scan_lines_def fst_conv)
qed

definition file_whole :: "fsys \<Rightarrow> string \<Rightarrow> bool" where
  "file_whole s p \<longleftrightarrow> whole_lines (log_text s p) \<and> list_all line_fits (text_lines (log_text s p))"

text \<open>
  C25. What is recorded can be found: when an entry has been written to a file whose lines fit the
  reader's buffer, the query for its user prints, after everything it printed before, the line of
  that entry, provided the line fits and the entry matches the filters.
\<close>

theorem recorded_entry_found:
  assumes "audit_ok a s" "\<not> fsFault s (audit_path a (aeUser e))" "WriteEntry now e (Some a) s = (Some a', s')"
    and fits: "file_whole s (audit_path a (aeUser e))" "line_fits (entry_line_of now e)"
    and uid: "min_int64 \<le> aeUID e" "aeUID e \<le> max_int64"
    and q: "qLogDir q = alDir a" "qLogType q = ''operation''" "qUsername q = aeUser e" "aeUser e \<noteq> []"
      "qSince q = []" "qUntil q = []" "qLimit q \<le> 0"
    and match: "base_matches q None None (entry_base (complete_entry now e))"
  shows "\<exists>out. RunLogQuery s q = Inr out \<and> RunLogQuery s' q = Inr (out @ [entry_line_of now e])"
proof -
  let ?p = "audit_path a (aeUser e)"
  let ?l = "entry_line_of now e"
  have paths: "query_paths t q = [?p]" for t
    using q by (simp add: query_paths_def globLogFiles_def audit_path_def log_path_def)
  have run: "RunLogQuery t q = Inr (file_matches t q None None ?p)" for t
    using q by (simp add: RunLogQuery_def paths time_option_def queryFile_eq)
  have added: "log_text s' ?p = log_text s ?p @ ?l @ nl"
    using write_entry_ok [OF assms(1-3)] by auto
  have nonl: "CHR 0x0A \<notin> set ?l" unfolding entry_line_of_def by (rule entry_line.line_one)
  have lines: "text_lines (log_text s' ?p) = text_lines (log_text s ?p) @ [?l]"
    unfolding added using fits(1) nonl by (intro text_lines_append) (simp_all add: file_whole_def)
  have "fst (scan_lines (log_text s' ?p)) = fst (scan_lines (log_text s ?p)) @ [?l]"
    using fits scan_whole [of "log_text s ?p"] scan_whole [of "log_text s' ?p"] entry_line.line_drop_cr
    by (simp add: lines file_whole_def entry_line_of_def)
  moreover have "line_matches q None None ?l"
    using match decode_entry [of "complete_entry now e"] uid entry_line.line_quote [of "complete_entry now e"]
    by (auto simp: line_matches_def entry_line_of_def)
  ultimately show ?thesis by (simp add: run file_matches_def)
qed

theorem recorded_entry_found_witness:
  "\<exists>s out. RunLogQuery s demo_query = Inr (out @ [entry_line_of 0 demo_entry])"
proof -
  obtain a' s' where w: "WriteEntry 0 demo_entry (Some demo_logger) demo_fs = (Some a', s')"
    using write_some by blast
  have e: "aeUser demo_entry = ''bob''" "aeUID demo_entry = 7" by (simp_all add: demo_entry_def log_entry_def)
  have "\<exists>out. RunLogQuery demo_fs demo_query = Inr out \<and> RunLogQuery s' demo_query = Inr (out @ [entry_line_of 0 demo_entry])"
    by (rule recorded_entry_found [OF demo_audit(1,4) w _ demo_length _ _ _ _ _ _ _ _ _ demo_match])
      (simp_all add: e file_whole_def demo_audit(5) whole_lines_def min_int64_def max_int64_def demo_query_def demo_logger_def)
  then show ?thesis by blast
qed

text \<open>
  The query by user never finds anything in the container log: the lines of that log name the
  user in the field \<^verbatim>\<open>username\<close>, and the filter reads \<^verbatim>\<open>user\<close>.
\<close>

theorem container_query_by_user_empty:
  assumes "qUsername q \<noteq> []"
  shows "\<not> line_matches q since until (log_line (enc_event e))"
proof -
  obtain es where es: "enc_event e = JObj es" by (simp add: enc_event_def)
  have "field_values ''user'' (obj_fix es) = []"
    using field_values_keys [of es "''user''"] event_keys [of e] event_no_user [of e] es by (simp add: key_names_def)
  then have "field_str ''user'' (obj_fix es) = Some []" by (rule field_one)
  then have "decode_base (json_line (log_line (enc_event e))) = Some b \<Longrightarrow> lbUser b = []" for b
    unfolding decode_base_def event_line.line_parse using es by (auto split: option.splits)
  then show ?thesis using assms by (auto simp: line_matches_def base_matches_def split: option.splits)
qed

theorem container_query_by_user_empty_witness:
  "\<not> line_matches (demo_query\<lparr>qLogType := ''container''\<rparr>) None None
     (log_line (enc_event \<lparr>ceTime = [], ceContainerID = ''c1'', ceAction = ''start'', ceImage = [], ceUsername = ''bob'',
        ceUID = 7, ceExitCode = [], ceError = []\<rparr>))"
  by (rule container_query_by_user_empty) (simp add: demo_query_def)

text \<open>
  A line that does not fit the reader's buffer hides all lines after it: the query prints the
  same as if the file ended before that line.
\<close>

theorem long_line_hides_rest:
  assumes "log_text s p = d @ l @ nl @ rest" "whole_lines d" "CHR 0x0A \<notin> set l" "\<not> line_fits l" "log_text s' p = d"
  shows "file_matches s q since until p = file_matches s' q since until p"
proof -
  have "text_lines ((d @ l) @ nl @ rest) = text_lines ((d @ l) @ nl) @ text_lines rest"
    by (rule text_lines_split)
  then have "text_lines (log_text s p) = text_lines d @ l # text_lines rest"
    using text_lines_append [OF assms(2,3)] by (simp add: assms(1))
  then have "takeWhile line_fits (text_lines (log_text s p)) = takeWhile line_fits (text_lines d)"
    using assms(4) by (simp add: takeWhile_tail)
  then show ?thesis by (simp add: file_matches_def scan_lines_def assms(5))
qed

text \<open>
  The watch on the events of the containers ends with the first connection that the daemon
  closes in an orderly way: events of later connections are not recorded.
\<close>

theorem watch_ends_at_eof:
  assumes "list_all line_fits (text_lines text)"
  shows "run_events ownerLookup (Some (text, False) # conns) st = run_events ownerLookup [Some (text, False)] st"
  using assms by (simp add: stream_def scan_lines_def split: prod.splits)

end
