(* ===== verification/AnswerProps.thy ===== *)
theory AnswerProps
  imports Answers
begin

text \<open>
  Properties of the answers: the replacement of the name in the bytes of an inspection is the
  replacement of one field of the document, and the counts of \<^verbatim>\<open>docker info\<close> are those of the
  containers of the user.
\<close>

section \<open>Texts of objects\<close>

lemma obj_text_append:
  "obj_text (pre @ (k, v) # post) =
     obj_text pre @ (if pre = [] then [] else '','') @ quote_str k @ CHR '':'' # json_text v @
     (if post = [] then [] else CHR '','' # obj_text post)"
proof (induction pre)
  case (Cons e pre)
  then show ?case by (cases e; cases pre) auto
qed simp

lemma str_index_after:
  assumes "\<not> contains_str a p" "a \<noteq> []" "last a \<notin> set p"
  shows "str_index (a @ p @ r) p = Some (length a)"
  using assms
proof (induction a)
  case (Cons c a)
  have "\<not> has_prefix ((c # a) @ p @ r) p"
  proof
    assume "has_prefix ((c # a) @ p @ r) p"
    then have p: "take (length p) ((c # a) @ p @ r) = p" by (simp add: has_prefix_def)
    show False
    proof (cases "length p \<le> length (c # a)")
      case True
      then have "take (length p) (c # a) = p" using p by (simp only: take_append diff_is_0_eq' take_0 append_Nil2)
      then show False using Cons.prems(1) by (metis append.left_neutral append_take_drop_id contains_str_iff)
    next
      case False
      then have "take (length p) (c # a) = c # a" by simp
      then have "p = (c # a) @ take (length p - length (c # a)) (p @ r)" using p by (simp only: take_append)
      then have "last (c # a) \<in> set p" by (metis UnCI last_in_set list.distinct(1) set_append)
      then show False using Cons.prems(3) by simp
    qed
  qed
  moreover have "str_index (a @ p @ r) p = Some (length a)"
  proof (cases "a = []")
    case True
    then show ?thesis using has_prefix_append [of p r] by (cases "p @ r") simp_all
  next
    case False
    moreover have "\<not> contains_str a p"
      using Cons.prems(1) by (metis append_Cons contains_str_iff)
    ultimately show ?thesis using Cons by simp
  qed
  ultimately show ?case by simp
qed simp

section \<open>Plain characters\<close>

definition plain_char :: "char \<Rightarrow> bool" where
  "plain_char c \<longleftrightarrow> (0x20 :: nat) \<le> of_char c \<and> (of_char c :: nat) < 0x80 \<and> c \<notin> set (CHR 0x22 # CHR 0x5C # ''<>&'')"

lemma quote_plain: "list_all plain_char p \<Longrightarrow> quote_chars (p @ s) = p @ quote_chars s"
proof (induction p)
  case (Cons c p)
  then have c: "plain_char c" by simp
  then have "c \<noteq> CHR 0x0A" "c \<noteq> CHR 0x0D" "c \<noteq> CHR 0x09" unfolding plain_char_def by fastforce+
  then have "esc_ascii c = [c]" using c by (simp add: plain_char_def esc_ascii_def Let_def)
  then show ?case using Cons by (simp add: plain_char_def)
qed simp

lemma plain_digits: "list_all is_digit s \<Longrightarrow> list_all plain_char s"
proof -
  have "list_all plain_char ''0123456789''" by (simp add: plain_char_def)
  then have "is_digit c \<Longrightarrow> plain_char c" for c unfolding is_digit_def list_all_iff by blast
  then show "list_all is_digit s \<Longrightarrow> ?thesis" by (auto simp: list_all_iff)
qed

lemma plain_prefix: "list_all plain_char (''/'' @ UserContainerPrefix uid)"
proof -
  have "list_all plain_char (itoa uid)"
    using plain_digits [OF list_all_is_digit_nat_str] by (simp add: itoa_def plain_char_def)
  then show ?thesis by (simp add: UserContainerPrefix_def plain_char_def)
qed

section \<open>The name in an inspection\<close>

definition name_pattern :: "string \<Rightarrow> string" where
  "name_pattern pfx = dq @ ''Name'' @ dq @ '':'' @ dq @ ''/'' @ pfx"

lemma obj_ok_app [simp]: "obj_ok (xs @ ys) \<longleftrightarrow> obj_ok xs \<and> obj_ok ys"
  by (induction xs) auto

lemma name_text:
  assumes "list_all plain_char (''/'' @ pfx)"
  shows "quote_str ''Name'' @ CHR '':'' # json_text (JStr (''/'' @ pfx @ n)) = name_pattern pfx @ quote_chars n @ dq"
proof -
  have "quote_chars (''/'' @ pfx @ n) = ''/'' @ pfx @ quote_chars n"
    using quote_plain [OF assms, of n] by simp
  moreover have "list_all plain_char ''Name''" by (simp add: plain_char_def)
  then have "quote_chars ''Name'' = ''Name''" using quote_plain [of "''Name''" "[]"] by simp
  ultimately show ?thesis by (simp only: quote_str_def json_text.simps name_pattern_def) simp
qed

text \<open>The text of the fields before the name, and the rest of the text after the pattern.\<close>

definition text_before :: "(string \<times> json) list \<Rightarrow> string" where
  "text_before pre = CHR ''{'' # obj_text pre @ (if pre = [] then [] else '','')"

lemma object_text:
  assumes "list_all plain_char (''/'' @ pfx)"
  shows "json_text (JObj (pre @ (''Name'', JStr (''/'' @ pfx @ n)) # post)) =
    text_before pre @ name_pattern pfx @ quote_chars n @ dq @ (if post = [] then [] else CHR '','' # obj_text post) @ ''}''"
proof -
  have "json_text (JObj (pre @ (''Name'', JStr (''/'' @ pfx @ n)) # post)) = text_before pre @
      (quote_str ''Name'' @ CHR '':'' # json_text (JStr (''/'' @ pfx @ n))) @
      (if post = [] then [] else CHR '','' # obj_text post) @ ''}''"
    by (simp only: json_text.simps(7) obj_text_append text_before_def append.assoc append_Cons append_Nil)
  then show ?thesis by (simp only: name_text [OF assms] append.assoc)
qed

lemma last_before: "last (text_before pre) \<in> {CHR ''{'', CHR '',''}"
  by (simp add: text_before_def)

lemma sep_not_in_name: "CHR ''{'' \<notin> set (name_pattern (UserContainerPrefix uid))" "CHR '','' \<notin> set (name_pattern (UserContainerPrefix uid))"
proof -
  have "CHR ''{'' \<notin> set (itoa uid)" "CHR '','' \<notin> set (itoa uid)"
    by (rule itoa_notin; simp add: is_digit_def)+
  then show "CHR ''{'' \<notin> set (name_pattern (UserContainerPrefix uid))" "CHR '','' \<notin> set (name_pattern (UserContainerPrefix uid))"
    by (simp_all add: name_pattern_def UserContainerPrefix_def)
qed

text \<open>
  The name of a container in an inspection is rewritten in the bytes of the answer; this is the
  rewriting of one field of the document: when no earlier field looks like the name of one of the
  user's containers, the document that arrives is the one of the daemon with the internal prefix
  taken out of \<^verbatim>\<open>Name\<close> and with every other field as it was (then the names of the networks are
  treated).
\<close>

theorem inspect_name_field:
  assumes "rsStatus rs = 200" "\<not> IsPrivileged i" "json_ok (JObj (pre @ post))"
    "rsBody rs = Doc (JObj (pre @ (''Name'', JStr (''/'' @ UserContainerPrefix (RealUID i) @ n)) # post))"
    "\<not> contains_str (text_before pre) (name_pattern (UserContainerPrefix (RealUID i)))"
  shows "answer_inspect i rs =
    StripContainerInspectNetworkPrefix (Doc (json_fix (JObj (pre @ (''Name'', JStr (''/'' @ n)) # post))))
      (UserResourcePrefix i) (UserContainerPrefix (RealUID i))"
proof -
  let ?p = "UserContainerPrefix (RealUID i)"
  let ?t = "quote_chars n @ dq @ (if post = [] then [] else CHR '','' # obj_text post) @ ''}''"
  have old: "body_bytes (rsBody rs) = text_before pre @ name_pattern ?p @ ?t"
    unfolding assms(4) body_bytes_def body.case by (rule object_text [OF plain_prefix])
  have "list_all plain_char (''/'' @ [])" by (simp add: plain_char_def)
  then have new: "json_text (JObj (pre @ (''Name'', JStr (''/'' @ n)) # post)) = text_before pre @ name_pattern [] @ ?t"
    using object_text [of "[]" pre n post] by simp
  have idx: "str_index (text_before pre @ name_pattern ?p @ ?t) (name_pattern ?p) = Some (length (text_before pre))"
    using assms(5) last_before [of pre] sep_not_in_name [of "RealUID i"]
    by (intro str_index_after) (auto simp: text_before_def)
  then have rep: "replace_first (body_bytes (rsBody rs)) (name_pattern ?p) (name_pattern []) =
      json_text (JObj (pre @ (''Name'', JStr (''/'' @ n)) # post))"
    unfolding old new by (simp add: replace_first_def)
  have "json_ok (JObj (pre @ (''Name'', JStr (''/'' @ n)) # post))" using assms(3) by simp
  then have "parse_json (replace_first (body_bytes (rsBody rs)) (name_pattern ?p) (name_pattern [])) =
      Doc (json_fix (JObj (pre @ (''Name'', JStr (''/'' @ n)) # post)))"
    unfolding rep by (rule parse_json_text)
  moreover have "contains_str (body_bytes (rsBody rs)) (name_pattern ?p)"
    using idx unfolding contains_str_def old by simp
  ultimately have "replace_bytes_first (name_pattern ?p) (name_pattern []) (rsBody rs) =
      Doc (json_fix (JObj (pre @ (''Name'', JStr (''/'' @ n)) # post)))"
    unfolding replace_bytes_first_def by simp
  then show ?thesis using assms(1,2) by (simp add: answer_inspect_def name_pattern_def)
qed

section \<open>Counts\<close>

definition own_of :: "string list \<Rightarrow> string \<times> string \<Rightarrow> bool" where
  "own_of ids c \<longleftrightarrow> fst c \<in> set ids \<or> take 12 (fst c) \<in> set ids"

lemma fold_count_state:
  "csTotal (fold count_state ss c) = csTotal c + length ss"
  "csRunning (fold count_state ss c) = csRunning c + length (filter (\<lambda>s. s = ''running'') ss)"
  "csPaused (fold count_state ss c) = csPaused c + length (filter (\<lambda>s. s = ''paused'') ss)"
  "csStopped (fold count_state ss c) = csStopped c + length (filter (\<lambda>s. s \<noteq> ''running'' \<and> s \<noteq> ''paused'') ss)"
  by (induction ss arbitrary: c) (auto simp: count_state_def Let_def)

text \<open>
  The counts of containers in \<^verbatim>\<open>docker info\<close> are those of the user: the containers the daemon
  lists whose identifier, full or short, is among the recorded ones; running, paused and other
  containers add up to the total.
\<close>

theorem info_counts_own:
  assumes "ids \<noteq> []" "d ''GET'' ''/containers/json'' ''all=1'' no_body = Some (st, Doc j)" "dec_structs state_fields j = Some cs"
    "c = queryUserContainerStates d ids"
  shows "csTotal c = length (filter (own_of ids) cs) \<and> csTotal c = csRunning c + csPaused c + csStopped c"
proof -
  have "(\<lambda>(x, _). x \<in> set ids \<or> take 12 x \<in> set ids) = own_of ids"
    by (auto simp: own_of_def fun_eq_iff)
  then have c: "c = fold count_state (map snd (filter (own_of ids) cs)) \<lparr>csTotal = 0, csRunning = 0, csPaused = 0, csStopped = 0\<rparr>"
    using assms by (simp add: queryUserContainerStates_def daemon_get_def Let_def)
  have "length (filter (\<lambda>s. s = ''running'') ss) + length (filter (\<lambda>s. s = ''paused'') ss) +
      length (filter (\<lambda>s. s \<noteq> ''running'' \<and> s \<noteq> ''paused'') ss) = length ss" for ss :: "string list"
    by (induction ss) auto
  note sum = this [of "map snd (filter (own_of ids) cs)"]
  show ?thesis unfolding c fold_count_state using sum by (simp del: length_map filter_map add: length_map [of snd "filter (own_of ids) cs"])
qed

end
