(* ===== verification/Flags.thy ===== *)
theory Flags
  imports Prelude
begin

text \<open>
  Go's package \<^verbatim>\<open>flag\<close>, as the administration tool and the daemon use it: a set of flags
  with their kinds and defaults, and the parsing of an argument list, which stops at the first
  argument that is not a flag.  Numbers are read by \<^verbatim>\<open>strconv.ParseInt(s, 0, 64)\<close>.
\<close>

datatype flag_kind = FString | FInt | FBool

datatype flag_value = VString string | VInt int | VBool bool

type_synonym flag_set = "(string \<times> flag_value) list"

datatype flag_error = ErrHelp | BadSyntax string | NotDefined string | NeedsArgument string | InvalidValue string string

definition value_kind :: "flag_value \<Rightarrow> flag_kind" where
  "value_kind v = (case v of VString _ \<Rightarrow> FString | VInt _ \<Rightarrow> FInt | VBool _ \<Rightarrow> FBool)"

section \<open>Values\<close>

definition parse_bool :: "string \<Rightarrow> bool option" where
  "parse_bool s =
     (if s \<in> set [''1'', ''t'', ''T'', ''TRUE'', ''true'', ''True''] then Some True
      else if s \<in> set [''0'', ''f'', ''F'', ''FALSE'', ''false'', ''False''] then Some False
      else None)"

definition digit_of :: "char \<Rightarrow> int option" where
  "digit_of c =
     (let n = of_char c in
      if 48 \<le> n \<and> n \<le> 57 then Some (n - 48)
      else if 97 \<le> n \<and> n \<le> 122 then Some (n - 87)
      else if 65 \<le> n \<and> n \<le> 90 then Some (n - 55)
      else None)"

text \<open>The value of digits in a base, and the base that a prefix announces.\<close>

fun base_digits :: "int \<Rightarrow> int \<Rightarrow> string \<Rightarrow> int option" where
  "base_digits b n [] = Some n"
| "base_digits b n (c # cs) =
     (case digit_of c of
        Some d \<Rightarrow> (if d < b then base_digits b (n * b + d) cs else None)
      | None \<Rightarrow> None)"

definition split_base :: "string \<Rightarrow> int \<times> string" where
  "split_base s =
     (if has_prefix s ''0'' then
        (if length s \<ge> 3 \<and> to_lower_char (s ! 1) = CHR ''b'' then (2, drop 2 s)
         else if length s \<ge> 3 \<and> to_lower_char (s ! 1) = CHR ''o'' then (8, drop 2 s)
         else if length s \<ge> 3 \<and> to_lower_char (s ! 1) = CHR ''x'' then (16, drop 2 s)
         else (8, drop 1 s))
      else (10, s))"

text \<open>An underscore stands between two digits, or after the prefix of a base (or its zero).\<close>

fun underscores_ok :: "bool \<Rightarrow> string \<Rightarrow> bool" where
  "underscores_ok after_digit [] = True"
| "underscores_ok after_digit (c # cs) =
     (if c = CHR ''_'' then after_digit \<and> cs \<noteq> [] \<and> hd cs \<noteq> CHR ''_'' \<and> underscores_ok False cs
      else underscores_ok True cs)"

definition parse_uint :: "string \<Rightarrow> int option" where
  "parse_uint s =
     (case split_base s of
        (b, ds) \<Rightarrow>
          (if s = [] \<or> \<not> underscores_ok (b \<noteq> 10) ds then None
           else base_digits b 0 (filter (\<lambda>c. c \<noteq> CHR ''_'') ds)))"

definition parse_int :: "string \<Rightarrow> int option" where
  "parse_int s =
     (let neg = has_prefix s ''-''; u = (if neg \<or> has_prefix s ''+'' then drop 1 s else s)
      in case parse_uint u of
           None \<Rightarrow> None
         | Some n \<Rightarrow>
             (let v = (if neg then - n else n)
              in if min_int64 \<le> v \<and> v \<le> max_int64 then Some v else None))"

definition parse_value :: "flag_kind \<Rightarrow> string \<Rightarrow> flag_value option" where
  "parse_value k s =
     (case k of
        FString \<Rightarrow> Some (VString s)
      | FInt \<Rightarrow> map_option VInt (parse_int s)
      | FBool \<Rightarrow> map_option VBool (parse_bool s))"

section \<open>Parsing\<close>

definition set_flag :: "string \<Rightarrow> flag_value \<Rightarrow> flag_set \<Rightarrow> flag_set" where
  "set_flag name v fs = map (\<lambda>(n, old). (n, if n = name then v else old)) fs"

text \<open>The name and the value of an argument that begins with a dash.\<close>

definition split_flag :: "string \<Rightarrow> (string \<times> string option) option" where
  "split_flag arg =
     (let name = (if has_prefix arg ''--'' then drop 2 arg else drop 1 arg)
      in if name = [] \<or> hd name = CHR ''-'' \<or> hd name = CHR ''='' then None
         else if CHR ''='' \<in> set name then Some (before_char CHR ''='' name, Some (after_char CHR ''='' name))
         else Some (name, None))"

fun parse_flags :: "flag_set \<Rightarrow> string list \<Rightarrow> (flag_error, flag_set \<times> string list) result" where
  "parse_flags fs [] = Inr (fs, [])"
| "parse_flags fs (a # args) =
     (if length a < 2 \<or> hd a \<noteq> CHR ''-'' then Inr (fs, a # args)
      else if a = ''--'' then Inr (fs, args)
      else case split_flag a of
        None \<Rightarrow> Inl (BadSyntax a)
      | Some (name, ov) \<Rightarrow>
          (case map_of fs name of
             None \<Rightarrow> Inl (if name = ''help'' \<or> name = ''h'' then ErrHelp else NotDefined name)
           | Some old \<Rightarrow>
               (case ov of
                  Some v \<Rightarrow>
                    (case parse_value (value_kind old) v of
                       None \<Rightarrow> Inl (InvalidValue v name)
                     | Some w \<Rightarrow> parse_flags (set_flag name w fs) args)
                | None \<Rightarrow>
                    (if value_kind old = FBool then parse_flags (set_flag name (VBool True) fs) args
                     else case args of
                       [] \<Rightarrow> Inl (NeedsArgument name)
                     | v # args' \<Rightarrow>
                         (case parse_value (value_kind old) v of
                            None \<Rightarrow> Inl (InvalidValue v name)
                          | Some w \<Rightarrow> parse_flags (set_flag name w fs) args')))))"

definition str_flag :: "flag_set \<Rightarrow> string \<Rightarrow> string" where
  "str_flag fs n = (case map_of fs n of Some (VString s) \<Rightarrow> s | _ \<Rightarrow> [])"

definition int_flag :: "flag_set \<Rightarrow> string \<Rightarrow> int" where
  "int_flag fs n = (case map_of fs n of Some (VInt i) \<Rightarrow> i | _ \<Rightarrow> 0)"

definition bool_flag :: "flag_set \<Rightarrow> string \<Rightarrow> bool" where
  "bool_flag fs n = (case map_of fs n of Some (VBool b) \<Rightarrow> b | _ \<Rightarrow> False)"

section \<open>Examples\<close>

lemma parse_int_examples:
  "parse_int ''-17'' = Some (- 17)" "parse_int ''0x1F'' = Some 31" "parse_int ''010'' = Some 8" "parse_int ''0'' = Some 0"
  "parse_int ''1_000'' = Some 1000" "parse_int ''1__0'' = None" "parse_int ''09'' = None" "parse_int ''-'' = None"
  by code_simp+

lemma parse_flags_example:
  "parse_flags [(''uid'', VInt 0), (''all'', VBool False)] [''--uid=7'', ''-all'', ''x'', ''-uid''] =
     Inr ([(''uid'', VInt 7), (''all'', VBool True)], [''x'', ''-uid''])"
  "parse_flags [(''uid'', VInt 0)] [''-uid''] = Inl (NeedsArgument ''uid'')"
  "parse_flags [(''uid'', VInt 0)] [''-h''] = Inl ErrHelp"
  by code_simp+

end
