(* ===== verification/Ctl.thy ===== *)
theory Ctl
  imports Peers Flags Times
begin

text \<open>
  The administration tool, \<^verbatim>\<open>cmd/ctl/main.go\<close>: its commands on shared networks, on public
  images and on grants of volumes-from.  A command works on the ownership database and asks the
  daemon; what it sends to the daemon to change networks is part of the result.

  The output is structured: the rows of a listing, or the outcome that is printed.  The texts of
  the messages and the widths of the columns are left out.  \<^verbatim>\<open>os/user\<close> is a parameter, as is
  the environment of the process.
\<close>

section \<open>The surroundings of the tool\<close>

record ctl_env =
  cxEuid :: int
  cxUid :: int
  cxSudoUid :: string
  cxDaemon :: daemon
  cxLookup :: "string \<Rightarrow> string option"
  cxLookupId :: "string \<Rightarrow> string option"
  cxOpens :: bool
  cxNow :: int

datatype ctl_error =
    FlagFailed flag_error
  | NotRoot string
  | OpenFailed
  | UnknownSubcommand string
  | NoCommand
  | UnknownCommand string
  | IdentMissing
  | IdentUnknown string
  | IdentBadUid string
  | SameUser
  | OneContainerOnly
  | ContainerUnresolved string
  | ContainerNotRecorded string
  | ContainerOfOther string int
  | PeerFailed peer_error
  | StatementFailed
  | UsageWrong
  | ImageUnknown string
  | ContainerMissing

text \<open>A row of \<^verbatim>\<open>image list\<close>.\<close>

record image_line =
  ilRepo :: string
  ilTag :: string
  ilShort :: string
  ilOwner :: string
  ilUID :: int
  ilPublic :: bool
  ilCreated :: string
  ilSize :: string

record peer_line =
  prUidA :: int
  prUidB :: int
  prType :: string
  prContainerA :: string
  prContainerB :: string
  prNetwork :: string

record grant_line =
  grContainer :: string
  grGrantee :: string
  grGrantor :: string

datatype ctl_out =
    Usage
  | PeerAllowed int int string string
  | PeerDenied int int string string
  | PeerNotFound int int
  | PeerLines "peer_line list"
  | ImageMarked string string bool
  | StillReferenced string "string list"
  | ImageGranted string string string
  | ImageLines "image_line list"
  | Granted string string
  | RevokedAll string
  | Revoked string string
  | GrantLines "grant_line list"

type_synonym ctl_result = "(ctl_error, ctl_out) result \<times> sent \<times> OwnershipDB"

abbreviation ctl_fail :: "ctl_error \<Rightarrow> OwnershipDB \<Rightarrow> ctl_result" where
  "ctl_fail e db \<equiv> (Inl e, [], db)"

abbreviation ctl_ok :: "ctl_out \<Rightarrow> OwnershipDB \<Rightarrow> ctl_result" where
  "ctl_ok x db \<equiv> (Inr x, [], db)"

text \<open>The flags of a subcommand: help is a success without output.\<close>

definition with_flags :: "flag_set \<Rightarrow> string list \<Rightarrow> OwnershipDB \<Rightarrow> (flag_set \<Rightarrow> string list \<Rightarrow> ctl_result) \<Rightarrow> ctl_result" where
  "with_flags spec args db body =
     (case parse_flags spec args of
        Inl ErrHelp \<Rightarrow> ctl_ok Usage db
      | Inl e \<Rightarrow> ctl_fail (FlagFailed e) db
      | Inr (fs, rest) \<Rightarrow> body fs rest)"

section \<open>Helpers\<close>

definition resolveIdent :: "ctl_env \<Rightarrow> string \<Rightarrow> (ctl_error, int) result" where
  "resolveIdent e ident =
     (if ident = [] then Inl IdentMissing
      else case atoi ident of
        AtoiOk n \<Rightarrow> Inr n
      | _ \<Rightarrow>
          (case cxLookup e ident of
             None \<Rightarrow> Inl (IdentUnknown ident)
           | Some u \<Rightarrow> (case atoi u of AtoiOk n \<Rightarrow> Inr n | _ \<Rightarrow> Inl (IdentBadUid ident))))"

text \<open>The identifier in an answer of the daemon; every failure is an error.\<close>

definition answer_id :: "(int \<times> body) option \<Rightarrow> string option" where
  "answer_id ans =
     (case ans of
        Some (status, b) \<Rightarrow> (if status \<noteq> 200 then None else Option.bind (body_struct b) (field_str ''Id''))
      | None \<Rightarrow> None)"

definition ctl_resolveContainerID :: "daemon \<Rightarrow> string \<Rightarrow> string option" where
  "ctl_resolveContainerID d nameOrID = answer_id (daemon_get d (''/containers/'' @ nameOrID @ ''/json'') [])"

definition ctl_resolveImageID :: "daemon \<Rightarrow> string \<Rightarrow> string option" where
  "ctl_resolveImageID d ref =
     map_option (\<lambda>i. if length i > 7 then trim_prefix i ''sha256:'' else i)
       (answer_id (daemon_get d (''/images/'' @ ref @ ''/json'') []))"

definition checkContainerOwner :: "ctl_env \<Rightarrow> OwnershipDB \<Rightarrow> string \<Rightarrow> int \<Rightarrow> ctl_error option" where
  "checkContainerOwner e db nameOrID expectedUID =
     (case ctl_resolveContainerID (cxDaemon e) nameOrID of
        None \<Rightarrow> Some (ContainerUnresolved nameOrID)
      | Some fullID \<Rightarrow>
          (case (case GetContainerOwner db fullID of Some ow \<Rightarrow> Some ow | None \<Rightarrow> GetContainerOwner db nameOrID) of
             None \<Rightarrow> Some (ContainerNotRecorded nameOrID)
           | Some ow \<Rightarrow>
               (if oiUID ow \<noteq> expectedUID then Some (ContainerOfOther nameOrID (oiUID ow)) else None)))"

section \<open>Shared networks\<close>

definition peer_flags :: flag_set where
  "peer_flags =
     [(''uid-a'', VString []), (''uid-b'', VString []), (''user-a'', VString []), (''user-b'', VString []),
      (''container-a'', VString []), (''container-b'', VString [])]"

text \<open>The part of \<^verbatim>\<open>peerMutate\<close> after the flags: the checks, then the change.\<close>

definition or_else :: "string \<Rightarrow> string \<Rightarrow> string" where
  "or_else a b = (if a = [] then b else a)"

definition check_peer :: "ctl_env \<Rightarrow> OwnershipDB \<Rightarrow> flag_set \<Rightarrow> (ctl_error, int \<times> int) result" where
  "check_peer e db fs =
     (let contA = str_flag fs ''container-a''; contB = str_flag fs ''container-b'' in
      case resolveIdent e (or_else (str_flag fs ''uid-a'') (str_flag fs ''user-a'')) of
        Inl err \<Rightarrow> Inl err
      | Inr a \<Rightarrow>
          (case resolveIdent e (or_else (str_flag fs ''uid-b'') (str_flag fs ''user-b'')) of
             Inl err \<Rightarrow> Inl err
           | Inr b \<Rightarrow>
               (if a = b then Inl SameUser
                else if (contA = []) \<noteq> (contB = []) then Inl OneContainerOnly
                else if contA = [] then Inr (a, b)
                else case checkContainerOwner e db contA a of
                  Some err \<Rightarrow> Inl err
                | None \<Rightarrow> (case checkContainerOwner e db contB b of Some err \<Rightarrow> Inl err | None \<Rightarrow> Inr (a, b)))))"

definition peerMutate :: "ctl_env \<Rightarrow> string \<Rightarrow> string list \<Rightarrow> OwnershipDB \<Rightarrow> ctl_result" where
  "peerMutate e cmd args db =
     with_flags peer_flags args db (\<lambda>fs _.
       (case check_peer e db fs of
          Inl err \<Rightarrow> ctl_fail err db
        | Inr (a, b) \<Rightarrow>
            (let contA = str_flag fs ''container-a''; contB = str_flag fs ''container-b'';
                 opts = \<lparr>poContainerIDA = contA, poContainerIDB = contB\<rparr>
             in if cmd = ''allow'' then
                  (case AllowNetworkPeer (cxDaemon e) a b opts db of
                     (None, reqs, db') \<Rightarrow> (Inr (PeerAllowed a b contA contB), reqs, db')
                   | (Some err, reqs, db') \<Rightarrow> (Inl (PeerFailed err), reqs, db'))
                else
                  (case DenyNetworkPeer (cxDaemon e) a b opts db of
                     (None, reqs, db') \<Rightarrow> (Inr (PeerDenied a b contA contB), reqs, db')
                   | (Some ErrPeerNotFound, reqs, db') \<Rightarrow> (Inr (PeerNotFound a b), reqs, db')
                   | (Some err, reqs, db') \<Rightarrow> (Inl (PeerFailed err), reqs, db')))))"

text \<open>The filter of a listing: the number, or the user that is named when the number is zero.\<close>

definition filter_uid :: "ctl_env \<Rightarrow> flag_set \<Rightarrow> (ctl_error, int) result" where
  "filter_uid e fs =
     (if int_flag fs ''uid'' = 0 \<and> str_flag fs ''user'' \<noteq> [] then resolveIdent e (str_flag fs ''user'')
      else Inr (int_flag fs ''uid''))"

definition select_peers :: "OwnershipDB \<Rightarrow> int \<Rightarrow> string \<Rightarrow> NetworkPeerInfo list query" where
  "select_peers db uid cont =
     (if uid \<noteq> 0 \<and> cont \<noteq> [] then
        map_sum (\<lambda>x. x) (filter (\<lambda>p. ContainerIDA p = cont \<or> ContainerIDB p = cont)) (GetNetworkPeersByUID db uid)
      else if uid \<noteq> 0 then GetNetworkPeersByUID db uid
      else if cont \<noteq> [] then GetNetworkPeersByContainer db cont
      else GetAllNetworkPeers db)"

definition show_peer :: "NetworkPeerInfo \<Rightarrow> peer_line" where
  "show_peer p =
     \<lparr>prUidA = UidA p, prUidB = UidB p, prType = (if IsUserLevel p then ''user-level'' else ''container-level''),
      prContainerA = take 12 (ContainerIDA p), prContainerB = take 12 (ContainerIDB p),
      prNetwork = take 12 (PeerNetworkID p)\<rparr>"

definition peerList :: "ctl_env \<Rightarrow> string list \<Rightarrow> OwnershipDB \<Rightarrow> ctl_result" where
  "peerList e args db =
     with_flags [(''uid'', VInt 0), (''user'', VString []), (''container'', VString [])] args db (\<lambda>fs _.
       (case filter_uid e fs of
          Inl err \<Rightarrow> ctl_fail err db
        | Inr uid \<Rightarrow>
            (case select_peers db uid (str_flag fs ''container'') of
               Inl _ \<Rightarrow> ctl_fail StatementFailed db
             | Inr ps \<Rightarrow> ctl_ok (PeerLines (map show_peer ps)) db)))"

text \<open>What the three groups of commands have in common: help, the check of the user, the database.\<close>

definition wants_help :: "string list \<Rightarrow> bool" where
  "wants_help args \<longleftrightarrow> args = [] \<or> hd args = ''-h'' \<or> hd args = ''--help''"

definition guarded :: "ctl_env \<Rightarrow> string list \<Rightarrow> (string \<Rightarrow> string list \<Rightarrow> OwnershipDB \<Rightarrow> ctl_result) \<Rightarrow> OwnershipDB \<Rightarrow> ctl_result" where
  "guarded e args run db =
     (if wants_help args then ctl_ok Usage db
      else if cxEuid e \<noteq> 0 then ctl_fail (NotRoot (hd args)) db
      else if \<not> cxOpens e then ctl_fail OpenFailed db
      else run (hd args) (tl args) db)"

definition peerCmd :: "ctl_env \<Rightarrow> string list \<Rightarrow> OwnershipDB \<Rightarrow> ctl_result" where
  "peerCmd e args =
     guarded e args (\<lambda>sub rest db.
       if sub = ''allow'' \<or> sub = ''deny'' then peerMutate e sub rest db
       else if sub = ''list'' then peerList e rest db
       else ctl_fail (UnknownSubcommand sub) db)"

section \<open>Images\<close>

text \<open>SQLite's \<^verbatim>\<open>LIKE\<close>: a percent sign for any text, an underscore for any character.\<close>

fun sql_like :: "string \<Rightarrow> string \<Rightarrow> bool" where
  "sql_like [] s \<longleftrightarrow> s = []"
| "sql_like (c # cs) s \<longleftrightarrow>
     (if c = CHR ''%'' then sql_like cs s \<or> (case s of [] \<Rightarrow> False | _ # t \<Rightarrow> sql_like (c # cs) t)
      else case s of
        [] \<Rightarrow> False
      | x # t \<Rightarrow> (c = CHR ''_'' \<or> to_lower_char c = to_lower_char x) \<and> sql_like cs t)"

definition ctl_resolveImageIDInDB :: "OwnershipDB \<Rightarrow> string \<Rightarrow> string option" where
  "ctl_resolveImageIDInDB db idOrPrefix =
     query_row ''ctl_resolveImageIDInDB'' 0 db
       (map_option iId (find (\<lambda>r. iId r = idOrPrefix \<or> sql_like (idOrPrefix @ ''%'') (iId r)) (tImages db)))"

text \<open>The image that a reference means: what the daemon says, or the reference itself, in the database.\<close>

definition find_image :: "ctl_env \<Rightarrow> OwnershipDB \<Rightarrow> string \<Rightarrow> string option" where
  "find_image e db ref =
     ctl_resolveImageIDInDB db (case ctl_resolveImageID (cxDaemon e) ref of Some i \<Rightarrow> i | None \<Rightarrow> ref)"

definition show_user :: "ctl_env \<Rightarrow> int \<Rightarrow> string" where
  "show_user e uid =
     (case cxLookupId e (itoa uid) of
        None \<Rightarrow> ''uid='' @ itoa uid
      | Some name \<Rightarrow> name @ ''(uid='' @ itoa uid @ '')'')"

text \<open>The users, without the owner, whose references keep an image from becoming private.\<close>

definition other_refs :: "ctl_env \<Rightarrow> OwnershipDB \<Rightarrow> string \<Rightarrow> (db_error, string list) result" where
  "other_refs e db resolvedID =
     (case GetImageRefUsers db resolvedID of
        Inl err \<Rightarrow> Inl err
      | Inr uids \<Rightarrow>
          (let ow = GetImageOwner db resolvedID
           in Inr (map (show_user e)
                (filter (\<lambda>u. case ow of Some (info, _) \<Rightarrow> u \<noteq> oiUID info | None \<Rightarrow> True) uids))))"

definition imageSetPublic :: "ctl_env \<Rightarrow> string list \<Rightarrow> OwnershipDB \<Rightarrow> ctl_result" where
  "imageSetPublic e args db =
     with_flags [(''public'', VBool True), (''force'', VBool False)] args db (\<lambda>fs rest.
       (case rest of
          [] \<Rightarrow> ctl_fail UsageWrong db
        | ref # _ \<Rightarrow>
            (case find_image e db ref of
               None \<Rightarrow> ctl_fail (ImageUnknown ref) db
             | Some resolvedID \<Rightarrow>
                 (let public = bool_flag fs ''public'';
                      refs = (if \<not> public \<and> \<not> bool_flag fs ''force'' then other_refs e db resolvedID else Inr [])
                  in case refs of
                       Inl _ \<Rightarrow> ctl_fail StatementFailed db
                     | Inr others \<Rightarrow>
                         (if others \<noteq> [] then ctl_ok (StillReferenced ref others) db
                          else case SetImagePublic resolvedID public db of
                            (Some _, db') \<Rightarrow> ctl_fail StatementFailed db'
                          | (None, db') \<Rightarrow> ctl_ok (ImageMarked ref (take 12 resolvedID) public) db')))))"

text \<open>The target of a grant: the user that is named, or a number; negative numbers are refused.\<close>

definition grant_target :: "ctl_env \<Rightarrow> string \<Rightarrow> int" where
  "grant_target e userArg =
     (case cxLookup e userArg of
        Some u \<Rightarrow> atoi_ign (atoi u)
      | None \<Rightarrow> (case atoi userArg of AtoiOk n \<Rightarrow> n | _ \<Rightarrow> -1))"

definition imageGrant :: "ctl_env \<Rightarrow> string list \<Rightarrow> OwnershipDB \<Rightarrow> ctl_result" where
  "imageGrant e args db =
     with_flags [] args db (\<lambda>fs rest.
       (case rest of
          ref # userArg # _ \<Rightarrow>
            (if grant_target e userArg < 0 then ctl_fail (IdentUnknown userArg) db
             else case find_image e db ref of
               None \<Rightarrow> ctl_fail (ImageUnknown ref) db
             | Some resolvedID \<Rightarrow>
                 (case EnsureImageAccess resolvedID (grant_target e userArg) db of
                    (Some _, db') \<Rightarrow> ctl_fail StatementFailed db'
                  | (None, db') \<Rightarrow>
                      ctl_ok (ImageGranted ref (take 12 resolvedID)
                        (case cxLookup e userArg of
                           Some _ \<Rightarrow> userArg @ ''(uid='' @ itoa (grant_target e userArg) @ '')''
                         | None \<Rightarrow> userArg)) db'))
        | _ \<Rightarrow> ctl_fail UsageWrong db))"

record dockerImageMeta =
  dmRepoTags :: "string list"
  dmCreated :: string
  dmSize :: int

definition image_meta :: "jmap \<Rightarrow> (string \<times> dockerImageMeta) option" where
  "image_meta es =
     (case (field_str ''Id'' es, field_slice dec_str_list ''RepoTags'' es, field_int64 ''Created'' es, field_int64 ''Size'' es) of
        (Some i, Some tags, Some created, Some sz) \<Rightarrow>
          Some (if length i > 7 then trim_prefix i ''sha256:'' else i,
                \<lparr>dmRepoTags = tags, dmCreated = format_rfc3339 created, dmSize = sz\<rparr>)
      | _ \<Rightarrow> None)"

definition fetchAllDockerImageMeta :: "daemon \<Rightarrow> (string \<times> dockerImageMeta) list" where
  "fetchAllDockerImageMeta d =
     (case daemon_get d ''/images/json'' ''all=true'' of
        None \<Rightarrow> []
      | Some (status, b) \<Rightarrow>
          (if status \<noteq> 200 then []
           else case b of
             Raw _ \<Rightarrow> []
           | Doc j \<Rightarrow> (case dec_structs image_meta j of None \<Rightarrow> [] | Some ms \<Rightarrow> to_map ms)))"

text \<open>
  \<^verbatim>\<open>%.2f\<close> of a size divided by a power of two, exact for sizes below \<open>2\<^sup>5\<^sup>3\<close>: hundredths,
  rounded to the nearest and to even in the middle.
\<close>

definition round_even :: "int \<Rightarrow> int \<Rightarrow> int" where
  "round_even a b =
     (let q = a div b; r = a mod b
      in if 2 * r < b then q else if 2 * r > b then q + 1 else if even q then q else q + 1)"

definition two_decimals :: "int \<Rightarrow> int \<Rightarrow> string" where
  "two_decimals n d = (let h = round_even (100 * n) d in nat_str (h div 100) @ ''.'' @ two (h mod 100))"

definition formatSize :: "int \<Rightarrow> string" where
  "formatSize b =
     (if b \<ge> 2 ^ 30 then two_decimals b (2 ^ 30) @ ''GB''
      else if b \<ge> 2 ^ 20 then two_decimals b (2 ^ 20) @ ''MB''
      else if b \<ge> 2 ^ 10 then two_decimals b (2 ^ 10) @ ''KB''
      else itoa b @ ''B'')"

text \<open>The age of a time, in whole units (Go computes them in floating point).\<close>

definition formatCreated :: "int \<Rightarrow> string \<Rightarrow> string" where
  "formatCreated now ts =
     (if ts = [] then ''N/A''
      else case parse_rfc3339 ts of
        None \<Rightarrow> take 19 ts
      | Some t \<Rightarrow>
          (let d = (now * 1000000000 - t) div 1000000000
           in if d < 60 then ''Just now''
              else if d < 3600 then itoa (d div 60) @ '' minutes ago''
              else if d < 24 * 3600 then itoa (d div 3600) @ '' hours ago''
              else if d < 30 * 24 * 3600 then itoa (d div (24 * 3600)) @ '' days ago''
              else if d < 365 * 24 * 3600 then itoa (d div (30 * 24 * 3600)) @ '' months ago''
              else itoa (d div (365 * 24 * 3600)) @ '' years ago''))"

text \<open>The rows of the images a listing shows, in the order of the statements.\<close>

definition image_rows :: "OwnershipDB \<Rightarrow> int \<Rightarrow> (db_error, image_row list) result" where
  "image_rows db uid =
     (if uid \<noteq> 0 then
        (case query_stmt ''imageList'' 0 db (sort_key iId (filter (\<lambda>r. iOwnerUID r = uid) (tImages db))) of
           Inl err \<Rightarrow> Inl err
         | Inr own \<Rightarrow>
             (case query_stmt ''imageList'' 1 db
                     (sort_key iId
                        (concat (map (\<lambda>a. filter (\<lambda>r. iId r = aImageID a \<and> iOwnerUID r \<noteq> uid) (tImages db))
                           (filter (\<lambda>a. aUserUID a = uid) (tImageAccess db))))) of
                Inl err \<Rightarrow> Inl err
              | Inr acc \<Rightarrow> Inr (own @ acc)))
      else query_stmt ''imageList'' 2 db (sort_key iOwnerUID (sort_key iId (tImages db))))"

definition find_meta :: "(string \<times> dockerImageMeta) list \<Rightarrow> string \<Rightarrow> dockerImageMeta option" where
  "find_meta ms imageID =
     (case map_of ms imageID of
        Some m \<Rightarrow> Some m
      | None \<Rightarrow> map_option snd (find (\<lambda>(full, _). length full \<ge> 12 \<and> take 12 full = take 12 imageID) ms))"

definition repo_tag :: "string list \<Rightarrow> string \<times> string" where
  "repo_tag tags =
     (case tags of
        t # _ \<Rightarrow>
          (if t = ''<none>:<none>'' then (''<none>'', ''<none>'')
           else case last_index_char CHR '':'' t of
             None \<Rightarrow> (''<none>'', ''<none>'')
           | Some i \<Rightarrow> (take i t, drop (Suc i) t))
      | [] \<Rightarrow> (''<none>'', ''<none>''))"

definition show_image :: "int \<Rightarrow> (string \<times> dockerImageMeta) list \<Rightarrow> image_row \<Rightarrow> image_line" where
  "show_image now ms r =
     (let om = find_meta ms (iId r);
          (repo, tag) = (case om of None \<Rightarrow> (''<none>'', ''<none>'') | Some m \<Rightarrow> repo_tag (dmRepoTags m))
      in \<lparr>ilRepo = repo, ilTag = tag, ilShort = take 12 (iId r), ilOwner = iOwnerUsername r, ilUID = iOwnerUID r,
          ilPublic = (iPublic r \<noteq> 0),
          ilCreated = (case om of None \<Rightarrow> ''N/A'' | Some m \<Rightarrow> formatCreated now (dmCreated m)),
          ilSize = (case om of None \<Rightarrow> ''N/A'' | Some m \<Rightarrow> (if dmSize m > 0 then formatSize (dmSize m) else ''N/A''))\<rparr>)"

definition imageList :: "ctl_env \<Rightarrow> string list \<Rightarrow> OwnershipDB \<Rightarrow> ctl_result" where
  "imageList e args db =
     with_flags [(''uid'', VInt 0), (''user'', VString []), (''all'', VBool False)] args db (\<lambda>fs _.
       (case filter_uid e fs of
          Inl err \<Rightarrow> ctl_fail err db
        | Inr uid \<Rightarrow>
            (case image_rows db uid of
               Inl _ \<Rightarrow> ctl_fail StatementFailed db
             | Inr rows \<Rightarrow>
                 ctl_ok (ImageLines (filter (\<lambda>l. bool_flag fs ''all'' \<or> ilRepo l \<noteq> ''<none>'')
                   (map (show_image (cxNow e) (fetchAllDockerImageMeta (cxDaemon e))) rows))) db)))"

definition imageCmd :: "ctl_env \<Rightarrow> string list \<Rightarrow> OwnershipDB \<Rightarrow> ctl_result" where
  "imageCmd e args =
     guarded e args (\<lambda>sub rest db.
       if sub = ''set-public'' then imageSetPublic e rest db
       else if sub = ''list'' then imageList e rest db
       else if sub = ''grant'' then imageGrant e rest db
       else ctl_fail (UnknownSubcommand sub) db)"

section \<open>Grants of volumes-from\<close>

text \<open>The newest grants first; the time of a grant is the order of the rows.\<close>

definition ListVolumesFromGrants :: "OwnershipDB \<Rightarrow> string \<Rightarrow> VolumesFromGrant list query" where
  "ListVolumesFromGrants db containerID =
     query_stmt ''ListVolumesFromGrants'' 0 db
       (rev (filter (\<lambda>g. containerID = [] \<or> vfContainerID g = containerID) (tVolumesFrom db)))"

text \<open>The user a grant is for: a number, a name, or everybody (-1).\<close>

definition grantee :: "ctl_env \<Rightarrow> flag_set \<Rightarrow> (ctl_error, int) result" where
  "grantee e fs =
     (if int_flag fs ''uid'' \<noteq> -2 then Inr (int_flag fs ''uid'')
      else if str_flag fs ''user'' \<noteq> [] then resolveIdent e (str_flag fs ''user'')
      else Inr (-1))"

definition container_or_ref :: "ctl_env \<Rightarrow> string \<Rightarrow> string" where
  "container_or_ref e ref = (case ctl_resolveContainerID (cxDaemon e) ref of Some i \<Rightarrow> i | None \<Rightarrow> ref)"

definition granted_by :: "ctl_env \<Rightarrow> int" where
  "granted_by e =
     (if cxUid e = 0 \<and> cxSudoUid e \<noteq> []
      then (case atoi (cxSudoUid e) of AtoiOk n \<Rightarrow> n | _ \<Rightarrow> cxUid e) else cxUid e)"

definition show_grantee :: "ctl_env \<Rightarrow> int \<Rightarrow> string" where
  "show_grantee e uid = (if uid \<ge> 0 then show_user e uid else ''*'')"

definition volumesFromAllow :: "ctl_env \<Rightarrow> string list \<Rightarrow> OwnershipDB \<Rightarrow> ctl_result" where
  "volumesFromAllow e args db =
     with_flags [(''container'', VString []), (''user'', VString []), (''uid'', VInt (-2))] args db (\<lambda>fs _.
       (if str_flag fs ''container'' = [] then ctl_fail ContainerMissing db
        else case grantee e fs of
          Inl err \<Rightarrow> ctl_fail err db
        | Inr uid \<Rightarrow>
            (let containerID = container_or_ref e (str_flag fs ''container'')
             in case GrantVolumesFrom containerID uid (granted_by e) db of
                  (Some _, db') \<Rightarrow> ctl_fail StatementFailed db'
                | (None, db') \<Rightarrow> ctl_ok (Granted containerID (show_grantee e uid)) db')))"

definition volumesFromDeny :: "ctl_env \<Rightarrow> string list \<Rightarrow> OwnershipDB \<Rightarrow> ctl_result" where
  "volumesFromDeny e args db =
     with_flags [(''container'', VString []), (''user'', VString []), (''uid'', VInt (-2)), (''all'', VBool False)] args db
       (\<lambda>fs _.
       (if str_flag fs ''container'' = [] then ctl_fail ContainerMissing db
        else let containerID = container_or_ref e (str_flag fs ''container'')
             in if bool_flag fs ''all'' then
                  (case RevokeVolumesFrom containerID (-999) db of
                     (Some _, db') \<Rightarrow> ctl_fail StatementFailed db'
                   | (None, db') \<Rightarrow> ctl_ok (RevokedAll containerID) db')
                else case grantee e fs of
                  Inl err \<Rightarrow> ctl_fail err db
                | Inr uid \<Rightarrow>
                    (case RevokeVolumesFrom containerID uid db of
                       (Some _, db') \<Rightarrow> ctl_fail StatementFailed db'
                     | (None, db') \<Rightarrow> ctl_ok (Revoked containerID (show_grantee e uid)) db')))"

definition show_grant :: "ctl_env \<Rightarrow> VolumesFromGrant \<Rightarrow> grant_line" where
  "show_grant e g =
     \<lparr>grContainer = take 12 (vfContainerID g), grGrantee = show_grantee e (GranteeUID g),
      grGrantor = (if GrantedBy g = 0 then ''root''
                   else case cxLookupId e (itoa (GrantedBy g)) of
                     Some name \<Rightarrow> name
                   | None \<Rightarrow> ''uid='' @ itoa (GrantedBy g))\<rparr>"

definition volumesFromList :: "ctl_env \<Rightarrow> string list \<Rightarrow> OwnershipDB \<Rightarrow> ctl_result" where
  "volumesFromList e args db =
     with_flags [(''container'', VString [])] args db (\<lambda>fs _.
       (let container = str_flag fs ''container'' in
        case ListVolumesFromGrants db container of
          Inl _ \<Rightarrow> ctl_fail StatementFailed db
        | Inr grants \<Rightarrow>
            (let second = (if grants = [] \<and> container \<noteq> [] then
                             (case ctl_resolveContainerID (cxDaemon e) container of
                                Some fullID \<Rightarrow> (if fullID \<noteq> container then ListVolumesFromGrants db fullID else Inr grants)
                              | None \<Rightarrow> Inr grants)
                           else Inr grants)
             in case second of
                  Inl _ \<Rightarrow> ctl_fail StatementFailed db
                | Inr gs \<Rightarrow> ctl_ok (GrantLines (map (show_grant e) gs)) db)))"

definition volumesFromCmd :: "ctl_env \<Rightarrow> string list \<Rightarrow> OwnershipDB \<Rightarrow> ctl_result" where
  "volumesFromCmd e args =
     guarded e args (\<lambda>sub rest db.
       if sub = ''allow'' then volumesFromAllow e rest db
       else if sub = ''deny'' then volumesFromDeny e rest db
       else if sub = ''list'' then volumesFromList e rest db
       else ctl_fail (UnknownSubcommand sub) db)"

section \<open>The tool\<close>

text \<open>
  The global flags choose the database and the daemon, which the surroundings already are; an
  error in them ends the process.
\<close>

definition ctl_main :: "ctl_env \<Rightarrow> string list \<Rightarrow> OwnershipDB \<Rightarrow> ctl_result" where
  "ctl_main e argv db =
     with_flags [(''db'', VString ''/var/lib/docker-authz/owners.db''), (''upstream'', VString ''/var/run/docker.sock'')] argv db
       (\<lambda>_ args.
          (case args of
             [] \<Rightarrow> ctl_fail NoCommand db
           | cmd # rest \<Rightarrow>
               (if cmd = ''peer'' then peerCmd e rest db
                else if cmd = ''image'' then imageCmd e rest db
                else if cmd = ''volumes-from'' then volumesFromCmd e rest db
                else ctl_fail (UnknownCommand cmd) db)))"

end
