(* ===== verification/CtlProps.thy ===== *)
theory CtlProps
  imports Ctl
begin

text \<open>
  Properties of the administration tool: only the administrator changes anything, a command takes
  the database one step of its own methods further, and a grant of volumes-from that is withdrawn
  no longer holds; and two commands that do something else than they say.
\<close>

section \<open>One step of the database\<close>

text \<open>The database after a command is the one before, or one step of a method further.\<close>

definition one_step :: "OwnershipDB \<Rightarrow> ctl_result \<Rightarrow> bool" where
  "one_step db r \<longleftrightarrow> snd (snd r) = db \<or> db_step db (snd (snd r))"

named_theorems ctl_steps \<open>commands that take one step\<close>

lemma one_step_pure [ctl_steps, simp]: "one_step db (x, reqs, db)"
  by (simp add: one_step_def)

lemma one_step_flags [ctl_steps]:
  "(\<And>fs rest. one_step db (body fs rest)) \<Longrightarrow> one_step db (with_flags spec args db body)"
  by (auto simp: with_flags_def split: sum.splits flag_error.splits prod.splits)

lemma one_step_guarded [ctl_steps]:
  "(\<And>sub rest. one_step db (run sub rest db)) \<Longrightarrow> one_step db (guarded e args run db)"
  by (simp add: guarded_def)

lemma one_step_write:
  assumes "f db = (err, db')" "db_step db (snd (f db))"
  shows "one_step db (x, reqs, db')"
  using assms by (simp add: one_step_def)

lemma allow_step: "AllowNetworkPeer d a b opts db = (err, reqs, db') \<Longrightarrow> one_step db (x, reqs, db')"
proof -
  have "db' = db \<or> (\<exists>n. db' = snd (AddNetworkPeer a b n (poContainerIDA opts) (poContainerIDB opts) db))"
    if "AllowNetworkPeer d a b opts db = (err, reqs, db')"
    using that unfolding AllowNetworkPeer_def
    by (auto split: if_splits sum.splits prod.splits) (metis snd_conv)+
  then show "AllowNetworkPeer d a b opts db = (err, reqs, db') \<Longrightarrow> ?thesis"
    by (auto simp: one_step_def intro: db_step.intros)
qed

lemma deny_step: "DenyNetworkPeer d a b opts db = (err, reqs, db') \<Longrightarrow> one_step db (x, reqs, db')"
proof -
  have "db' = snd (RemoveNetworkPeer a b (poContainerIDA opts) (poContainerIDB opts) db)"
    if "DenyNetworkPeer d a b opts db = (err, reqs, db')"
    using that unfolding DenyNetworkPeer_def
    by (auto split: if_splits option.splits prod.splits)
  then show "DenyNetworkPeer d a b opts db = (err, reqs, db') \<Longrightarrow> ?thesis"
    by (auto simp: one_step_def intro: db_step.intros)
qed

lemma mutate_step [ctl_steps]: "one_step db (peerMutate e cmd args db)"
  unfolding peerMutate_def
  by (rule one_step_flags)
    (auto simp: Let_def split: sum.splits prod.splits option.splits peer_error.splits intro: allow_step deny_step)

lemma public_step [ctl_steps]: "one_step db (imageSetPublic e args db)"
  unfolding imageSetPublic_def
  by (rule one_step_flags)
    (auto simp: Let_def split: sum.splits prod.splits option.splits list.splits
      intro: one_step_write [of "SetImagePublic _ _"] db_step.intros)

lemma grant_step [ctl_steps]: "one_step db (imageGrant e args db)"
  unfolding imageGrant_def
  by (rule one_step_flags)
    (auto simp: Let_def split: sum.splits prod.splits option.splits list.splits
      intro: one_step_write [of "EnsureImageAccess _ _"] db_step.intros)

lemma vf_allow_step [ctl_steps]: "one_step db (volumesFromAllow e args db)"
  unfolding volumesFromAllow_def
  by (rule one_step_flags)
    (auto simp: Let_def split: sum.splits prod.splits option.splits
      intro: one_step_write [of "GrantVolumesFrom _ _ _"] db_step.intros)

lemma vf_deny_step [ctl_steps]: "one_step db (volumesFromDeny e args db)"
  unfolding volumesFromDeny_def
  by (rule one_step_flags)
    (auto simp: Let_def split: sum.splits prod.splits option.splits
      intro: one_step_write [of "RevokeVolumesFrom _ _"] db_step.intros)

lemma list_steps [ctl_steps]:
  "one_step db (peerList e args db)" "one_step db (imageList e args db)" "one_step db (volumesFromList e args db)"
  unfolding peerList_def imageList_def volumesFromList_def
  by (rule one_step_flags, auto simp: Let_def split: sum.splits)+

lemma cmd_steps [ctl_steps]:
  "one_step db (peerCmd e args db)" "one_step db (imageCmd e args db)" "one_step db (volumesFromCmd e args db)"
  unfolding peerCmd_def imageCmd_def volumesFromCmd_def
  by (rule one_step_guarded, simp add: ctl_steps)+

lemma main_step: "one_step db (ctl_main e argv db)"
  unfolding ctl_main_def
  by (rule one_step_flags) (simp add: ctl_steps split: list.splits)

text \<open>
  C26. Whoever runs the administration tool and with whatever arguments: from a database that the
  program can reach it leads to one that the program can reach, and unless the effective user is
  root it changes neither the database nor the networks of the daemon.
\<close>

theorem ctl_root_only:
  assumes "db_reachable db" "ctl_main e argv db = (r, reqs, db')"
  shows "db_reachable db' \<and> (cxEuid e \<noteq> 0 \<longrightarrow> reqs = [] \<and> db' = db)"
proof -
  have "db' = db \<or> db_step db db'"
    using main_step [of db e argv] assms(2) by (simp add: one_step_def)
  then have "db_reachable db'"
    using assms(1) unfolding db_reachable_def by (metis rtranclp.rtrancl_into_rtrancl)
  moreover have "snd (ctl_main e argv db) = ([], db)" if "cxEuid e \<noteq> 0"
    using that unfolding ctl_main_def peerCmd_def imageCmd_def volumesFromCmd_def guarded_def with_flags_def
    by (simp split: sum.splits prod.splits list.splits flag_error.splits)
  ultimately show ?thesis using assms(2) by auto
qed

section \<open>Grants of volumes-from\<close>

definition vf_args :: "string \<Rightarrow> string \<Rightarrow> string \<Rightarrow> string list" where
  "vf_args sub c name = [''volumes-from'', sub, ''--container'', c, ''--user'', name]"

lemma vf_allow_flags:
  "parse_flags [(''container'', VString []), (''user'', VString []), (''uid'', VInt (-2))] [''--container'', c, ''--user'', name] =
     Inr ([(''container'', VString c), (''user'', VString name), (''uid'', VInt (-2))], [])"
  by (simp add: split_flag_def value_kind_def parse_value_def set_flag_def)

lemma vf_deny_flags:
  "parse_flags [(''container'', VString []), (''user'', VString []), (''uid'', VInt (-2)), (''all'', VBool False)]
       [''--container'', c, ''--user'', name] =
     Inr ([(''container'', VString c), (''user'', VString name), (''uid'', VInt (-2)), (''all'', VBool False)], [])"
  by (simp add: split_flag_def value_kind_def parse_value_def set_flag_def)

lemma no_flags: "hd a \<noteq> CHR ''-'' \<Longrightarrow> parse_flags fs (a # args) = Inr (fs, a # args)"
  by simp

declare parse_flags.simps(2) [simp del]

lemmas ctl_run = Let_def ctl_main_def with_flags_def guarded_def wants_help_def no_flags str_flag_def int_flag_def bool_flag_def exec_stmt_def

definition vf_can :: "OwnershipDB \<Rightarrow> string \<Rightarrow> int \<Rightarrow> bool" where
  "vf_can db cid uid \<longleftrightarrow> list_ex (\<lambda>g. vfContainerID g = cid \<and> (GranteeUID g = uid \<or> GranteeUID g = -1)) (tVolumesFrom db)"

lemma vf_can_eq: "\<not> dbFault db ''CanVolumesFrom'' 0 \<Longrightarrow> CanVolumesFrom db cid uid = Inr (vf_can db cid uid)"
  by (auto simp: CanVolumesFrom_def query_stmt_def count_where_def vf_can_def list_ex_iff filter_empty_conv)

text \<open>What the two commands do to the table when nothing fails.\<close>

lemma vf_run_allow:
  assumes "cxEuid e = 0" "cxOpens e" "c \<noteq> []" "name \<noteq> []" "resolveIdent e name = Inr uid" "\<not> dbFault db ''GrantVolumesFrom'' 0"
  shows "snd (snd (ctl_main e (vf_args ''allow'' c name) db)) =
    tVolumesFrom_update (insert_or_replace grant_key
      \<lparr>vfContainerID = container_or_ref e c, GranteeUID = uid, GrantedBy = granted_by e\<rparr>) db"
  using assms
  by (simp add: ctl_run vf_args_def volumesFromCmd_def volumesFromAllow_def vf_allow_flags grantee_def GrantVolumesFrom_def)

lemma vf_run_deny:
  assumes "cxEuid e = 0" "cxOpens e" "c \<noteq> []" "name \<noteq> []" "resolveIdent e name = Inr uid" "\<not> dbFault db ''RevokeVolumesFrom'' 0"
    "0 \<le> uid"
  shows "snd (snd (ctl_main e (vf_args ''deny'' c name) db)) =
    tVolumesFrom_update (delete_where (\<lambda>g. vfContainerID g = container_or_ref e c \<and> GranteeUID g = uid)) db"
  using assms
  by (simp add: ctl_run vf_args_def volumesFromCmd_def volumesFromDeny_def vf_deny_flags grantee_def RevokeVolumesFrom_def)

text \<open>
  C38. A grant of volumes-from to a user, given and withdrawn with the tool, holds exactly in
  between: after \<^verbatim>\<open>allow\<close> the user may use the volumes of the container, nobody else gains or
  loses anything, and after \<^verbatim>\<open>deny\<close> with the same arguments the user may use them only if the
  container is open to everybody.
\<close>

theorem grant_and_withdraw:
  assumes "no_faults db" "cxEuid e = 0" "cxOpens e" "c \<noteq> []" "name \<noteq> []" "resolveIdent e name = Inr uid" "0 \<le> uid"
    and "snd (snd (ctl_main e (vf_args ''allow'' c name) db)) = db1"
    and "snd (snd (ctl_main e (vf_args ''deny'' c name) db1)) = db2"
  shows "CanVolumesFrom db1 (container_or_ref e c) uid = Inr True \<and>
    (\<forall>cid' uid'. (cid', uid') \<noteq> (container_or_ref e c, uid) \<longrightarrow> CanVolumesFrom db1 cid' uid' = CanVolumesFrom db cid' uid') \<and>
    CanVolumesFrom db2 (container_or_ref e c) uid = CanVolumesFrom db (container_or_ref e c) (-1)"
proof -
  have nf: "\<not> dbFault db m n" for m n using assms(1) by (simp add: no_faults_def)
  have db1: "db1 = tVolumesFrom_update (insert_or_replace grant_key
      \<lparr>vfContainerID = container_or_ref e c, GranteeUID = uid, GrantedBy = granted_by e\<rparr>) db"
    using vf_run_allow [OF assms(2-6) nf] assms(8) by simp
  have nf1: "\<not> dbFault db1 m n" for m n using nf by (simp add: db1)
  have db2: "db2 = tVolumesFrom_update (delete_where (\<lambda>g. vfContainerID g = container_or_ref e c \<and> GranteeUID g = uid)) db1"
    using vf_run_deny [OF assms(2-6) nf1 assms(7)] assms(9) by simp
  have "vf_can db1 (container_or_ref e c) uid"
    by (simp add: db1 vf_can_def insert_or_replace_def)
  moreover have "vf_can db1 cid' uid' = vf_can db cid' uid'" if "(cid', uid') \<noteq> (container_or_ref e c, uid)" for cid' uid'
    using that assms(7) by (auto simp: db1 vf_can_def insert_or_replace_def list_ex_iff grant_key_def)
  moreover have "vf_can db2 (container_or_ref e c) uid = vf_can db (container_or_ref e c) (-1)"
    using assms(7) by (auto simp: db2 db1 vf_can_def insert_or_replace_def delete_where_def list_ex_iff grant_key_def)
  ultimately show ?thesis using nf nf1 by (simp add: vf_can_eq db2)
qed

section \<open>Commands that do something else\<close>

lemma sql_like_any: "sql_like ''%'' s"
  by (induction s) auto

text \<open>
  A reference that is empty, as from an unset variable of a script, is no error:
  \<^verbatim>\<open>image set-public ""\<close> makes the first image of the database public, whoever owns it, when the
  daemon does not answer the empty reference with an image.
\<close>

theorem empty_reference_publishes:
  assumes "no_faults db" "cxEuid e = 0" "cxOpens e" "tImages db = row # rows" "normalizeImageID (iId row) = iId row"
    "ctl_resolveImageID (cxDaemon e) [] = None"
  shows "\<exists>rows'. tImages (snd (snd (ctl_main e [''image'', ''set-public'', []] db))) = row\<lparr>iPublic := 1\<rparr> # rows'"
proof -
  have nf: "\<not> dbFault db m n" for m n using assms(1) by (simp add: no_faults_def)
  have "find_image e db [] = Some (iId row)"
    using assms(4,6) nf by (simp add: find_image_def ctl_resolveImageIDInDB_def query_row_def sql_like_any del: sql_like.simps)
  then show ?thesis
    using assms nf
    by (simp add: ctl_run parse_flags.simps(2) [of _ "[]"] imageCmd_def imageSetPublic_def SetImagePublic_def update_where_def)
qed

text \<open>
  A shared network between two containers cannot be closed any more once one of the containers
  is gone: the tool asks the daemon for the container first and gives up.
\<close>

theorem gone_container_keeps_peer:
  assumes "cxEuid e = 0" "ca \<noteq> []" "cb \<noteq> []" "ctl_resolveContainerID (cxDaemon e) ca = None"
  shows "\<exists>err. ctl_main e [''peer'', ''deny'', ''--uid-a'', a, ''--uid-b'', b, ''--container-a'', ca, ''--container-b'', cb] db
      = (Inl err, [], db)"
proof -
  have "parse_flags peer_flags [''--uid-a'', a, ''--uid-b'', b, ''--container-a'', ca, ''--container-b'', cb] =
      Inr ([(''uid-a'', VString a), (''uid-b'', VString b), (''user-a'', VString []), (''user-b'', VString []),
        (''container-a'', VString ca), (''container-b'', VString cb)], [])"
    by (simp add: peer_flags_def split_flag_def value_kind_def parse_value_def set_flag_def parse_flags.simps(2))
  then show ?thesis
    using assms
    by (auto simp: ctl_run peerCmd_def peerMutate_def check_peer_def or_else_def checkContainerOwner_def split: sum.splits)
qed

section \<open>Examples\<close>

definition demo_ctl :: ctl_env where
  "demo_ctl = \<lparr>cxEuid = 0, cxUid = 0, cxSudoUid = ''1000'', cxDaemon = (\<lambda>_ _ _ _. None),
     cxLookup = (\<lambda>n. if n = ''bob'' then Some ''1002'' else None), cxLookupId = (\<lambda>_. None), cxOpens = True, cxNow = 0\<rparr>"

theorem ctl_root_only_witness:
  "\<exists>r reqs db'. ctl_main (demo_ctl\<lparr>cxEuid := 5\<rparr>) [''peer'', ''list''] (emptyDB (\<lambda>_ _. False)) = (r, reqs, db')
     \<and> db_reachable db' \<and> reqs = [] \<and> db' = emptyDB (\<lambda>_ _. False)"
proof -
  obtain r reqs db' where run: "ctl_main (demo_ctl\<lparr>cxEuid := 5\<rparr>) [''peer'', ''list''] (emptyDB (\<lambda>_ _. False)) = (r, reqs, db')"
    by (metis prod_cases3)
  show ?thesis
    using ctl_root_only [OF reachable_empty run] run by (intro exI conjI) auto
qed

theorem grant_and_withdraw_witness:
  "CanVolumesFrom (snd (snd (ctl_main demo_ctl (vf_args ''allow'' ''c1'' ''bob'') (emptyDB (\<lambda>_ _. False))))) ''c1'' 1002 = Inr True"
proof -
  have "resolveIdent demo_ctl ''bob'' = Inr 1002" by code_simp
  moreover have "container_or_ref demo_ctl ''c1'' = ''c1''"
    by (simp add: container_or_ref_def ctl_resolveContainerID_def daemon_get_def demo_ctl_def answer_id_def)
  moreover have "no_faults (emptyDB (\<lambda>_ _. False))" by (simp add: no_faults_def emptyDB_def)
  ultimately show ?thesis
    using grant_and_withdraw [of "emptyDB (\<lambda>_ _. False)" demo_ctl "''c1''" "''bob''" 1002] by (simp add: demo_ctl_def)
qed

definition demo_ctl_images :: OwnershipDB where
  "demo_ctl_images = (emptyDB (\<lambda>_ _. False))\<lparr>tImages := [\<lparr>iId = ''ab12'', iOwnerUsername = ''bob'', iOwnerUID = 1002,
     iOwnerGID = 1002, iPublic = 0, iPrivCtx = 0, iSource = []\<rparr>]\<rparr>"

theorem empty_reference_publishes_witness:
  "\<exists>rows'. tImages (snd (snd (ctl_main demo_ctl [''image'', ''set-public'', []] demo_ctl_images))) =
     (hd (tImages demo_ctl_images))\<lparr>iPublic := 1\<rparr> # rows'"
  by (rule empty_reference_publishes [of demo_ctl_images demo_ctl "hd (tImages demo_ctl_images)" "[]"])
    (simp_all add: demo_ctl_images_def no_faults_def emptyDB_def demo_ctl_def normalizeImageID_def trim_prefix_def
      ctl_resolveImageID_def daemon_get_def answer_id_def)

end
