(* ===== verification/Cleanup.thy ===== *)
theory Cleanup
  imports StorageProps Answers
begin

text \<open>
  The storage of the users, as in \<^verbatim>\<open>internal/isolation/storage.go\<close>: the directory of a user
  (\<^verbatim>\<open>EnsureUserStorageDir\<close>) and one round of the cleanup (\<^verbatim>\<open>runCleanup\<close>) with its
  questions to the daemon, its records in the audit log and the removal of empty directories.  The
  loop over the volumes is \<open>runCleanup\<close> of theory Storage.
\<close>

section \<open>The directory of a user\<close>

record sdir =
  sdUid :: int
  sdGid :: int
  sdMode :: int

type_synonym sdirs = "string \<rightharpoonup> sdir"

datatype storage_error = StorageMkdir | StorageChown

text \<open>A directory that exists keeps its mode; \<open>fails\<close> tells which of the two calls fails.\<close>

definition EnsureUserStorageDir :: "(storage_error \<Rightarrow> bool) \<Rightarrow> string \<Rightarrow> int \<Rightarrow> int \<Rightarrow> sdirs \<Rightarrow> storage_error option \<times> sdirs" where
  "EnsureUserStorageDir fails base uid gid ds =
     (let dir = UserStorageRoot base uid;
          d = (case ds dir of Some d \<Rightarrow> d | None \<Rightarrow> \<lparr>sdUid = 0, sdGid = 0, sdMode = 7 * 64 + 5 * 8\<rparr>)
      in if fails StorageMkdir then (Some StorageMkdir, ds)
         else if fails StorageChown then (Some StorageChown, ds(dir \<mapsto> d))
         else (None, ds(dir \<mapsto> d\<lparr>sdUid := uid, sdGid := gid\<rparr>)))"

section \<open>Volumes without a container\<close>

definition dangling_volumes_filter :: string where
  "dangling_volumes_filter = ''filters='' @ query_escape (''{'' @ dq @ ''dangling'' @ dq @ '':['' @ dq @ ''true'' @ dq @ '']}'')"

text \<open>The name and, checked only for its type, the use of a volume.\<close>

definition volume_item :: "jmap \<Rightarrow> string option" where
  "volume_item es =
     (case sub_struct ''UsageData'' es of
        None \<Rightarrow> None
      | Some u \<Rightarrow> (case field_int64 ''RefCount'' u of None \<Rightarrow> None | Some _ \<Rightarrow> field_str ''Name'' es))"

definition listDanglingVolumes :: "daemon \<Rightarrow> string list option" where
  "listDanglingVolumes d =
     (case daemon_get d ''/volumes'' dangling_volumes_filter of
        None \<Rightarrow> None
      | Some (_, b) \<Rightarrow>
          (case body_struct b of
             None \<Rightarrow> None
           | Some es \<Rightarrow> field_slice (dec_structs volume_item) ''Volumes'' es))"

text \<open>\<^verbatim>\<open>url.PathEscape\<close>.\<close>

definition path_escape :: "string \<Rightarrow> string" where
  "path_escape s =
     concat (map (\<lambda>c. if unreserved c \<or> c \<in> set ''$&+:=@'' then [c]
                      else [CHR ''%'', hex_digit (of_char c div 16), hex_digit (of_char c mod 16)]) s)"

definition removeVolume :: "daemon \<Rightarrow> string \<Rightarrow> bool" where
  "removeVolume d name =
     (case d ''DELETE'' (''/volumes/'' @ path_escape name) [] no_body of
        None \<Rightarrow> False
      | Some (status, _) \<Rightarrow> status = 204 \<or> status = 200)"

section \<open>Empty directories\<close>

text \<open>An entry is a directory, or anything else (also a link to a directory).\<close>

datatype dnode = DOther | DDir "(string \<times> dnode) list"

text \<open>Reading a directory and removing one may fail.\<close>

record dir_faults =
  dfRead :: "string \<Rightarrow> bool"
  dfRemove :: "string \<Rightarrow> bool"

definition removeEmptySubDirs :: "dir_faults \<Rightarrow> string \<Rightarrow> (string \<times> dnode) list \<Rightarrow> (string \<times> dnode) list" where
  "removeEmptySubDirs f dir es =
     (if dfRead f dir then es
      else filter (\<lambda>(n, e). \<not> (e = DDir [] \<and> \<not> dfRead f (path_join dir n) \<and> \<not> dfRemove f (path_join dir n))) es)"

definition cleanup_entry :: "dir_faults \<Rightarrow> string \<Rightarrow> string \<times> dnode \<Rightarrow> string \<times> dnode" where
  "cleanup_entry f base p =
     (case p of
        (n, DDir es) \<Rightarrow> (if has_prefix n ''user-'' then (n, DDir (removeEmptySubDirs f (path_join base n) es)) else p)
      | _ \<Rightarrow> p)"

definition cleanup_dirs :: "dir_faults \<Rightarrow> string \<Rightarrow> (string \<times> dnode) list \<Rightarrow> (string \<times> dnode) list" where
  "cleanup_dirs f base es = (if base = [] \<or> dfRead f base then es else map (cleanup_entry f base) es)"

section \<open>One round\<close>

record cleanup_state =
  ckDB :: OwnershipDB
  ckAudit :: "AuditLogger option"
  ckFs :: fsys
  ckDirs :: "(string \<times> dnode) list"

definition log_removed :: "int \<Rightarrow> string \<Rightarrow> AuditLogger option \<times> fsys \<Rightarrow> AuditLogger option \<times> fsys" where
  "log_removed now v = (\<lambda>(a, s). Log now ''system'' 0 ''system'' ''volume_cleanup'' (''/volumes/'' @ v) ''allow''
     ''orphaned_volume_removed'' v 204 a s)"

definition cleanup_round :: "daemon \<Rightarrow> int \<Rightarrow> dir_faults \<Rightarrow> string \<Rightarrow> cleanup_state \<Rightarrow> string list \<times> cleanup_state" where
  "cleanup_round d now f base c =
     (case runCleanup (removeVolume d) (listDanglingVolumes d) (ckDB c) of
        (removed, db) \<Rightarrow>
          (case fold (log_removed now) removed (ckAudit c, ckFs c) of
             (a, s) \<Rightarrow> (removed, c\<lparr>ckDB := db, ckAudit := a, ckFs := s, ckDirs := cleanup_dirs f base (ckDirs c)\<rparr>)))"

section \<open>No file is lost\<close>

text \<open>The entries below a list of entries that are no directories, each with its path.\<close>

fun files_below :: "dnode \<Rightarrow> string list list" where
  "files_below DOther = [[]]"
| "files_below (DDir es) = concat (map (\<lambda>(n, d). map ((#) n) (files_below d)) es)"

lemma files_filter_empty:
  assumes "\<And>n e. (n, e) \<in> set es \<Longrightarrow> \<not> keep (n, e) \<Longrightarrow> files_below e = []"
  shows "files_below (DDir (filter keep es)) = files_below (DDir es)"
  using assms
proof (induction es)
  case (Cons p es)
  have "files_below (snd p) = []" if "\<not> keep p"
    using Cons.prems [of "fst p" "snd p"] that by simp
  moreover have "files_below (DDir (filter keep es)) = files_below (DDir es)"
    using Cons.IH Cons.prems by auto
  ultimately show ?case by (cases p) simp
qed simp

lemma files_map_entry:
  assumes "\<And>p. p \<in> set es \<Longrightarrow> fst (f p) = fst p \<and> files_below (snd (f p)) = files_below (snd p)"
  shows "files_below (DDir (map f es)) = files_below (DDir es)"
  using assms by (induction es) (auto simp: split_beta)

lemma files_removeEmptySubDirs: "files_below (DDir (removeEmptySubDirs f dir es)) = files_below (DDir es)"
  unfolding removeEmptySubDirs_def by (auto intro!: files_filter_empty simp del: files_below.simps(2)) simp

lemma files_cleanup_entry: "fst (cleanup_entry f base p) = fst p \<and> files_below (snd (cleanup_entry f base p)) = files_below (snd p)"
  by (cases p; cases "snd p") (auto simp: cleanup_entry_def files_removeEmptySubDirs simp del: files_below.simps(2))

text \<open>
  C28. One round of the cleanup loses nothing that is in use or recorded: it asks the daemon to
  remove only dangling volumes with the name of a user volume that the database does not know, the
  records of the volumes stay as they are, and below the storage of the users only empty
  directories disappear, every file keeps its place.
\<close>

theorem cleanup_loses_nothing:
  assumes "cleanup_round d now f base c = (removed, c')"
  shows "(\<forall>v \<in> set removed. isUserVolumePrefix v \<and> v \<notin> vName ` set (tVolumes (ckDB c)) \<and>
            (\<exists>vs. listDanglingVolumes d = Some vs \<and> v \<in> set vs)) \<and>
         tVolumes (ckDB c') = tVolumes (ckDB c) \<and>
         files_below (DDir (ckDirs c')) = files_below (DDir (ckDirs c))"
proof -
  have dirs: "files_below (DDir (cleanup_dirs f base es)) = files_below (DDir es)" for es
    using files_map_entry [of es "cleanup_entry f base"] by (simp add: cleanup_dirs_def files_cleanup_entry)
  obtain db where r: "runCleanup (removeVolume d) (listDanglingVolumes d) (ckDB c) = (removed, db)"
    and c': "ckDB c' = db" "ckDirs c' = cleanup_dirs f base (ckDirs c)"
    using assms by (auto simp: cleanup_round_def split: prod.splits)
  show ?thesis
    using r c' dirs cleanup_volumes_removed [of "removeVolume d" "map vName (tVolumes (ckDB c))" _ "ckDB c"]
    by (auto simp: runCleanup_def GetAllVolumeNames_def query_stmt_def simp del: files_below.simps(2)
        split: option.splits if_splits)
qed

definition demo_cleanup :: cleanup_state where
  "demo_cleanup = \<lparr>ckDB = demo_volume_db, ckAudit = None,
     ckFs = \<lparr>fsDir = [], fsNode = (\<lambda>_. new_inode 0), fsNext = 0, fsFault = (\<lambda>_. False)\<rparr>,
     ckDirs = [(''user-1001'', DDir [(''keep'', DDir [(''a'', DOther)]), (''old'', DDir [])])]\<rparr>"

definition demo_dangling_daemon :: daemon where
  "demo_dangling_daemon m p q b =
     (if m = ''GET'' then Some (200, Doc (JObj [(''Volumes'', JArr (map (\<lambda>v. JObj [(''Name'', JStr v)]) demo_dangling))]))
      else Some (204, no_body))"

theorem cleanup_loses_nothing_witness:
  "(case cleanup_round demo_dangling_daemon 0 \<lparr>dfRead = (\<lambda>_. False), dfRemove = (\<lambda>_. False)\<rparr> ''/s'' demo_cleanup of
     (removed, c') \<Rightarrow> removed = [''user-1001-volume-old''] \<and>
       ckDirs c' = [(''user-1001'', DDir [(''keep'', DDir [(''a'', DOther)])])] \<and>
       files_below (DDir (ckDirs c')) = files_below (DDir (ckDirs demo_cleanup)))"
proof -
  let ?f = "\<lparr>dfRead = (\<lambda>_. False), dfRemove = (\<lambda>_. False)\<rparr>"
  obtain removed c' where r: "cleanup_round demo_dangling_daemon 0 ?f ''/s'' demo_cleanup = (removed, c')" by fastforce
  have "fst (cleanup_round demo_dangling_daemon 0 ?f ''/s'' demo_cleanup) = [''user-1001-volume-old'']" by code_simp
  moreover have "ckDirs (snd (cleanup_round demo_dangling_daemon 0 ?f ''/s'' demo_cleanup)) =
      [(''user-1001'', DDir [(''keep'', DDir [(''a'', DOther)])])]" by code_simp
  ultimately show ?thesis
    using r cleanup_loses_nothing [OF r] by (simp del: files_below.simps)
qed

end
