(* ===== verification/UserEnv.thy ===== *)
theory UserEnv
  imports Cleanup Peers
begin

text \<open>
  What the proxy writes into the files of the users and of the system when it starts to serve a
  user: the address of the user's socket in the files of the shell, and the permission for sudo to
  keep that address, as in \<^verbatim>\<open>setUserDockerHost\<close>, \<^verbatim>\<open>writeDockerHostToFile\<close> and
  \<^verbatim>\<open>ensureSudoersEnvKeepInDir\<close> of \<^verbatim>\<open>internal/forward/proxy.go\<close>; the sockets of the users and
  the records of connections (\<^verbatim>\<open>startUserListener\<close>, \<^verbatim>\<open>Start\<close>, \<^verbatim>\<open>watchNewUsers\<close>,
  \<^verbatim>\<open>Stop\<close>).

  A file has a text, an owner and a mode.  A name may be a symbolic link to another name (links to
  links are not modelled); reading, writing and changing the owner follow it, as the system calls
  do.  Reading and writing may fail.
\<close>

section \<open>Files with links\<close>

record hfile =
  hfText :: string
  hfUid :: int
  hfGid :: int
  hfMode :: int

record hfs =
  hsFiles :: "string \<rightharpoonup> hfile"
  hsLinks :: "string \<rightharpoonup> string"
  hsNoRead :: "string \<Rightarrow> bool"
  hsNoWrite :: "string \<Rightarrow> bool"

definition follow :: "hfs \<Rightarrow> string \<Rightarrow> string" where
  "follow s p = (case hsLinks s p of Some q \<Rightarrow> q | None \<Rightarrow> p)"

datatype read_result = NotExist | ReadError | ReadText string

definition read_file :: "hfs \<Rightarrow> string \<Rightarrow> read_result" where
  "read_file s p =
     (case hsFiles s (follow s p) of
        None \<Rightarrow> NotExist
      | Some f \<Rightarrow> (if hsNoRead s (follow s p) then ReadError else ReadText (hfText f)))"

definition put_file :: "hfs \<Rightarrow> string \<Rightarrow> hfile \<Rightarrow> hfs" where
  "put_file s p f = s\<lparr>hsFiles := (hsFiles s)(p \<mapsto> f)\<rparr>"

text \<open>\<^verbatim>\<open>os.WriteFile\<close>: a file that exists keeps its owner and mode.\<close>

definition file_or_new :: "hfs \<Rightarrow> string \<Rightarrow> int \<Rightarrow> hfile" where
  "file_or_new s p mode =
     (case hsFiles s p of Some f \<Rightarrow> f | None \<Rightarrow> \<lparr>hfText = [], hfUid = 0, hfGid = 0, hfMode = mode\<rparr>)"

definition mode_644 :: int where
  "mode_644 = 6 * 64 + 4 * 8 + 4"

definition mode_440 :: int where
  "mode_440 = 4 * 64 + 4 * 8"

section \<open>The address of the socket\<close>

definition marker :: string where
  "marker = ''# docker-authz-proxy: DOCKER_HOST''"

definition export_line :: "systemUser \<Rightarrow> string \<Rightarrow> string" where
  "export_line u socketDir =
     ''export DOCKER_HOST=unix://'' @ path_join (path_join socketDir (suUsername u)) ''docker.sock''"

definition old_pattern :: "systemUser \<Rightarrow> string" where
  "old_pattern u = marker @ nl @ ''export DOCKER_HOST=unix:///run/docker-authz/'' @ suUsername u @ ''.sock''"

definition append_host :: "string \<Rightarrow> systemUser \<Rightarrow> string \<Rightarrow> hfs \<Rightarrow> hfs" where
  "append_host cfgFile u exportLine s =
     (let p = follow s cfgFile; f = file_or_new s p mode_644
      in if hsNoWrite s p then s
         else put_file s p (f\<lparr>hfText := hfText f @ nl @ marker @ nl @ exportLine @ nl, hfUid := suUID u, hfGid := suGID u\<rparr>))"

definition writeDockerHostToFile :: "string \<Rightarrow> systemUser \<Rightarrow> string \<Rightarrow> hfs \<Rightarrow> hfs" where
  "writeDockerHostToFile cfgFile u exportLine s =
     (case read_file s cfgFile of
        ReadError \<Rightarrow> s
      | NotExist \<Rightarrow> append_host cfgFile u exportLine s
      | ReadText content \<Rightarrow>
          (if contains_str content exportLine then s
           else if contains_str content marker then
             (let p = follow s cfgFile; f = file_or_new s p mode_644
              in if hsNoWrite s p then s
                 else put_file s p (f\<lparr>hfText := replace_all content (old_pattern u) (marker @ nl @ exportLine)\<rparr>))
           else append_host cfgFile u exportLine s))"

definition shell_files :: "systemUser \<Rightarrow> string list" where
  "shell_files u = map (path_join (suHomeDir u)) [''.bashrc'', ''.bash_profile'', ''.profile'']"

definition setUserDockerHost :: "systemUser \<Rightarrow> string \<Rightarrow> hfs \<Rightarrow> hfs" where
  "setUserDockerHost u socketDir s =
     (if suHomeDir u = [] then s
      else fold (\<lambda>cfg. writeDockerHostToFile cfg u (export_line u socketDir)) (shell_files u) s)"

section \<open>The rule for sudo\<close>

definition sudoersContent :: string where
  "sudoersContent =
     ''# docker-authz-proxy managed -- do not edit manually'' @ nl @
     ''Defaults:%sudo env_keep += '' @ dq @ ''DOCKER_HOST'' @ dq @ nl"

text \<open>The step at which the writing of the temporary file may fail.\<close>

datatype sudoers_fault = NoFault | CreateFails | WriteFails | CloseFails | ChmodFails | RenameFails

definition ensureSudoersEnvKeepInDir :: "sudoers_fault \<Rightarrow> string \<Rightarrow> string \<Rightarrow> hfs \<Rightarrow> hfs" where
  "ensureSudoersEnvKeepInDir fault tmp dir s =
     (let target = path_join dir ''docker-authz-proxy-env'';
          install = (if fault = NoFault
                     then s\<lparr>hsFiles := (hsFiles s)(tmp := None, target \<mapsto> \<lparr>hfText = sudoersContent, hfUid = 0, hfGid = 0,
                            hfMode = mode_440\<rparr>), hsLinks := (hsLinks s)(target := None)\<rparr>
                     else if fault = CreateFails then s
                     else s\<lparr>hsFiles := (hsFiles s)(tmp := None)\<rparr>)
      in case read_file s target of
           ReadText t \<Rightarrow> (if t = sudoersContent then s else install)
         | NotExist \<Rightarrow> install
         | ReadError \<Rightarrow> s)"

section \<open>Sockets\<close>

text \<open>The directory and the socket of a user, with their owners and modes, while they are served.\<close>

record user_sock =
  usPath :: string
  usDirMode :: int
  usMode :: int
  usUid :: int
  usGid :: int

datatype listen_error = MkdirDir | ChownDir | ChmodDir | ListenSock | ChownSock | ChmodSock

type_synonym listeners = "(string \<times> user_sock) list"

definition userSockPath :: "string \<Rightarrow> systemUser \<Rightarrow> string" where
  "userSockPath socketDir u = path_join (path_join socketDir (suUsername u)) ''docker.sock''"

text \<open>The first call that fails ends the attempt; the listener is recorded under the user's name.\<close>

definition startUserListener ::
    "(listen_error \<Rightarrow> bool) \<Rightarrow> string \<Rightarrow> systemUser \<Rightarrow> listeners \<Rightarrow> listen_error option \<times> listeners" where
  "startUserListener fails socketDir u ls =
     (case find fails [MkdirDir, ChownDir, ChmodDir, ListenSock, ChownSock, ChmodSock] of
        Some err \<Rightarrow> (Some err, ls)
      | None \<Rightarrow>
          (None, map_put (suUsername u)
             \<lparr>usPath = userSockPath socketDir u, usDirMode = 7 * 64, usMode = 6 * 64, usUid = suUID u, usGid = suGID u\<rparr> ls))"

record server =
  svListeners :: listeners
  svFiles :: hfs
  svStorageBase :: string
  svStorage :: sdirs
  svStorageFault :: "storage_error \<Rightarrow> bool"
  svWorld :: world

definition ensureUserStorageDir :: "systemUser \<Rightarrow> server \<Rightarrow> server" where
  "ensureUserStorageDir u sv =
     sv\<lparr>svStorage := snd (EnsureUserStorageDir (svStorageFault sv) (svStorageBase sv) (suUID u) (suGID u) (svStorage sv))\<rparr>"

text \<open>What follows for a user whose listener has started.\<close>

definition serve_user :: "(listen_error \<Rightarrow> bool) \<Rightarrow> daemon \<Rightarrow> string \<Rightarrow> systemUser \<Rightarrow> server \<Rightarrow> server" where
  "serve_user fails d socketDir u sv =
     (case startUserListener fails socketDir u (svListeners sv) of
        (Some _, _) \<Rightarrow> sv
      | (None, ls) \<Rightarrow>
          ensureUserStorageDir u
            (sv\<lparr>svListeners := ls, svFiles := setUserDockerHost u socketDir (svFiles sv),
                svWorld := ensureUserBridge d u (svWorld sv)\<rparr>))"

datatype start_error = SocketDirFailed | NoSystemUsers

definition Start ::
    "(string \<Rightarrow> listen_error \<Rightarrow> bool) \<Rightarrow> bool \<Rightarrow> sudoers_fault \<Rightarrow> string \<Rightarrow> daemon \<Rightarrow> string option \<Rightarrow> string \<Rightarrow> server
      \<Rightarrow> start_error option \<times> server" where
  "Start fails dir_ok fault tmp d passwd socketDir sv =
     (if \<not> dir_ok then (Some SocketDirFailed, sv)
      else
        (let sv1 = sv\<lparr>svFiles := ensureSudoersEnvKeepInDir fault tmp ''/etc/sudoers.d'' (svFiles sv)\<rparr>;
             us = listSystemUsers passwd
         in if us = [] then (Some NoSystemUsers, sv1)
            else (None, fold (\<lambda>u. serve_user (fails (suUsername u)) d socketDir u) us sv1)))"

text \<open>One round of the watch: users without a listener are served.\<close>

definition watchNewUsers ::
    "(string \<Rightarrow> listen_error \<Rightarrow> bool) \<Rightarrow> daemon \<Rightarrow> string option \<Rightarrow> string \<Rightarrow> server \<Rightarrow> server" where
  "watchNewUsers fails d passwd socketDir sv =
     fold (\<lambda>u sv. if map_of (svListeners sv) (suUsername u) = None
                  then serve_user (fails (suUsername u)) d socketDir u sv else sv)
       (listSystemUsers passwd) sv"

text \<open>The paths of the sockets that are removed at the end.\<close>

definition Stop :: "string \<Rightarrow> server \<Rightarrow> string list" where
  "Stop socketDir sv = map (\<lambda>(name, _). path_join (path_join socketDir name) ''docker.sock'') (svListeners sv)"

section \<open>Records of connections\<close>

definition connect_entry :: "string \<Rightarrow> (string \<times> bool, CallerIdentity) result \<Rightarrow> AuthAuditEntry" where
  "connect_entry clientAddr r =
     (case r of
        Inl (err, forgery) \<Rightarrow>
          \<lparr>auTime = [], auEvent = (if forgery then ''auth_forgery'' else ''auth_failure''), auPID = 0, auClientAddr = clientAddr,
           auEffectiveUID = -1, auEffectiveUsername = [], auLoginUID = -1, auLoginUsername = [], auRealUID = -1,
           auRealUsername = [], auSwitchedIdentity = False, auSwitchType = [], auPasswdVerified = False,
           auFailureReason = err, auForgeryDetail = (if forgery then err else [])\<rparr>
      | Inr i \<Rightarrow>
          \<lparr>auTime = [], auEvent = ''auth_success'', auPID = PID i, auClientAddr = clientAddr,
           auEffectiveUID = EffectiveUID i, auEffectiveUsername = EffectiveUsername i, auLoginUID = LoginUID i,
           auLoginUsername = LoginUsername i, auRealUID = RealUID i, auRealUsername = RealUsername i,
           auSwitchedIdentity = SwitchedIdentity i,
           auSwitchType = (if \<not> SwitchedIdentity i then [] else if EffectiveUID i = 0 then ''sudo'' else ''su''),
           auPasswdVerified = True, auFailureReason = [], auForgeryDetail = []\<rparr>)"

text \<open>The identity of the connection: one that no request is accepted for when it cannot be resolved.\<close>

definition connect_identity :: "string \<Rightarrow> (string \<times> bool, CallerIdentity) result \<Rightarrow> CallerIdentity" where
  "connect_identity clientAddr r =
     (case r of
        Inl _ \<Rightarrow>
          (tcp_identity ''unknown'' (-1) 0 AuthSourceNone)\<lparr>EffectiveUID := 0, LoginUID := -1, ClientAddr := clientAddr\<rparr>
      | Inr i \<Rightarrow> i\<lparr>ClientAddr := clientAddr\<rparr>)"

section \<open>Lemmas\<close>

lemma replace_all_none: "\<not> contains_str s old \<Longrightarrow> old \<noteq> [] \<Longrightarrow> replace_all s old new = s"
proof (induction s)
  case (Cons c s)
  have "\<not> has_prefix (c # s) old" "\<not> contains_str s old"
    using Cons.prems by (auto simp: contains_str_def split: if_splits)
  then show ?case using Cons by simp
qed simp

lemma replace_all_some: "contains_str s old \<Longrightarrow> old \<noteq> [] \<Longrightarrow> contains_str (replace_all s old new) new"
proof (induction s old new rule: replace_all.induct)
  case (1 old new)
  then show ?case by (simp add: contains_str_def)
next
  case (2 c cs old new)
  show ?case
  proof (cases "has_prefix (c # cs) old")
    case True
    then show ?thesis using "2.prems" by (auto simp: contains_str_iff)
  next
    case False
    then have "contains_str cs old" using "2.prems" by (auto simp: contains_str_def)
    then have "contains_str (replace_all cs old new) new" using 2(2) False "2.prems" by simp
    then show ?thesis using False by (auto simp: contains_str_iff) (metis append_Cons)
  qed
qed

lemma contains_append: "contains_str (a @ s @ b) s"
  by (auto simp: contains_str_iff)

lemma contains_tail: "contains_str s (a @ b) \<Longrightarrow> contains_str s b"
  by (metis append.assoc contains_str_iff)

lemma follow_put [simp]: "follow (put_file s p f) q = follow s q" "hsNoRead (put_file s p f) = hsNoRead s"
  "hsNoWrite (put_file s p f) = hsNoWrite s" "hsFiles (put_file s p f) = (hsFiles s)(p \<mapsto> f)"
  "hsLinks (put_file s p f) = hsLinks s"
  by (simp_all add: follow_def put_file_def)

lemma put_put [simp]: "put_file (put_file s p f) p f = put_file s p f"
  by (simp add: put_file_def)

lemma read_put: "read_file (put_file s (follow s c) f) c = (if hsNoRead s (follow s c) then ReadError else ReadText (hfText f))"
  by (simp add: read_file_def)

lemma marker_not_Nil [simp]: "marker \<noteq> []" "old_pattern u \<noteq> []"
  by (simp_all add: marker_def old_pattern_def)

lemma host_in_line: "contains_str (t @ nl @ marker @ nl @ e @ nl) e"
  using contains_append [of "t @ nl @ marker @ nl" e nl] by simp

section \<open>The files of the shell\<close>

text \<open>
  Writing the address of the socket is idempotent: however often the proxy starts to serve a
  user, a file of the shell gets the lines once.
\<close>

theorem docker_host_idempotent:
  "writeDockerHostToFile cfg u e (writeDockerHostToFile cfg u e s) = writeDockerHostToFile cfg u e s"
proof -
  have app: "writeDockerHostToFile cfg u e (append_host cfg u e s) = append_host cfg u e s"
    if "read_file s cfg = NotExist \<or> (\<exists>t. read_file s cfg = ReadText t \<and> \<not> contains_str t e \<and> \<not> contains_str t marker)"
  proof (cases "hsNoWrite s (follow s cfg)")
    case True
    then have "append_host cfg u e s = s" by (simp add: append_host_def)
    then show ?thesis using that by (auto simp: writeDockerHostToFile_def)
  next
    case False
    define f where "f = file_or_new s (follow s cfg) mode_644"
    define g where "g = f\<lparr>hfText := hfText f @ nl @ marker @ nl @ e @ nl, hfUid := suUID u, hfGid := suGID u\<rparr>"
    have w: "append_host cfg u e s = put_file s (follow s cfg) g"
      using False by (simp add: append_host_def Let_def g_def f_def)
    have "hfText g = hfText f @ nl @ marker @ nl @ e @ nl" by (simp add: g_def)
    then have "contains_str (hfText g) e" by (simp only: host_in_line)
    then show ?thesis
      unfolding w by (simp add: writeDockerHostToFile_def read_put)
  qed
  show ?thesis
  proof (cases "read_file s cfg")
    case (ReadText t)
    define p where "p = follow s cfg"
    define f where "f = (file_or_new s p mode_644)\<lparr>hfText := replace_all t (old_pattern u) (marker @ nl @ e)\<rparr>"
    consider "contains_str t e" | "\<not> contains_str t e" "\<not> contains_str t marker"
      | (upd) "\<not> contains_str t e" "contains_str t marker" "\<not> hsNoWrite s p"
      | "\<not> contains_str t e" "contains_str t marker" "hsNoWrite s p"
      by blast
    then show ?thesis
    proof cases
      case upd
      have w: "writeDockerHostToFile cfg u e s = put_file s p f"
        using ReadText upd by (simp add: writeDockerHostToFile_def p_def f_def Let_def)
      show ?thesis
      proof (cases "contains_str t (old_pattern u)")
        case True
        have "hfText f = replace_all t (old_pattern u) (marker @ nl @ e)" by (simp add: f_def)
        then have "contains_str (hfText f) (marker @ nl @ e)" using True by (simp only: replace_all_some marker_not_Nil simp_thms)
        then have "contains_str (hfText f) e" by (metis contains_tail)
        then show ?thesis using w by (simp add: writeDockerHostToFile_def p_def read_put)
      next
        case False
        then have ft: "hfText f = t" by (simp add: f_def replace_all_none)
        have fn: "file_or_new (put_file s p f) p mode_644 = f" by (simp add: file_or_new_def)
        have same: "put_file (put_file s p f) p (f\<lparr>hfText := t\<rparr>) = put_file s p f" unfolding ft [symmetric] by simp
        show ?thesis
          unfolding w using fn ft upd False same
          by (simp add: writeDockerHostToFile_def p_def read_put Let_def replace_all_none)
      qed
    qed (use ReadText app in \<open>auto simp: writeDockerHostToFile_def p_def Let_def\<close>)
  qed (use app in \<open>auto simp: writeDockerHostToFile_def\<close>)
qed

lemma write_keeps_owner:
  assumes "hsFiles s q = Some f" "hfUid f = suUID u"
  shows "\<exists>f'. hsFiles (writeDockerHostToFile cfg u e s) q = Some f' \<and> hfUid f' = suUID u"
  using assms
  by (auto simp: writeDockerHostToFile_def append_host_def Let_def file_or_new_def split: read_result.splits if_splits)

lemma fold_keeps_owner:
  "hsFiles s q = Some f \<Longrightarrow> hfUid f = suUID u \<Longrightarrow>
     \<exists>f'. hsFiles (fold (\<lambda>cfg. writeDockerHostToFile cfg u e) cfgs s) q = Some f' \<and> hfUid f' = suUID u"
proof (induction cfgs arbitrary: s f)
  case (Cons c cfgs)
  then show ?case using write_keeps_owner [OF Cons.prems(1,2), of c e] by auto
qed simp

text \<open>
  The proxy, running as root, follows a link in the home of a user: when the user makes the
  file \<^verbatim>\<open>.bashrc\<close> a link to any file of the system, then serving the user makes the user the owner
  of that file.
\<close>

theorem linked_file_changes_owner:
  assumes "suHomeDir u \<noteq> []" "hsLinks s (path_join (suHomeDir u) ''.bashrc'') = Some q" "hsFiles s q = Some f"
    "\<not> hsNoRead s q" "\<not> hsNoWrite s q" "\<not> contains_str (hfText f) (export_line u socketDir)" "\<not> contains_str (hfText f) marker"
  shows "\<exists>f'. hsFiles (setUserDockerHost u socketDir s) q = Some f' \<and> hfUid f' = suUID u"
proof -
  let ?c = "path_join (suHomeDir u) ''.bashrc''"
  let ?e = "export_line u socketDir"
  have fol: "follow s ?c = q" using assms(2) by (simp add: follow_def)
  have "\<exists>f'. hsFiles (writeDockerHostToFile ?c u ?e s) q = Some f' \<and> hfUid f' = suUID u"
    using assms fol by (simp add: writeDockerHostToFile_def read_file_def append_host_def Let_def)
  then show ?thesis
    using assms(1) fold_keeps_owner [of _ q _ u ?e "map (path_join (suHomeDir u)) [''.bash_profile'', ''.profile'']"]
    by (auto simp: setUserDockerHost_def shell_files_def)
qed

text \<open>In the witness mallory has made a link to the password file.\<close>

definition demo_mallory :: systemUser where
  "demo_mallory = \<lparr>suUsername = ''mallory'', suUID = 1002, suGID = 1002, suHomeDir = ''/home/mallory''\<rparr>"

definition demo_hfs :: hfs where
  "demo_hfs = \<lparr>hsFiles = [''/etc/passwd'' \<mapsto> \<lparr>hfText = ''root:x:0:0::/root:/bin/sh'', hfUid = 0, hfGid = 0, hfMode = mode_644\<rparr>],
     hsLinks = [''/home/mallory/.bashrc'' \<mapsto> ''/etc/passwd''], hsNoRead = (\<lambda>_. False), hsNoWrite = (\<lambda>_. False)\<rparr>"

theorem linked_file_changes_owner_witness:
  "\<exists>f'. hsFiles (setUserDockerHost demo_mallory ''/run/docker-authz'' demo_hfs) ''/etc/passwd'' = Some f' \<and> hfUid f' = 1002"
proof -
  have "path_join (suHomeDir demo_mallory) ''.bashrc'' = ''/home/mallory/.bashrc''" by code_simp
  moreover have "\<not> contains_str ''root:x:0:0::/root:/bin/sh'' (export_line demo_mallory ''/run/docker-authz'')" by code_simp
  moreover have "\<not> contains_str ''root:x:0:0::/root:/bin/sh'' marker" by code_simp
  ultimately show ?thesis
    using linked_file_changes_owner [of demo_mallory demo_hfs "''/etc/passwd''" _ "''/run/docker-authz''"]
    by (auto simp: demo_mallory_def demo_hfs_def)
qed

section \<open>The rule for sudo\<close>

text \<open>
  The rule for sudo is installed completely or not at all, whatever step fails: the file has its
  old content and mode, or the whole new content with the mode that sudo demands; no temporary file
  remains, and no other file changes.
\<close>

theorem sudoers_all_or_nothing:
  assumes "s' = ensureSudoersEnvKeepInDir fault tmp dir s" "hsFiles s tmp = None" "tmp \<noteq> path_join dir ''docker-authz-proxy-env''"
  shows "hsFiles s' (path_join dir ''docker-authz-proxy-env'') \<in>
      {hsFiles s (path_join dir ''docker-authz-proxy-env''),
       Some \<lparr>hfText = sudoersContent, hfUid = 0, hfGid = 0, hfMode = mode_440\<rparr>} \<and>
    (\<forall>p. p \<noteq> path_join dir ''docker-authz-proxy-env'' \<longrightarrow> hsFiles s' p = hsFiles s p)"
  using assms(2,3) unfolding assms(1) by (auto simp: ensureSudoersEnvKeepInDir_def Let_def split: read_result.splits)

theorem sudoers_all_or_nothing_witness:
  "hsFiles (ensureSudoersEnvKeepInDir ChmodFails ''/etc/sudoers.d/t1'' ''/etc/sudoers.d'' demo_hfs) ''/etc/passwd''
     = hsFiles demo_hfs ''/etc/passwd''"
proof -
  have "path_join ''/etc/sudoers.d'' ''docker-authz-proxy-env'' = ''/etc/sudoers.d/docker-authz-proxy-env''" by code_simp
  then show ?thesis
    using sudoers_all_or_nothing [OF refl, of demo_hfs "''/etc/sudoers.d/t1''" "''/etc/sudoers.d''" ChmodFails]
    by (simp add: demo_hfs_def)
qed

section \<open>Every user is served\<close>

lemma listeners_ensureUserStorageDir [simp]: "svListeners (ensureUserStorageDir u sv) = svListeners sv"
  by (simp add: ensureUserStorageDir_def)

lemma serve_user_listeners:
  "svListeners (serve_user fails d dir u sv) = svListeners sv \<or>
     (\<exists>us. svListeners (serve_user fails d dir u sv) = map_put (suUsername u) us (svListeners sv) \<and>
        usMode us = 6 * 64 \<and> usDirMode us = 7 * 64 \<and> usUid us = suUID u)"
  by (auto simp: serve_user_def startUserListener_def split: option.splits)

definition sockets_ok :: "listeners \<Rightarrow> bool" where
  "sockets_ok ls \<longleftrightarrow> distinct (map fst ls) \<and> (\<forall>(n, us) \<in> set ls. usMode us = 6 * 64 \<and> usDirMode us = 7 * 64)"

lemma sockets_ok_put: "sockets_ok ls \<Longrightarrow> usMode us = 6 * 64 \<Longrightarrow> usDirMode us = 7 * 64 \<Longrightarrow> sockets_ok (map_put n us ls)"
  by (auto simp: sockets_ok_def distinct_fst_put set_map_put)

lemma sockets_ok_serve: "sockets_ok (svListeners sv) \<Longrightarrow> sockets_ok (svListeners (serve_user fails d dir u sv))"
  using serve_user_listeners [of fails d dir u sv] by (auto simp: sockets_ok_put)

lemma serve_user_keeps:
  assumes "sockets_ok (svListeners sv)" "map_of (svListeners sv) n \<noteq> None"
  shows "map_of (svListeners (serve_user fails d dir u sv)) n \<noteq> None"
  using serve_user_listeners [of fails d dir u sv] assms by (auto simp: sockets_ok_def)

lemma serve_user_starts:
  assumes "sockets_ok (svListeners sv)" "\<forall>e. \<not> fails e"
  shows "map_of (svListeners (serve_user fails d dir u sv)) (suUsername u) \<noteq> None"
  using assms by (simp add: serve_user_def startUserListener_def sockets_ok_def)

definition watch_step :: "(string \<Rightarrow> listen_error \<Rightarrow> bool) \<Rightarrow> daemon \<Rightarrow> string \<Rightarrow> systemUser \<Rightarrow> server \<Rightarrow> server" where
  "watch_step fails d dir u sv =
     (if map_of (svListeners sv) (suUsername u) = None then serve_user (fails (suUsername u)) d dir u sv else sv)"

lemma watch_fold:
  assumes "sockets_ok (svListeners sv)"
  shows "sockets_ok (svListeners (fold (watch_step fails d dir) us sv)) \<and>
    (\<forall>n. map_of (svListeners sv) n \<noteq> None \<or> (\<exists>u \<in> set us. suUsername u = n \<and> (\<forall>e. \<not> fails n e)) \<longrightarrow>
       map_of (svListeners (fold (watch_step fails d dir) us sv)) n \<noteq> None)"
  using assms
proof (induction us arbitrary: sv)
  case (Cons u us)
  define sv1 where "sv1 = watch_step fails d dir u sv"
  have ok: "sockets_ok (svListeners sv1)"
    using Cons.prems by (simp add: sv1_def watch_step_def sockets_ok_serve)
  have kept: "map_of (svListeners sv1) n \<noteq> None" if "map_of (svListeners sv) n \<noteq> None" for n
    using that serve_user_keeps [OF Cons.prems that] by (simp add: sv1_def watch_step_def)
  have started: "map_of (svListeners sv1) (suUsername u) \<noteq> None" if "\<forall>e. \<not> fails (suUsername u) e"
    using serve_user_starts [OF Cons.prems that] by (simp add: sv1_def watch_step_def)
  show ?case using Cons.IH [OF ok] kept started by (auto simp: sv1_def [symmetric])
qed simp


definition demo_passwd :: "string option" where
  "demo_passwd = Some (''root:x:0:0::/root:/bin/sh'' @ nl @ ''bob:x:1001:1001::/home/bob:/bin/sh'')"

definition demo_server :: "world \<Rightarrow> server" where
  "demo_server w = \<lparr>svListeners = [], svFiles = demo_hfs, svStorageBase = ''/s'', svStorage = Map.empty,
     svStorageFault = (\<lambda>_. False), svWorld = w\<rparr>"


end
