(* ===== verification/Reports.thy ===== *)
theory Reports
  imports Ownership Paths
begin

text \<open>
  The reports on the ownership database, as in \<^verbatim>\<open>internal/authz/query.go\<close>: the tables of the
  images, containers, networks and volumes, the newest row first.  The times of creation, which the
  tables of the model leave out, are a parameter: \<open>created\<close> gives the text the driver returns for
  the key of a row.  A report is the list of its lines, each a list of cells, before
  \<^verbatim>\<open>tabwriter\<close> aligns them, and the count that follows after an empty line.
\<close>

datatype report_error = OpenDBFailed | QueryFailed | TimeTooShort | UnknownQuery string

record report =
  rpLines :: "string list list"
  rpFooter :: string

definition rule_line :: "nat list \<Rightarrow> string list" where
  "rule_line widths = map (\<lambda>n. replicate n CHR ''-'') widths"

definition newest_first :: "('a \<Rightarrow> string) \<Rightarrow> 'a list \<Rightarrow> 'a list" where
  "newest_first created rows = rev (sort_key created rows)"

text \<open>The slice \<^verbatim>\<open>createdAt[:19]\<close> panics on a shorter text.\<close>

fun report_rows :: "('a \<Rightarrow> bool) \<Rightarrow> ('a \<Rightarrow> string list) \<Rightarrow> ('a \<Rightarrow> string) \<Rightarrow> 'a list \<Rightarrow> (report_error, string list list) result" where
  "report_rows keep cells created [] = Inr []"
| "report_rows keep cells created (r # rs) =
     (if \<not> keep r then report_rows keep cells created rs
      else if length (created r) < 19 then Inl TimeTooShort
      else case report_rows keep cells created rs of
        Inl err \<Rightarrow> Inl err
      | Inr ls \<Rightarrow> Inr ((cells r @ [take 19 (created r)]) # ls))"

definition make_report ::
    "string list \<Rightarrow> nat list \<Rightarrow> string \<Rightarrow> (report_error, string list list) result \<Rightarrow> (report_error, report) result" where
  "make_report header widths unit rows =
     (case rows of
        Inl err \<Rightarrow> Inl err
      | Inr ls \<Rightarrow> Inr \<lparr>rpLines = header # rule_line widths # ls, rpFooter = itoa (int (length ls)) @ '' '' @ unit\<rparr>)"

definition user_matches :: "string \<Rightarrow> string \<Rightarrow> bool" where
  "user_matches filterUser owner \<longleftrightarrow> \<not> (filterUser \<noteq> [] \<and> owner \<noteq> filterUser)"

definition image_matches :: "string \<Rightarrow> string \<Rightarrow> bool" where
  "image_matches filterImage imageID \<longleftrightarrow>
     \<not> (filterImage \<noteq> [] \<and> \<not> has_prefix imageID filterImage \<and> \<not> has_prefix (trim_prefix imageID ''sha256:'') filterImage)"

definition queryImages :: "(string \<Rightarrow> string) \<Rightarrow> OwnershipDB \<Rightarrow> string \<Rightarrow> string \<Rightarrow> (report_error, report) result" where
  "queryImages created db filterImage filterUser =
     (case query_stmt ''queryImages'' 0 db (newest_first (\<lambda>r. created (iId r)) (tImages db)) of
        Inl _ \<Rightarrow> Inl QueryFailed
      | Inr rows \<Rightarrow>
          make_report [''IMAGE ID'', ''OWNER'', ''UID'', ''PUBLIC'', ''SOURCE'', ''CREATED''] [8, 10, 5, 6, 6, 19] ''image(s)''
            (report_rows
               (\<lambda>r. image_matches filterImage (iId r) \<and> user_matches filterUser (iOwnerUsername r))
               (\<lambda>r. [take 12 (trim_prefix (iId r) ''sha256:''), iOwnerUsername r, itoa (iOwnerUID r),
                     (if iPublic r = 1 then ''YES'' else ''no''), iSource r])
               (\<lambda>r. created (iId r)) rows))"

definition queryContainers :: "(string \<Rightarrow> string) \<Rightarrow> OwnershipDB \<Rightarrow> string \<Rightarrow> (report_error, report) result" where
  "queryContainers created db filterUser =
     (case query_stmt ''queryContainers'' 0 db (newest_first (\<lambda>r. created (cId r)) (tContainers db)) of
        Inl _ \<Rightarrow> Inl QueryFailed
      | Inr rows \<Rightarrow>
          make_report [''CONTAINER ID'', ''OWNER'', ''UID'', ''CREATED''] [12, 10, 5, 19] ''container(s)''
            (report_rows (\<lambda>r. user_matches filterUser (cOwnerUsername r))
               (\<lambda>r. [take 12 (cId r), cOwnerUsername r, itoa (cOwnerUID r)]) (\<lambda>r. created (cId r)) rows))"

definition queryNetworks :: "(string \<Rightarrow> string) \<Rightarrow> OwnershipDB \<Rightarrow> string \<Rightarrow> (report_error, report) result" where
  "queryNetworks created db filterUser =
     (case query_stmt ''queryNetworks'' 0 db (newest_first (\<lambda>r. created (nId r)) (tNetworks db)) of
        Inl _ \<Rightarrow> Inl QueryFailed
      | Inr rows \<Rightarrow>
          make_report [''NETWORK ID'', ''NAME'', ''OWNER'', ''UID'', ''CREATED''] [12, 20, 10, 5, 19] ''network(s)''
            (report_rows (\<lambda>r. user_matches filterUser (nOwnerUsername r))
               (\<lambda>r. [take 12 (nId r), nName r, nOwnerUsername r, itoa (nOwnerUID r)]) (\<lambda>r. created (nId r)) rows))"

definition queryVolumes :: "(string \<Rightarrow> string) \<Rightarrow> OwnershipDB \<Rightarrow> string \<Rightarrow> (report_error, report) result" where
  "queryVolumes created db filterUser =
     (case query_stmt ''queryVolumes'' 0 db (newest_first (\<lambda>r. created (vName r)) (tVolumes db)) of
        Inl _ \<Rightarrow> Inl QueryFailed
      | Inr rows \<Rightarrow>
          make_report [''VOLUME NAME'', ''OWNER'', ''UID'', ''CREATED''] [20, 10, 5, 19] ''volume(s)''
            (report_rows (\<lambda>r. user_matches filterUser (vOwnerUsername r))
               (\<lambda>r. [vName r, vOwnerUsername r, itoa (vOwnerUID r)]) (\<lambda>r. created (vName r)) rows))"

text \<open>The times are given by table; the database is \<^term>\<open>None\<close> when it cannot be opened.\<close>

definition RunQuery ::
    "(string \<Rightarrow> string \<Rightarrow> string) \<Rightarrow> OwnershipDB option \<Rightarrow> string \<Rightarrow> string \<Rightarrow> string \<Rightarrow> (report_error, report) result" where
  "RunQuery created odb queryType filterImage filterUser =
     (case odb of
        None \<Rightarrow> Inl OpenDBFailed
      | Some db \<Rightarrow>
          (if queryType = ''images'' then queryImages (created ''images'') db filterImage filterUser
           else if queryType = ''containers'' then queryContainers (created ''containers'') db filterUser
           else if queryType = ''networks'' then queryNetworks (created ''networks'') db filterUser
           else if queryType = ''volumes'' then queryVolumes (created ''volumes'') db filterUser
           else Inl (UnknownQuery queryType)))"

section \<open>A report shows exactly the selected rows\<close>

lemma report_rows_ok:
  "\<forall>r \<in> set rows. length (created r) \<ge> 19 \<Longrightarrow>
     report_rows keep cells created rows = Inr (map (\<lambda>r. cells r @ [take 19 (created r)]) (filter keep rows))"
  by (induction rows) auto

lemma set_newest_first [simp]: "set (newest_first t rows) = set rows"
  by (simp add: newest_first_def)

text \<open>A report on containers shows one line for every container of the selected users, and no other.\<close>

theorem container_report_exact:
  assumes "\<forall>k. length (created k) \<ge> 19" "queryContainers created db user = Inr rp"
  shows "set (drop 2 (rpLines rp)) =
    (\<lambda>r. [take 12 (cId r), cOwnerUsername r, itoa (cOwnerUID r), take 19 (created (cId r))]) `
      {r \<in> set (tContainers db). user = [] \<or> cOwnerUsername r = user}"
proof -
  let ?c = "\<lambda>r. created (cId r)"
  have "query_stmt ''queryContainers'' 0 db (newest_first ?c (tContainers db)) = Inr (newest_first ?c (tContainers db))"
    using assms(2) by (auto simp: queryContainers_def query_stmt_def split: sum.splits if_splits)
  then show ?thesis
    using assms by (auto simp: queryContainers_def make_report_def report_rows_ok user_matches_def)
qed

end
