(* ===== verification/Startup.thy ===== *)
theory Startup
  imports UserEnv LogQuery Reports Flags Serve
begin

text \<open>
  The program \<^verbatim>\<open>main.go\<close> with \<^verbatim>\<open>internal/config\<close>: its flags, the order in which the parts
  are set up and what happens when one fails, the watch of the configuration files and the signals.
  Messages to the log are modelled for the load of a policy only.

  A configuration file has a time of modification and a content; it may be missing, and its content
  may not be readable.  The policy decoder and the files of the system are parameters.
\<close>

section \<open>Configuration files\<close>

record 'a cfile =
  cfMod :: int
  cfData :: "'a option"

record config_files =
  cfPolicy :: "string cfile option"
  cfQuota :: "QuotaConfig option cfile option"

definition content :: "'a cfile option \<Rightarrow> 'a option" where
  "content f = (case f of None \<Rightarrow> None | Some c \<Rightarrow> cfData c)"

type_synonym policy_decoder = "string \<Rightarrow> (string, PolicyConfig) result"

definition load_policy_file :: "policy_decoder \<Rightarrow> proxy \<Rightarrow> config_files \<Rightarrow> (load_error, Policy) result" where
  "load_policy_file yaml px f = LoadPolicy yaml (pxOS px) (content (cfPolicy f))"

section \<open>The server and its configuration\<close>

definition DefaultStorageBase :: string where
  "DefaultStorageBase = ''/var/docker/user-storage''"

text \<open>The fields of \<^verbatim>\<open>NewProxyServer\<close> that the handlers read, and the limits.\<close>

definition NewProxyServer :: "Policy \<Rightarrow> QuotaManager \<Rightarrow> string \<Rightarrow> bool \<Rightarrow> os_env \<Rightarrow> int \<Rightarrow> daemon \<Rightarrow> proxy" where
  "NewProxyServer pol quota base allowHome env cpus d =
     \<lparr>pxPolicy = pol, pxQuota = Some quota, pxStorageBase = (if base = [] then DefaultStorageBase else base),
      pxAllowHomeBind = allowHome, pxOS = env, pxCPUs = cpus, pxDaemon = d, pxPolls = []\<rparr>"

definition new_semaphore :: "int \<Rightarrow> nat option" where
  "new_semaphore n = (if n > 0 then Some (nat n) else None)"

definition new_slots :: "int \<Rightarrow> int \<Rightarrow> slots" where
  "new_slots maxConcurrent maxStreams =
     \<lparr>semaphore = new_semaphore maxConcurrent, semaphoreUsed = 0, streamSemaphore = new_semaphore maxStreams, streamUsed = 0\<rparr>"

definition UpdatePolicy :: "Policy \<Rightarrow> proxy \<Rightarrow> proxy" where
  "UpdatePolicy p px = px\<lparr>pxPolicy := p\<rparr>"

definition reload_quota :: "string \<Rightarrow> config_files \<Rightarrow> proxy \<Rightarrow> proxy" where
  "reload_quota quotaFile f px =
     px\<lparr>pxQuota := map_option (\<lambda>m. snd (Reload quotaFile (content (cfQuota f)) m)) (pxQuota px)\<rparr>"

section \<open>The watch\<close>

record config_state =
  cnProxy :: proxy
  cnLastMod :: int
  cnLastQuotaMod :: int
  cnWatching :: bool

text \<open>The watch begins with the times it finds; without a policy file nothing is watched.\<close>

definition watch_start :: "string \<Rightarrow> config_files \<Rightarrow> proxy \<Rightarrow> config_state" where
  "watch_start quotaFile f px =
     \<lparr>cnProxy = px,
      cnLastMod = (case cfPolicy f of None \<Rightarrow> zero_time | Some c \<Rightarrow> cfMod c),
      cnLastQuotaMod = (if quotaFile = [] then zero_time else case cfQuota f of None \<Rightarrow> zero_time | Some c \<Rightarrow> cfMod c),
      cnWatching = (cfPolicy f \<noteq> None)\<rparr>"

definition tick_quota :: "string \<Rightarrow> config_files \<Rightarrow> config_state \<Rightarrow> config_state" where
  "tick_quota quotaFile f c =
     (if quotaFile = [] then c
      else case cfQuota f of
        None \<Rightarrow> c
      | Some q \<Rightarrow>
          (if cfMod q > cnLastQuotaMod c
           then c\<lparr>cnLastQuotaMod := cfMod q, cnProxy := reload_quota quotaFile f (cnProxy c)\<rparr> else c))"

definition config_tick :: "policy_decoder \<Rightarrow> string \<Rightarrow> config_files \<Rightarrow> config_state \<Rightarrow> config_state" where
  "config_tick yaml quotaFile f c =
     (if \<not> cnWatching c then c
      else case cfPolicy f of
        None \<Rightarrow> c
      | Some pf \<Rightarrow>
          (if cfMod pf > cnLastMod c then
             (case load_policy_file yaml (cnProxy c) f of
                Inl _ \<Rightarrow> c\<lparr>cnLastMod := cfMod pf\<rparr>
              | Inr p \<Rightarrow> tick_quota quotaFile f (c\<lparr>cnLastMod := cfMod pf, cnProxy := UpdatePolicy p (cnProxy c)\<rparr>))
           else tick_quota quotaFile f c))"

definition config_hup :: "policy_decoder \<Rightarrow> string \<Rightarrow> config_files \<Rightarrow> config_state \<Rightarrow> config_state" where
  "config_hup yaml quotaFile f c =
     (case load_policy_file yaml (cnProxy c) f of
        Inl _ \<Rightarrow> c
      | Inr p \<Rightarrow>
          (let px = UpdatePolicy p (cnProxy c)
           in c\<lparr>cnProxy := (if quotaFile = [] then px else reload_quota quotaFile f px)\<rparr>))"

section \<open>Signals\<close>

record running =
  rnFiles :: config_files
  rnConfig :: config_state
  rnQuotaFile :: string
  rnAudit :: "AuditLogger option"
  rnProxyLog :: "ProxyLogger option"
  rnContainerLog :: "ContainerLogger option"
  rnFs :: fsys
  rnServer :: server
  rnSocketDir :: string
  rnPidFile :: bool
  rnStopped :: bool
  rnRemoved :: "string list"

definition pid_file :: string where
  "pid_file = ''/run/docker-authz-proxy.pid''"

definition reopen_logs :: "running \<Rightarrow> running" where
  "reopen_logs r =
     (let (a, s1) = Reopen (rnAudit r) (rnFs r);
          (p, s2) = (case rnProxyLog r of None \<Rightarrow> (None, s1) | Some p \<Rightarrow> (case ReopenProxy p s1 of (p', s) \<Rightarrow> (Some p', s)));
          (c, s3) = (case rnContainerLog r of None \<Rightarrow> (None, s2) | Some c \<Rightarrow> (case ReopenContainer c s2 of (c', s) \<Rightarrow> (Some c', s)))
      in r\<lparr>rnAudit := a, rnProxyLog := p, rnContainerLog := c, rnFs := s3\<rparr>)"

text \<open>The end: the sockets go, the logs are closed, and the deferred calls run.\<close>

definition shut_down :: "running \<Rightarrow> running" where
  "shut_down r =
     r\<lparr>rnStopped := True, rnRemoved := Stop (rnSocketDir r) (rnServer r) @ (if rnPidFile r then [pid_file] else []),
       rnAudit := CloseAudit (rnAudit r), rnContainerLog := map_option CloseContainer (rnContainerLog r),
       rnProxyLog := map_option CloseProxy (rnProxyLog r)\<rparr>"

text \<open>What happens to the running program: the ticker, the signals, and changes of the files.\<close>

datatype happening = Tick | SIGHUP | SIGUSR1 | SIGTERM | Edit config_files

definition happen :: "policy_decoder \<Rightarrow> happening \<Rightarrow> running \<Rightarrow> running" where
  "happen yaml h r =
     (if rnStopped r then r
      else case h of
        Edit f \<Rightarrow> r\<lparr>rnFiles := f\<rparr>
      | Tick \<Rightarrow> r\<lparr>rnConfig := config_tick yaml (rnQuotaFile r) (rnFiles r) (rnConfig r)\<rparr>
      | SIGHUP \<Rightarrow> r\<lparr>rnConfig := config_hup yaml (rnQuotaFile r) (rnFiles r) (rnConfig r)\<rparr>
      | SIGUSR1 \<Rightarrow> reopen_logs r
      | SIGTERM \<Rightarrow> shut_down r)"

definition run_main :: "policy_decoder \<Rightarrow> happening list \<Rightarrow> running \<Rightarrow> running" where
  "run_main yaml hs r = fold (happen yaml) hs r"

section \<open>The start\<close>

definition main_flags :: flag_set where
  "main_flags =
     [(''socket-dir'', VString ''/run/docker-authz''), (''upstream'', VString ''/var/run/docker.sock''),
      (''policy'', VString ''/etc/docker-authz/policy.yaml''), (''db'', VString ''/var/lib/docker-authz/owners.db''),
      (''log-level'', VString ''info''), (''log-format'', VString ''json''), (''log-file'', VString []),
      (''request-timeout'', VInt 30), (''max-concurrent'', VInt 0), (''max-concurrent-streams'', VInt 0),
      (''storage-root'', VString ''/var/docker/user-storage''), (''allow-home-bind'', VBool False),
      (''storage-cleanup-interval'', VInt 5), (''quota-file'', VString []),
      (''audit-log-dir'', VString ''/var/log/docker-authz''), (''jwt-port'', VString []), (''jwt-secret'', VString []),
      (''cert-port'', VString []), (''cert-file'', VString []), (''cert-key'', VString []), (''cert-ca'', VString []),
      (''query'', VString []), (''image'', VString []), (''user'', VString []), (''log-type'', VString ''operation''),
      (''uid'', VInt (-1)), (''action'', VString []), (''result'', VString []), (''level'', VString []),
      (''since'', VString []), (''until'', VString []), (''limit'', VInt 0), (''version'', VBool False)]"

definition GetDirOf :: "string \<Rightarrow> string" where
  "GetDirOf path = (case last_index_char CHR ''/'' path of None \<Rightarrow> ''.'' | Some i \<Rightarrow> take i path)"

text \<open>
  The surroundings of the start: which directories can be made (never one with an empty name), the
  databases, the configuration files when they are loaded and when the watch begins, certificates,
  addresses that can be listened on, and what \<^verbatim>\<open>Start\<close> meets.
\<close>

record main_env =
  meYaml :: policy_decoder
  meOS :: os_env
  meCPUs :: int
  meDaemon :: daemon
  meNow :: int
  meFs :: fsys
  meMkdir :: "string \<Rightarrow> bool"
  meDB :: "string \<Rightarrow> OwnershipDB option"
  meCreated :: "string \<Rightarrow> string \<Rightarrow> string"
  meLoad :: config_files
  meWatch :: config_files
  meKeyPair :: "string \<Rightarrow> string \<Rightarrow> bool"
  meReadCA :: "string \<Rightarrow> bool"
  meParseCA :: "string \<Rightarrow> bool"
  meListen :: "string \<Rightarrow> bool"
  meUserFails :: "string \<Rightarrow> listen_error \<Rightarrow> bool"
  meSudoers :: sudoers_fault
  meTmp :: string
  meFiles :: hfs
  meStorage :: sdirs
  meStorageFault :: "storage_error \<Rightarrow> bool"
  mePidOk :: bool
  meBridge :: bridge_state

definition mkdir_all :: "main_env \<Rightarrow> string \<Rightarrow> bool" where
  "mkdir_all e p \<longleftrightarrow> p \<noteq> [] \<and> meMkdir e p"

datatype ca_error = ReadCAFailed | ParseCAFailed | KeyPairFailed

definition load_ca :: "main_env \<Rightarrow> string \<Rightarrow> ca_error option" where
  "load_ca e caFile =
     (if caFile = [] then None
      else if \<not> meReadCA e caFile then Some ReadCAFailed
      else if \<not> meParseCA e caFile then Some ParseCAFailed else None)"

definition BuildServerTLSConfig :: "main_env \<Rightarrow> string \<Rightarrow> string \<Rightarrow> string \<Rightarrow> ca_error option" where
  "BuildServerTLSConfig e certFile keyFile caFile =
     (if \<not> meKeyPair e certFile keyFile then Some KeyPairFailed else load_ca e caFile)"

text \<open>
  The identity of a connection by TCP, before an authenticator has looked at it; the fields that
  \<^verbatim>\<open>StartTCPListener\<close> leaves out have their zero values.
\<close>

definition tcp_connection :: "string \<Rightarrow> CallerIdentity" where
  "tcp_connection addr = (tcp_identity [] (-1) 0 AuthSourceNone)\<lparr>EffectiveUID := 0, ClientAddr := addr\<rparr>"

datatype main_error =
    FlagsWrong flag_error
  | LoggerFailed
  | DbDirFailed
  | DbOpenFailed
  | CertAuthFailed ca_error
  | StorageRootFailed
  | StartFailed start_error
  | JwtListenFailed
  | CertFlagsMissing
  | TlsFailed ca_error
  | CertListenFailed

datatype authenticator = JWTAuthenticator string | CertAuthenticator string

datatype main_result =
    ShowVersion
  | LogLines "(query_error, string list) result"
  | Report "(report_error, report) result"
  | Fatal main_error
  | Running "authenticator list" slots running

definition log_query :: "flag_set \<Rightarrow> LogQueryOptions" where
  "log_query fs =
     \<lparr>qLogDir = str_flag fs ''audit-log-dir'', qLogType = str_flag fs ''log-type'', qUsername = str_flag fs ''user'',
      qUID = int_flag fs ''uid'', qAction = str_flag fs ''action'', qResult = str_flag fs ''result'',
      qLevel = str_flag fs ''level'', qSince = str_flag fs ''since'', qUntil = str_flag fs ''until'', qLimit = int_flag fs ''limit''\<rparr>"

definition start_query :: "main_env \<Rightarrow> flag_set \<Rightarrow> main_result" where
  "start_query e fs =
     (if str_flag fs ''query'' = ''log'' then LogLines (RunLogQuery (meFs e) (log_query fs))
      else Report (RunQuery (meCreated e) (meDB e (str_flag fs ''db'')) (str_flag fs ''query'') (str_flag fs ''image'') (str_flag fs ''user'')))"

text \<open>The log of the proxy itself, and whether the messages have somewhere to go.\<close>

definition start_logs :: "main_env \<Rightarrow> flag_set \<Rightarrow> (main_error, ProxyLogger option) result \<times> fsys" where
  "start_logs e fs =
     (let dir = str_flag fs ''audit-log-dir'';
          (pl, s) = (if dir = [] then (None, meFs e)
                     else case NewProxyRunLogger (meNow e) dir (mkdir_all e (path_join dir ''proxy-run'')) (meFs e) of
                       (Inl _, s) \<Rightarrow> (None, s)
                     | (Inr pl, s) \<Rightarrow> (Some pl, s))
      in if pl \<noteq> None then (Inr pl, s)
         else case NewLogger (str_flag fs ''log-level'') (str_flag fs ''log-format'') (str_flag fs ''log-file'') s of
           (Inl _, s') \<Rightarrow> (Inl LoggerFailed, s')
         | (Inr _, s') \<Rightarrow> (Inr None, s'))"

definition start_policy :: "main_env \<Rightarrow> Policy" where
  "start_policy e =
     (case LoadPolicy (meYaml e) (meOS e) (content (cfPolicy (meLoad e))) of Inl _ \<Rightarrow> DefaultAllowPolicy | Inr p \<Rightarrow> p)"

definition start_quota :: "main_env \<Rightarrow> flag_set \<Rightarrow> QuotaManager" where
  "start_quota e fs =
     (if str_flag fs ''quota-file'' = [] then DefaultQuotaManager
      else case LoadQuotaManager (content (cfQuota (meLoad e))) of Inl _ \<Rightarrow> DefaultQuotaManager | Inr m \<Rightarrow> m)"

definition start_audit :: "main_env \<Rightarrow> flag_set \<Rightarrow> fsys \<Rightarrow> AuditLogger option \<times> ContainerLogger option \<times> fsys" where
  "start_audit e fs s =
     (let dir = str_flag fs ''audit-log-dir'';
          (a, s1) = (case NewAuditLogger dir (mkdir_all e (path_join dir ''user-operation'')) s of
                       (Inl _, s') \<Rightarrow> (None, s')
                     | (Inr a, s') \<Rightarrow> (Some a, s'));
          c = (if dir = [] then None
               else case NewContainerLogger dir (mkdir_all e (path_join dir ''container-run'')) of Inl _ \<Rightarrow> None | Inr c \<Rightarrow> Some c)
      in (a, c, s1))"

definition start_authenticators :: "main_env \<Rightarrow> flag_set \<Rightarrow> (main_error, authenticator list) result" where
  "start_authenticators e fs =
     (let jwt = (if str_flag fs ''jwt-secret'' = [] then [] else [JWTAuthenticator (str_flag fs ''jwt-secret'')]);
          ca = str_flag fs ''cert-ca''
      in if ca = [] then Inr jwt
         else case load_ca e ca of
           Some err \<Rightarrow> Inl (CertAuthFailed err)
         | None \<Rightarrow> Inr (jwt @ [CertAuthenticator ca]))"

definition start_listeners :: "main_env \<Rightarrow> flag_set \<Rightarrow> main_error option" where
  "start_listeners e fs =
     (let jwt = str_flag fs ''jwt-port''; cert = str_flag fs ''cert-port'';
          file = str_flag fs ''cert-file''; key = str_flag fs ''cert-key''
      in if jwt \<noteq> [] \<and> \<not> meListen e jwt then Some JwtListenFailed
         else if cert = [] then None
         else if file = [] \<or> key = [] then Some CertFlagsMissing
         else case BuildServerTLSConfig e file key (str_flag fs ''cert-ca'') of
           Some err \<Rightarrow> Some (TlsFailed err)
         | None \<Rightarrow> (if meListen e cert then None else Some CertListenFailed))"

definition new_world :: "main_env \<Rightarrow> OwnershipDB \<Rightarrow> world" where
  "new_world e db =
     \<lparr>wDB = db, wBridge = meBridge e, wPendingBuilds = (\<lambda>_. False), pendingBuildTags = Map.empty, pendingPullRefs = Map.empty,
      completedPullOwner = Map.empty, completedBuildOwner = Map.empty, completedPruneOwner = Map.empty\<rparr>"

definition start_server :: "main_env \<Rightarrow> flag_set \<Rightarrow> proxy \<Rightarrow> OwnershipDB \<Rightarrow> start_error option \<times> server" where
  "start_server e fs px db =
     Start (meUserFails e) (mkdir_all e (str_flag fs ''socket-dir'')) (meSudoers e) (meTmp e) (meDaemon e)
       (passwd_file (meOS e)) (str_flag fs ''socket-dir'')
       \<lparr>svListeners = [], svFiles = meFiles e, svStorageBase = pxStorageBase px, svStorage = meStorage e,
        svStorageFault = meStorageFault e, svWorld = new_world e db\<rparr>"

definition start_running ::
    "main_env \<Rightarrow> flag_set \<Rightarrow> ProxyLogger option \<Rightarrow> OwnershipDB \<Rightarrow> fsys \<Rightarrow> main_result" where
  "start_running e fs pl db s =
     (case start_audit e fs s of
        (a, c, s1) \<Rightarrow>
          (case start_authenticators e fs of
             Inl err \<Rightarrow> Fatal err
           | Inr auths \<Rightarrow>
               (if \<not> mkdir_all e (str_flag fs ''storage-root'') then Fatal StorageRootFailed
                else
                  (let px = NewProxyServer (start_policy e) (start_quota e fs) (str_flag fs ''storage-root'')
                              (bool_flag fs ''allow-home-bind'') (meOS e) (meCPUs e) (meDaemon e)
                   in case start_server e fs px db of
                        (Some err, _) \<Rightarrow> Fatal (StartFailed err)
                      | (None, sv) \<Rightarrow>
                          (case start_listeners e fs of
                             Some err \<Rightarrow> Fatal err
                           | None \<Rightarrow>
                               Running auths (new_slots (int_flag fs ''max-concurrent'') (int_flag fs ''max-concurrent-streams''))
                                 \<lparr>rnFiles = meWatch e, rnConfig = watch_start (str_flag fs ''quota-file'') (meWatch e) px,
                                  rnQuotaFile = str_flag fs ''quota-file'', rnAudit = a, rnProxyLog = pl, rnContainerLog = c,
                                  rnFs = s1, rnServer = sv, rnSocketDir = str_flag fs ''socket-dir'', rnPidFile = mePidOk e,
                                  rnStopped = False, rnRemoved = []\<rparr>)))))"

definition main :: "main_env \<Rightarrow> string list \<Rightarrow> main_result" where
  "main e args =
     (case parse_flags main_flags args of
        Inl err \<Rightarrow> Fatal (FlagsWrong err)
      | Inr (fs, _) \<Rightarrow>
          (if bool_flag fs ''version'' then ShowVersion
           else if str_flag fs ''query'' \<noteq> [] then start_query e fs
           else case start_logs e fs of
             (Inl err, _) \<Rightarrow> Fatal err
           | (Inr pl, s) \<Rightarrow>
               (if \<not> mkdir_all e (GetDirOf (str_flag fs ''db'')) then Fatal DbDirFailed
                else case meDB e (str_flag fs ''db'') of
                  None \<Rightarrow> Fatal DbOpenFailed
                | Some db \<Rightarrow> start_running e fs pl db s)))"

section \<open>The messages on a loaded policy\<close>

definition name_entries :: "string \<Rightarrow> string list \<Rightarrow> int list \<Rightarrow> json" where
  "name_entries kind names ids =
     JArr (map (\<lambda>j. JStr (if j < length names then names ! j @ ''('' @ kind @ ''='' @ itoa (ids ! j) @ '')''
                          else kind @ ''='' @ itoa (ids ! j))) [0..<length ids])"

definition rule_message :: "nat \<times> ResolvedDenyRule \<Rightarrow> zmessage" where
  "rule_message = (\<lambda>(i, rule).
     \<lparr>zmLevel = InfoLevel, zmText = ''deny_rule_active'',
      zmFields = [(''rule_index'', JNum (int i)), (''users'', name_entries ''uid'' (rrUsernames rule) (rrUIDs rule)),
                  (''groups'', name_entries ''gid'' (rrGroups rule) (rrGIDs rule)),
                  (''actions'', JArr (map JStr (sort (remdups (rrActions rule)))))]\<rparr>)"

definition unresolved_message :: "string \<Rightarrow> string \<Rightarrow> zmessage" where
  "unresolved_message policyFile name =
     \<lparr>zmLevel = WarnLevel, zmText = ''deny_rule_unresolved_name'',
      zmFields = [(''policy_file'', JStr policyFile), (''name'', JStr name),
                  (''hint'', JStr ''rule will NOT be enforced for this user/group'')]\<rparr>"

definition logPolicyLoadResult :: "string \<Rightarrow> Policy \<Rightarrow> zmessage list" where
  "logPolicyLoadResult policyFile p =
     \<lparr>zmLevel = InfoLevel, zmText = ''policy loaded successfully'',
      zmFields = [(''policy_file'', JStr policyFile), (''deny_rules_count'', JNum (int (length (DenyRules (polConfig p))))),
                  (''resolved_rules_count'', JNum (int (length (ResolvedDenyRules p))))]\<rparr>
     # map rule_message (enumerate 0 (ResolvedDenyRules p)) @ map (unresolved_message policyFile) (UnresolvedNames p)"

end
