(* ===== verification/StartupProps.thy ===== *)
theory StartupProps
  imports Startup
begin

text \<open>
  What the start and the watch of the configuration guarantee: an edited policy takes effect, a
  broken one never replaces a policy that was loaded, and where changes are missed.
\<close>

section \<open>Examples\<close>

text \<open>
  In the examples the policy file is broken when it is loaded, and repaired before the watch begins.
\<close>

definition demo_yaml :: policy_decoder where
  "demo_yaml t = (if t = ''good'' then Inr demo_policy else Inl ''broken'')"

definition demo_config :: "int \<Rightarrow> string \<Rightarrow> config_files" where
  "demo_config t text = \<lparr>cfPolicy = Some \<lparr>cfMod = t, cfData = Some text\<rparr>, cfQuota = None\<rparr>"

definition demo_main :: main_env where
  "demo_main =
     \<lparr>meYaml = demo_yaml, meOS = demo_env, meCPUs = 8, meDaemon = (\<lambda>_ _ _ _. None), meNow = 0,
      meFs = \<lparr>fsDir = [], fsNode = (\<lambda>_. new_inode 0), fsNext = 0, fsFault = (\<lambda>_. False)\<rparr>, meMkdir = (\<lambda>_. True),
      meDB = (\<lambda>_. Some (emptyDB (\<lambda>_ _. False))), meCreated = (\<lambda>_ _. []), meLoad = demo_config 4 ''bad'', meWatch = demo_config 5 ''good'',
      meKeyPair = (\<lambda>_ _. False), meReadCA = (\<lambda>_. False), meParseCA = (\<lambda>_. False), meListen = (\<lambda>_. False),
      meUserFails = (\<lambda>_ _. False), meSudoers = NoFault, meTmp = ''/etc/sudoers.d/t'', meFiles = demo_hfs,
      meStorage = Map.empty, meStorageFault = (\<lambda>_. False), mePidOk = True,
      meBridge = \<lparr>bsFirewall = \<lparr>fwChains = Map.empty, fwFault = (\<lambda>_. False)\<rparr>, bsMigrated = []\<rparr>\<rparr>"

definition demo_running :: running where
  "demo_running = (case main demo_main [] of Running _ _ r \<Rightarrow> r)"

lemma demo_main_runs:
  "\<exists>auths sl. main demo_main [] = Running auths sl demo_running"
  "\<not> rnStopped demo_running" "cnWatching (rnConfig demo_running)" "cnLastMod (rnConfig demo_running) = 5"
proof -
  have "case main demo_main [] of
      Running _ _ r \<Rightarrow> \<not> rnStopped r \<and> cnWatching (rnConfig r) \<and> cnLastMod (rnConfig r) = 5 | _ \<Rightarrow> False"
    by code_simp
  then show "\<exists>auths sl. main demo_main [] = Running auths sl demo_running"
    "\<not> rnStopped demo_running" "cnWatching (rnConfig demo_running)" "cnLastMod (rnConfig demo_running) = 5"
    by (auto simp: demo_running_def split: main_result.splits)
qed

section \<open>The policy in force\<close>

abbreviation in_force :: "running \<Rightarrow> Policy" where
  "in_force r \<equiv> pxPolicy (cnProxy (rnConfig r))"

lemma reload_quota_keeps [simp]:
  "pxPolicy (reload_quota q f px) = pxPolicy px" "pxOS (reload_quota q f px) = pxOS px"
  by (simp_all add: reload_quota_def)

lemma UpdatePolicy_simps [simp]:
  "pxPolicy (UpdatePolicy p px) = p" "pxOS (UpdatePolicy p px) = pxOS px"
  by (simp_all add: UpdatePolicy_def)

lemma tick_quota_keeps [simp]:
  "pxPolicy (cnProxy (tick_quota q f c)) = pxPolicy (cnProxy c)" "pxOS (cnProxy (tick_quota q f c)) = pxOS (cnProxy c)"
  "cnLastMod (tick_quota q f c) = cnLastMod c" "cnWatching (tick_quota q f c) = cnWatching c"
  by (simp_all add: tick_quota_def split: option.splits)

lemma reopen_logs_keeps [simp]:
  "rnFiles (reopen_logs r) = rnFiles r" "rnConfig (reopen_logs r) = rnConfig r" "rnStopped (reopen_logs r) = rnStopped r"
  by (simp_all add: reopen_logs_def split_beta Let_def)

lemma shut_down_keeps [simp]: "rnFiles (shut_down r) = rnFiles r" "rnConfig (shut_down r) = rnConfig r"
  by (simp_all add: shut_down_def)

lemma happen_os: "pxOS (cnProxy (rnConfig (happen yaml h r))) = pxOS (cnProxy (rnConfig r))"
  by (auto simp: happen_def config_tick_def config_hup_def Let_def split: happening.splits option.splits sum.splits)

lemma happen_files: "rnFiles (happen yaml h r) = rnFiles r \<or> h = Edit (rnFiles (happen yaml h r))"
  by (auto simp: happen_def split: happening.splits)

lemma happen_policy:
  "in_force (happen yaml h r) = in_force r \<or>
     load_policy_file yaml (cnProxy (rnConfig r)) (rnFiles r) = Inr (in_force (happen yaml h r))"
  by (auto simp: happen_def config_tick_def config_hup_def Let_def split: happening.splits option.splits sum.splits)

lemma load_os: "pxOS a = pxOS b \<Longrightarrow> load_policy_file yaml a f = load_policy_file yaml b f"
  by (simp add: load_policy_file_def)

text \<open>
  C18. Whatever happens to the files, and in whatever order ticks and signals come, the policy in
  force is the one of the start or one that was loaded without an error from a version of the file
  that was there: a file that is missing, unreadable or broken never replaces the policy.
\<close>

theorem policy_always_loaded:
  "in_force (run_main yaml hs r) = in_force r \<or>
     (\<exists>f. (f = rnFiles r \<or> Edit f \<in> set hs) \<and>
        load_policy_file yaml (cnProxy (rnConfig r)) f = Inr (in_force (run_main yaml hs r)))"
proof (induction hs arbitrary: r)
  case (Cons h hs)
  define r1 where "r1 = happen yaml h r"
  have run: "run_main yaml (h # hs) r = run_main yaml hs r1" by (simp add: run_main_def r1_def)
  have os: "load_policy_file yaml (cnProxy (rnConfig r1)) f = load_policy_file yaml (cnProxy (rnConfig r)) f" for f
    by (rule load_os) (simp add: r1_def happen_os)
  have files: "rnFiles r1 = rnFiles r \<or> h = Edit (rnFiles r1)" unfolding r1_def by (rule happen_files)
  show ?case
    using Cons.IH [of r1] happen_policy [of yaml h r] files unfolding run os r1_def [symmetric]
    by (metis list.set_intros(1,2))
qed (simp add: run_main_def)

section \<open>Edits take effect\<close>

definition calm :: "happening \<Rightarrow> bool" where
  "calm h \<longleftrightarrow> h \<noteq> SIGTERM \<and> (\<forall>f. h \<noteq> Edit f)"

definition fresh :: "policy_decoder \<Rightarrow> Policy \<Rightarrow> string cfile \<Rightarrow> running \<Rightarrow> bool" where
  "fresh yaml p pf r \<longleftrightarrow>
     \<not> rnStopped r \<and> cfPolicy (rnFiles r) = Some pf \<and> cnWatching (rnConfig r) \<and>
     load_policy_file yaml (cnProxy (rnConfig r)) (rnFiles r) = Inr p \<and>
     (in_force r = p \<or> cfMod pf > cnLastMod (rnConfig r))"

lemma fresh_happen: "fresh yaml p pf r \<Longrightarrow> calm h \<Longrightarrow> fresh yaml p pf (happen yaml h r)"
  by (auto simp: fresh_def calm_def happen_def config_tick_def config_hup_def load_policy_file_def Let_def
      split: happening.splits option.splits sum.splits)

lemma fresh_tick: "fresh yaml p pf r \<Longrightarrow> in_force (happen yaml Tick r) = p"
  by (auto simp: fresh_def happen_def config_tick_def)

lemma fresh_keeps: "fresh yaml p pf r \<Longrightarrow> in_force r = p \<Longrightarrow> calm h \<Longrightarrow> in_force (happen yaml h r) = p"
  using happen_policy [of yaml h r] by (auto simp: fresh_def)

lemma fresh_run:
  "fresh yaml p pf r \<Longrightarrow> list_all calm hs \<Longrightarrow> in_force r = p \<or> Tick \<in> set hs \<Longrightarrow> in_force (run_main yaml hs r) = p"
proof (induction hs arbitrary: r)
  case (Cons h hs)
  then have "calm h" "list_all calm hs" by simp_all
  then show ?case
    using Cons.IH [OF fresh_happen [OF Cons.prems(1)]] Cons.prems fresh_tick fresh_keeps
    by (auto simp: run_main_def)
qed (simp add: run_main_def)

text \<open>
  C19. An edited policy takes effect: when the file that is watched gets a newer time of modification
  and a content that can be loaded, then after the next tick, and until the file changes again or
  the program ends, that policy is in force, whatever signals come in between.
\<close>

theorem edited_policy_in_force:
  assumes "\<not> rnStopped r" "cnWatching (rnConfig r)" "cfPolicy f = Some pf" "cfMod pf > cnLastMod (rnConfig r)"
    "load_policy_file yaml (cnProxy (rnConfig r)) f = Inr p" "list_all calm hs" "Tick \<in> set hs"
  shows "in_force (run_main yaml (Edit f # hs) r) = p"
proof -
  have "fresh yaml p pf (r\<lparr>rnFiles := f\<rparr>)" using assms by (simp add: fresh_def)
  moreover have "run_main yaml (Edit f # hs) r = run_main yaml hs (r\<lparr>rnFiles := f\<rparr>)"
    using assms(1) by (simp add: run_main_def happen_def)
  ultimately show ?thesis using fresh_run assms(6,7) by metis
qed

lemma main_Running:
  assumes "main e args = Running auths sl r"
  shows "\<exists>px. rnConfig r = watch_start (rnQuotaFile r) (meWatch e) px \<and> pxPolicy px = start_policy e \<and> pxOS px = meOS e \<and>
    rnFiles r = meWatch e \<and> \<not> rnStopped r"
proof -
  obtain fs pl db s where "start_running e fs pl db s = Running auths sl r"
    using assms by (auto simp: main_def start_query_def split: sum.splits prod.splits option.splits if_splits)
  then show ?thesis
    by (fastforce simp: start_running_def NewProxyServer_def Let_def split: sum.splits prod.splits option.splits if_splits)
qed

lemma demo_running_state:
  "\<not> rnStopped demo_running" "cnWatching (rnConfig demo_running)" "cnLastMod (rnConfig demo_running) = 5"
  "pxOS (cnProxy (rnConfig demo_running)) = demo_env"
proof -
  show "\<not> rnStopped demo_running" "cnWatching (rnConfig demo_running)" "cnLastMod (rnConfig demo_running) = 5"
    by (rule demo_main_runs)+
  have "\<exists>px. rnConfig demo_running = watch_start (rnQuotaFile demo_running) (meWatch demo_main) px \<and> pxOS px = meOS demo_main"
    using demo_main_runs(1) main_Running by blast
  then show "pxOS (cnProxy (rnConfig demo_running)) = demo_env" by (auto simp: watch_start_def demo_main_def)
qed

theorem edited_policy_in_force_witness:
  "LoadPolicy demo_yaml demo_env (Some ''good'') =
     Inr (in_force (run_main demo_yaml [Edit (demo_config 9 ''good''), SIGUSR1, Tick, SIGHUP] demo_running))"
proof -
  obtain p where p: "LoadPolicy demo_yaml demo_env (Some ''good'') = Inr p"
    by (auto simp: LoadPolicy_def demo_yaml_def Let_def)
  then have "load_policy_file demo_yaml (cnProxy (rnConfig demo_running)) (demo_config 9 ''good'') = Inr p"
    by (simp add: load_policy_file_def content_def demo_config_def demo_running_state)
  then show ?thesis
    using p edited_policy_in_force [of demo_running "demo_config 9 ''good''" "\<lparr>cfMod = 9, cfData = Some ''good''\<rparr>" demo_yaml p
        "[SIGUSR1, Tick, SIGHUP]"]
    by (simp add: demo_running_state calm_def demo_config_def)
qed

section \<open>Changes that are missed\<close>

lemma settled_ticks:
  assumes "rnFiles r = f" "\<not> cnWatching (rnConfig r) \<or> (case cfPolicy f of None \<Rightarrow> True | Some c \<Rightarrow> cfMod c \<le> cnLastMod (rnConfig r)) \<and>
      (rnQuotaFile r = [] \<or> (case cfQuota f of None \<Rightarrow> True | Some c \<Rightarrow> cfMod c \<le> cnLastQuotaMod (rnConfig r)))"
  shows "run_main yaml (replicate n Tick) r = r"
proof -
  have "happen yaml Tick r = r"
    using assms by (auto simp: happen_def config_tick_def tick_quota_def split: option.splits)
  then show ?thesis by (induction n) (simp_all add: run_main_def)
qed

text \<open>
  A policy that is edited while the program starts, after it was loaded and before the watch
  begins, is never noticed: however many ticks follow, the old policy stays in force, and if the
  first load failed every command of every user stays allowed.
\<close>

theorem edit_during_start_missed:
  assumes "main e args = Running auths sl r"
  shows "in_force (run_main yaml (replicate n Tick) r) = start_policy e \<and>
    ((\<exists>err. LoadPolicy (meYaml e) (meOS e) (content (cfPolicy (meLoad e))) = Inl err) \<longrightarrow>
       \<not> command_denied (cnProxy (rnConfig (run_main yaml (replicate n Tick) r))) i action rq)"
proof -
  obtain px where m: "rnConfig r = watch_start (rnQuotaFile r) (meWatch e) px" "pxPolicy px = start_policy e" "rnFiles r = meWatch e"
    using main_Running [OF assms] by blast
  have "run_main yaml (replicate n Tick) r = r"
    by (rule settled_ticks [OF m(3)]) (use m(1) in \<open>auto simp: watch_start_def split: option.splits\<close>)
  then show ?thesis
    using m(1,2) by (auto simp: watch_start_def command_denied_def start_policy_def DefaultAllowPolicy_def IsDenied_def)
qed

theorem edit_during_start_missed_witness:
  "in_force (run_main demo_yaml (replicate 3 Tick) demo_running) = DefaultAllowPolicy \<and>
   (\<forall>rq. \<not> command_denied (cnProxy (rnConfig (run_main demo_yaml (replicate 3 Tick) demo_running))) demo_identity ActionKill rq)"
proof -
  have "LoadPolicy (meYaml demo_main) (meOS demo_main) (content (cfPolicy (meLoad demo_main))) = Inl (YamlError ''broken'')"
    by (simp add: LoadPolicy_def demo_yaml_def demo_main_def demo_config_def content_def)
  moreover from this have "start_policy demo_main = DefaultAllowPolicy" by (simp add: start_policy_def)
  ultimately show ?thesis
    using demo_main_runs edit_during_start_missed [where e = demo_main and r = demo_running and n = 3] by fastforce
qed

text \<open>
  Without a policy file at the start nothing is watched: no tick loads a quota file that changes
  later, or a policy file that appears.
\<close>

theorem no_policy_no_watch:
  assumes "main e args = Running auths sl r" "cfPolicy (meWatch e) = None"
  shows "run_main yaml (Edit f # replicate n Tick) r = r\<lparr>rnFiles := f\<rparr>"
proof -
  have "\<not> cnWatching (rnConfig r)" "\<not> rnStopped r"
    using main_Running [OF assms(1)] assms(2) by (auto simp: watch_start_def)
  then show ?thesis
    using settled_ticks [of "r\<lparr>rnFiles := f\<rparr>" f yaml n] by (simp add: run_main_def happen_def)
qed

text \<open>A broken policy file also keeps a signal from loading the quotas.\<close>

theorem broken_policy_blocks_quota:
  assumes "load_policy_file yaml (cnProxy (rnConfig r)) (rnFiles r) = Inl err"
  shows "happen yaml SIGHUP r = r"
  using assms by (simp add: happen_def config_hup_def)

text \<open>A database in the root directory cannot be used: its directory has an empty name.\<close>

theorem database_in_root_directory:
  assumes "start_logs e fs = (Inr pl, s)" "str_flag fs ''db'' = ''/owners.db''" "parse_flags main_flags args = Inr (fs, rest)"
    "\<not> bool_flag fs ''version''" "str_flag fs ''query'' = []"
  shows "main e args = Fatal DbDirFailed"
proof -
  have "GetDirOf ''/owners.db'' = []" by code_simp
  then show ?thesis using assms by (simp add: main_def mkdir_all_def)
qed

end
