(* ===== verification/Tunnel.thy ===== *)
theory Tunnel
  imports Serve Flags
begin

text \<open>
  Package \<^verbatim>\<open>internal/forward\<close>, file \<^verbatim>\<open>proxy.go\<close>: the connection
  that \<^verbatim>\<open>handleHijack\<close> has taken over.  The request is written to the daemon again,
  the head of the answer is read line by line, and the rest is passed on: chunk by chunk up to
  the terminating chunk, or as raw bytes in both directions.

  What the daemon sends is a string of bytes.  Reading until a newline that never comes fails at
  the end of the string, as \<^verbatim>\<open>ReadString\<close> does when the connection ends.  The raw
  phase is a step relation, since the two copying goroutines, the two ends and the final
  \<^verbatim>\<open>select\<close> run side by side.
\<close>

section \<open>The request\<close>

abbreviation (input) LF :: char where "LF \<equiv> CHR 0x0A"
abbreviation (input) CRLF :: string where "CRLF \<equiv> [CHR 0x0D, CHR 0x0A]"

text \<open>The headers are listed in the order in which Go walks the map.\<close>

type_synonym header_map = "(string \<times> string list) list"

definition header_lines :: "header_map \<Rightarrow> string" where
  "header_lines hs =
     concat [k @ '': '' @ v @ CRLF. (k, vals) \<leftarrow> hs, \<not> equal_fold k ''Host'', v \<leftarrow> vals]"

definition request_text :: "request \<Rightarrow> header_map \<Rightarrow> string" where
  "request_text r hs =
     rqMethod r @ '' '' @ RequestURI r @ '' HTTP/1.1'' @ CRLF @ ''Host: docker'' @ CRLF
     @ header_lines hs @ CRLF"

section \<open>The head of the answer\<close>

text \<open>\<^verbatim>\<open>ReadString\<close> up to a newline: the bytes read, whether there was one, the rest.\<close>

definition read_line :: "string \<Rightarrow> string \<times> bool \<times> string" where
  "read_line s =
     (if LF \<in> set s then (before_char LF s @ [LF], True, after_char LF s) else (s, False, []))"

definition is101 :: "string \<Rightarrow> bool" where
  "is101 statusLine \<longleftrightarrow>
     has_prefix statusLine ''HTTP/1.1 101'' \<or> has_prefix statusLine ''HTTP/1.0 101''"

definition chunked_line :: "string \<Rightarrow> bool" where
  "chunked_line line \<longleftrightarrow>
     has_prefix (to_lower line) ''transfer-encoding:'' \<and> contains_str (to_lower line) ''chunked''"

lemma read_line_parts:
  assumes "read_line s = (line, ok, rest)"
  shows "s = line @ rest \<and> (ok \<longrightarrow> length rest < length s)"
proof (cases "LF \<in> set s")
  case True
  have "s = before_char LF s @ dropWhile (\<lambda>x. x \<noteq> LF) s" by (simp add: before_char_def)
  moreover have "dropWhile (\<lambda>x. x \<noteq> LF) s = LF # after_char LF s"
    using True by (induction s) (auto simp: after_char_def)
  ultimately have split: "s = before_char LF s @ [LF] @ after_char LF s" by simp
  have "line = before_char LF s @ [LF]" "rest = after_char LF s"
    using assms True by (auto simp: read_line_def)
  with split have "s = line @ rest" and "line \<noteq> []" by auto
  then show ?thesis by (metis add_cancel_left_left add_diff_cancel_right' length_append
      length_greater_0_conv less_add_same_cancel2)
next
  case False
  with assms show ?thesis by (auto simp: read_line_def)
qed

lemma read_line_shorter: "(line, True, rest) = read_line s \<Longrightarrow> length rest < length s"
  by (metis read_line_parts)

function read_head :: "string \<Rightarrow> bool \<Rightarrow> string \<Rightarrow> (string \<times> bool \<times> string) option" where
  "read_head peeked isChunked s =
     (case read_line s of
        (line, ok, rest) \<Rightarrow>
          (if \<not> ok then None
           else if line = CRLF \<or> line = [LF] then Some (peeked @ line, isChunked, rest)
           else read_head (peeked @ line) (isChunked \<or> chunked_line line) rest))"
  by pat_completeness auto

termination read_head
  by (relation "measure (\<lambda>(_, _, s). length s)") (auto dest: read_line_shorter)

section \<open>Chunks\<close>

text \<open>\<^verbatim>\<open>strconv.ParseInt(s, 16, 64)\<close> of the text before an extension.\<close>

definition parse_hex :: "string \<Rightarrow> int option" where
  "parse_hex s =
     (let neg = has_prefix s ''-''; ds = (if neg \<or> has_prefix s ''+'' then drop 1 s else s)
      in if ds = [] then None
         else case base_digits 16 0 ds of
           None \<Rightarrow> None
         | Some n \<Rightarrow>
             (let v = (if neg then - n else n)
              in if min_int64 \<le> v \<and> v \<le> max_int64 then Some v else None))"

definition chunk_size :: "string \<Rightarrow> int option" where
  "chunk_size sizeLine = parse_hex (trim_space (hd (split_two CHR '';'' sizeLine)))"

text \<open>A slice longer than the address space of 48 bits, or of negative length, is a panic.\<close>

definition make_ok :: "int \<Rightarrow> bool" where
  "make_ok n \<longleftrightarrow> 0 \<le> n \<and> n \<le> 2 ^ 48"

datatype relay_end = ChunksEnded | ReadFailed | SizeMalformed | MakePanic

function relay_chunks :: "string \<Rightarrow> string \<times> relay_end \<times> string" where
  "relay_chunks s =
     (case read_line s of
        (sizeLine, ok, s1) \<Rightarrow>
          (if \<not> ok then ([], ReadFailed, s1)
           else case chunk_size sizeLine of
             None \<Rightarrow> (sizeLine, SizeMalformed, s1)
           | Some n \<Rightarrow>
               (if n = 0 then
                  (case read_line s1 of (trailer, _, s2) \<Rightarrow> (sizeLine @ trailer, ChunksEnded, s2))
                else (let m = wrap64 (n + 2) in
                  if \<not> make_ok m then (sizeLine, MakePanic, s1)
                  else if int (length s1) < m then (sizeLine, ReadFailed, [])
                  else case relay_chunks (drop (nat m) s1) of
                    (out, e, rest) \<Rightarrow> (sizeLine @ take (nat m) s1 @ out, e, rest)))))"
  by pat_completeness auto

termination relay_chunks
  by (relation "measure length") (auto dest!: read_line_shorter)

declare read_head.simps [simp del] relay_chunks.simps [simp del]

section \<open>Up to the raw phase\<close>

datatype hijack_end =
    WriteFailed | StatusFailed | HeadFailed | ClientGone | Chunked relay_end | RawStream

record hijacked =
  hjToDaemon :: string
  hjToClient :: string
  hjEnd :: hijack_end
  hjLeft :: string

text \<open>
  Whether the daemon takes the request (\<open>wrote\<close>) and the client the head of the answer
  (\<open>takes\<close>) are parameters; \<open>buffered\<close> is what the client had sent after its
  request, \<open>err\<close> the text of an error of the connection.
\<close>

definition bad_gateway :: "string \<Rightarrow> string \<Rightarrow> string" where
  "bad_gateway what err = ''HTTP/1.1 502 Bad Gateway'' @ CRLF @ CRLF @ what @ '': '' @ err"

definition relay_answer :: "bool \<Rightarrow> string \<Rightarrow> string \<times> hijack_end \<times> string" where
  "relay_answer takes s =
     (case read_line s of
        (statusLine, ok, s1) \<Rightarrow>
          (if \<not> ok then ([], StatusFailed, s1)
           else case read_head statusLine False s1 of
             None \<Rightarrow> ([], HeadFailed, [])
           | Some (peeked, isChunked, s2) \<Rightarrow>
               (if \<not> takes then ([], ClientGone, s2)
                else if \<not> is101 statusLine \<and> isChunked then
                  (case relay_chunks s2 of (out, e, s3) \<Rightarrow> (peeked @ out, Chunked e, s3))
                else (peeked, RawStream, s2))))"

definition hijack_relay ::
  "request \<Rightarrow> header_map \<Rightarrow> string \<Rightarrow> string \<Rightarrow> bool \<Rightarrow> bool \<Rightarrow> string \<Rightarrow> hijacked" where
  "hijack_relay r hs buffered err wrote takes s =
     (if \<not> wrote then
        \<lparr>hjToDaemon = [], hjToClient = bad_gateway ''write request failed'' err, hjEnd = WriteFailed, hjLeft = s\<rparr>
      else case relay_answer takes s of
        (out, e, left) \<Rightarrow>
          \<lparr>hjToDaemon = request_text r hs @ buffered,
           hjToClient = (if e = StatusFailed then bad_gateway ''read upstream status failed'' err else out),
           hjEnd = e, hjLeft = left\<rparr>)"

section \<open>Raw bytes in both directions\<close>

text \<open>
  Two goroutines copy, one per direction, and the handler waits in a \<^verbatim>\<open>select\<close> for
  either to end.  The record keeps everything each side has sent so far, so that what has been
  copied is a beginning of it; \<open>rwBroken\<close> says that the client's end refuses writes.
\<close>

datatype raw_phase = Selecting | JoiningClient | Draining | Finished

record raw =
  rwDaemonSent :: string
  rwDaemonEnd :: bool
  rwClientSent :: string
  rwClientEnd :: bool
  rwBroken :: bool
  rwToClient :: string
  rwToDaemon :: string
  upstreamDone :: bool
  clientDone :: bool
  writeClosed :: bool
  connsClosed :: bool
  rwPhase :: raw_phase

definition raw_start :: "string \<Rightarrow> raw" where
  "raw_start left =
     \<lparr>rwDaemonSent = left, rwDaemonEnd = False, rwClientSent = [], rwClientEnd = False,
      rwBroken = False, rwToClient = [], rwToDaemon = [], upstreamDone = False,
      clientDone = False, writeClosed = False, connsClosed = False, rwPhase = Selecting\<rparr>"

definition unread_up :: "raw \<Rightarrow> string" where
  "unread_up t = drop (length (rwToClient t)) (rwDaemonSent t)"

definition unread_down :: "raw \<Rightarrow> string" where
  "unread_down t = drop (length (rwToDaemon t)) (rwClientSent t)"

text \<open>What the two ends do, and what the proxy does.\<close>

datatype end_event = DaemonSends string | DaemonEnds | ClientSends string | ClientEnds | ClientBreaks

datatype relay_event =
    CopyUp nat | CopyUpEnds | CopyDown nat | CopyDownEnds
  | SelectUpstream | SelectClient | AwaitClient | AwaitUpstream

datatype raw_event = Outside end_event | Inside relay_event

fun end_step :: "end_event \<Rightarrow> raw \<Rightarrow> raw option" where
  "end_step (DaemonSends s) t =
     (if rwDaemonEnd t then None else Some (t \<lparr>rwDaemonSent := rwDaemonSent t @ s\<rparr>))"
| "end_step DaemonEnds t = Some (t \<lparr>rwDaemonEnd := True\<rparr>)"
| "end_step (ClientSends s) t =
     (if rwClientEnd t then None else Some (t \<lparr>rwClientSent := rwClientSent t @ s\<rparr>))"
| "end_step ClientEnds t = Some (t \<lparr>rwClientEnd := True\<rparr>)"
| "end_step ClientBreaks t = Some (t \<lparr>rwClientEnd := True, rwBroken := True\<rparr>)"

fun copy_step :: "relay_event \<Rightarrow> raw \<Rightarrow> raw option" where
  "copy_step (CopyUp n) t =
     (if upstreamDone t \<or> connsClosed t \<or> rwBroken t \<or> n = 0 \<or> n > length (unread_up t) then None
      else Some (t \<lparr>rwToClient := rwToClient t @ take n (unread_up t)\<rparr>))"
| "copy_step CopyUpEnds t =
     (if \<not> upstreamDone t \<and>
         (connsClosed t \<or> (rwBroken t \<and> unread_up t \<noteq> []) \<or> (rwDaemonEnd t \<and> unread_up t = []))
      then Some (t \<lparr>upstreamDone := True\<rparr>) else None)"
| "copy_step (CopyDown n) t =
     (if clientDone t \<or> connsClosed t \<or> n = 0 \<or> n > length (unread_down t) then None
      else Some (t \<lparr>rwToDaemon := rwToDaemon t @ take n (unread_down t)\<rparr>))"
| "copy_step CopyDownEnds t =
     (if \<not> clientDone t \<and>
         (connsClosed t \<or> (rwDaemonEnd t \<and> unread_down t \<noteq> []) \<or> (rwClientEnd t \<and> unread_down t = []))
      then Some (t \<lparr>writeClosed := True, clientDone := True\<rparr>) else None)"
| "copy_step _ t = None"

fun wait_step :: "relay_event \<Rightarrow> raw \<Rightarrow> raw option" where
  "wait_step SelectUpstream t =
     (if rwPhase t = Selecting \<and> upstreamDone t
      then Some (t \<lparr>connsClosed := True, rwPhase := JoiningClient\<rparr>) else None)"
| "wait_step AwaitClient t =
     (if rwPhase t = JoiningClient \<and> clientDone t then Some (t \<lparr>rwPhase := Finished\<rparr>) else None)"
| "wait_step SelectClient t =
     (if rwPhase t = Selecting \<and> clientDone t
      then Some (t \<lparr>writeClosed := True, rwPhase := Draining\<rparr>) else None)"
| "wait_step AwaitUpstream t =
     (if rwPhase t = Draining \<and> upstreamDone t
      then Some (t \<lparr>connsClosed := True, rwPhase := Finished\<rparr>) else None)"
| "wait_step _ t = None"

definition relay_step :: "relay_event \<Rightarrow> raw \<Rightarrow> raw option" where
  "relay_step e t = (case copy_step e t of Some t' \<Rightarrow> Some t' | None \<Rightarrow> wait_step e t)"

definition raw_step :: "raw_event \<Rightarrow> raw \<Rightarrow> raw option" where
  "raw_step e t = (case e of Outside o_e \<Rightarrow> end_step o_e t | Inside i_e \<Rightarrow> relay_step i_e t)"

fun run_raw :: "raw_event list \<Rightarrow> raw \<Rightarrow> raw option" where
  "run_raw [] t = Some t"
| "run_raw (e # es) t = (case raw_step e t of None \<Rightarrow> None | Some t' \<Rightarrow> run_raw es t')"

section \<open>Nothing is added, nothing is lost\<close>

text \<open>The loops pass on a beginning of what they read, and say what they left unread.\<close>

lemma read_head_parts:
  "read_head peeked ch s = Some (h, ch', rest) \<Longrightarrow> h @ rest = peeked @ s"
proof (induction peeked ch s rule: read_head.induct)
  case (1 peeked ch s)
  obtain line ok s1 where rl: "read_line s = (line, ok, s1)" by (metis prod_cases3)
  show ?case
    using 1 read_line_parts [OF rl] rl
    by (subst (asm) (2) read_head.simps) (auto split: if_splits)
qed

lemma relay_chunks_parts:
  "relay_chunks s = (out, e, rest) \<Longrightarrow> prefix out s \<and> (e = ChunksEnded \<longrightarrow> s = out @ rest)"
proof (induction s arbitrary: out e rest rule: relay_chunks.induct)
  case (1 s)
  obtain line ok s1 where rl: "read_line s = (line, ok, s1)" by (metis prod_cases3)
  have s: "s = line @ s1" using read_line_parts [OF rl] by simp
  obtain trailer tok s2 where rt: "read_line s1 = (trailer, tok, s2)" by (metis prod_cases3)
  have s1: "s1 = trailer @ s2" using read_line_parts [OF rt] by simp
  show ?case
  proof (cases "chunk_size line")
    case None
    with 1(2) rl s show ?thesis
      by (subst (asm) relay_chunks.simps) (auto split: if_splits)
  next
    case (Some n)
    let ?m = "nat (wrap64 (n + 2))"
    obtain o' e' r' where rc: "relay_chunks (drop ?m s1) = (o', e', r')" by (metis prod_cases3)
    have tail: "ok \<Longrightarrow> n \<noteq> 0 \<Longrightarrow> make_ok (wrap64 (n + 2)) \<Longrightarrow> \<not> int (length s1) < wrap64 (n + 2) \<Longrightarrow>
        prefix o' (drop ?m s1) \<and> (e' = ChunksEnded \<longrightarrow> drop ?m s1 = o' @ r')"
      using 1(1) [OF rl [symmetric] refl _ Some _ refl _ _ rc] by auto
    have glue: "prefix o' (drop ?m s1) \<Longrightarrow> prefix (take ?m s1 @ o') s1"
      by (metis append_take_drop_id same_prefix_prefix)
    have glue2: "drop ?m s1 = o' @ r' \<Longrightarrow> s1 = take ?m s1 @ o' @ r'"
      by (metis append_take_drop_id)
    have eq: "relay_chunks s =
        (if \<not> ok then ([], ReadFailed, s1) else if n = 0 then (line @ trailer, ChunksEnded, s2)
         else if \<not> make_ok (wrap64 (n + 2)) then (line, MakePanic, s1)
         else if int (length s1) < wrap64 (n + 2) then (line, ReadFailed, [])
         else (line @ take ?m s1 @ o', e', r'))"
      by (subst relay_chunks.simps) (simp add: rl rt Some rc Let_def)
    have out: "prefix (line @ trailer) s" "prefix line s" "s = (line @ trailer) @ s2" using s s1 by auto
    show ?thesis
    proof (cases "ok \<and> n \<noteq> 0 \<and> make_ok (wrap64 (n + 2)) \<and> \<not> int (length s1) < wrap64 (n + 2)")
      case True
      then have "out = line @ take ?m s1 @ o'" "e = e'" "rest = r'" using 1(2) eq by simp_all
      then show ?thesis using True tail glue glue2 s by auto
    next
      case False
      then show ?thesis using 1(2) out unfolding eq by (auto split: if_splits)
    qed
  qed
qed

lemma relay_answer_parts:
  assumes "relay_answer takes s = (out, e, left)"
  shows "prefix out s \<and> (e \<in> {RawStream, Chunked ChunksEnded} \<longrightarrow> s = out @ left)"
proof -
  obtain line ok s1 where rl: "read_line s = (line, ok, s1)" by (metis prod_cases3)
  have s: "s = line @ s1" using read_line_parts [OF rl] by simp
  show ?thesis
  proof (cases "read_head line False s1")
    case None
    with assms rl show ?thesis by (auto simp: relay_answer_def split: if_splits)
  next
    case (Some x)
    obtain h ch s2 where x: "x = (h, ch, s2)" by (metis prod_cases3)
    have hs: "s = h @ s2" using read_head_parts Some x s by metis
    obtain o' e' s3 where rc: "relay_chunks s2 = (o', e', s3)" by (metis prod_cases3)
    show ?thesis
      using assms rl Some x hs rc relay_chunks_parts [OF rc]
      by (auto simp: relay_answer_def split: if_splits)
  qed
qed

section \<open>Chunked answers end at their last chunk\<close>

definition ends_line :: "string \<Rightarrow> bool" where
  "ends_line l \<longleftrightarrow> l \<noteq> [] \<and> last l = LF \<and> LF \<notin> set (butlast l)"

definition size_line :: "string \<Rightarrow> int \<Rightarrow> bool" where
  "size_line l n \<longleftrightarrow> ends_line l \<and> chunk_size l = Some n"

definition good_chunk :: "string \<times> string \<Rightarrow> bool" where
  "good_chunk c \<longleftrightarrow>
     (case c of (l, d) \<Rightarrow> size_line l (int (length d)) \<and> d \<noteq> [] \<and> int (length d) < 2 ^ 47)"

definition chunk_text :: "string \<times> string \<Rightarrow> string" where
  "chunk_text c = (case c of (l, d) \<Rightarrow> l @ d @ CRLF)"

lemma read_ends_line:
  assumes "ends_line l"
  shows "read_line (l @ later) = (l, True, later)"
proof -
  obtain b where l: "l = b @ [LF]" and b: "LF \<notin> set b"
    using assms by (metis append_butlast_last_id ends_line_def)
  have "before_char LF (l @ later) = b \<and> after_char LF (l @ later) = later"
    using b unfolding l before_char_def after_char_def by (induction b) auto
  then show ?thesis by (simp add: read_line_def l)
qed

lemma relay_good_chunk:
  assumes "good_chunk c"
  shows "relay_chunks (chunk_text c @ s) =
    (case relay_chunks s of (out, e, rest) \<Rightarrow> (chunk_text c @ out, e, rest))"
proof -
  obtain l d where c: "c = (l, d)" by (cases c)
  have sl: "ends_line l" "chunk_size l = Some (int (length d))" and d: "d \<noteq> []" "int (length d) < 2 ^ 47"
    using assms by (auto simp: c good_chunk_def size_line_def)
  have m: "wrap64 (int (length d) + 2) = int (length (d @ CRLF))"
    using d by (subst wrap64_id) (auto simp: min_int64_def max_int64_def)
  have rl: "read_line (chunk_text c @ s) = (l, True, d @ CRLF @ s)"
    using read_ends_line [OF sl(1), of "d @ CRLF @ s"] by (simp add: c chunk_text_def)
  have ok: "make_ok (int (length (d @ CRLF)))" using d by (simp add: make_ok_def)
  obtain out e rest where rc: "relay_chunks s = (out, e, rest)" by (metis prod_cases3)
  have body: "chunk_text c = l @ d @ CRLF" by (simp add: c chunk_text_def)
  have n: "nat (2 + int (length d)) = length d + 2" by simp
  show ?thesis
    using d ok rc by (subst relay_chunks.simps) (simp only: rl, simp add: sl m n Let_def body)
qed

text \<open>
  C24. A chunked answer of the daemon is passed on unchanged up to the line after its last
  chunk, and there the relay stops, whatever the daemon sends next or if it sends nothing more.
\<close>

theorem chunked_answer_ends:
  assumes "list_all good_chunk cs" "size_line z 0" "ends_line t"
  shows "relay_chunks (concat (map chunk_text cs) @ z @ t @ later) =
    (concat (map chunk_text cs) @ z @ t, ChunksEnded, later)"
  using assms(1)
proof (induction cs)
  case Nil
  have "read_line (z @ t @ later) = (z, True, t @ later)" "read_line (t @ later) = (t, True, later)"
    using read_ends_line assms(2,3) by (auto simp: size_line_def)
  then show ?case
    using assms(2) by (subst relay_chunks.simps) (simp add: size_line_def)
next
  case (Cons c cs)
  then show ?case
    using relay_good_chunk [of c "concat (map chunk_text cs) @ z @ t @ later"] by simp
qed

theorem chunked_answer_ends_witness:
  "relay_chunks (''5'' @ CRLF @ ''hello'' @ CRLF @ ''0'' @ CRLF @ CRLF @ ''HTTP/1.1 200 OK'') =
     (''5'' @ CRLF @ ''hello'' @ CRLF @ ''0'' @ CRLF @ CRLF, ChunksEnded, ''HTTP/1.1 200 OK'')"
proof -
  have "list_all good_chunk [(''5'' @ CRLF, ''hello'')]" "size_line (''0'' @ CRLF) 0" "ends_line CRLF"
    by code_simp+
  from chunked_answer_ends [OF this, of "''HTTP/1.1 200 OK''"] show ?thesis
    by (simp add: chunk_text_def)
qed

section \<open>The raw phase\<close>

definition raw_ok :: "raw \<Rightarrow> bool" where
  "raw_ok t \<longleftrightarrow>
     prefix (rwToClient t) (rwDaemonSent t) \<and> prefix (rwToDaemon t) (rwClientSent t) \<and>
     (upstreamDone t \<and> \<not> rwBroken t \<longrightarrow> rwDaemonEnd t \<and> rwToClient t = rwDaemonSent t) \<and>
     (connsClosed t \<longrightarrow> upstreamDone t) \<and>
     (rwPhase t = JoiningClient \<longrightarrow> connsClosed t) \<and>
     (rwPhase t = Draining \<longrightarrow> clientDone t) \<and>
     (rwPhase t = Finished \<longrightarrow> upstreamDone t \<and> clientDone t)"

lemma raw_ok_start: "raw_ok (raw_start left)"
  by (simp add: raw_ok_def raw_start_def)

lemma prefix_copy:
  "prefix xs ys \<Longrightarrow> prefix (xs @ take n (drop (length xs) ys)) ys"
  by (auto simp: prefix_def) (metis append_take_drop_id)

lemma prefix_unread: "prefix xs ys \<Longrightarrow> drop (length xs) ys = [] \<Longrightarrow> xs = ys"
  by (auto simp: prefix_def)

lemma raw_ok_outside:
  assumes "raw_ok t"
  shows "\<not> rwDaemonEnd t \<Longrightarrow> raw_ok (t \<lparr>rwDaemonSent := rwDaemonSent t @ s\<rparr>)"
    "raw_ok (t \<lparr>rwDaemonEnd := True\<rparr>)"
    "raw_ok (t \<lparr>rwClientSent := rwClientSent t @ s\<rparr>)"
    "raw_ok (t \<lparr>rwClientEnd := True\<rparr>)"
    "raw_ok (t \<lparr>rwClientEnd := True, rwBroken := True\<rparr>)"
  using assms by (simp_all add: raw_ok_def)

lemma end_step_ok: "end_step e t = Some t' \<Longrightarrow> raw_ok t \<Longrightarrow> raw_ok t'"
  by (cases e) (auto simp: raw_ok_outside split: if_splits)

lemma copy_step_ok:
  assumes "copy_step e t = Some t'" "raw_ok t"
  shows "raw_ok t'"
proof (cases e)
  case (CopyUp n)
  with assms(1) have "t' = t \<lparr>rwToClient := rwToClient t @ take n (unread_up t)\<rparr>" "\<not> upstreamDone t"
    by (auto split: if_splits)
  with assms(2) show ?thesis by (auto simp: raw_ok_def unread_up_def prefix_copy)
next
  case CopyUpEnds
  with assms have "t' = t \<lparr>upstreamDone := True\<rparr>" "rwBroken t \<or> rwDaemonEnd t \<and> unread_up t = []"
    by (auto simp: raw_ok_def split: if_splits)
  with assms(2) prefix_unread [of "rwToClient t" "rwDaemonSent t"] show ?thesis
    by (auto simp: raw_ok_def unread_up_def)
next
  case (CopyDown n)
  with assms(1) have "t' = t \<lparr>rwToDaemon := rwToDaemon t @ take n (unread_down t)\<rparr>"
    by (auto split: if_splits)
  with assms(2) show ?thesis by (simp add: raw_ok_def unread_down_def prefix_copy)
next
  case CopyDownEnds
  with assms(1) have "t' = t \<lparr>writeClosed := True, clientDone := True\<rparr>" by (auto split: if_splits)
  with assms(2) show ?thesis by (simp add: raw_ok_def)
qed (use assms in auto)

lemma wait_step_ok: "wait_step e t = Some t' \<Longrightarrow> raw_ok t \<Longrightarrow> raw_ok t'"
  by (cases e) (auto simp: raw_ok_def split: if_splits)

lemma raw_step_ok: "raw_step e t = Some t' \<Longrightarrow> raw_ok t \<Longrightarrow> raw_ok t'"
  by (auto simp: raw_step_def relay_step_def dest: end_step_ok copy_step_ok wait_step_ok
      split: raw_event.splits option.splits)

lemma run_raw_ok: "run_raw es t = Some t' \<Longrightarrow> raw_ok t \<Longrightarrow> raw_ok t'"
  by (induction es arbitrary: t) (auto dest: raw_step_ok split: option.splits)

text \<open>
  C21. The tunnel is transparent.  The head of the answer and what has been copied since are a
  beginning of what the daemon sent, what the daemon got is a beginning of what the client sent,
  and once the handler has finished, the daemon has closed its side and, unless the client's
  connection broke, the client has all of it.
\<close>

theorem tunnel_transparent:
  assumes "relay_answer True s = (out, RawStream, left)" "run_raw es (raw_start left) = Some t"
  shows "s = out @ left \<and>
    prefix (out @ rwToClient t) (out @ rwDaemonSent t) \<and> prefix (rwToDaemon t) (rwClientSent t) \<and>
    (rwPhase t = Finished \<and> \<not> rwBroken t \<longrightarrow> rwDaemonEnd t \<and> rwToClient t = rwDaemonSent t)"
proof -
  have "raw_ok t" by (rule run_raw_ok [OF assms(2) raw_ok_start])
  moreover have "s = out @ left" using relay_answer_parts [OF assms(1)] by simp
  ultimately show ?thesis by (auto simp: raw_ok_def)
qed

definition demo_upgrade :: string where
  "demo_upgrade = ''HTTP/1.1 101 UPGRADED'' @ CRLF @ CRLF @ ''hi''"

definition demo_tunnel :: "raw_event list" where
  "demo_tunnel =
     [Outside (ClientSends ''ls''), Inside (CopyUp 1), Inside (CopyDown 2), Outside ClientEnds,
      Inside CopyDownEnds, Inside SelectClient, Outside (DaemonSends ''!''), Outside DaemonEnds,
      Inside (CopyUp 2), Inside CopyUpEnds, Inside AwaitUpstream]"

theorem tunnel_transparent_witness:
  "\<exists>t. run_raw demo_tunnel (raw_start ''hi'') = Some t \<and> rwPhase t = Finished \<and> \<not> rwBroken t \<and>
     rwToClient t = rwDaemonSent t \<and> rwToClient t = ''hi!'' \<and> rwToDaemon t = ''ls''"
proof -
  let ?head = "''HTTP/1.1 101 UPGRADED'' @ CRLF @ CRLF"
  have head: "relay_answer True demo_upgrade = (?head, RawStream, ''hi'')" by code_simp
  obtain t where run: "run_raw demo_tunnel (raw_start ''hi'') = Some t"
    and t: "rwPhase t = Finished" "\<not> rwBroken t" "rwToClient t = ''hi!''" "rwToDaemon t = ''ls''"
    by (simp add: demo_tunnel_def raw_start_def raw_step_def relay_step_def unread_up_def unread_down_def)
  from tunnel_transparent [OF head run] run t show ?thesis by simp
qed

section \<open>The end of the raw phase\<close>

definition raw_work :: "raw \<Rightarrow> nat" where
  "raw_work t =
     length (unread_up t) + length (unread_down t) + (if upstreamDone t then 0 else 1) +
     (if clientDone t then 0 else 1) +
     (case rwPhase t of Selecting \<Rightarrow> 2 | Finished \<Rightarrow> 0 | _ \<Rightarrow> 1)"

lemma copy_step_works:
  assumes "copy_step e t = Some t'"
  shows "raw_work t' < raw_work t"
proof (cases e)
  case (CopyUp n)
  with assms have "t' = t \<lparr>rwToClient := rwToClient t @ take n (unread_up t)\<rparr>" "n > 0" "n \<le> length (unread_up t)"
    by (auto split: if_splits)
  then show ?thesis by (simp add: raw_work_def unread_up_def unread_down_def)
next
  case CopyUpEnds
  with assms have "t' = t \<lparr>upstreamDone := True\<rparr>" "\<not> upstreamDone t" by (auto split: if_splits)
  then show ?thesis by (simp add: raw_work_def unread_up_def unread_down_def)
next
  case (CopyDown n)
  with assms have "t' = t \<lparr>rwToDaemon := rwToDaemon t @ take n (unread_down t)\<rparr>" "n > 0" "n \<le> length (unread_down t)"
    by (auto split: if_splits)
  then show ?thesis by (simp add: raw_work_def unread_up_def unread_down_def)
next
  case CopyDownEnds
  with assms have "t' = t \<lparr>writeClosed := True, clientDone := True\<rparr>" "\<not> clientDone t" by (auto split: if_splits)
  then show ?thesis by (simp add: raw_work_def unread_up_def unread_down_def)
qed (use assms in auto)

lemma wait_step_works: "wait_step e t = Some t' \<Longrightarrow> raw_work t' < raw_work t"
  by (cases e) (auto simp: raw_work_def unread_up_def unread_down_def split: if_splits)

lemma relay_step_works: "relay_step e t = Some t' \<Longrightarrow> raw_work t' < raw_work t"
  by (auto simp: relay_step_def dest: copy_step_works wait_step_works split: option.splits)

lemma copy_up_goes_on:
  assumes "raw_ok t" "rwDaemonEnd t" "\<not> upstreamDone t"
  shows "\<exists>e t'. relay_step e t = Some t'"
proof (cases "unread_up t = [] \<or> rwBroken t")
  case True
  then have "relay_step CopyUpEnds t = Some (t \<lparr>upstreamDone := True\<rparr>)"
    using assms by (auto simp: relay_step_def)
  then show ?thesis by blast
next
  case False
  then have "relay_step (CopyUp 1) t \<noteq> None"
    using assms by (auto simp: relay_step_def raw_ok_def Suc_le_eq not_less)
  then show ?thesis by blast
qed

text \<open>
  Once the daemon has closed its side, the handler cannot get stuck: until it has finished
  a step of it is possible, and every step uses up some of the work that is left.
\<close>

theorem tunnel_ends_after_daemon:
  assumes "run_raw es (raw_start left) = Some t" "rwDaemonEnd t" "rwPhase t \<noteq> Finished"
  shows "(\<exists>e t'. relay_step e t = Some t') \<and>
    (\<forall>e t'. relay_step e t = Some t' \<longrightarrow> raw_work t' < raw_work t)"
proof -
  have ok: "raw_ok t" by (rule run_raw_ok [OF assms(1) raw_ok_start])
  have "\<exists>e t'. relay_step e t = Some t'"
  proof (cases "rwPhase t = JoiningClient")
    case True
    then have "relay_step (if clientDone t then AwaitClient else CopyDownEnds) t \<noteq> None"
      using ok by (auto simp: relay_step_def raw_ok_def)
    then show ?thesis by blast
  next
    case other: False
    show ?thesis
    proof (cases "upstreamDone t")
      case True
      then have "relay_step (if rwPhase t = Selecting then SelectUpstream else AwaitUpstream) t \<noteq> None"
        using assms(3) other by (cases "rwPhase t") (auto simp: relay_step_def)
      then show ?thesis by blast
    next
      case False
      then show ?thesis using copy_up_goes_on ok assms(2) by blast
    qed
  qed
  then show ?thesis using relay_step_works by blast
qed

theorem tunnel_ends_after_daemon_witness:
  "\<exists>t. run_raw [Outside (DaemonSends ''x''), Outside DaemonEnds] (raw_start []) = Some t \<and>
     (\<exists>e t'. relay_step e t = Some t' \<and> raw_work t' < raw_work t)"
proof -
  obtain t where run: "run_raw [Outside (DaemonSends ''x''), Outside DaemonEnds] (raw_start []) = Some t"
    and t: "rwDaemonEnd t" "rwPhase t \<noteq> Finished"
    by (simp add: raw_start_def raw_step_def)
  from tunnel_ends_after_daemon [OF run t] run show ?thesis by blast
qed

text \<open>
  A client that breaks its connection while the daemon is silent does not end the handler: the
  copy from the client ends, the \<^verbatim>\<open>select\<close> takes the second branch, and no further
  step is possible until the daemon sends something or closes.
\<close>

theorem broken_client_keeps_handler:
  "\<exists>t. run_raw [Outside ClientBreaks, Inside CopyDownEnds, Inside SelectClient] (raw_start []) = Some t \<and>
     rwPhase t = Draining \<and> (\<forall>e. relay_step e t = None)"
proof -
  let ?t = "(raw_start []) \<lparr>rwClientEnd := True, rwBroken := True, writeClosed := True,
    clientDone := True, rwPhase := Draining\<rparr>"
  have "relay_step e ?t = None" for e
    by (cases e) (auto simp: relay_step_def raw_start_def unread_up_def unread_down_def)
  moreover have "run_raw [Outside ClientBreaks, Inside CopyDownEnds, Inside SelectClient] (raw_start []) = Some ?t"
    by (simp add: raw_step_def relay_step_def raw_start_def unread_down_def)
  ultimately show ?thesis by auto
qed

end
