(* ===== verification/Schema.thy ===== *)
theory Schema
  imports Ownership
begin

text \<open>
  Package \<^verbatim>\<open>internal/authz\<close>, file \<^verbatim>\<open>ownership.go\<close>: opening the
  database (\<^verbatim>\<open>NewOwnershipDB\<close>) and its schema (\<^verbatim>\<open>initSchema\<close>).

  The catalogue of a database is the list of its tables, each with its columns and the column
  lists that are unique in it, and the list of its indexes.  A statement changes the catalogue or
  fails and leaves it alone.  The first call of \<^verbatim>\<open>Exec\<close> carries many statements,
  which run in order up to the first that fails; each later call carries one whose error is
  dropped.
\<close>

section \<open>Catalogues and statements\<close>

record column =
  colName :: string
  colNotNull :: bool
  colDefault :: bool

record table =
  tabColumns :: "column list"
  tabUnique :: "string list list"

record catalogue =
  catTables :: "(string \<times> table) list"
  catIndexes :: "(string \<times> string \<times> string) list"

datatype ddl =
    CreateTable string table
  | CreateIndex string string string
  | AddColumn string column

definition column_names :: "table \<Rightarrow> string list" where
  "column_names t = map colName (tabColumns t)"

text \<open>
  SQLite: \<^verbatim>\<open>IF NOT EXISTS\<close> only looks at the name; an index needs its table and
  its column; a column that exists cannot be added, nor one that is \<^verbatim>\<open>NOT NULL\<close>
  without a default.
\<close>

fun ddl_exec :: "ddl \<Rightarrow> catalogue \<Rightarrow> catalogue option" where
  "ddl_exec (CreateTable n t) c =
     (if map_of (catTables c) n \<noteq> None then Some c else Some (c \<lparr>catTables := catTables c @ [(n, t)]\<rparr>))"
| "ddl_exec (CreateIndex n tn col) c =
     (if map_of (catIndexes c) n \<noteq> None then Some c
      else case map_of (catTables c) tn of
        None \<Rightarrow> None
      | Some t \<Rightarrow>
          (if col \<in> set (column_names t) then Some (c \<lparr>catIndexes := catIndexes c @ [(n, tn, col)]\<rparr>) else None))"
| "ddl_exec (AddColumn tn col) c =
     (case map_of (catTables c) tn of
        None \<Rightarrow> None
      | Some t \<Rightarrow>
          (if colName col \<in> set (column_names t) \<or> (colNotNull col \<and> \<not> colDefault col) then None
           else Some (c \<lparr>catTables :=
             map (\<lambda>(n, u). (n, if n = tn then u \<lparr>tabColumns := tabColumns u @ [col]\<rparr> else u)) (catTables c)\<rparr>)))"

fun exec_all :: "ddl list \<Rightarrow> catalogue \<Rightarrow> bool \<times> catalogue" where
  "exec_all [] c = (True, c)"
| "exec_all (d # ds) c = (case ddl_exec d c of None \<Rightarrow> (False, c) | Some c' \<Rightarrow> exec_all ds c')"

definition exec_ignored :: "ddl \<Rightarrow> catalogue \<Rightarrow> catalogue" where
  "exec_ignored d c = (case ddl_exec d c of None \<Rightarrow> c | Some c' \<Rightarrow> c')"

section \<open>The tables\<close>

definition plain :: "string \<Rightarrow> column" where
  "plain n = \<lparr>colName = n, colNotNull = False, colDefault = False\<rparr>"

definition required :: "string \<Rightarrow> column" where
  "required n = \<lparr>colName = n, colNotNull = True, colDefault = False\<rparr>"

definition defaulted :: "string \<Rightarrow> column" where
  "defaulted n = \<lparr>colName = n, colNotNull = False, colDefault = True\<rparr>"

definition required_default :: "string \<Rightarrow> column" where
  "required_default n = \<lparr>colName = n, colNotNull = True, colDefault = True\<rparr>"

definition owned_by :: "column list" where
  "owned_by = [required ''owner_uid'', required ''owner_username'']"

definition containers_table :: table where
  "containers_table =
     \<lparr>tabColumns = [plain ''id'', required ''owner_username'', required ''owner_uid'', required ''owner_gid'',
        defaulted ''image_id'', required_default ''privileged_context'', defaulted ''created_at''],
      tabUnique = [[''id'']]\<rparr>"

definition images_table :: table where
  "images_table =
     \<lparr>tabColumns = [plain ''image_id'', required ''owner_username'', required ''owner_uid'', required ''owner_gid'',
        defaulted ''is_public'', required_default ''privileged_context'', plain ''source'', defaulted ''created_at''],
      tabUnique = [[''image_id'']]\<rparr>"

definition image_access_table :: table where
  "image_access_table =
     \<lparr>tabColumns = [required ''image_id'', required ''user_uid'', required_default ''privileged_context''],
      tabUnique = [[''image_id'', ''user_uid'']]\<rparr>"

definition networks_table :: table where
  "networks_table =
     \<lparr>tabColumns = [plain ''network_id'', required ''name''] @ owned_by @
        [defaulted ''is_shared'', required_default ''privileged_context'', defaulted ''created_at''],
      tabUnique = [[''network_id'']]\<rparr>"

definition network_access_table :: table where
  "network_access_table =
     \<lparr>tabColumns = [required ''network_id'', required ''user_uid''],
      tabUnique = [[''network_id'', ''user_uid'']]\<rparr>"

definition volumes_table :: table where
  "volumes_table =
     \<lparr>tabColumns = plain ''name'' # owned_by @ [required_default ''privileged_context'', defaulted ''created_at''],
      tabUnique = [[''name'']]\<rparr>"

definition port_mappings_table :: table where
  "port_mappings_table =
     \<lparr>tabColumns = [plain ''id'', required ''host_port'', required_default ''protocol'',
        required ''container_port'', required ''container_id''] @ owned_by @ [defaulted ''created_at''],
      tabUnique = [[''id''], [''host_port'', ''protocol'']]\<rparr>"

definition network_peers_table :: table where
  "network_peers_table =
     \<lparr>tabColumns = [plain ''id'', required ''uid_a'', required ''uid_b'', required ''peer_network_id'',
        required_default ''container_id_a'', required_default ''container_id_b'', defaulted ''created_at''],
      tabUnique = [[''id''], [''uid_a'', ''uid_b'', ''container_id_a'', ''container_id_b'']]\<rparr>"

definition volumes_from_access_table :: table where
  "volumes_from_access_table =
     \<lparr>tabColumns = [required ''container_id'', required ''grantee_uid'', required_default ''granted_by'', defaulted ''created_at''],
      tabUnique = [[''container_id'', ''grantee_uid'']]\<rparr>"

definition swarm_table :: "string \<Rightarrow> table" where
  "swarm_table key =
     \<lparr>tabColumns = [plain key, required ''name''] @ owned_by @ [defaulted ''created_at''], tabUnique = [[key]]\<rparr>"

definition schema_tables :: "(string \<times> table) list" where
  "schema_tables =
     [(''containers'', containers_table), (''images'', images_table), (''image_access'', image_access_table),
      (''networks'', networks_table), (''network_access'', network_access_table), (''volumes'', volumes_table),
      (''port_mappings'', port_mappings_table), (''network_peers'', network_peers_table)]"

definition schema_indexes :: "ddl list" where
  "schema_indexes =
     [CreateIndex ''idx_containers_owner_uid'' ''containers'' ''owner_uid'',
      CreateIndex ''idx_images_owner_uid'' ''images'' ''owner_uid'',
      CreateIndex ''idx_image_access_uid'' ''image_access'' ''user_uid'',
      CreateIndex ''idx_networks_owner_uid'' ''networks'' ''owner_uid'',
      CreateIndex ''idx_network_access_uid'' ''network_access'' ''user_uid'',
      CreateIndex ''idx_volumes_owner_uid'' ''volumes'' ''owner_uid'']"

definition port_indexes :: "ddl list" where
  "port_indexes =
     [CreateIndex ''idx_port_mappings_container'' ''port_mappings'' ''container_id'',
      CreateIndex ''idx_port_mappings_owner'' ''port_mappings'' ''owner_uid'']"

definition later_tables :: "ddl list" where
  "later_tables =
     [CreateTable ''volumes_from_access'' volumes_from_access_table,
      CreateIndex ''idx_volumes_from_container'' ''volumes_from_access'' ''container_id'',
      CreateTable ''swarm_services'' (swarm_table ''service_id''),
      CreateIndex ''idx_swarm_services_owner'' ''swarm_services'' ''owner_uid'',
      CreateTable ''swarm_secrets'' (swarm_table ''secret_id''),
      CreateIndex ''idx_swarm_secrets_owner'' ''swarm_secrets'' ''owner_uid'',
      CreateTable ''swarm_configs'' (swarm_table ''config_id''),
      CreateIndex ''idx_swarm_configs_owner'' ''swarm_configs'' ''owner_uid'']"

definition schema_batch :: "ddl list" where
  "schema_batch = map (case_prod CreateTable) schema_tables @ schema_indexes @ port_indexes @ later_tables"

text \<open>The statements that bring an older database up to date.\<close>

definition privileged_columns :: "ddl list" where
  "privileged_columns =
     map (\<lambda>n. AddColumn n (required_default ''privileged_context''))
       [''containers'', ''images'', ''image_access'', ''networks'', ''volumes'']"

definition schema_migrations :: "ddl list" where
  "schema_migrations =
     [AddColumn ''containers'' (defaulted ''image_id''),
      CreateTable ''port_mappings'' port_mappings_table,
      CreateTable ''network_peers'' network_peers_table,
      AddColumn ''network_peers'' (required_default ''container_id_a''),
      AddColumn ''network_peers'' (required_default ''container_id_b'')]
     @ port_indexes @ later_tables @ privileged_columns"

definition initSchema :: "catalogue \<Rightarrow> bool \<times> catalogue" where
  "initSchema c =
     (case exec_all schema_batch c of
        (ok, c') \<Rightarrow> if ok then (True, fold exec_ignored schema_migrations c') else (False, c'))"

text \<open>Whether the file can be opened and switched to a write-ahead log are parameters.\<close>

datatype open_result = OpenFailed | WALFailed | SchemaFailed | Opened catalogue

definition NewOwnershipDB :: "bool \<Rightarrow> bool \<Rightarrow> catalogue \<Rightarrow> open_result" where
  "NewOwnershipDB opens wal c =
     (if \<not> opens then OpenFailed
      else if \<not> wal then WALFailed
      else case initSchema c of (ok, c') \<Rightarrow> if ok then Opened c' else SchemaFailed)"

section \<open>Statements that have nothing left to do\<close>

fun settled :: "ddl \<Rightarrow> catalogue \<Rightarrow> bool" where
  "settled (CreateTable n _) c \<longleftrightarrow> map_of (catTables c) n \<noteq> None"
| "settled (CreateIndex i _ _) c \<longleftrightarrow> map_of (catIndexes c) i \<noteq> None"
| "settled (AddColumn n col) c \<longleftrightarrow>
     (case map_of (catTables c) n of None \<Rightarrow> False | Some t \<Rightarrow> colName col \<in> set (column_names t))"

fun creates :: "ddl \<Rightarrow> bool" where
  "creates (AddColumn _ _) = False"
| "creates _ = True"

lemma map_of_add_column:
  "map_of (map (\<lambda>(n, u). (n, if n = tn then f u else u)) ts) n =
   map_option (\<lambda>u. if n = tn then f u else u) (map_of ts n)"
  by (induction ts) auto

lemma settled_create: "settled d c \<Longrightarrow> creates d \<Longrightarrow> ddl_exec d c = Some c"
  by (cases d) auto

lemma settled_ignored: "settled d c \<Longrightarrow> exec_ignored d c = c"
  by (cases d) (auto simp: exec_ignored_def split: option.splits)

lemma exec_settles: "ddl_exec d c = Some c' \<Longrightarrow> settled d c'"
  by (cases d) (auto simp: map_add_def map_of_add_column column_names_def split: if_splits option.splits)

lemma settled_mono: "settled d c \<Longrightarrow> ddl_exec e c = Some c' \<Longrightarrow> settled d c'"
  by (cases d; cases e) (auto simp: map_add_def map_of_add_column column_names_def split: if_splits option.splits)

lemma settled_ignored_mono: "settled d c \<Longrightarrow> settled d (exec_ignored e c)"
  by (auto simp: exec_ignored_def settled_mono split: option.splits)

lemma settled_fold: "settled d c \<Longrightarrow> settled d (fold exec_ignored ds c)"
  by (induction ds arbitrary: c) (auto simp: settled_ignored_mono)

lemma exec_all_mono: "exec_all ds c = (ok, c') \<Longrightarrow> settled d c \<Longrightarrow> settled d c'"
  by (induction ds arbitrary: c) (auto split: option.splits dest: settled_mono)

lemma exec_all_settles: "exec_all ds c = (True, c') \<Longrightarrow> list_all (\<lambda>d. settled d c') ds"
  by (induction ds arbitrary: c) (auto split: option.splits dest: exec_settles exec_all_mono)

lemma exec_all_settled: "list_all (\<lambda>d. settled d c \<and> creates d) ds \<Longrightarrow> exec_all ds c = (True, c)"
  by (induction ds) (auto simp: settled_create)

lemma fold_settled: "list_all (\<lambda>d. settled d c) ds \<Longrightarrow> fold exec_ignored ds c = c"
  by (induction ds) (auto simp: settled_ignored)

section \<open>Opening a database twice\<close>

fun makes :: "string \<Rightarrow> ddl \<Rightarrow> bool" where
  "makes n (CreateTable m _) \<longleftrightarrow> m = n"
| "makes n _ = False"

lemma migrations_covered:
  "list_all (\<lambda>d. case d of
       AddColumn n col \<Rightarrow> colDefault col \<and> list_ex (makes n) schema_batch
     | _ \<Rightarrow> d \<in> set schema_batch) schema_migrations"
  by code_simp

lemma batch_creates: "list_all creates schema_batch"
  by code_simp

lemma add_column_settles:
  assumes "map_of (catTables c) n \<noteq> None" "colDefault col"
  shows "settled (AddColumn n col) (exec_ignored (AddColumn n col) c)"
proof (cases "ddl_exec (AddColumn n col) c")
  case None
  with assms show ?thesis by (auto simp: exec_ignored_def split: option.splits if_splits)
next
  case (Some c')
  then show ?thesis using exec_settles [OF Some] by (simp add: exec_ignored_def)
qed

lemma fold_settles:
  "d \<in> set ds \<Longrightarrow> (\<And>x. P x \<Longrightarrow> settled d (exec_ignored d x)) \<Longrightarrow>
   (\<And>x e. P x \<Longrightarrow> P (exec_ignored e x)) \<Longrightarrow> P c \<Longrightarrow> settled d (fold exec_ignored ds c)"
  by (induction ds arbitrary: c) (auto simp: settled_fold)

lemma initSchema_settles:
  assumes "initSchema c = (True, c')" "d \<in> set (schema_batch @ schema_migrations)"
  shows "settled d c'"
proof -
  obtain c1 where batch: "exec_all schema_batch c = (True, c1)" and c': "c' = fold exec_ignored schema_migrations c1"
    using assms(1) by (auto simp: initSchema_def split: prod.splits if_splits)
  have in_batch: "e \<in> set schema_batch \<Longrightarrow> settled e c1" for e
    using exec_all_settles [OF batch] by (simp add: list_all_iff)
  show ?thesis
  proof (cases "d \<in> set schema_batch")
    case True
    then show ?thesis unfolding c' by (intro settled_fold in_batch)
  next
    case False
    then have mig: "d \<in> set schema_migrations" using assms(2) by simp
    obtain n col where d: "d = AddColumn n col"
      using False mig migrations_covered by (cases d) (auto simp: list_all_iff)
    have def: "colDefault col" and made: "list_ex (makes n) schema_batch"
      using bspec [OF migrations_covered [unfolded list_all_iff] mig] by (simp_all add: d)
    from made obtain e where e: "e \<in> set schema_batch" "makes n e" by (auto simp: list_ex_iff)
    then obtain t where "CreateTable n t \<in> set schema_batch" by (cases "(n, e)" rule: makes.cases) auto
    then have there: "settled (CreateTable n t) c1" by (intro in_batch)
    show ?thesis unfolding c'
    proof (rule fold_settles [where P = "settled (CreateTable n t)", OF mig _ _ there])
      show "settled d (exec_ignored d x)" if "settled (CreateTable n t) x" for x
        unfolding d using that def by (intro add_column_settles) simp_all
    qed (rule settled_ignored_mono)
  qed
qed

text \<open>
  Opening a database is idempotent: once it has been opened, opening it again finds nothing
  to create and nothing to add, whatever version of the program had made it.
\<close>

theorem schema_idempotent:
  assumes "NewOwnershipDB True True c = Opened c'"
  shows "NewOwnershipDB True True c' = Opened c'"
proof -
  have init: "initSchema c = (True, c')"
    using assms by (auto simp: NewOwnershipDB_def split: prod.splits if_splits)
  have "list_all (\<lambda>d. settled d c' \<and> creates d) schema_batch" "list_all (\<lambda>d. settled d c') schema_migrations"
    using initSchema_settles [OF init] batch_creates by (auto simp: list_all_iff)
  then have "initSchema c' = (True, c')"
    by (simp add: initSchema_def exec_all_settled fold_settled)
  then show ?thesis by (simp add: NewOwnershipDB_def)
qed

section \<open>Older databases\<close>

definition all_tables :: "(string \<times> table) list" where
  "all_tables = [(n, t). CreateTable n t \<leftarrow> schema_batch]"

text \<open>The columns that the tables did not have from the beginning.\<close>

definition later_columns :: "(string \<times> string) list" where
  "later_columns =
     [(''network_peers'', ''container_id_a''), (''network_peers'', ''container_id_b''), (''containers'', ''image_id'')]
     @ map (\<lambda>n. (n, ''privileged_context'')) [''volumes'', ''networks'', ''image_access'', ''images'', ''containers'']"

definition added_columns :: "string \<Rightarrow> string list" where
  "added_columns n = map snd (filter (\<lambda>(m, x). m = n) later_columns)"

fun adds :: "string \<times> string \<Rightarrow> ddl \<Rightarrow> bool" where
  "adds (n, x) (AddColumn m col) \<longleftrightarrow> m = n \<and> colName col = x"
| "adds _ _ = False"

lemma migrations_add: "list_all (\<lambda>nx. list_ex (adds nx) schema_migrations) later_columns"
  by code_simp

lemma migrations_add_column:
  assumes "x \<in> set (added_columns n)"
  obtains col where "AddColumn n col \<in> set schema_migrations" "colName col = x"
proof -
  have "(n, x) \<in> set later_columns" using assms by (auto simp: added_columns_def)
  then obtain d where "d \<in> set schema_migrations" "adds (n, x) d"
    using migrations_add by (auto simp: list_all_iff list_ex_iff)
  then show thesis using that by (cases d rule: ddl.exhaust) auto
qed

definition base_columns :: "string \<Rightarrow> table \<Rightarrow> string list" where
  "base_columns n t = filter (\<lambda>x. x \<notin> set (added_columns n)) (column_names t)"

text \<open>An older database: the tables it has lack at most the columns that came later.\<close>

definition older :: "catalogue \<Rightarrow> bool" where
  "older c \<longleftrightarrow>
     list_all (\<lambda>(n, t). case map_of (catTables c) n of
         None \<Rightarrow> True | Some u \<Rightarrow> set (base_columns n t) \<subseteq> set (column_names u)) all_tables"

definition complete :: "catalogue \<Rightarrow> bool" where
  "complete c \<longleftrightarrow>
     list_all (\<lambda>(n, t). case map_of (catTables c) n of
         None \<Rightarrow> False | Some u \<Rightarrow> set (column_names t) \<subseteq> set (column_names u)) all_tables"

text \<open>A table after a statement: it was there with fewer columns and the same keys, or it is new.\<close>

lemma ddl_exec_table:
  assumes "ddl_exec d c = Some c'" "map_of (catTables c') n = Some u"
  shows "d = CreateTable n u \<and> map_of (catTables c) n = None \<or>
    (\<exists>v. map_of (catTables c) n = Some v \<and> set (column_names v) \<subseteq> set (column_names u) \<and> tabUnique u = tabUnique v)"
  using assms
  by (cases d) (auto simp: map_add_def map_of_add_column column_names_def split: if_splits option.splits)

lemma older_exec:
  assumes "older c" "ddl_exec d c = Some c'" "\<And>n t. d = CreateTable n t \<Longrightarrow> map_of all_tables n = Some t"
    "distinct (map fst all_tables)"
  shows "older c'"
proof -
  have "set (base_columns n t) \<subseteq> set (column_names u)"
    if nt: "(n, t) \<in> set all_tables" and u: "map_of (catTables c') n = Some u" for n t u
  proof (cases "map_of (catTables c) n")
    case None
    then have "map_of all_tables n = Some u" using ddl_exec_table [OF assms(2) u] assms(3) by simp
    then have "t = u" using nt assms(4) by (metis map_of_is_SomeI option.inject)
    then show ?thesis by (auto simp: base_columns_def)
  next
    case (Some v)
    then have "set (column_names v) \<subseteq> set (column_names u)" using ddl_exec_table [OF assms(2) u] by simp
    moreover have "set (base_columns n t) \<subseteq> set (column_names v)"
      using assms(1) nt Some by (fastforce simp: older_def list_all_iff)
    ultimately show ?thesis by blast
  qed
  then show ?thesis by (auto simp: older_def list_all_iff split: option.splits)
qed

text \<open>Every index of the batch stands on a column that older tables have, after its table.\<close>

fun in_order :: "string list \<Rightarrow> ddl list \<Rightarrow> bool" where
  "in_order seen [] = True"
| "in_order seen (CreateTable n t # ds) \<longleftrightarrow> map_of all_tables n = Some t \<and> in_order (n # seen) ds"
| "in_order seen (CreateIndex i n col # ds) \<longleftrightarrow>
     n \<in> set seen \<and> (case map_of all_tables n of None \<Rightarrow> False | Some t \<Rightarrow> col \<in> set (base_columns n t)) \<and>
     in_order seen ds"
| "in_order seen (AddColumn _ _ # ds) = False"

lemma batch_in_order: "in_order [] schema_batch" "distinct (map fst all_tables)"
  by code_simp+

lemma older_columns:
  "older c \<Longrightarrow> map_of all_tables n = Some t \<Longrightarrow> map_of (catTables c) n = Some u \<Longrightarrow>
   set (base_columns n t) \<subseteq> set (column_names u)"
  by (frule map_of_SomeD [of all_tables]) (fastforce simp: older_def list_all_iff)

lemma tables_kept:
  assumes "ddl_exec d c = Some c'" "list_all (\<lambda>n. map_of (catTables c) n \<noteq> None) ns"
  shows "list_all (\<lambda>n. map_of (catTables c') n \<noteq> None) ns"
  using assms(2) settled_mono [OF _ assms(1), of "CreateTable _ undefined"] by (auto simp: list_all_iff)

lemma in_order_step:
  assumes "in_order seen (d # ds)" "list_all (\<lambda>n. map_of (catTables c) n \<noteq> None) seen" "older c"
  obtains c' seen' where "ddl_exec d c = Some c'" "older c'" "in_order seen' ds"
    "list_all (\<lambda>n. map_of (catTables c') n \<noteq> None) seen'"
proof (cases d)
  case (CreateTable n t)
  obtain c' where c': "ddl_exec d c = Some c'" by (cases "map_of (catTables c) n") (auto simp: CreateTable)
  have "list_all (\<lambda>n. map_of (catTables c') n \<noteq> None) (n # seen)"
    using tables_kept [OF c' assms(2)] exec_settles [OF c'] by (simp add: CreateTable)
  moreover have "older c'"
    using older_exec [OF assms(3) c' _ batch_in_order(2)] assms(1) by (simp add: CreateTable)
  moreover have "in_order (n # seen) ds" using assms(1) by (simp add: CreateTable)
  ultimately show thesis using that c' by blast
next
  case (CreateIndex i n col)
  obtain t u where t: "map_of all_tables n = Some t" "col \<in> set (base_columns n t)" and u: "map_of (catTables c) n = Some u"
    using assms(1,2) by (auto simp: CreateIndex list_all_iff split: option.splits)
  then obtain c' where c': "ddl_exec d c = Some c'"
    using older_columns [OF assms(3) t(1) u] by (cases "map_of (catIndexes c) i") (auto simp: CreateIndex)
  have "older c'" using older_exec [OF assms(3) c' _ batch_in_order(2)] by (simp add: CreateIndex)
  moreover have "list_all (\<lambda>n. map_of (catTables c') n \<noteq> None) seen"
    by (rule tables_kept [OF c' assms(2)])
  moreover have "in_order seen ds" using assms(1) by (simp add: CreateIndex)
  ultimately show thesis using that c' by blast
qed (use assms(1) in simp)

lemma in_order_succeeds:
  "in_order seen ds \<Longrightarrow> list_all (\<lambda>n. map_of (catTables c) n \<noteq> None) seen \<Longrightarrow> older c \<Longrightarrow>
   \<exists>c'. exec_all ds c = (True, c') \<and> older c'"
proof (induction ds arbitrary: seen c)
  case (Cons d ds)
  from in_order_step [OF Cons.prems] obtain c' seen' where "ddl_exec d c = Some c'" "older c'"
    "in_order seen' ds" "list_all (\<lambda>n. map_of (catTables c') n \<noteq> None) seen'" by blast
  then show ?case using Cons.IH by simp
qed simp

lemma older_fold:
  assumes "list_all (\<lambda>d. case d of CreateTable n t \<Rightarrow> map_of all_tables n = Some t | _ \<Rightarrow> True) ds"
  shows "older c \<Longrightarrow> older (fold exec_ignored ds c)"
  using assms
proof (induction ds arbitrary: c)
  case (Cons d ds)
  have "older (exec_ignored d c)"
  proof (cases "ddl_exec d c")
    case (Some c')
    then have "older c'" using Cons.prems by (intro older_exec [OF _ Some _ batch_in_order(2)]) auto
    then show ?thesis by (simp add: exec_ignored_def Some)
  qed (simp add: exec_ignored_def Cons.prems)
  then show ?case using Cons by simp
qed simp

lemma migrations_tables:
  "list_all (\<lambda>d. case d of CreateTable n t \<Rightarrow> map_of all_tables n = Some t | _ \<Rightarrow> True) schema_migrations"
  by code_simp

lemma older_initSchema:
  assumes "older c"
  shows "\<exists>c'. initSchema c = (True, c') \<and> older c'"
proof -
  obtain c1 where "exec_all schema_batch c = (True, c1)" "older c1"
    using in_order_succeeds [OF batch_in_order(1) _ assms] by auto
  then show ?thesis by (auto simp: initSchema_def intro: older_fold migrations_tables)
qed

text \<open>
  C23. A database of an older version opens: when its tables lack at most the columns that came
  later, no statement of the batch fails, and afterwards every table is there with all
  its columns.
\<close>

theorem older_database_opens:
  assumes "older c"
  shows "\<exists>c'. NewOwnershipDB True True c = Opened c' \<and> complete c'"
proof -
  obtain c' where init: "initSchema c = (True, c')" and old: "older c'"
    using older_initSchema [OF assms] by blast
  have "\<exists>u. map_of (catTables c') n = Some u \<and> set (column_names t) \<subseteq> set (column_names u)"
    if nt: "(n, t) \<in> set all_tables" for n t
  proof -
    have "CreateTable n t \<in> set schema_batch" using nt by (auto simp: all_tables_def split: ddl.splits)
    then obtain u where u: "map_of (catTables c') n = Some u"
      using initSchema_settles [OF init, of "CreateTable n t"] by auto
    have base: "set (base_columns n t) \<subseteq> set (column_names u)"
      using older_columns [OF old _ u] nt batch_in_order(2) by (metis map_of_is_SomeI)
    have "set (added_columns n) \<subseteq> set (column_names u)"
    proof
      fix x
      assume "x \<in> set (added_columns n)"
      then obtain col where "AddColumn n col \<in> set schema_migrations" "colName col = x" by (rule migrations_add_column)
      then show "x \<in> set (column_names u)" using initSchema_settles [OF init, of "AddColumn n col"] u by auto
    qed
    then show ?thesis using base u by (auto simp: base_columns_def)
  qed
  then have "complete c'" by (fastforce simp: complete_def list_all_iff)
  then show ?thesis using init by (simp add: NewOwnershipDB_def)
qed

definition empty_file :: catalogue where
  "empty_file = \<lparr>catTables = [], catIndexes = []\<rparr>"

text \<open>A database from before container-level peerings and privileged contexts.\<close>

definition first_peers_table :: table where
  "first_peers_table =
     \<lparr>tabColumns = [plain ''id'', required ''uid_a'', required ''uid_b'', required ''peer_network_id'', defaulted ''created_at''],
      tabUnique = [[''id''], [''uid_a'', ''uid_b'']]\<rparr>"

definition first_version :: catalogue where
  "first_version =
     \<lparr>catTables =
        [(''containers'', \<lparr>tabColumns = [plain ''id'', required ''owner_username'', required ''owner_uid'', required ''owner_gid'',
            defaulted ''created_at''], tabUnique = [[''id'']]\<rparr>),
         (''network_peers'', first_peers_table)],
      catIndexes = []\<rparr>"

theorem older_database_opens_witness:
  "older first_version \<and> (\<exists>c'. NewOwnershipDB True True first_version = Opened c' \<and> complete c')"
proof -
  have "older first_version" by code_simp
  with older_database_opens [OF this] show ?thesis by blast
qed

theorem schema_idempotent_witness:
  "\<exists>c'. NewOwnershipDB True True empty_file = Opened c' \<and> NewOwnershipDB True True c' = Opened c'"
proof -
  have old: "older empty_file" by code_simp
  obtain c' where "NewOwnershipDB True True empty_file = Opened c'"
    using older_initSchema [OF old] by (auto simp: NewOwnershipDB_def)
  with schema_idempotent [OF this] show ?thesis by blast
qed

section \<open>Keys of older tables\<close>

lemma exec_keys:
  "ddl_exec d c = Some c' \<Longrightarrow> map_of (catTables c) n = Some t \<Longrightarrow>
   \<exists>u. map_of (catTables c') n = Some u \<and> tabUnique u = tabUnique t"
  using settled_mono [of "CreateTable n t" c d c'] ddl_exec_table [of d c c' n] by fastforce

lemma exec_all_keys:
  "exec_all ds c = (ok, c') \<Longrightarrow> map_of (catTables c) n = Some t \<Longrightarrow>
   \<exists>u. map_of (catTables c') n = Some u \<and> tabUnique u = tabUnique t"
proof (induction ds arbitrary: c t)
  case (Cons d ds)
  then show ?case
    by (cases "ddl_exec d c") (use exec_keys in \<open>fastforce\<close>)+
qed simp

lemma fold_keys:
  "map_of (catTables c) n = Some t \<Longrightarrow>
   \<exists>u. map_of (catTables (fold exec_ignored ds c)) n = Some u \<and> tabUnique u = tabUnique t"
proof (induction ds arbitrary: c t)
  case (Cons d ds)
  obtain u where "map_of (catTables (exec_ignored d c)) n = Some u" "tabUnique u = tabUnique t"
    using Cons.prems exec_keys [of d c _ n t] by (cases "ddl_exec d c") (auto simp: exec_ignored_def)
  then show ?case using Cons.IH by fastforce
qed simp

text \<open>
  The migrations add columns but never change a key.  A table of peerings from before the
  container-level ones keeps the key (\<^verbatim>\<open>uid_a\<close>, \<^verbatim>\<open>uid_b\<close>), and under
  it a second peering of two users replaces the first one.
\<close>

theorem migration_keeps_keys:
  assumes "initSchema c = (True, c')" "map_of (catTables c) n = Some t"
  shows "\<exists>u. map_of (catTables c') n = Some u \<and> tabUnique u = tabUnique t"
proof -
  obtain c1 where "exec_all schema_batch c = (True, c1)" and c': "c' = fold exec_ignored schema_migrations c1"
    using assms(1) by (auto simp: initSchema_def split: prod.splits if_splits)
  then obtain u where "map_of (catTables c1) n = Some u" "tabUnique u = tabUnique t"
    using exec_all_keys assms(2) by blast
  then show ?thesis unfolding c' using fold_keys by fastforce
qed

theorem old_key_loses_peering:
  assumes "UidA p = UidA q" "UidB p = UidB q"
  shows "q \<notin> set (insert_or_replace (\<lambda>r. (UidA r, UidB r)) p rows) \<or> q = p"
  using assms by (auto simp: insert_or_replace_def)

end
