(* ===== verification/Listener.thy ===== *)
theory Listener
  imports ProxyState OwnershipProps
begin

text \<open>
  Package \<^verbatim>\<open>internal/isolation\<close>, file \<^verbatim>\<open>netbridge.go\<close>, the listener for
  the daemon's events (\<^verbatim>\<open>DockerEventListener.Listen\<close>), and the goroutine of
  \<^verbatim>\<open>StartDockerEventListener\<close> (\<^verbatim>\<open>proxy.go\<close>) that subscribes again and
  again with growing pauses and forgets destroyed containers.

  A session is one subscription: whether the request succeeds, the values that arrive and how the
  stream ends.  The loop is a recursion over the list of sessions so far; a session that ends
  because the proxy is stopped (the context is cancelled) is the last one.  What the second
  goroutine makes of events that are still in the channel when the proxy stops is left open by
  the code, and no statement below is about a stopped proxy.  Pauses are counted in seconds.
\<close>

section \<open>One subscription\<close>

datatype stream_end = StreamEOF | StreamError | StreamCancelled

record session =
  seConnects :: bool
  seBodies :: "body list"
  seEnd :: stream_end

definition events_url :: string where
  "events_url = ''/events?filters=%7B%22type%22%3A%5B%22container%22%5D%7D''"

fun decode_events :: "stream_end \<Rightarrow> body list \<Rightarrow> docker_event list \<times> bool" where
  "decode_events e [] = ([], e = StreamError)"
| "decode_events e (b # bs) =
     (case parse_event b of
        None \<Rightarrow> ([], True)
      | Some ev \<Rightarrow> (case decode_events e bs of (evs, err) \<Rightarrow> (ev # evs, err)))"

text \<open>The events that reach the channel, and whether an error is returned.\<close>

definition Listen :: "session \<Rightarrow> docker_event list \<times> bool" where
  "Listen s = (if seConnects s then decode_events (seEnd s) (seBodies s) else ([], True))"

section \<open>Subscribing again and again\<close>

definition maxBackoff :: nat where
  "maxBackoff = 60"

definition next_backoff :: "nat \<Rightarrow> nat" where
  "next_backoff backoff = (if backoff < maxBackoff then backoff * 2 else backoff)"

fun listen_loop :: "nat \<Rightarrow> session list \<Rightarrow> docker_event list \<times> nat list" where
  "listen_loop backoff [] = ([], [])"
| "listen_loop backoff (s # ss) =
     (case Listen s of
        (evs, err) \<Rightarrow>
          if seEnd s = StreamCancelled then (evs, [])
          else (case (if err then listen_loop (next_backoff backoff) ss else listen_loop 2 ss) of
             (evs', pauses) \<Rightarrow> (evs @ evs', (if err then backoff else 1) # pauses)))"

definition StartDockerEventListener :: "session list \<Rightarrow> world \<Rightarrow> world" where
  "StartDockerEventListener ss w = fold container_event (fst (listen_loop 2 ss)) w"

section \<open>Pauses\<close>

lemma next_backoff_values:
  "b \<in> {2, 4, 8, 16, 32, 64} \<Longrightarrow> next_backoff b \<in> {2, 4, 8, 16, 32, 64}"
  by (auto simp: next_backoff_def maxBackoff_def)

lemma listen_loop_pauses:
  "b \<in> {2, 4, 8, 16, 32, 64} \<Longrightarrow> set (snd (listen_loop b ss)) \<subseteq> {1, 2, 4, 8, 16, 32, 64}"
proof (induction ss arbitrary: b)
  case (Cons s ss)
  obtain evs err where l: "Listen s = (evs, err)" by (cases "Listen s")
  obtain evs1 p1 where r1: "listen_loop (next_backoff b) ss = (evs1, p1)" by (cases "listen_loop (next_backoff b) ss")
  obtain evs2 p2 where r2: "listen_loop 2 ss = (evs2, p2)" by (cases "listen_loop 2 ss")
  have "set p1 \<subseteq> {1, 2, 4, 8, 16, 32, 64}" "set p2 \<subseteq> {1, 2, 4, 8, 16, 32, 64}"
    using Cons.IH [OF next_backoff_values [OF Cons.prems]] Cons.IH [of 2] r1 r2 by simp_all
  then show ?case using Cons.prems by (auto simp: l r1 r2)
qed simp

abbreviation (input) runs_on :: "session \<Rightarrow> bool" where
  "runs_on s \<equiv> seEnd s \<noteq> StreamCancelled"

text \<open>
  However long the daemon stays away, the pause before the next subscription is between one
  second and 64 seconds: the listener neither spins nor, until the proxy is stopped, gives up.
\<close>

theorem listener_pauses_bounded:
  "length (snd (listen_loop 2 ss)) = length (takeWhile (\<lambda>s. runs_on s) ss) \<and>
   list_all (\<lambda>p. 1 \<le> p \<and> p \<le> 64) (snd (listen_loop 2 ss))"
proof -
  have "length (snd (listen_loop b ss)) = length (takeWhile (\<lambda>s. runs_on s) ss)" for b
    by (induction ss arbitrary: b) (auto split: prod.splits if_splits, (metis snd_conv)+)
  moreover have "list_all (\<lambda>p. 1 \<le> p \<and> p \<le> 64) (snd (listen_loop 2 ss))"
    using listen_loop_pauses [of 2 ss] by (auto simp: list_all_iff)
  ultimately show ?thesis by blast
qed

definition refused_session :: session where
  "refused_session = \<lparr>seConnects = False, seBodies = [], seEnd = StreamEOF\<rparr>"

text \<open>The constant \<^verbatim>\<open>maxBackoff\<close> is not the longest pause.\<close>

lemma pause_exceeds_maxBackoff:
  "snd (listen_loop 2 (replicate 6 refused_session)) = [2, 4, 8, 16, 32, 64] \<and> maxBackoff < 64"
  by code_simp

section \<open>Containers that are gone\<close>

definition forgotten :: "string \<Rightarrow> OwnershipDB \<Rightarrow> bool" where
  "forgotten cid db \<longleftrightarrow>
     list_all (\<lambda>r. cId r \<noteq> cid) (tContainers db) \<and> list_all (\<lambda>m. pmContainerID m \<noteq> cid) (tPorts db)"

definition destroys :: "string \<Rightarrow> docker_event \<Rightarrow> bool" where
  "destroys cid ev \<longleftrightarrow>
     evType ev = ''container'' \<and> evAction ev = ''destroy'' \<and> evActorID ev = cid \<and> cid \<noteq> []"

abbreviation forget_works :: "world \<Rightarrow> bool" where
  "forget_works w \<equiv>
     \<not> dbFault (wDB w) ''DeleteContainer'' 0 \<and> \<not> dbFault (wDB w) ''ReleasePortMappings'' 0"

lemma container_event_fault: "dbFault (wDB (container_event ev w)) = dbFault (wDB w)"
  by (simp add: container_event_def write_db_def DeleteContainer_def ReleasePortMappings_def exec_stmt_def)

lemma container_event_forgets: "destroys cid ev \<Longrightarrow> forget_works w \<Longrightarrow> forgotten cid (wDB (container_event ev w))"
  by (auto simp: destroys_def container_event_def write_db_def DeleteContainer_def ReleasePortMappings_def
      exec_stmt_def forgotten_def delete_where_def list_all_iff)

lemma container_event_keeps_forgotten: "forgotten cid (wDB w) \<Longrightarrow> forgotten cid (wDB (container_event ev w))"
  by (auto simp: container_event_def write_db_def DeleteContainer_def ReleasePortMappings_def
      exec_stmt_def forgotten_def delete_where_def list_all_iff)

lemma fold_forgotten: "forgotten cid (wDB w) \<Longrightarrow> forgotten cid (wDB (fold container_event evs w))"
  by (induction evs arbitrary: w) (auto simp: container_event_keeps_forgotten)

lemma fold_forgets:
  "list_ex (destroys cid) evs \<Longrightarrow> forget_works w \<Longrightarrow> forgotten cid (wDB (fold container_event evs w))"
  by (induction evs arbitrary: w) (auto simp: container_event_fault fold_forgotten container_event_forgets)

lemma listen_loop_events:
  "list_all (\<lambda>s. runs_on s) ss \<Longrightarrow> fst (listen_loop b ss) = concat (map (\<lambda>s. fst (Listen s)) ss)"
proof (induction ss arbitrary: b)
  case (Cons s ss)
  then have "fst (listen_loop (next_backoff b) ss) = fst (listen_loop 2 ss)" by simp
  then show ?case using Cons.IH [of 2] Cons.prems by (auto split: prod.splits)
qed simp

text \<open>
  C39. A destruction that is reported in any subscription of a running proxy frees what the
  container held: when the deletions succeed, neither its row nor its host ports remain.
\<close>

theorem destroyed_container_forgotten:
  assumes "list_all (\<lambda>s. runs_on s) ss" "s \<in> set ss" "list_ex (destroys cid) (fst (Listen s))" "forget_works w"
  shows "forgotten cid (wDB (StartDockerEventListener ss w))"
proof -
  have "list_ex (destroys cid) (fst (listen_loop 2 ss))"
    using assms(1-3) by (auto simp: listen_loop_events list_ex_iff)
  then show ?thesis using fold_forgets assms(4) by (simp add: StartDockerEventListener_def)
qed

definition demo_gone :: session where
  "demo_gone =
     \<lparr>seConnects = True,
      seBodies = [Doc (JObj [(''Type'', JStr ''container''), (''Action'', JStr ''destroy''), (''Actor'', JObj [(''ID'', JStr ''c1'')])])],
      seEnd = StreamEOF\<rparr>"

definition demo_ports_world :: world where
  "demo_ports_world = demo_world (fresh_db \<lparr>tPorts := [demo_port 1000]\<rparr>)"

theorem destroyed_container_forgotten_witness:
  "tPorts (wDB demo_ports_world) \<noteq> [] \<and>
   forgotten ''c1'' (wDB (StartDockerEventListener [refused_session, demo_gone] demo_ports_world))"
proof -
  have "list_ex (destroys ''c1'') (fst (Listen demo_gone))" by code_simp
  moreover have "forget_works demo_ports_world" "tPorts (wDB demo_ports_world) \<noteq> []"
    by (simp_all add: demo_ports_world_def demo_world_def fresh_db_def emptyDB_def)
  ultimately show ?thesis
    using destroyed_container_forgotten [of "[refused_session, demo_gone]" demo_gone "''c1''" demo_ports_world]
    by (simp add: refused_session_def demo_gone_def)
qed

lemma container_event_others:
  "\<not> destroys cid ev \<Longrightarrow> cid \<noteq> [] \<Longrightarrow>
   filter (\<lambda>m. pmContainerID m = cid) (tPorts (wDB (container_event ev w))) =
   filter (\<lambda>m. pmContainerID m = cid) (tPorts (wDB w))"
  by (auto simp: destroys_def container_event_def write_db_def DeleteContainer_def ReleasePortMappings_def
      exec_stmt_def delete_where_def intro!: filter_cong)

text \<open>
  A destruction that no subscription reports, because it happened while none was open, leaves the
  ports of the container taken.
\<close>

theorem unreported_destruction_keeps_ports:
  assumes "\<not> list_ex (destroys cid) (fst (listen_loop 2 ss))" "cid \<noteq> []"
  shows "filter (\<lambda>m. pmContainerID m = cid) (tPorts (wDB (StartDockerEventListener ss w))) =
    filter (\<lambda>m. pmContainerID m = cid) (tPorts (wDB w))"
proof -
  have "\<not> list_ex (destroys cid) evs \<Longrightarrow>
      filter (\<lambda>m. pmContainerID m = cid) (tPorts (wDB (fold container_event evs w))) =
      filter (\<lambda>m. pmContainerID m = cid) (tPorts (wDB w))" for evs
    using assms(2) by (induction evs arbitrary: w) (auto simp: container_event_others)
  then show ?thesis using assms(1) by (simp add: StartDockerEventListener_def)
qed

end
