(* ===== verification/QuotaLog.thy ===== *)
theory QuotaLog
  imports Quota AuditLog
begin

text \<open>
  Package \<^verbatim>\<open>internal/isolation\<close>, file \<^verbatim>\<open>quota.go\<close>: the detailed result of
  a check (\<^verbatim>\<open>QuotaCheckResult\<close>) with the texts of a denial, the resources of a request
  as the audit log shows them, the two older entry points, and the line that
  \<^verbatim>\<open>logQuotaCheck\<close> (\<^verbatim>\<open>proxy.go\<close>) writes about a check.

  Numbers of cores are rationals, as in the quota itself.  How Go prints a floating-point number
  (with two decimals, and in a log field) is a parameter.
\<close>

section \<open>Results of a check\<close>

type_synonym float_printer = "rat \<Rightarrow> string"

record QuotaCheckResult =
  RequestedCPUCores :: rat
  RequestedMemMB :: int
  RequestedStorageGB :: int
  RequestedCpuShares :: int
  RequestedCpusetCpus :: string
  QuotaCPUCores :: rat
  QuotaMemMB :: int
  QuotaStorageGB :: int
  InjectedCPUCores :: rat
  InjectedMemMB :: int
  InjectedStorageGB :: int
  Allowed :: bool
  DeniedResource :: string
  DeniedRequested :: string
  DeniedLimit :: string
  DeniedExcess :: string
  CurrentContainers :: int
  qrMaxContainers :: int

record injectionResult =
  irCpuCores :: rat
  irMemMB :: int
  irStorageGB :: int

definition to_cores :: "int \<Rightarrow> rat" where
  "to_cores nano = of_int nano / 10 ^ 9"

definition to_mb :: "int \<Rightarrow> int" where
  "to_mb bytes = go_quot (go_quot bytes 1024) 1024"

definition injection_result ::
  "body \<Rightarrow> containerCreateRequest \<Rightarrow> QuotaEntry \<Rightarrow> rat \<Rightarrow> int \<Rightarrow> injectionResult" where
  "injection_result b req quota defaultCPUCores defaultMemMB =
     (if body_map b = None then \<lparr>irCpuCores = 0, irMemMB = 0, irStorageGB = 0\<rparr>
      else
        \<lparr>irCpuCores =
           (if CPUCores quota > 0
            then to_cores (if effectiveCPUNanos req = 0
                           then default_or_limit (nanos defaultCPUCores) (nanos (CPUCores quota))
                           else effectiveCPUNanos req)
            else 0),
         irMemMB = (if MemMB quota > 0 then to_mb (final_memory quota defaultMemMB req) else 0),
         irStorageGB =
           (if StorageGB quota > 0 then
              (case map_of (StorageOpt req) ''size'' of
                 None \<Rightarrow> StorageGB quota
               | Some s \<Rightarrow> (if s = [] then StorageGB quota else parseStorageGB s))
            else 0)\<rparr>)"

definition empty_result :: "QuotaEntry \<Rightarrow> QuotaCheckResult" where
  "empty_result quota =
     \<lparr>RequestedCPUCores = 0, RequestedMemMB = 0, RequestedStorageGB = 0, RequestedCpuShares = 0,
      RequestedCpusetCpus = [], QuotaCPUCores = CPUCores quota, QuotaMemMB = MemMB quota,
      QuotaStorageGB = StorageGB quota, InjectedCPUCores = 0, InjectedMemMB = 0, InjectedStorageGB = 0,
      Allowed = False, DeniedResource = [], DeniedRequested = [], DeniedLimit = [], DeniedExcess = [],
      CurrentContainers = 0, qrMaxContainers = MaxContainers quota\<rparr>"

definition deny :: "string \<Rightarrow> string \<Rightarrow> string \<Rightarrow> string \<Rightarrow> QuotaCheckResult \<Rightarrow> QuotaCheckResult" where
  "deny res requested limit excess qr =
     qr \<lparr>Allowed := False, DeniedResource := res, DeniedRequested := requested, DeniedLimit := limit,
         DeniedExcess := ''+'' @ excess\<rparr>"

definition allow :: "QuotaCheckResult \<Rightarrow> QuotaCheckResult" where
  "allow qr = qr \<lparr>Allowed := True\<rparr>"

text \<open>The first step: the number of containers; a failing query leaves the count at zero.\<close>

definition check_containers :: "QuotaEntry \<Rightarrow> int \<Rightarrow> OwnershipDB \<Rightarrow> bool \<times> QuotaCheckResult" where
  "check_containers quota uid db =
     (let qr = empty_result quota in
      if MaxContainers quota > 0 then
        (case CountContainersByOwner db uid of
           Inl _ \<Rightarrow> (True, qr)
         | Inr count \<Rightarrow>
             (let qr1 = qr \<lparr>CurrentContainers := int count\<rparr> in
              if int count \<ge> MaxContainers quota
              then (False, deny ''containers'' (itoa (int count + 1)) (itoa (MaxContainers quota))
                             (itoa (int count + 1 - MaxContainers quota)) qr1)
              else (True, qr1)))
      else (True, qr))"

definition host_int :: "string \<Rightarrow> body \<Rightarrow> int" where
  "host_int name b =
     (case host_config b of
        None \<Rightarrow> 0
      | Some hc \<Rightarrow> (case field_int64 name hc of None \<Rightarrow> 0 | Some n \<Rightarrow> n))"

definition host_str :: "string \<Rightarrow> body \<Rightarrow> string" where
  "host_str name b =
     (case host_config b of
        None \<Rightarrow> []
      | Some hc \<Rightarrow> (case field_str name hc of None \<Rightarrow> [] | Some s \<Rightarrow> s))"

definition note_requested :: "body \<Rightarrow> containerCreateRequest \<Rightarrow> QuotaCheckResult \<Rightarrow> QuotaCheckResult" where
  "note_requested b req qr =
     qr \<lparr>RequestedCPUCores := (if effectiveCPUNanos req > 0 then to_cores (effectiveCPUNanos req) else 0),
         RequestedMemMB := (if reqMemory req > 0 then to_mb (reqMemory req) else 0),
         RequestedStorageGB := (case map_of (StorageOpt req) ''size'' of None \<Rightarrow> 0 | Some s \<Rightarrow> parseStorageGB s),
         RequestedCpuShares := host_int ''CpuShares'' b,
         RequestedCpusetCpus := host_str ''CpusetCpus'' b\<rparr>"

definition cores_text :: "float_printer \<Rightarrow> rat \<Rightarrow> string" where
  "cores_text fmt2 x = fmt2 x @ '' cores''"

definition check_cpu ::
  "float_printer \<Rightarrow> int \<Rightarrow> QuotaEntry \<Rightarrow> containerCreateRequest \<Rightarrow> QuotaCheckResult \<Rightarrow> QuotaCheckResult option" where
  "check_cpu fmt2 numCPU quota req qr =
     (let reqNano = effectiveCPUNanos req; limitNano = nanos (CPUCores quota); physNano = wrap64 (numCPU * 10 ^ 9) in
      if CPUCores quota > 0 \<and> reqNano > 0 \<and> reqNano > limitNano
      then Some (deny ''cpu'' (cores_text fmt2 (to_cores reqNano)) (cores_text fmt2 (CPUCores quota))
                   (cores_text fmt2 (to_cores (reqNano - limitNano))) qr)
      else if NanoCPUs req = 0 \<and> CpuQuota req > 0 \<and> reqNano > 0 \<and> reqNano > physNano
      then Some (deny ''cpu'' (cores_text fmt2 (to_cores reqNano)) (itoa numCPU @ '' cores (physical)'')
                   (cores_text fmt2 (to_cores (wrap64 (reqNano - physNano)))) qr)
      else None)"

definition check_memory :: "QuotaEntry \<Rightarrow> containerCreateRequest \<Rightarrow> QuotaCheckResult \<Rightarrow> QuotaCheckResult option" where
  "check_memory quota req qr =
     (let limitBytes = mem_bytes (MemMB quota) in
      if MemMB quota > 0 \<and> reqMemory req > 0 \<and> reqMemory req > limitBytes
      then Some (deny ''memory'' (itoa (to_mb (reqMemory req)) @ ''MB'') (itoa (MemMB quota) @ ''MB'')
                   (itoa (to_mb (wrap64 (reqMemory req - limitBytes))) @ ''MB'') qr)
      else None)"

definition check_storage :: "QuotaEntry \<Rightarrow> containerCreateRequest \<Rightarrow> QuotaCheckResult \<Rightarrow> QuotaCheckResult option" where
  "check_storage quota req qr =
     (case map_of (StorageOpt req) ''size'' of
        None \<Rightarrow> None
      | Some s \<Rightarrow>
          (if StorageGB quota > 0 \<and> s \<noteq> [] \<and> parseStorageGB s > 0 \<and> parseStorageGB s > StorageGB quota
           then Some (deny ''storage'' (itoa (parseStorageGB s) @ ''GB'') (itoa (StorageGB quota) @ ''GB'')
                        (itoa (parseStorageGB s - StorageGB quota) @ ''GB'') qr)
           else None))"

definition quota_check_result ::
  "float_printer \<Rightarrow> int \<Rightarrow> body \<Rightarrow> QuotaEntry \<Rightarrow> int \<Rightarrow> OwnershipDB \<Rightarrow> rat \<Rightarrow> int \<Rightarrow> QuotaCheckResult" where
  "quota_check_result fmt2 numCPU b quota uid db defaultCPUCores defaultMemMB =
     (case check_containers quota uid db of
        (False, qr) \<Rightarrow> qr
      | (True, qr) \<Rightarrow>
          (case parseContainerRequest b of
             None \<Rightarrow> allow qr
           | Some req \<Rightarrow>
               (let qr1 = note_requested b req qr in
                case check_cpu fmt2 numCPU quota req qr1 of
                  Some d \<Rightarrow> d
                | None \<Rightarrow>
                    (case check_memory quota req qr1 of
                       Some d \<Rightarrow> d
                     | None \<Rightarrow>
                         (case check_storage quota req qr1 of
                            Some d \<Rightarrow> d
                          | None \<Rightarrow>
                              (let ir = injection_result b req quota defaultCPUCores defaultMemMB in
                               (allow qr1) \<lparr>InjectedCPUCores := irCpuCores ir, InjectedMemMB := irMemMB ir,
                                            InjectedStorageGB := irStorageGB ir\<rparr>))))))"

text \<open>The text of the error is made of the strings of the result.\<close>

definition quota_error_text :: "QuotaCheckResult \<Rightarrow> string" where
  "quota_error_text qr =
     ''quota exceeded: '' @ DeniedResource qr @ '' requested='' @ DeniedRequested qr @
     '' limit='' @ DeniedLimit qr @ '' excess='' @ DeniedExcess qr"

section \<open>Older entry points\<close>

definition GetDefaultQuota :: "QuotaManager \<Rightarrow> QuotaEntry" where
  "GetDefaultQuota m = defaults m"

definition CheckQuotaPreCreate ::
  "int \<Rightarrow> body \<Rightarrow> QuotaEntry \<Rightarrow> int \<Rightarrow> OwnershipDB \<Rightarrow> rat \<Rightarrow> int \<Rightarrow> quota_error option" where
  "CheckQuotaPreCreate numCPU b quota uid db defaultCPUCores defaultMemMB =
     (case CheckAndInjectQuota numCPU b quota uid db defaultCPUCores defaultMemMB of Inl e \<Rightarrow> Some e | Inr _ \<Rightarrow> None)"

definition InjectResourceLimits :: "body \<Rightarrow> QuotaEntry \<Rightarrow> rat \<Rightarrow> int \<Rightarrow> (go_panic, body) result" where
  "InjectResourceLimits b quota defaultCPUCores defaultMemMB =
     (if CPUCores quota = 0 \<and> MemMB quota = 0 \<and> StorageGB quota = 0 then Inr b
      else case parseContainerRequest b of
        None \<Rightarrow> Inr b
      | Some req \<Rightarrow> injectQuotaLimits b req quota defaultCPUCores defaultMemMB)"

section \<open>Resources of a request\<close>

definition put_if :: "bool \<Rightarrow> string \<Rightarrow> string \<Rightarrow> (string \<times> string) list \<Rightarrow> (string \<times> string) list" where
  "put_if c k v m = (if c then map_put k v m else m)"

definition ExtractRequestedResources :: "float_printer \<Rightarrow> body \<Rightarrow> (string \<times> string) list" where
  "ExtractRequestedResources fmt2 b =
     (case parseContainerRequest b of
        None \<Rightarrow> []
      | Some req \<Rightarrow>
          (let nano = effectiveCPUNanos req; shares = host_int ''CpuShares'' b; cpuset = host_str ''CpusetCpus'' b;
               mswap = host_int ''MemorySwap'' b;
               sz = (case map_of (StorageOpt req) ''size'' of None \<Rightarrow> [] | Some s \<Rightarrow> s)
           in put_if (sz \<noteq> []) ''storage'' sz
                (put_if (mswap \<noteq> 0) ''memory_swap'' (itoa mswap)
                  (put_if (reqMemory req > 0) ''mem_mb'' (itoa (to_mb (reqMemory req)))
                    (put_if (cpuset \<noteq> []) ''cpuset_cpus'' cpuset
                      (put_if (shares > 0) ''cpu_shares'' (itoa shares)
                        (put_if (nano > 0) ''cpu_cores'' (fmt2 (to_cores nano)) [])))))))"

section \<open>The line about a check\<close>

definition logQuotaCheck :: "float_printer \<Rightarrow> IdentityInfo \<Rightarrow> QuotaCheckResult option \<Rightarrow> zmessage option" where
  "logQuotaCheck ffloat i oqr =
     (case oqr of
        None \<Rightarrow> None
      | Some qr \<Rightarrow>
          (let fields = logIdentityShort i @
                 [(''quota_cpu_cores'', JFlt (ffloat (QuotaCPUCores qr))), (''quota_mem_mb'', JNum (QuotaMemMB qr)),
                  (''quota_storage_gb'', JNum (QuotaStorageGB qr)), (''quota_max_containers'', JNum (qrMaxContainers qr)),
                  (''req_cpu_cores'', JFlt (ffloat (RequestedCPUCores qr))), (''req_mem_mb'', JNum (RequestedMemMB qr)),
                  (''req_storage_gb'', JNum (RequestedStorageGB qr)), (''req_cpu_shares'', JNum (RequestedCpuShares qr)),
                  (''req_cpuset_cpus'', JStr (RequestedCpusetCpus qr)), (''allowed'', JBool (Allowed qr))]
           in if Allowed qr then
                Some \<lparr>zmLevel = InfoLevel, zmText = ''quota_check_pass'',
                      zmFields = fields @
                        [(''injected_cpu_cores'', JFlt (ffloat (InjectedCPUCores qr))),
                         (''injected_mem_mb'', JNum (InjectedMemMB qr)),
                         (''injected_storage_gb'', JNum (InjectedStorageGB qr))]\<rparr>
              else
                Some \<lparr>zmLevel = WarnLevel, zmText = ''quota_check_deny'',
                      zmFields = fields @
                        [(''denied_resource'', JStr (DeniedResource qr)), (''denied_requested'', JStr (DeniedRequested qr)),
                         (''denied_limit'', JStr (DeniedLimit qr)), (''denied_excess'', JStr (DeniedExcess qr))]\<rparr>))"

section \<open>The report agrees with the decision\<close>

lemma check_containers_verdict:
  "check_containers quota uid db =
    (case containers_exceeded quota uid db of
       None \<Rightarrow> (True, snd (check_containers quota uid db))
     | Some e \<Rightarrow> (False, snd (check_containers quota uid db)))"
  "containers_exceeded quota uid db = Some e \<Longrightarrow>
     \<not> Allowed (snd (check_containers quota uid db)) \<and> DeniedResource (snd (check_containers quota uid db)) = qeResource e"
  by (auto simp: check_containers_def containers_exceeded_def exceeded_def deny_def Let_def split: sum.splits if_splits)

lemma check_cpu_verdict:
  "check_cpu fmt2 numCPU quota req qr = None \<longleftrightarrow>
     cpu_exceeded numCPU quota (NanoCPUs req) (CpuQuota req) (effectiveCPUNanos req) = None"
  "check_cpu fmt2 numCPU quota req qr = Some d \<Longrightarrow> \<not> Allowed d \<and> DeniedResource d = ''cpu''"
  "cpu_exceeded numCPU quota n q r = Some e \<Longrightarrow> qeResource e = ''cpu''"
  by (auto simp: check_cpu_def cpu_exceeded_def exceeded_def deny_def Let_def split: if_splits)

lemma check_memory_verdict:
  "check_memory quota req qr = None \<longleftrightarrow> memory_exceeded quota (reqMemory req) = None"
  "check_memory quota req qr = Some d \<Longrightarrow> \<not> Allowed d \<and> DeniedResource d = ''memory''"
  "memory_exceeded quota m = Some e \<Longrightarrow> qeResource e = ''memory''"
  by (auto simp: check_memory_def memory_exceeded_def exceeded_def deny_def Let_def split: if_splits)

lemma check_storage_verdict:
  "check_storage quota req qr = None \<longleftrightarrow> storage_exceeded quota (StorageOpt req) = None"
  "check_storage quota req qr = Some d \<Longrightarrow> \<not> Allowed d \<and> DeniedResource d = ''storage''"
  "storage_exceeded quota opts = Some e \<Longrightarrow> qeResource e = ''storage''"
  by (auto simp: check_storage_def storage_exceeded_def exceeded_def deny_def split: if_splits option.splits)

lemmas verdicts = check_cpu_verdict check_memory_verdict check_storage_verdict

lemma request_verdict:
  assumes "check_containers quota uid db = (True, qr)" "parseContainerRequest b = Some req"
  shows "let d = quota_check_result fmt2 numCPU b quota uid db dc dm in
    case request_exceeded numCPU quota req of
      None \<Rightarrow> Allowed d
    | Some e \<Rightarrow> \<not> Allowed d \<and> DeniedResource d = qeResource e"
proof -
  let ?qr = "note_requested b req qr"
  show ?thesis
  proof (cases "check_cpu fmt2 numCPU quota req ?qr")
    case (Some d)
    then show ?thesis
      using assms verdicts(1) [of fmt2 numCPU quota req ?qr] verdicts(2) [OF Some]
      by (auto simp: quota_check_result_def request_exceeded_def Let_def verdicts(3) split: option.splits)
  next
    case cpu: None
    show ?thesis
    proof (cases "check_memory quota req ?qr")
      case (Some d)
      then show ?thesis
        using assms cpu verdicts(1) [of fmt2 numCPU quota req ?qr] verdicts(4) [of quota req ?qr] verdicts(5) [OF Some]
        by (auto simp: quota_check_result_def request_exceeded_def Let_def verdicts(6) split: option.splits)
    next
      case mem: None
      show ?thesis
      proof (cases "check_storage quota req ?qr")
        case (Some d)
        then show ?thesis
          using assms cpu mem verdicts(1) [of fmt2 numCPU quota req ?qr] verdicts(4) [of quota req ?qr] verdicts(7) [of quota req ?qr] verdicts(8) [OF Some]
          by (auto simp: quota_check_result_def request_exceeded_def Let_def verdicts(9) split: option.splits)
      next
        case None
        then show ?thesis
          using assms cpu mem verdicts(1) [of fmt2 numCPU quota req ?qr] verdicts(4) [of quota req ?qr] verdicts(7) [of quota req ?qr]
          by (auto simp: quota_check_result_def request_exceeded_def allow_def Let_def split: option.splits)
      qed
    qed
  qed
qed

text \<open>
  C40. What is logged about a check is what was decided: the report says that the request was
  allowed exactly when the check raises no quota error, and when it raises one the report names
  the same resource.
\<close>

theorem quota_report_agrees:
  "let qr = quota_check_result fmt2 numCPU b quota uid db dc dm in
   case CheckAndInjectQuota numCPU b quota uid db dc dm of
     Inl (QuotaExceeded e) \<Rightarrow> \<not> Allowed qr \<and> DeniedResource qr = qeResource e
   | Inl (QuotaPanic _) \<Rightarrow> True
   | Inr _ \<Rightarrow> Allowed qr"
proof (cases "containers_exceeded quota uid db")
  case (Some e)
  then have "check_containers quota uid db = (False, snd (check_containers quota uid db))"
    using check_containers_verdict(1) [of quota uid db] by simp
  then show ?thesis
    using check_containers_verdict(2) [OF Some] Some
    by (cases "check_containers quota uid db") (auto simp: quota_check_result_def CheckAndInjectQuota_def)
next
  case None
  then obtain qr where qr: "check_containers quota uid db = (True, qr)"
    using check_containers_verdict(1) [of quota uid db] by (metis option.simps(4))
  show ?thesis
  proof (cases "parseContainerRequest b")
    case None
    with qr \<open>containers_exceeded quota uid db = None\<close> show ?thesis
      by (simp add: quota_check_result_def CheckAndInjectQuota_def allow_def)
  next
    case (Some req)
    from request_verdict [OF qr Some, of fmt2 numCPU dc dm] Some None show ?thesis
      by (auto simp: CheckAndInjectQuota_def Let_def split: option.splits sum.splits quota_error.splits)
  qed
qed

end
