(* ===== verification/AuditTrail.thy ===== *)
theory AuditTrail
  imports ProxyState QuotaLog
begin

text \<open>
  The entries that the handler of requests writes into the audit log
  (\<^verbatim>\<open>internal/forward/proxy.go\<close>): the refusals and the final entry of
  \<^verbatim>\<open>ServeHTTP\<close>, and the entries of \<^verbatim>\<open>postprocessResponse\<close>.  They are given
  as a function beside the handler, with its branches, so that the outcome of a request and its
  trail can be compared.  The entries that the single checks of
  \<^verbatim>\<open>checkOwnershipPreRequest\<close> write when they refuse are not part of it.

  The time an attempt took, the text of a failed verification and the printing of floating-point
  numbers are parameters.
\<close>

section \<open>Entries\<close>

definition unauthenticated_entry :: "CallerIdentity option \<Rightarrow> request \<Rightarrow> AuditEntry" where
  "unauthenticated_entry oi r =
     (log_entry ''unknown'' (-1) [] ''unknown'' (RequestURI r) [] ''deny'' ''authentication_required'' [] 401 0 0 0 [])
       \<lparr>aeClientIP := (case oi of None \<Rightarrow> [] | Some i \<Rightarrow> ClientAddr i), aeMethod := rqMethod r\<rparr>"

definition allowed_entry ::
  "CallerIdentity \<Rightarrow> string \<Rightarrow> string \<Rightarrow> string \<Rightarrow> string \<Rightarrow> int \<Rightarrow> int \<Rightarrow> nat \<times> nat \<Rightarrow> (string \<times> string) list \<Rightarrow> AuditEntry" where
  "allowed_entry i action uri rewritten containerID code latencyMs counts usage =
     (log_entry (RealUsername i) (RealUID i) (AuthSource_string (idAuthSource i)) action uri rewritten ''allow'' []
        containerID code latencyMs (int (fst counts)) (int (snd counts)) usage) \<lparr>aePrivSource := privSource (Some i)\<rparr>"

section \<open>After the answer\<close>

text \<open>A created container is entered with its resources, a removed image as a physical deletion.\<close>

definition created_entry :: "float_printer \<Rightarrow> CallerIdentity \<Rightarrow> string \<Rightarrow> request \<Rightarrow> response \<Rightarrow> AuditEntry list" where
  "created_entry fmt2 i action r rs =
     (let containerID = extractContainerIDFromCreateResponse (rsBody rs) in
      if action = ActionCreateContainer \<and> rsStatus rs = 201 \<and> containerID \<noteq> []
      then [allowed_entry i action (RequestURI r) [] containerID (rsStatus rs) 0 (0, 0)
              (ExtractRequestedResources fmt2 (rqBody r))]
      else [])"

definition removed_image_entry :: "CallerIdentity \<Rightarrow> string \<Rightarrow> request \<Rightarrow> response \<Rightarrow> AuditEntry list" where
  "removed_image_entry i action r rs =
     (if action = ActionRemoveImage \<and> rsStatus rs = 200
      then [makeAuditEntry i (Some r) action ''allow'' ''physical_delete'' (ExtractImageID (RequestURI r)) (rsStatus rs)]
      else [])"

text \<open>Passing the system information on unchanged returns before the last entry.\<close>

definition info_unchanged :: "CallerIdentity \<Rightarrow> string \<Rightarrow> response \<Rightarrow> bool" where
  "info_unchanged i action rs \<longleftrightarrow>
     action = ActionSystemInfo \<and> (IsPrivileged i \<or> rsStatus rs \<noteq> 200 \<or> body_map (rsBody rs) = None)"

definition answered_entry :: "CallerIdentity \<Rightarrow> string \<Rightarrow> request \<Rightarrow> response \<Rightarrow> AuditEntry list" where
  "answered_entry i action r rs =
     (if info_unchanged i action rs \<or> isAuxiliaryCall (DockerCommand i) action [] (RequestURI r) then []
      else [makeAuditEntry i (Some r) action ''allow'' [] [] (rsStatus rs)])"

definition post_entries ::
  "float_printer \<Rightarrow> CallerIdentity \<Rightarrow> string \<Rightarrow> request \<Rightarrow> response \<Rightarrow> (go_panic, body) result \<Rightarrow> AuditEntry list" where
  "post_entries fmt2 i action r rs answer =
     created_entry fmt2 i action r rs @ removed_image_entry i action r rs @
     (case answer of Inl _ \<Rightarrow> [] | Inr _ \<Rightarrow> answered_entry i action r rs)"

definition final_entry ::
  "CallerIdentity \<Rightarrow> string \<Rightarrow> bool \<Rightarrow> int \<Rightarrow> request \<Rightarrow> response \<Rightarrow> (go_panic, body) result \<Rightarrow> AuditEntry list" where
  "final_entry i action auxiliary latencyMs r rs answer =
     (case answer of
        Inl _ \<Rightarrow> []
      | Inr b \<Rightarrow>
          (if auxiliary \<or> action = ActionCreateContainer then []
           else [allowed_entry i action (RequestURI r) (rqRewritten r) [] (rsStatus rs) latencyMs
                   (answer_counts action rs b) []]))"

section \<open>The trail of a request\<close>

text \<open>
  \<open>r1\<close> is the request after the checks, \<open>r2\<close> the one that is sent: the name that
  preprocessing notes is in the context of the second, the last entry looks in that of the first.
\<close>

definition upstream_entries ::
  "proxy \<Rightarrow> float_printer \<Rightarrow> (nat \<Rightarrow> round_trip) \<Rightarrow> int \<Rightarrow> bool \<Rightarrow> CallerIdentity \<Rightarrow> string \<Rightarrow> request \<Rightarrow> request \<Rightarrow> world
    \<Rightarrow> AuditEntry list" where
  "upstream_entries p fmt2 tr latencyMs auxiliary i action r1 r2 w =
     (let w1 = register_pending p i action r2 w in
      case forward tr r2 of
        ((Inl _, _), _) \<Rightarrow> []
      | ((Inr rs, _), r') \<Rightarrow>
          (let w2 = record_response p i action (RequestURI r2) r' rs w1;
               answer = answer_response p i action r' rs (wDB w2)
           in post_entries fmt2 i action r2 rs answer @ final_entry i action auxiliary latencyMs r1 rs answer))"

definition checked_entries ::
  "proxy \<Rightarrow> float_printer \<Rightarrow> (nat \<Rightarrow> round_trip) \<Rightarrow> int \<Rightarrow> bool \<Rightarrow> CallerIdentity \<Rightarrow> string \<Rightarrow> request \<Rightarrow> world
    \<Rightarrow> AuditEntry list" where
  "checked_entries p fmt2 tr latencyMs auxiliary i action r w =
     (case (if action = ActionPrune then serve_prune p i r w else (None, w)) of
        (Some _, _) \<Rightarrow> []
      | (None, w1) \<Rightarrow>
          (case preprocessRequest i action r of
             Inl _ \<Rightarrow> []
           | Inr r' \<Rightarrow> upstream_entries p fmt2 tr latencyMs auxiliary i action r r' w1))"

definition request_entries ::
  "proxy \<Rightarrow> float_printer \<Rightarrow> (nat \<Rightarrow> round_trip) \<Rightarrow> int \<Rightarrow> CallerIdentity \<Rightarrow> request \<Rightarrow> world \<Rightarrow> AuditEntry list" where
  "request_entries p fmt2 tr latencyMs i r0 w =
     (let r = (if IsPrivileged i then r0 else rewrite_url i r0);
          plain = ClassifyAction (rqMethod r) (RequestURI r);
          action = OverrideActionByCommand (DockerCommand i) plain
      in if isHijackRequest r0 then
           (if command_denied p i plain r
            then [makeAuditEntry i (Some r) plain ''deny'' ''command_not_permitted'' plain 403] else [])
         else if command_denied p i action r
         then [makeAuditEntry i (Some r) action ''deny'' ''command_not_permitted'' [] 403]
         else case checkOwnershipPreRequest p i action r w of
           (Inl _, _) \<Rightarrow> []
         | (Inr r1, w1) \<Rightarrow>
             checked_entries p fmt2 tr latencyMs
               (isAuxiliaryCall (DockerCommand i) action (rqMethod r) (rqPath r)) i action r1 w1)"

definition serve_entries ::
  "proxy \<Rightarrow> float_printer \<Rightarrow> string \<Rightarrow> slots \<Rightarrow> auth_answer list \<Rightarrow> (nat \<Rightarrow> round_trip) \<Rightarrow> int \<Rightarrow> CallerIdentity option \<Rightarrow> request
    \<Rightarrow> world \<Rightarrow> AuditEntry list" where
  "serve_entries p fmt2 mutation s auths tr latencyMs conn r w =
     (if admit s r \<noteq> None then []
      else let oi = (if known conn then conn else authenticate auths conn) in
        case identify p auths conn of
          Inr i \<Rightarrow> request_entries p fmt2 tr latencyMs i r w
        | Inl _ \<Rightarrow>
            (case oi of
               None \<Rightarrow> [unauthenticated_entry oi r]
             | Some i \<Rightarrow>
                 (if RealUID i < 0 then [unauthenticated_entry oi r]
                  else [makeAuditEntry i (Some r) ''unknown'' ''deny'' ''identity_mutation'' mutation 403])))"

section \<open>Truthful entries\<close>

definition entry_of :: "CallerIdentity \<Rightarrow> AuditEntry \<Rightarrow> bool" where
  "entry_of i e \<longleftrightarrow> aeUID e = RealUID i \<and> aeUser e = RealUsername i"

text \<open>An entry says what happened: allowed with the daemon's status, or refused with the proxy's.\<close>

definition truthful :: "served \<Rightarrow> AuditEntry \<Rightarrow> bool" where
  "truthful sv e \<longleftrightarrow>
     (case sv of
        Relayed code _ \<Rightarrow> aeResult e = ''allow'' \<and> aeStatusCode e = code
      | Replied (Aborted _) \<Rightarrow> aeResult e = ''allow''
      | Replied reply \<Rightarrow> aeResult e = ''deny'' \<and> reply_status reply = Some (aeStatusCode e)
      | Tunnelled _ \<Rightarrow> False)"

lemma makeAuditEntry_fields [simp]:
  "entry_of i (makeAuditEntry i orq action res reason cid code)"
  "aeResult (makeAuditEntry i orq action res reason cid code) = res"
  "aeStatusCode (makeAuditEntry i orq action res reason cid code) = code"
  by (auto simp: makeAuditEntry_def entry_of_def Let_def split: option.splits)

lemma allowed_entry_fields [simp]:
  "entry_of i (allowed_entry i action uri rw cid code lat counts usage)"
  "aeResult (allowed_entry i action uri rw cid code lat counts usage) = ''allow''"
  "aeStatusCode (allowed_entry i action uri rw cid code lat counts usage) = code"
  "aeRewrittenPath (allowed_entry i action uri rw cid code lat counts usage) = rw"
  by (simp_all add: allowed_entry_def log_entry_def entry_of_def)

lemmas entry_lists = created_entry_def removed_image_entry_def answered_entry_def final_entry_def post_entries_def

lemma answer_entries_ok:
  "e \<in> set (post_entries fmt2 i action r rs ans) \<union> set (final_entry i action aux lat r1 rs ans) \<Longrightarrow>
   entry_of i e \<and> aeResult e = ''allow'' \<and> aeStatusCode e = rsStatus rs"
  by (auto simp: entry_lists Let_def split: sum.splits if_splits)

lemma upstream_entries_ok:
  assumes "e \<in> set (upstream_entries p fmt2 tr lat aux i action r1 r2 w)"
  shows "entry_of i e \<and> truthful (fst (serve_upstream p tr i action r2 w)) e"
proof -
  obtain res n r' where res: "forward tr r2 = ((res, n), r')" by (metis surj_pair)
  obtain rs where f: "forward tr r2 = ((Inr rs, n), r')"
    using assms res by (cases res) (simp_all add: upstream_entries_def Let_def)
  define ans where
    "ans = answer_response p i action r' rs
       (wDB (record_response p i action (RequestURI r2) r' rs (register_pending p i action r2 w)))"
  have "e \<in> set (post_entries fmt2 i action r2 rs ans) \<union> set (final_entry i action aux lat r1 rs ans)"
    using assms by (simp add: upstream_entries_def f Let_def ans_def)
  note ok = answer_entries_ok [OF this]
  have "fst (serve_upstream p tr i action r2 w) =
      (case ans of Inl e \<Rightarrow> Replied (Aborted e) | Inr b \<Rightarrow> Relayed (rsStatus rs) b)"
    by (simp add: serve_upstream_def f Let_def ans_def)
  then show ?thesis using ok by (cases ans) (simp_all add: truthful_def)
qed

lemma checked_entries_ok:
  "e \<in> set (checked_entries p fmt2 tr lat aux i action r w) \<Longrightarrow>
   entry_of i e \<and> truthful (fst (serve_checked p tr i action r w)) e"
  by (auto simp: checked_entries_def serve_checked_def dest: upstream_entries_ok
      split: prod.splits sum.splits option.splits)

lemma request_entries_ok:
  assumes "e \<in> set (request_entries p fmt2 tr lat i r w)"
  shows "entry_of i e \<and> truthful (fst (serve_request p tr dial i r w)) e"
proof -
  define r' where "r' = (if IsPrivileged i then r else rewrite_url i r)"
  define plain where "plain = ClassifyAction (rqMethod r') (RequestURI r')"
  define action where "action = OverrideActionByCommand (DockerCommand i) plain"
  have refused: "truthful (Replied (not_permitted i a)) (makeAuditEntry i (Some r') a ''deny'' rs cid 403)" for a rs cid
    by (simp add: truthful_def not_permitted_def)
  note e = assms [unfolded request_entries_def Let_def, folded r'_def, folded plain_def, folded action_def]
  have sv: "serve_request p tr dial i r w =
      (if isHijackRequest r then serve_hijack p dial i r' w
       else if command_denied p i action r' then (Replied (not_permitted i action), w)
       else case checkOwnershipPreRequest p i action r' w of
         (Inl reply, w1) \<Rightarrow> (Replied reply, w1)
       | (Inr r1, w1) \<Rightarrow> serve_checked p tr i action r1 w1)"
    unfolding serve_request_def Let_def r'_def [symmetric] plain_def [symmetric] action_def [symmetric] by (rule refl)
  show ?thesis
  proof (cases "isHijackRequest r")
    case True
    then have "e = makeAuditEntry i (Some r') plain ''deny'' ''command_not_permitted'' plain 403" "command_denied p i plain r'"
      using e by (auto split: if_splits)
    then show ?thesis using True refused by (simp add: sv serve_hijack_def plain_def Let_def)
  next
    case False
    then show ?thesis
      using e refused [of action] checked_entries_ok
      by (cases "command_denied p i action r'")
        (auto simp: sv split: prod.splits sum.splits)
  qed
qed


section \<open>What the trail leaves out and what it repeats\<close>

text \<open>A connection that is taken over leaves no entry, whatever is done on it.\<close>

theorem tunnel_not_recorded:
  assumes "fst (serve_request p tr dial i r w) = Tunnelled r'"
  shows "request_entries p fmt2 tr lat i r w = []"
proof -
  have "e \<notin> set (request_entries p fmt2 tr lat i r w)" for e
    using request_entries_ok [of e p fmt2 tr lat i r w dial] assms by (auto simp: truthful_def)
  then show ?thesis by (metis list.set_sel(1))
qed

lemma rewritten_kept:
  assumes "checkOwnershipPreRequest p i action r w = (Inr r1, w1)"
  shows "rqRewritten r1 = rqRewritten r"
proof -
  have iso: "create_isolation p i x y = (Inr z, v) \<Longrightarrow> rqRewritten z = rqRewritten x" for x y z v
    by (auto simp: create_isolation_def create_network_def Let_def split: if_splits sum.splits option.splits prod.splits)
  have quota: "create_quota p i x y = (Inr z, v) \<Longrightarrow> rqRewritten z = rqRewritten x" for x y z v
    by (auto simp: create_quota_def split: option.splits sum.splits quota_error.splits)
  have create: "create_container p i x y = (Inr z, v) \<Longrightarrow> rqRewritten z = rqRewritten x" for x y z v
    by (auto simp: create_container_def and_then_def split: sum.splits prod.splits) (metis iso quota)
  have network: "check_network_action i x action y = (Inr z, v) \<Longrightarrow> rqRewritten z = rqRewritten x" for x y z v
    by (auto simp: check_network_action_def check_network_def Let_def split: if_splits sum.splits prod.splits option.splits bool.splits)
  show ?thesis
    using assms
    by (auto simp: checkOwnershipPreRequest_def and_then_def pass_def split: sum.splits prod.splits if_splits)
      (metis create network)+
qed

text \<open>
  The name that a container, network or volume gets is noted in the context of the request that is
  sent; the last entry looks for it in another one, and no entry ever has it.
\<close>

theorem rewritten_name_not_recorded:
  assumes "e \<in> set (request_entries p fmt2 tr lat i r w)" "rqRewritten r = []"
  shows "aeRewrittenPath e = []"
proof -
  have made: "aeRewrittenPath (makeAuditEntry i orq action res reason cid code) = []" for orq action res reason cid code
    by (auto simp: makeAuditEntry_def Let_def split: option.splits)
  have up: "e \<in> set (upstream_entries p fmt2 tr lat aux i action r1 r2 v) \<Longrightarrow> rqRewritten r1 = [] \<Longrightarrow> aeRewrittenPath e = []"
    for aux action r1 r2 v
    by (auto simp: upstream_entries_def entry_lists made Let_def split: prod.splits sum.splits if_splits)
  have checked: "e \<in> set (checked_entries p fmt2 tr lat aux i action r1 v) \<Longrightarrow> rqRewritten r1 = [] \<Longrightarrow> aeRewrittenPath e = []"
    for aux action r1 v
    by (auto simp: checked_entries_def dest: up split: prod.splits sum.splits option.splits)
  have "rqRewritten (rewrite_url i r) = []" using assms(2) by (simp add: rewrite_url_def split: prod.splits)
  with assms show ?thesis
    by (auto simp: request_entries_def made Let_def dest!: checked rewritten_kept split: prod.splits sum.splits if_splits)
qed

section \<open>Two entries for one request\<close>

lemma upstream_two:
  assumes "fst (serve_upstream p tr i action r2 w) = Relayed code b"
    "action \<notin> {ActionCreateContainer, ActionRemoveImage, ActionSystemInfo, ActionSystemVersion}" "DockerCommand i = []"
  shows "length (upstream_entries p fmt2 tr lat False i action r1 r2 w) = 2"
proof -
  obtain res n r' where res: "forward tr r2 = ((res, n), r')" by (metis surj_pair)
  obtain rs where f: "forward tr r2 = ((Inr rs, n), r')"
    using assms(1) res by (cases res) (simp_all add: serve_upstream_def Let_def)
  have "isAuxiliaryCall [] action [] uri = False" for uri
    using assms(2) by (simp add: isAuxiliaryCall_def is_ping_def)
  then show ?thesis
    using assms by (auto simp: upstream_entries_def serve_upstream_def f entry_lists info_unchanged_def Let_def split: sum.splits)
qed

text \<open>
  A request of a client without a docker command line that the daemon answers is entered twice,
  once by the postprocessing and once at the end of the handler (creations and removals of
  images, and the two calls for information, apart).
\<close>

theorem relayed_recorded_twice:
  assumes "fst (serve_request p tr dial i r w) = Relayed code b" "DockerCommand i = []"
    and "r' = (if IsPrivileged i then r else rewrite_url i r)"
    and "action = OverrideActionByCommand (DockerCommand i) (ClassifyAction (rqMethod r') (RequestURI r'))"
    and "action \<notin> {ActionCreateContainer, ActionRemoveImage, ActionSystemInfo, ActionSystemVersion}"
    and "\<not> is_ping (rqMethod r') (rqPath r')"
  shows "length (request_entries p fmt2 tr lat i r w) = 2"
proof -
  have aux: "\<not> isAuxiliaryCall (DockerCommand i) action (rqMethod r') (rqPath r')"
    using assms(2,5,6) by (simp add: isAuxiliaryCall_def)
  have hijack: "\<not> isHijackRequest r"
    using assms(1) by (auto simp: serve_request_def serve_hijack_def handleHijack_def Let_def split: if_splits prod.splits sum.splits)
  have denied: "\<not> command_denied p i action r'"
    using assms(1) hijack by (auto simp: serve_request_def Let_def assms(3,4) split: if_splits)
  then obtain r1 w1 where pre: "checkOwnershipPreRequest p i action r' w = (Inr r1, w1)"
    and served: "fst (serve_checked p tr i action r1 w1) = Relayed code b"
    using assms(1) hijack
    by (auto simp: serve_request_def Let_def assms(3,4) split: if_splits prod.splits sum.splits)
  obtain reply w2 where prune: "(if action = ActionPrune then serve_prune p i r1 w1 else (None, w1)) = (reply, w2)"
    by (metis surj_pair)
  obtain r2 where "reply = None" "preprocessRequest i action r1 = Inr r2"
    "fst (serve_upstream p tr i action r2 w2) = Relayed code b"
    using served by (auto simp: serve_checked_def prune split: option.splits sum.splits)
  then have "length (checked_entries p fmt2 tr lat False i action r1 w1) = 2"
    using upstream_two [OF _ assms(5,2)] by (simp add: checked_entries_def prune)
  then show ?thesis
    using hijack denied pre aux
    unfolding request_entries_def Let_def assms(3) [symmetric] assms(4) [symmetric] by simp
qed

definition demo_list_trail :: "AuditEntry list" where
  "demo_list_trail =
     request_entries (demo_proxy (\<lambda>_ _ _ _. None)) (\<lambda>_. [])
       (\<lambda>_. Answer \<lparr>rsStatus = 200, rsBody = Doc (JArr []), rsLines = []\<rparr>) 5 (demo_caller 1000 ''alice'')
       (demo_request ''GET'' ''/containers/json'' no_body) (demo_world (emptyDB (\<lambda>_ _. False)))"

lemma demo_list_trail_length: "length demo_list_trail = 2"
  by code_simp


end
