(* ===== verification/ReplyText.thy ===== *)
theory ReplyText
  imports Upstream QuotaLog
begin

text \<open>
  The answers the proxy itself gives, as bytes: \<^verbatim>\<open>writeDockerError\<close> and
  \<^verbatim>\<open>writeDockerNotFound\<close> (\<^verbatim>\<open>proxy.go\<close>) put a message into a JSON object
  with the verb \<^verbatim>\<open>%q\<close>, which quotes it as a Go string, and the messages of
  violations come from the \<^verbatim>\<open>Error\<close> methods in \<^verbatim>\<open>storage.go\<close>,
  \<^verbatim>\<open>volume.go\<close> and \<^verbatim>\<open>quota.go\<close>.

  Which characters outside ASCII are printable is a table of Go's package
  \<^verbatim>\<open>unicode\<close>, here a parameter.
\<close>

section \<open>Go's quoting\<close>

definition hex_byte :: "nat \<Rightarrow> string" where
  "hex_byte n = [hex_digit (n div 16), hex_digit (n mod 16)]"

definition go_escape :: "char \<Rightarrow> string" where
  "go_escape c =
     (let n = (of_char c :: nat) in
      if c = CHR 0x22 \<or> c = CHR 0x5C then [CHR 0x5C, c]
      else if 0x20 \<le> n \<and> n < 0x7F then [c]
      else case map_of [(7, CHR ''a''), (8, CHR ''b''), (12, CHR ''f''), (10, CHR ''n''), (13, CHR ''r''),
                        (9, CHR ''t''), (11, CHR ''v'')] n of
        Some e \<Rightarrow> [CHR 0x5C, e]
      | None \<Rightarrow> CHR 0x5C # CHR ''x'' # hex_byte n)"

definition low_bits :: "nat \<Rightarrow> char \<Rightarrow> nat" where
  "low_bits m c = of_char c mod m"

fun rune_value :: "string \<Rightarrow> nat" where
  "rune_value [a, b] = low_bits 32 a * 64 + low_bits 64 b"
| "rune_value [a, b, c] = (low_bits 16 a * 64 + low_bits 64 b) * 64 + low_bits 64 c"
| "rune_value [a, b, c, d] = ((low_bits 8 a * 64 + low_bits 64 b) * 64 + low_bits 64 c) * 64 + low_bits 64 d"
| "rune_value _ = 0"

definition rune_escape :: "nat \<Rightarrow> string" where
  "rune_escape r =
     (if r < 0x10000 then CHR 0x5C # CHR ''u'' # hex_byte (r div 256) @ hex_byte (r mod 256)
      else CHR 0x5C # CHR ''U'' # hex_byte 0 @ hex_byte (r div 0x10000) @ hex_byte (r div 256 mod 256) @ hex_byte (r mod 256))"

function go_quote_chars :: "(string \<Rightarrow> bool) \<Rightarrow> string \<Rightarrow> string" where
  "go_quote_chars prints [] = []"
| "go_quote_chars prints (c # cs) =
     (if (of_char c :: nat) < 0x80 then go_escape c @ go_quote_chars prints cs
      else (case rune_len (c # cs) of
              0 \<Rightarrow> CHR 0x5C # CHR ''x'' # hex_byte (of_char c) @ go_quote_chars prints cs
            | Suc n \<Rightarrow>
                (if prints (c # take n cs) then c # take n cs @ go_quote_chars prints (drop n cs)
                 else rune_escape (rune_value (c # take n cs)) @ go_quote_chars prints (drop n cs))))"
  by pat_completeness auto

termination go_quote_chars
  by (relation "measure (\<lambda>(_, s). length s)") auto

definition message_body :: "(string \<Rightarrow> bool) \<Rightarrow> string \<Rightarrow> string" where
  "message_body prints msg =
     CHR ''{'' # CHR 0x22 # ''message'' @ CHR 0x22 # CHR '':'' # CHR 0x22 # go_quote_chars prints msg @ [CHR 0x22, CHR ''}'']"

section \<open>Answers\<close>

record wire =
  wiStatus :: int
  wiType :: string
  wiBody :: string

definition writeDockerError :: "(string \<Rightarrow> bool) \<Rightarrow> int \<Rightarrow> string \<Rightarrow> wire" where
  "writeDockerError prints statusCode msg =
     \<lparr>wiStatus = statusCode, wiType = ''application/json'', wiBody = message_body prints msg\<rparr>"

definition quoted :: "string \<Rightarrow> string" where
  "quoted s = CHR 0x27 # s @ [CHR 0x27]"

definition bind_mount_text :: "BindMountViolation \<Rightarrow> string" where
  "bind_mount_text v =
     ''bind mount '' @ quoted (bmSource v) @ '' is not allowed: only paths under ['' @
     join_str '' '' (AllowedRoots v) @ ''] are permitted for non-root users''"

definition tmpfs_text :: "TmpfsViolation \<Rightarrow> string" where
  "tmpfs_text v =
     ''tmpfs size '' @ itoa (RequestedMB v) @ ''MB exceeds limit '' @ itoa (LimitMB v) @ ''MB''"

definition device_text :: "string \<Rightarrow> string" where
  "device_text dev = ''device '' @ quoted dev @ '' is not allowed: not in the permitted device list''"

definition volumes_from_text :: "string \<Rightarrow> string" where
  "volumes_from_text ref = ''volumes-from container '' @ quoted ref @ '' is not owned by you''"

definition named_volume_text :: "string \<Rightarrow> string" where
  "named_volume_text name = ''get '' @ name @ '': no such volume''"

text \<open>The message of a reply; \<open>qr\<close> is the result of the quota check behind it.\<close>

fun reply_message :: "QuotaCheckResult \<Rightarrow> reply \<Rightarrow> string option" where
  "reply_message qr (NotFound kind name) = Some (writeDockerNotFound kind name)"
| "reply_message qr (ErrorMsg _ msg) = Some msg"
| "reply_message qr (QuotaDenied _) = Some (quota_error_text qr)"
| "reply_message qr (BindDenied v) = Some (bind_mount_text v)"
| "reply_message qr (TmpfsDenied v) = Some (tmpfs_text v)"
| "reply_message qr (DeviceDenied dev) = Some (device_text dev)"
| "reply_message qr (VolumesFromDenied ref) = Some (volumes_from_text ref)"
| "reply_message qr (VolumeDenied name) = Some (named_volume_text name)"
| "reply_message qr _ = None"

definition reply_wire :: "(string \<Rightarrow> bool) \<Rightarrow> QuotaCheckResult \<Rightarrow> reply \<Rightarrow> wire option" where
  "reply_wire prints qr rp =
     (case (reply_status rp, reply_message qr rp) of
        (Some code, Some msg) \<Rightarrow> Some (writeDockerError prints code msg)
      | _ \<Rightarrow> None)"

section \<open>What a client reads\<close>

text \<open>The characters whose Go escapes are JSON escapes too.\<close>

definition safe_char :: "char \<Rightarrow> bool" where
  "safe_char c \<longleftrightarrow>
     (let n = (of_char c :: nat) in (0x20 \<le> n \<and> n < 0x7F) \<or> n \<in> {8, 9, 10, 12, 13})"

definition escaped_alike :: "char \<Rightarrow> bool" where
  "escaped_alike c \<longleftrightarrow>
     (case go_escape c of [b, e] \<Rightarrow> b = CHR 0x5C \<and> e \<noteq> CHR ''u'' \<and> simple_escape e = Some c | _ \<Rightarrow> False)"

lemma escaped_alike_chars:
  "list_all escaped_alike [CHR 0x22, CHR 0x5C, CHR 0x08, CHR 0x09, CHR 0x0A, CHR 0x0C, CHR 0x0D]"
  by code_simp

lemma parse_escaped_alike:
  assumes "escaped_alike c"
  shows "parse_chars (go_escape c @ r) = map_option (\<lambda>(v, q). (c # v, q)) (parse_chars r)"
proof -
  obtain e where "go_escape c = [CHR 0x5C, e]" "e \<noteq> CHR ''u''" "simple_escape e = Some c"
    using assms by (auto simp: escaped_alike_def split: list.splits)
  then show ?thesis by simp
qed

lemma parse_go_escape:
  assumes "safe_char c"
  shows "parse_chars (go_escape c @ r) = map_option (\<lambda>(v, q). (c # v, q)) (parse_chars r)"
proof -
  consider "c = CHR 0x22 \<or> c = CHR 0x5C" | "(of_char c :: nat) \<in> {8, 9, 10, 12, 13}"
    | "c \<noteq> CHR 0x22" "c \<noteq> CHR 0x5C" "0x20 \<le> (of_char c :: nat)" "(of_char c :: nat) < 0x7F"
    using assms unfolding safe_char_def Let_def by blast
  then show ?thesis
  proof cases
    case 1
    then show ?thesis using escaped_alike_chars by (intro parse_escaped_alike) auto
  next
    case 2
    then have "c \<in> {char_of (8 :: nat), char_of (9 :: nat), char_of (10 :: nat), char_of (12 :: nat), char_of (13 :: nat)}"
      using char_of_eq [symmetric, of c] by blast
    moreover have "char_of (8 :: nat) = CHR 0x08" "char_of (9 :: nat) = CHR 0x09" "char_of (10 :: nat) = CHR 0x0A"
      "char_of (12 :: nat) = CHR 0x0C" "char_of (13 :: nat) = CHR 0x0D"
      by (rule char_of_eq, simp)+
    ultimately have "c \<in> set [CHR 0x08, CHR 0x09, CHR 0x0A, CHR 0x0C, CHR 0x0D]" by simp
    then have "escaped_alike c" using escaped_alike_chars by (simp only: list_all_iff set_simps) blast
    then show ?thesis by (rule parse_escaped_alike)
  next
    case 3
    then have "go_escape c = [c]" by (simp add: go_escape_def Let_def)
    then show ?thesis using 3 rune_len_ascii [of c] by simp
  qed
qed

lemma parse_go_quote:
  "list_all safe_char s \<Longrightarrow> parse_chars (go_quote_chars prints s @ CHR 0x22 # r) = Some (s, r)"
proof (induction s)
  case (Cons c cs)
  then have "(of_char c :: nat) < 0x80" by (auto simp: safe_char_def Let_def)
  then show ?case using Cons by (simp add: parse_go_escape)
qed simp

lemma message_body_parses:
  assumes "list_all safe_char msg"
  shows "parse_json (message_body prints msg) = Doc (JObj [(''message'', JStr msg)])"
proof -
  define t where "t = CHR 0x22 # go_quote_chars prints msg @ [CHR 0x22, CHR ''}'']"
  have body: "message_body prints msg = CHR ''{'' # CHR 0x22 # ''message'' @ CHR 0x22 # CHR '':'' # t"
    by (simp add: message_body_def t_def)
  have val: "parse_val (Suc k) t = Some (JStr msg, ''}'')" for k
    using parse_go_quote [OF assms, of prints "''}''"] by (simp add: t_def json_ws_def)
  have "parse_members (Suc (Suc k)) (CHR 0x22 # ''message'' @ CHR 0x22 # CHR '':'' # t) = Some ([(''message'', JStr msg)], [])" for k
    by (subst parse_members.simps) (simp add: val json_ws_def rune_len_ascii del: parse_val.simps)
  then have "parse_val (Suc (Suc (Suc k))) (message_body prints msg) = Some (JObj [(''message'', JStr msg)], [])" for k
    unfolding body by (subst parse_val.simps) (simp add: json_ws_def)
  moreover obtain k where "length (message_body prints msg) = Suc (Suc (Suc k))"
    by (simp add: body)
  ultimately show ?thesis by (simp add: parse_json_def)
qed

text \<open>
  A refusal can be read: when its message consists of printable ASCII characters and the
  usual white space, the body is a JSON object whose only member is exactly the message, and the
  status is the one of the refusal.
\<close>

theorem refusal_readable:
  assumes "reply_message qr rp = Some msg" "reply_status rp = Some code" "list_all safe_char msg"
  shows "\<exists>a. reply_wire prints qr rp = Some a \<and> wiStatus a = code \<and>
    parse_json (wiBody a) = Doc (JObj [(''message'', JStr msg)])"
  using assms by (simp add: reply_wire_def writeDockerError_def message_body_parses)

theorem refusal_readable_witness:
  "\<exists>a. reply_wire (\<lambda>_. True) (empty_result \<lparr>CPUCores = 0, MemMB = 0, StorageGB = 0, MaxContainers = 0,
        TmpfsSizeMB = 0, AllowedDevices = []\<rparr>) (DeviceDenied ''/dev/mem'') = Some a \<and> wiStatus a = 403 \<and>
     parse_json (wiBody a) = Doc (JObj [(''message'', JStr (device_text ''/dev/mem''))])"
proof -
  have "list_all safe_char (device_text ''/dev/mem'')" by code_simp
  then show ?thesis by (intro refusal_readable) simp_all
qed

text \<open>Other control characters are quoted in a way that is no JSON.\<close>

lemma control_character_unreadable:
  "parse_json (message_body prints (''No such image: a'' @ [CHR 0x07])) =
   Raw (message_body prints (''No such image: a'' @ [CHR 0x07]))"
  by code_simp

end
