(* ===== verification/Platform.thy ===== *)
theory Platform
  imports PreRequest Peers
begin

text \<open>
  The manager of the users' bridges as the proxy sees it (\<^verbatim>\<open>BridgeManager\<close>): on Linux
  (\<^verbatim>\<open>internal/isolation/netbridge.go\<close>, with the mode in which it is switched off), and on
  other systems (\<^verbatim>\<open>netbridge_stub.go\<close>), where it supports nothing.

  What the creation of a container needs of a manager is the locale \<open>bridge_manager\<close>: a
  bridge that cannot be ensured leaves the firewall as it was.  It is interpreted on the three
  managers.
\<close>

section \<open>Linux\<close>

text \<open>No socket means no client, and then nothing is done.\<close>

definition NewBridgeManager :: "daemon \<Rightarrow> string \<Rightarrow> daemon option" where
  "NewBridgeManager d upstreamSock = (if upstreamSock = [] then None else Some d)"

definition managed_EnsureUserBridge ::
  "daemon option \<Rightarrow> int \<Rightarrow> string \<Rightarrow> bridge_state \<Rightarrow> (net_error, string) result \<times> bridge_state" where
  "managed_EnsureUserBridge m uid username st =
     (case m of None \<Rightarrow> (Inr [], st) | Some d \<Rightarrow> EnsureUserBridge d uid username st)"

definition GetUserBridgeID :: "daemon \<Rightarrow> int \<Rightarrow> string" where
  "GetUserBridgeID d uid = (case findNetworkByName d (UserBridgeName uid) of Inl _ \<Rightarrow> [] | Inr i \<Rightarrow> i)"

definition GetBridgeInterface :: "daemon \<Rightarrow> string \<Rightarrow> (net_error, string) result" where
  "GetBridgeInterface d networkID = getBridgeInterface d networkID"

definition ConnectContainerToPeerNetwork :: "string \<Rightarrow> string \<Rightarrow> string \<times> string \<times> body" where
  "ConnectContainerToPeerNetwork containerID peerNetworkID = connect_request peerNetworkID containerID"

definition DisconnectContainerFromPeerNetwork :: "string \<Rightarrow> string \<Rightarrow> string \<times> string \<times> body" where
  "DisconnectContainerFromPeerNetwork containerID peerNetworkID = disconnect_request peerNetworkID containerID"

section \<open>Other systems\<close>

definition stub_UserBridgeName :: "int \<Rightarrow> string" where
  "stub_UserBridgeName uid = ''user-'' @ itoa uid @ ''-bridge''"

definition stub_PeerNetworkName :: "int \<Rightarrow> int \<Rightarrow> string" where
  "stub_PeerNetworkName uidA uidB =
     (let (a, b) = (if uidA > uidB then (uidB, uidA) else (uidA, uidB)) in ''peer-'' @ itoa a @ ''-'' @ itoa b)"

definition stub_EnsureUserBridge :: "int \<Rightarrow> string \<Rightarrow> bridge_state \<Rightarrow> (string, string) result \<times> bridge_state" where
  "stub_EnsureUserBridge uid username st = (Inl ''not supported on this platform'', st)"

definition stub_DeleteUserBridge :: "int \<Rightarrow> string option" where
  "stub_DeleteUserBridge uid = None"

definition stub_GetUserBridgeID :: "int \<Rightarrow> string" where
  "stub_GetUserBridgeID uid = []"

definition stub_GetBridgeInterface :: "string \<Rightarrow> (string, string) result" where
  "stub_GetBridgeInterface networkID = Inl ''not supported''"

definition stub_CreatePeerNetwork :: "int \<Rightarrow> int \<Rightarrow> (string, string) result" where
  "stub_CreatePeerNetwork uidA uidB = Inl ''not supported''"

definition stub_CreateContainerPeerNetwork :: "int \<Rightarrow> int \<Rightarrow> string \<Rightarrow> string \<Rightarrow> (string, string) result" where
  "stub_CreateContainerPeerNetwork uidA uidB ca cb = Inl ''not supported''"

definition stub_PeerNetworkChange :: "string \<Rightarrow> string \<Rightarrow> string option" where
  "stub_PeerNetworkChange containerID networkID = None"

definition stub_GetContainersByOwner :: "int \<Rightarrow> (string, string list) result" where
  "stub_GetContainersByOwner uid = Inr []"

definition stub_ExtractPortMappings :: "body \<Rightarrow> PortMapping list" where
  "stub_ExtractPortMappings b = []"

definition stub_InjectUserNetwork :: "body \<Rightarrow> int \<Rightarrow> string list \<Rightarrow> string list \<Rightarrow> (go_panic, body) result" where
  "stub_InjectUserNetwork b uid peers nets = Inr b"

definition stub_Listen :: "docker_event list \<times> bool" where
  "stub_Listen = ([], True)"

section \<open>Creation of a container with any manager\<close>

definition create_network_by ::
  "(int \<Rightarrow> string \<Rightarrow> bridge_state \<Rightarrow> ('e, string) result \<times> bridge_state) \<Rightarrow>
   (body \<Rightarrow> int \<Rightarrow> string list \<Rightarrow> string list \<Rightarrow> (go_panic, body) result) \<Rightarrow>
   CallerIdentity \<Rightarrow> request \<Rightarrow> body \<Rightarrow> request handler" where
  "create_network_by ensure inject i r b w =
     (case ensure (RealUID i) (RealUsername i) (wBridge w) of
        (Inl _, st) \<Rightarrow> (Inl (ErrorMsg 500 ''failed to initialize user network''), w \<lparr>wBridge := st\<rparr>)
      | (Inr networkID, st) \<Rightarrow>
          (let db = (if networkID \<noteq> []
                     then snd (SetManagedNetworkOwner networkID (UserBridgeName (RealUID i)) (RealUID i)
                                 (RealUsername i) (wDB w))
                     else wDB w);
               w' = w \<lparr>wBridge := st, wDB := db\<rparr>
           in case inject b (RealUID i) (peer_network_ids db (RealUID i)) (userRequestedNets i b) of
                Inl e \<Rightarrow> (Inl (Aborted e), w')
              | Inr b' \<Rightarrow> (Inr (r \<lparr>rqBody := b'\<rparr>), w')))"

lemma create_network_linux:
  "create_network p i r b w = create_network_by (EnsureUserBridge (pxDaemon p)) InjectUserNetwork i r b w"
  by (simp add: create_network_def create_network_by_def)

locale bridge_manager =
  fixes ensure :: "int \<Rightarrow> string \<Rightarrow> bridge_state \<Rightarrow> ('e, string) result \<times> bridge_state"
  assumes failure_changes_nothing: "ensure uid username st = (Inl e, st') \<Longrightarrow> st' = st"
begin

lemma failure_refused:
  assumes "ensure (RealUID i) (RealUsername i) (wBridge w) = (Inl e, st)"
  shows "create_network_by ensure inject i r b w = (Inl (ErrorMsg 500 ''failed to initialize user network''), w)"
  using assms failure_changes_nothing [OF assms] by (simp add: create_network_by_def)

end

interpretation linux: bridge_manager "EnsureUserBridge d" for d
  by unfold_locales (auto simp: EnsureUserBridge_def split: option.splits if_splits sum.splits)

interpretation managed: bridge_manager "managed_EnsureUserBridge m" for m
  by unfold_locales (auto simp: managed_EnsureUserBridge_def dest: linux.failure_changes_nothing split: option.splits)

interpretation stub: bridge_manager stub_EnsureUserBridge
  by unfold_locales (simp add: stub_EnsureUserBridge_def)

text \<open>
  A daemon that does not answer stops the creation of containers and leaves everything as it was;
  on a system without bridges no unprivileged user gets a container at all, whatever is asked.
\<close>

theorem unreachable_daemon_refuses:
  assumes "found_network d (UserBridgeName (RealUID i)) = None"
    "createNetwork d (bridge_request (RealUID i) (RealUsername i)) = Inl e" "pxDaemon p = d"
  shows "create_network p i r b w = (Inl (ErrorMsg 500 ''failed to initialize user network''), w)"
proof -
  have "EnsureUserBridge d (RealUID i) (RealUsername i) (wBridge w) = (Inl e, wBridge w)"
    using assms by (simp add: EnsureUserBridge_def)
  then show ?thesis unfolding create_network_linux assms(3) by (rule linux.failure_refused)
qed

theorem other_systems_refuse:
  "create_network_by stub_EnsureUserBridge stub_InjectUserNetwork i r b w =
    (Inl (ErrorMsg 500 ''failed to initialize user network''), w)"
  by (rule stub.failure_refused) (simp add: stub_EnsureUserBridge_def)

lemma stub_names:
  "stub_UserBridgeName uid = UserBridgeName uid" "stub_PeerNetworkName a b = PeerNetworkName a b"
  by (simp_all add: stub_UserBridgeName_def UserBridgeName_def stub_PeerNetworkName_def PeerNetworkName_def)

end
